(* ===== verification/Prelude.thy ===== *)
theory Prelude
  imports Main "HOL-Library.Word"
begin

text \<open>
  Shared vocabulary of the development. Rust's \<open>Result\<close> is a sum with the error on the
  left; \<open>?\<close> is \<open>and_then\<close>; \<open>iter().map(f).collect::<Result<Vec<_>, _>>()\<close> is
  \<open>collect_results\<close>; \<open>u64\<close> is a 64-bit word and \<open>usize\<close> a natural number (the
  sources only compare lengths with it). The collection \<open>result_simps\<close> holds the facts
  that take a successful or failed computation apart.
\<close>

named_theorems result_simps
named_theorems wf_defs

type_synonym u64 = "64 word"
type_synonym u16 = "16 word"
type_synonym usize = nat
type_synonym ('a, 'e) result = "'e + 'a"

abbreviation Ok :: "'a \<Rightarrow> ('a, 'e) result" where
  "Ok \<equiv> Inr"

abbreviation Err :: "'e \<Rightarrow> ('a, 'e) result" where
  "Err \<equiv> Inl"

definition usize_max :: usize where
  "usize_max = 2 ^ 64 - 1"

fun and_then :: "('a, 'e) result \<Rightarrow> ('a \<Rightarrow> ('b, 'e) result) \<Rightarrow> ('b, 'e) result" where
  "and_then (Ok x) f = f x"
| "and_then (Err e) f = Err e"

fun map_err :: "('e \<Rightarrow> 'f) \<Rightarrow> ('a, 'e) result \<Rightarrow> ('a, 'f) result" where
  "map_err g (Ok x) = Ok x"
| "map_err g (Err e) = Err (g e)"

fun ok_or :: "'e \<Rightarrow> 'a option \<Rightarrow> ('a, 'e) result" where
  "ok_or e None = Err e"
| "ok_or e (Some x) = Ok x"

fun transpose_option :: "('a, 'e) result option \<Rightarrow> ('a option, 'e) result" where
  "transpose_option None = Ok None"
| "transpose_option (Some (Ok x)) = Ok (Some x)"
| "transpose_option (Some (Err e)) = Err e"

fun collect_results :: "('a \<Rightarrow> ('b, 'e) result) \<Rightarrow> 'a list \<Rightarrow> ('b list, 'e) result" where
  "collect_results f [] = Ok []"
| "collect_results f (x # xs) =
     and_then (f x) (\<lambda>y. and_then (collect_results f xs) (\<lambda>ys. Ok (y # ys)))"

text \<open>A \<open>HashSet\<close> filled in order: the first element that is already present, if any.\<close>

fun first_duplicate_from :: "'a list \<Rightarrow> 'a list \<Rightarrow> 'a option" where
  "first_duplicate_from seen [] = None"
| "first_duplicate_from seen (x # xs) =
     (if x \<in> set seen then Some x else first_duplicate_from (x # seen) xs)"

definition first_duplicate :: "'a list \<Rightarrow> 'a option" where
  "first_duplicate xs = first_duplicate_from [] xs"

lemma and_then_Ok_iff [result_simps]:
  "and_then r f = Ok y \<longleftrightarrow> (\<exists>x. r = Ok x \<and> f x = Ok y)"
  by (cases r) auto

lemma and_then_Err_iff [result_simps]:
  "and_then r f = Err e \<longleftrightarrow> r = Err e \<or> (\<exists>x. r = Ok x \<and> f x = Err e)"
  by (cases r) auto

lemma map_err_Ok_iff [result_simps]: "map_err g r = Ok x \<longleftrightarrow> r = Ok x"
  by (cases r) auto

lemma map_err_Err_iff [result_simps]: "map_err g r = Err e \<longleftrightarrow> (\<exists>e'. r = Err e' \<and> e = g e')"
  by (cases r) auto

lemma ok_or_Ok_iff [result_simps]: "ok_or e r = Ok x \<longleftrightarrow> r = Some x"
  by (cases r) auto

lemma ok_or_Err_iff [result_simps]: "ok_or e r = Err e' \<longleftrightarrow> r = None \<and> e' = e"
  by (cases r) auto

lemma transpose_option_Ok_iff [result_simps]:
  "transpose_option r = Ok y \<longleftrightarrow>
     (r = None \<and> y = None) \<or> (\<exists>x. r = Some (Ok x) \<and> y = Some x)"
  by (cases r rule: transpose_option.cases) auto

lemma collect_results_Ok_length: "collect_results f xs = Ok ys \<Longrightarrow> length ys = length xs"
  by (induction xs arbitrary: ys) (auto simp: result_simps)

lemma collect_results_Ok_iff:
  "collect_results f xs = Ok ys \<longleftrightarrow> list_all2 (\<lambda>x y. f x = Ok y) xs ys"
proof (induction xs arbitrary: ys)
  case Nil
  then show ?case by auto
next
  case (Cons x xs)
  then show ?case by (auto simp: result_simps list_all2_Cons1)
qed

lemma collect_results_all_Ok:
  "(\<And>x. x \<in> set xs \<Longrightarrow> f x = Ok (g x)) \<Longrightarrow> collect_results f xs = Ok (map g xs)"
  by (induction xs) auto

lemma collect_results_Err_iff:
  "(\<exists>e. collect_results f xs = Err e) \<longleftrightarrow> (\<exists>x \<in> set xs. \<exists>e. f x = Err e)"
proof (induction xs)
  case (Cons x xs)
  then show ?case by (cases "f x"; cases "collect_results f xs") auto
qed simp

lemma collect_results_source:
  assumes "collect_results f xs = Ok ys" and "y \<in> set ys"
  shows "\<exists>x \<in> set xs. f x = Ok y"
  using assms by (induction xs arbitrary: ys) (auto simp: result_simps)

lemma collect_results_ErrD: "collect_results f xs = Err e \<Longrightarrow> \<exists>x \<in> set xs. f x = Err e"
  by (induction xs) (auto simp: result_simps)

lemma first_duplicate_from_None_iff:
  "first_duplicate_from seen xs = None \<longleftrightarrow> distinct xs \<and> set seen \<inter> set xs = {}"
  by (induction xs arbitrary: seen) auto

lemma first_duplicate_None_iff [simp]: "first_duplicate xs = None \<longleftrightarrow> distinct xs"
  by (simp add: first_duplicate_def first_duplicate_from_None_iff)

lemma first_duplicate_from_Some:
  "first_duplicate_from seen xs = Some x \<Longrightarrow>
     \<exists>ys zs. xs = ys @ x # zs \<and> x \<in> set seen \<union> set ys \<and> distinct ys \<and> set seen \<inter> set ys = {}"
proof (induction xs arbitrary: seen)
  case (Cons a xs)
  show ?case
  proof (cases "a \<in> set seen")
    case True
    with Cons.prems have "a # xs = [] @ x # xs \<and> x \<in> set seen" by simp
    then show ?thesis by fastforce
  next
    case False
    with Cons obtain ys zs where "xs = ys @ x # zs" "x \<in> set (a # seen) \<union> set ys"
      "distinct ys" "set (a # seen) \<inter> set ys = {}"
      by fastforce
    with False have "a # xs = (a # ys) @ x # zs \<and> x \<in> set seen \<union> set (a # ys)
        \<and> distinct (a # ys) \<and> set seen \<inter> set (a # ys) = {}"
      by auto
    then show ?thesis by blast
  qed
qed simp

lemma first_duplicate_Some:
  "first_duplicate xs = Some x \<Longrightarrow> \<exists>ys zs. xs = ys @ x # zs \<and> x \<in> set ys \<and> distinct ys"
  unfolding first_duplicate_def by (drule first_duplicate_from_Some) simp

text \<open>The last \<open>n\<close> elements of a list, as a bounded window keeps them.\<close>

definition last_n :: "nat \<Rightarrow> 'a list \<Rightarrow> 'a list" where
  "last_n n xs = drop (length xs - n) xs"

lemma length_last_n [simp]: "length (last_n n xs) = min n (length xs)"
  by (simp add: last_n_def)

lemma last_n_0 [simp]: "last_n 0 xs = []"
  by (simp add: last_n_def)

lemma last_n_all [simp]: "length xs \<le> n \<Longrightarrow> last_n n xs = xs"
  by (simp add: last_n_def)

lemma last_n_snoc: "0 < n \<Longrightarrow> last_n n (last_n n xs @ [x]) = last_n n (xs @ [x])"
  by (cases "length xs \<le> n") (auto simp: last_n_def Suc_diff_le)

end
