(* ===== verification/Ordered_Map.thy ===== *)
theory Ordered_Map
  imports Prelude
begin

text \<open>
  The standard library's \<open>BTreeMap\<close> and \<open>BTreeSet\<close>: finite maps whose iteration is in
  ascending key order. A map is a list of entries with strictly increasing keys, and the
  ordering is part of the type, as it is of the Rust type. The interface the components use
  is the locale \<open>ordered_map\<close>; the interpretation \<open>bt\<close> discharges its laws.
\<close>

section \<open>The interface of an ordered map\<close>

locale ordered_map =
  fixes mempty :: "'m"
    and mget :: "'m \<Rightarrow> 'k::linorder \<Rightarrow> 'v option"
    and minsert :: "'k \<Rightarrow> 'v \<Rightarrow> 'm \<Rightarrow> 'm"
    and mremove :: "'k \<Rightarrow> 'm \<Rightarrow> 'm"
    and mentries :: "'m \<Rightarrow> ('k \<times> 'v) list"
  assumes get_empty: "mget mempty k = None"
    and get_insert: "mget (minsert k v m) j = (if j = k then Some v else mget m j)"
    and get_remove: "mget (mremove k m) j = (if j = k then None else mget m j)"
    and entries_ascending: "sorted_wrt (<) (map fst (mentries m))"
    and entries_get: "(k, v) \<in> set (mentries m) \<longleftrightarrow> mget m k = Some v"
begin

lemma keys_distinct: "distinct (map fst (mentries m))"
  using entries_ascending [of m] strict_sorted_iff by blast

lemma keys_eq_dom: "set (map fst (mentries m)) = {k. mget m k \<noteq> None}"
proof (rule set_eqI)
  fix k
  have "k \<in> set (map fst (mentries m)) \<longleftrightarrow> (\<exists>v. (k, v) \<in> set (mentries m))"
    by force
  then show "k \<in> set (map fst (mentries m)) \<longleftrightarrow> k \<in> {k. mget m k \<noteq> None}"
    by (simp add: entries_get)
qed

lemma finite_dom: "finite {k. mget m k \<noteq> None}"
  unfolding keys_eq_dom [symmetric] by simp

lemma keys_determined: "map fst (mentries m) = sorted_list_of_set {k. mget m k \<noteq> None}"
  using entries_ascending [of m] keys_eq_dom [of m]
  by (metis finite_dom sorted_list_of_set.idem_if_sorted_distinct strict_sorted_iff)

lemma get_map_of: "mget m k = map_of (mentries m) k"
proof (cases "mget m k")
  case None
  then have "k \<notin> fst ` set (mentries m)"
    using keys_eq_dom [of m] by auto
  then have "map_of (mentries m) k = None" by (simp add: map_of_eq_None_iff)
  with None show ?thesis by simp
next
  case (Some v)
  then have "(k, v) \<in> set (mentries m)" by (simp add: entries_get)
  then show ?thesis using Some keys_distinct [of m] by simp
qed

text \<open>Two maps with the same bindings iterate over the same entries in the same order.\<close>

lemma entries_by_key: "mentries m = map (\<lambda>k. (k, the (mget m k))) (map fst (mentries m))"
proof -
  have "map (\<lambda>p. (fst p, the (mget m (fst p)))) (mentries m) = mentries m"
  proof (rule map_idI)
    fix p assume "p \<in> set (mentries m)"
    then have "mget m (fst p) = Some (snd p)" by (simp add: entries_get [symmetric])
    then show "(fst p, the (mget m (fst p))) = p" by simp
  qed
  then show ?thesis by (simp add: comp_def)
qed

lemma entries_determined: "mget m = mget n \<Longrightarrow> mentries m = mentries n"
  by (metis entries_by_key keys_determined)

lemma length_entries: "length (mentries m) = card {k. mget m k \<noteq> None}"
  by (metis distinct_card keys_distinct keys_eq_dom length_map)

end

section \<open>Entries with strictly increasing keys\<close>

fun al_insert :: "'k::linorder \<Rightarrow> 'v \<Rightarrow> ('k \<times> 'v) list \<Rightarrow> ('k \<times> 'v) list" where
  "al_insert k v [] = [(k, v)]"
| "al_insert k v ((j, w) # rest) =
     (if j < k then (j, w) # al_insert k v rest
      else if j = k then (k, v) # rest
      else (k, v) # (j, w) # rest)"

definition al_remove :: "'k \<Rightarrow> ('k \<times> 'v) list \<Rightarrow> ('k \<times> 'v) list" where
  "al_remove k xs = filter (\<lambda>p. fst p \<noteq> k) xs"

lemma set_fst_al_insert: "fst ` set (al_insert k v xs) = insert k (fst ` set xs)"
  by (induction xs rule: al_insert.induct) auto

lemma al_insert_ascending:
  "sorted_wrt (<) (map fst xs) \<Longrightarrow> sorted_wrt (<) (map fst (al_insert k v xs))"
  by (induction k v xs rule: al_insert.induct)
    (auto simp: set_fst_al_insert simp del: set_map simp flip: image_set)

lemma map_of_al_insert: "map_of (al_insert k v xs) j = (if j = k then Some v else map_of xs j)"
  by (induction k v xs rule: al_insert.induct) auto

lemma al_remove_ascending:
  "sorted_wrt (<) (map fst xs) \<Longrightarrow> sorted_wrt (<) (map fst (al_remove k xs))"
  unfolding al_remove_def by (induction xs) auto

lemma map_of_al_remove: "map_of (al_remove k xs) j = (if j = k then None else map_of xs j)"
  unfolding al_remove_def by (induction xs) auto

text \<open>\<open>BTreeMap::retain\<close>: the closure visits the entries in order, may change the value and
  says whether to keep it.\<close>

fun al_retain :: "('k \<Rightarrow> 'v \<Rightarrow> bool \<times> 'v) \<Rightarrow> ('k \<times> 'v) list \<Rightarrow> ('k \<times> 'v) list" where
  "al_retain f [] = []"
| "al_retain f ((k, v) # rest) =
     (case f k v of (keep, v') \<Rightarrow> if keep then (k, v') # al_retain f rest else al_retain f rest)"

lemma al_retain_Cons:
  "al_retain f (p # rest) =
     (if fst (f (fst p) (snd p)) then [(fst p, snd (f (fst p) (snd p)))] else []) @ al_retain f rest"
  by (cases p) (auto split: prod.splits)

lemma set_fst_al_retain: "k \<in> fst ` set (al_retain f xs) \<Longrightarrow> k \<in> fst ` set xs"
  by (induction xs) (auto simp: al_retain_Cons split: if_splits)

lemma al_retain_ascending:
  "sorted_wrt (<) (map fst xs) \<Longrightarrow> sorted_wrt (<) (map fst (al_retain f xs))"
proof (induction xs)
  case (Cons p rest)
  have "fst p < k" if "k \<in> fst ` set (al_retain f rest)" for k
    using set_fst_al_retain [OF that] Cons.prems by auto
  with Cons show ?case by (auto simp: al_retain_Cons)
qed simp

lemma map_of_al_retain:
  "distinct (map fst xs) \<Longrightarrow> map_of (al_retain f xs) k =
     Option.bind (map_of xs k) (\<lambda>v. if fst (f k v) then Some (snd (f k v)) else None)"
proof (induction xs)
  case (Cons p rest)
  have "map_of (al_retain f rest) (fst p) = None"
    using Cons.prems set_fst_al_retain [of "fst p" f rest] by (auto simp: map_of_eq_None_iff)
  with Cons show ?case by (auto simp: al_retain_Cons)
qed simp

section \<open>BTreeMap\<close>

typedef (overloaded) ('k::linorder, 'v) btree_map =
  "{xs :: ('k \<times> 'v) list. sorted_wrt (<) (map fst xs)}"
  morphisms bt_entries BTreeMap
  by (rule exI [of _ "[]"]) simp

setup_lifting type_definition_btree_map

lift_definition bt_empty :: "('k::linorder, 'v) btree_map" is "[]"
  by simp

lift_definition bt_insert ::
  "'k::linorder \<Rightarrow> 'v \<Rightarrow> ('k, 'v) btree_map \<Rightarrow> ('k, 'v) btree_map" is al_insert
  by (rule al_insert_ascending)

lift_definition bt_remove ::
  "'k::linorder \<Rightarrow> ('k, 'v) btree_map \<Rightarrow> ('k, 'v) btree_map" is al_remove
  by (rule al_remove_ascending)

lift_definition bt_get :: "('k::linorder, 'v) btree_map \<Rightarrow> 'k \<Rightarrow> 'v option" is map_of .

lift_definition bt_retain ::
  "('k::linorder \<Rightarrow> 'v \<Rightarrow> bool \<times> 'v) \<Rightarrow> ('k, 'v) btree_map \<Rightarrow> ('k, 'v) btree_map" is al_retain
  by (rule al_retain_ascending)

definition bt_contains_key :: "('k::linorder, 'v) btree_map \<Rightarrow> 'k \<Rightarrow> bool" where
  "bt_contains_key m k \<longleftrightarrow> bt_get m k \<noteq> None"

definition bt_values :: "('k::linorder, 'v) btree_map \<Rightarrow> 'v list" where
  "bt_values m = map snd (bt_entries m)"

definition bt_keys :: "('k::linorder, 'v) btree_map \<Rightarrow> 'k list" where
  "bt_keys m = map fst (bt_entries m)"

definition bt_is_empty :: "('k::linorder, 'v) btree_map \<Rightarrow> bool" where
  "bt_is_empty m \<longleftrightarrow> bt_entries m = []"

interpretation bt: ordered_map bt_empty bt_get bt_insert bt_remove bt_entries
proof unfold_locales
  fix k j :: 'a and v :: 'b and m :: "('a, 'b) btree_map"
  show "bt_get bt_empty k = (None :: 'b option)" by transfer simp
  show "bt_get (bt_insert k v m) j = (if j = k then Some v else bt_get m j)"
    by transfer (rule map_of_al_insert)
  show "bt_get (bt_remove k m) j = (if j = k then None else bt_get m j)"
    by transfer (rule map_of_al_remove)
  show "sorted_wrt (<) (map fst (bt_entries m))" by transfer simp
  show "(k, v) \<in> set (bt_entries m) \<longleftrightarrow> bt_get m k = Some v"
    by transfer (use strict_sorted_iff in \<open>auto dest: map_of_SomeD\<close>)
qed

lemmas bt_laws [simp] = bt.get_empty bt.get_insert bt.get_remove

lemma bt_entries_empty [simp]: "bt_entries bt_empty = []"
  by transfer simp

lemma bt_entries_insert [simp]: "bt_entries (bt_insert k v m) = al_insert k v (bt_entries m)"
  by transfer simp

lemma bt_entries_remove [simp]: "bt_entries (bt_remove k m) = al_remove k (bt_entries m)"
  by transfer simp

lemma bt_entries_retain [simp]: "bt_entries (bt_retain f m) = al_retain f (bt_entries m)"
  by transfer simp

lemma bt_get_retain [simp]:
  "bt_get (bt_retain f m) k =
     Option.bind (bt_get m k) (\<lambda>v. if fst (f k v) then Some (snd (f k v)) else None)"
  by transfer (rule map_of_al_retain, simp add: strict_sorted_iff)

lemma bt_ext: "(\<And>k. bt_get m k = bt_get n k) \<Longrightarrow> m = n"
  using bt.entries_determined by (metis bt_entries_inject ext)

lemma bt_remove_absent: "bt_get m k = None \<Longrightarrow> bt_remove k m = m"
  by (rule bt_ext) simp

lemma bt_insert_same: "bt_get m k = Some v \<Longrightarrow> bt_insert k v m = m"
  by (rule bt_ext) simp

lemma set_bt_values: "set (bt_values m) = {v. \<exists>k. bt_get m k = Some v}"
  by (force simp: bt_values_def bt.entries_get [symmetric])

lemma set_bt_keys: "set (bt_keys m) = {k. bt_get m k \<noteq> None}"
  unfolding bt_keys_def by (rule bt.keys_eq_dom)

lemma bt_keys_ascending: "sorted_wrt (<) (bt_keys m)"
  unfolding bt_keys_def by (rule bt.entries_ascending)

lemma distinct_bt_keys [simp]: "distinct (bt_keys m)"
  unfolding bt_keys_def by (rule bt.keys_distinct)

lemma bt_is_empty_iff: "bt_is_empty m \<longleftrightarrow> (\<forall>k. bt_get m k = None)"
  unfolding bt_is_empty_def by (metis bt.entries_get bt.keys_eq_dom bt_entries_empty
      empty_iff last_in_set list.set(1) option.exhaust prod.exhaust)

instantiation btree_map :: (linorder, equal) equal
begin

definition equal_btree_map :: "('a, 'b) btree_map \<Rightarrow> ('a, 'b) btree_map \<Rightarrow> bool" where
  "equal_btree_map m n \<longleftrightarrow> bt_entries m = bt_entries n"

instance
  by standard (simp add: equal_btree_map_def bt_entries_inject)

end

section \<open>BTreeSet\<close>

type_synonym 'k btree_set = "('k, unit) btree_map"

definition bs_insert :: "'k::linorder \<Rightarrow> 'k btree_set \<Rightarrow> 'k btree_set" where
  "bs_insert k s = bt_insert k () s"

definition bs_contains :: "'k::linorder btree_set \<Rightarrow> 'k \<Rightarrow> bool" where
  "bs_contains s k \<longleftrightarrow> bt_contains_key s k"

definition bs_elems :: "'k::linorder btree_set \<Rightarrow> 'k list" where
  "bs_elems s = bt_keys s"

lemma bs_contains_insert [simp]: "bs_contains (bs_insert k s) j \<longleftrightarrow> j = k \<or> bs_contains s j"
  by (simp add: bs_contains_def bs_insert_def bt_contains_key_def)

lemma bs_contains_remove [simp]: "bs_contains (bt_remove k s) j \<longleftrightarrow> j \<noteq> k \<and> bs_contains s j"
  by (simp add: bs_contains_def bt_contains_key_def)

lemma bs_contains_empty [simp]: "\<not> bs_contains bt_empty j"
  by (simp add: bs_contains_def bt_contains_key_def)

lemma set_bs_elems [simp]: "set (bs_elems s) = {k. bs_contains s k}"
  by (simp add: bs_elems_def set_bt_keys bs_contains_def bt_contains_key_def)

lemma bs_elems_ascending: "sorted_wrt (<) (bs_elems s)"
  unfolding bs_elems_def by (rule bt_keys_ascending)

lemma distinct_bs_elems [simp]: "distinct (bs_elems s)"
  by (simp add: bs_elems_def)

lemma bs_is_empty_iff: "bt_is_empty s \<longleftrightarrow> (\<forall>k. \<not> bs_contains s k)"
  unfolding bt_is_empty_iff bs_contains_def bt_contains_key_def by (simp only: not_not)

end
