(* ===== verification/Values.thy ===== *)
theory Values
  imports Ordered_Map
begin

text \<open>
  The value objects of \<open>agentpulse-core\<close>: \<open>id.rs\<close> (the eleven identifier newtypes over
  a UUID), \<open>error.rs\<close> (domain errors) and \<open>value.rs\<close> (text, kinds, counters,
  timestamps, workspace references).

  A UUID is its 128 bits: its derived order is the numeric order of the big-endian bytes. A
  Rust string is the list of its Unicode scalar values. The text of an identifier inside an
  error is kept as the identifier it shows (\<open>Shown\<close>), because rendering is done by the
  \<open>uuid\<close> crate. A timestamp is its number of Unix nanoseconds in UTC.
\<close>

section \<open>Text\<close>

type_synonym ustring = "nat list"

definition utf :: "string \<Rightarrow> ustring" where
  "utf s = map of_char s"

definition is_whitespace :: "nat \<Rightarrow> bool" where
  "is_whitespace c \<longleftrightarrow> (9 \<le> c \<and> c \<le> 13) \<or> c = 32 \<or> c = 0x85 \<or> c = 0xA0 \<or> c = 0x1680
     \<or> (0x2000 \<le> c \<and> c \<le> 0x200A) \<or> c = 0x2028 \<or> c = 0x2029 \<or> c = 0x202F \<or> c = 0x205F
     \<or> c = 0x3000"

definition trim_text :: "ustring \<Rightarrow> ustring" where
  "trim_text t = rev (dropWhile is_whitespace (rev (dropWhile is_whitespace t)))"

lemma trim_text_empty_iff: "trim_text t = [] \<longleftrightarrow> (\<forall>c \<in> set t. is_whitespace c)"
proof
  assume "trim_text t = []"
  then have "\<forall>c \<in> set (dropWhile is_whitespace t). is_whitespace c"
    by (simp add: trim_text_def dropWhile_eq_Nil_conv)
  moreover have "\<forall>c \<in> set (takeWhile is_whitespace t). is_whitespace c"
    by (auto dest: set_takeWhileD)
  ultimately show "\<forall>c \<in> set t. is_whitespace c"
    by (metis UnE set_append takeWhile_dropWhile_id)
next
  assume "\<forall>c \<in> set t. is_whitespace c"
  then have "dropWhile is_whitespace t = []" by (simp add: dropWhile_eq_Nil_conv)
  then show "trim_text t = []" by (simp only: trim_text_def rev.simps dropWhile.simps)
qed

section \<open>Identifiers\<close>

type_synonym uuid = "128 word"

datatype id_text = Shown uuid | Plain ustring

datatype domain_error =
    BlankText string
  | InvalidKind string ustring
  | InvalidId string id_text
  | InvalidTimestamp int
  | ZeroValue string
  | InvalidTimeOrder string string
  | EmptyCollection string
  | DuplicateId string id_text
  | DuplicateValue string string
  | InvalidProgress u64 u64
  | InvalidChoiceSelection string
  | CorrelationMismatch string id_text id_text
  | InteractionTypeMismatch
  | InteractionExpired
  | ApprovalUnavailable
  | UnknownApprovalOption id_text
  | UnknownChoiceOption id_text

datatype provider_id = ProviderId (provider_uuid: uuid)

datatype channel_id = ChannelId (channel_uuid: uuid)

datatype session_id = SessionId (session_uuid: uuid)

datatype event_id = EventId (event_uuid: uuid)

datatype interaction_id = InteractionId (interaction_uuid: uuid)

datatype command_id = CommandId (command_uuid: uuid)

datatype plan_item_id = PlanItemId (plan_item_uuid: uuid)

datatype choice_option_id = ChoiceOptionId (choice_option_uuid: uuid)

datatype form_field_id = FormFieldId (form_field_uuid: uuid)

datatype approval_option_id = ApprovalOptionId (approval_option_uuid: uuid)

datatype tool_call_id = ToolCallId (tool_call_uuid: uuid)

text \<open>
  \<open>define_id!\<close>: one validated constructor and one parser, instantiated at the entity name
  and the newtype constructor. \<open>get_version_num\<close> and \<open>parse_str\<close> belong to the
  \<open>uuid\<close> crate and are arguments.
\<close>

definition try_from_uuid ::
  "(uuid \<Rightarrow> nat) \<Rightarrow> string \<Rightarrow> (uuid \<Rightarrow> 'i) \<Rightarrow> uuid \<Rightarrow> ('i, domain_error) result" where
  "try_from_uuid get_version_num entity mk value =
     (if get_version_num value = 7 then Ok (mk value)
      else Err (InvalidId entity (Shown value)))"

definition id_from_str ::
  "(uuid \<Rightarrow> nat) \<Rightarrow> (ustring \<Rightarrow> uuid option) \<Rightarrow> string \<Rightarrow> (uuid \<Rightarrow> 'i) \<Rightarrow> ustring
     \<Rightarrow> ('i, domain_error) result" where
  "id_from_str get_version_num parse_str entity mk value =
     and_then (ok_or (InvalidId entity (Plain value)) (parse_str value))
       (try_from_uuid get_version_num entity mk)"

lemma try_from_uuid_Ok_iff [result_simps]:
  "try_from_uuid ver entity mk u = Ok i \<longleftrightarrow> ver u = 7 \<and> i = mk u"
  by (auto simp: try_from_uuid_def)

lemma id_from_str_Ok_iff [result_simps]:
  "id_from_str ver parse entity mk s = Ok i \<longleftrightarrow> (\<exists>u. parse s = Some u \<and> ver u = 7 \<and> i = mk u)"
  by (auto simp: id_from_str_def result_simps)

text \<open>The derived \<open>Ord\<close> of the identifiers that key ordered maps.\<close>

instantiation provider_id :: linorder
begin

definition less_eq_provider_id :: "provider_id \<Rightarrow> provider_id \<Rightarrow> bool" where
  "less_eq_provider_id a b \<longleftrightarrow> provider_uuid a \<le> provider_uuid b"

definition less_provider_id :: "provider_id \<Rightarrow> provider_id \<Rightarrow> bool" where
  "less_provider_id a b \<longleftrightarrow> provider_uuid a < provider_uuid b"

instance
  by standard (auto simp: less_eq_provider_id_def less_provider_id_def provider_id.expand)

end

instantiation channel_id :: linorder
begin

definition less_eq_channel_id :: "channel_id \<Rightarrow> channel_id \<Rightarrow> bool" where
  "less_eq_channel_id a b \<longleftrightarrow> channel_uuid a \<le> channel_uuid b"

definition less_channel_id :: "channel_id \<Rightarrow> channel_id \<Rightarrow> bool" where
  "less_channel_id a b \<longleftrightarrow> channel_uuid a < channel_uuid b"

instance
  by standard (auto simp: less_eq_channel_id_def less_channel_id_def channel_id.expand)

end

instantiation session_id :: linorder
begin

definition less_eq_session_id :: "session_id \<Rightarrow> session_id \<Rightarrow> bool" where
  "less_eq_session_id a b \<longleftrightarrow> session_uuid a \<le> session_uuid b"

definition less_session_id :: "session_id \<Rightarrow> session_id \<Rightarrow> bool" where
  "less_session_id a b \<longleftrightarrow> session_uuid a < session_uuid b"

instance
  by standard (auto simp: less_eq_session_id_def less_session_id_def session_id.expand)

end

instantiation interaction_id :: linorder
begin

definition less_eq_interaction_id :: "interaction_id \<Rightarrow> interaction_id \<Rightarrow> bool" where
  "less_eq_interaction_id a b \<longleftrightarrow> interaction_uuid a \<le> interaction_uuid b"

definition less_interaction_id :: "interaction_id \<Rightarrow> interaction_id \<Rightarrow> bool" where
  "less_interaction_id a b \<longleftrightarrow> interaction_uuid a < interaction_uuid b"

instance
  by standard (auto simp: less_eq_interaction_id_def less_interaction_id_def interaction_id.expand)

end

instantiation tool_call_id :: linorder
begin

definition less_eq_tool_call_id :: "tool_call_id \<Rightarrow> tool_call_id \<Rightarrow> bool" where
  "less_eq_tool_call_id a b \<longleftrightarrow> tool_call_uuid a \<le> tool_call_uuid b"

definition less_tool_call_id :: "tool_call_id \<Rightarrow> tool_call_id \<Rightarrow> bool" where
  "less_tool_call_id a b \<longleftrightarrow> tool_call_uuid a < tool_call_uuid b"

instance
  by standard (auto simp: less_eq_tool_call_id_def less_tool_call_id_def tool_call_id.expand)

end

lemmas id_order_defs [simp] =
  less_eq_provider_id_def less_provider_id_def
  less_eq_channel_id_def less_channel_id_def
  less_eq_session_id_def less_session_id_def
  less_eq_interaction_id_def less_interaction_id_def
  less_eq_tool_call_id_def less_tool_call_id_def

section \<open>Validated text\<close>

datatype non_empty_text = NonEmptyText (as_str: ustring)

definition NonEmptyText_new :: "ustring \<Rightarrow> (non_empty_text, domain_error) result" where
  "NonEmptyText_new value =
     (if trim_text value = [] then Err (BlankText ''text'') else Ok (NonEmptyText value))"

definition wf_text :: "non_empty_text \<Rightarrow> bool" where
  "wf_text t \<longleftrightarrow> (\<exists>c \<in> set (as_str t). \<not> is_whitespace c)"

lemma NonEmptyText_new_Ok_iff [result_simps]:
  "NonEmptyText_new s = Ok t \<longleftrightarrow> as_str t = s \<and> wf_text t"
  by (cases t) (auto simp: NonEmptyText_new_def wf_text_def trim_text_empty_iff)

datatype external_id = ExternalId (external_text: non_empty_text)

definition ExternalId_new :: "ustring \<Rightarrow> (external_id, domain_error) result" where
  "ExternalId_new value =
     (if trim_text value = [] then Err (BlankText ''external ID'')
      else Ok (ExternalId (NonEmptyText value)))"

lemma ExternalId_new_Ok_iff [result_simps]:
  "ExternalId_new s = Ok x \<longleftrightarrow> as_str (external_text x) = s \<and> wf_text (external_text x)"
  by (cases x) (auto simp: ExternalId_new_def wf_text_def trim_text_empty_iff
      intro!: non_empty_text.expand)

section \<open>Component kinds\<close>

definition is_ascii_lowercase :: "nat \<Rightarrow> bool" where
  "is_ascii_lowercase c \<longleftrightarrow> 97 \<le> c \<and> c \<le> 122"

definition is_ascii_digit :: "nat \<Rightarrow> bool" where
  "is_ascii_digit c \<longleftrightarrow> 48 \<le> c \<and> c \<le> 57"

definition kind_first :: "nat \<Rightarrow> bool" where
  "kind_first c \<longleftrightarrow> is_ascii_lowercase c \<or> is_ascii_digit c"

definition kind_rest :: "nat \<Rightarrow> bool" where
  "kind_rest c \<longleftrightarrow> is_ascii_lowercase c \<or> is_ascii_digit c \<or> c = 45 \<or> c = 95 \<or> c = 46"

text \<open>\<open>define_kind!\<close>, instantiated at the field name and the newtype constructor.\<close>

definition kind_new :: "string \<Rightarrow> (ustring \<Rightarrow> 'k) \<Rightarrow> ustring \<Rightarrow> ('k, domain_error) result" where
  "kind_new field mk value =
     (let valid_first = (case value of [] \<Rightarrow> False | c # _ \<Rightarrow> kind_first c);
          valid_rest = (\<forall>c \<in> set (tl value). kind_rest c)
      in if valid_first \<and> valid_rest then Ok (mk value) else Err (InvalidKind field value))"

datatype provider_kind = ProviderKind (provider_slug: ustring)

datatype channel_kind = ChannelKind (channel_slug: ustring)

definition ProviderKind_new :: "ustring \<Rightarrow> (provider_kind, domain_error) result" where
  "ProviderKind_new = kind_new ''provider kind'' ProviderKind"

definition ChannelKind_new :: "ustring \<Rightarrow> (channel_kind, domain_error) result" where
  "ChannelKind_new = kind_new ''channel kind'' ChannelKind"

definition wf_slug :: "ustring \<Rightarrow> bool" where
  "wf_slug s \<longleftrightarrow> s \<noteq> [] \<and> kind_first (hd s) \<and> (\<forall>c \<in> set s. kind_rest c)"

lemma kind_new_Ok_iff [result_simps]: "kind_new field mk s = Ok k \<longleftrightarrow> wf_slug s \<and> k = mk s"
  by (cases s) (auto simp: kind_new_def wf_slug_def kind_first_def kind_rest_def Let_def)

section \<open>Timestamps and counters\<close>

type_synonym timestamp = int

text \<open>The range check of \<open>OffsetDateTime\<close> belongs to the \<open>time\<close> crate.\<close>

definition from_unix_timestamp_nanos ::
  "(int \<Rightarrow> bool) \<Rightarrow> int \<Rightarrow> (timestamp, domain_error) result" where
  "from_unix_timestamp_nanos in_range value =
     (if in_range value then Ok value else Err (InvalidTimestamp value))"

type_synonym revision = u64
type_synonym event_sequence = u64

definition counter_FIRST :: u64 where
  "counter_FIRST = 1"

definition counter_new :: "string \<Rightarrow> u64 \<Rightarrow> (u64, domain_error) result" where
  "counter_new field value = (if value = 0 then Err (ZeroValue field) else Ok value)"

definition Revision_new :: "u64 \<Rightarrow> (revision, domain_error) result" where
  "Revision_new = counter_new ''revision''"

definition EventSequence_new :: "u64 \<Rightarrow> (event_sequence, domain_error) result" where
  "EventSequence_new = counter_new ''event sequence''"

definition checked_next :: "u64 \<Rightarrow> u64 option" where
  "checked_next v = (if unat v + 1 < 2 ^ 64 then Some (v + 1) else None)"

lemma counter_new_Ok_iff [result_simps]: "counter_new field v = Ok w \<longleftrightarrow> v \<noteq> 0 \<and> w = v"
  by (auto simp: counter_new_def)

lemma checked_next_Some:
  "checked_next v = Some w \<Longrightarrow> unat w = unat v + 1"
  by (auto simp: checked_next_def unat_word_ariths split: if_splits)

lemma checked_next_Some_iff:
  "checked_next v = Some w \<longleftrightarrow> unat w = unat v + 1"
proof
  assume "unat w = unat v + 1"
  moreover have "unat w < 2 ^ 64" using unsigned_less [of w, where 'a = nat] by simp
  ultimately have "unat v + 1 < 2 ^ 64" and "unat (v + 1) = unat w"
    by (auto simp: unat_word_ariths)
  then show "checked_next v = Some w"
    by (auto simp: checked_next_def word_unat_eq_iff)
qed (rule checked_next_Some)

lemma checked_next_None_iff: "checked_next v = None \<longleftrightarrow> unat v = 2 ^ 64 - 1"
  using unsigned_less [of v, where 'a = nat] by (auto simp: checked_next_def)

lemma checked_next_greater: "checked_next v = Some w \<Longrightarrow> v < w"
  by (auto dest: checked_next_Some simp: word_less_nat_alt)

lemma checked_next_nonzero: "checked_next v = Some w \<Longrightarrow> w \<noteq> 0"
  by (drule checked_next_Some) (metis Suc_eq_plus1 Zero_not_Suc unat_0)

section \<open>Workspace references\<close>

record workspace_ref =
  ws_path :: non_empty_text
  ws_display_name :: "non_empty_text option"

definition WorkspaceRef_new :: "non_empty_text \<Rightarrow> workspace_ref" where
  "WorkspaceRef_new path = \<lparr>ws_path = path, ws_display_name = None\<rparr>"

definition ws_with_display_name :: "workspace_ref \<Rightarrow> non_empty_text \<Rightarrow> workspace_ref" where
  "ws_with_display_name w name = w\<lparr>ws_display_name := Some name\<rparr>"

definition wf_workspace :: "workspace_ref \<Rightarrow> bool" where
  [wf_defs]: "wf_workspace w \<longleftrightarrow> wf_text (ws_path w) \<and> pred_option wf_text (ws_display_name w)"

end
