(* ===== verification/Capability.thy ===== *)
theory Capability
  imports Values
begin

text \<open>
  Capability declarations (\<open>capability.rs\<close>) and endpoint descriptors
  (\<open>endpoint.rs\<close>). \<open>bitflags!\<close> generates a newtype over \<open>u16\<close> whose set operations
  are the bitwise ones; the flag positions are those the source writes. The locale
  \<open>capability_set\<close> states what routing relies on and is interpreted for both kinds.
\<close>

unbundle bit_operations_syntax

section \<open>The contract of a capability set\<close>

locale capability_set =
  fixes cnone :: "'c"
    and ccontains :: "'c \<Rightarrow> 'c \<Rightarrow> bool"
    and cunion :: "'c \<Rightarrow> 'c \<Rightarrow> 'c"
  assumes contains_none: "ccontains a cnone"
    and contains_refl: "ccontains a a"
    and contains_trans: "ccontains a b \<Longrightarrow> ccontains b c \<Longrightarrow> ccontains a c"
    and contains_antisym: "ccontains a b \<Longrightarrow> ccontains b a \<Longrightarrow> a = b"
    and contains_union: "ccontains a (cunion b c) \<longleftrightarrow> ccontains a b \<and> ccontains a c"
begin

lemma union_upper: "ccontains (cunion a b) a" "ccontains (cunion a b) b"
  using contains_union contains_refl by blast+

lemma union_commute: "cunion a b = cunion b a"
  by (meson contains_antisym contains_union union_upper)

lemma union_absorb: "ccontains a b \<Longrightarrow> cunion a b = a"
  by (meson contains_antisym contains_refl contains_union union_upper)

lemma contains_mono: "ccontains a b \<Longrightarrow> ccontains (cunion a c) b"
  using contains_trans union_upper by blast

end

section \<open>Flag words\<close>

definition flags_contains :: "u16 \<Rightarrow> u16 \<Rightarrow> bool" where
  "flags_contains a b \<longleftrightarrow> a AND b = b"

definition flags_intersects :: "u16 \<Rightarrow> u16 \<Rightarrow> bool" where
  "flags_intersects a b \<longleftrightarrow> a AND b \<noteq> 0"

definition flags_union :: "u16 \<Rightarrow> u16 \<Rightarrow> u16" where
  "flags_union a b = a OR b"

lemma flags_contains_iff: "flags_contains a b \<longleftrightarrow> (\<forall>n. bit b n \<longrightarrow> bit a n)"
proof
  assume "flags_contains a b"
  then have "bit (a AND b) n = bit b n" for n by (simp add: flags_contains_def)
  then show "\<forall>n. bit b n \<longrightarrow> bit a n" by (auto simp: bit_and_iff)
next
  assume "\<forall>n. bit b n \<longrightarrow> bit a n"
  then show "flags_contains a b"
    unfolding flags_contains_def by (intro bit_eqI) (auto simp: bit_and_iff)
qed

lemma flags_contains_union:
  "flags_contains a (flags_union b c) \<longleftrightarrow> flags_contains a b \<and> flags_contains a c"
  by (auto simp: flags_contains_iff flags_union_def bit_simps)

lemma flags_contains_antisym: "flags_contains a b \<Longrightarrow> flags_contains b a \<Longrightarrow> a = b"
  by (auto simp: flags_contains_iff intro!: bit_eqI)

section \<open>Provider capabilities\<close>

datatype provider_capabilities = ProviderCapabilities (provider_bits: u16)

definition PC_NONE :: provider_capabilities where
  "PC_NONE = ProviderCapabilities 0"

definition PC_SESSION_STATE :: provider_capabilities where
  "PC_SESSION_STATE = ProviderCapabilities (push_bit 0 1)"

definition PC_TOOL_EVENTS :: provider_capabilities where
  "PC_TOOL_EVENTS = ProviderCapabilities (push_bit 1 1)"

definition PC_PLAN :: provider_capabilities where
  "PC_PLAN = ProviderCapabilities (push_bit 2 1)"

definition PC_PROGRESS :: provider_capabilities where
  "PC_PROGRESS = ProviderCapabilities (push_bit 3 1)"

definition PC_APPROVAL_REQUEST :: provider_capabilities where
  "PC_APPROVAL_REQUEST = ProviderCapabilities (push_bit 4 1)"

definition PC_APPROVAL_RESPONSE :: provider_capabilities where
  "PC_APPROVAL_RESPONSE = ProviderCapabilities (push_bit 5 1)"

definition PC_USER_INPUT_REQUEST :: provider_capabilities where
  "PC_USER_INPUT_REQUEST = ProviderCapabilities (push_bit 6 1)"

definition PC_USER_INPUT_RESPONSE :: provider_capabilities where
  "PC_USER_INPUT_RESPONSE = ProviderCapabilities (push_bit 7 1)"

definition PC_PROMPT_SUBMIT :: provider_capabilities where
  "PC_PROMPT_SUBMIT = ProviderCapabilities (push_bit 8 1)"

definition PC_CANCEL :: provider_capabilities where
  "PC_CANCEL = ProviderCapabilities (push_bit 9 1)"

definition PC_CONTROL :: provider_capabilities where
  "PC_CONTROL = ProviderCapabilities (push_bit 10 1)"

definition pc_contains :: "provider_capabilities \<Rightarrow> provider_capabilities \<Rightarrow> bool" where
  "pc_contains a b \<longleftrightarrow> flags_contains (provider_bits a) (provider_bits b)"

definition pc_intersects :: "provider_capabilities \<Rightarrow> provider_capabilities \<Rightarrow> bool" where
  "pc_intersects a b \<longleftrightarrow> flags_intersects (provider_bits a) (provider_bits b)"

definition pc_is_empty :: "provider_capabilities \<Rightarrow> bool" where
  "pc_is_empty a \<longleftrightarrow> provider_bits a = 0"

definition pc_union ::
  "provider_capabilities \<Rightarrow> provider_capabilities \<Rightarrow> provider_capabilities" where
  "pc_union a b = ProviderCapabilities (flags_union (provider_bits a) (provider_bits b))"

section \<open>Channel capabilities\<close>

datatype channel_capabilities = ChannelCapabilities (channel_bits: u16)

definition CC_NONE :: channel_capabilities where
  "CC_NONE = ChannelCapabilities 0"

definition CC_NOTIFICATION :: channel_capabilities where
  "CC_NOTIFICATION = ChannelCapabilities (push_bit 0 1)"

definition CC_SESSION_VIEW :: channel_capabilities where
  "CC_SESSION_VIEW = ChannelCapabilities (push_bit 1 1)"

definition CC_TOOL_VIEW :: channel_capabilities where
  "CC_TOOL_VIEW = ChannelCapabilities (push_bit 2 1)"

definition CC_PLAN_VIEW :: channel_capabilities where
  "CC_PLAN_VIEW = ChannelCapabilities (push_bit 3 1)"

definition CC_PROGRESS_VIEW :: channel_capabilities where
  "CC_PROGRESS_VIEW = ChannelCapabilities (push_bit 4 1)"

definition CC_RICH_MESSAGE :: channel_capabilities where
  "CC_RICH_MESSAGE = ChannelCapabilities (push_bit 5 1)"

definition CC_APPROVAL :: channel_capabilities where
  "CC_APPROVAL = ChannelCapabilities (push_bit 6 1)"

definition CC_CHOICE_INPUT :: channel_capabilities where
  "CC_CHOICE_INPUT = ChannelCapabilities (push_bit 7 1)"

definition CC_TEXT_INPUT :: channel_capabilities where
  "CC_TEXT_INPUT = ChannelCapabilities (push_bit 8 1)"

definition CC_FORM_INPUT :: channel_capabilities where
  "CC_FORM_INPUT = ChannelCapabilities (push_bit 9 1)"

definition CC_REALTIME_SYNC :: channel_capabilities where
  "CC_REALTIME_SYNC = ChannelCapabilities (push_bit 10 1)"

definition CC_REMOTE_COMMAND :: channel_capabilities where
  "CC_REMOTE_COMMAND = ChannelCapabilities (push_bit 11 1)"

definition cc_contains :: "channel_capabilities \<Rightarrow> channel_capabilities \<Rightarrow> bool" where
  "cc_contains a b \<longleftrightarrow> flags_contains (channel_bits a) (channel_bits b)"

definition cc_intersects :: "channel_capabilities \<Rightarrow> channel_capabilities \<Rightarrow> bool" where
  "cc_intersects a b \<longleftrightarrow> flags_intersects (channel_bits a) (channel_bits b)"

definition cc_is_empty :: "channel_capabilities \<Rightarrow> bool" where
  "cc_is_empty a \<longleftrightarrow> channel_bits a = 0"

definition cc_union ::
  "channel_capabilities \<Rightarrow> channel_capabilities \<Rightarrow> channel_capabilities" where
  "cc_union a b = ChannelCapabilities (flags_union (channel_bits a) (channel_bits b))"

interpretation pcap: capability_set PC_NONE pc_contains pc_union
proof unfold_locales
  fix a b c
  show "pc_contains a PC_NONE" by (simp add: pc_contains_def PC_NONE_def flags_contains_iff)
  show "pc_contains a a" by (simp add: pc_contains_def flags_contains_iff)
  show "pc_contains a b \<Longrightarrow> pc_contains b c \<Longrightarrow> pc_contains a c"
    by (simp add: pc_contains_def flags_contains_iff)
  show "pc_contains a b \<Longrightarrow> pc_contains b a \<Longrightarrow> a = b"
    by (auto simp: pc_contains_def intro: flags_contains_antisym provider_capabilities.expand)
  show "pc_contains a (pc_union b c) \<longleftrightarrow> pc_contains a b \<and> pc_contains a c"
    by (simp add: pc_contains_def pc_union_def flags_contains_union)
qed

interpretation ccap: capability_set CC_NONE cc_contains cc_union
proof unfold_locales
  fix a b c
  show "cc_contains a CC_NONE" by (simp add: cc_contains_def CC_NONE_def flags_contains_iff)
  show "cc_contains a a" by (simp add: cc_contains_def flags_contains_iff)
  show "cc_contains a b \<Longrightarrow> cc_contains b c \<Longrightarrow> cc_contains a c"
    by (simp add: cc_contains_def flags_contains_iff)
  show "cc_contains a b \<Longrightarrow> cc_contains b a \<Longrightarrow> a = b"
    by (auto simp: cc_contains_def intro: flags_contains_antisym channel_capabilities.expand)
  show "cc_contains a (cc_union b c) \<longleftrightarrow> cc_contains a b \<and> cc_contains a c"
    by (simp add: cc_contains_def cc_union_def flags_contains_union)
qed

lemmas capability_flags =
  PC_NONE_def PC_SESSION_STATE_def PC_TOOL_EVENTS_def PC_PLAN_def PC_PROGRESS_def PC_APPROVAL_REQUEST_def PC_APPROVAL_RESPONSE_def PC_USER_INPUT_REQUEST_def PC_USER_INPUT_RESPONSE_def PC_PROMPT_SUBMIT_def PC_CANCEL_def PC_CONTROL_def
  CC_NONE_def CC_NOTIFICATION_def CC_SESSION_VIEW_def CC_TOOL_VIEW_def CC_PLAN_VIEW_def CC_PROGRESS_VIEW_def CC_RICH_MESSAGE_def CC_APPROVAL_def CC_CHOICE_INPUT_def CC_TEXT_INPUT_def CC_FORM_INPUT_def CC_REALTIME_SYNC_def CC_REMOTE_COMMAND_def

lemmas capability_eval =
  capability_flags pc_contains_def cc_contains_def pc_union_def cc_union_def
  flags_contains_def flags_union_def

section \<open>Endpoint descriptors\<close>

record provider_descriptor =
  pd_id :: provider_id
  pd_kind :: provider_kind
  pd_display_name :: non_empty_text
  pd_version :: "non_empty_text option"
  pd_capabilities :: provider_capabilities

definition ProviderDescriptor_new ::
  "provider_id \<Rightarrow> provider_kind \<Rightarrow> non_empty_text \<Rightarrow> provider_capabilities
     \<Rightarrow> provider_descriptor" where
  "ProviderDescriptor_new i kind display_name capabilities =
     \<lparr>pd_id = i, pd_kind = kind, pd_display_name = display_name, pd_version = None,
      pd_capabilities = capabilities\<rparr>"

definition pd_with_version :: "provider_descriptor \<Rightarrow> non_empty_text \<Rightarrow> provider_descriptor" where
  "pd_with_version d version = d\<lparr>pd_version := Some version\<rparr>"

record channel_descriptor =
  cd_id :: channel_id
  cd_kind :: channel_kind
  cd_display_name :: non_empty_text
  cd_version :: "non_empty_text option"
  cd_capabilities :: channel_capabilities

definition ChannelDescriptor_new ::
  "channel_id \<Rightarrow> channel_kind \<Rightarrow> non_empty_text \<Rightarrow> channel_capabilities
     \<Rightarrow> channel_descriptor" where
  "ChannelDescriptor_new i kind display_name capabilities =
     \<lparr>cd_id = i, cd_kind = kind, cd_display_name = display_name, cd_version = None,
      cd_capabilities = capabilities\<rparr>"

definition cd_with_version :: "channel_descriptor \<Rightarrow> non_empty_text \<Rightarrow> channel_descriptor" where
  "cd_with_version d version = d\<lparr>cd_version := Some version\<rparr>"

end
