(* ===== verification/Interaction.thy ===== *)
theory Interaction
  imports Capability
begin

text \<open>
  Correlated interaction requests and responses (\<open>interaction.rs\<close>): approvals, choices,
  text input and forms, their validating constructors, and \<open>validate_response\<close>, which
  decides whether a response answers a request. The \<open>wf_\<close> predicates are the invariants the
  constructors establish; \<open>answers\<close> is the declarative meaning of an acceptable answer.
\<close>

section \<open>Approvals\<close>

datatype approval_disposition = Approve | Reject | Cancel

datatype approval_command_kind = NewCommand | WriteStdin

record approval_network_context =
  anc_host :: non_empty_text
  anc_protocol :: non_empty_text

datatype approval_file_change_kind = FileAdd | FileDelete | FileUpdate

record approval_file_change =
  afc_path :: non_empty_text
  afc_kind :: approval_file_change_kind
  afc_diff :: ustring

datatype approval_subject =
    CommandSubject approval_command_kind "non_empty_text option" "non_empty_text option"
      "non_empty_text option" "approval_network_context option"
  | FileChangeSubject "approval_file_change list" "non_empty_text option" "non_empty_text option"

record approval_option =
  ao_id :: approval_option_id
  ao_disposition :: approval_disposition
  ao_label :: non_empty_text
  ao_description :: "non_empty_text option"

definition ApprovalOption_new ::
  "approval_option_id \<Rightarrow> approval_disposition \<Rightarrow> non_empty_text \<Rightarrow> approval_option" where
  "ApprovalOption_new i disposition label =
     \<lparr>ao_id = i, ao_disposition = disposition, ao_label = label, ao_description = None\<rparr>"

definition ao_with_description :: "approval_option \<Rightarrow> non_empty_text \<Rightarrow> approval_option" where
  "ao_with_description opt description = opt\<lparr>ao_description := Some description\<rparr>"

record approval_request =
  ar_subject :: approval_subject
  ar_options :: "approval_option list"
  ar_unavailable_reason :: "non_empty_text option"

definition ApprovalRequest_actionable ::
  "approval_subject \<Rightarrow> approval_option list \<Rightarrow> (approval_request, domain_error) result" where
  "ApprovalRequest_actionable subject options =
     (if options = [] then Err (EmptyCollection ''approval options'')
      else case first_duplicate (map ao_id options) of
        Some dup \<Rightarrow> Err (DuplicateId ''approval options'' (Shown (approval_option_uuid dup)))
      | None \<Rightarrow> Ok \<lparr>ar_subject = subject, ar_options = options, ar_unavailable_reason = None\<rparr>)"

definition ApprovalRequest_unavailable ::
  "approval_subject \<Rightarrow> non_empty_text \<Rightarrow> approval_request" where
  "ApprovalRequest_unavailable subject reason =
     \<lparr>ar_subject = subject, ar_options = [], ar_unavailable_reason = Some reason\<rparr>"

definition ar_is_actionable :: "approval_request \<Rightarrow> bool" where
  "ar_is_actionable r \<longleftrightarrow> ar_options r \<noteq> []"

definition ar_contains :: "approval_request \<Rightarrow> approval_option_id \<Rightarrow> bool" where
  "ar_contains r option_id \<longleftrightarrow> list_ex (\<lambda>opt. ao_id opt = option_id) (ar_options r)"

section \<open>Choices and text input\<close>

record choice_option =
  co_id :: choice_option_id
  co_label :: non_empty_text
  co_description :: "non_empty_text option"

definition ChoiceOption_new :: "choice_option_id \<Rightarrow> non_empty_text \<Rightarrow> choice_option" where
  "ChoiceOption_new i label = \<lparr>co_id = i, co_label = label, co_description = None\<rparr>"

definition co_with_description :: "choice_option \<Rightarrow> non_empty_text \<Rightarrow> choice_option" where
  "co_with_description opt description = opt\<lparr>co_description := Some description\<rparr>"

record choice_request =
  cr_options :: "choice_option list"
  cr_multiple :: bool

definition ChoiceRequest_new ::
  "choice_option list \<Rightarrow> bool \<Rightarrow> (choice_request, domain_error) result" where
  "ChoiceRequest_new options multiple =
     (if options = [] then Err (EmptyCollection ''choice options'')
      else case first_duplicate (map co_id options) of
        Some dup \<Rightarrow> Err (DuplicateId ''choice options'' (Shown (choice_option_uuid dup)))
      | None \<Rightarrow> Ok \<lparr>cr_options = options, cr_multiple = multiple\<rparr>)"

definition cr_contains :: "choice_request \<Rightarrow> choice_option_id \<Rightarrow> bool" where
  "cr_contains r option_id \<longleftrightarrow> list_ex (\<lambda>opt. co_id opt = option_id) (cr_options r)"

record text_input_request =
  ti_placeholder :: "non_empty_text option"
  ti_multiline :: bool

definition TextInputRequest_new :: "bool \<Rightarrow> text_input_request" where
  "TextInputRequest_new multiline = \<lparr>ti_placeholder = None, ti_multiline = multiline\<rparr>"

definition ti_with_placeholder :: "text_input_request \<Rightarrow> non_empty_text \<Rightarrow> text_input_request" where
  "ti_with_placeholder r placeholder = r\<lparr>ti_placeholder := Some placeholder\<rparr>"

section \<open>Forms\<close>

record form_field =
  ff_id :: form_field_id
  ff_header :: non_empty_text
  ff_prompt :: non_empty_text
  ff_options :: "choice_option list"
  ff_allows_other :: bool
  ff_sensitive :: bool

definition FormField_new ::
  "form_field_id \<Rightarrow> non_empty_text \<Rightarrow> non_empty_text \<Rightarrow> choice_option list \<Rightarrow> bool \<Rightarrow> bool
     \<Rightarrow> (form_field, domain_error) result" where
  "FormField_new i header prompt options allows_other sensitive =
     (case first_duplicate (map co_id options) of
        Some dup \<Rightarrow> Err (DuplicateId ''form field options'' (Shown (choice_option_uuid dup)))
      | None \<Rightarrow>
          if options = [] \<and> \<not> allows_other
          then Err (InvalidChoiceSelection ''a text form field must allow a custom answer'')
          else Ok \<lparr>ff_id = i, ff_header = header, ff_prompt = prompt, ff_options = options,
                   ff_allows_other = allows_other, ff_sensitive = sensitive\<rparr>)"

definition ff_contains :: "form_field \<Rightarrow> choice_option_id \<Rightarrow> bool" where
  "ff_contains f option_id \<longleftrightarrow> list_ex (\<lambda>opt. co_id opt = option_id) (ff_options f)"

record form_request =
  fr_fields :: "form_field list"
  fr_blocking :: bool

definition FormRequest_new :: "form_field list \<Rightarrow> bool \<Rightarrow> (form_request, domain_error) result" where
  "FormRequest_new form_fields blocking =
     (if form_fields = [] then Err (EmptyCollection ''form fields'')
      else case first_duplicate (map ff_id form_fields) of
        Some dup \<Rightarrow> Err (DuplicateId ''form fields'' (Shown (form_field_uuid dup)))
      | None \<Rightarrow> Ok \<lparr>fr_fields = form_fields, fr_blocking = blocking\<rparr>)"

datatype form_answer_value = AnswerChoice choice_option_id | AnswerText non_empty_text

record form_answer =
  fa_field_id :: form_field_id
  fa_value :: form_answer_value

type_synonym form_response = "form_answer list"

definition FormResponse_new :: "form_answer list \<Rightarrow> (form_response, domain_error) result" where
  "FormResponse_new answers =
     (if answers = [] then Err (EmptyCollection ''form answers'')
      else case first_duplicate (map fa_field_id answers) of
        Some dup \<Rightarrow> Err (DuplicateId ''form answers'' (Shown (form_field_uuid dup)))
      | None \<Rightarrow> Ok answers)"

section \<open>Requests\<close>

datatype interaction_request_payload =
    ApprovalRequested approval_request
  | ChoiceRequested choice_request
  | TextRequested text_input_request
  | FormRequested form_request

fun required_provider_request_capability ::
  "interaction_request_payload \<Rightarrow> provider_capabilities" where
  "required_provider_request_capability (ApprovalRequested _) = PC_APPROVAL_REQUEST"
| "required_provider_request_capability _ = PC_USER_INPUT_REQUEST"

fun required_provider_response_capability ::
  "interaction_request_payload \<Rightarrow> provider_capabilities" where
  "required_provider_response_capability (ApprovalRequested _) = PC_APPROVAL_RESPONSE"
| "required_provider_response_capability _ = PC_USER_INPUT_RESPONSE"

fun required_channel_response_capability ::
  "interaction_request_payload \<Rightarrow> channel_capabilities" where
  "required_channel_response_capability (ApprovalRequested _) = CC_APPROVAL"
| "required_channel_response_capability (ChoiceRequested _) = CC_CHOICE_INPUT"
| "required_channel_response_capability (TextRequested _) = CC_TEXT_INPUT"
| "required_channel_response_capability (FormRequested _) = CC_FORM_INPUT"

fun is_actionable :: "interaction_request_payload \<Rightarrow> bool" where
  "is_actionable (ApprovalRequested r) = ar_is_actionable r"
| "is_actionable _ = True"

record interaction_request =
  ir_id :: interaction_id
  ir_session_id :: session_id
  ir_requested_at :: timestamp
  ir_expires_at :: "timestamp option"
  ir_prompt :: non_empty_text
  ir_payload :: interaction_request_payload

definition InteractionRequest_new ::
  "interaction_id \<Rightarrow> session_id \<Rightarrow> timestamp \<Rightarrow> non_empty_text \<Rightarrow> interaction_request_payload
     \<Rightarrow> interaction_request" where
  "InteractionRequest_new i sid requested_at prompt payload =
     \<lparr>ir_id = i, ir_session_id = sid, ir_requested_at = requested_at, ir_expires_at = None,
      ir_prompt = prompt, ir_payload = payload\<rparr>"

definition with_expiration ::
  "interaction_request \<Rightarrow> timestamp \<Rightarrow> (interaction_request, domain_error) result" where
  "with_expiration r expires_at =
     (if expires_at \<le> ir_requested_at r
      then Err (InvalidTimeOrder ''interaction requested_at'' ''interaction expires_at'')
      else Ok (r\<lparr>ir_expires_at := Some expires_at\<rparr>))"

section \<open>Closures and responses\<close>

datatype interaction_close_reason = ResolvedElsewhere | ProviderCancelled

record interaction_closed =
  ic_request_id :: interaction_id
  ic_session_id :: session_id
  ic_reason :: interaction_close_reason

type_synonym choice_selection = "choice_option_id list"

definition ChoiceSelection_new ::
  "choice_option_id list \<Rightarrow> (choice_selection, domain_error) result" where
  "ChoiceSelection_new option_ids =
     (if option_ids = [] then Err (EmptyCollection ''selected choice options'')
      else case first_duplicate option_ids of
        Some dup \<Rightarrow> Err (DuplicateId ''selected choice options'' (Shown (choice_option_uuid dup)))
      | None \<Rightarrow> Ok option_ids)"

datatype interaction_response_payload =
    ApprovalAnswer approval_option_id
  | ChoiceAnswer choice_selection
  | TextAnswer non_empty_text
  | FormAnswers form_response

fun response_required_provider_capability ::
  "interaction_response_payload \<Rightarrow> provider_capabilities" where
  "response_required_provider_capability (ApprovalAnswer _) = PC_APPROVAL_RESPONSE"
| "response_required_provider_capability _ = PC_USER_INPUT_RESPONSE"

fun response_required_channel_capability ::
  "interaction_response_payload \<Rightarrow> channel_capabilities" where
  "response_required_channel_capability (ApprovalAnswer _) = CC_APPROVAL"
| "response_required_channel_capability (ChoiceAnswer _) = CC_CHOICE_INPUT"
| "response_required_channel_capability (TextAnswer _) = CC_TEXT_INPUT"
| "response_required_channel_capability (FormAnswers _) = CC_FORM_INPUT"

record interaction_response =
  is_request_id :: interaction_id
  is_session_id :: session_id
  is_channel_id :: channel_id
  is_responded_at :: timestamp
  is_payload :: interaction_response_payload

section \<open>Validating a response\<close>

fun validate_choice_options ::
  "choice_request \<Rightarrow> choice_option_id list \<Rightarrow> (unit, domain_error) result" where
  "validate_choice_options r [] = Ok ()"
| "validate_choice_options r (option_id # rest) =
     (if \<not> cr_contains r option_id
      then Err (UnknownChoiceOption (Shown (choice_option_uuid option_id)))
      else validate_choice_options r rest)"

fun validate_form_answer :: "form_field \<Rightarrow> form_answer_value \<Rightarrow> (unit, domain_error) result" where
  "validate_form_answer f (AnswerChoice option_id) =
     (if ff_contains f option_id then Ok ()
      else Err (InvalidChoiceSelection ''form answer selected an unknown option''))"
| "validate_form_answer f (AnswerText _) =
     (if ff_allows_other f then Ok ()
      else Err (InvalidChoiceSelection ''form field does not allow a custom answer''))"

fun validate_form_fields ::
  "form_field list \<Rightarrow> form_answer list \<Rightarrow> (unit, domain_error) result" where
  "validate_form_fields [] answers = Ok ()"
| "validate_form_fields (f # rest) answers =
     and_then
       (ok_or (InvalidChoiceSelection ''form responses must answer every field exactly once'')
         (find (\<lambda>a. fa_field_id a = ff_id f) answers))
       (\<lambda>answer. and_then (validate_form_answer f (fa_value answer))
          (\<lambda>_. validate_form_fields rest answers))"

fun validate_payload ::
  "interaction_request_payload \<Rightarrow> interaction_response_payload \<Rightarrow> (unit, domain_error) result" where
  "validate_payload (ApprovalRequested r) (ApprovalAnswer option_id) =
     (if \<not> ar_is_actionable r then Err ApprovalUnavailable
      else if \<not> ar_contains r option_id
      then Err (UnknownApprovalOption (Shown (approval_option_uuid option_id)))
      else Ok ())"
| "validate_payload (TextRequested _) (TextAnswer _) = Ok ()"
| "validate_payload (ChoiceRequested r) (ChoiceAnswer option_ids) =
     (if \<not> cr_multiple r \<and> length option_ids \<noteq> 1
      then Err (InvalidChoiceSelection
        ''single-choice requests require exactly one selected option'')
      else validate_choice_options r option_ids)"
| "validate_payload (FormRequested r) (FormAnswers answers) =
     (if length answers \<noteq> length (fr_fields r)
      then Err (InvalidChoiceSelection ''form responses must answer every field exactly once'')
      else validate_form_fields (fr_fields r) answers)"
| "validate_payload _ _ = Err InteractionTypeMismatch"

definition validate_response ::
  "interaction_request \<Rightarrow> interaction_response \<Rightarrow> (unit, domain_error) result" where
  "validate_response r response =
     (if is_request_id response \<noteq> ir_id r
      then Err (CorrelationMismatch ''interaction request ID''
        (Shown (interaction_uuid (ir_id r))) (Shown (interaction_uuid (is_request_id response))))
      else if is_session_id response \<noteq> ir_session_id r
      then Err (CorrelationMismatch ''interaction session ID''
        (Shown (session_uuid (ir_session_id r))) (Shown (session_uuid (is_session_id response))))
      else if is_responded_at response < ir_requested_at r
      then Err (InvalidTimeOrder ''interaction requested_at'' ''interaction responded_at'')
      else if (case ir_expires_at r of None \<Rightarrow> False | Some t \<Rightarrow> is_responded_at response > t)
      then Err InteractionExpired
      else validate_payload (ir_payload r) (is_payload response))"

section \<open>Invariants of the validated values\<close>

fun wf_approval_subject :: "approval_subject \<Rightarrow> bool" where
  "wf_approval_subject (CommandSubject kind command cwd reason network) =
     (pred_option wf_text command \<and> pred_option wf_text cwd \<and> pred_option wf_text reason
      \<and> pred_option (\<lambda>n. wf_text (anc_host n) \<and> wf_text (anc_protocol n)) network)"
| "wf_approval_subject (FileChangeSubject changes grant_root reason) =
     (list_all (\<lambda>c. wf_text (afc_path c)) changes \<and> pred_option wf_text grant_root
      \<and> pred_option wf_text reason)"

definition wf_approval_option :: "approval_option \<Rightarrow> bool" where
  [wf_defs]: "wf_approval_option opt \<longleftrightarrow> wf_text (ao_label opt) \<and> pred_option wf_text (ao_description opt)"

definition wf_approval :: "approval_request \<Rightarrow> bool" where
  [wf_defs]: "wf_approval r \<longleftrightarrow> wf_approval_subject (ar_subject r)
     \<and> distinct (map ao_id (ar_options r)) \<and> list_all wf_approval_option (ar_options r)
     \<and> (ar_options r = [] \<longleftrightarrow> ar_unavailable_reason r \<noteq> None)
     \<and> pred_option wf_text (ar_unavailable_reason r)"

definition wf_choice_option :: "choice_option \<Rightarrow> bool" where
  [wf_defs]: "wf_choice_option opt \<longleftrightarrow> wf_text (co_label opt) \<and> pred_option wf_text (co_description opt)"

definition wf_choice :: "choice_request \<Rightarrow> bool" where
  [wf_defs]: "wf_choice r \<longleftrightarrow> cr_options r \<noteq> [] \<and> distinct (map co_id (cr_options r))
     \<and> list_all wf_choice_option (cr_options r)"

definition wf_form_field :: "form_field \<Rightarrow> bool" where
  [wf_defs]: "wf_form_field f \<longleftrightarrow> wf_text (ff_header f) \<and> wf_text (ff_prompt f)
     \<and> distinct (map co_id (ff_options f)) \<and> list_all wf_choice_option (ff_options f)
     \<and> (ff_options f = [] \<longrightarrow> ff_allows_other f)"

definition wf_form :: "form_request \<Rightarrow> bool" where
  [wf_defs]: "wf_form r \<longleftrightarrow> fr_fields r \<noteq> [] \<and> distinct (map ff_id (fr_fields r))
     \<and> list_all wf_form_field (fr_fields r)"

fun wf_request_payload :: "interaction_request_payload \<Rightarrow> bool" where
  "wf_request_payload (ApprovalRequested r) = wf_approval r"
| "wf_request_payload (ChoiceRequested r) = wf_choice r"
| "wf_request_payload (TextRequested r) = pred_option wf_text (ti_placeholder r)"
| "wf_request_payload (FormRequested r) = wf_form r"

definition wf_request :: "interaction_request \<Rightarrow> bool" where
  [wf_defs]: "wf_request r \<longleftrightarrow> wf_text (ir_prompt r) \<and> wf_request_payload (ir_payload r)
     \<and> pred_option (\<lambda>t. ir_requested_at r < t) (ir_expires_at r)"

fun wf_form_answer_value :: "form_answer_value \<Rightarrow> bool" where
  "wf_form_answer_value (AnswerChoice _) = True"
| "wf_form_answer_value (AnswerText t) = wf_text t"

fun wf_response_payload :: "interaction_response_payload \<Rightarrow> bool" where
  "wf_response_payload (ApprovalAnswer _) = True"
| "wf_response_payload (ChoiceAnswer ids) = (ids \<noteq> [] \<and> distinct ids)"
| "wf_response_payload (TextAnswer t) = wf_text t"
| "wf_response_payload (FormAnswers answers) =
     (answers \<noteq> [] \<and> distinct (map fa_field_id answers)
      \<and> list_all (\<lambda>a. wf_form_answer_value (fa_value a)) answers)"

definition wf_response :: "interaction_response \<Rightarrow> bool" where
  [wf_defs]: "wf_response r \<longleftrightarrow> wf_response_payload (is_payload r)"

section \<open>What the constructors accept\<close>

lemma ApprovalRequest_actionable_Ok_iff [result_simps]:
  "ApprovalRequest_actionable s opts = Ok r \<longleftrightarrow> opts \<noteq> [] \<and> distinct (map ao_id opts)
     \<and> r = \<lparr>ar_subject = s, ar_options = opts, ar_unavailable_reason = None\<rparr>"
  by (auto simp: ApprovalRequest_actionable_def split: option.splits
      simp flip: first_duplicate_None_iff)

lemma ChoiceRequest_new_Ok_iff [result_simps]:
  "ChoiceRequest_new opts m = Ok r \<longleftrightarrow> opts \<noteq> [] \<and> distinct (map co_id opts)
     \<and> r = \<lparr>cr_options = opts, cr_multiple = m\<rparr>"
  by (auto simp: ChoiceRequest_new_def split: option.splits simp flip: first_duplicate_None_iff)

lemma FormField_new_Ok_iff [result_simps]:
  "FormField_new i h p opts other sens = Ok f \<longleftrightarrow> distinct (map co_id opts)
     \<and> (opts = [] \<longrightarrow> other)
     \<and> f = \<lparr>ff_id = i, ff_header = h, ff_prompt = p, ff_options = opts,
           ff_allows_other = other, ff_sensitive = sens\<rparr>"
  by (auto simp: FormField_new_def split: option.splits simp flip: first_duplicate_None_iff)

lemma FormRequest_new_Ok_iff [result_simps]:
  "FormRequest_new fs b = Ok r \<longleftrightarrow> fs \<noteq> [] \<and> distinct (map ff_id fs)
     \<and> r = \<lparr>fr_fields = fs, fr_blocking = b\<rparr>"
  by (auto simp: FormRequest_new_def split: option.splits simp flip: first_duplicate_None_iff)

lemma FormResponse_new_Ok_iff [result_simps]:
  "FormResponse_new as = Ok r \<longleftrightarrow> as \<noteq> [] \<and> distinct (map fa_field_id as) \<and> r = as"
  by (auto simp: FormResponse_new_def split: option.splits simp flip: first_duplicate_None_iff)

lemma ChoiceSelection_new_Ok_iff [result_simps]:
  "ChoiceSelection_new ids = Ok r \<longleftrightarrow> ids \<noteq> [] \<and> distinct ids \<and> r = ids"
  by (auto simp: ChoiceSelection_new_def split: option.splits simp flip: first_duplicate_None_iff)

lemma with_expiration_Ok_iff [result_simps]:
  "with_expiration r t = Ok r' \<longleftrightarrow> ir_requested_at r < t \<and> r' = r\<lparr>ir_expires_at := Some t\<rparr>"
  by (auto simp: with_expiration_def)

section \<open>The meaning of an accepted response\<close>

fun admits :: "form_field \<Rightarrow> form_answer_value \<Rightarrow> bool" where
  "admits f (AnswerChoice i) = (i \<in> set (map co_id (ff_options f)))"
| "admits f (AnswerText _) = ff_allows_other f"

fun answers :: "interaction_request_payload \<Rightarrow> interaction_response_payload \<Rightarrow> bool" where
  "answers (ApprovalRequested r) (ApprovalAnswer i) = (i \<in> set (map ao_id (ar_options r)))"
| "answers (ChoiceRequested r) (ChoiceAnswer ids) =
     (set ids \<subseteq> set (map co_id (cr_options r)) \<and> (cr_multiple r \<or> length ids = 1))"
| "answers (TextRequested _) (TextAnswer _) = True"
| "answers (FormRequested r) (FormAnswers as) =
     (length as = length (fr_fields r)
      \<and> (\<forall>f \<in> set (fr_fields r). \<exists>a. find (\<lambda>a. fa_field_id a = ff_id f) as = Some a
           \<and> admits f (fa_value a)))"
| "answers _ _ = False"

definition timely :: "interaction_request \<Rightarrow> timestamp \<Rightarrow> bool" where
  "timely r t \<longleftrightarrow> ir_requested_at r \<le> t \<and> pred_option (\<lambda>e. t \<le> e) (ir_expires_at r)"

lemma validate_choice_options_Ok:
  "validate_choice_options r ids = Ok () \<longleftrightarrow> set ids \<subseteq> set (map co_id (cr_options r))"
  by (induction ids) (auto simp: cr_contains_def list_ex_iff)

lemma validate_form_answer_Ok: "validate_form_answer f v = Ok () \<longleftrightarrow> admits f v"
  by (cases v) (auto simp: ff_contains_def list_ex_iff)

lemma validate_form_fields_Ok:
  "validate_form_fields fs as = Ok () \<longleftrightarrow>
     (\<forall>f \<in> set fs. \<exists>a. find (\<lambda>a. fa_field_id a = ff_id f) as = Some a \<and> admits f (fa_value a))"
  by (induction fs) (auto simp: result_simps validate_form_answer_Ok)

lemma validate_payload_Ok: "validate_payload p q = Ok () \<longleftrightarrow> answers p q"
  by (cases "(p, q)" rule: validate_payload.cases)
    (auto simp: ar_is_actionable_def ar_contains_def list_ex_iff validate_choice_options_Ok
      validate_form_fields_Ok)

lemma validate_response_Ok [result_simps]:
  "validate_response r s = Ok () \<longleftrightarrow> is_request_id s = ir_id r \<and> is_session_id s = ir_session_id r
     \<and> timely r (is_responded_at s) \<and> answers (ir_payload r) (is_payload s)"
  by (auto simp: validate_response_def validate_payload_Ok timely_def not_less
      split: option.splits)

end
