(* ===== verification/Snapshots.thy ===== *)
theory Snapshots
  imports Values
begin

text \<open>
  Complete plan and progress snapshots: \<open>plan.rs\<close> and \<open>progress.rs\<close>. The constructors
  validate; \<open>wf_plan\<close> and \<open>wf_progress\<close> are the invariants they establish.
\<close>

section \<open>Plans\<close>

datatype plan_item_status =
    PlanPending | PlanInProgress | PlanCompleted | PlanBlocked | PlanSkipped

record plan_item =
  pi_id :: plan_item_id
  pi_content :: non_empty_text
  pi_status :: plan_item_status

record plan_snapshot =
  plan_revision :: revision
  plan_explanation :: "non_empty_text option"
  plan_items :: "plan_item list"

definition PlanSnapshot_new ::
  "revision \<Rightarrow> plan_item list \<Rightarrow> (plan_snapshot, domain_error) result" where
  "PlanSnapshot_new revision items =
     (case first_duplicate (map pi_id items) of
        Some dup \<Rightarrow> Err (DuplicateId ''plan items'' (Shown (plan_item_uuid dup)))
      | None \<Rightarrow> Ok \<lparr>plan_revision = revision, plan_explanation = None, plan_items = items\<rparr>)"

definition plan_with_explanation :: "plan_snapshot \<Rightarrow> non_empty_text \<Rightarrow> plan_snapshot" where
  "plan_with_explanation p explanation = p\<lparr>plan_explanation := Some explanation\<rparr>"

definition wf_plan_item :: "plan_item \<Rightarrow> bool" where
  [wf_defs]: "wf_plan_item i \<longleftrightarrow> wf_text (pi_content i)"

definition wf_plan :: "plan_snapshot \<Rightarrow> bool" where
  [wf_defs]: "wf_plan p \<longleftrightarrow> plan_revision p \<noteq> 0 \<and> pred_option wf_text (plan_explanation p)
     \<and> distinct (map pi_id (plan_items p)) \<and> list_all wf_plan_item (plan_items p)"

lemma PlanSnapshot_new_Ok_iff [result_simps]:
  "PlanSnapshot_new r items = Ok p \<longleftrightarrow> distinct (map pi_id items)
     \<and> p = \<lparr>plan_revision = r, plan_explanation = None, plan_items = items\<rparr>"
  by (auto simp: PlanSnapshot_new_def split: option.splits
      simp flip: first_duplicate_None_iff)

section \<open>Progress\<close>

record determinate_progress =
  dp_completed :: u64
  dp_total :: u64

definition DeterminateProgress_new ::
  "u64 \<Rightarrow> u64 \<Rightarrow> (determinate_progress, domain_error) result" where
  "DeterminateProgress_new completed total_units =
     (if total_units = 0 then Err (ZeroValue ''progress total'')
      else if completed > total_units then Err (InvalidProgress completed total_units)
      else Ok \<lparr>dp_completed = completed, dp_total = total_units\<rparr>)"

datatype progress_value = Indeterminate | Determinate determinate_progress

record progress_snapshot =
  prog_revision :: revision
  prog_value :: progress_value
  prog_message :: "non_empty_text option"

definition ProgressSnapshot_new :: "revision \<Rightarrow> progress_value \<Rightarrow> progress_snapshot" where
  "ProgressSnapshot_new revision value =
     \<lparr>prog_revision = revision, prog_value = value, prog_message = None\<rparr>"

definition prog_with_message :: "progress_snapshot \<Rightarrow> non_empty_text \<Rightarrow> progress_snapshot" where
  "prog_with_message p message = p\<lparr>prog_message := Some message\<rparr>"

fun wf_progress_value :: "progress_value \<Rightarrow> bool" where
  "wf_progress_value Indeterminate = True"
| "wf_progress_value (Determinate d) = (dp_total d \<noteq> 0 \<and> dp_completed d \<le> dp_total d)"

definition wf_progress :: "progress_snapshot \<Rightarrow> bool" where
  [wf_defs]: "wf_progress p \<longleftrightarrow> prog_revision p \<noteq> 0 \<and> wf_progress_value (prog_value p)
     \<and> pred_option wf_text (prog_message p)"

lemma DeterminateProgress_new_Ok_iff [result_simps]:
  "DeterminateProgress_new c t = Ok d \<longleftrightarrow>
     dp_completed d = c \<and> dp_total d = t \<and> wf_progress_value (Determinate d)"
  by (cases d) (auto simp: DeterminateProgress_new_def not_less)

end
