(* ===== verification/Session_Event.thy ===== *)
theory Session_Event
  imports Interaction Snapshots
begin

text \<open>
  Session snapshots (\<open>session.rs\<close>), commands (\<open>command.rs\<close>) and normalized events
  (\<open>event.rs\<close>): the data a Provider publishes and a Channel submits.
\<close>

section \<open>Sessions\<close>

datatype agent_state =
    Initializing | Idle | Running | WaitingForInteraction | Completed | Failed | Cancelled

datatype connection_state = Connected | Reconnecting | Disconnected

record agent_session =
  ses_id :: session_id
  ses_provider_id :: provider_id
  ses_external_id :: "external_id option"
  ses_title :: "non_empty_text option"
  ses_workspace :: "workspace_ref option"
  ses_state :: agent_state
  ses_connection_state :: connection_state
  ses_revision :: revision
  ses_created_at :: timestamp
  ses_updated_at :: timestamp

text \<open>The builder has the fields of the snapshot it builds; only \<open>build\<close> validates.\<close>

type_synonym agent_session_builder = agent_session

definition session_builder :: "session_id \<Rightarrow> provider_id \<Rightarrow> timestamp \<Rightarrow> agent_session_builder" where
  "session_builder i provider created_at =
     \<lparr>ses_id = i, ses_provider_id = provider, ses_external_id = None, ses_title = None,
      ses_workspace = None, ses_state = Initializing, ses_connection_state = Connected,
      ses_revision = counter_FIRST, ses_created_at = created_at, ses_updated_at = created_at\<rparr>"

definition sb_external_id :: "agent_session_builder \<Rightarrow> external_id \<Rightarrow> agent_session_builder" where
  "sb_external_id b x = b\<lparr>ses_external_id := Some x\<rparr>"

definition sb_title :: "agent_session_builder \<Rightarrow> non_empty_text \<Rightarrow> agent_session_builder" where
  "sb_title b x = b\<lparr>ses_title := Some x\<rparr>"

definition sb_workspace :: "agent_session_builder \<Rightarrow> workspace_ref \<Rightarrow> agent_session_builder" where
  "sb_workspace b x = b\<lparr>ses_workspace := Some x\<rparr>"

definition sb_state :: "agent_session_builder \<Rightarrow> agent_state \<Rightarrow> agent_session_builder" where
  "sb_state b x = b\<lparr>ses_state := x\<rparr>"

definition sb_connection_state ::
  "agent_session_builder \<Rightarrow> connection_state \<Rightarrow> agent_session_builder" where
  "sb_connection_state b x = b\<lparr>ses_connection_state := x\<rparr>"

definition sb_revision ::
  "agent_session_builder \<Rightarrow> revision \<Rightarrow> timestamp \<Rightarrow> agent_session_builder" where
  "sb_revision b r updated_at = b\<lparr>ses_revision := r, ses_updated_at := updated_at\<rparr>"

definition session_build :: "agent_session_builder \<Rightarrow> (agent_session, domain_error) result" where
  "session_build b =
     (if ses_updated_at b < ses_created_at b
      then Err (InvalidTimeOrder ''session created_at'' ''session updated_at'')
      else Ok b)"

definition observe_state ::
  "agent_state \<Rightarrow> revision \<Rightarrow> timestamp \<Rightarrow> agent_session \<Rightarrow> agent_session" where
  "observe_state st r observed_at s =
     (let s1 = s\<lparr>ses_state := st, ses_revision := r\<rparr>
      in if observed_at > ses_updated_at s then s1\<lparr>ses_updated_at := observed_at\<rparr> else s1)"

definition observe_connection_state ::
  "connection_state \<Rightarrow> revision \<Rightarrow> timestamp \<Rightarrow> agent_session \<Rightarrow> agent_session" where
  "observe_connection_state cs r observed_at s =
     (let s1 = s\<lparr>ses_connection_state := cs, ses_revision := r\<rparr>
      in if observed_at > ses_updated_at s then s1\<lparr>ses_updated_at := observed_at\<rparr> else s1)"

definition wf_session :: "agent_session \<Rightarrow> bool" where
  [wf_defs]: "wf_session s \<longleftrightarrow> ses_created_at s \<le> ses_updated_at s \<and> ses_revision s \<noteq> 0
     \<and> pred_option (\<lambda>x. wf_text (external_text x)) (ses_external_id s)
     \<and> pred_option wf_text (ses_title s) \<and> pred_option wf_workspace (ses_workspace s)"

lemma session_build_Ok_iff [result_simps]:
  "session_build b = Ok s \<longleftrightarrow> ses_created_at b \<le> ses_updated_at b \<and> s = b"
  by (auto simp: session_build_def)

lemma observe_state_simps [simp]:
  "ses_id (observe_state st r t s) = ses_id s"
  "ses_provider_id (observe_state st r t s) = ses_provider_id s"
  "ses_external_id (observe_state st r t s) = ses_external_id s"
  "ses_title (observe_state st r t s) = ses_title s"
  "ses_workspace (observe_state st r t s) = ses_workspace s"
  "ses_state (observe_state st r t s) = st"
  "ses_connection_state (observe_state st r t s) = ses_connection_state s"
  "ses_revision (observe_state st r t s) = r"
  "ses_created_at (observe_state st r t s) = ses_created_at s"
  "ses_updated_at (observe_state st r t s) = max (ses_updated_at s) t"
  by (auto simp: observe_state_def Let_def max_def)

lemma observe_connection_state_simps [simp]:
  "ses_id (observe_connection_state cs r t s) = ses_id s"
  "ses_provider_id (observe_connection_state cs r t s) = ses_provider_id s"
  "ses_external_id (observe_connection_state cs r t s) = ses_external_id s"
  "ses_title (observe_connection_state cs r t s) = ses_title s"
  "ses_workspace (observe_connection_state cs r t s) = ses_workspace s"
  "ses_state (observe_connection_state cs r t s) = ses_state s"
  "ses_connection_state (observe_connection_state cs r t s) = cs"
  "ses_revision (observe_connection_state cs r t s) = r"
  "ses_created_at (observe_connection_state cs r t s) = ses_created_at s"
  "ses_updated_at (observe_connection_state cs r t s) = max (ses_updated_at s) t"
  by (auto simp: observe_connection_state_def Let_def max_def)

lemma wf_session_observe:
  "wf_session s \<Longrightarrow> r \<noteq> 0 \<Longrightarrow> wf_session (observe_state st r t s)"
  "wf_session s \<Longrightarrow> r \<noteq> 0 \<Longrightarrow> wf_session (observe_connection_state cs r t s)"
  by (auto simp: wf_session_def)

section \<open>Commands\<close>

datatype prompt_delivery = DeliverQueue | DeliverSteer

datatype queue_action = QueuePause | QueueResume | QueueClear

datatype agent_command_payload =
    SubmitPrompt non_empty_text prompt_delivery
  | CancelSession "non_empty_text option"
  | ListModels
  | SelectModel non_empty_text "non_empty_text option"
  | SetPlanMode bool
  | ListThreads "non_empty_text option"
  | ResumeThread non_empty_text
  | StartThread non_empty_text
  | Compact
  | Review "non_empty_text option"
  | Rename non_empty_text
  | Fork
  | Status
  | ListPermissionProfiles
  | SelectPermissionProfile non_empty_text
  | Queue queue_action

fun command_required_provider_capability :: "agent_command_payload \<Rightarrow> provider_capabilities" where
  "command_required_provider_capability (SubmitPrompt _ _) = PC_PROMPT_SUBMIT"
| "command_required_provider_capability (CancelSession _) = PC_CANCEL"
| "command_required_provider_capability _ = PC_CONTROL"

fun command_required_channel_capabilities :: "agent_command_payload \<Rightarrow> channel_capabilities" where
  "command_required_channel_capabilities (SubmitPrompt _ _) = cc_union CC_REMOTE_COMMAND CC_TEXT_INPUT"
| "command_required_channel_capabilities (SelectModel _ _) = cc_union CC_REMOTE_COMMAND CC_TEXT_INPUT"
| "command_required_channel_capabilities (ListThreads _) = cc_union CC_REMOTE_COMMAND CC_TEXT_INPUT"
| "command_required_channel_capabilities (ResumeThread _) = cc_union CC_REMOTE_COMMAND CC_TEXT_INPUT"
| "command_required_channel_capabilities (StartThread _) = cc_union CC_REMOTE_COMMAND CC_TEXT_INPUT"
| "command_required_channel_capabilities (Review _) = cc_union CC_REMOTE_COMMAND CC_TEXT_INPUT"
| "command_required_channel_capabilities (Rename _) = cc_union CC_REMOTE_COMMAND CC_TEXT_INPUT"
| "command_required_channel_capabilities (SelectPermissionProfile _) =
     cc_union CC_REMOTE_COMMAND CC_TEXT_INPUT"
| "command_required_channel_capabilities (CancelSession _) = CC_REMOTE_COMMAND"
| "command_required_channel_capabilities ListModels = CC_REMOTE_COMMAND"
| "command_required_channel_capabilities (SetPlanMode _) = CC_REMOTE_COMMAND"
| "command_required_channel_capabilities Compact = CC_REMOTE_COMMAND"
| "command_required_channel_capabilities Fork = CC_REMOTE_COMMAND"
| "command_required_channel_capabilities Status = CC_REMOTE_COMMAND"
| "command_required_channel_capabilities ListPermissionProfiles = CC_REMOTE_COMMAND"
| "command_required_channel_capabilities (Queue _) = CC_REMOTE_COMMAND"

record agent_command =
  cmd_id :: command_id
  cmd_session_id :: session_id
  cmd_channel_id :: channel_id
  cmd_issued_at :: timestamp
  cmd_payload :: agent_command_payload

fun wf_command_payload :: "agent_command_payload \<Rightarrow> bool" where
  "wf_command_payload (SubmitPrompt t _) = wf_text t"
| "wf_command_payload (CancelSession r) = pred_option wf_text r"
| "wf_command_payload (SelectModel m e) = (wf_text m \<and> pred_option wf_text e)"
| "wf_command_payload (ListThreads c) = pred_option wf_text c"
| "wf_command_payload (ResumeThread t) = wf_text t"
| "wf_command_payload (StartThread t) = wf_text t"
| "wf_command_payload (Review i) = pred_option wf_text i"
| "wf_command_payload (Rename t) = wf_text t"
| "wf_command_payload (SelectPermissionProfile t) = wf_text t"
| "wf_command_payload _ = True"

definition wf_command :: "agent_command \<Rightarrow> bool" where
  [wf_defs]: "wf_command c \<longleftrightarrow> wf_command_payload (cmd_payload c)"

section \<open>Events\<close>

datatype agent_message_level = LevelInfo | LevelWarning | LevelError

datatype agent_message_role = RoleUser | RoleAssistant | RoleSystem

record agent_message =
  msg_role :: agent_message_role
  msg_level :: agent_message_level
  msg_content :: non_empty_text

definition AgentMessage_new :: "agent_message_level \<Rightarrow> non_empty_text \<Rightarrow> agent_message" where
  "AgentMessage_new level content =
     \<lparr>msg_role = RoleAssistant, msg_level = level, msg_content = content\<rparr>"

datatype tool_outcome = ToolSucceeded | ToolFailed | ToolCancelled

datatype tool_activity =
    ToolStarted tool_call_id non_empty_text "non_empty_text option"
  | ToolFinished tool_call_id tool_outcome "non_empty_text option"

datatype session_outcome =
    OutcomeCompleted "non_empty_text option"
  | OutcomeFailed non_empty_text
  | OutcomeCancelled "non_empty_text option"

datatype agent_event_payload =
    SessionStarted agent_session
  | StateChanged agent_state
  | ConnectionChanged connection_state
  | Message agent_message
  | ToolActivity tool_activity
  | PlanUpdated plan_snapshot
  | ProgressUpdated progress_snapshot
  | InteractionRequested interaction_request
  | InteractionResponded interaction_response
  | InteractionClosed interaction_closed
  | CommandIssued agent_command
  | SessionEnded session_outcome

fun event_required_provider_capability :: "agent_event_payload \<Rightarrow> provider_capabilities" where
  "event_required_provider_capability (SessionStarted _) = PC_SESSION_STATE"
| "event_required_provider_capability (StateChanged _) = PC_SESSION_STATE"
| "event_required_provider_capability (ConnectionChanged _) = PC_SESSION_STATE"
| "event_required_provider_capability (SessionEnded _) = PC_SESSION_STATE"
| "event_required_provider_capability (Message _) = PC_NONE"
| "event_required_provider_capability (ToolActivity _) = PC_TOOL_EVENTS"
| "event_required_provider_capability (PlanUpdated _) = PC_PLAN"
| "event_required_provider_capability (ProgressUpdated _) = PC_PROGRESS"
| "event_required_provider_capability (InteractionRequested r) =
     required_provider_request_capability (ir_payload r)"
| "event_required_provider_capability (InteractionResponded r) =
     response_required_provider_capability (is_payload r)"
| "event_required_provider_capability (InteractionClosed _) = PC_APPROVAL_REQUEST"
| "event_required_provider_capability (CommandIssued c) =
     command_required_provider_capability (cmd_payload c)"

record agent_event =
  ev_id :: event_id
  ev_session_id :: session_id
  ev_sequence :: event_sequence
  ev_occurred_at :: timestamp
  ev_payload :: agent_event_payload

fun embedded_session_id :: "agent_event_payload \<Rightarrow> session_id option" where
  "embedded_session_id (SessionStarted s) = Some (ses_id s)"
| "embedded_session_id (InteractionRequested r) = Some (ir_session_id r)"
| "embedded_session_id (InteractionResponded r) = Some (is_session_id r)"
| "embedded_session_id (InteractionClosed c) = Some (ic_session_id c)"
| "embedded_session_id (CommandIssued c) = Some (cmd_session_id c)"
| "embedded_session_id _ = None"

definition AgentEvent_new ::
  "event_id \<Rightarrow> session_id \<Rightarrow> event_sequence \<Rightarrow> timestamp \<Rightarrow> agent_event_payload
     \<Rightarrow> (agent_event, domain_error) result" where
  "AgentEvent_new i sid seq occurred_at payload =
     (case embedded_session_id payload of
        Some embedded \<Rightarrow>
          if embedded \<noteq> sid
          then Err (CorrelationMismatch ''event session ID''
                 (Shown (session_uuid sid)) (Shown (session_uuid embedded)))
          else Ok \<lparr>ev_id = i, ev_session_id = sid, ev_sequence = seq,
                   ev_occurred_at = occurred_at, ev_payload = payload\<rparr>
      | None \<Rightarrow> Ok \<lparr>ev_id = i, ev_session_id = sid, ev_sequence = seq,
                   ev_occurred_at = occurred_at, ev_payload = payload\<rparr>)"

fun wf_tool_activity :: "tool_activity \<Rightarrow> bool" where
  "wf_tool_activity (ToolStarted _ name summary) = (wf_text name \<and> pred_option wf_text summary)"
| "wf_tool_activity (ToolFinished _ _ summary) = pred_option wf_text summary"

fun wf_outcome :: "session_outcome \<Rightarrow> bool" where
  "wf_outcome (OutcomeCompleted s) = pred_option wf_text s"
| "wf_outcome (OutcomeFailed e) = wf_text e"
| "wf_outcome (OutcomeCancelled r) = pred_option wf_text r"

fun wf_event_payload :: "agent_event_payload \<Rightarrow> bool" where
  "wf_event_payload (SessionStarted s) = wf_session s"
| "wf_event_payload (Message m) = wf_text (msg_content m)"
| "wf_event_payload (ToolActivity a) = wf_tool_activity a"
| "wf_event_payload (PlanUpdated p) = wf_plan p"
| "wf_event_payload (ProgressUpdated p) = wf_progress p"
| "wf_event_payload (InteractionRequested r) = wf_request r"
| "wf_event_payload (InteractionResponded r) = wf_response r"
| "wf_event_payload (CommandIssued c) = wf_command c"
| "wf_event_payload (SessionEnded out) = wf_outcome out"
| "wf_event_payload _ = True"

text \<open>What every \<open>AgentEvent\<close> value satisfies: its fields are private and \<open>new\<close> is the
  only way to make one.\<close>

definition wf_event :: "agent_event \<Rightarrow> bool" where
  [wf_defs]: "wf_event e \<longleftrightarrow> ev_sequence e \<noteq> 0 \<and> wf_event_payload (ev_payload e)
     \<and> pred_option (\<lambda>sid. sid = ev_session_id e) (embedded_session_id (ev_payload e))"

lemma AgentEvent_new_Ok_iff [result_simps]:
  "AgentEvent_new i sid q t p = Ok e \<longleftrightarrow> pred_option (\<lambda>x. x = sid) (embedded_session_id p)
     \<and> e = \<lparr>ev_id = i, ev_session_id = sid, ev_sequence = q, ev_occurred_at = t, ev_payload = p\<rparr>"
  by (auto simp: AgentEvent_new_def split: option.splits)

end
