(* ===== verification/Routing.thy ===== *)
theory Routing
  imports Session_Event
begin

text \<open>
  The centralized Provider-to-Channel policy (\<open>routing.rs\<close>): which Events a Provider may
  publish, whether an interaction is actionable on a route, and which responses and commands
  may be handed to a Provider.
\<close>

datatype interaction_route_kind = ReadOnly | Interactive

datatype channel_event_route_kind = ObserveOnly | InteractionMode interaction_route_kind

datatype capability_route_error =
    ProviderMismatch provider_id provider_id
  | ChannelMismatch channel_id channel_id
  | RouteSessionMismatch session_id session_id
  | MissingProviderCapabilities provider_capabilities provider_capabilities
  | MissingChannelCapabilities channel_capabilities channel_capabilities
  | InvalidRouteResponse domain_error

type_synonym routing_result = "(unit, capability_route_error) result"

definition validate_provider_session :: "provider_descriptor \<Rightarrow> agent_session \<Rightarrow> routing_result" where
  "validate_provider_session provider session =
     (if pd_id provider \<noteq> ses_provider_id session
      then Err (ProviderMismatch (pd_id provider) (ses_provider_id session))
      else Ok ())"

definition validate_session_id :: "session_id \<Rightarrow> session_id \<Rightarrow> routing_result" where
  "validate_session_id expected actual =
     (if expected \<noteq> actual then Err (RouteSessionMismatch expected actual) else Ok ())"

definition validate_channel_id :: "channel_id \<Rightarrow> channel_id \<Rightarrow> routing_result" where
  "validate_channel_id expected actual =
     (if expected \<noteq> actual then Err (ChannelMismatch expected actual) else Ok ())"

definition validate_provider_capabilities ::
  "provider_descriptor \<Rightarrow> provider_capabilities \<Rightarrow> routing_result" where
  "validate_provider_capabilities provider required =
     (let declared = pd_capabilities provider
      in if \<not> pc_contains declared required
         then Err (MissingProviderCapabilities required declared) else Ok ())"

definition validate_channel_capabilities ::
  "channel_descriptor \<Rightarrow> channel_capabilities \<Rightarrow> routing_result" where
  "validate_channel_capabilities channel required =
     (let declared = cd_capabilities channel
      in if \<not> cc_contains declared required
         then Err (MissingChannelCapabilities required declared) else Ok ())"

definition validate_provider_event ::
  "provider_descriptor \<Rightarrow> agent_session \<Rightarrow> agent_event \<Rightarrow> routing_result" where
  "validate_provider_event provider session event =
     and_then (validate_provider_session provider session) (\<lambda>_.
     and_then (validate_session_id (ses_id session) (ev_session_id event)) (\<lambda>_.
     and_then (case ev_payload event of
                 SessionStarted event_session \<Rightarrow> validate_provider_session provider event_session
               | _ \<Rightarrow> Ok ()) (\<lambda>_.
     validate_provider_capabilities provider
       (event_required_provider_capability (ev_payload event)))))"

definition interaction_route ::
  "provider_descriptor \<Rightarrow> channel_descriptor \<Rightarrow> agent_session \<Rightarrow> interaction_request
     \<Rightarrow> (interaction_route_kind, capability_route_error) result" where
  "interaction_route provider channel session request =
     and_then (validate_provider_session provider session) (\<lambda>_.
     and_then (validate_session_id (ses_id session) (ir_session_id request)) (\<lambda>_.
     and_then (validate_provider_capabilities provider
                 (required_provider_request_capability (ir_payload request))) (\<lambda>_.
     let provider_accepts_response =
           pc_contains (pd_capabilities provider)
             (required_provider_response_capability (ir_payload request));
         channel_collects_response =
           cc_contains (cd_capabilities channel)
             (required_channel_response_capability (ir_payload request))
     in if is_actionable (ir_payload request) \<and> provider_accepts_response
           \<and> channel_collects_response
        then Ok Interactive else Ok ReadOnly)))"

definition channel_event_route ::
  "provider_descriptor \<Rightarrow> channel_descriptor \<Rightarrow> agent_session \<Rightarrow> agent_event
     \<Rightarrow> (channel_event_route_kind, capability_route_error) result" where
  "channel_event_route provider channel session event =
     and_then (validate_provider_event provider session event) (\<lambda>_.
     case ev_payload event of
       InteractionRequested request \<Rightarrow>
         and_then (interaction_route provider channel session request)
           (\<lambda>route. Ok (InteractionMode route))
     | _ \<Rightarrow> Ok ObserveOnly)"

definition validate_interaction_response ::
  "provider_descriptor \<Rightarrow> channel_descriptor \<Rightarrow> agent_session \<Rightarrow> interaction_request
     \<Rightarrow> interaction_response \<Rightarrow> routing_result" where
  "validate_interaction_response provider channel session request response =
     and_then (validate_provider_session provider session) (\<lambda>_.
     and_then (validate_session_id (ses_id session) (ir_session_id request)) (\<lambda>_.
     and_then (validate_session_id (ses_id session) (is_session_id response)) (\<lambda>_.
     and_then (validate_channel_id (cd_id channel) (is_channel_id response)) (\<lambda>_.
     and_then (map_err InvalidRouteResponse (validate_response request response)) (\<lambda>_.
     and_then (validate_provider_capabilities provider
                 (required_provider_request_capability (ir_payload request))) (\<lambda>_.
     and_then (validate_provider_capabilities provider
                 (required_provider_response_capability (ir_payload request))) (\<lambda>_.
     validate_channel_capabilities channel
       (required_channel_response_capability (ir_payload request)))))))))"

definition validate_command ::
  "provider_descriptor \<Rightarrow> channel_descriptor \<Rightarrow> agent_session \<Rightarrow> agent_command
     \<Rightarrow> routing_result" where
  "validate_command provider channel session command =
     and_then (validate_provider_session provider session) (\<lambda>_.
     and_then (validate_session_id (ses_id session) (cmd_session_id command)) (\<lambda>_.
     and_then (validate_channel_id (cd_id channel) (cmd_channel_id command)) (\<lambda>_.
     and_then (validate_provider_capabilities provider
                 (command_required_provider_capability (cmd_payload command))) (\<lambda>_.
     validate_channel_capabilities channel
       (command_required_channel_capabilities (cmd_payload command))))))"

section \<open>What each check accepts\<close>

lemma route_checks_Ok [result_simps]:
  "validate_provider_session p s = Ok () \<longleftrightarrow> pd_id p = ses_provider_id s"
  "validate_session_id a b = Ok () \<longleftrightarrow> a = b"
  "validate_channel_id c d = Ok () \<longleftrightarrow> c = d"
  "validate_provider_capabilities p required = Ok () \<longleftrightarrow> pc_contains (pd_capabilities p) required"
  "validate_channel_capabilities ch needed = Ok () \<longleftrightarrow> cc_contains (cd_capabilities ch) needed"
  by (auto simp: validate_provider_session_def validate_session_id_def validate_channel_id_def
      validate_provider_capabilities_def validate_channel_capabilities_def Let_def)

lemma validate_provider_event_Ok [result_simps]:
  "validate_provider_event p s e = Ok () \<longleftrightarrow>
     pd_id p = ses_provider_id s \<and> ses_id s = ev_session_id e
     \<and> (\<forall>s'. ev_payload e = SessionStarted s' \<longrightarrow> pd_id p = ses_provider_id s')
     \<and> pc_contains (pd_capabilities p) (event_required_provider_capability (ev_payload e))"
  by (auto simp: validate_provider_event_def result_simps split: agent_event_payload.splits)

lemma interaction_route_Ok [result_simps]:
  "interaction_route p c s r = Ok route \<longleftrightarrow>
     pd_id p = ses_provider_id s \<and> ses_id s = ir_session_id r
     \<and> pc_contains (pd_capabilities p) (required_provider_request_capability (ir_payload r))
     \<and> route = (if is_actionable (ir_payload r)
           \<and> pc_contains (pd_capabilities p) (required_provider_response_capability (ir_payload r))
           \<and> cc_contains (cd_capabilities c) (required_channel_response_capability (ir_payload r))
         then Interactive else ReadOnly)"
  by (auto simp: interaction_route_def result_simps Let_def)

lemma channel_event_route_Ok [result_simps]:
  "channel_event_route p c s e = Ok route \<longleftrightarrow>
     validate_provider_event p s e = Ok ()
     \<and> (case ev_payload e of
          InteractionRequested r \<Rightarrow>
            \<exists>m. interaction_route p c s r = Ok m \<and> route = InteractionMode m
        | _ \<Rightarrow> route = ObserveOnly)"
  unfolding channel_event_route_def
  by (auto simp: and_then_Ok_iff split: agent_event_payload.splits)

lemma validate_interaction_response_Ok [result_simps]:
  "validate_interaction_response p c s r a = Ok () \<longleftrightarrow>
     pd_id p = ses_provider_id s \<and> ses_id s = ir_session_id r \<and> ses_id s = is_session_id a
     \<and> cd_id c = is_channel_id a \<and> validate_response r a = Ok ()
     \<and> pc_contains (pd_capabilities p) (required_provider_request_capability (ir_payload r))
     \<and> pc_contains (pd_capabilities p) (required_provider_response_capability (ir_payload r))
     \<and> cc_contains (cd_capabilities c) (required_channel_response_capability (ir_payload r))"
  unfolding validate_interaction_response_def
  by (auto simp: and_then_Ok_iff map_err_Ok_iff route_checks_Ok)

lemma validate_command_Ok [result_simps]:
  "validate_command p c s m = Ok () \<longleftrightarrow>
     pd_id p = ses_provider_id s \<and> ses_id s = cmd_session_id m \<and> cd_id c = cmd_channel_id m
     \<and> pc_contains (pd_capabilities p) (command_required_provider_capability (cmd_payload m))
     \<and> cc_contains (cd_capabilities c) (command_required_channel_capabilities (cmd_payload m))"
  unfolding validate_command_def by (auto simp: and_then_Ok_iff route_checks_Ok)

text \<open>An event that validates is routed to every channel: routing never fails afterwards.\<close>

lemma interaction_route_total:
  assumes "pd_id p = ses_provider_id s" and "ses_id s = ir_session_id r"
    and "pc_contains (pd_capabilities p) (required_provider_request_capability (ir_payload r))"
  shows "\<exists>m. interaction_route p c s r = Ok m"
  using assms by (simp add: interaction_route_Ok)

lemma channel_event_route_total:
  assumes valid: "validate_provider_event p s e = Ok ()" and wf: "wf_event e"
  shows "\<exists>route. channel_event_route p c s e = Ok route"
proof (cases "\<exists>r. ev_payload e = InteractionRequested r")
  case True
  then obtain r where r: "ev_payload e = InteractionRequested r" by blast
  with valid wf have "\<exists>m. interaction_route p c s r = Ok m"
    by (intro interaction_route_total) (auto simp: validate_provider_event_Ok wf_event_def)
  with valid r show ?thesis by (auto simp: channel_event_route_Ok)
next
  case False
  with valid have "channel_event_route p c s e = Ok ObserveOnly"
    by (auto simp: channel_event_route_Ok split: agent_event_payload.splits)
  then show ?thesis by blast
qed

lemma answers_actionable: "answers p q \<Longrightarrow> is_actionable p"
  by (cases "(p, q)" rule: answers.cases) (auto simp: ar_is_actionable_def)

end
