(* ===== verification/Ports.thy ===== *)
theory Ports
  imports Routing
begin

text \<open>
  The Provider and Channel port contracts (\<open>port.rs\<close>), the registry that erases their types
  (\<open>registry.rs\<close>), and the values the Bridge hands to a Channel. An adapter is code outside
  the Bridge: its methods are a record of functions on the adapter's own state (\<open>'p\<close> for a
  Provider, \<open>'c\<close> for a Channel), each returning a result and the adapter as it is left. A
  heterogeneous registry is the case where that state is itself a tagged union.
\<close>

text \<open>\<open>BoxAdapterError\<close>: an adapter's error \<open>'x\<close>, or the Bridge's own \<open>io::Error\<close>.\<close>

datatype 'x adapter_error = Boxed 'x | IoError string

record routed_agent_event =
  rae_event :: agent_event
  rae_route :: channel_event_route_kind

record routed_interaction_request =
  rir_request :: interaction_request
  rir_route :: interaction_route_kind

record channel_session_baseline =
  csb_session :: agent_session
  csb_sequence :: event_sequence
  csb_pending_interactions :: "routed_interaction_request list"

record channel_session_sync =
  css_after_sequence :: u64
  css_through_sequence :: u64
  css_reset :: bool
  css_events :: "routed_agent_event list"
  css_baseline :: "channel_session_baseline option"

definition css_is_final :: "channel_session_sync \<Rightarrow> bool" where
  "css_is_final sync \<longleftrightarrow> css_baseline sync \<noteq> None"

section \<open>Ports\<close>

record ('p, 'x) provider_port =
  pp_descriptor :: "'p \<Rightarrow> provider_descriptor"
  pp_accept_interaction_response :: "'p \<Rightarrow> interaction_response \<Rightarrow> (unit, 'x) result \<times> 'p"
  pp_accept_command :: "'p \<Rightarrow> agent_command \<Rightarrow> (unit, 'x) result \<times> 'p"

record ('c, 'x) channel_port =
  cp_descriptor :: "'c \<Rightarrow> channel_descriptor"
  cp_deliver_event :: "'c \<Rightarrow> agent_event \<Rightarrow> channel_event_route_kind \<Rightarrow> (unit, 'x) result \<times> 'c"
  cp_deliver_session :: "'c \<Rightarrow> agent_session \<Rightarrow> (unit, 'x) result \<times> 'c"
  cp_deliver_session_baseline :: "'c \<Rightarrow> channel_session_baseline \<Rightarrow> (unit, 'x) result \<times> 'c"
  cp_deliver_session_sync :: "'c \<Rightarrow> channel_session_sync \<Rightarrow> (unit, 'x) result \<times> 'c"

text \<open>The trait's provided methods, for an adapter that does not override them.\<close>

definition default_deliver_session_baseline ::
  "('c \<Rightarrow> agent_session \<Rightarrow> (unit, 'x) result \<times> 'c)
     \<Rightarrow> 'c \<Rightarrow> channel_session_baseline \<Rightarrow> (unit, 'x) result \<times> 'c" where
  "default_deliver_session_baseline deliver_session c baseline =
     deliver_session c (csb_session baseline)"

fun deliver_routed ::
  "('c \<Rightarrow> agent_event \<Rightarrow> channel_event_route_kind \<Rightarrow> (unit, 'x) result \<times> 'c)
     \<Rightarrow> 'c \<Rightarrow> routed_agent_event list \<Rightarrow> (unit, 'x) result \<times> 'c" where
  "deliver_routed deliver_event c [] = (Ok (), c)"
| "deliver_routed deliver_event c (routed # rest) =
     (case deliver_event c (rae_event routed) (rae_route routed) of
        (Err e, c') \<Rightarrow> (Err e, c')
      | (Ok _, c') \<Rightarrow> deliver_routed deliver_event c' rest)"

definition default_deliver_session_sync ::
  "('c \<Rightarrow> agent_event \<Rightarrow> channel_event_route_kind \<Rightarrow> (unit, 'x) result \<times> 'c)
     \<Rightarrow> ('c \<Rightarrow> channel_session_baseline \<Rightarrow> (unit, 'x) result \<times> 'c)
     \<Rightarrow> 'c \<Rightarrow> channel_session_sync \<Rightarrow> (unit, 'x) result \<times> 'c" where
  "default_deliver_session_sync deliver_event deliver_session_baseline c sync =
     (case deliver_routed deliver_event c (css_events sync) of
        (Err e, c') \<Rightarrow> (Err e, c')
      | (Ok _, c') \<Rightarrow>
          (case css_baseline sync of
             Some baseline \<Rightarrow> deliver_session_baseline c' baseline
           | None \<Rightarrow> (Ok (), c')))"

section \<open>The registry\<close>

record 'p registered_provider =
  rp_descriptor :: provider_descriptor
  rp_port :: 'p

record 'c registered_channel =
  rc_descriptor :: channel_descriptor
  rc_port :: 'c

definition rp_handoff ::
  "('p \<Rightarrow> 'm \<Rightarrow> (unit, 'x) result \<times> 'p) \<Rightarrow> 'p registered_provider \<Rightarrow> 'm
     \<Rightarrow> (unit, 'x adapter_error) result \<times> 'p registered_provider" where
  "rp_handoff call reg message =
     (case call (rp_port reg) message of (r, port) \<Rightarrow> (map_err Boxed r, reg\<lparr>rp_port := port\<rparr>))"

definition rp_accept_interaction_response ::
  "('p, 'x) provider_port \<Rightarrow> 'p registered_provider \<Rightarrow> interaction_response
     \<Rightarrow> (unit, 'x adapter_error) result \<times> 'p registered_provider" where
  "rp_accept_interaction_response port = rp_handoff (pp_accept_interaction_response port)"

definition rp_accept_command ::
  "('p, 'x) provider_port \<Rightarrow> 'p registered_provider \<Rightarrow> agent_command
     \<Rightarrow> (unit, 'x adapter_error) result \<times> 'p registered_provider" where
  "rp_accept_command port = rp_handoff (pp_accept_command port)"

definition rc_handoff ::
  "('c \<Rightarrow> (unit, 'x) result \<times> 'c) \<Rightarrow> 'c registered_channel
     \<Rightarrow> (unit, 'x adapter_error) result \<times> 'c registered_channel" where
  "rc_handoff call reg =
     (case call (rc_port reg) of (r, port) \<Rightarrow> (map_err Boxed r, reg\<lparr>rc_port := port\<rparr>))"

definition rc_deliver_event ::
  "('c, 'x) channel_port \<Rightarrow> 'c registered_channel \<Rightarrow> agent_event \<Rightarrow> channel_event_route_kind
     \<Rightarrow> (unit, 'x adapter_error) result \<times> 'c registered_channel" where
  "rc_deliver_event port reg event route =
     rc_handoff (\<lambda>c. cp_deliver_event port c event route) reg"

definition rc_deliver_session ::
  "('c, 'x) channel_port \<Rightarrow> 'c registered_channel \<Rightarrow> agent_session
     \<Rightarrow> (unit, 'x adapter_error) result \<times> 'c registered_channel" where
  "rc_deliver_session port reg session = rc_handoff (\<lambda>c. cp_deliver_session port c session) reg"

definition rc_deliver_session_baseline ::
  "('c, 'x) channel_port \<Rightarrow> 'c registered_channel \<Rightarrow> channel_session_baseline
     \<Rightarrow> (unit, 'x adapter_error) result \<times> 'c registered_channel" where
  "rc_deliver_session_baseline port reg baseline =
     rc_handoff (\<lambda>c. cp_deliver_session_baseline port c baseline) reg"

definition rc_deliver_session_sync ::
  "('c, 'x) channel_port \<Rightarrow> 'c registered_channel \<Rightarrow> channel_session_sync
     \<Rightarrow> (unit, 'x adapter_error) result \<times> 'c registered_channel" where
  "rc_deliver_session_sync port reg sync =
     rc_handoff (\<lambda>c. cp_deliver_session_sync port c sync) reg"

text \<open>A handoff never changes the descriptor snapshot taken at registration.\<close>

lemma rp_handoff_descriptor: "rp_handoff call reg m = (r, reg') \<Longrightarrow> rp_descriptor reg' = rp_descriptor reg"
  by (auto simp: rp_handoff_def split: prod.splits)

lemma rc_handoff_descriptor: "rc_handoff call reg = (r, reg') \<Longrightarrow> rc_descriptor reg' = rc_descriptor reg"
  by (auto simp: rc_handoff_def split: prod.splits)

lemmas rp_calls = rp_accept_interaction_response_def rp_accept_command_def

lemmas rc_calls = rc_deliver_event_def rc_deliver_session_def rc_deliver_session_baseline_def
  rc_deliver_session_sync_def

lemma default_sync_delivers_all:
  assumes "deliver_routed deliver c rs = (Ok (), c')"
  shows "\<exists>cs. length cs = length rs + 1 \<and> cs ! 0 = c \<and> cs ! length rs = c'
    \<and> (\<forall>i < length rs. deliver (cs ! i) (rae_event (rs ! i)) (rae_route (rs ! i)) = (Ok (), cs ! Suc i))"
  using assms
proof (induction rs arbitrary: c)
  case (Cons r rs)
  obtain c1 where first: "deliver c (rae_event r) (rae_route r) = (Ok (), c1)"
    and rest: "deliver_routed deliver c1 rs = (Ok (), c')"
    using Cons.prems by (auto split: prod.splits sum.splits)
  obtain cs where cs: "length cs = length rs + 1" "cs ! 0 = c1" "cs ! length rs = c'"
    "\<forall>i < length rs. deliver (cs ! i) (rae_event (rs ! i)) (rae_route (rs ! i)) = (Ok (), cs ! Suc i)"
    using Cons.IH [OF rest] by blast
  show ?case
    by (rule exI [of _ "c # cs"]) (use cs first in \<open>auto simp: nth_Cons split: nat.splits\<close>)
qed (auto intro: exI [of _ "[c']"])

end
