(* ===== verification/Machines.thy ===== *)
theory Machines
  imports Prelude
begin

text \<open>
  Two interfaces between the event reducer and what is built on it. \<open>atomic_machine\<close>: a
  step that fails leaves the state as it was, so a driver may feed any input. \<open>paged_log\<close>:
  a bounded history read in pages by a cursor.
\<close>

fun run_steps :: "('s \<Rightarrow> 'e \<Rightarrow> 'r \<times> 's) \<Rightarrow> 's \<Rightarrow> 'e list \<Rightarrow> 's" where
  "run_steps step s [] = s"
| "run_steps step s (e # es) = run_steps step (snd (step s e)) es"

fun accepted_inputs :: "('s \<Rightarrow> 'e \<Rightarrow> ('a, 'x) result \<times> 's) \<Rightarrow> 's \<Rightarrow> 'e list \<Rightarrow> 'e list" where
  "accepted_inputs step s [] = []"
| "accepted_inputs step s (e # es) =
     (case step s e of
        (Ok _, s') \<Rightarrow> e # accepted_inputs step s' es
      | (Err _, s') \<Rightarrow> accepted_inputs step s' es)"

locale atomic_machine =
  fixes step :: "'s \<Rightarrow> 'e \<Rightarrow> ('a, 'x) result \<times> 's"
  assumes rejected_keeps: "step s e = (Err x, s') \<Longrightarrow> s' = s"
begin

lemma rejected_snd: "fst (step s e) = Err x \<Longrightarrow> snd (step s e) = s"
  by (cases "step s e") (auto dest: rejected_keeps)

lemma run_accepted: "run_steps step s (accepted_inputs step s es) = run_steps step s es"
  by (induction es arbitrary: s) (auto split: prod.splits sum.splits dest: rejected_keeps)

lemma run_invariant:
  assumes "\<And>s e a s'. P s \<Longrightarrow> e \<in> set es \<Longrightarrow> step s e = (Ok a, s') \<Longrightarrow> P s'" and "P s"
  shows "P (run_steps step s es)"
  using assms
proof (induction es arbitrary: s)
  case (Cons e es)
  have "P (snd (step s e))"
  proof (cases "step s e")
    case (Pair r s')
    show ?thesis
    proof (cases r)
      case (Inl x)
      with Pair Cons.prems(2) rejected_keeps show ?thesis by fastforce
    next
      case (Inr a)
      with Pair have "step s e = (Ok a, s')" by simp
      from Cons.prems(1) [OF Cons.prems(2) _ this] Pair show ?thesis by simp
    qed
  qed
  then have "P (run_steps step (snd (step s e)) es)"
    by (rule Cons.IH [rotated]) (erule Cons.prems(1), simp_all)
  then show ?case by simp
qed simp

end

locale paged_log =
  fixes hist :: "'s \<Rightarrow> 'e list \<Rightarrow> bool"
    and page :: "'s \<Rightarrow> u64 \<Rightarrow> usize \<Rightarrow> 'e list option"
  assumes page_content: "hist s log \<Longrightarrow> page s a n = Some p \<Longrightarrow>
      unat a \<le> length log \<and> p = take n (drop (unat a) log)"
    and page_later: "hist s log \<Longrightarrow> page s a n = Some p \<Longrightarrow> a \<le> b \<Longrightarrow> unat b \<le> length log
      \<Longrightarrow> \<exists>q. page s b m = Some q"
    and log_bound: "hist s log \<Longrightarrow> length log < 2 ^ 64"
begin

lemma page_progress:
  "hist s log \<Longrightarrow> page s a n = Some p \<Longrightarrow> 0 < n \<Longrightarrow> p = [] \<longleftrightarrow> unat a = length log"
  using page_content [of s log a n p] by auto

lemma page_advance:
  assumes h: "hist s log" and p: "page s a n = Some p"
  shows "unat (a + of_nat (length p)) = unat a + length p" and "unat a + length p \<le> length log"
proof -
  show le: "unat a + length p \<le> length log"
    using page_content [OF h p] by auto
  with log_bound [OF h] show "unat (a + of_nat (length p)) = unat a + length p"
    by (simp add: unat_word_ariths unat_of_nat)
qed

text \<open>Advancing the cursor by the length of a page reads the next part of the log: nothing is
  skipped or repeated.\<close>

lemma next_page_contiguous:
  assumes h: "hist s log" and p: "page s a n = Some p"
    and q: "page s (a + of_nat (length p)) m = Some q"
  shows "p @ q = take (length p + m) (drop (unat a) log)"
proof -
  have "p = take (length p) (drop (unat a) log)"
    using page_content [OF h p] by (metis append_take_drop_id length_append append_eq_conv_conj)
  moreover have "q = take m (drop (unat a + length p) log)"
    using page_content [OF h q] page_advance(1) [OF h p] by simp
  ultimately show ?thesis by (metis add.commute drop_drop take_add)
qed

lemma next_page_exists:
  assumes h: "hist s log" and p: "page s a n = Some p"
  shows "\<exists>q. page s (a + of_nat (length p)) m = Some q"
proof (rule page_later [OF h p])
  show "a \<le> a + of_nat (length p)" and "unat (a + of_nat (length p)) \<le> length log"
    using page_advance [OF h p] by (simp_all add: word_le_nat_alt)
qed

end

end
