(* ===== verification/Aggregate.thy ===== *)
theory Aggregate
  imports Session_Event Ordered_Map Machines
begin

text \<open>
  Deterministic reduction of session events into current state (\<open>aggregate.rs\<close>). A method
  on \<open>&mut self\<close> takes the aggregate and returns the result together with the aggregate
  as it is left, also when it fails, so that atomicity is a theorem and not built in.
  \<open>history cfg log agg\<close> says that \<open>agg\<close> is reached from an initial event by any
  sequence of accepted, retried and rejected events, \<open>log\<close> being the accepted ones.
\<close>

datatype snapshot_kind = SnapshotPlan | SnapshotProgress

datatype reduce_error =
    EmptyReplay
  | InvalidInitialSequence event_sequence
  | InitialEventNotSessionStarted
  | SessionMismatch session_id session_id
  | StaleSequence event_sequence event_sequence
  | SequenceConflict event_sequence event_id event_id
  | SequenceGap event_sequence event_sequence
  | SequenceExhausted
  | UnexpectedSessionStarted
  | StaleRevision snapshot_kind revision revision
  | SessionRevisionExhausted
  | ToolAlreadyActive tool_call_id
  | ToolNotActive tool_call_id
  | InteractionAlreadyPending interaction_id
  | InteractionNotPending interaction_id
  | InvalidInteractionResponse interaction_id domain_error

datatype apply_outcome = Applied | AlreadyApplied

record session_aggregate_config =
  cfg_recent_event_capacity :: usize
  cfg_retain_all_events :: bool

definition DEFAULT_RECENT_EVENT_CAPACITY :: usize where
  "DEFAULT_RECENT_EVENT_CAPACITY = 256"

definition SessionAggregateConfig_new :: "usize \<Rightarrow> session_aggregate_config" where
  "SessionAggregateConfig_new capacity =
     \<lparr>cfg_recent_event_capacity = capacity, cfg_retain_all_events = False\<rparr>"

definition SessionAggregateConfig_retain_all :: session_aggregate_config where
  "SessionAggregateConfig_retain_all =
     \<lparr>cfg_recent_event_capacity = 0, cfg_retain_all_events = True\<rparr>"

definition SessionAggregateConfig_default :: session_aggregate_config where
  "SessionAggregateConfig_default = SessionAggregateConfig_new DEFAULT_RECENT_EVENT_CAPACITY"

record active_tool_call =
  tool_id :: tool_call_id
  tool_name :: non_empty_text
  tool_summary :: "non_empty_text option"
  tool_started_at :: timestamp

record session_aggregate =
  agg_config :: session_aggregate_config
  agg_session :: agent_session
  agg_plan :: "plan_snapshot option"
  agg_progress :: "progress_snapshot option"
  agg_active_tool_calls :: "(tool_call_id, active_tool_call) btree_map"
  agg_pending_interactions :: "(interaction_id, interaction_request) btree_map"
  agg_latest_outcome :: "session_outcome option"
  agg_last_event :: agent_event
  agg_recent_events :: "agent_event list"

abbreviation last_sequence :: "session_aggregate \<Rightarrow> event_sequence" where
  "last_sequence agg \<equiv> ev_sequence (agg_last_event agg)"

section \<open>Construction\<close>

definition from_initial_event_with_config ::
  "agent_event \<Rightarrow> session_aggregate_config \<Rightarrow> (session_aggregate, reduce_error) result" where
  "from_initial_event_with_config initial_event config =
     (if ev_sequence initial_event \<noteq> counter_FIRST
      then Err (InvalidInitialSequence (ev_sequence initial_event))
      else case ev_payload initial_event of
        SessionStarted session \<Rightarrow>
          Ok \<lparr>agg_config = config, agg_session = session, agg_plan = None, agg_progress = None,
              agg_active_tool_calls = bt_empty, agg_pending_interactions = bt_empty,
              agg_latest_outcome = None, agg_last_event = initial_event,
              agg_recent_events =
                (if cfg_retain_all_events config \<or> cfg_recent_event_capacity config > 0
                 then [initial_event] else [])\<rparr>
      | _ \<Rightarrow> Err InitialEventNotSessionStarted)"

definition from_initial_event :: "agent_event \<Rightarrow> (session_aggregate, reduce_error) result" where
  "from_initial_event initial_event =
     from_initial_event_with_config initial_event SessionAggregateConfig_default"

section \<open>Applying one event\<close>

definition validate_cursor :: "session_aggregate \<Rightarrow> agent_event \<Rightarrow> (bool, reduce_error) result" where
  "validate_cursor agg event =
     (if ev_session_id event \<noteq> ses_id (agg_session agg)
      then Err (SessionMismatch (ses_id (agg_session agg)) (ev_session_id event))
      else if ev_sequence event < last_sequence agg
      then Err (StaleSequence (last_sequence agg) (ev_sequence event))
      else if ev_sequence event = last_sequence agg
      then (if event = agg_last_event agg then Ok True
            else Err (SequenceConflict (ev_sequence event) (ev_id (agg_last_event agg))
                        (ev_id event)))
      else and_then (ok_or SequenceExhausted (checked_next (last_sequence agg))) (\<lambda>expected.
           if ev_sequence event \<noteq> expected then Err (SequenceGap expected (ev_sequence event))
           else Ok False))"

definition next_session_revision :: "session_aggregate \<Rightarrow> (revision, reduce_error) result" where
  "next_session_revision agg =
     ok_or SessionRevisionExhausted (checked_next (ses_revision (agg_session agg)))"

definition validate_snapshot_revision ::
  "snapshot_kind \<Rightarrow> revision option \<Rightarrow> revision \<Rightarrow> (unit, reduce_error) result" where
  "validate_snapshot_revision snapshot current incoming =
     (case current of
        Some cur \<Rightarrow> if incoming \<le> cur then Err (StaleRevision snapshot cur incoming) else Ok ()
      | None \<Rightarrow> Ok ())"

fun apply_tool_activity ::
  "tool_activity \<Rightarrow> timestamp \<Rightarrow> session_aggregate
     \<Rightarrow> (unit, reduce_error) result \<times> session_aggregate" where
  "apply_tool_activity (ToolStarted call_id name summary) occurred_at agg =
     (if bt_contains_key (agg_active_tool_calls agg) call_id
      then (Err (ToolAlreadyActive call_id), agg)
      else (Ok (), agg\<lparr>agg_active_tool_calls := bt_insert call_id
              \<lparr>tool_id = call_id, tool_name = name, tool_summary = summary,
               tool_started_at = occurred_at\<rparr> (agg_active_tool_calls agg)\<rparr>))"
| "apply_tool_activity (ToolFinished call_id _ _) occurred_at agg =
     (if \<not> bt_contains_key (agg_active_tool_calls agg) call_id
      then (Err (ToolNotActive call_id), agg)
      else (Ok (), agg\<lparr>agg_active_tool_calls := bt_remove call_id (agg_active_tool_calls agg)\<rparr>))"

fun outcome_agent_state :: "session_outcome \<Rightarrow> agent_state" where
  "outcome_agent_state (OutcomeCompleted _) = Completed"
| "outcome_agent_state (OutcomeFailed _) = Failed"
| "outcome_agent_state (OutcomeCancelled _) = Cancelled"

text \<open>The \<open>while\<close> loop of \<open>record_event\<close>: pop from the front until the window fits.\<close>

function pop_front_to :: "usize \<Rightarrow> 'a list \<Rightarrow> 'a list" where
  "pop_front_to capacity events =
     (if length events > capacity then pop_front_to capacity (tl events) else events)"
  by pat_completeness auto
termination by (relation "measure (\<lambda>(_, events). length events)") auto

declare pop_front_to.simps [simp del]

definition record_event :: "agent_event \<Rightarrow> session_aggregate \<Rightarrow> session_aggregate" where
  "record_event event agg =
     (let agg1 = agg\<lparr>agg_last_event := event\<rparr>; config = agg_config agg
      in if \<not> cfg_retain_all_events config \<and> cfg_recent_event_capacity config = 0 then agg1
         else let agg2 = agg1\<lparr>agg_recent_events := agg_recent_events agg1 @ [event]\<rparr>
              in if \<not> cfg_retain_all_events config
                 then agg2\<lparr>agg_recent_events :=
                        pop_front_to (cfg_recent_event_capacity config) (agg_recent_events agg2)\<rparr>
                 else agg2)"

text \<open>The \<open>match event.payload()\<close> of \<open>apply\<close>. \<open>InteractionClosed\<close> removes first and tests
  what was removed, as the code does.\<close>

fun apply_payload ::
  "agent_event_payload \<Rightarrow> timestamp \<Rightarrow> session_aggregate
     \<Rightarrow> (unit, reduce_error) result \<times> session_aggregate" where
  "apply_payload (SessionStarted _) occurred_at agg = (Err UnexpectedSessionStarted, agg)"
| "apply_payload (StateChanged state) occurred_at agg =
     (case next_session_revision agg of
        Err e \<Rightarrow> (Err e, agg)
      | Ok revision \<Rightarrow>
          (Ok (), agg\<lparr>agg_session := observe_state state revision occurred_at (agg_session agg)\<rparr>))"
| "apply_payload (ConnectionChanged cs) occurred_at agg =
     (case next_session_revision agg of
        Err e \<Rightarrow> (Err e, agg)
      | Ok revision \<Rightarrow>
          (Ok (), agg\<lparr>agg_session :=
             observe_connection_state cs revision occurred_at (agg_session agg)\<rparr>))"
| "apply_payload (Message _) occurred_at agg = (Ok (), agg)"
| "apply_payload (CommandIssued _) occurred_at agg = (Ok (), agg)"
| "apply_payload (ToolActivity activity) occurred_at agg =
     apply_tool_activity activity occurred_at agg"
| "apply_payload (PlanUpdated plan) occurred_at agg =
     (case validate_snapshot_revision SnapshotPlan (map_option plan_revision (agg_plan agg))
             (plan_revision plan) of
        Err e \<Rightarrow> (Err e, agg)
      | Ok _ \<Rightarrow> (Ok (), agg\<lparr>agg_plan := Some plan\<rparr>))"
| "apply_payload (ProgressUpdated progress) occurred_at agg =
     (case validate_snapshot_revision SnapshotProgress
             (map_option prog_revision (agg_progress agg)) (prog_revision progress) of
        Err e \<Rightarrow> (Err e, agg)
      | Ok _ \<Rightarrow> (Ok (), agg\<lparr>agg_progress := Some progress\<rparr>))"
| "apply_payload (InteractionRequested request) occurred_at agg =
     (if bt_contains_key (agg_pending_interactions agg) (ir_id request)
      then (Err (InteractionAlreadyPending (ir_id request)), agg)
      else (Ok (), agg\<lparr>agg_pending_interactions :=
              bt_insert (ir_id request) request (agg_pending_interactions agg)\<rparr>))"
| "apply_payload (InteractionResponded response) occurred_at agg =
     (case bt_get (agg_pending_interactions agg) (is_request_id response) of
        None \<Rightarrow> (Err (InteractionNotPending (is_request_id response)), agg)
      | Some request \<Rightarrow>
          (case validate_response request response of
             Err source \<Rightarrow> (Err (InvalidInteractionResponse (is_request_id response) source), agg)
           | Ok _ \<Rightarrow> (Ok (), agg\<lparr>agg_pending_interactions :=
                 bt_remove (is_request_id response) (agg_pending_interactions agg)\<rparr>)))"
| "apply_payload (InteractionClosed closed) occurred_at agg =
     (let removed = bt_get (agg_pending_interactions agg) (ic_request_id closed);
          agg1 = agg\<lparr>agg_pending_interactions :=
            bt_remove (ic_request_id closed) (agg_pending_interactions agg)\<rparr>
      in if removed = None then (Err (InteractionNotPending (ic_request_id closed)), agg1)
         else (Ok (), agg1))"
| "apply_payload (SessionEnded outcome) occurred_at agg =
     (case next_session_revision agg of
        Err e \<Rightarrow> (Err e, agg)
      | Ok revision \<Rightarrow>
          (Ok (), agg\<lparr>agg_session :=
               observe_state (outcome_agent_state outcome) revision occurred_at (agg_session agg),
             agg_latest_outcome := Some outcome,
             agg_active_tool_calls := bt_empty,
             agg_pending_interactions := bt_empty\<rparr>))"

definition apply_event ::
  "session_aggregate \<Rightarrow> agent_event \<Rightarrow> (apply_outcome, reduce_error) result \<times> session_aggregate" where
  "apply_event agg event =
     (case validate_cursor agg event of
        Err e \<Rightarrow> (Err e, agg)
      | Ok already \<Rightarrow>
          if already then (Ok AlreadyApplied, agg)
          else (case apply_payload (ev_payload event) (ev_occurred_at event) agg of
                  (Err e, agg') \<Rightarrow> (Err e, agg')
                | (Ok _, agg') \<Rightarrow> (Ok Applied, record_event event agg')))"

section \<open>Replay\<close>

fun apply_all ::
  "session_aggregate \<Rightarrow> agent_event list \<Rightarrow> (session_aggregate, reduce_error) result" where
  "apply_all agg [] = Ok agg"
| "apply_all agg (event # events) =
     (case apply_event agg event of
        (Err e, _) \<Rightarrow> Err e
      | (Ok _, agg') \<Rightarrow> apply_all agg' events)"

fun replay_with_config ::
  "agent_event list \<Rightarrow> session_aggregate_config \<Rightarrow> (session_aggregate, reduce_error) result" where
  "replay_with_config [] config = Err EmptyReplay"
| "replay_with_config (initial_event # events) config =
     and_then (from_initial_event_with_config initial_event config)
       (\<lambda>aggregate. apply_all aggregate events)"

definition replay :: "agent_event list \<Rightarrow> (session_aggregate, reduce_error) result" where
  "replay events = replay_with_config events SessionAggregateConfig_default"

section \<open>Retained history\<close>

definition retained_event_page_after ::
  "session_aggregate \<Rightarrow> u64 \<Rightarrow> usize \<Rightarrow> agent_event list option" where
  "retained_event_page_after agg after_sequence max_events =
     (if after_sequence > last_sequence agg then None
      else if after_sequence = last_sequence agg then Some []
      else case checked_next after_sequence of
        None \<Rightarrow> None
      | Some expected \<Rightarrow>
          if (case agg_recent_events agg of [] \<Rightarrow> True | front # _ \<Rightarrow> ev_sequence front > expected)
          then None
          else Some (take max_events
                 (filter (\<lambda>event. ev_sequence event > after_sequence) (agg_recent_events agg))))"

definition retained_events_after :: "session_aggregate \<Rightarrow> u64 \<Rightarrow> agent_event list option" where
  "retained_events_after agg after_sequence =
     retained_event_page_after agg after_sequence usize_max"

section \<open>One event: errors, retries and the frame\<close>

lemma pop_front_to_last_n: "pop_front_to capacity xs = last_n capacity xs"
proof (induction capacity xs rule: pop_front_to.induct)
  case (1 capacity xs)
  show ?case
  proof (cases "length xs > capacity")
    case True
    then have "pop_front_to capacity xs = last_n capacity (tl xs)"
      using 1 by (simp add: pop_front_to.simps [of capacity xs])
    with True show ?thesis by (cases xs) (auto simp: last_n_def Suc_diff_le)
  qed (simp add: pop_front_to.simps last_n_def)
qed

lemma record_event_simps [simp]:
  "agg_config (record_event e agg) = agg_config agg"
  "agg_session (record_event e agg) = agg_session agg"
  "agg_plan (record_event e agg) = agg_plan agg"
  "agg_progress (record_event e agg) = agg_progress agg"
  "agg_active_tool_calls (record_event e agg) = agg_active_tool_calls agg"
  "agg_pending_interactions (record_event e agg) = agg_pending_interactions agg"
  "agg_latest_outcome (record_event e agg) = agg_latest_outcome agg"
  "agg_last_event (record_event e agg) = e"
  by (auto simp: record_event_def Let_def)

lemma record_event_recent:
  "agg_recent_events (record_event e agg) =
     (if cfg_retain_all_events (agg_config agg) then agg_recent_events agg @ [e]
      else if cfg_recent_event_capacity (agg_config agg) = 0 then agg_recent_events agg
      else last_n (cfg_recent_event_capacity (agg_config agg)) (agg_recent_events agg @ [e]))"
  by (auto simp: record_event_def Let_def pop_front_to_last_n)

lemma validate_cursor_retry [result_simps]:
  "validate_cursor agg e = Ok True \<longleftrightarrow>
     ev_session_id e = ses_id (agg_session agg) \<and> e = agg_last_event agg"
  by (auto simp: validate_cursor_def result_simps)

lemma validate_cursor_next [result_simps]:
  "validate_cursor agg e = Ok False \<longleftrightarrow>
     ev_session_id e = ses_id (agg_session agg)
     \<and> unat (ev_sequence e) = unat (last_sequence agg) + 1"
  by (auto simp: validate_cursor_def result_simps checked_next_Some_iff word_less_nat_alt
      split: if_splits dest: checked_next_Some)

lemma next_session_revision_Ok [result_simps]:
  "next_session_revision agg = Ok r \<longleftrightarrow> unat r = unat (ses_revision (agg_session agg)) + 1"
  by (simp add: next_session_revision_def result_simps checked_next_Some_iff)

lemma validate_snapshot_revision_Ok [result_simps]:
  "validate_snapshot_revision k cur new = Ok () \<longleftrightarrow> (\<forall>c. cur = Some c \<longrightarrow> c < new)"
  by (auto simp: validate_snapshot_revision_def not_le split: option.splits)

lemma apply_payload_atomic: "apply_payload p t agg = (Err x, agg') \<Longrightarrow> agg' = agg"
  by (cases "(p, t, agg)" rule: apply_payload.cases)
    (auto simp: Let_def bt_remove_absent elim!: apply_tool_activity.elims
      split: sum.splits if_splits option.splits)

interpretation reducer: atomic_machine apply_event
  by unfold_locales
    (auto simp: apply_event_def dest: apply_payload_atomic split: sum.splits if_splits prod.splits)

lemma apply_payload_frame:
  assumes "apply_payload p t agg = (r, agg')"
  shows "agg_config agg' = agg_config agg" "agg_last_event agg' = agg_last_event agg"
    "agg_recent_events agg' = agg_recent_events agg"
    "ses_id (agg_session agg') = ses_id (agg_session agg)"
    "ses_provider_id (agg_session agg') = ses_provider_id (agg_session agg)"
    "ses_created_at (agg_session agg') = ses_created_at (agg_session agg)"
  using assms
  by (cases "(p, t, agg)" rule: apply_payload.cases;
      auto simp: Let_def elim!: apply_tool_activity.elims split: sum.splits if_splits option.splits)+

lemma apply_event_Applied_iff:
  "apply_event agg e = (Ok Applied, agg') \<longleftrightarrow> validate_cursor agg e = Ok False
     \<and> (\<exists>agg1. apply_payload (ev_payload e) (ev_occurred_at e) agg = (Ok (), agg1)
          \<and> agg' = record_event e agg1)"
  by (auto simp: apply_event_def split: sum.splits prod.splits if_splits)

lemma apply_event_AlreadyApplied_iff:
  "apply_event agg e = (Ok AlreadyApplied, agg') \<longleftrightarrow>
     validate_cursor agg e = Ok True \<and> agg' = agg"
  by (auto simp: apply_event_def split: sum.splits prod.splits if_splits)

lemma apply_event_frame:
  assumes "apply_event agg e = (r, agg')"
  shows "agg_config agg' = agg_config agg"
    "ses_id (agg_session agg') = ses_id (agg_session agg)"
    "ses_provider_id (agg_session agg') = ses_provider_id (agg_session agg)"
  using assms
  by (auto simp: apply_event_def dest: apply_payload_frame
      split: sum.splits prod.splits if_splits)

section \<open>The invariant\<close>

definition wf_tool_call :: "active_tool_call \<Rightarrow> bool" where
  [wf_defs]: "wf_tool_call c \<longleftrightarrow> wf_text (tool_name c) \<and> pred_option wf_text (tool_summary c)"

definition agg_inv :: "session_aggregate \<Rightarrow> bool" where
  "agg_inv agg \<longleftrightarrow>
     wf_session (agg_session agg) \<and> wf_event (agg_last_event agg)
     \<and> ev_session_id (agg_last_event agg) = ses_id (agg_session agg)
     \<and> pred_option wf_plan (agg_plan agg) \<and> pred_option wf_progress (agg_progress agg)
     \<and> pred_option wf_outcome (agg_latest_outcome agg)
     \<and> (\<forall>k c. bt_get (agg_active_tool_calls agg) k = Some c \<longrightarrow> tool_id c = k \<and> wf_tool_call c)
     \<and> (\<forall>k r. bt_get (agg_pending_interactions agg) k = Some r \<longrightarrow>
          ir_id r = k \<and> ir_session_id r = ses_id (agg_session agg) \<and> wf_request r)"

lemma agg_inv_initial:
  assumes "from_initial_event_with_config e cfg = Ok agg" and "wf_event e"
  shows "agg_inv agg"
  using assms
  by (auto simp: from_initial_event_with_config_def agg_inv_def wf_event_def
      split: if_splits agent_event_payload.splits)

lemma next_revision_nonzero: "next_session_revision agg = Ok r \<Longrightarrow> r \<noteq> 0"
  by (auto simp: next_session_revision_Ok)

text \<open>The session snapshot after a payload, and what happens to the two maps.\<close>

lemma apply_payload_session:
  assumes "apply_payload p t agg = (Ok (), agg')" and "wf_session (agg_session agg)"
  shows "wf_session (agg_session agg')"
  using assms
  by (cases "(p, t, agg)" rule: apply_payload.cases)
    (auto simp: Let_def wf_session_observe next_revision_nonzero elim!: apply_tool_activity.elims
      split: sum.splits if_splits option.splits)

lemma apply_payload_tools:
  assumes "apply_payload p t agg = (Ok (), agg')" and "wf_event_payload p"
    and "\<forall>k c. bt_get (agg_active_tool_calls agg) k = Some c \<longrightarrow> tool_id c = k \<and> wf_tool_call c"
  shows "\<forall>k c. bt_get (agg_active_tool_calls agg') k = Some c \<longrightarrow> tool_id c = k \<and> wf_tool_call c"
  using assms
  by (cases "(p, t, agg)" rule: apply_payload.cases)
    (auto simp: Let_def wf_tool_call_def elim!: apply_tool_activity.elims
      split: sum.splits if_splits option.splits)

lemma apply_payload_pending:
  assumes "apply_payload p t agg = (Ok (), agg')" and "wf_event_payload p"
    and "pred_option (\<lambda>i. i = sid) (embedded_session_id p)"
    and "\<forall>k r. bt_get (agg_pending_interactions agg) k = Some r \<longrightarrow>
          ir_id r = k \<and> ir_session_id r = sid \<and> wf_request r"
  shows "\<forall>k r. bt_get (agg_pending_interactions agg') k = Some r \<longrightarrow>
          ir_id r = k \<and> ir_session_id r = sid \<and> wf_request r"
  using assms
  by (cases "(p, t, agg)" rule: apply_payload.cases)
    (auto simp: Let_def elim!: apply_tool_activity.elims
      split: sum.splits if_splits option.splits)

lemma apply_payload_snapshots:
  assumes "apply_payload p t agg = (Ok (), agg')" and "wf_event_payload p"
  shows "pred_option wf_plan (agg_plan agg) \<Longrightarrow> pred_option wf_plan (agg_plan agg')"
    and "pred_option wf_progress (agg_progress agg) \<Longrightarrow> pred_option wf_progress (agg_progress agg')"
    and "pred_option wf_outcome (agg_latest_outcome agg) \<Longrightarrow>
      pred_option wf_outcome (agg_latest_outcome agg')"
  using assms
  by (cases "(p, t, agg)" rule: apply_payload.cases;
      auto simp: Let_def elim!: apply_tool_activity.elims split: sum.splits if_splits option.splits)+

lemma agg_inv_applied:
  assumes step: "apply_event agg e = (Ok Applied, agg')" and inv: "agg_inv agg" and wf: "wf_event e"
  shows "agg_inv agg'"
proof -
  obtain agg1 where cur: "validate_cursor agg e = Ok False"
    and pay: "apply_payload (ev_payload e) (ev_occurred_at e) agg = (Ok (), agg1)"
    and agg': "agg' = record_event e agg1"
    using step by (auto simp: apply_event_Applied_iff)
  from cur have sid: "ev_session_id e = ses_id (agg_session agg)" by (simp add: result_simps)
  note frame = apply_payload_frame [OF pay]
  have wfp: "wf_event_payload (ev_payload e)"
    and emb: "pred_option (\<lambda>i. i = ses_id (agg_session agg)) (embedded_session_id (ev_payload e))"
    using wf sid by (auto simp: wf_event_def)
  have "wf_session (agg_session agg1)"
    using apply_payload_session [OF pay] inv by (simp add: agg_inv_def)
  with apply_payload_tools [OF pay wfp] apply_payload_pending [OF pay wfp emb]
    apply_payload_snapshots [OF pay wfp] inv wf sid frame
  show ?thesis unfolding agg' agg_inv_def by simp
qed

lemma agg_inv_apply:
  assumes "agg_inv agg" and "wf_event e" and "apply_event agg e = (r, agg')"
  shows "agg_inv agg'"
proof (cases r)
  case (Inl x)
  with assms reducer.rejected_keeps show ?thesis by blast
next
  case (Inr out)
  with assms agg_inv_applied [of agg e agg'] apply_event_AlreadyApplied_iff [of agg e agg']
  show ?thesis by (cases out) auto
qed

section \<open>Histories\<close>

inductive history :: "session_aggregate_config \<Rightarrow> agent_event list \<Rightarrow> session_aggregate \<Rightarrow> bool"
  for cfg where
  start: "wf_event e \<Longrightarrow> from_initial_event_with_config e cfg = Ok agg \<Longrightarrow> history cfg [e] agg"
| applied: "history cfg log agg \<Longrightarrow> wf_event e \<Longrightarrow> apply_event agg e = (Ok Applied, agg')
    \<Longrightarrow> history cfg (log @ [e]) agg'"
| retried: "history cfg log agg \<Longrightarrow> apply_event agg e = (Ok AlreadyApplied, agg')
    \<Longrightarrow> history cfg log agg'"
| rejected: "history cfg log agg \<Longrightarrow> apply_event agg e = (Err x, agg') \<Longrightarrow> history cfg log agg'"

text \<open>Retries and rejections do not change the aggregate, so a history has a simpler induction:
  an initial event and accepted events.\<close>

lemma history_accepted_induct [consumes 1, case_names start applied]:
  assumes "history cfg log agg"
    and "\<And>e agg. wf_event e \<Longrightarrow> from_initial_event_with_config e cfg = Ok agg \<Longrightarrow> P [e] agg"
    and "\<And>log agg e agg'. history cfg log agg \<Longrightarrow> P log agg \<Longrightarrow> wf_event e
      \<Longrightarrow> apply_event agg e = (Ok Applied, agg') \<Longrightarrow> P (log @ [e]) agg'"
  shows "P log agg"
  using assms(1)
proof induction
  case (retried log agg e agg')
  then show ?case by (simp add: apply_event_AlreadyApplied_iff)
next
  case (rejected log agg e x agg')
  then show ?case using reducer.rejected_keeps by blast
qed (use assms in blast)+

lemma history_inv: "history cfg log agg \<Longrightarrow> agg_inv agg \<and> agg_config agg = cfg"
proof (induction rule: history_accepted_induct)
  case (start e agg)
  then show ?case using agg_inv_initial
    by (auto simp: from_initial_event_with_config_def split: if_splits agent_event_payload.splits)
next
  case (applied log agg e agg')
  then show ?case using agg_inv_applied apply_event_frame(1) by metis
qed

lemma initial_event_facts:
  assumes "from_initial_event_with_config e cfg = Ok agg"
  shows "agg_last_event agg = e" "agg_config agg = cfg" "unat (ev_sequence e) = 1"
    "agg_recent_events agg =
       (if cfg_retain_all_events cfg \<or> cfg_recent_event_capacity cfg > 0 then [e] else [])"
  using assms
  by (auto simp: from_initial_event_with_config_def counter_FIRST_def
      split: if_splits agent_event_payload.splits)

lemma applied_facts:
  assumes "apply_event agg e = (Ok Applied, agg')"
  shows "agg_last_event agg' = e" "unat (ev_sequence e) = unat (last_sequence agg) + 1"
    "agg_recent_events agg' = agg_recent_events (record_event e agg)"
    "ev_session_id e = ses_id (agg_session agg)"
proof -
  obtain agg1 where cur: "validate_cursor agg e = Ok False"
    and pay: "apply_payload (ev_payload e) (ev_occurred_at e) agg = (Ok (), agg1)"
    and agg': "agg' = record_event e agg1"
    using assms by (auto simp: apply_event_Applied_iff)
  show "agg_last_event agg' = e" by (simp add: agg')
  show "unat (ev_sequence e) = unat (last_sequence agg) + 1"
    and "ev_session_id e = ses_id (agg_session agg)"
    using cur by (simp_all add: result_simps)
  show "agg_recent_events agg' = agg_recent_events (record_event e agg)"
    by (simp add: agg' record_event_recent apply_payload_frame [OF pay])
qed

text \<open>Accepted events carry the sequences \<open>1, 2, \<dots>\<close> without gaps, and the last one is
  the aggregate's cursor.\<close>

lemma history_log:
  "history cfg log agg \<Longrightarrow> log \<noteq> [] \<and> last log = agg_last_event agg
     \<and> map (\<lambda>e. unat (ev_sequence e)) log = [1..<length log + 1]"
proof (induction rule: history_accepted_induct)
  case (start e agg)
  then show ?case by (simp add: initial_event_facts)
next
  case (applied log agg e agg')
  then have "unat (ev_sequence (last log)) = length log"
    by (metis add_diff_cancel_right' last_map last_upt less_add_one list.map_disc_iff upt_conv_Nil
        not_less)
  with applied applied_facts [OF applied.hyps(3)] show ?case by simp
qed

lemma history_sequence_nth:
  assumes "history cfg log agg" and "i < length log"
  shows "unat (ev_sequence (log ! i)) = i + 1"
proof -
  have "map (\<lambda>e. unat (ev_sequence e)) log ! i = [1..<length log + 1] ! i"
    using history_log [OF assms(1)] by simp
  with assms(2) show ?thesis by (simp del: upt_Suc)
qed

lemma history_last_sequence:
  assumes "history cfg log agg"
  shows "unat (last_sequence agg) = length log"
proof -
  have "0 < length log" and "last log = agg_last_event agg" using history_log [OF assms] by auto
  with history_sequence_nth [OF assms, of "length log - 1"] show ?thesis
    by (simp add: last_conv_nth)
qed

lemma history_bound: "history cfg log agg \<Longrightarrow> length log < 2 ^ 64"
  using history_last_sequence unsigned_less [of "last_sequence agg", where 'a = nat] by fastforce

text \<open>The bounded window is exactly the newest part of the accepted log.\<close>

definition window :: "session_aggregate_config \<Rightarrow> 'e list \<Rightarrow> 'e list" where
  "window cfg log =
     (if cfg_retain_all_events cfg then log else last_n (cfg_recent_event_capacity cfg) log)"

lemma history_window: "history cfg log agg \<Longrightarrow> agg_recent_events agg = window cfg log"
proof (induction rule: history_accepted_induct)
  case (start e agg)
  then show ?case by (auto simp: initial_event_facts window_def last_n_def)
next
  case (applied log agg e agg')
  then have cfg: "agg_config agg = cfg" using history_inv by blast
  show ?case
    unfolding applied_facts(3) [OF applied.hyps(3)] record_event_recent cfg
    using applied.IH by (auto simp: window_def last_n_snoc)
qed

end
