(* ===== verification/History.thy ===== *)
theory History
  imports Aggregate
begin

text \<open>
  What a client of the aggregate may rely on: the pages read from the bounded history are
  pieces of the accepted log, the aggregate is the replay of its log, and the retention
  settings change only what can be read back.
\<close>

lemma filter_suffix:
  assumes "\<And>i. i < length xs \<Longrightarrow> P (xs ! i) \<longleftrightarrow> a \<le> i"
  shows "filter P xs = drop a xs"
proof -
  have "filter P (take a xs) = []"
    using assms by (auto simp: filter_empty_conv in_set_conv_nth)
  moreover have "filter P (drop a xs) = drop a xs"
    using assms by (auto simp: filter_id_conv in_set_conv_nth)
  ultimately show ?thesis by (metis append_Nil append_take_drop_id filter_append)
qed

section \<open>Pages of the retained history\<close>

definition evicted :: "session_aggregate_config \<Rightarrow> 'e list \<Rightarrow> nat" where
  "evicted cfg log =
     (if cfg_retain_all_events cfg then 0 else length log - cfg_recent_event_capacity cfg)"

lemma window_drop: "window cfg log = drop (evicted cfg log) log"
  by (simp add: window_def evicted_def last_n_def)

definition covered :: "session_aggregate_config \<Rightarrow> 'e list \<Rightarrow> nat \<Rightarrow> bool" where
  "covered cfg log a \<longleftrightarrow> a = length log \<or> (a < length log \<and> evicted cfg log \<le> a)"

lemma history_filter:
  assumes h: "history cfg log agg" and k: "k \<le> unat after"
  shows "filter (\<lambda>e. ev_sequence e > after) (drop k log) = drop (unat after) log"
proof -
  have "filter (\<lambda>e. ev_sequence e > after) (drop k log) = drop (unat after - k) (drop k log)"
  proof (rule filter_suffix)
    fix i assume "i < length (drop k log)"
    then have "unat (ev_sequence (drop k log ! i)) = k + i + 1"
      using history_sequence_nth [OF h, of "k + i"] by simp
    then show "after < ev_sequence (drop k log ! i) \<longleftrightarrow> unat after - k \<le> i"
      unfolding word_less_nat_alt by auto
  qed
  with k show ?thesis by simp
qed

lemma history_page:
  assumes h: "history cfg log agg"
  shows "retained_event_page_after agg after n =
     (if covered cfg log (unat after) then Some (take n (drop (unat after) log)) else None)"
proof -
  note last = history_last_sequence [OF h]
  have eq_iff: "after = last_sequence agg \<longleftrightarrow> unat after = length log"
    using last word_unat_eq_iff by metis
  consider (ahead) "unat after > length log" | (level) "unat after = length log"
    | (behind) "unat after < length log"
    by linarith
  then show ?thesis
  proof cases
    case ahead
    then show ?thesis
      using last by (auto simp: retained_event_page_after_def covered_def word_less_nat_alt)
  next
    case level
    then show ?thesis
      using last eq_iff by (auto simp: retained_event_page_after_def covered_def)
  next
    case behind
    obtain expected where nxt: "checked_next after = Some expected"
      using behind history_bound [OF h] checked_next_None_iff [of after] by fastforce
    then have expected: "unat expected = unat after + 1" by (rule checked_next_Some)
    have not_last: "\<not> last_sequence agg < after" "after \<noteq> last_sequence agg"
      using behind last eq_iff by (auto simp: word_less_nat_alt)
    let ?k = "evicted cfg log"
    have front: "(case agg_recent_events agg of [] \<Rightarrow> True | e # _ \<Rightarrow> expected < ev_sequence e)
        \<longleftrightarrow> unat after < ?k"
    proof (cases "?k < length log")
      case True
      then have "agg_recent_events agg = log ! ?k # drop (Suc ?k) log"
        by (simp add: history_window [OF h] window_drop Cons_nth_drop_Suc)
      then show ?thesis
        using history_sequence_nth [OF h True] expected by (auto simp: word_less_nat_alt)
    qed (use behind in \<open>simp add: history_window [OF h] window_drop\<close>)
    show ?thesis
      using behind not_last
      by (auto simp: retained_event_page_after_def nxt covered_def history_window [OF h]
          window_drop history_filter [OF h] front [unfolded history_window [OF h] window_drop])
  qed
qed

interpretation retained: paged_log "\<lambda>agg log. history (agg_config agg) log agg"
  retained_event_page_after
proof unfold_locales
  fix agg log a b n m p
  assume h: "history (agg_config agg) log agg"
  show "length log < 2 ^ 64" by (rule history_bound [OF h])
  assume p: "retained_event_page_after agg a n = Some p"
  show "unat a \<le> length log \<and> p = take n (drop (unat a) log)"
    using p by (auto simp: history_page [OF h] covered_def split: if_splits)
  assume "a \<le> b" "unat b \<le> length log"
  with p show "\<exists>q. retained_event_page_after agg b m = Some q"
    by (auto simp: history_page [OF h] covered_def word_le_nat_alt split: if_splits)
qed

section \<open>Replay\<close>

lemma apply_all_append:
  "apply_all agg (xs @ ys) = and_then (apply_all agg xs) (\<lambda>agg'. apply_all agg' ys)"
  by (induction xs arbitrary: agg) (auto split: prod.splits sum.splits)

lemma replay_snoc:
  "xs \<noteq> [] \<Longrightarrow> replay_with_config (xs @ [e]) cfg =
     and_then (replay_with_config xs cfg) (\<lambda>agg. apply_all agg [e])"
proof (cases xs)
  case (Cons x ys)
  then show ?thesis
    by (cases "from_initial_event_with_config x cfg") (simp_all add: apply_all_append)
qed simp

lemma history_replay: "history cfg log agg \<Longrightarrow> replay_with_config log cfg = Ok agg"
proof (induction rule: history_accepted_induct)
  case (applied log agg e agg')
  moreover have "log \<noteq> []" using history_log applied.hyps(1) by blast
  ultimately show ?case by (simp add: replay_snoc)
qed simp

lemma apply_all_history:
  assumes "apply_all agg es = Ok agg'" and "history cfg log agg" and "list_all wf_event es"
  shows "\<exists>log'. history cfg log' agg' \<and> set log' \<subseteq> set log \<union> set es"
  using assms
proof (induction es arbitrary: agg log)
  case (Cons e es)
  obtain r agg1 where step: "apply_event agg e = (r, agg1)" by fastforce
  with Cons.prems(1) obtain out where r: "r = Ok out" and rest: "apply_all agg1 es = Ok agg'"
    by (cases r) auto
  obtain log1 where "history cfg log1 agg1" and "set log1 \<subseteq> set log \<union> {e}"
  proof (cases out)
    case Applied
    then show ?thesis
      using that [of "log @ [e]"] history.applied [OF Cons.prems(2)] Cons.prems(3) step r by auto
  next
    case AlreadyApplied
    then show ?thesis using that [of log] history.retried [OF Cons.prems(2)] step r by auto
  qed
  with Cons.IH [OF rest] Cons.prems(3) show ?case by fastforce
qed auto

lemma replay_history:
  assumes "replay_with_config es cfg = Ok agg" and "list_all wf_event es"
  shows "\<exists>log. history cfg log agg \<and> set log \<subseteq> set es"
proof (cases es)
  case (Cons e rest)
  with assms(1) obtain agg0 where "from_initial_event_with_config e cfg = Ok agg0"
    and "apply_all agg0 rest = Ok agg"
    by (auto simp: and_then_Ok_iff)
  with assms(2) Cons apply_all_history [of agg0 rest agg cfg "[e]"] history.start [of e cfg agg0]
  show ?thesis by auto
qed (use assms in simp)

section \<open>Retention is transparent\<close>

text \<open>Everything but the retention settings and the window.\<close>

definition current_view :: "session_aggregate \<Rightarrow> session_aggregate" where
  "current_view agg = agg\<lparr>agg_config := SessionAggregateConfig_retain_all, agg_recent_events := []\<rparr>"

lemma current_view_eq_iff:
  "current_view a = current_view b \<longleftrightarrow>
     agg_session a = agg_session b \<and> agg_plan a = agg_plan b \<and> agg_progress a = agg_progress b
     \<and> agg_active_tool_calls a = agg_active_tool_calls b
     \<and> agg_pending_interactions a = agg_pending_interactions b
     \<and> agg_latest_outcome a = agg_latest_outcome b \<and> agg_last_event a = agg_last_event b"
  by (cases a; cases b) (auto simp: current_view_def)

lemma validate_cursor_view:
  "current_view a = current_view b \<Longrightarrow> validate_cursor a e = validate_cursor b e"
  by (simp add: current_view_eq_iff validate_cursor_def)

lemma apply_tool_activity_view:
  assumes "current_view a = current_view b"
  shows "fst (apply_tool_activity x t a) = fst (apply_tool_activity x t b)
    \<and> current_view (snd (apply_tool_activity x t a)) = current_view (snd (apply_tool_activity x t b))"
  using assms by (cases x) (auto simp: current_view_eq_iff)

lemma apply_payload_view:
  assumes "current_view a = current_view b"
  shows "fst (apply_payload p t a) = fst (apply_payload p t b)
    \<and> current_view (snd (apply_payload p t a)) = current_view (snd (apply_payload p t b))"
  using assms apply_tool_activity_view [OF assms]
  by (cases p) (auto simp: current_view_eq_iff next_session_revision_def Let_def
      split: sum.splits option.splits)

lemma record_event_view:
  "current_view a = current_view b \<Longrightarrow> current_view (record_event e a) = current_view (record_event e b)"
  by (simp add: current_view_eq_iff)

lemma apply_event_view:
  assumes "current_view a = current_view b"
  shows "fst (apply_event a e) = fst (apply_event b e)
    \<and> current_view (snd (apply_event a e)) = current_view (snd (apply_event b e))"
proof -
  obtain r a' where a: "apply_payload (ev_payload e) (ev_occurred_at e) a = (r, a')" by fastforce
  obtain r' b' where b: "apply_payload (ev_payload e) (ev_occurred_at e) b = (r', b')" by fastforce
  have eq: "r = r'" "current_view a' = current_view b'"
    using apply_payload_view [OF assms, of "ev_payload e" "ev_occurred_at e"] by (simp_all add: a b)
  show ?thesis
    using assms eq record_event_view [OF eq(2)]
    by (simp add: apply_event_def a b validate_cursor_view [OF assms] split: sum.splits)
qed

end
