(* ===== verification/Bridge.thy ===== *)
theory Bridge
  imports Ports History
begin

text \<open>
  The synchronous multi-endpoint orchestration service (\<open>bridge.rs\<close>): endpoint
  registration, subscriptions, bounded catch-up, event fan-out and reverse actions. Every
  operation on \<open>&mut self\<close> returns its result together with the Bridge as it is left; the
  registered adapters are passed as the records \<open>pp\<close> and \<open>cp\<close> of theory \<open>Ports\<close>.
\<close>

datatype provider_event_outcome = EventApplied | EventAlreadyApplied

datatype channel_delivery_kind = DeliveryEvent | DeliverySession

record 'x channel_delivery_error =
  de_channel_id :: channel_id
  de_delivery :: channel_delivery_kind
  de_source :: "'x adapter_error"

datatype 'x channel_delivery_result =
    Delivered channel_id
  | DeliveryFailed "'x channel_delivery_error"

fun dr_channel_id :: "'x channel_delivery_result \<Rightarrow> channel_id" where
  "dr_channel_id (Delivered c) = c"
| "dr_channel_id (DeliveryFailed e) = de_channel_id e"

fun is_delivered :: "'x channel_delivery_result \<Rightarrow> bool" where
  "is_delivered (Delivered _) = True"
| "is_delivered (DeliveryFailed _) = False"

fun dr_error :: "'x channel_delivery_result \<Rightarrow> 'x channel_delivery_error option" where
  "dr_error (Delivered _) = None"
| "dr_error (DeliveryFailed e) = Some e"

record 'x provider_event_report =
  rep_outcome :: provider_event_outcome
  rep_deliveries :: "'x channel_delivery_result list"

definition has_failures :: "'x provider_event_report \<Rightarrow> bool" where
  "has_failures report \<longleftrightarrow> list_ex (\<lambda>d. \<not> is_delivered d) (rep_deliveries report)"

fun find_map :: "('a \<Rightarrow> 'b option) \<Rightarrow> 'a list \<Rightarrow> 'b option" where
  "find_map f [] = None"
| "find_map f (x # xs) = (case f x of Some y \<Rightarrow> Some y | None \<Rightarrow> find_map f xs)"

definition first_failure :: "'x provider_event_report \<Rightarrow> 'x channel_delivery_error option" where
  "first_failure report = find_map dr_error (rep_deliveries report)"

datatype provider_handoff_kind = HandoffInteractionResponse | HandoffCommand

datatype endpoint_registration_error =
    ProviderAlreadyRegistered provider_id
  | ChannelAlreadyRegistered channel_id

datatype subscribe_outcome =
    Subscribed bool event_sequence usize
  | AlreadySubscribed event_sequence

record session_sync_outcome =
  sso_through_sequence :: u64
  sso_event_count :: usize
  sso_reset :: bool
  sso_subscribed :: bool
  sso_pending_interaction_count :: usize

record discovered_session =
  ds_session :: agent_session
  ds_last_sequence :: event_sequence

record channel_discovery_snapshot =
  disc_providers :: "provider_descriptor list"
  disc_sessions :: "discovered_session list"

datatype unsubscribe_outcome = Unsubscribed | NotSubscribed

datatype 'x subscription_error =
    SubChannelNotFound channel_id
  | SubSessionNotFound session_id
  | InitialSessionHandoff "'x channel_delivery_error"
  | BaselineRoute capability_route_error
  | InvalidPageSize

datatype 'x provider_event_error =
    EvProviderNotFound provider_id
  | EvChannelNotFound channel_id
  | SessionNotStarted session_id
  | EvCapabilityRoute capability_route_error
  | Reduce reduce_error
  | ChannelHandoffs "'x provider_event_report"

datatype 'x channel_action_error =
    ActChannelNotFound channel_id
  | ActSessionNotFound session_id
  | ChannelNotSubscribed channel_id session_id
  | ActProviderNotFound provider_id
  | ActInteractionNotPending session_id interaction_id
  | ActCapabilityRoute capability_route_error
  | ProviderHandoff provider_id provider_handoff_kind "'x adapter_error"

record ('p, 'c) bridge =
  br_providers :: "(provider_id, 'p registered_provider) btree_map"
  br_channels :: "(channel_id, 'c registered_channel) btree_map"
  br_session_config :: session_aggregate_config
  br_sessions :: "(session_id, session_aggregate) btree_map"
  br_subscriptions :: "(session_id, channel_id btree_set) btree_map"

definition with_session_config :: "session_aggregate_config \<Rightarrow> ('p, 'c) bridge" where
  "with_session_config config =
     \<lparr>br_providers = bt_empty, br_channels = bt_empty, br_session_config = config,
      br_sessions = bt_empty, br_subscriptions = bt_empty\<rparr>"

definition Bridge_new :: "('p, 'c) bridge" where
  "Bridge_new = with_session_config SessionAggregateConfig_default"

section \<open>Registration and queries\<close>

definition register_provider ::
  "('p, 'x) provider_port \<Rightarrow> 'p \<Rightarrow> ('p, 'c) bridge
     \<Rightarrow> (unit, endpoint_registration_error) result \<times> ('p, 'c) bridge" where
  "register_provider pp provider b =
     (let descriptor = pp_descriptor pp provider; pid = pd_id descriptor
      in if bt_contains_key (br_providers b) pid then (Err (ProviderAlreadyRegistered pid), b)
         else (Ok (), b\<lparr>br_providers := bt_insert pid
                 \<lparr>rp_descriptor = descriptor, rp_port = provider\<rparr> (br_providers b)\<rparr>))"

definition register_channel ::
  "('c, 'x) channel_port \<Rightarrow> 'c \<Rightarrow> ('p, 'c) bridge
     \<Rightarrow> (unit, endpoint_registration_error) result \<times> ('p, 'c) bridge" where
  "register_channel cp channel b =
     (let descriptor = cp_descriptor cp channel; cid = cd_id descriptor
      in if bt_contains_key (br_channels b) cid then (Err (ChannelAlreadyRegistered cid), b)
         else (Ok (), b\<lparr>br_channels := bt_insert cid
                 \<lparr>rc_descriptor = descriptor, rc_port = channel\<rparr> (br_channels b)\<rparr>))"

definition br_provider_descriptor :: "('p, 'c) bridge \<Rightarrow> provider_id \<Rightarrow> provider_descriptor option" where
  "br_provider_descriptor b pid = map_option rp_descriptor (bt_get (br_providers b) pid)"

definition br_channel_descriptor :: "('p, 'c) bridge \<Rightarrow> channel_id \<Rightarrow> channel_descriptor option" where
  "br_channel_descriptor b cid = map_option rc_descriptor (bt_get (br_channels b) cid)"

definition discovery_snapshot :: "('p, 'c) bridge \<Rightarrow> channel_discovery_snapshot" where
  "discovery_snapshot b =
     \<lparr>disc_providers = map rp_descriptor (bt_values (br_providers b)),
      disc_sessions = map (\<lambda>aggregate. \<lparr>ds_session = agg_session aggregate,
                          ds_last_sequence = last_sequence aggregate\<rparr>) (bt_values (br_sessions b))\<rparr>"

definition is_subscribed :: "('p, 'c) bridge \<Rightarrow> channel_id \<Rightarrow> session_id \<Rightarrow> bool" where
  "is_subscribed b cid sid =
     (case bt_get (br_subscriptions b) sid of
        Some channels \<Rightarrow> bs_contains channels cid
      | None \<Rightarrow> False)"

definition session_subscribers :: "('p, 'c) bridge \<Rightarrow> session_id \<Rightarrow> channel_id list" where
  "session_subscribers b sid =
     (case bt_get (br_subscriptions b) sid of
        Some channels \<Rightarrow> bs_elems channels
      | None \<Rightarrow> [])"

text \<open>\<open>subscriptions.entry(session_id).or_default().insert(channel_id)\<close>.\<close>

definition activate_subscription ::
  "channel_id \<Rightarrow> session_id \<Rightarrow> ('p, 'c) bridge \<Rightarrow> ('p, 'c) bridge" where
  "activate_subscription cid sid b =
     b\<lparr>br_subscriptions := bt_insert sid
         (bs_insert cid (case bt_get (br_subscriptions b) sid of
                           Some channels \<Rightarrow> channels | None \<Rightarrow> bt_empty))
         (br_subscriptions b)\<rparr>"

section \<open>Catch-up\<close>

definition route_pending ::
  "provider_descriptor \<Rightarrow> channel_descriptor \<Rightarrow> agent_session \<Rightarrow> interaction_request list
     \<Rightarrow> (routed_interaction_request list, 'x subscription_error) result" where
  "route_pending pd cd session requests =
     collect_results (\<lambda>request.
       and_then (map_err BaselineRoute (interaction_route pd cd session request))
         (\<lambda>route. Ok \<lparr>rir_request = request, rir_route = route\<rparr>)) requests"

definition route_page ::
  "provider_descriptor \<Rightarrow> channel_descriptor \<Rightarrow> agent_session \<Rightarrow> agent_event list
     \<Rightarrow> (routed_agent_event list, 'x subscription_error) result" where
  "route_page pd cd session events =
     collect_results (\<lambda>event.
       and_then (map_err BaselineRoute (channel_event_route pd cd session event))
         (\<lambda>route. Ok \<lparr>rae_event = event, rae_route = route\<rparr>)) events"

text \<open>The cursor the page starts from, whether it was reset, and the page.\<close>

definition sync_page ::
  "channel_id \<Rightarrow> session_aggregate \<Rightarrow> u64 \<Rightarrow> usize
     \<Rightarrow> (u64 \<times> bool \<times> agent_event list, 'x subscription_error) result" where
  "sync_page cid aggregate requested_after max_events =
     (case retained_event_page_after aggregate requested_after max_events of
        Some events \<Rightarrow> Ok (requested_after, False, events)
      | None \<Rightarrow>
          and_then (ok_or (InitialSessionHandoff
              \<lparr>de_channel_id = cid, de_delivery = DeliveryEvent,
               de_source = IoError ''complete in-memory Session history is unavailable''\<rparr>)
            (retained_event_page_after aggregate 0 max_events))
          (\<lambda>events. Ok (0, True, events)))"

text \<open>The page with its routes and, on the final page, the live baseline: everything
  \<open>sync_session\<close> computes before the handoff.\<close>

definition prepare_sync ::
  "channel_id \<Rightarrow> provider_descriptor \<Rightarrow> channel_descriptor \<Rightarrow> session_aggregate \<Rightarrow> u64 \<Rightarrow> usize
     \<Rightarrow> (channel_session_sync, 'x subscription_error) result" where
  "prepare_sync cid pd cd aggregate requested_after max_events =
     and_then (sync_page cid aggregate requested_after max_events) (\<lambda>(after_sequence, reset, page_events).
     let through_sequence =
           (if page_events = [] then after_sequence else ev_sequence (last page_events));
         final_page = (through_sequence = last_sequence aggregate)
     in and_then (route_page pd cd (agg_session aggregate) page_events) (\<lambda>routed_events.
        and_then (if final_page
                  then and_then (route_pending pd cd (agg_session aggregate)
                         (bt_values (agg_pending_interactions aggregate)))
                       (\<lambda>pending. Ok (Some \<lparr>csb_session = agg_session aggregate,
                           csb_sequence = last_sequence aggregate,
                           csb_pending_interactions = pending\<rparr>))
                  else Ok None) (\<lambda>baseline.
        Ok \<lparr>css_after_sequence = after_sequence, css_through_sequence = through_sequence,
            css_reset = reset, css_events = routed_events, css_baseline = baseline\<rparr>)))"

definition sync_outcome :: "channel_session_sync \<Rightarrow> session_sync_outcome" where
  "sync_outcome sync =
     \<lparr>sso_through_sequence = css_through_sequence sync, sso_event_count = length (css_events sync),
      sso_reset = css_reset sync, sso_subscribed = css_is_final sync,
      sso_pending_interaction_count =
        (case css_baseline sync of Some bl \<Rightarrow> length (csb_pending_interactions bl) | None \<Rightarrow> 0)\<rparr>"

definition sync_session ::
  "('c, 'x) channel_port \<Rightarrow> channel_id \<Rightarrow> session_id \<Rightarrow> u64 \<Rightarrow> usize \<Rightarrow> ('p, 'c) bridge
     \<Rightarrow> (session_sync_outcome, 'x subscription_error) result \<times> ('p, 'c) bridge" where
  "sync_session cp cid sid requested_after max_events b =
     (if max_events = 0 then (Err InvalidPageSize, b)
      else case bt_get (br_channels b) cid of
        None \<Rightarrow> (Err (SubChannelNotFound cid), b)
      | Some channel \<Rightarrow>
     (case bt_get (br_sessions b) sid of
        None \<Rightarrow> (Err (SubSessionNotFound sid), b)
      | Some aggregate \<Rightarrow>
      if is_subscribed b cid sid
      then (Ok \<lparr>sso_through_sequence = last_sequence aggregate, sso_event_count = 0,
               sso_reset = False, sso_subscribed = True, sso_pending_interaction_count = 0\<rparr>, b)
      else case bt_get (br_providers b) (ses_provider_id (agg_session aggregate)) of
        None \<Rightarrow> (Err (SubSessionNotFound sid), b)
      | Some provider \<Rightarrow>
     (case prepare_sync cid (rp_descriptor provider) (rc_descriptor channel) aggregate
             requested_after max_events of
        Err e \<Rightarrow> (Err e, b)
      | Ok sync \<Rightarrow>
     (case rc_deliver_session_sync cp channel sync of
        (Err source, channel') \<Rightarrow>
          (Err (InitialSessionHandoff \<lparr>de_channel_id = cid, de_delivery = DeliverySession,
                  de_source = source\<rparr>),
           b\<lparr>br_channels := bt_insert cid channel' (br_channels b)\<rparr>)
      | (Ok _, channel') \<Rightarrow>
          let b1 = b\<lparr>br_channels := bt_insert cid channel' (br_channels b)\<rparr>
          in (Ok (sync_outcome sync),
              if css_through_sequence sync = last_sequence aggregate
              then activate_subscription cid sid b1 else b1)))))"

section \<open>Subscriptions\<close>

definition subscribe ::
  "('c, 'x) channel_port \<Rightarrow> channel_id \<Rightarrow> session_id \<Rightarrow> ('p, 'c) bridge
     \<Rightarrow> (subscribe_outcome, 'x subscription_error) result \<times> ('p, 'c) bridge" where
  "subscribe cp cid sid b =
     (case bt_get (br_channels b) cid of
        None \<Rightarrow> (Err (SubChannelNotFound cid), b)
      | Some channel \<Rightarrow>
     (case bt_get (br_sessions b) sid of
        None \<Rightarrow> (Err (SubSessionNotFound sid), b)
      | Some aggregate \<Rightarrow>
      if is_subscribed b cid sid then (Ok (AlreadySubscribed (last_sequence aggregate)), b)
      else case bt_get (br_providers b) (ses_provider_id (agg_session aggregate)) of
        None \<Rightarrow> (Err (SubSessionNotFound sid), b)
      | Some provider \<Rightarrow>
     (case route_pending (rp_descriptor provider) (rc_descriptor channel) (agg_session aggregate)
             (bt_values (agg_pending_interactions aggregate)) of
        Err e \<Rightarrow> (Err e, b)
      | Ok pending \<Rightarrow>
          let baseline = \<lparr>csb_session = agg_session aggregate,
                csb_sequence = last_sequence aggregate, csb_pending_interactions = pending\<rparr>;
              session_view_delivered =
                cc_contains (cd_capabilities (rc_descriptor channel)) CC_SESSION_VIEW;
              outcome = Subscribed session_view_delivered (last_sequence aggregate) (length pending)
          in if session_view_delivered
             then (case rc_deliver_session_baseline cp channel baseline of
                     (Err source, channel') \<Rightarrow>
                       (Err (InitialSessionHandoff \<lparr>de_channel_id = cid,
                               de_delivery = DeliverySession, de_source = source\<rparr>),
                        b\<lparr>br_channels := bt_insert cid channel' (br_channels b)\<rparr>)
                   | (Ok _, channel') \<Rightarrow>
                       (Ok outcome, activate_subscription cid sid
                          (b\<lparr>br_channels := bt_insert cid channel' (br_channels b)\<rparr>)))
             else (Ok outcome, activate_subscription cid sid b))))"

definition unsubscribe ::
  "channel_id \<Rightarrow> session_id \<Rightarrow> ('p, 'c) bridge
     \<Rightarrow> (unsubscribe_outcome, 'x subscription_error) result \<times> ('p, 'c) bridge" where
  "unsubscribe cid sid b =
     (if \<not> bt_contains_key (br_channels b) cid then (Err (SubChannelNotFound cid), b)
      else if \<not> bt_contains_key (br_sessions b) sid then (Err (SubSessionNotFound sid), b)
      else let (removed, subs1) =
                 (case bt_get (br_subscriptions b) sid of
                    Some channels \<Rightarrow>
                      (bs_contains channels cid,
                       bt_insert sid (bt_remove cid channels) (br_subscriptions b))
                  | None \<Rightarrow> (False, br_subscriptions b));
               remove_empty_set =
                 (case bt_get subs1 sid of Some channels \<Rightarrow> bt_is_empty channels | None \<Rightarrow> False);
               subs2 = (if remove_empty_set then bt_remove sid subs1 else subs1)
           in (Ok (if removed then Unsubscribed else NotSubscribed), b\<lparr>br_subscriptions := subs2\<rparr>))"

text \<open>The closure of \<open>retain\<close> counts the sets it shrinks; it visits every entry once.\<close>

definition unsubscribe_channel ::
  "channel_id \<Rightarrow> ('p, 'c) bridge \<Rightarrow> (usize, 'x subscription_error) result \<times> ('p, 'c) bridge" where
  "unsubscribe_channel cid b =
     (if \<not> bt_contains_key (br_channels b) cid then (Err (SubChannelNotFound cid), b)
      else (Ok (length (filter (\<lambda>channels. bs_contains channels cid)
                    (bt_values (br_subscriptions b)))),
            b\<lparr>br_subscriptions := bt_retain
                (\<lambda>_ channels. let channels' = bt_remove cid channels
                              in (\<not> bt_is_empty channels', channels')) (br_subscriptions b)\<rparr>))"

section \<open>Events from a Provider\<close>

definition event_updates_session_view :: "agent_event \<Rightarrow> bool" where
  "event_updates_session_view event =
     (case ev_payload event of
        SessionStarted _ \<Rightarrow> True
      | StateChanged _ \<Rightarrow> True
      | ConnectionChanged _ \<Rightarrow> True
      | SessionEnded _ \<Rightarrow> True
      | _ \<Rightarrow> False)"

definition route_to_subscriber ::
  "provider_descriptor \<Rightarrow> agent_session \<Rightarrow> agent_event \<Rightarrow> ('p, 'c) bridge \<Rightarrow> channel_id
     \<Rightarrow> (channel_id \<times> channel_event_route_kind \<times> bool, 'x provider_event_error) result" where
  "route_to_subscriber pd session event b cid =
     and_then (ok_or (EvChannelNotFound cid) (bt_get (br_channels b) cid)) (\<lambda>channel.
     and_then (map_err EvCapabilityRoute
                 (channel_event_route pd (rc_descriptor channel) session event)) (\<lambda>route.
     Ok (cid, route, cc_contains (cd_capabilities (rc_descriptor channel)) CC_SESSION_VIEW
                       \<and> event_updates_session_view event)))"

definition deliver_one ::
  "('c, 'x) channel_port \<Rightarrow> agent_event \<Rightarrow> agent_session option \<Rightarrow> channel_id
     \<Rightarrow> channel_event_route_kind \<Rightarrow> bool \<Rightarrow> 'c registered_channel
     \<Rightarrow> 'x channel_delivery_result \<times> 'c registered_channel" where
  "deliver_one cp event session_view cid route deliver_session channel =
     (case rc_deliver_event cp channel event route of
        (Err source, channel1) \<Rightarrow>
          (DeliveryFailed \<lparr>de_channel_id = cid, de_delivery = DeliveryEvent, de_source = source\<rparr>,
           channel1)
      | (Ok _, channel1) \<Rightarrow>
          (case (if deliver_session then session_view else None) of
             None \<Rightarrow> (Delivered cid, channel1)
           | Some session \<Rightarrow>
               (case rc_deliver_session cp channel1 session of
                  (Err source, channel2) \<Rightarrow>
                    (DeliveryFailed \<lparr>de_channel_id = cid, de_delivery = DeliverySession,
                       de_source = source\<rparr>, channel2)
                | (Ok _, channel2) \<Rightarrow> (Delivered cid, channel2))))"

fun fan_out ::
  "('c, 'x) channel_port \<Rightarrow> agent_event \<Rightarrow> agent_session option
     \<Rightarrow> (channel_id \<times> channel_event_route_kind \<times> bool) list
     \<Rightarrow> 'x channel_delivery_result list \<Rightarrow> ('p, 'c) bridge
     \<Rightarrow> ('x channel_delivery_result list, 'x provider_event_error) result \<times> ('p, 'c) bridge" where
  "fan_out cp event session_view [] deliveries b = (Ok deliveries, b)"
| "fan_out cp event session_view ((cid, route, deliver_session) # routes) deliveries b =
     (case bt_get (br_channels b) cid of
        None \<Rightarrow> (Err (EvChannelNotFound cid), b)
      | Some channel \<Rightarrow>
          (case deliver_one cp event session_view cid route deliver_session channel of
             (result, channel') \<Rightarrow>
               fan_out cp event session_view routes (deliveries @ [result])
                 (b\<lparr>br_channels := bt_insert cid channel' (br_channels b)\<rparr>)))"

text \<open>The Session an event is routed against: the current one, or the one it announces. None
  is the early return \<open>SessionNotStarted\<close>.\<close>

definition routing_session :: "('p, 'c) bridge \<Rightarrow> agent_event \<Rightarrow> agent_session option" where
  "routing_session b event =
     (case bt_get (br_sessions b) (ev_session_id event) of
        Some aggregate \<Rightarrow> Some (agg_session aggregate)
      | None \<Rightarrow> (case ev_payload event of SessionStarted session \<Rightarrow> Some session | _ \<Rightarrow> None))"

text \<open>The reduction step: the outcome, the Session the fan-out shows, and the Bridge.\<close>

definition reduce_event ::
  "agent_event \<Rightarrow> ('p, 'c) bridge
     \<Rightarrow> (apply_outcome \<times> agent_session, 'x provider_event_error) result \<times> ('p, 'c) bridge" where
  "reduce_event event b =
     (case bt_get (br_sessions b) (ev_session_id event) of
        Some aggregate \<Rightarrow>
          (case apply_event aggregate event of
             (r, aggregate') \<Rightarrow>
               let b1 = b\<lparr>br_sessions :=
                          bt_insert (ev_session_id event) aggregate' (br_sessions b)\<rparr>
               in (case r of
                     Err e \<Rightarrow> (Err (Reduce e), b1)
                   | Ok outcome \<Rightarrow> (Ok (outcome, agg_session aggregate'), b1)))
      | None \<Rightarrow>
          (case from_initial_event_with_config event (br_session_config b) of
             Err e \<Rightarrow> (Err (Reduce e), b)
           | Ok aggregate \<Rightarrow>
               (Ok (Applied, agg_session aggregate),
                b\<lparr>br_sessions := bt_insert (ev_session_id event) aggregate (br_sessions b)\<rparr>)))"

text \<open>Everything before the reduction: the checks and the route of every subscriber.\<close>

definition admit_event ::
  "provider_id \<Rightarrow> agent_event \<Rightarrow> ('p, 'c) bridge
     \<Rightarrow> ((channel_id \<times> channel_event_route_kind \<times> bool) list, 'x provider_event_error) result" where
  "admit_event pid event b =
     and_then (ok_or (EvProviderNotFound pid) (bt_get (br_providers b) pid)) (\<lambda>provider.
     and_then (ok_or (SessionNotStarted (ev_session_id event)) (routing_session b event)) (\<lambda>session.
     and_then (map_err EvCapabilityRoute
                 (validate_provider_event (rp_descriptor provider) session event)) (\<lambda>_.
     collect_results (route_to_subscriber (rp_descriptor provider) session event b)
       (session_subscribers b (ev_session_id event)))))"

definition handle_provider_event ::
  "('c, 'x) channel_port \<Rightarrow> provider_id \<Rightarrow> agent_event \<Rightarrow> ('p, 'c) bridge
     \<Rightarrow> ('x provider_event_report, 'x provider_event_error) result \<times> ('p, 'c) bridge" where
  "handle_provider_event cp pid event b =
     (case admit_event pid event b of
        Err e \<Rightarrow> (Err e, b)
      | Ok routes \<Rightarrow>
     (case reduce_event event b of
        (Err e, b1) \<Rightarrow> (Err e, b1)
      | (Ok (AlreadyApplied, _), b1) \<Rightarrow>
          (Ok \<lparr>rep_outcome = EventAlreadyApplied, rep_deliveries = []\<rparr>, b1)
      | (Ok (Applied, reduced), b1) \<Rightarrow>
          let session_view =
                (if list_ex (\<lambda>(_, _, deliver_session). deliver_session) routes
                 then Some reduced else None)
          in (case fan_out cp event session_view routes [] b1 of
                (Err e, b2) \<Rightarrow> (Err e, b2)
              | (Ok deliveries, b2) \<Rightarrow>
                  let report = \<lparr>rep_outcome = EventApplied, rep_deliveries = deliveries\<rparr>
                  in if has_failures report then (Err (ChannelHandoffs report), b2)
                     else (Ok report, b2))))"

section \<open>Actions from a Channel\<close>

definition action_channel_descriptor ::
  "('p, 'c) bridge \<Rightarrow> channel_id \<Rightarrow> (channel_descriptor, 'x channel_action_error) result" where
  "action_channel_descriptor b cid =
     and_then (ok_or (ActChannelNotFound cid) (bt_get (br_channels b) cid))
       (\<lambda>channel. Ok (rc_descriptor channel))"

definition validate_action_subscription ::
  "('p, 'c) bridge \<Rightarrow> channel_id \<Rightarrow> session_id \<Rightarrow> (unit, 'x channel_action_error) result" where
  "validate_action_subscription b cid sid =
     (if \<not> bt_contains_key (br_sessions b) sid then Err (ActSessionNotFound sid)
      else if \<not> is_subscribed b cid sid then Err (ChannelNotSubscribed cid sid)
      else Ok ())"

text \<open>The part of both handlers before the request-specific checks: the channel, the
  aggregate of the session and its owning Provider.\<close>

definition action_context ::
  "('p, 'c) bridge \<Rightarrow> channel_id \<Rightarrow> session_id
     \<Rightarrow> (channel_descriptor \<times> session_aggregate \<times> 'p registered_provider,
         'x channel_action_error) result" where
  "action_context b cid sid =
     and_then (action_channel_descriptor b cid) (\<lambda>channel.
     and_then (validate_action_subscription b cid sid) (\<lambda>_.
     and_then (ok_or (ActSessionNotFound sid) (bt_get (br_sessions b) sid)) (\<lambda>aggregate.
     and_then (ok_or (ActProviderNotFound (ses_provider_id (agg_session aggregate)))
                 (bt_get (br_providers b) (ses_provider_id (agg_session aggregate)))) (\<lambda>provider.
     Ok (channel, aggregate, provider)))))"

definition hand_to_provider ::
  "provider_id \<Rightarrow> provider_handoff_kind
     \<Rightarrow> (unit, 'x adapter_error) result \<times> 'p registered_provider \<Rightarrow> ('p, 'c) bridge
     \<Rightarrow> (unit, 'x channel_action_error) result \<times> ('p, 'c) bridge" where
  "hand_to_provider pid handoff accepted b =
     (case accepted of (r, provider') \<Rightarrow>
        (map_err (ProviderHandoff pid handoff) r,
         b\<lparr>br_providers := bt_insert pid provider' (br_providers b)\<rparr>))"

definition handle_interaction_response ::
  "('p, 'x) provider_port \<Rightarrow> channel_id \<Rightarrow> interaction_response \<Rightarrow> ('p, 'c) bridge
     \<Rightarrow> (unit, 'x channel_action_error) result \<times> ('p, 'c) bridge" where
  "handle_interaction_response pp cid response b =
     (case action_context b cid (is_session_id response) of
        Err e \<Rightarrow> (Err e, b)
      | Ok (channel, aggregate, provider) \<Rightarrow>
     (case bt_get (agg_pending_interactions aggregate) (is_request_id response) of
        None \<Rightarrow> (Err (ActInteractionNotPending (is_session_id response) (is_request_id response)), b)
      | Some request \<Rightarrow>
     (case validate_interaction_response (rp_descriptor provider) channel (agg_session aggregate)
             request response of
        Err e \<Rightarrow> (Err (ActCapabilityRoute e), b)
      | Ok _ \<Rightarrow>
          hand_to_provider (ses_provider_id (agg_session aggregate)) HandoffInteractionResponse
            (rp_accept_interaction_response pp provider response) b)))"

definition handle_command ::
  "('p, 'x) provider_port \<Rightarrow> channel_id \<Rightarrow> agent_command \<Rightarrow> ('p, 'c) bridge
     \<Rightarrow> (unit, 'x channel_action_error) result \<times> ('p, 'c) bridge" where
  "handle_command pp cid command b =
     (case action_context b cid (cmd_session_id command) of
        Err e \<Rightarrow> (Err e, b)
      | Ok (channel, aggregate, provider) \<Rightarrow>
     (case validate_command (rp_descriptor provider) channel (agg_session aggregate) command of
        Err e \<Rightarrow> (Err (ActCapabilityRoute e), b)
      | Ok _ \<Rightarrow>
          hand_to_provider (ses_provider_id (agg_session aggregate)) HandoffCommand
            (rp_accept_command pp provider command) b))"

definition publish_event ::
  "('c, 'x) channel_port \<Rightarrow> provider_id \<Rightarrow> agent_event \<Rightarrow> ('p, 'c) bridge
     \<Rightarrow> (unit, 'x provider_event_error) result \<times> ('p, 'c) bridge" where
  "publish_event cp pid event b =
     (case handle_provider_event cp pid event b of
        (Err e, b') \<Rightarrow> (Err e, b')
      | (Ok _, b') \<Rightarrow> (Ok (), b'))"

end
