(* ===== verification/Bridge_Invariant.thy ===== *)
theory Bridge_Invariant
  imports Bridge
begin

text \<open>
  The invariant of the Bridge and its preservation by every operation, whatever the adapters
  do. The invariant speaks of the descriptor snapshots, the sessions and the subscriptions
  (\<open>bridge_frame\<close>), never of the adapters' own state.
\<close>

section \<open>What handoffs cannot change\<close>

definition bridge_frame ::
  "('p, 'c) bridge \<Rightarrow> (provider_id \<Rightarrow> provider_descriptor option) \<times> (channel_id \<Rightarrow> channel_descriptor option)
     \<times> session_aggregate_config \<times> (session_id, session_aggregate) btree_map
     \<times> (session_id, channel_id btree_set) btree_map" where
  "bridge_frame b = (br_provider_descriptor b, br_channel_descriptor b, br_session_config b,
     br_sessions b, br_subscriptions b)"

lemma bridge_frame_eq_iff:
  "bridge_frame b = bridge_frame b' \<longleftrightarrow>
     br_provider_descriptor b = br_provider_descriptor b'
     \<and> br_channel_descriptor b = br_channel_descriptor b' \<and> br_session_config b = br_session_config b'
     \<and> br_sessions b = br_sessions b' \<and> br_subscriptions b = br_subscriptions b'"
  by (simp add: bridge_frame_def)

lemma descriptor_updates [simp]:
  "br_provider_descriptor (b\<lparr>br_subscriptions := x\<rparr>) = br_provider_descriptor b"
  "br_provider_descriptor (b\<lparr>br_sessions := y\<rparr>) = br_provider_descriptor b"
  "br_provider_descriptor (b\<lparr>br_channels := z\<rparr>) = br_provider_descriptor b"
  "br_channel_descriptor (b\<lparr>br_subscriptions := x\<rparr>) = br_channel_descriptor b"
  "br_channel_descriptor (b\<lparr>br_sessions := y\<rparr>) = br_channel_descriptor b"
  "br_channel_descriptor (b\<lparr>br_providers := w\<rparr>) = br_channel_descriptor b"
  by (simp_all add: br_provider_descriptor_def br_channel_descriptor_def fun_eq_iff)

lemma put_channel_frame:
  assumes "bt_get (br_channels b) cid = Some ch" and "rc_descriptor ch' = rc_descriptor ch"
  shows "bridge_frame (b\<lparr>br_channels := bt_insert cid ch' (br_channels b)\<rparr>) = bridge_frame b"
  using assms by (auto simp: bridge_frame_eq_iff br_channel_descriptor_def br_provider_descriptor_def)

lemma put_provider_frame:
  assumes "bt_get (br_providers b) pid = Some p" and "rp_descriptor p' = rp_descriptor p"
  shows "bridge_frame (b\<lparr>br_providers := bt_insert pid p' (br_providers b)\<rparr>) = bridge_frame b"
  using assms by (auto simp: bridge_frame_eq_iff br_channel_descriptor_def br_provider_descriptor_def)

lemma deliver_one_descriptor:
  "deliver_one cp e v cid route ds ch = (r, ch') \<Longrightarrow> rc_descriptor ch' = rc_descriptor ch"
  by (auto simp: deliver_one_def rc_calls dest!: rc_handoff_descriptor
      split: prod.splits sum.splits option.splits if_splits)

lemma deliver_one_channel: "dr_channel_id (fst (deliver_one cp e v cid route ds ch)) = cid"
  by (auto simp: deliver_one_def split: prod.splits sum.splits option.splits)

lemma fan_out_frame:
  "fan_out cp e v routes acc b = (r, b') \<Longrightarrow> bridge_frame b' = bridge_frame b"
proof (induction routes arbitrary: acc b)
  case (Cons x routes)
  obtain cid route ds where x: "x = (cid, route, ds)" by (cases x)
  show ?case
  proof (cases "bt_get (br_channels b) cid")
    case None
    with Cons.prems x show ?thesis by simp
  next
    case (Some ch)
    obtain res ch' where d: "deliver_one cp e v cid route ds ch = (res, ch')" by fastforce
    with Cons.prems x Some
    have "fan_out cp e v routes (acc @ [res]) (b\<lparr>br_channels := bt_insert cid ch' (br_channels b)\<rparr>) = (r, b')"
      by simp
    from Cons.IH [OF this] put_channel_frame [OF Some deliver_one_descriptor [OF d]]
    show ?thesis by simp
  qed
qed simp

section \<open>The invariant\<close>

definition session_ok :: "('p, 'c) bridge \<Rightarrow> session_id \<Rightarrow> session_aggregate \<Rightarrow> bool" where
  "session_ok b sid agg \<longleftrightarrow> ses_id (agg_session agg) = sid
     \<and> (\<exists>pd log. br_provider_descriptor b (ses_provider_id (agg_session agg)) = Some pd
          \<and> history (br_session_config b) log agg
          \<and> (\<forall>e \<in> set log. wf_event e \<and> validate_provider_event pd (agg_session agg) e = Ok ()))"

definition subscribers_ok :: "('p, 'c) bridge \<Rightarrow> session_id \<Rightarrow> channel_id btree_set \<Rightarrow> bool" where
  "subscribers_ok b sid channels \<longleftrightarrow> bt_get (br_sessions b) sid \<noteq> None
     \<and> \<not> bt_is_empty channels
     \<and> (\<forall>cid. bs_contains channels cid \<longrightarrow> br_channel_descriptor b cid \<noteq> None)"

definition bridge_inv :: "('p, 'c) bridge \<Rightarrow> bool" where
  "bridge_inv b \<longleftrightarrow>
     (\<forall>pid d. br_provider_descriptor b pid = Some d \<longrightarrow> pd_id d = pid)
     \<and> (\<forall>cid d. br_channel_descriptor b cid = Some d \<longrightarrow> cd_id d = cid)
     \<and> (\<forall>sid agg. bt_get (br_sessions b) sid = Some agg \<longrightarrow> session_ok b sid agg)
     \<and> (\<forall>sid channels. bt_get (br_subscriptions b) sid = Some channels \<longrightarrow>
          subscribers_ok b sid channels)"

lemma bridge_inv_frame: "bridge_frame b' = bridge_frame b \<Longrightarrow> bridge_inv b' \<longleftrightarrow> bridge_inv b"
  by (simp add: bridge_inv_def session_ok_def subscribers_ok_def bridge_frame_eq_iff)

lemma bridge_inv_session:
  assumes "bridge_inv b" and "bt_get (br_sessions b) sid = Some agg"
  shows "session_ok b sid agg" "ses_id (agg_session agg) = sid"
  using assms by (auto simp: bridge_inv_def session_ok_def)

lemma bridge_inv_initial: "bridge_inv (with_session_config cfg)"
  by (simp add: bridge_inv_def with_session_config_def br_provider_descriptor_def
      br_channel_descriptor_def)

lemma bridge_inv_register_provider:
  assumes "bridge_inv b" and "register_provider pp p b = (r, b')"
  shows "bridge_inv b'"
proof (cases "bt_get (br_providers b) (pd_id (pp_descriptor pp p))")
  case None
  let ?d = "pp_descriptor pp p"
  from None assms(2) have b': "b' = b\<lparr>br_providers := bt_insert (pd_id ?d)
      \<lparr>rp_descriptor = ?d, rp_port = p\<rparr> (br_providers b)\<rparr>"
    by (auto simp: register_provider_def bt_contains_key_def Let_def)
  have pd: "br_provider_descriptor b' = (br_provider_descriptor b)(pd_id ?d \<mapsto> ?d)"
    and fresh: "br_provider_descriptor b (pd_id ?d) = None"
    using None by (auto simp: b' br_provider_descriptor_def)
  have rest: "br_channel_descriptor b' = br_channel_descriptor b"
    "br_session_config b' = br_session_config b" "br_sessions b' = br_sessions b"
    "br_subscriptions b' = br_subscriptions b"
    by (simp_all add: b' br_channel_descriptor_def fun_eq_iff)
  have sessions: "session_ok b' sid agg" if "session_ok b sid agg" for sid agg
    using that fresh by (auto simp: session_ok_def pd rest)
  show ?thesis
    using assms(1) sessions unfolding bridge_inv_def
    by (auto simp: pd rest subscribers_ok_def split: if_splits)
next
  case (Some rp)
  with assms show ?thesis by (auto simp: register_provider_def bt_contains_key_def Let_def)
qed

lemma bridge_inv_register_channel:
  assumes "bridge_inv b" and "register_channel cp c b = (r, b')"
  shows "bridge_inv b'"
proof (cases "bt_get (br_channels b) (cd_id (cp_descriptor cp c))")
  case None
  let ?d = "cp_descriptor cp c"
  from None assms(2) have b': "b' = b\<lparr>br_channels := bt_insert (cd_id ?d)
      \<lparr>rc_descriptor = ?d, rc_port = c\<rparr> (br_channels b)\<rparr>"
    by (auto simp: register_channel_def bt_contains_key_def Let_def)
  have cd: "br_channel_descriptor b' = (br_channel_descriptor b)(cd_id ?d \<mapsto> ?d)"
    by (auto simp: b' br_channel_descriptor_def)
  have rest: "br_provider_descriptor b' = br_provider_descriptor b"
    "br_session_config b' = br_session_config b" "br_sessions b' = br_sessions b"
    "br_subscriptions b' = br_subscriptions b"
    by (simp_all add: b' br_provider_descriptor_def fun_eq_iff)
  show ?thesis
    using assms(1) unfolding bridge_inv_def
    by (auto simp: cd rest session_ok_def subscribers_ok_def split: if_splits)
next
  case (Some rc)
  with assms show ?thesis by (auto simp: register_channel_def bt_contains_key_def Let_def)
qed

section \<open>The subscription relation\<close>

text \<open>The specification of subscriptions: a set of channel and session pairs.\<close>

definition subscription_rel :: "('p, 'c) bridge \<Rightarrow> (channel_id \<times> session_id) set" where
  "subscription_rel b = {(cid, sid). is_subscribed b cid sid}"

lemma activate_rel: "subscription_rel (activate_subscription cid sid b) = insert (cid, sid) (subscription_rel b)"
  by (auto simp: subscription_rel_def activate_subscription_def is_subscribed_def
      split: option.splits if_splits)

lemma subscription_rel_frame: "bridge_frame b' = bridge_frame b \<Longrightarrow> subscription_rel b' = subscription_rel b"
  by (simp add: subscription_rel_def is_subscribed_def bridge_frame_eq_iff)

lemma unsubscribe_rel:
  assumes "unsubscribe cid sid b = (Ok out, b')"
  shows "subscription_rel b' = subscription_rel b - {(cid, sid)}
    \<and> (out = Unsubscribed \<longleftrightarrow> (cid, sid) \<in> subscription_rel b)"
proof (cases "bt_get (br_subscriptions b) sid")
  case None
  with assms show ?thesis
    by (auto simp: unsubscribe_def subscription_rel_def is_subscribed_def Let_def split: if_splits)
next
  case (Some cs)
  then have out: "out = Unsubscribed \<longleftrightarrow> bs_contains cs cid"
    and b': "br_subscriptions b' = (if bt_is_empty (bt_remove cid cs)
        then bt_remove sid (bt_insert sid (bt_remove cid cs) (br_subscriptions b))
        else bt_insert sid (bt_remove cid cs) (br_subscriptions b))"
    using assms by (auto simp: unsubscribe_def Let_def split: if_splits)
  have "is_subscribed b' c s \<longleftrightarrow> is_subscribed b c s \<and> (c, s) \<noteq> (cid, sid)" for c s
    using Some by (cases "s = sid") (simp_all add: is_subscribed_def b' bs_is_empty_iff, blast)
  with out Some show ?thesis by (auto simp: subscription_rel_def is_subscribed_def)
qed

lemma unsubscribe_channel_rel:
  assumes "unsubscribe_channel cid b = (Ok n, b')"
  shows "subscription_rel b' = {(c, s) \<in> subscription_rel b. c \<noteq> cid}"
  using assms
  by (auto simp: unsubscribe_channel_def subscription_rel_def is_subscribed_def Let_def
      bs_is_empty_iff split: option.splits if_splits bind_splits)

lemma activate_inv:
  assumes inv: "bridge_inv b" and s: "bt_get (br_sessions b) sid \<noteq> None"
    and c: "br_channel_descriptor b cid \<noteq> None"
  shows "bridge_inv (activate_subscription cid sid b)"
proof -
  let ?b = "activate_subscription cid sid b"
  have rest: "br_provider_descriptor ?b = br_provider_descriptor b"
    "br_channel_descriptor ?b = br_channel_descriptor b"
    "br_session_config ?b = br_session_config b" "br_sessions ?b = br_sessions b"
    by (simp_all add: activate_subscription_def)
  have subs: "subscribers_ok ?b t cs" if "bt_get (br_subscriptions ?b) t = Some cs" for t cs
  proof (cases "t = sid")
    case True
    with that have "cs = bs_insert cid (case bt_get (br_subscriptions b) sid of
        Some channels \<Rightarrow> channels | None \<Rightarrow> bt_empty)"
      by (simp add: activate_subscription_def)
    moreover have "bs_contains x d \<Longrightarrow> br_channel_descriptor b d \<noteq> None"
      if "bt_get (br_subscriptions b) sid = Some x" for x d
      using inv that unfolding bridge_inv_def subscribers_ok_def by blast
    ultimately show ?thesis
      using s c True by (auto simp: subscribers_ok_def rest bs_is_empty_iff split: option.splits)
  next
    case False
    with that inv show ?thesis
      by (auto simp: activate_subscription_def bridge_inv_def subscribers_ok_def rest)
  qed
  show ?thesis
    using inv subs unfolding bridge_inv_def by (auto simp: rest session_ok_def)
qed

text \<open>Shrinking the sets of subscribers and dropping the empty ones keeps the invariant.\<close>

lemma shrink_inv:
  assumes inv: "bridge_inv b"
    and shrunk: "\<And>sid cs. bt_get subs sid = Some cs \<Longrightarrow> \<not> bt_is_empty cs
      \<and> (\<exists>cs0. bt_get (br_subscriptions b) sid = Some cs0 \<and> (\<forall>c. bs_contains cs c \<longrightarrow> bs_contains cs0 c))"
  shows "bridge_inv (b\<lparr>br_subscriptions := subs\<rparr>)"
proof -
  let ?b = "b\<lparr>br_subscriptions := subs\<rparr>"
  have "subscribers_ok ?b sid cs" if "bt_get subs sid = Some cs" for sid cs
    using shrunk [OF that] inv unfolding bridge_inv_def subscribers_ok_def by fastforce
  then show ?thesis
    using inv unfolding bridge_inv_def by (auto simp: session_ok_def)
qed

lemma bridge_inv_unsubscribe:
  assumes "bridge_inv b" and "unsubscribe cid sid b = (r, b')"
  shows "bridge_inv b'"
proof -
  have "\<not> bt_is_empty cs" if "bt_get (br_subscriptions b) t = Some cs" for t cs
    using assms(1) that unfolding bridge_inv_def subscribers_ok_def by blast
  with assms show ?thesis
    by (auto simp: unsubscribe_def Let_def split: if_splits option.splits
        intro!: shrink_inv [OF assms(1)])
qed

lemma bridge_inv_unsubscribe_channel:
  assumes "bridge_inv b" and "unsubscribe_channel cid b = (r, b')"
  shows "bridge_inv b'"
  using assms
  by (auto simp: unsubscribe_channel_def Let_def split: if_splits bind_splits
      intro!: shrink_inv [OF assms(1)])

section \<open>Reduction\<close>

lemma validate_provider_event_session:
  "ses_id s = ses_id s' \<Longrightarrow> ses_provider_id s = ses_provider_id s' \<Longrightarrow>
     validate_provider_event p s e = Ok () \<longleftrightarrow> validate_provider_event p s' e = Ok ()"
  by (simp add: validate_provider_event_Ok)

lemma reduce_event_atomic: "reduce_event e b = (Err x, b') \<Longrightarrow> b' = b"
  by (auto simp: reduce_event_def Let_def bt_insert_same dest: reducer.rejected_keeps
      split: option.splits prod.splits sum.splits)

interpretation bridge_reducer: atomic_machine "\<lambda>b e. reduce_event e b"
  by unfold_locales (rule reduce_event_atomic)

lemma put_session_inv:
  assumes "bridge_inv b" and "session_ok b sid agg"
  shows "bridge_inv (b\<lparr>br_sessions := bt_insert sid agg (br_sessions b)\<rparr>)"
  using assms by (auto simp: bridge_inv_def session_ok_def subscribers_ok_def)

lemma session_ok_apply:
  assumes ok: "session_ok b sid agg" and step: "apply_event agg e = (r, agg')" and wf: "wf_event e"
    and pd: "br_provider_descriptor b (ses_provider_id (agg_session agg)) = Some pd"
    and valid: "validate_provider_event pd (agg_session agg) e = Ok ()"
  shows "session_ok b sid agg'"
proof -
  note frame = apply_event_frame [OF step]
  obtain log where hist: "history (br_session_config b) log agg"
    and log: "\<forall>x \<in> set log. wf_event x \<and> validate_provider_event pd (agg_session agg) x = Ok ()"
    using ok pd by (auto simp: session_ok_def)
  have "\<exists>log'. history (br_session_config b) log' agg' \<and> set log' \<subseteq> insert e (set log)"
  proof (cases r)
    case (Inl x)
    then show ?thesis using history.rejected [OF hist] step by blast
  next
    case (Inr out)
    then show ?thesis
      using history.retried [OF hist] history.applied [OF hist wf] step
      by (cases out) (force, blast)
  qed
  then obtain log' where "history (br_session_config b) log' agg'" "set log' \<subseteq> insert e (set log)"
    by blast
  moreover from this log valid wf
  have "\<forall>x \<in> set log'. wf_event x \<and> validate_provider_event pd (agg_session agg') x = Ok ()"
    using frame validate_provider_event_session [of "agg_session agg'" "agg_session agg"] by auto
  ultimately show ?thesis
    using ok pd frame by (auto simp: session_ok_def)
qed

lemma initial_session:
  assumes "from_initial_event_with_config e cfg = Ok agg" and "wf_event e"
  shows "ev_payload e = SessionStarted (agg_session agg)"
    and "ses_id (agg_session agg) = ev_session_id e"
  using assms
  by (auto simp: from_initial_event_with_config_def wf_event_def
      split: if_splits agent_event_payload.splits)

lemma provider_of_valid_event:
  assumes inv: "bridge_inv b" and p: "bt_get (br_providers b) pid = Some p"
    and valid: "validate_provider_event (rp_descriptor p) s e = Ok ()"
  shows "br_provider_descriptor b (ses_provider_id s) = Some (rp_descriptor p)"
    and "ses_provider_id s = pid"
proof -
  have d: "br_provider_descriptor b pid = Some (rp_descriptor p)"
    using p by (simp add: br_provider_descriptor_def)
  with inv have "pd_id (rp_descriptor p) = pid" by (auto simp: bridge_inv_def)
  with valid show "ses_provider_id s = pid" by (simp add: validate_provider_event_Ok)
  with d show "br_provider_descriptor b (ses_provider_id s) = Some (rp_descriptor p)" by simp
qed

lemma admit_event_Ok:
  "(admit_event pid e b :: (_, 'x provider_event_error) result) = Ok routes \<longleftrightarrow>
     (\<exists>p s. bt_get (br_providers b) pid = Some p \<and> routing_session b e = Some s
        \<and> validate_provider_event (rp_descriptor p) s e = Ok ()
        \<and> collect_results (route_to_subscriber (rp_descriptor p) s e b)
             (session_subscribers b (ev_session_id e))
           = (Ok routes :: (_, 'x provider_event_error) result))"
  by (auto simp: admit_event_def result_simps)

lemma bridge_inv_reduce:
  assumes inv: "bridge_inv b" and wf: "wf_event e"
    and admitted: "admit_event pid e b = Ok routes" and step: "reduce_event e b = (r, b')"
  shows "bridge_inv b'"
proof -
  obtain p s where p: "bt_get (br_providers b) pid = Some p"
    and rs: "routing_session b e = Some s"
    and valid: "validate_provider_event (rp_descriptor p) s e = Ok ()"
    using admitted by (auto simp: admit_event_Ok)
  show ?thesis
  proof (cases "bt_get (br_sessions b) (ev_session_id e)")
    case (Some agg)
    with rs have s: "s = agg_session agg" by (simp add: routing_session_def)
    obtain res agg' where ap: "apply_event agg e = (res, agg')" by fastforce
    have "session_ok b (ev_session_id e) agg'"
      using session_ok_apply [OF bridge_inv_session(1) [OF inv Some] ap wf]
        provider_of_valid_event [OF inv p valid] valid s by blast
    moreover have "b' = b\<lparr>br_sessions := bt_insert (ev_session_id e) agg' (br_sessions b)\<rparr>"
      using step Some ap by (auto simp: reduce_event_def Let_def split: sum.splits)
    ultimately show ?thesis using put_session_inv [OF inv] by simp
  next
    case None
    show ?thesis
    proof (cases "from_initial_event_with_config e (br_session_config b)")
      case (Inl x)
      with None step inv show ?thesis by (simp add: reduce_event_def)
    next
      case (Inr agg)
      note init = initial_session [OF Inr wf]
      have s: "s = agg_session agg" using rs None init by (simp add: routing_session_def)
      have "session_ok b (ev_session_id e) agg"
        unfolding session_ok_def
        using init history.start [OF wf Inr] provider_of_valid_event [OF inv p valid] valid s wf
        by (auto intro!: exI [of _ "[e]"])
      with put_session_inv [OF inv] step None Inr show ?thesis by (auto simp: reduce_event_def)
    qed
  qed
qed

section \<open>Fan-out\<close>

text \<open>The specification of the fan-out: every target is treated on its own, from the state its
  adapter had before.\<close>

definition target_result ::
  "('c, 'x) channel_port \<Rightarrow> agent_event \<Rightarrow> agent_session option \<Rightarrow> ('p, 'c) bridge
     \<Rightarrow> channel_id \<times> channel_event_route_kind \<times> bool \<Rightarrow> 'x channel_delivery_result \<times> 'c registered_channel" where
  "target_result cp e v b target = (case target of (cid, route, ds) \<Rightarrow>
     deliver_one cp e v cid route ds (the (bt_get (br_channels b) cid)))"

lemma fan_out_spec:
  assumes "\<forall>t \<in> set routes. bt_get (br_channels b) (fst t) \<noteq> None" and "distinct (map fst routes)"
  shows "\<exists>b'. fan_out cp e v routes acc b = (Ok (acc @ map (fst \<circ> target_result cp e v b) routes), b')
    \<and> br_providers b' = br_providers b
    \<and> (\<forall>c. bt_get (br_channels b') c = (case map_of (map (\<lambda>t. (fst t, t)) routes) c of
         None \<Rightarrow> bt_get (br_channels b) c
       | Some t \<Rightarrow> Some (snd (target_result cp e v b t))))"
  using assms
proof (induction routes arbitrary: acc b)
  case (Cons x routes)
  obtain cid route ds where x: "x = (cid, route, ds)" by (cases x)
  obtain ch where ch: "bt_get (br_channels b) cid = Some ch" using Cons.prems x by auto
  let ?d = "deliver_one cp e v cid route ds ch"
  let ?b1 = "b\<lparr>br_channels := bt_insert cid (snd ?d) (br_channels b)\<rparr>"
  have other: "target_result cp e v ?b1 t = target_result cp e v b t" if "t \<in> set routes" for t
  proof -
    have "fst t \<noteq> cid" using that Cons.prems(2) x by force
    then show ?thesis by (cases t) (simp add: target_result_def)
  qed
  have "\<forall>t \<in> set routes. bt_get (br_channels ?b1) (fst t) \<noteq> None" using Cons.prems(1) by auto
  then obtain b' where
    b': "fan_out cp e v routes (acc @ [fst ?d]) ?b1 =
        (Ok ((acc @ [fst ?d]) @ map (fst \<circ> target_result cp e v ?b1) routes), b')"
      "br_providers b' = br_providers ?b1"
    and chans: "\<forall>c. bt_get (br_channels b') c = (case map_of (map (\<lambda>t. (fst t, t)) routes) c of
         None \<Rightarrow> bt_get (br_channels ?b1) c | Some t \<Rightarrow> Some (snd (target_result cp e v ?b1 t)))"
    using Cons.IH [of ?b1 "acc @ [fst ?d]"] Cons.prems(2) by auto
  have head: "target_result cp e v b x = ?d" by (simp add: target_result_def x ch)
  have fan: "fan_out cp e v (x # routes) acc b =
      (Ok (acc @ map (fst \<circ> target_result cp e v b) (x # routes)), b')"
    using b'(1) other ch
    by (cases "deliver_one cp e v cid route ds ch") (simp add: x head [unfolded x] cong: map_cong)
  have "map_of (map (\<lambda>t. (fst t, t)) routes) cid = None"
    using Cons.prems(2) x by (force simp: map_of_eq_None_iff)
  then have "bt_get (br_channels b') c = (case map_of (map (\<lambda>t. (fst t, t)) (x # routes)) c of
       None \<Rightarrow> bt_get (br_channels b) c | Some t \<Rightarrow> Some (snd (target_result cp e v b t)))" for c
    using chans head other by (auto simp: x split: option.splits dest!: map_of_SomeD)
  with fan b'(2) show ?case by auto
qed simp

section \<open>Every operation preserves the invariant\<close>

lemma subscriber_iff: "cid \<in> set (session_subscribers b sid) \<longleftrightarrow> is_subscribed b cid sid"
  by (auto simp: session_subscribers_def is_subscribed_def split: option.splits)

lemma session_subscribers_ascending: "sorted_wrt (<) (session_subscribers b sid)"
  by (auto simp: session_subscribers_def bs_elems_ascending split: option.splits)

lemma distinct_session_subscribers [simp]: "distinct (session_subscribers b sid)"
  by (auto simp: session_subscribers_def split: option.splits)

lemma subscribed_registered:
  assumes "bridge_inv b" and "is_subscribed b cid sid"
  shows "\<exists>ch. bt_get (br_channels b) cid = Some ch" and "\<exists>agg. bt_get (br_sessions b) sid = Some agg"
proof -
  obtain cs where "bt_get (br_subscriptions b) sid = Some cs" and "bs_contains cs cid"
    using assms(2) by (auto simp: is_subscribed_def split: option.splits)
  with assms(1) have "br_channel_descriptor b cid \<noteq> None" and "bt_get (br_sessions b) sid \<noteq> None"
    by (auto simp: bridge_inv_def subscribers_ok_def)
  then show "\<exists>ch. bt_get (br_channels b) cid = Some ch" and "\<exists>agg. bt_get (br_sessions b) sid = Some agg"
    by (auto simp: br_channel_descriptor_def)
qed

lemma admitted_targets:
  assumes "(admit_event pid e b :: (_, 'x provider_event_error) result) = Ok routes"
  shows "map fst routes = session_subscribers b (ev_session_id e)"
    and "\<forall>t \<in> set routes. bt_get (br_channels b) (fst t) \<noteq> None"
proof -
  obtain p s where "bt_get (br_providers b) pid = Some p" and *: "list_all2 (\<lambda>cid t. (route_to_subscriber (rp_descriptor p) s e b cid
      :: (_, 'x provider_event_error) result) = Ok t) (session_subscribers b (ev_session_id e)) routes"
    using assms by (auto simp: admit_event_Ok collect_results_Ok_iff)
  have route: "fst t = cid \<and> bt_get (br_channels b) cid \<noteq> None"
    if "(route_to_subscriber (rp_descriptor p) s e b cid :: (_, 'x provider_event_error) result) = Ok t"
    for cid t
    using that by (auto simp: route_to_subscriber_def result_simps)
  show "map fst routes = session_subscribers b (ev_session_id e)"
    using * by (induction rule: list_all2_induct) (auto dest: route)
  show "\<forall>t \<in> set routes. bt_get (br_channels b) (fst t) \<noteq> None"
    using * by (induction rule: list_all2_induct) (auto dest: route)
qed

lemma reduce_event_channels: "reduce_event e b = (r, b') \<Longrightarrow>
    br_channels b' = br_channels b \<and> br_providers b' = br_providers b \<and> br_subscriptions b' = br_subscriptions b"
  by (auto simp: reduce_event_def Let_def split: option.splits prod.splits sum.splits)

lemma fan_out_inv: "fan_out cp e v routes acc b = (r, b') \<Longrightarrow> bridge_inv b \<Longrightarrow> bridge_inv b'"
  using bridge_inv_frame [OF fan_out_frame] by blast

lemma bridge_inv_handle_provider_event:
  fixes cp :: "('c, 'x) channel_port"
  assumes inv: "bridge_inv b" and wf: "wf_event e"
    and step: "handle_provider_event cp pid e b = (r, b')"
  shows "bridge_inv b'"
proof (cases "admit_event pid e b :: (_, 'x provider_event_error) result")
  case (Inl x)
  with step inv show ?thesis by (auto simp: handle_provider_event_def)
next
  case (Inr routes)
  obtain res :: "(_, 'x provider_event_error) result" and b1
    where red: "reduce_event e b = (res, b1)" by fastforce
  have inv1: "bridge_inv b1" by (rule bridge_inv_reduce [OF inv wf Inr red])
  show ?thesis
    using step Inr red inv1
    by (auto simp: handle_provider_event_def Let_def dest: fan_out_inv
        split: sum.splits prod.splits apply_outcome.splits if_splits)
qed

lemma sync_delivery_frame:
  assumes "bt_get (br_channels b) cid = Some ch" and "rc_handoff call ch = (r, ch')"
  shows "bridge_frame (b\<lparr>br_channels := bt_insert cid ch' (br_channels b)\<rparr>) = bridge_frame b"
  by (rule put_channel_frame [OF assms(1) rc_handoff_descriptor [OF assms(2)]])

lemma activate_after_delivery_inv:
  assumes inv: "bridge_inv b" and ch: "bt_get (br_channels b) cid = Some ch"
    and h: "rc_handoff call ch = (r, ch')" and s: "bt_get (br_sessions b) sid = Some agg"
  shows "bridge_inv (b\<lparr>br_channels := bt_insert cid ch' (br_channels b)\<rparr>)"
    and "bridge_inv (activate_subscription cid sid (b\<lparr>br_channels := bt_insert cid ch' (br_channels b)\<rparr>))"
proof -
  show *: "bridge_inv (b\<lparr>br_channels := bt_insert cid ch' (br_channels b)\<rparr>)"
    using bridge_inv_frame [OF sync_delivery_frame [OF ch h]] inv by simp
  show "bridge_inv (activate_subscription cid sid (b\<lparr>br_channels := bt_insert cid ch' (br_channels b)\<rparr>))"
    by (rule activate_inv [OF *]) (simp_all add: s br_channel_descriptor_def)
qed

lemma bridge_inv_sync_session:
  assumes "bridge_inv b" and "sync_session cp cid sid after n b = (r, b')"
  shows "bridge_inv b'"
  using assms activate_after_delivery_inv [OF assms(1)]
  by (auto simp: sync_session_def Let_def rc_calls
      split: if_splits option.splits sum.splits prod.splits)

lemma bridge_inv_subscribe:
  assumes "bridge_inv b" and "subscribe cp cid sid b = (r, b')"
  shows "bridge_inv b'"
proof -
  have "bridge_inv (activate_subscription cid sid b)"
    if "bt_get (br_sessions b) sid = Some agg" "bt_get (br_channels b) cid = Some ch" for agg ch
    using activate_inv [OF assms(1)] that by (simp add: br_channel_descriptor_def)
  with assms activate_after_delivery_inv [OF assms(1)] show ?thesis
    by (auto simp: subscribe_def Let_def rc_calls
        split: if_splits option.splits sum.splits prod.splits)
qed

lemma action_context_Ok:
  "(action_context b cid sid :: (_, 'x channel_action_error) result) = Ok (channel, agg, p) \<longleftrightarrow>
     br_channel_descriptor b cid = Some channel \<and> bt_get (br_sessions b) sid = Some agg
     \<and> is_subscribed b cid sid
     \<and> bt_get (br_providers b) (ses_provider_id (agg_session agg)) = Some p"
  by (auto simp: action_context_def action_channel_descriptor_def validate_action_subscription_def
      bt_contains_key_def br_channel_descriptor_def result_simps split: if_splits)

lemma hand_to_provider_frame:
  assumes "bt_get (br_providers b) pid = Some p"
    and "hand_to_provider pid kind (rp_handoff call p m) b = (r, b')"
  shows "bridge_frame b' = bridge_frame b"
proof -
  obtain res p' where h: "rp_handoff call p m = (res, p')" by fastforce
  with assms(2) have "b' = b\<lparr>br_providers := bt_insert pid p' (br_providers b)\<rparr>"
    by (simp add: hand_to_provider_def)
  with put_provider_frame [OF assms(1) rp_handoff_descriptor [OF h]] show ?thesis by simp
qed

lemma interaction_response_frame:
  fixes pp :: "('p, 'x) provider_port"
  assumes "handle_interaction_response pp cid response b = (r, b')"
  shows "bridge_frame b' = bridge_frame b"
proof (cases "action_context b cid (is_session_id response) :: (_, 'x channel_action_error) result")
  case (Inl x)
  with assms show ?thesis by (auto simp: handle_interaction_response_def)
next
  case (Inr ctx)
  obtain channel agg p where ctx: "ctx = (channel, agg, p)" by (cases ctx)
  with Inr have p: "bt_get (br_providers b) (ses_provider_id (agg_session agg)) = Some p"
    by (simp add: action_context_Ok)
  show ?thesis
    using assms Inr ctx hand_to_provider_frame [OF p]
    by (auto simp: handle_interaction_response_def rp_calls split: sum.splits option.splits)
qed

lemma command_frame:
  fixes pp :: "('p, 'x) provider_port"
  assumes "handle_command pp cid command b = (r, b')"
  shows "bridge_frame b' = bridge_frame b"
proof (cases "action_context b cid (cmd_session_id command) :: (_, 'x channel_action_error) result")
  case (Inl x)
  with assms show ?thesis by (auto simp: handle_command_def)
next
  case (Inr ctx)
  obtain channel agg p where ctx: "ctx = (channel, agg, p)" by (cases ctx)
  with Inr have p: "bt_get (br_providers b) (ses_provider_id (agg_session agg)) = Some p"
    by (simp add: action_context_Ok)
  show ?thesis
    using assms Inr ctx hand_to_provider_frame [OF p]
    by (auto simp: handle_command_def rp_calls split: sum.splits)
qed

end
