(* ===== verification/Catch_Up.thy ===== *)
theory Catch_Up
  imports Bridge_Invariant
begin

text \<open>
  Bounded catch-up (\<open>sync_session\<close>): every page can be routed, pages follow one another
  without gap or overlap, and a channel that keeps asking becomes subscribed.
\<close>

lemma apply_payload_pending_origin:
  assumes "apply_payload p t agg = (Ok (), agg')"
    and "bt_get (agg_pending_interactions agg') k = Some r"
  shows "bt_get (agg_pending_interactions agg) k = Some r \<or> p = InteractionRequested r"
  using assms
  by (cases "(p, t, agg)" rule: apply_payload.cases)
    (auto simp: Let_def elim!: apply_tool_activity.elims
      split: sum.splits if_splits option.splits)

lemma pending_logged:
  "history cfg log agg \<Longrightarrow> bt_get (agg_pending_interactions agg) k = Some r \<Longrightarrow>
     \<exists>e \<in> set log. ev_payload e = InteractionRequested r"
proof (induction arbitrary: k r rule: history_accepted_induct)
  case (start e agg)
  then show ?case
    by (auto simp: from_initial_event_with_config_def split: if_splits agent_event_payload.splits)
next
  case (applied log agg e agg')
  then show ?case
    by (auto simp: apply_event_Applied_iff dest!: apply_payload_pending_origin)
qed

section \<open>Routing a page and a baseline never fails\<close>

lemma route_page_total:
  assumes "\<forall>e \<in> set events. wf_event e \<and> validate_provider_event pd s e = Ok ()"
  shows "\<exists>routed. (route_page pd cd s events :: (_, 'x subscription_error) result) = Ok routed \<and> map rae_event routed = events"
  using assms
proof (induction events)
  case (Cons e events)
  then obtain routed where "(route_page pd cd s events :: (_, 'x subscription_error) result) = Ok routed" and "map rae_event routed = events"
    by auto
  moreover obtain route where "channel_event_route pd cd s e = Ok route"
    using Cons.prems channel_event_route_total by (metis list.set_intros(1))
  ultimately show ?case by (simp add: route_page_def)
qed (simp add: route_page_def)

lemma route_pending_total:
  assumes "\<forall>r \<in> set requests. pd_id pd = ses_provider_id s \<and> ses_id s = ir_session_id r
    \<and> pc_contains (pd_capabilities pd) (required_provider_request_capability (ir_payload r))"
  shows "\<exists>routed. (route_pending pd cd s requests :: (_, 'x subscription_error) result) = Ok routed \<and> map rir_request routed = requests"
  using assms
proof (induction requests)
  case (Cons r requests)
  then obtain routed where "(route_pending pd cd s requests :: (_, 'x subscription_error) result) = Ok routed"
    and "map rir_request routed = requests"
    by auto
  moreover obtain m where "interaction_route pd cd s r = Ok m"
    using interaction_route_total [of pd s r cd] Cons.prems by auto
  ultimately show ?case by (simp add: route_pending_def)
qed (simp add: route_pending_def)

definition valid_log :: "provider_descriptor \<Rightarrow> agent_session \<Rightarrow> agent_event list \<Rightarrow> bool" where
  "valid_log pd s log \<longleftrightarrow> (\<forall>e \<in> set log. wf_event e \<and> validate_provider_event pd s e = Ok ())"

lemma baseline_total:
  assumes h: "history cfg log agg" and v: "valid_log pd (agg_session agg) log"
  shows "\<exists>routed. (route_pending pd cd (agg_session agg) (bt_values (agg_pending_interactions agg))
      :: (_, 'x subscription_error) result) = Ok routed
    \<and> map rir_request routed = bt_values (agg_pending_interactions agg)"
proof (rule route_pending_total, rule ballI)
  fix r assume "r \<in> set (bt_values (agg_pending_interactions agg))"
  then obtain k where k: "bt_get (agg_pending_interactions agg) k = Some r"
    by (auto simp: set_bt_values)
  with h obtain e where e: "e \<in> set log" "ev_payload e = InteractionRequested r"
    using pending_logged by blast
  with v have "validate_provider_event pd (agg_session agg) e = Ok ()"
    by (auto simp: valid_log_def)
  moreover have "ses_id (agg_session agg) = ir_session_id r"
    using history_inv [OF h] k by (auto simp: agg_inv_def)
  ultimately show "pd_id pd = ses_provider_id (agg_session agg) \<and> ses_id (agg_session agg) = ir_session_id r
      \<and> pc_contains (pd_capabilities pd) (required_provider_request_capability (ir_payload r))"
    using e by (simp add: validate_provider_event_Ok)
qed

section \<open>One page\<close>

lemma page_through:
  assumes h: "history cfg log agg" and "unat a \<le> length log"
    and "p = take n (drop (unat a) log)"
  shows "unat (if p = [] then a else ev_sequence (last p)) = min (length log) (unat a + n)"
proof (cases "p = []")
  case True
  with assms show ?thesis by auto
next
  case False
  let ?m = "min (length log) (unat a + n)"
  have pos: "unat a < ?m" using False assms by auto
  have "length p = ?m - unat a" using assms by auto
  then have "last p = log ! (?m - 1)"
    using False pos assms by (auto simp: last_conv_nth nth_append)
  moreover have "unat (ev_sequence (log ! (?m - 1))) = ?m"
    using history_sequence_nth [OF h, of "?m - 1"] pos by auto
  ultimately show ?thesis using False by simp
qed

lemma last_sequence_iff:
  assumes "history cfg log agg"
  shows "a = last_sequence agg \<longleftrightarrow> unat a = length log"
  using history_last_sequence [OF assms] word_unat_eq_iff by metis

definition page_of :: "channel_session_sync \<Rightarrow> agent_event list \<Rightarrow> nat \<Rightarrow> nat \<Rightarrow> bool" where
  "page_of sync log a n \<longleftrightarrow> unat (css_after_sequence sync) = a
     \<and> map rae_event (css_events sync) = take n (drop a log)
     \<and> unat (css_through_sequence sync) = min (length log) (a + n)
     \<and> (css_is_final sync \<longleftrightarrow> length log \<le> a + n)"

lemma prepare_page:
  fixes cid :: channel_id
  assumes h: "history cfg log agg" and v: "valid_log pd (agg_session agg) log"
    and a: "unat a \<le> length log"
    and page: "(sync_page cid agg after n :: (_, 'x subscription_error) result)
      = Ok (a, reset, take n (drop (unat a) log))"
  shows "\<exists>sync. (prepare_sync cid pd cd agg after n :: (_, 'x subscription_error) result) = Ok sync
    \<and> css_reset sync = reset \<and> page_of sync log (unat a) n
    \<and> (\<forall>bl. css_baseline sync = Some bl \<longrightarrow> csb_session bl = agg_session agg
         \<and> csb_sequence bl = last_sequence agg
         \<and> map rir_request (csb_pending_interactions bl) = bt_values (agg_pending_interactions agg))"
proof -
  define p where "p = take n (drop (unat a) log)"
  define through where "through = (if p = [] then a else ev_sequence (last p))"
  have t: "unat through = min (length log) (unat a + n)"
    unfolding through_def by (rule page_through [OF h a p_def])
  have final: "through = last_sequence agg \<longleftrightarrow> length log \<le> unat a + n"
    unfolding last_sequence_iff [OF h] t by auto
  have "\<forall>e \<in> set p. wf_event e \<and> validate_provider_event pd (agg_session agg) e = Ok ()"
    using v set_take_subset set_drop_subset unfolding valid_log_def p_def by fast
  from route_page_total [OF this]
  obtain routed where routed: "(route_page pd cd (agg_session agg) p :: (_, 'x subscription_error) result) = Ok routed"
    "map rae_event routed = p" by blast
  obtain pend where pend: "(route_pending pd cd (agg_session agg)
      (bt_values (agg_pending_interactions agg)) :: (_, 'x subscription_error) result) = Ok pend"
    "map rir_request pend = bt_values (agg_pending_interactions agg)"
    using baseline_total [OF h v] by blast
  show ?thesis
    unfolding prepare_sync_def page p_def [symmetric] and_then.simps prod.case Let_def routed(1)
      through_def [symmetric]
    using final t routed(2) pend
    by (cases "through = last_sequence agg") (simp_all add: page_of_def css_is_final_def p_def)
qed

lemma sync_page_covered:
  assumes h: "history cfg log agg" and "covered cfg log (unat after)"
  shows "sync_page cid agg after n = Ok (after, False, take n (drop (unat after) log))"
  using assms by (simp add: sync_page_def history_page [OF h])

lemma sync_page_reset:
  assumes h: "history cfg log agg" and "\<not> covered cfg log (unat after)" and "covered cfg log 0"
  shows "sync_page cid agg after n = Ok (0, True, take n log)"
  using assms by (simp add: sync_page_def history_page [OF h])

section \<open>One call of sync\_session\<close>

lemma session_okE:
  assumes "bridge_inv b" and "bt_get (br_sessions b) sid = Some agg"
  obtains p log where "bt_get (br_providers b) (ses_provider_id (agg_session agg)) = Some p"
    and "history (br_session_config b) log agg" and "valid_log (rp_descriptor p) (agg_session agg) log"
  using bridge_inv_session(1) [OF assms]
  by (auto simp: session_ok_def valid_log_def br_provider_descriptor_def)

definition put_channel :: "channel_id \<Rightarrow> 'c registered_channel \<Rightarrow> ('p, 'c) bridge \<Rightarrow> ('p, 'c) bridge" where
  "put_channel cid ch b = b\<lparr>br_channels := bt_insert cid ch (br_channels b)\<rparr>"

lemma put_channel_simps [simp]:
  "br_sessions (put_channel cid ch b) = br_sessions b"
  "br_session_config (put_channel cid ch b) = br_session_config b"
  "br_subscriptions (put_channel cid ch b) = br_subscriptions b"
  "bt_get (br_channels (put_channel cid ch b)) c = (if c = cid then Some ch else bt_get (br_channels b) c)"
  "is_subscribed (put_channel cid ch b) c s = is_subscribed b c s"
  by (simp_all add: put_channel_def is_subscribed_def)

text \<open>A Bridge in which a registered channel that is not yet subscribed asks for history.\<close>

definition catching_up ::
  "('p, 'c) bridge \<Rightarrow> channel_id \<Rightarrow> session_id \<Rightarrow> 'c registered_channel \<Rightarrow> session_aggregate
     \<Rightarrow> 'p registered_provider \<Rightarrow> agent_event list \<Rightarrow> bool" where
  "catching_up b cid sid ch agg p log \<longleftrightarrow>
     bt_get (br_channels b) cid = Some ch \<and> bt_get (br_sessions b) sid = Some agg
     \<and> \<not> is_subscribed b cid sid
     \<and> bt_get (br_providers b) (ses_provider_id (agg_session agg)) = Some p
     \<and> history (br_session_config b) log agg \<and> valid_log (rp_descriptor p) (agg_session agg) log"

lemma catching_upI:
  assumes "bridge_inv b" and "bt_get (br_channels b) cid = Some ch"
    and "bt_get (br_sessions b) sid = Some agg" and "\<not> is_subscribed b cid sid"
  obtains p log where "catching_up b cid sid ch agg p log"
proof (rule session_okE [OF assms(1,3)])
  fix p log
  assume "bt_get (br_providers b) (ses_provider_id (agg_session agg)) = Some p"
    and "history (br_session_config b) log agg" and "valid_log (rp_descriptor p) (agg_session agg) log"
  with assms that show thesis by (auto simp: catching_up_def)
qed

lemma sync_prepared:
  fixes cp :: "('c, 'x) channel_port"
  assumes "catching_up b cid sid ch agg p log" and "0 < n"
    and "prepare_sync cid (rp_descriptor p) (rc_descriptor ch) agg after n
      = (Ok sync :: (_, 'x subscription_error) result)"
    and "page_of sync log a n"
  shows "sync_session cp cid sid after n b =
    (case rc_deliver_session_sync cp ch sync of
       (Err source, ch') \<Rightarrow>
         (Err (InitialSessionHandoff \<lparr>de_channel_id = cid, de_delivery = DeliverySession,
            de_source = source\<rparr>), put_channel cid ch' b)
     | (Ok _, ch') \<Rightarrow>
         (Ok (sync_outcome sync), if css_is_final sync
            then activate_subscription cid sid (put_channel cid ch' b) else put_channel cid ch' b))"
proof -
  have hist: "history (br_session_config b) log agg" using assms(1) by (simp add: catching_up_def)
  have "css_through_sequence sync = last_sequence agg \<longleftrightarrow> css_is_final sync"
    using assms(4) by (auto simp: page_of_def last_sequence_iff [OF hist])
  with assms(1-3) show ?thesis
    by (simp add: catching_up_def sync_session_def put_channel_def Let_def
        split: prod.splits sum.splits)
qed

text \<open>A cursor the history still covers gets the next page; any other cursor restarts from the
  beginning when the beginning is retained.\<close>

lemma sync_covered:
  assumes "catching_up b cid sid ch agg p log" and cov: "covered (br_session_config b) log (unat after)"
  obtains sync where "prepare_sync cid (rp_descriptor p) (rc_descriptor ch) agg after n
      = (Ok sync :: (_, 'x subscription_error) result)"
    and "css_reset sync = False" and "page_of sync log (unat after) n"
proof -
  from assms have hist: "history (br_session_config b) log agg"
    and logged: "valid_log (rp_descriptor p) (agg_session agg) log"
    by (simp_all add: catching_up_def)
  from cov have "unat after \<le> length log" by (auto simp: covered_def)
  from prepare_page [OF hist logged this sync_page_covered [OF hist cov]] that
  show thesis by blast
qed

lemma sync_restarts:
  assumes "catching_up b cid sid ch agg p log" and "\<not> covered (br_session_config b) log (unat after)"
    and "covered (br_session_config b) log 0"
  obtains sync where "prepare_sync cid (rp_descriptor p) (rc_descriptor ch) agg after n
      = (Ok sync :: (_, 'x subscription_error) result)"
    and "css_reset sync = True" and "page_of sync log 0 n"
proof -
  from assms have hist: "history (br_session_config b) log agg"
    and logged: "valid_log (rp_descriptor p) (agg_session agg) log"
    by (simp_all add: catching_up_def)
  have "sync_page cid agg after n = Ok (0, True, take n (drop (unat (0 :: u64)) log))"
    using sync_page_reset [OF hist assms(2,3)] by simp
  from prepare_page [OF hist logged _ this] that show thesis by fastforce
qed

section \<open>Catching up ends\<close>

text \<open>A client that asks for the page after the last one it received.\<close>

fun catch_up ::
  "('c, 'x) channel_port \<Rightarrow> channel_id \<Rightarrow> session_id \<Rightarrow> usize \<Rightarrow> nat \<Rightarrow> u64 \<Rightarrow> ('p, 'c) bridge
     \<Rightarrow> ('p, 'c) bridge" where
  "catch_up cp cid sid n 0 after b = b"
| "catch_up cp cid sid n (Suc rounds) after b =
     (case sync_session cp cid sid after n b of
        (Ok outcome, b') \<Rightarrow> catch_up cp cid sid n rounds (sso_through_sequence outcome) b'
      | (Err _, b') \<Rightarrow> b')"

lemma subscribed_sync:
  assumes "is_subscribed b cid sid" and "bridge_inv b" and "0 < n"
  shows "\<exists>out. sync_session cp cid sid after n b = (Ok out, b)"
  using assms subscribed_registered [OF assms(2,1)] by (auto simp: sync_session_def)

lemma subscribed_catch_up:
  assumes "is_subscribed b cid sid" and "bridge_inv b" and "0 < n"
  shows "catch_up cp cid sid n rounds after b = b"
  using assms
proof (induction rounds arbitrary: after)
  case (Suc rounds)
  then show ?case using subscribed_sync [OF Suc.prems, of cp after] by auto
qed simp

lemma is_subscribed_activate [simp]:
  "is_subscribed (activate_subscription cid sid b) c s \<longleftrightarrow> (c, s) = (cid, sid) \<or> is_subscribed b c s"
  using activate_rel [of cid sid b] by (auto simp: subscription_rel_def)

lemma rc_sync_accepts:
  assumes "\<And>c sync. fst (cp_deliver_session_sync cp c sync) = Ok ()"
  shows "\<exists>ch'. rc_deliver_session_sync cp ch sync = (Ok (), ch')"
  using assms [of "rc_port ch" sync]
  by (cases "cp_deliver_session_sync cp (rc_port ch) sync")
    (simp add: rc_deliver_session_sync_def rc_handoff_def)

text \<open>An accepted page either ends the catch-up or moves the cursor by a full page.\<close>

lemma sync_accepted_step:
  fixes cp :: "('c, 'x) channel_port"
  assumes accepts: "\<And>c sync. fst (cp_deliver_session_sync cp c sync) = Ok ()" and n: "0 < n"
    and up: "catching_up b cid sid ch agg p log"
    and cov: "covered (br_session_config b) log (unat after)"
  obtains out b' where "sync_session cp cid sid after n b = (Ok out, b')"
    and "length log \<le> unat after + n \<Longrightarrow> is_subscribed b' cid sid"
    and "unat after + n < length log \<Longrightarrow> \<exists>ch'. catching_up b' cid sid ch' agg p log
      \<and> br_session_config b' = br_session_config b
      \<and> unat (sso_through_sequence out) = unat after + n"
proof -
  obtain sync where prep: "prepare_sync cid (rp_descriptor p) (rc_descriptor ch) agg after n
      = (Ok sync :: (_, 'x subscription_error) result)" and pg: "page_of sync log (unat after) n"
    using sync_covered [OF up cov] by blast
  obtain ch' where d: "rc_deliver_session_sync cp ch sync = (Ok (), ch')"
    using rc_sync_accepts [OF accepts] by blast
  define b' where "b' = (if css_is_final sync then activate_subscription cid sid (put_channel cid ch' b)
      else put_channel cid ch' b)"
  have step: "sync_session cp cid sid after n b = (Ok (sync_outcome sync), b')"
    by (simp add: sync_prepared [OF up n prep pg] d b'_def)
  show thesis
  proof (rule that [OF step])
    show "is_subscribed b' cid sid" if "length log \<le> unat after + n"
      using that pg by (simp add: b'_def page_of_def)
    show "\<exists>ch'. catching_up b' cid sid ch' agg p log \<and> br_session_config b' = br_session_config b
        \<and> unat (sso_through_sequence (sync_outcome sync)) = unat after + n"
      if "unat after + n < length log"
      using that pg up
      by (auto simp: b'_def page_of_def catching_up_def sync_outcome_def put_channel_def is_subscribed_def)
  qed
qed

lemma catch_up_subscribes:
  fixes cp :: "('c, 'x) channel_port"
  assumes accepts: "\<And>c sync. fst (cp_deliver_session_sync cp c sync) = Ok ()" and n: "0 < n"
  shows "bridge_inv b \<Longrightarrow> catching_up b cid sid ch agg p log
    \<Longrightarrow> covered (br_session_config b) log (unat after)
    \<Longrightarrow> 0 < rounds \<Longrightarrow> length log \<le> unat after + n * rounds
    \<Longrightarrow> is_subscribed (catch_up cp cid sid n rounds after b) cid sid"
proof (induction rounds arbitrary: after b ch)
  case (Suc rounds)
  note inv = Suc.prems(1) and up = Suc.prems(2) and cov = Suc.prems(3)
  obtain out b' where step: "sync_session cp cid sid after n b = (Ok out, b')"
    and ended: "length log \<le> unat after + n \<Longrightarrow> is_subscribed b' cid sid"
    and more: "unat after + n < length log \<Longrightarrow> \<exists>ch'. catching_up b' cid sid ch' agg p log
      \<and> br_session_config b' = br_session_config b
      \<and> unat (sso_through_sequence out) = unat after + n"
    using sync_accepted_step [OF accepts n up cov] by blast
  have inv': "bridge_inv b'" by (rule bridge_inv_sync_session [OF inv step])
  show ?case
  proof (cases "length log \<le> unat after + n")
    case True
    with ended have sub: "is_subscribed b' cid sid" by simp
    with step subscribed_catch_up [OF sub inv' n, where cp = cp] show ?thesis by simp
  next
    case False
    then obtain ch' where up': "catching_up b' cid sid ch' agg p log"
      and cfg: "br_session_config b' = br_session_config b"
      and thr: "unat (sso_through_sequence out) = unat after + n"
      using more by force
    have "covered (br_session_config b') log (unat (sso_through_sequence out))"
      using cov False by (auto simp: cfg thr covered_def)
    moreover have "0 < rounds" using Suc.prems(5) False by (cases rounds) auto
    moreover have "length log \<le> unat (sso_through_sequence out) + n * rounds"
      using Suc.prems(5) thr by simp
    ultimately show ?thesis using step Suc.IH [OF inv' up'] by simp
  qed
qed simp

end
