(* ===== verification/Samples.thy ===== *)
theory Samples
  imports Catch_Up
begin

text \<open>
  Concrete endpoints, a session and a stream of events at which the properties are
  instantiated. The sample Provider adapter records what it is handed; the sample Channel
  adapter has a flag that says whether it accepts and a list of the events it was given.
\<close>

definition sample_text :: non_empty_text where
  "sample_text = NonEmptyText [97, 103]"

definition sample_pid :: provider_id where "sample_pid = ProviderId 1"

definition sample_cid :: channel_id where "sample_cid = ChannelId 2"

definition sample_sid :: session_id where "sample_sid = SessionId 3"

definition sample_provider :: provider_descriptor where
  "sample_provider = ProviderDescriptor_new sample_pid (ProviderKind [97]) sample_text
     (ProviderCapabilities 0x7FF)"

definition sample_channel :: channel_descriptor where
  "sample_channel = ChannelDescriptor_new sample_cid (ChannelKind [98]) sample_text
     (ChannelCapabilities 0xFFF)"

definition sample_session :: agent_session where
  "sample_session = session_builder sample_sid sample_pid 10"

definition sample_event :: "event_sequence \<Rightarrow> agent_event_payload \<Rightarrow> agent_event" where
  "sample_event q payload = \<lparr>ev_id = EventId (ucast q), ev_session_id = sample_sid,
     ev_sequence = q, ev_occurred_at = 20, ev_payload = payload\<rparr>"

definition sample_options :: "approval_option list" where
  "sample_options = [ApprovalOption_new (ApprovalOptionId 5) Approve sample_text]"

definition sample_approval :: interaction_request where
  "sample_approval = InteractionRequest_new (InteractionId 4) sample_sid 20 sample_text
     (ApprovalRequested \<lparr>ar_subject = CommandSubject NewCommand None None None None,
        ar_options = sample_options, ar_unavailable_reason = None\<rparr>)"

definition sample_response :: interaction_response where
  "sample_response = \<lparr>is_request_id = InteractionId 4, is_session_id = sample_sid,
     is_channel_id = sample_cid, is_responded_at = 21, is_payload = ApprovalAnswer (ApprovalOptionId 5)\<rparr>"

definition sample_command :: agent_command where
  "sample_command = \<lparr>cmd_id = CommandId 6, cmd_session_id = sample_sid, cmd_channel_id = sample_cid,
     cmd_issued_at = 22, cmd_payload = SubmitPrompt sample_text DeliverQueue\<rparr>"

definition event1 :: agent_event where "event1 = sample_event 1 (SessionStarted sample_session)"

definition event2 :: agent_event where "event2 = sample_event 2 (InteractionRequested sample_approval)"

definition event3 :: agent_event where "event3 = sample_event 3 (StateChanged Running)"

definition small_config :: session_aggregate_config where
  "small_config = SessionAggregateConfig_new 2"

definition agg_at_1 :: session_aggregate where
  "agg_at_1 = \<lparr>agg_config = small_config, agg_session = sample_session, agg_plan = None,
     agg_progress = None, agg_active_tool_calls = bt_empty, agg_pending_interactions = bt_empty,
     agg_latest_outcome = None, agg_last_event = event1, agg_recent_events = [event1]\<rparr>"

definition agg_at_2 :: session_aggregate where
  "agg_at_2 = agg_at_1\<lparr>agg_pending_interactions := bt_insert (InteractionId 4) sample_approval bt_empty,
     agg_last_event := event2, agg_recent_events := [event1, event2]\<rparr>"

definition agg_at_3 :: session_aggregate where
  "agg_at_3 = agg_at_2\<lparr>agg_session := observe_state Running 2 20 sample_session,
     agg_last_event := event3, agg_recent_events := [event2, event3]\<rparr>"

lemmas sample_defs = sample_text_def sample_pid_def sample_cid_def sample_sid_def sample_provider_def
  sample_channel_def sample_session_def sample_event_def sample_options_def sample_approval_def
  sample_response_def sample_command_def event1_def event2_def event3_def small_config_def
  ProviderDescriptor_new_def ChannelDescriptor_new_def session_builder_def ApprovalOption_new_def
  InteractionRequest_new_def SessionAggregateConfig_new_def

lemma event_fields [simp]:
  "ev_session_id event1 = sample_sid" "ev_session_id event2 = sample_sid" "ev_session_id event3 = sample_sid"
  "ev_payload event1 = SessionStarted sample_session"
  "ev_payload event2 = InteractionRequested sample_approval"
  "ev_payload event3 = StateChanged Running"
  "ev_sequence event1 = 1" "ev_sequence event2 = 2" "ev_sequence event3 = 3"
  by (simp_all add: event1_def event2_def event3_def sample_event_def)

lemma wf_sample_text [simp]: "wf_text sample_text"
  by (simp add: sample_text_def wf_text_def is_whitespace_def)

lemma wf_sample_events [simp]: "wf_event event1" "wf_event event2" "wf_event event3"
proof -
  show "wf_event event1"
    by (simp add: event1_def sample_event_def sample_session_def session_builder_def counter_FIRST_def
        wf_event_def wf_session_def)
  have "wf_request sample_approval"
    by (simp add: sample_approval_def InteractionRequest_new_def wf_request_def wf_approval_def
        sample_options_def ApprovalOption_new_def wf_approval_option_def)
  then show "wf_event event2"
    by (simp add: event2_def sample_event_def wf_event_def) (simp add: sample_approval_def InteractionRequest_new_def)
  show "wf_event event3"
    by (simp add: event3_def sample_event_def wf_event_def)
qed

lemma sample_start: "from_initial_event_with_config event1 small_config = Ok agg_at_1"
  by (simp add: from_initial_event_with_config_def agg_at_1_def event1_def sample_event_def
      counter_FIRST_def small_config_def SessionAggregateConfig_new_def)

lemma sample_step2: "apply_event agg_at_1 event2 = (Ok Applied, agg_at_2)"
  by (simp add: apply_event_def validate_cursor_def agg_at_1_def agg_at_2_def sample_defs
      checked_next_def bt_contains_key_def record_event_def pop_front_to.simps counter_FIRST_def)

lemma sample_step3: "apply_event agg_at_2 event3 = (Ok Applied, agg_at_3)"
  by (simp add: apply_event_def validate_cursor_def agg_at_1_def agg_at_2_def agg_at_3_def sample_defs
      checked_next_def next_session_revision_def record_event_def pop_front_to.simps counter_FIRST_def)

lemma sample_history1: "history small_config [event1] agg_at_1"
  by (rule history.start [OF wf_sample_events(1) sample_start])

lemma sample_history2: "history small_config [event1, event2] agg_at_2"
  using history.applied [OF sample_history1 wf_sample_events(2) sample_step2] by simp

lemma sample_history3: "history small_config [event1, event2, event3] agg_at_3"
  using history.applied [OF sample_history2 wf_sample_events(3) sample_step3] by simp

section \<open>A Bridge with one Provider, two Channels and one Session\<close>

type_synonym sample_p = "interaction_response list \<times> agent_command list"
type_synonym sample_c = "channel_id \<times> bool \<times> agent_event list"

definition sample_pp :: "(sample_p, string) provider_port" where
  "sample_pp = \<lparr>pp_descriptor = (\<lambda>_. sample_provider),
     pp_accept_interaction_response = (\<lambda>(rs, cs) r. (Ok (), (rs @ [r], cs))),
     pp_accept_command = (\<lambda>(rs, cs) c. (Ok (), (rs, cs @ [c])))\<rparr>"

definition sample_deliver_event ::
  "sample_c \<Rightarrow> agent_event \<Rightarrow> channel_event_route_kind \<Rightarrow> (unit, string) result \<times> sample_c" where
  "sample_deliver_event c e route = (case c of (i, ok, es) \<Rightarrow>
     if ok then (Ok (), (i, ok, es @ [e])) else (Err ''refused'', c))"

definition sample_deliver_session :: "sample_c \<Rightarrow> agent_session \<Rightarrow> (unit, string) result \<times> sample_c" where
  "sample_deliver_session c s = (Ok (), c)"

definition sample_cp :: "(sample_c, string) channel_port" where
  "sample_cp = \<lparr>cp_descriptor = (\<lambda>(i, _). sample_channel\<lparr>cd_id := i\<rparr>),
     cp_deliver_event = sample_deliver_event,
     cp_deliver_session = sample_deliver_session,
     cp_deliver_session_baseline = default_deliver_session_baseline sample_deliver_session,
     cp_deliver_session_sync = (\<lambda>c sync. (Ok (), c))\<rparr>"

definition other_cid :: channel_id where "other_cid = ChannelId 7"

definition bridge0 :: "(sample_p, sample_c) bridge" where
  "bridge0 = with_session_config small_config"

definition bridge1 :: "(sample_p, sample_c) bridge" where
  "bridge1 = bridge0\<lparr>br_providers := bt_insert sample_pid
     \<lparr>rp_descriptor = sample_provider, rp_port = ([], [])\<rparr> bt_empty\<rparr>"

definition sample_rc :: "channel_id \<Rightarrow> bool \<Rightarrow> agent_event list \<Rightarrow> sample_c registered_channel" where
  "sample_rc i ok es = \<lparr>rc_descriptor = sample_channel\<lparr>cd_id := i\<rparr>, rc_port = (i, ok, es)\<rparr>"

definition bridge2 :: "(sample_p, sample_c) bridge" where
  "bridge2 = bridge1\<lparr>br_channels := bt_insert sample_cid (sample_rc sample_cid True []) bt_empty\<rparr>"

definition bridge3 :: "(sample_p, sample_c) bridge" where
  "bridge3 = bridge2\<lparr>br_sessions := bt_insert sample_sid agg_at_1 bt_empty\<rparr>"

definition bridge4 :: "(sample_p, sample_c) bridge" where
  "bridge4 = bridge3\<lparr>br_subscriptions := bt_insert sample_sid (bs_insert sample_cid bt_empty) bt_empty\<rparr>"

definition bridge5 :: "(sample_p, sample_c) bridge" where
  "bridge5 = bridge4\<lparr>br_sessions := bt_insert sample_sid agg_at_2 bt_empty,
     br_channels := bt_insert sample_cid (sample_rc sample_cid True [event2]) bt_empty\<rparr>"

lemmas bridge_samples = bridge0_def bridge1_def bridge2_def bridge3_def bridge4_def bridge5_def
  with_session_config_def sample_rc_def

lemma bt_single [simp]: "bt_insert k w (bt_insert k v m) = bt_insert k w m"
  by (rule bt_ext) simp

lemma sample_register_provider: "register_provider sample_pp ([], []) bridge0 = (Ok (), bridge1)"
  by (simp add: register_provider_def bridge_samples sample_pp_def bt_contains_key_def sample_provider_def
      ProviderDescriptor_new_def)

lemma sample_register_channel: "register_channel sample_cp (sample_cid, True, []) bridge1 = (Ok (), bridge2)"
  by (simp add: register_channel_def bridge_samples sample_cp_def bt_contains_key_def)

lemma sample_event1_valid [simp]: "validate_provider_event sample_provider sample_session event1 = Ok ()"
  by (simp add: validate_provider_event_Ok sample_defs capability_eval)

lemma sample_event2_valid [simp]: "validate_provider_event sample_provider sample_session event2 = Ok ()"
  by (simp add: validate_provider_event_Ok sample_defs capability_eval)

lemma sample_admit1: "admit_event sample_pid event1 bridge2 = Ok []"
  by (simp add: admit_event_def bridge_samples routing_session_def session_subscribers_def)

lemma sample_handle1:
  "handle_provider_event sample_cp sample_pid event1 bridge2 =
     (Ok \<lparr>rep_outcome = EventApplied, rep_deliveries = []\<rparr>, bridge3)"
proof -
  have "reduce_event event1 bridge2 = ((Ok (Applied, sample_session) :: (_, string provider_event_error) result), bridge3)"
    using sample_start
    by (simp add: reduce_event_def bridge_samples) (simp add: agg_at_1_def)
  then show ?thesis by (simp add: handle_provider_event_def sample_admit1 has_failures_def)
qed

lemma sample_subscribe:
  "subscribe sample_cp sample_cid sample_sid bridge3 = (Ok (Subscribed True 1 0), bridge4)"
  by (simp add: subscribe_def bridge_samples is_subscribed_def agg_at_1_def sample_session_def
      session_builder_def route_pending_def bt_values_def)
    (simp add: sample_defs capability_eval rc_calls rc_handoff_def sample_cp_def activate_subscription_def
      default_deliver_session_baseline_def sample_deliver_session_def)

lemma sample_view:
  "agg_session agg_at_1 = sample_session" "agg_session agg_at_2 = sample_session"
  "last_sequence agg_at_1 = 1" "last_sequence agg_at_2 = 2"
  "bt_get (agg_pending_interactions agg_at_2) (InteractionId 4) = Some sample_approval"
  by (simp_all add: agg_at_1_def agg_at_2_def)

lemma sample_route2:
  "channel_event_route sample_provider (sample_channel\<lparr>cd_id := c\<rparr>) sample_session event2 =
     Ok (InteractionMode Interactive)"
proof -
  have "interaction_route sample_provider (sample_channel\<lparr>cd_id := c\<rparr>) sample_session sample_approval = Ok Interactive"
    by (simp add: interaction_route_Ok sample_defs capability_eval ar_is_actionable_def)
  then show ?thesis by (simp add: channel_event_route_Ok)
qed

lemma sample_admit2:
  "admit_event sample_pid event2 bridge4 = Ok [(sample_cid, InteractionMode Interactive, False)]"
  by (simp add: admit_event_def bridge_samples routing_session_def session_subscribers_def sample_view
      bs_elems_def bt_keys_def bs_insert_def route_to_subscriber_def event_updates_session_view_def
      sample_route2)

lemma sample_handle2:
  "handle_provider_event sample_cp sample_pid event2 bridge4 =
     (Ok \<lparr>rep_outcome = EventApplied, rep_deliveries = [Delivered sample_cid]\<rparr>, bridge5)"
proof -
  have "reduce_event event2 bridge4 = ((Ok (Applied, sample_session) :: (_, string provider_event_error) result),
      bridge4\<lparr>br_sessions := bt_insert sample_sid agg_at_2 bt_empty\<rparr>)"
    by (simp add: reduce_event_def bridge_samples sample_step2 sample_view)
  then show ?thesis
    by (simp add: handle_provider_event_def sample_admit2 has_failures_def)
      (simp add: deliver_one_def rc_calls rc_handoff_def bridge_samples sample_cp_def
        sample_deliver_event_def has_failures_def)
qed

section \<open>The same Bridge with complete retention\<close>

definition agg_live :: session_aggregate where
  "agg_live = agg_at_1\<lparr>agg_config := SessionAggregateConfig_retain_all\<rparr>"

definition live_bridge :: "(sample_p, sample_c) bridge" where
  "live_bridge = bridge2\<lparr>br_session_config := SessionAggregateConfig_retain_all\<rparr>"

definition live_bridge1 :: "(sample_p, sample_c) bridge" where
  "live_bridge1 = live_bridge\<lparr>br_sessions := bt_insert sample_sid agg_live bt_empty\<rparr>"

lemma live_start: "from_initial_event_with_config event1 SessionAggregateConfig_retain_all = Ok agg_live"
  by (simp add: from_initial_event_with_config_def agg_live_def agg_at_1_def counter_FIRST_def
      SessionAggregateConfig_retain_all_def)

lemma live_inv: "bridge_inv live_bridge1"
proof -
  let ?w = "with_session_config SessionAggregateConfig_retain_all :: (sample_p, sample_c) bridge"
  let ?b1 = "?w\<lparr>br_providers := bt_insert sample_pid
     \<lparr>rp_descriptor = sample_provider, rp_port = ([], [])\<rparr> bt_empty\<rparr>"
  have "register_provider sample_pp ([], []) ?w = (Ok (), ?b1)"
    by (simp add: register_provider_def with_session_config_def sample_pp_def bt_contains_key_def
        sample_provider_def ProviderDescriptor_new_def)
  then have "bridge_inv ?b1" by (rule bridge_inv_register_provider [OF bridge_inv_initial])
  moreover have "register_channel sample_cp (sample_cid, True, []) ?b1 = (Ok (), live_bridge)"
    by (simp add: register_channel_def bridge_samples live_bridge_def sample_cp_def bt_contains_key_def)
  ultimately have inv: "bridge_inv live_bridge" by (rule bridge_inv_register_channel)
  have adm: "(admit_event sample_pid event1 live_bridge :: (_, string provider_event_error) result) = Ok []"
    by (simp add: admit_event_def bridge_samples live_bridge_def routing_session_def session_subscribers_def)
  have "reduce_event event1 live_bridge
      = ((Ok (Applied, sample_session) :: (_, string provider_event_error) result), live_bridge1)"
    using live_start
    by (simp add: reduce_event_def bridge_samples live_bridge_def live_bridge1_def)
      (simp add: agg_live_def agg_at_1_def)
  then show ?thesis by (rule bridge_inv_reduce [OF inv wf_sample_events(1) adm])
qed

lemma live_facts:
  "bt_get (br_channels live_bridge1) sample_cid = Some (sample_rc sample_cid True [])"
  "bt_get (br_sessions live_bridge1) sample_sid = Some agg_live"
  "\<not> is_subscribed live_bridge1 sample_cid sample_sid"
  "cfg_retain_all_events (br_session_config live_bridge1)"
  "agg_recent_events agg_live = [event1]" "last_sequence agg_live = 1"
  by (simp_all add: live_bridge1_def live_bridge_def bridge_samples is_subscribed_def agg_live_def
      agg_at_1_def SessionAggregateConfig_retain_all_def)

end
