(* ===== verification/Core_Properties.thy ===== *)
theory Core_Properties
  imports Samples "HOL-Library.Multiset"
begin

text \<open>
  The properties of the domain model: what an accepted response means, how it relates to the
  route a channel was shown, and what the session reducer guarantees.
\<close>

section \<open>Interactions\<close>

text \<open>A response is accepted exactly when it names the request and its session, is not
  earlier than the request nor later than its expiry, and its payload answers the request's:
  an offered option, an admissible selection, a text, or one admissible answer per form
  field.\<close>

lemma response_accepted_iff:
  "validate_response r a = Ok () \<longleftrightarrow>
     is_request_id a = ir_id r \<and> is_session_id a = ir_session_id r
     \<and> timely r (is_responded_at a) \<and> answers (ir_payload r) (is_payload a)"
  by (rule validate_response_Ok)

lemma find_fieldD:
  "find (\<lambda>a. fa_field_id a = i) as = Some a \<Longrightarrow> a \<in> set as \<and> fa_field_id a = i"
  by (auto simp: find_Some_iff)

text \<open>An accepted form response answers every field exactly once and nothing else: the
  answered field identifiers are a permutation of the form's, and every answer is one its field
  admits.\<close>

lemma form_answers_exact:
  assumes "wf_form f" and "wf_response_payload (FormAnswers as)"
    and ok: "validate_payload (FormRequested f) (FormAnswers as) = Ok ()"
  shows "mset (map fa_field_id as) = mset (map ff_id (fr_fields f))
    \<and> (\<forall>a \<in> set as. \<exists>fld \<in> set (fr_fields f). ff_id fld = fa_field_id a \<and> admits fld (fa_value a))"
proof -
  have distinct: "distinct (map ff_id (fr_fields f))" "distinct (map fa_field_id as)"
    using assms by (auto simp: wf_form_def)
  have len: "length as = length (fr_fields f)"
    and each: "\<forall>fld \<in> set (fr_fields f). \<exists>a. find (\<lambda>a. fa_field_id a = ff_id fld) as = Some a
      \<and> admits fld (fa_value a)"
    using ok [unfolded validate_payload_Ok] by simp_all
  have sub: "set (map ff_id (fr_fields f)) \<subseteq> set (map fa_field_id as)"
  proof
    fix i assume "i \<in> set (map ff_id (fr_fields f))"
    then obtain fld where "fld \<in> set (fr_fields f)" "i = ff_id fld" by auto
    with each find_fieldD show "i \<in> set (map fa_field_id as)" by (metis image_eqI image_set)
  qed
  have "card (set (map ff_id (fr_fields f))) = card (set (map fa_field_id as))"
    using distinct len by (metis distinct_card length_map)
  with sub have eq: "set (map ff_id (fr_fields f)) = set (map fa_field_id as)"
    by (metis card_subset_eq List.finite_set)
  have "\<exists>fld \<in> set (fr_fields f). ff_id fld = fa_field_id a \<and> admits fld (fa_value a)" if a: "a \<in> set as" for a
  proof -
    from a eq obtain fld where fld: "fld \<in> set (fr_fields f)" "ff_id fld = fa_field_id a"
      by (metis (no_types, lifting) image_iff image_set)
    with each obtain a' where a': "find (\<lambda>a. fa_field_id a = ff_id fld) as = Some a'" "admits fld (fa_value a')"
      by blast
    with fld a distinct(2) have "a' = a"
      using find_fieldD by (metis distinct_map inj_onD)
    with a' fld show ?thesis by auto
  qed
  with eq distinct show ?thesis by (metis set_eq_iff_mset_eq_distinct)
qed

definition sample_form :: form_request where
  "sample_form = \<lparr>fr_fields = [\<lparr>ff_id = FormFieldId 1, ff_header = sample_text, ff_prompt = sample_text,
     ff_options = [], ff_allows_other = True, ff_sensitive = False\<rparr>], fr_blocking = True\<rparr>"

definition sample_answers :: "form_answer list" where
  "sample_answers = [\<lparr>fa_field_id = FormFieldId 1, fa_value = AnswerText sample_text\<rparr>]"

lemma answers_exist:
  assumes "wf_request_payload p" and "is_actionable p"
  shows "\<exists>q. wf_response_payload q \<and> answers p q"
proof (cases p)
  case (ApprovalRequested r)
  with assms obtain opt where "opt \<in> set (ar_options r)"
    by (auto simp: ar_is_actionable_def) (metis last_in_set)
  with ApprovalRequested show ?thesis by (intro exI [of _ "ApprovalAnswer (ao_id opt)"]) auto
next
  case (ChoiceRequested r)
  with assms obtain opt where "opt \<in> set (cr_options r)"
    by (auto simp: wf_choice_def) (metis last_in_set)
  with ChoiceRequested show ?thesis by (intro exI [of _ "ChoiceAnswer [co_id opt]"]) auto
next
  case (TextRequested r)
  then show ?thesis by (intro exI [of _ "TextAnswer sample_text"]) simp
next
  case (FormRequested f)
  define answer where "answer fld = \<lparr>fa_field_id = ff_id fld, fa_value =
      (if ff_options fld = [] then AnswerText sample_text else AnswerChoice (co_id (hd (ff_options fld))))\<rparr>"
    for fld :: form_field
  let ?as = "map answer (fr_fields f)"
  have wf: "fr_fields f \<noteq> []" "distinct (map ff_id (fr_fields f))" "list_all wf_form_field (fr_fields f)"
    using assms FormRequested by (auto simp: wf_form_def)
  have ids: "map fa_field_id ?as = map ff_id (fr_fields f)" by (simp add: answer_def)
  have "\<exists>a. find (\<lambda>a. fa_field_id a = ff_id fld) ?as = Some a \<and> admits fld (fa_value a)"
    if fld: "fld \<in> set (fr_fields f)" for fld
  proof -
    have "find (\<lambda>a. fa_field_id a = ff_id fld) ?as \<noteq> None"
      using fld by (auto simp: find_None_iff answer_def)
    then obtain a where a: "find (\<lambda>a. fa_field_id a = ff_id fld) ?as = Some a" by blast
    then obtain g where g: "g \<in> set (fr_fields f)" "a = answer g" "ff_id g = ff_id fld"
      using find_fieldD [OF a] by (auto simp: answer_def)
    with wf(2) fld have "g = fld" by (auto simp: distinct_map dest: inj_onD)
    moreover have "admits fld (fa_value (answer fld))"
      using wf(3) fld by (auto simp: answer_def list_all_iff wf_form_field_def)
    ultimately show ?thesis using a g by blast
  qed
  then have "answers p (FormAnswers ?as)" using FormRequested by simp
  moreover have "wf_response_payload (FormAnswers ?as)"
    using wf unfolding wf_response_payload.simps ids by (auto simp: list_all_iff answer_def)
  ultimately show ?thesis by blast
qed

lemma response_exists:
  assumes "wf_request r" and "is_actionable (ir_payload r)"
  shows "\<exists>a. wf_response a \<and> is_channel_id a = c \<and> validate_response r a = Ok ()"
proof -
  obtain q where q: "wf_response_payload q" "answers (ir_payload r) q"
    using answers_exist assms by (auto simp: wf_request_def)
  let ?a = "\<lparr>is_request_id = ir_id r, is_session_id = ir_session_id r, is_channel_id = c,
      is_responded_at = ir_requested_at r, is_payload = q\<rparr>"
  have "timely r (ir_requested_at r)"
    using assms(1) by (cases "ir_expires_at r") (auto simp: timely_def wf_request_def)
  with q have "wf_response ?a \<and> is_channel_id ?a = c \<and> validate_response r ?a = Ok ()"
    by (simp add: wf_response_def validate_response_Ok)
  then show ?thesis by blast
qed

text \<open>A well-formed request is actionable exactly when some well-formed response would be
  accepted for it: an unavailable approval has none, everything else has one.\<close>

lemma actionable_iff_answerable:
  assumes "wf_request r"
  shows "is_actionable (ir_payload r) \<longleftrightarrow> (\<exists>a. wf_response a \<and> validate_response r a = Ok ())"
proof
  assume "is_actionable (ir_payload r)"
  from response_exists [OF assms this] show "\<exists>a. wf_response a \<and> validate_response r a = Ok ()" by blast
next
  assume "\<exists>a. wf_response a \<and> validate_response r a = Ok ()"
  with answers_actionable show "is_actionable (ir_payload r)" by (auto simp: validate_response_Ok)
qed

section \<open>Routing\<close>

text \<open>What the router lets through matches what it announced: a response is accepted only
  on a route it reports as interactive.\<close>

lemma accepted_response_is_interactive:
  assumes "validate_interaction_response p c s r a = Ok ()"
  shows "interaction_route p c s r = Ok Interactive"
proof -
  have "answers (ir_payload r) (is_payload a)"
    using assms by (simp add: validate_interaction_response_Ok validate_response_Ok)
  with assms answers_actionable show ?thesis
    by (auto simp: validate_interaction_response_Ok interaction_route_Ok)
qed

lemma sample_response_valid:
  "validate_interaction_response sample_provider sample_channel sample_session sample_approval sample_response = Ok ()"
  by (simp add: validate_interaction_response_Ok validate_response_Ok sample_defs timely_def capability_eval)

text \<open>Conversely a route announced as interactive can be used: some well-formed response
  from that channel passes the router.\<close>

lemma interactive_route_is_answerable:
  assumes "wf_request r" and "interaction_route p c s r = Ok Interactive"
  shows "\<exists>a. wf_response a \<and> validate_interaction_response p c s r a = Ok ()"
proof -
  have act: "is_actionable (ir_payload r)"
    using assms(2) by (simp add: interaction_route_Ok split: if_splits)
  from response_exists [OF assms(1) act, of "cd_id c"] assms(2) show ?thesis
    by (auto simp: interaction_route_Ok validate_interaction_response_Ok validate_response_Ok
        split: if_splits)
qed

text \<open>Declaring more capabilities never makes the router refuse a command it accepted.\<close>

lemma command_capabilities_monotone:
  assumes "validate_command p c s m = Ok ()"
  shows "validate_command
     (p\<lparr>pd_capabilities := pc_union (pd_capabilities p) extra\<rparr>)
     (c\<lparr>cd_capabilities := cc_union (cd_capabilities c) extra'\<rparr>) s m = Ok ()"
  using assms by (simp add: validate_command_Ok pcap.contains_mono ccap.contains_mono)

section \<open>The reducer\<close>

text \<open>(C5) A failed application changes nothing: the aggregate after an error is the aggregate
  before it, also for the branches that mutate before they test.\<close>

theorem apply_event_atomic:
  assumes "apply_event agg e = (Err x, agg')"
  shows "agg' = agg"
  by (rule reducer.rejected_keeps [OF assms])

theorem apply_event_atomic_witness:
  "snd (apply_event agg_at_1 event3) = agg_at_1"
  by (rule apply_event_atomic [where x = "SequenceGap 2 3" and e = event3])
    (simp add: apply_event_def validate_cursor_def agg_at_1_def sample_defs checked_next_def counter_FIRST_def)

text \<open>An exact retry of the event just applied is recognised and changes nothing, however
  often it is repeated.\<close>

lemma apply_event_retry:
  assumes "apply_event agg e = (Ok Applied, agg')"
  shows "apply_event agg' e = (Ok AlreadyApplied, agg')"
  using applied_facts(1,4) [OF assms] apply_event_frame(2) [OF assms]
  by (simp add: apply_event_AlreadyApplied_iff validate_cursor_retry)

text \<open>Every application, accepted or not, preserves the aggregate's invariant: snapshots
  are well formed, and pending interactions and active tool calls are filed under their own
  identifiers and belong to this session.\<close>

lemma apply_event_invariant:
  assumes "agg_inv agg" and "wf_event e" and "apply_event agg e = (r, agg')"
  shows "agg_inv agg'"
  by (rule agg_inv_apply [OF assms])

text \<open>The events an aggregate accepts are numbered \<open>1, 2, \<dots>\<close> without gap or repetition,
  and its recent-event window holds exactly the newest ones its configuration allows.\<close>

lemma history_window_exact:
  assumes "history cfg log agg"
  shows "map (\<lambda>e. unat (ev_sequence e)) log = [1..<length log + 1]
    \<and> agg_last_event agg = last log
    \<and> agg_recent_events agg =
        (if cfg_retain_all_events cfg then log else last_n (cfg_recent_event_capacity cfg) log)"
  using history_log [OF assms] history_window [OF assms] by (simp add: window_def)

text \<open>(C6) A page read after a cursor is the next part of the accepted log, at most as long as
  asked; no page is given exactly when the cursor is ahead of the log or the window has already
  lost the event that follows it.\<close>

theorem retained_page_exact:
  assumes "history cfg log agg"
  shows "retained_event_page_after agg after n =
     (if unat after \<le> length log
         \<and> (unat after = length log \<or> cfg_retain_all_events cfg
            \<or> length log \<le> unat after + cfg_recent_event_capacity cfg)
      then Some (take n (drop (unat after) log)) else None)"
  unfolding history_page [OF assms] covered_def evicted_def by auto

theorem retained_page_exact_witness:
  "retained_event_page_after agg_at_3 1 10 = Some [event2, event3]
   \<and> retained_event_page_after agg_at_3 0 10 = None"
  using retained_page_exact [OF sample_history3]
  by (simp add: small_config_def SessionAggregateConfig_new_def numeral_eq_Suc)

text \<open>(C37) An aggregate is the replay of the events it accepted: retries and rejected events
  leave no trace.\<close>

theorem aggregate_is_replay:
  assumes "history cfg log agg"
  shows "replay_with_config log cfg = Ok agg"
  by (rule history_replay [OF assms])

theorem aggregate_is_replay_witness:
  "replay_with_config [event1, event2, event3] small_config = Ok agg_at_3"
  by (rule aggregate_is_replay [OF sample_history3])

lemma initial_view:
  assumes "from_initial_event_with_config e c1 = Ok a"
  shows "\<exists>b. from_initial_event_with_config e c2 = Ok b \<and> current_view a = current_view b"
  using assms
  by (auto simp: from_initial_event_with_config_def current_view_eq_iff
      split: if_splits agent_event_payload.splits)

lemma apply_all_view:
  "current_view a = current_view b \<Longrightarrow> apply_all a es = Ok a' \<Longrightarrow>
     \<exists>b'. apply_all b es = Ok b' \<and> current_view a' = current_view b'"
proof (induction es arbitrary: a b)
  case (Cons e es)
  obtain r a1 where a1: "apply_event a e = (r, a1)" by fastforce
  obtain r' b1 where b1: "apply_event b e = (r', b1)" by fastforce
  have eq: "r' = r" "current_view a1 = current_view b1"
    using apply_event_view [OF Cons.prems(1), of e] a1 b1 by simp_all
  with Cons.prems(2) a1 have "apply_all a1 es = Ok a'" by (cases r) auto
  with Cons.IH [OF eq(2) this] Cons.prems(2) a1 b1 eq(1) show ?case by (cases r) auto
qed auto

text \<open>The retention settings decide only what can be read back: a stream replayed under
  two configurations succeeds under both or neither, with the same session, snapshots, tool
  calls, pending interactions and cursor.\<close>

lemma retention_is_transparent:
  assumes "replay_with_config es c1 = Ok a"
  shows "\<exists>b. replay_with_config es c2 = Ok b \<and> current_view a = current_view b"
proof (cases es)
  case (Cons e rest)
  with assms obtain a0 where a0: "from_initial_event_with_config e c1 = Ok a0" "apply_all a0 rest = Ok a"
    by (auto simp: and_then_Ok_iff)
  obtain b0 where b0: "from_initial_event_with_config e c2 = Ok b0" "current_view a0 = current_view b0"
    using initial_view [OF a0(1)] by blast
  from apply_all_view [OF b0(2) a0(2)] b0(1) Cons show ?thesis by auto
qed (use assms in simp)

text \<open>\<open>SequenceExhausted\<close> is never reported: an event newer than a cursor at the largest
  sequence cannot exist, so the comparison before it already answers.\<close>

lemma sequence_exhausted_unreachable:
  "fst (apply_event agg e) \<noteq> Err SequenceExhausted"
proof -
  have "checked_next (last_sequence agg) \<noteq> None" if "last_sequence agg < ev_sequence e"
    using that unsigned_less [of "ev_sequence e", where 'a = nat]
    by (auto simp: checked_next_None_iff word_less_nat_alt)
  then have "validate_cursor agg e \<noteq> Err SequenceExhausted"
    by (auto simp: validate_cursor_def result_simps)
  moreover have "fst (apply_tool_activity x t agg) \<noteq> Err SequenceExhausted" for x t
    by (cases x) auto
  then have "fst (apply_payload p t agg) \<noteq> Err SequenceExhausted" for p t
    by (cases "(p, t, agg)" rule: apply_payload.cases)
      (auto simp: Let_def next_session_revision_def validate_snapshot_revision_def result_simps
        split: sum.splits option.splits)
  ultimately show ?thesis
    by (auto simp: apply_event_def split: sum.splits prod.splits)
      (metis fst_conv)
qed

text \<open>The specification of the pending interactions: a partial map that a request extends, a
  response or a closure shrinks, and the end of the session empties.\<close>

fun pending_spec ::
  "agent_event_payload \<Rightarrow> (interaction_id \<rightharpoonup> interaction_request) \<Rightarrow> (interaction_id \<rightharpoonup> interaction_request)" where
  "pending_spec (InteractionRequested r) m = m(ir_id r \<mapsto> r)"
| "pending_spec (InteractionResponded a) m = m(is_request_id a := None)"
| "pending_spec (InteractionClosed c) m = m(ic_request_id c := None)"
| "pending_spec (SessionEnded _) m = Map.empty"
| "pending_spec _ m = m"

lemma bt_get_ext: "(\<And>k. bt_get m k = f k) \<Longrightarrow> bt_get m = f"
  by (rule ext) simp

lemma apply_payload_pending_spec:
  assumes "apply_payload p t agg = (Ok (), agg')"
  shows "bt_get (agg_pending_interactions agg') = pending_spec p (bt_get (agg_pending_interactions agg))"
  using assms
  by (cases "(p, t, agg)" rule: apply_payload.cases)
    (auto simp: Let_def elim!: apply_tool_activity.elims intro!: bt_get_ext
      split: sum.splits if_splits option.splits)

text \<open>The ordered map of pending interactions refines a partial map: abstracting after an
  applied event is applying the specification to the abstraction, and a response or closure is
  only applied to an interaction that was pending.\<close>

lemma pending_interactions_refine:
  assumes "apply_event agg e = (Ok Applied, agg')"
  shows "bt_get (agg_pending_interactions agg') =
      pending_spec (ev_payload e) (bt_get (agg_pending_interactions agg))
    \<and> (case ev_payload e of
         InteractionRequested r \<Rightarrow> bt_get (agg_pending_interactions agg) (ir_id r) = None
       | InteractionResponded a \<Rightarrow> (\<exists>r. bt_get (agg_pending_interactions agg) (is_request_id a) = Some r
           \<and> validate_response r a = Ok ())
       | InteractionClosed c \<Rightarrow> bt_get (agg_pending_interactions agg) (ic_request_id c) \<noteq> None
       | _ \<Rightarrow> True)"
proof -
  obtain agg1 where pay: "apply_payload (ev_payload e) (ev_occurred_at e) agg = (Ok (), agg1)"
    and agg': "agg' = record_event e agg1"
    using assms by (auto simp: apply_event_Applied_iff)
  show ?thesis
    using apply_payload_pending_spec [OF pay] pay
    by (auto simp: agg' bt_contains_key_def Let_def
        split: agent_event_payload.splits if_splits option.splits sum.splits)
qed

lemma apply_payload_session_exact:
  assumes "apply_payload p t agg = (Ok (), agg')"
  shows "unat (ses_revision (agg_session agg')) = unat (ses_revision (agg_session agg))
      + (case p of StateChanged _ \<Rightarrow> 1 | ConnectionChanged _ \<Rightarrow> 1 | SessionEnded _ \<Rightarrow> 1 | _ \<Rightarrow> 0)"
    and "ses_updated_at (agg_session agg) \<le> ses_updated_at (agg_session agg')"
    and "ses_created_at (agg_session agg') = ses_created_at (agg_session agg)"
  using assms
  by (cases "(p, t, agg)" rule: apply_payload.cases;
      auto simp: Let_def next_session_revision_Ok elim!: apply_tool_activity.elims
        split: sum.splits if_splits option.splits)+

text \<open>The session snapshot moves forward only: identity, owner and creation time are fixed,
  the update time never goes back, and the revision grows by one on a state, connection or end
  event and by nothing otherwise, without wrapping around.\<close>

lemma session_snapshot_monotone:
  assumes "apply_event agg e = (Ok Applied, agg')"
  shows "ses_id (agg_session agg') = ses_id (agg_session agg)
    \<and> ses_provider_id (agg_session agg') = ses_provider_id (agg_session agg)
    \<and> ses_created_at (agg_session agg') = ses_created_at (agg_session agg)
    \<and> ses_updated_at (agg_session agg) \<le> ses_updated_at (agg_session agg')
    \<and> unat (ses_revision (agg_session agg')) = unat (ses_revision (agg_session agg))
        + (case ev_payload e of StateChanged _ \<Rightarrow> 1 | ConnectionChanged _ \<Rightarrow> 1 | SessionEnded _ \<Rightarrow> 1 | _ \<Rightarrow> 0)"
proof -
  obtain agg1 where pay: "apply_payload (ev_payload e) (ev_occurred_at e) agg = (Ok (), agg1)"
    and agg': "agg' = record_event e agg1"
    using assms by (auto simp: apply_event_Applied_iff)
  show ?thesis
    using apply_payload_session_exact [OF pay] apply_event_frame [OF assms] by (simp add: agg')
qed

text \<open>The end of a run leaves no tool call active and no interaction pending, records the
  outcome and sets the matching state.\<close>

lemma session_end_clears:
  assumes "apply_event agg e = (Ok Applied, agg')" and "ev_payload e = SessionEnded outcome"
  shows "agg_active_tool_calls agg' = bt_empty \<and> agg_pending_interactions agg' = bt_empty
    \<and> agg_latest_outcome agg' = Some outcome
    \<and> ses_state (agg_session agg') = outcome_agent_state outcome
    \<and> ses_state (agg_session agg') \<in> {Completed, Failed, Cancelled}"
  using assms
  by (cases outcome) (auto simp: apply_event_Applied_iff split: sum.splits)

end
