(* ===== verification/Bridge_Properties.thy ===== *)
theory Bridge_Properties
  imports Samples
begin

text \<open>
  The properties of the Bridge: the invariant of every reachable Bridge, events in, actions
  out, subscriptions and catch-up. They hold for every behaviour of the adapters.
\<close>

section \<open>Reachable Bridges\<close>

inductive bridge_reachable ::
  "('p, 'x) provider_port \<Rightarrow> ('c, 'x) channel_port \<Rightarrow> session_aggregate_config \<Rightarrow> ('p, 'c) bridge \<Rightarrow> bool"
  for pp cp cfg where
  empty: "bridge_reachable pp cp cfg (with_session_config cfg)"
| registered_provider: "bridge_reachable pp cp cfg b \<Longrightarrow> register_provider pp p b = (r, b')
    \<Longrightarrow> bridge_reachable pp cp cfg b'"
| registered_channel: "bridge_reachable pp cp cfg b \<Longrightarrow> register_channel cp c b = (r, b')
    \<Longrightarrow> bridge_reachable pp cp cfg b'"
| event: "bridge_reachable pp cp cfg b \<Longrightarrow> wf_event e \<Longrightarrow> handle_provider_event cp pid e b = (r', b')
    \<Longrightarrow> bridge_reachable pp cp cfg b'"
| subscribed: "bridge_reachable pp cp cfg b \<Longrightarrow> subscribe cp cid sid b = (s, b')
    \<Longrightarrow> bridge_reachable pp cp cfg b'"
| synced: "bridge_reachable pp cp cfg b \<Longrightarrow> sync_session cp cid sid after n b = (s', b')
    \<Longrightarrow> bridge_reachable pp cp cfg b'"
| unsubscribed: "bridge_reachable pp cp cfg b
    \<Longrightarrow> unsubscribe cid sid b = ((u :: (_, 'x subscription_error) result), b')
    \<Longrightarrow> bridge_reachable pp cp cfg b'"
| channel_left: "bridge_reachable pp cp cfg b
    \<Longrightarrow> unsubscribe_channel cid b = ((v :: (_, 'x subscription_error) result), b')
    \<Longrightarrow> bridge_reachable pp cp cfg b'"
| response: "bridge_reachable pp cp cfg b \<Longrightarrow> handle_interaction_response pp cid a b = (w, b')
    \<Longrightarrow> bridge_reachable pp cp cfg b'"
| command: "bridge_reachable pp cp cfg b \<Longrightarrow> handle_command pp cid m b = (w, b')
    \<Longrightarrow> bridge_reachable pp cp cfg b'"

lemmas bridge_inv_steps = bridge_inv_initial bridge_inv_register_provider
  bridge_inv_register_channel bridge_inv_handle_provider_event bridge_inv_subscribe
  bridge_inv_sync_session bridge_inv_unsubscribe bridge_inv_unsubscribe_channel

lemma reachable_inv: "bridge_reachable pp cp cfg b \<Longrightarrow> bridge_inv b"
proof (induction rule: bridge_reachable.induct)
  case (response b cid a w b')
  then show ?case using bridge_inv_frame [OF interaction_response_frame] by blast
next
  case (command b cid m w b')
  then show ?case using bridge_inv_frame [OF command_frame] by blast
qed (blast intro: bridge_inv_steps)+

lemma sample_reachable1: "bridge_reachable sample_pp sample_cp small_config bridge1"
  using bridge_reachable.registered_provider [OF bridge_reachable.empty sample_register_provider [unfolded bridge0_def]] .

lemma sample_reachable2: "bridge_reachable sample_pp sample_cp small_config bridge2"
  using bridge_reachable.registered_channel [OF sample_reachable1 sample_register_channel] .

lemma sample_reachable3: "bridge_reachable sample_pp sample_cp small_config bridge3"
  using bridge_reachable.event [OF sample_reachable2 wf_sample_events(1) sample_handle1] .

lemma sample_reachable4: "bridge_reachable sample_pp sample_cp small_config bridge4"
  using bridge_reachable.subscribed [OF sample_reachable3 sample_subscribe] .

lemma sample_reachable5: "bridge_reachable sample_pp sample_cp small_config bridge5"
  using bridge_reachable.event [OF sample_reachable4 wf_sample_events(2) sample_handle2] .

lemmas sample_inv = sample_reachable2 [THEN reachable_inv] sample_reachable3 [THEN reachable_inv]
  sample_reachable4 [THEN reachable_inv] sample_reachable5 [THEN reachable_inv]

text \<open>(C1) In every reachable Bridge each endpoint is filed under the identifier of its
  descriptor, each session under its own identifier and owned by a registered Provider that was
  entitled to publish every event of its log, and each subscription joins a registered Channel
  to an existing session; no empty subscriber set is kept.\<close>

theorem reachable_bridge_consistent:
  assumes "bridge_reachable pp cp cfg b"
  shows "(\<forall>pid d. br_provider_descriptor b pid = Some d \<longrightarrow> pd_id d = pid)
    \<and> (\<forall>cid d. br_channel_descriptor b cid = Some d \<longrightarrow> cd_id d = cid)
    \<and> (\<forall>sid agg. bt_get (br_sessions b) sid = Some agg \<longrightarrow> session_ok b sid agg)
    \<and> (\<forall>sid channels. bt_get (br_subscriptions b) sid = Some channels \<longrightarrow>
         subscribers_ok b sid channels)"
  using reachable_inv [OF assms] by (simp add: bridge_inv_def)

theorem reachable_bridge_consistent_witness:
  "session_ok bridge4 sample_sid agg_at_1 \<and> subscribers_ok bridge4 sample_sid (bs_insert sample_cid bt_empty)"
  using reachable_bridge_consistent [OF sample_reachable4] by (simp add: bridge_samples)

section \<open>Events from a Provider\<close>

lemma admit_total:
  fixes b :: "('p, 'c) bridge"
  assumes inv: "bridge_inv b" and wf: "wf_event e" and p: "bt_get (br_providers b) pid = Some p"
    and s: "routing_session b e = Some s" and valid: "validate_provider_event (rp_descriptor p) s e = Ok ()"
  shows "\<exists>routes. (admit_event pid e b :: (_, 'x provider_event_error) result) = Ok routes"
proof -
  have "\<exists>t. (route_to_subscriber (rp_descriptor p) s e b cid :: (_, 'x provider_event_error) result) = Ok t"
    if sub: "cid \<in> set (session_subscribers b (ev_session_id e))" for cid
  proof -
    obtain ch where ch: "bt_get (br_channels b) cid = Some ch"
      using subscribed_registered(1) [OF inv] sub [unfolded subscriber_iff] by blast
    obtain route where "channel_event_route (rp_descriptor p) (rc_descriptor ch) s e = Ok route"
      using channel_event_route_total [OF valid wf] by blast
    with ch show ?thesis by (simp add: route_to_subscriber_def)
  qed
  then have "\<not> (\<exists>x. (collect_results (route_to_subscriber (rp_descriptor p) s e b)
      (session_subscribers b (ev_session_id e)) :: (_, 'x provider_event_error) result) = Err x)"
    unfolding collect_results_Err_iff by fastforce
  then obtain routes where "(collect_results (route_to_subscriber (rp_descriptor p) s e b)
      (session_subscribers b (ev_session_id e)) :: (_, 'x provider_event_error) result) = Ok routes"
    by (metis sum.exhaust)
  with p s valid show ?thesis by (auto simp: admit_event_Ok)
qed

text \<open>What the fan-out of an admitted, reduced event does, on the Bridge \<open>b1\<close> of the reduction.\<close>

lemma admitted_fan_out:
  fixes cp :: "('c, 'x) channel_port"
  assumes adm: "(admit_event pid e b :: (_, 'x provider_event_error) result) = Ok routes"
    and red: "reduce_event e b = ((res :: (_, 'x provider_event_error) result), b1)"
  shows "\<exists>b'. fan_out cp e v routes [] b1 = (Ok (map (fst \<circ> target_result cp e v b1) routes), b')
    \<and> bridge_frame b' = bridge_frame b1 \<and> br_providers b' = br_providers b
    \<and> (\<forall>c. bt_get (br_channels b') c = (case map_of (map (\<lambda>t. (fst t, t)) routes) c of
         None \<Rightarrow> bt_get (br_channels b) c | Some t \<Rightarrow> Some (snd (target_result cp e v b1 t))))"
proof -
  note same = reduce_event_channels [OF red]
  have reg: "\<forall>t \<in> set routes. bt_get (br_channels b1) (fst t) \<noteq> None"
    using admitted_targets(2) [OF adm] same by simp
  have dist: "distinct (map fst routes)" using admitted_targets(1) [OF adm] by simp
  obtain b' where b': "fan_out cp e v routes [] b1 = (Ok ([] @ map (fst \<circ> target_result cp e v b1) routes), b')"
    "br_providers b' = br_providers b1"
    "\<forall>c. bt_get (br_channels b') c = (case map_of (map (\<lambda>t. (fst t, t)) routes) c of
         None \<Rightarrow> bt_get (br_channels b1) c | Some t \<Rightarrow> Some (snd (target_result cp e v b1 t)))"
    using fan_out_spec [OF reg dist] by blast
  with fan_out_frame [OF b'(1)] same show ?thesis by (auto split: option.splits)
qed

lemma target_result_channel: "dr_channel_id (fst (target_result cp e v b t)) = fst t"
  by (cases t) (simp add: target_result_def deliver_one_channel)

text \<open>The Bridge after an event the reducer accepted, and its report.\<close>

lemma handle_applied:
  fixes cp :: "('c, 'x) channel_port"
  assumes adm: "(admit_event pid e b :: (_, 'x provider_event_error) result) = Ok routes"
    and red: "reduce_event e b = ((Ok (Applied, reduced) :: (_, 'x provider_event_error) result), b1)"
    and v: "v = (if list_ex (\<lambda>(_, _, ds). ds) routes then Some reduced else None)"
  shows "\<exists>b'. handle_provider_event cp pid e b =
      ((let report = \<lparr>rep_outcome = EventApplied, rep_deliveries = map (fst \<circ> target_result cp e v b1) routes\<rparr>
        in if has_failures report then Err (ChannelHandoffs report) else Ok report), b')
    \<and> bridge_frame b' = bridge_frame b1 \<and> br_providers b' = br_providers b
    \<and> (\<forall>c. bt_get (br_channels b') c = (case map_of (map (\<lambda>t. (fst t, t)) routes) c of
         None \<Rightarrow> bt_get (br_channels b) c | Some t \<Rightarrow> Some (snd (target_result cp e v b1 t))))"
proof -
  obtain b' where b': "fan_out cp e v routes [] b1 = (Ok (map (fst \<circ> target_result cp e v b1) routes), b')"
    "bridge_frame b' = bridge_frame b1 \<and> br_providers b' = br_providers b
    \<and> (\<forall>c. bt_get (br_channels b') c = (case map_of (map (\<lambda>t. (fst t, t)) routes) c of
         None \<Rightarrow> bt_get (br_channels b) c | Some t \<Rightarrow> Some (snd (target_result cp e v b1 t))))"
    using admitted_fan_out [OF adm red] by blast
  have "handle_provider_event cp pid e b =
      ((let report = \<lparr>rep_outcome = EventApplied, rep_deliveries = map (fst \<circ> target_result cp e v b1) routes\<rparr>
        in if has_failures report then Err (ChannelHandoffs report) else Ok report), b')"
    using b'(1) unfolding v by (simp add: handle_provider_event_def adm red Let_def)
  with b'(2) show ?thesis by blast
qed

text \<open>(C2) An event the Bridge refuses leaves it exactly as it was, in every adapter too: the only
  error after which anything has changed is a failed channel handoff.\<close>

theorem refused_event_changes_nothing:
  fixes cp :: "('c, 'x) channel_port"
  assumes "handle_provider_event cp pid e b = (Err x, b')" and "\<forall>report. x \<noteq> ChannelHandoffs report"
  shows "b' = b"
proof (cases "admit_event pid e b :: (_, 'x provider_event_error) result")
  case (Inl y)
  with assms show ?thesis by (simp add: handle_provider_event_def)
next
  case (Inr routes)
  obtain res :: "(_, 'x provider_event_error) result" and b1
    where red: "reduce_event e b = (res, b1)" by fastforce
  show ?thesis
  proof (cases "\<exists>reduced. res = Ok (Applied, reduced)")
    case True
    then obtain reduced where "res = Ok (Applied, reduced)" by blast
    from handle_applied [OF Inr red [unfolded this] refl, where cp = cp] assms show ?thesis
      by (auto simp: Let_def split: if_splits)
  next
    case False
    with assms Inr red reduce_event_atomic show ?thesis
      by (auto simp: handle_provider_event_def split: sum.splits prod.splits apply_outcome.splits)
  qed
qed

theorem refused_event_changes_nothing_witness:
  "snd (handle_provider_event sample_cp sample_pid event2 bridge2) = bridge2"
  by (rule refused_event_changes_nothing [where cp = sample_cp and pid = sample_pid and e = event2
        and x = "SessionNotStarted sample_sid"])
    (simp_all add: handle_provider_event_def admit_event_def bridge_samples routing_session_def)

definition reduces_to :: "('p, 'c) bridge \<Rightarrow> agent_event \<Rightarrow> session_aggregate \<Rightarrow> bool" where
  "reduces_to b e agg' \<longleftrightarrow>
     (case bt_get (br_sessions b) (ev_session_id e) of
        Some agg \<Rightarrow> apply_event agg e = (Ok Applied, agg')
      | None \<Rightarrow> from_initial_event_with_config e (br_session_config b) = Ok agg')"

lemma reduce_event_Applied:
  assumes "reduce_event e b = (Ok (Applied, s), b1)"
  shows "\<exists>agg'. reduces_to b e agg' \<and> s = agg_session agg'
    \<and> b1 = b\<lparr>br_sessions := bt_insert (ev_session_id e) agg' (br_sessions b)\<rparr>"
  using assms
  by (auto simp: reduce_event_def reduces_to_def Let_def split: option.splits prod.splits sum.splits)

lemma admit_event_Err:
  assumes "(admit_event pid e b :: (_, 'x provider_event_error) result) = Err x"
  shows "x \<noteq> ChannelHandoffs report"
  using assms
  by (auto simp: admit_event_def route_to_subscriber_def result_simps dest!: collect_results_ErrD)

lemma reduce_event_Err:
  assumes "reduce_event e b = ((Err x :: (_, 'x provider_event_error) result), b')"
  shows "x \<noteq> ChannelHandoffs report"
  using assms by (auto simp: reduce_event_def Let_def split: option.splits prod.splits sum.splits)

lemma applied_report:
  fixes cp :: "('c, 'x) channel_port"
  assumes "handle_provider_event cp pid e b = (r, b')"
    and "r = Ok report \<or> r = Err (ChannelHandoffs report)" and "rep_outcome report = EventApplied"
  obtains routes agg' v b1 where
    "(admit_event pid e b :: (_, 'x provider_event_error) result) = Ok routes"
    and "reduces_to b e agg'" and "b1 = b\<lparr>br_sessions := bt_insert (ev_session_id e) agg' (br_sessions b)\<rparr>"
    and "v = (if list_ex (\<lambda>(_, _, ds). ds) routes then Some (agg_session agg') else None)"
    and "rep_deliveries report = map (fst \<circ> target_result cp e v b1) routes"
    and "r = (if has_failures report then Err (ChannelHandoffs report) else Ok report)"
    and "bridge_frame b' = bridge_frame b1" and "br_providers b' = br_providers b"
    and "\<And>c. bt_get (br_channels b') c = (case map_of (map (\<lambda>t. (fst t, t)) routes) c of
         None \<Rightarrow> bt_get (br_channels b) c | Some t \<Rightarrow> Some (snd (target_result cp e v b1 t)))"
proof -
  obtain routes where adm: "(admit_event pid e b :: (_, 'x provider_event_error) result) = Ok routes"
    using assms admit_event_Err [where 'x = 'x and b = b and pid = pid and e = e]
    by (cases "admit_event pid e b :: (_, 'x provider_event_error) result")
      (auto simp: handle_provider_event_def)
  obtain res :: "(_, 'x provider_event_error) result" and b1
    where red: "reduce_event e b = (res, b1)" by fastforce
  obtain reduced where res: "res = Ok (Applied, reduced)"
    using assms adm red reduce_event_Err [where 'x = 'x and b = b and e = e]
    by (auto simp: handle_provider_event_def split: sum.splits prod.splits apply_outcome.splits)
  obtain agg' where agg': "reduces_to b e agg'" "reduced = agg_session agg'"
    "b1 = b\<lparr>br_sessions := bt_insert (ev_session_id e) agg' (br_sessions b)\<rparr>"
    using reduce_event_Applied [OF red [unfolded res]] by blast
  define v where "v = (if list_ex (\<lambda>(_, _, ds). ds) routes then Some (agg_session agg') else None)"
  from handle_applied [OF adm red [unfolded res] v_def [folded agg'(2)], where cp = cp] obtain b2 where
    b2: "handle_provider_event cp pid e b =
      ((let report = \<lparr>rep_outcome = EventApplied, rep_deliveries = map (fst \<circ> target_result cp e v b1) routes\<rparr>
        in if has_failures report then Err (ChannelHandoffs report) else Ok report), b2)"
    "bridge_frame b2 = bridge_frame b1" "br_providers b2 = br_providers b"
    "\<And>c. bt_get (br_channels b2) c = (case map_of (map (\<lambda>t. (fst t, t)) routes) c of
         None \<Rightarrow> bt_get (br_channels b) c | Some t \<Rightarrow> Some (snd (target_result cp e v b1 t)))"
    by auto
  have "b2 = b'" and rep: "report = \<lparr>rep_outcome = EventApplied,
      rep_deliveries = map (fst \<circ> target_result cp e v b1) routes\<rparr>"
    and "r = (if has_failures report then Err (ChannelHandoffs report) else Ok report)"
    using b2(1) assms by (auto simp: Let_def split: if_splits)
  with b2 show ?thesis by (intro that [OF adm agg'(1,3) v_def]) simp_all
qed

text \<open>(C3) An accepted event reaches every subscriber exactly once: the report has one entry per
  subscriber in ascending channel order, also when some of them refuse; the reduction is kept;
  no other session, no other channel, no subscription and no Provider adapter is touched.\<close>

theorem accepted_event_fan_out:
  fixes cp :: "('c, 'x) channel_port"
  assumes step: "handle_provider_event cp pid e b = (r, b')"
    and rep: "r = Ok report \<or> r = Err (ChannelHandoffs report)" and out: "rep_outcome report = EventApplied"
  shows "map dr_channel_id (rep_deliveries report) = session_subscribers b (ev_session_id e)
    \<and> sorted_wrt (<) (map dr_channel_id (rep_deliveries report))
    \<and> (r = Ok report \<longleftrightarrow> list_all is_delivered (rep_deliveries report))
    \<and> (\<exists>agg'. reduces_to b e agg'
         \<and> br_sessions b' = bt_insert (ev_session_id e) agg' (br_sessions b))
    \<and> br_subscriptions b' = br_subscriptions b \<and> br_providers b' = br_providers b
    \<and> (\<forall>c. \<not> is_subscribed b c (ev_session_id e) \<longrightarrow> bt_get (br_channels b') c = bt_get (br_channels b) c)"
proof (rule applied_report [OF step rep out])
  fix routes agg' v b1
  assume adm: "(admit_event pid e b :: (_, 'x provider_event_error) result) = Ok routes"
    and red: "reduces_to b e agg'"
    and b1: "b1 = b\<lparr>br_sessions := bt_insert (ev_session_id e) agg' (br_sessions b)\<rparr>"
    and ds: "rep_deliveries report = map (fst \<circ> target_result cp e v b1) routes"
    and r: "r = (if has_failures report then Err (ChannelHandoffs report) else Ok report)"
    and frame: "bridge_frame b' = bridge_frame b1" and prov: "br_providers b' = br_providers b"
    and chans: "\<And>c. bt_get (br_channels b') c = (case map_of (map (\<lambda>t. (fst t, t)) routes) c of
         None \<Rightarrow> bt_get (br_channels b) c | Some t \<Rightarrow> Some (snd (target_result cp e v b1 t)))"
  have ids: "map dr_channel_id (rep_deliveries report) = session_subscribers b (ev_session_id e)"
    using admitted_targets(1) [OF adm] by (simp add: ds target_result_channel comp_def)
  have other: "bt_get (br_channels b') c = bt_get (br_channels b) c"
    if c: "\<not> is_subscribed b c (ev_session_id e)" for c
  proof -
    have "c \<notin> set (map fst routes)"
      using c unfolding admitted_targets(1) [OF adm] subscriber_iff .
    then have "map_of (map (\<lambda>t. (fst t, t)) routes) c = None"
      by (force simp: map_of_eq_None_iff)
    with chans show ?thesis by simp
  qed
  have "br_sessions b' = bt_insert (ev_session_id e) agg' (br_sessions b)"
    "br_subscriptions b' = br_subscriptions b"
    using frame b1 by (simp_all add: bridge_frame_eq_iff)
  moreover have "r = Ok report \<longleftrightarrow> list_all is_delivered (rep_deliveries report)"
    by (auto simp: r has_failures_def list_ex_iff list_all_iff)
  ultimately show ?thesis
    using ids session_subscribers_ascending [of b "ev_session_id e"] red prov other by auto
qed

theorem accepted_event_fan_out_witness:
  "map dr_channel_id [Delivered sample_cid :: string channel_delivery_result]
     = session_subscribers bridge4 sample_sid \<and> br_providers bridge5 = br_providers bridge4"
  using accepted_event_fan_out [OF sample_handle2, where report = "\<lparr>rep_outcome = EventApplied,
      rep_deliveries = [Delivered sample_cid]\<rparr>"] by simp

lemma routed_target:
  assumes adm: "(admit_event pid e b :: (_, 'x provider_event_error) result) = Ok routes"
    and t: "t \<in> set routes"
  obtains p s ch route where "bt_get (br_providers b) pid = Some p" and "routing_session b e = Some s"
    and "bt_get (br_channels b) (fst t) = Some ch"
    and "channel_event_route (rp_descriptor p) (rc_descriptor ch) s e = Ok route"
    and "t = (fst t, route, cc_contains (cd_capabilities (rc_descriptor ch)) CC_SESSION_VIEW
                \<and> event_updates_session_view e)"
proof -
  obtain p s where p: "bt_get (br_providers b) pid = Some p" "routing_session b e = Some s"
    and all: "collect_results (route_to_subscriber (rp_descriptor p) s e b)
      (session_subscribers b (ev_session_id e)) = (Ok routes :: (_, 'x provider_event_error) result)"
    using adm by (auto simp: admit_event_Ok)
  from collect_results_source [OF all t] obtain cid where
    "(route_to_subscriber (rp_descriptor p) s e b cid :: (_, 'x provider_event_error) result) = Ok t"
    by blast
  then obtain ch route where ch: "bt_get (br_channels b) cid = Some ch"
    "channel_event_route (rp_descriptor p) (rc_descriptor ch) s e = Ok route"
    and t: "t = (cid, route, cc_contains (cd_capabilities (rc_descriptor ch)) CC_SESSION_VIEW
       \<and> event_updates_session_view e)"
    by (auto simp: route_to_subscriber_def and_then_Ok_iff map_err_Ok_iff ok_or_Ok_iff)
  have "fst t = cid" by (simp add: t)
  with ch t show thesis by (intro that [OF p]) simp_all
qed

lemma deliver_one_no_view: "deliver_one cp e v cid route False ch = deliver_one cp e w cid route False ch"
  by (simp add: deliver_one_def)

text \<open>(C4) Targets are isolated from one another: each subscriber's adapter and its entry in the
  report are what delivering the event to that channel alone would give, with the route computed
  for it and, if it shows sessions and the event changes the view, the reduced session.\<close>

theorem fan_out_targets_isolated:
  fixes cp :: "('c, 'x) channel_port"
  assumes step: "handle_provider_event cp pid e b = (r, b')"
    and rep: "r = Ok report \<or> r = Err (ChannelHandoffs report)" and out: "rep_outcome report = EventApplied"
    and sub: "is_subscribed b c (ev_session_id e)"
  shows "\<exists>agg' p s ch route result ch'.
     reduces_to b e agg' \<and> bt_get (br_providers b) pid = Some p \<and> routing_session b e = Some s
     \<and> bt_get (br_channels b) c = Some ch
     \<and> channel_event_route (rp_descriptor p) (rc_descriptor ch) s e = Ok route
     \<and> deliver_one cp e (Some (agg_session agg')) c route
          (cc_contains (cd_capabilities (rc_descriptor ch)) CC_SESSION_VIEW
            \<and> event_updates_session_view e) ch = (result, ch')
     \<and> result \<in> set (rep_deliveries report) \<and> bt_get (br_channels b') c = Some ch'"
proof (rule applied_report [OF step rep out])
  fix routes agg' v b1
  assume adm: "(admit_event pid e b :: (_, 'x provider_event_error) result) = Ok routes"
    and red: "reduces_to b e agg'"
    and b1: "b1 = b\<lparr>br_sessions := bt_insert (ev_session_id e) agg' (br_sessions b)\<rparr>"
    and v: "v = (if list_ex (\<lambda>(_, _, ds). ds) routes then Some (agg_session agg') else None)"
    and ds: "rep_deliveries report = map (fst \<circ> target_result cp e v b1) routes"
    and chans: "\<And>c. bt_get (br_channels b') c = (case map_of (map (\<lambda>t. (fst t, t)) routes) c of
         None \<Rightarrow> bt_get (br_channels b) c | Some t \<Rightarrow> Some (snd (target_result cp e v b1 t)))"
  have "c \<in> set (map fst routes)" using sub unfolding admitted_targets(1) [OF adm] subscriber_iff .
  then obtain t where t: "t \<in> set routes" "fst t = c" by auto
  have dist: "distinct (map fst (map (\<lambda>t. (fst t, t)) routes))"
    using admitted_targets(1) [OF adm] by (simp add: comp_def)
  have look: "map_of (map (\<lambda>t. (fst t, t)) routes) c = Some t"
    using t by (intro map_of_is_SomeI [OF dist]) auto
  obtain p s ch route where facts: "bt_get (br_providers b) pid = Some p" "routing_session b e = Some s"
    "bt_get (br_channels b) c = Some ch"
    "channel_event_route (rp_descriptor p) (rc_descriptor ch) s e = Ok route"
    and form: "t = (c, route, cc_contains (cd_capabilities (rc_descriptor ch)) CC_SESSION_VIEW
                \<and> event_updates_session_view e)"
    using routed_target [OF adm t(1)] t(2) by metis
  let ?d = "cc_contains (cd_capabilities (rc_descriptor ch)) CC_SESSION_VIEW \<and> event_updates_session_view e"
  have view: "?d \<Longrightarrow> v = Some (agg_session agg')"
    using t(1) form by (auto simp: v list_ex_iff intro!: bexI [of _ t])
  have tr: "target_result cp e v b1 t = deliver_one cp e (Some (agg_session agg')) c route ?d ch"
    using view facts(3) deliver_one_no_view [of cp e v c route ch]
    by (cases ?d) (auto simp: target_result_def form b1)
  have "fst (target_result cp e v b1 t) \<in> set (rep_deliveries report)" using t(1) by (simp add: ds)
  moreover have "bt_get (br_channels b') c = Some (snd (target_result cp e v b1 t))"
    by (simp add: chans look)
  ultimately show ?thesis
    using red facts unfolding tr by (metis prod.collapse)
qed

lemma sample_subscribed: "is_subscribed bridge4 sample_cid sample_sid" "is_subscribed bridge5 sample_cid sample_sid"
  by (simp_all add: is_subscribed_def bridge_samples)

theorem fan_out_targets_isolated_witness:
  "\<exists>ch route ch'. bt_get (br_channels bridge4) sample_cid = Some ch
     \<and> deliver_one sample_cp event2 (Some sample_session) sample_cid route False ch = (Delivered sample_cid, ch')"
proof -
  have "ev_session_id event2 = sample_sid" by simp
  with fan_out_targets_isolated [OF sample_handle2, where report = "\<lparr>rep_outcome = EventApplied,
      rep_deliveries = [Delivered sample_cid]\<rparr>" and c = sample_cid]
  obtain agg' ch route ch' where "reduces_to bridge4 event2 agg'" "bt_get (br_channels bridge4) sample_cid = Some ch"
    "deliver_one sample_cp event2 (Some (agg_session agg')) sample_cid route
       (cc_contains (cd_capabilities (rc_descriptor ch)) CC_SESSION_VIEW \<and> event_updates_session_view event2) ch
     = (Delivered sample_cid, ch')"
    using sample_subscribed by auto
  moreover have "agg' = agg_at_2" if "reduces_to bridge4 event2 agg'"
    using that by (auto simp: reduces_to_def bridge_samples sample_step2)
  ultimately show ?thesis by (auto simp: sample_view event_updates_session_view_def)
qed

text \<open>(C9) The router and the subscriptions never stand in the way of a valid event: if its
  Provider is registered, central validation accepts it and the reducer accepts it, the Bridge
  applies it and reports on every subscriber.\<close>

theorem valid_event_is_applied:
  fixes cp :: "('c, 'x) channel_port"
  assumes inv: "bridge_inv b" and wf: "wf_event e" and p: "bt_get (br_providers b) pid = Some p"
    and s: "routing_session b e = Some s" and valid: "validate_provider_event (rp_descriptor p) s e = Ok ()"
    and red: "reduces_to b e agg'"
  shows "\<exists>report b'. rep_outcome report = EventApplied
    \<and> handle_provider_event cp pid e b =
        ((if has_failures report then Err (ChannelHandoffs report) else Ok report), b')"
proof -
  obtain routes where adm: "(admit_event pid e b :: (_, 'x provider_event_error) result) = Ok routes"
    using admit_total [OF inv wf p s valid] by blast
  have "reduce_event e b = ((Ok (Applied, agg_session agg') :: (_, 'x provider_event_error) result),
      b\<lparr>br_sessions := bt_insert (ev_session_id e) agg' (br_sessions b)\<rparr>)"
    using red by (simp add: reduces_to_def reduce_event_def split: option.splits)
  from handle_applied [OF adm this refl, where cp = cp] show ?thesis
    unfolding Let_def by (elim exE conjE) (rule exI, rule exI, rule conjI [rotated], assumption, simp)
qed

theorem valid_event_is_applied_witness:
  "\<exists>report b'. rep_outcome report = EventApplied
     \<and> handle_provider_event sample_cp sample_pid event2 bridge4 =
         ((if has_failures report then Err (ChannelHandoffs report) else Ok report), b')"
  by (rule valid_event_is_applied [OF sample_inv(3) wf_sample_events(2), where s = sample_session
        and agg' = agg_at_2 and p = "\<lparr>rp_descriptor = sample_provider, rp_port = ([], [])\<rparr>"])
    (simp_all add: bridge_samples routing_session_def sample_view reduces_to_def sample_step2)

lemma routing_after_reduction:
  assumes inv: "bridge_inv b" and wf: "wf_event e" and s: "routing_session b e = Some s"
    and red: "reduces_to b e agg'"
  shows "ses_id (agg_session agg') = ses_id s" and "ses_provider_id (agg_session agg') = ses_provider_id s"
proof -
  have "ses_id (agg_session agg') = ses_id s \<and> ses_provider_id (agg_session agg') = ses_provider_id s"
  proof (cases "bt_get (br_sessions b) (ev_session_id e)")
    case None
    with s red initial_session [of e "br_session_config b" agg'] wf show ?thesis
      by (simp add: reduces_to_def routing_session_def)
  next
    case (Some agg)
    with s red have "s = agg_session agg" "apply_event agg e = (Ok Applied, agg')"
      by (simp_all add: reduces_to_def routing_session_def)
    then show ?thesis using apply_event_frame by metis
  qed
  then show "ses_id (agg_session agg') = ses_id s" and "ses_provider_id (agg_session agg') = ses_provider_id s"
    by simp_all
qed

lemma reduces_retry:
  assumes "reduces_to b e agg'" and "wf_event e"
  shows "apply_event agg' e = (Ok AlreadyApplied, agg')"
proof -
  have "agg_last_event agg' = e \<and> ses_id (agg_session agg') = ev_session_id e"
  proof (cases "bt_get (br_sessions b) (ev_session_id e)")
    case None
    with assms show ?thesis
      using initial_session(2) [of e "br_session_config b" agg'] initial_event_facts(1)
      by (auto simp: reduces_to_def)
  next
    case (Some agg)
    with assms have "apply_event agg e = (Ok Applied, agg')" by (simp add: reduces_to_def)
    then show ?thesis using applied_facts(1,4) apply_event_frame(2) by metis
  qed
  then show ?thesis by (simp add: apply_event_AlreadyApplied_iff validate_cursor_retry)
qed

text \<open>Publishing the same event again is harmless: the second publication reports a retry,
  delivers nothing to any channel and leaves the Bridge as it is, even when handoffs failed the
  first time.\<close>

lemma republished_event_is_inert:
  fixes cp :: "('c, 'x) channel_port"
  assumes inv: "bridge_inv b" and wf: "wf_event e"
    and step: "handle_provider_event cp pid e b = (r, b')"
    and rep: "r = Ok report \<or> r = Err (ChannelHandoffs report)" and out: "rep_outcome report = EventApplied"
  shows "handle_provider_event cp pid e b' = (Ok \<lparr>rep_outcome = EventAlreadyApplied, rep_deliveries = []\<rparr>, b')"
proof (rule applied_report [OF step rep out])
  fix routes agg' v b1
  assume adm: "(admit_event pid e b :: (_, 'x provider_event_error) result) = Ok routes"
    and red: "reduces_to b e agg'"
    and b1: "b1 = b\<lparr>br_sessions := bt_insert (ev_session_id e) agg' (br_sessions b)\<rparr>"
    and frame: "bridge_frame b' = bridge_frame b1" and prov: "br_providers b' = br_providers b"
  obtain p s where ps: "bt_get (br_providers b) pid = Some p" "routing_session b e = Some s"
    "validate_provider_event (rp_descriptor p) s e = Ok ()"
    using adm by (auto simp: admit_event_Ok)
  have get: "bt_get (br_sessions b') (ev_session_id e) = Some agg'"
    using frame b1 by (simp add: bridge_frame_eq_iff)
  then have rs: "routing_session b' e = Some (agg_session agg')" by (simp add: routing_session_def)
  have valid: "validate_provider_event (rp_descriptor p) (agg_session agg') e = Ok ()"
    using ps(3) validate_provider_event_session [OF routing_after_reduction [OF inv wf ps(2) red]] by simp
  have inv': "bridge_inv b'" by (rule bridge_inv_handle_provider_event [OF inv wf step])
  obtain routes' where "(admit_event pid e b' :: (_, 'x provider_event_error) result) = Ok routes'"
    using admit_total [OF inv' wf _ rs valid] ps(1) prov by auto
  moreover have "reduce_event e b' = ((Ok (AlreadyApplied, agg_session agg') :: (_, 'x provider_event_error) result), b')"
    using get reduces_retry [OF red wf] by (simp add: reduce_event_def bt_insert_same)
  ultimately show ?thesis by (simp add: handle_provider_event_def)
qed

section \<open>Actions from a Channel\<close>

text \<open>(C7) A response reaches a Provider adapter only when its channel is registered and
  subscribed to the session, the interaction it names is pending there, and the router accepts it
  on a route that is interactive; it then goes to the session's own Provider, whose answer is the
  result. In every other case nothing changes.\<close>

theorem response_reaches_only_its_provider:
  fixes pp :: "('p, 'x) provider_port"
  assumes step: "handle_interaction_response pp cid a b = (r, b')" and "b' \<noteq> b \<or> r = Ok ()"
  shows "\<exists>channel agg p request.
     br_channel_descriptor b cid = Some channel \<and> is_subscribed b cid (is_session_id a)
     \<and> bt_get (br_sessions b) (is_session_id a) = Some agg
     \<and> bt_get (agg_pending_interactions agg) (is_request_id a) = Some request
     \<and> bt_get (br_providers b) (ses_provider_id (agg_session agg)) = Some p
     \<and> validate_interaction_response (rp_descriptor p) channel (agg_session agg) request a = Ok ()
     \<and> (let (res, port) = pp_accept_interaction_response pp (rp_port p) a
        in r = map_err (\<lambda>x. ProviderHandoff (ses_provider_id (agg_session agg))
                 HandoffInteractionResponse (Boxed x)) res
         \<and> b' = b\<lparr>br_providers := bt_insert (ses_provider_id (agg_session agg))
                    (p\<lparr>rp_port := port\<rparr>) (br_providers b)\<rparr>)"
proof (cases "action_context b cid (is_session_id a) :: (_, 'x channel_action_error) result")
  case (Inl x)
  with assms show ?thesis by (auto simp: handle_interaction_response_def)
next
  case (Inr ctx)
  obtain channel agg p where ctx: "ctx = (channel, agg, p)" by (cases ctx)
  note actx = Inr [unfolded ctx action_context_Ok]
  obtain request where request: "bt_get (agg_pending_interactions agg) (is_request_id a) = Some request"
    using assms Inr ctx by (auto simp: handle_interaction_response_def split: option.splits)
  have valid: "validate_interaction_response (rp_descriptor p) channel (agg_session agg) request a = Ok ()"
    using assms Inr ctx request by (auto simp: handle_interaction_response_def split: sum.splits)
  obtain res port where call: "pp_accept_interaction_response pp (rp_port p) a = (res, port)" by fastforce
  have "(r, b') = (map_err (\<lambda>x. ProviderHandoff (ses_provider_id (agg_session agg))
        HandoffInteractionResponse (Boxed x)) res,
      b\<lparr>br_providers := bt_insert (ses_provider_id (agg_session agg)) (p\<lparr>rp_port := port\<rparr>) (br_providers b)\<rparr>)"
    using step Inr ctx request valid call
    by (cases res) (auto simp: handle_interaction_response_def hand_to_provider_def rp_calls rp_handoff_def)
  with actx request valid call show ?thesis by auto
qed

lemma sample_accepts_response:
  "handle_interaction_response sample_pp sample_cid sample_response bridge5 =
     (Ok (), bridge5\<lparr>br_providers := bt_insert sample_pid
        \<lparr>rp_descriptor = sample_provider, rp_port = ([sample_response], [])\<rparr> bt_empty\<rparr>)"
proof -
  have ctx: "(action_context bridge5 sample_cid sample_sid :: (_, string channel_action_error) result)
      = Ok (sample_channel, agg_at_2, \<lparr>rp_descriptor = sample_provider, rp_port = ([], [])\<rparr>)"
    unfolding action_context_Ok using sample_subscribed
    by (simp add: bridge_samples br_channel_descriptor_def sample_view sample_defs)
  have "is_session_id sample_response = sample_sid" "is_request_id sample_response = InteractionId 4"
    by (simp_all add: sample_response_def)
  moreover have "validate_interaction_response sample_provider sample_channel sample_session sample_approval
      sample_response = Ok ()"
    by (simp add: validate_interaction_response_Ok validate_response_Ok sample_defs timely_def capability_eval)
  ultimately show ?thesis
    using ctx
    by (simp add: handle_interaction_response_def sample_view hand_to_provider_def rp_calls rp_handoff_def sample_pp_def)
      (simp add: bridge_samples sample_defs)
qed

theorem response_reaches_only_its_provider_witness:
  "is_subscribed bridge5 sample_cid (is_session_id sample_response)"
  using response_reaches_only_its_provider [OF sample_accepts_response] by auto

text \<open>(C8) A command reaches a Provider adapter only when its channel is registered and subscribed
  to the session and the router accepts it, which needs the remote-command capability; it then
  goes to the session's own Provider. In every other case nothing changes.\<close>

theorem command_reaches_only_its_provider:
  fixes pp :: "('p, 'x) provider_port"
  assumes step: "handle_command pp cid m b = (r, b')" and "b' \<noteq> b \<or> r = Ok ()"
  shows "\<exists>channel agg p.
     br_channel_descriptor b cid = Some channel \<and> is_subscribed b cid (cmd_session_id m)
     \<and> bt_get (br_sessions b) (cmd_session_id m) = Some agg
     \<and> bt_get (br_providers b) (ses_provider_id (agg_session agg)) = Some p
     \<and> validate_command (rp_descriptor p) channel (agg_session agg) m = Ok ()
     \<and> cc_contains (cd_capabilities channel) CC_REMOTE_COMMAND
     \<and> (let (res, port) = pp_accept_command pp (rp_port p) m
        in r = map_err (\<lambda>x. ProviderHandoff (ses_provider_id (agg_session agg)) HandoffCommand (Boxed x)) res
         \<and> b' = b\<lparr>br_providers := bt_insert (ses_provider_id (agg_session agg))
                    (p\<lparr>rp_port := port\<rparr>) (br_providers b)\<rparr>)"
proof (cases "action_context b cid (cmd_session_id m) :: (_, 'x channel_action_error) result")
  case (Inl x)
  with assms show ?thesis by (auto simp: handle_command_def)
next
  case (Inr ctx)
  obtain channel agg p where ctx: "ctx = (channel, agg, p)" by (cases ctx)
  note actx = Inr [unfolded ctx action_context_Ok]
  have valid: "validate_command (rp_descriptor p) channel (agg_session agg) m = Ok ()"
    using assms Inr ctx by (auto simp: handle_command_def split: sum.splits)
  have remote: "cc_contains (cd_capabilities channel) CC_REMOTE_COMMAND"
    using valid by (cases "cmd_payload m") (auto simp: validate_command_Ok ccap.contains_union)
  obtain res port where call: "pp_accept_command pp (rp_port p) m = (res, port)" by fastforce
  have "(r, b') = (map_err (\<lambda>x. ProviderHandoff (ses_provider_id (agg_session agg)) HandoffCommand (Boxed x)) res,
      b\<lparr>br_providers := bt_insert (ses_provider_id (agg_session agg)) (p\<lparr>rp_port := port\<rparr>) (br_providers b)\<rparr>)"
    using step Inr ctx valid call
    by (cases res) (auto simp: handle_command_def hand_to_provider_def rp_calls rp_handoff_def)
  with actx valid remote call show ?thesis by auto
qed

lemma sample_accepts_command:
  "fst (handle_command sample_pp sample_cid sample_command bridge5) = Ok ()"
proof -
  have ctx: "(action_context bridge5 sample_cid sample_sid :: (_, string channel_action_error) result)
      = Ok (sample_channel, agg_at_2, \<lparr>rp_descriptor = sample_provider, rp_port = ([], [])\<rparr>)"
    unfolding action_context_Ok using sample_subscribed
    by (simp add: bridge_samples br_channel_descriptor_def sample_view sample_defs)
  have "cmd_session_id sample_command = sample_sid" by (simp add: sample_command_def)
  moreover have "validate_command sample_provider sample_channel sample_session sample_command = Ok ()"
    by (simp add: validate_command_Ok sample_defs capability_eval)
  ultimately show ?thesis
    using ctx by (simp add: handle_command_def sample_view hand_to_provider_def rp_calls rp_handoff_def sample_pp_def)
qed

theorem command_reaches_only_its_provider_witness:
  "is_subscribed bridge5 sample_cid (cmd_session_id sample_command)"
proof -
  have "handle_command sample_pp sample_cid sample_command bridge5 =
      (Ok (), snd (handle_command sample_pp sample_cid sample_command bridge5))"
    using sample_accepts_command by (metis prod.collapse)
  from command_reaches_only_its_provider [OF this] show ?thesis by auto
qed

section \<open>Subscriptions\<close>

lemma subscribe_cases:
  fixes cp :: "('c, 'x) channel_port"
  assumes inv: "bridge_inv b" and ch: "bt_get (br_channels b) cid = Some ch"
    and agg: "bt_get (br_sessions b) sid = Some agg" and not_sub: "\<not> is_subscribed b cid sid"
  obtains pending where "map rir_request pending = bt_values (agg_pending_interactions agg)"
    and "subscribe cp cid sid b =
      (let view = cc_contains (cd_capabilities (rc_descriptor ch)) CC_SESSION_VIEW;
           outcome = Ok (Subscribed view (last_sequence agg) (length pending))
       in if view
          then (case rc_deliver_session_baseline cp ch \<lparr>csb_session = agg_session agg,
                  csb_sequence = last_sequence agg, csb_pending_interactions = pending\<rparr> of
                 (Err source, ch') \<Rightarrow> (Err (InitialSessionHandoff \<lparr>de_channel_id = cid,
                     de_delivery = DeliverySession, de_source = source\<rparr>), put_channel cid ch' b)
               | (Ok _, ch') \<Rightarrow> (outcome, activate_subscription cid sid (put_channel cid ch' b)))
          else (outcome, activate_subscription cid sid b))"
proof (rule session_okE [OF inv agg])
  fix p log
  assume p: "bt_get (br_providers b) (ses_provider_id (agg_session agg)) = Some p"
    and h: "history (br_session_config b) log agg" "valid_log (rp_descriptor p) (agg_session agg) log"
  obtain pend where pend: "(route_pending (rp_descriptor p) (rc_descriptor ch) (agg_session agg)
      (bt_values (agg_pending_interactions agg)) :: (_, 'x subscription_error) result) = Ok pend"
    "map rir_request pend = bt_values (agg_pending_interactions agg)"
    using baseline_total [OF h] by blast
  show thesis
    by (rule that [OF pend(2)])
      (simp add: subscribe_def ch agg not_sub p pend(1) put_channel_def Let_def split: prod.splits sum.splits)
qed

text \<open>\<open>subscribe\<close> refines adding one pair to the subscription relation: on success exactly
  that pair is present afterwards, on any error the relation is unchanged. In a consistent Bridge
  it fails only for an unknown channel, an unknown session, or a channel that refuses the initial
  view; a pending interaction never blocks it.\<close>

lemma subscribe_refines:
  fixes cp :: "('c, 'x) channel_port"
  assumes inv: "bridge_inv b" and step: "subscribe cp cid sid b = (r, b')"
  shows "(case r of
       Ok _ \<Rightarrow> subscription_rel b' = insert (cid, sid) (subscription_rel b)
     | Err x \<Rightarrow> subscription_rel b' = subscription_rel b
         \<and> (x = SubChannelNotFound cid \<or> x = SubSessionNotFound sid \<or>
            (\<exists>src. x = InitialSessionHandoff \<lparr>de_channel_id = cid, de_delivery = DeliverySession,
                de_source = src\<rparr>)))
    \<and> br_sessions b' = br_sessions b \<and> br_providers b' = br_providers b"
proof (cases "bt_get (br_channels b) cid")
  case None
  with step show ?thesis by (auto simp: subscribe_def)
next
  case (Some ch)
  show ?thesis
  proof (cases "bt_get (br_sessions b) sid")
    case None
    with step Some show ?thesis by (auto simp: subscribe_def)
  next
    case agg: (Some agg)
    show ?thesis
    proof (cases "is_subscribed b cid sid")
      case True
      with step Some agg show ?thesis by (auto simp: subscribe_def subscription_rel_def)
    next
      case False
      have put: "subscription_rel (put_channel cid c b) = subscription_rel b" for c
        by (simp add: subscription_rel_def)
      have keep: "br_sessions (activate_subscription cid sid x) = br_sessions x"
        "br_providers (activate_subscription cid sid x) = br_providers x"
        "br_providers (put_channel cid c x) = br_providers x" for x :: "('p, 'c) bridge" and c
        by (simp_all add: activate_subscription_def put_channel_def)
      show ?thesis
        by (rule subscribe_cases [OF inv Some agg False, where cp = cp])
          (use step in \<open>auto simp: Let_def activate_rel put keep split: if_splits prod.splits sum.splits\<close>)
    qed
  qed
qed

lemma shrinking_count:
  assumes inv: "bridge_inv b"
  shows "length (filter (\<lambda>channels. bs_contains channels cid) (bt_values (br_subscriptions b)))
    = card {sid. (cid, sid) \<in> subscription_rel b}"
proof -
  let ?P = "\<lambda>kv. bs_contains (snd kv) cid"
  have "length (filter (\<lambda>channels. bs_contains channels cid) (bt_values (br_subscriptions b)))
      = length (map fst (filter ?P (bt_entries (br_subscriptions b))))"
    by (simp add: bt_values_def filter_map comp_def)
  also have "\<dots> = card (set (map fst (filter ?P (bt_entries (br_subscriptions b)))))"
    using bt.keys_distinct [of "br_subscriptions b"] by (metis distinct_card distinct_map_filter)
  also have "set (map fst (filter ?P (bt_entries (br_subscriptions b)))) = {sid. (cid, sid) \<in> subscription_rel b}"
  proof (rule set_eqI)
    fix sid
    have "sid \<in> set (map fst (filter ?P (bt_entries (br_subscriptions b)))) \<longleftrightarrow>
        (\<exists>cs. (sid, cs) \<in> set (bt_entries (br_subscriptions b)) \<and> bs_contains cs cid)"
      by force
    then show "sid \<in> set (map fst (filter ?P (bt_entries (br_subscriptions b)))) \<longleftrightarrow>
        sid \<in> {sid. (cid, sid) \<in> subscription_rel b}"
      unfolding bt.entries_get by (auto simp: subscription_rel_def is_subscribed_def split: option.splits)
  qed
  finally show ?thesis .
qed

text \<open>\<open>unsubscribe_channel\<close> removes every subscription of the channel and no other, and
  returns how many there were.\<close>

lemma unsubscribe_channel_refines:
  assumes "bridge_inv b" and "unsubscribe_channel cid b = (Ok n, b')"
  shows "subscription_rel b' = {(c, s) \<in> subscription_rel b. c \<noteq> cid}
    \<and> n = card {sid. (cid, sid) \<in> subscription_rel b}"
  using assms unsubscribe_channel_rel [OF assms(2)] shrinking_count [OF assms(1)]
  by (auto simp: unsubscribe_channel_def split: if_splits)

section \<open>Catch-up\<close>

text \<open>A page of the catch-up is the next piece of the session's accepted log, routed for the
  channel: from a cursor the history covers it continues there, from any other cursor it restarts
  at zero and says so when the whole history is retained; it is final exactly when it reaches the
  end of the log; and routing it never fails.\<close>

lemma sync_page_is_next_piece:
  fixes b :: "('p, 'c) bridge"
  assumes inv: "bridge_inv b" and ch: "bt_get (br_channels b) cid = Some ch"
    and agg: "bt_get (br_sessions b) sid = Some agg" and not_sub: "\<not> is_subscribed b cid sid"
    and all: "cfg_retain_all_events (br_session_config b)"
  shows "\<exists>p sync. bt_get (br_providers b) (ses_provider_id (agg_session agg)) = Some p
    \<and> (prepare_sync cid (rp_descriptor p) (rc_descriptor ch) agg after n
         :: (_, 'x subscription_error) result) = Ok sync
    \<and> css_reset sync = (length (agg_recent_events agg) < unat after)
    \<and> page_of sync (agg_recent_events agg)
         (if length (agg_recent_events agg) < unat after then 0 else unat after) n"
proof (rule catching_upI [OF inv ch agg not_sub])
  fix p log assume up: "catching_up b cid sid ch agg p log"
  then have p: "bt_get (br_providers b) (ses_provider_id (agg_session agg)) = Some p"
    and h: "history (br_session_config b) log agg"
    by (simp_all add: catching_up_def)
  have log: "agg_recent_events agg = log" using history_window [OF h] all by (simp add: window_def)
  have cov: "covered (br_session_config b) log a \<longleftrightarrow> a \<le> length log" for a
    using all by (auto simp: covered_def evicted_def)
  show ?thesis
  proof (cases "length log < unat after")
    case True
    then obtain sync where "prepare_sync cid (rp_descriptor p) (rc_descriptor ch) agg after n
        = (Ok sync :: (_, 'x subscription_error) result)" "css_reset sync = True" "page_of sync log 0 n"
      using sync_restarts [OF up] cov by (metis le0 not_le)
    with p True show ?thesis by (auto simp: log)
  next
    case False
    then obtain sync where "prepare_sync cid (rp_descriptor p) (rc_descriptor ch) agg after n
        = (Ok sync :: (_, 'x subscription_error) result)" "css_reset sync = False" "page_of sync log (unat after) n"
      using sync_covered [OF up] cov by (metis not_le)
    with p False show ?thesis by (auto simp: log)
  qed
qed

text \<open>(C10) Catching up ends in a live subscription: a channel that accepts its pages and keeps
  asking after the last event it received is subscribed after at most one round more than the
  pages that remain, whatever page size it chose.\<close>

theorem catch_up_becomes_live:
  fixes cp :: "('c, 'x) channel_port"
  assumes inv: "bridge_inv b" and ch: "bt_get (br_channels b) cid = Some ch"
    and agg: "bt_get (br_sessions b) sid = Some agg"
    and all: "cfg_retain_all_events (br_session_config b)"
    and accepts: "\<forall>c sync. fst (cp_deliver_session_sync cp c sync) = Ok ()"
    and n: "0 < n" and after: "after \<le> last_sequence agg"
    and rounds: "(unat (last_sequence agg) - unat after) div n < rounds"
  shows "is_subscribed (catch_up cp cid sid n rounds after b) cid sid"
proof (cases "is_subscribed b cid sid")
  case True
  then show ?thesis using subscribed_catch_up [OF True inv n, where cp = cp] by simp
next
  case False
  show ?thesis
  proof (rule catching_upI [OF inv ch agg False])
    fix p log assume up: "catching_up b cid sid ch agg p log"
    then have h: "history (br_session_config b) log agg" by (simp add: catching_up_def)
    have last: "unat (last_sequence agg) = length log" by (rule history_last_sequence [OF h])
    then have le: "unat after \<le> length log" using after by (simp add: word_le_nat_alt)
    then have cov: "covered (br_session_config b) log (unat after)"
      using all by (auto simp: covered_def evicted_def)
    have "length log - unat after < n * rounds"
      using rounds n last by (metis div_less_iff_less_mult mult.commute)
    moreover have "0 < rounds" using rounds by simp
    ultimately show ?thesis
      using catch_up_subscribes [OF _ n inv up cov, of cp rounds] accepts by simp
  qed
qed

theorem catch_up_becomes_live_witness:
  "is_subscribed (catch_up sample_cp sample_cid sample_sid 5 1 0 live_bridge1) sample_cid sample_sid"
  by (rule catch_up_becomes_live [OF live_inv live_facts(1,2,4)])
    (simp_all add: sample_cp_def live_facts(6))

section \<open>Discovery\<close>

text \<open>A discovery snapshot lists every registered Provider and every session exactly once,
  in ascending order of their identifiers, each session with its current cursor.\<close>

lemma discovery_is_complete_and_ordered:
  assumes "bridge_inv b"
  shows "sorted_wrt (<) (map pd_id (disc_providers (discovery_snapshot b)))
    \<and> set (disc_providers (discovery_snapshot b)) = {d. \<exists>pid. br_provider_descriptor b pid = Some d}
    \<and> sorted_wrt (<) (map (\<lambda>d. ses_id (ds_session d)) (disc_sessions (discovery_snapshot b)))
    \<and> (\<forall>d. d \<in> set (disc_sessions (discovery_snapshot b)) \<longleftrightarrow>
         (\<exists>agg. bt_get (br_sessions b) (ses_id (ds_session d)) = Some agg
            \<and> d = \<lparr>ds_session = agg_session agg, ds_last_sequence = last_sequence agg\<rparr>))"
proof -
  have ids: "map pd_id (disc_providers (discovery_snapshot b)) = bt_keys (br_providers b)"
  proof -
    have "pd_id (rp_descriptor p) = k" if "(k, p) \<in> set (bt_entries (br_providers b))" for k p
    proof -
      have "br_provider_descriptor b k = Some (rp_descriptor p)"
        using that unfolding bt.entries_get by (simp add: br_provider_descriptor_def)
      with assms show ?thesis unfolding bridge_inv_def by blast
    qed
    then show ?thesis by (auto simp: discovery_snapshot_def bt_keys_def bt_values_def)
  qed
  have sids: "map (\<lambda>d. ses_id (ds_session d)) (disc_sessions (discovery_snapshot b)) = bt_keys (br_sessions b)"
  proof -
    have "ses_id (agg_session a) = k" if "(k, a) \<in> set (bt_entries (br_sessions b))" for k a
      using bridge_inv_session(2) [OF assms] that unfolding bt.entries_get by blast
    then show ?thesis by (auto simp: discovery_snapshot_def bt_keys_def bt_values_def)
  qed
  have "set (disc_providers (discovery_snapshot b)) = {d. \<exists>pid. br_provider_descriptor b pid = Some d}"
    by (auto simp: discovery_snapshot_def set_bt_values br_provider_descriptor_def)
  moreover have "d \<in> set (disc_sessions (discovery_snapshot b)) \<longleftrightarrow>
      (\<exists>agg. bt_get (br_sessions b) (ses_id (ds_session d)) = Some agg
        \<and> d = \<lparr>ds_session = agg_session agg, ds_last_sequence = last_sequence agg\<rparr>)" for d
  proof -
    have "d \<in> set (disc_sessions (discovery_snapshot b)) \<longleftrightarrow> (\<exists>k agg. bt_get (br_sessions b) k = Some agg
        \<and> d = \<lparr>ds_session = agg_session agg, ds_last_sequence = last_sequence agg\<rparr>)"
      by (auto simp: discovery_snapshot_def set_bt_values)
    also have "\<dots> \<longleftrightarrow> (\<exists>agg. bt_get (br_sessions b) (ses_id (ds_session d)) = Some agg
        \<and> d = \<lparr>ds_session = agg_session agg, ds_last_sequence = last_sequence agg\<rparr>)"
    proof
      assume "\<exists>k agg. bt_get (br_sessions b) k = Some agg
        \<and> d = \<lparr>ds_session = agg_session agg, ds_last_sequence = last_sequence agg\<rparr>"
      then obtain k agg where k: "bt_get (br_sessions b) k = Some agg"
        "d = \<lparr>ds_session = agg_session agg, ds_last_sequence = last_sequence agg\<rparr>" by blast
      then show "\<exists>agg. bt_get (br_sessions b) (ses_id (ds_session d)) = Some agg
          \<and> d = \<lparr>ds_session = agg_session agg, ds_last_sequence = last_sequence agg\<rparr>"
        using bridge_inv_session(2) [OF assms k(1)] by (intro exI [of _ agg]) simp
    qed blast
    finally show ?thesis .
  qed
  ultimately show ?thesis unfolding ids sids
    using bt_keys_ascending [of "br_providers b"] bt_keys_ascending [of "br_sessions b"] by auto
qed

end
