(* ===== verification/Interaction_Closure.thy ===== *)
theory Interaction_Closure
  imports Core_Properties Bridge_Properties
begin

text \<open>
  Who can take a request back (\<open>event.rs\<close>, \<open>routing.rs\<close>, \<open>bridge.rs\<close>): a closure needs the approval capability
  whatever was requested. The pending map of a Session is followed through the events that any Providers publish,
  and a request for user input of a Provider without that capability stays in it.
\<close>

section \<open>What an event does to a Session of the Bridge\<close>

text \<open>An accepted event replaces the Session it belongs to by its reduction; any other event changes no Session. The
  Providers stay.\<close>

lemma handle_event_sessions:
  fixes cp :: "('c, 'x) channel_port"
  assumes step: "handle_provider_event cp pid e b = (res, b')"
  shows "br_providers b' = br_providers b
    \<and> (br_sessions b' = br_sessions b
       \<or> (\<exists>p s agg'. bt_get (br_providers b) pid = Some p \<and> routing_session b e = Some s
            \<and> validate_provider_event (rp_descriptor p) s e = Ok () \<and> reduces_to b e agg'
            \<and> br_sessions b' = bt_insert (ev_session_id e) agg' (br_sessions b)))"
proof (cases "admit_event pid e b :: (_, 'x provider_event_error) result")
  case (Inl y)
  with step show ?thesis by (simp add: handle_provider_event_def)
next
  case (Inr routes)
  obtain r :: "(_, 'x provider_event_error) result" and b1 where red: "reduce_event e b = (r, b1)" by fastforce
  show ?thesis
  proof (cases "\<exists>reduced. r = Ok (Applied, reduced)")
    case True
    then obtain reduced where r: "r = Ok (Applied, reduced)" by blast
    obtain agg' where agg': "reduces_to b e agg'" "b1 = b\<lparr>br_sessions := bt_insert (ev_session_id e) agg' (br_sessions b)\<rparr>"
      using reduce_event_Applied [OF red [unfolded r]] by blast
    from handle_applied [OF Inr red [unfolded r] refl, where cp = cp] step
    have "bridge_frame b' = bridge_frame b1" "br_providers b' = br_providers b" by auto
    then show ?thesis using agg' Inr by (auto simp: bridge_frame_eq_iff admit_event_Ok)
  next
    case False
    have "b1 = b"
    proof (cases r)
      case (Inl x)
      with reduce_event_atomic red show ?thesis by blast
    next
      case (Inr out)
      with False have "fst out = AlreadyApplied" by (cases "fst out") (auto simp: prod_eq_iff)
      with red Inr show ?thesis
        by (auto simp: reduce_event_def Let_def apply_event_AlreadyApplied_iff bt_insert_same split: option.splits prod.splits sum.splits)
    qed
    with step Inr red False show ?thesis
      by (auto simp: handle_provider_event_def split: sum.splits prod.splits apply_outcome.splits)
  qed
qed

section \<open>Pending requests\<close>

text \<open>An event that settles request \<open>i\<close> of Session \<open>sid\<close> without a closure: the response to it, or the end of the Session.\<close>

definition settles :: "session_id \<Rightarrow> interaction_id \<Rightarrow> agent_event \<Rightarrow> bool" where
  "settles sid i e \<longleftrightarrow> ev_session_id e = sid \<and>
     (case ev_payload e of SessionEnded _ \<Rightarrow> True | InteractionResponded a \<Rightarrow> is_request_id a = i | _ \<Rightarrow> False)"

text \<open>Request \<open>r\<close> is pending in a Session of a Provider that may not publish a closure.\<close>

definition stuck_request :: "session_id \<Rightarrow> interaction_request \<Rightarrow> provider_id \<Rightarrow> ('p, 'c) bridge \<Rightarrow> bool" where
  "stuck_request sid r pid b \<longleftrightarrow>
     (\<exists>agg p. bt_get (br_sessions b) sid = Some agg \<and> bt_get (agg_pending_interactions agg) (ir_id r) = Some r
        \<and> ses_provider_id (agg_session agg) = pid \<and> bt_get (br_providers b) pid = Some p
        \<and> \<not> pc_contains (pd_capabilities (rp_descriptor p)) PC_APPROVAL_REQUEST)"

lemma stuck_request_stays:
  fixes cp :: "('c, 'x) channel_port"
  assumes inv: "bridge_inv b" and stuck: "stuck_request sid r pid b" and "\<not> settles sid (ir_id r) e"
    and step: "handle_provider_event cp pid' e b = (res, b')"
  shows "stuck_request sid r pid b'"
proof -
  obtain agg p where agg: "bt_get (br_sessions b) sid = Some agg" "bt_get (agg_pending_interactions agg) (ir_id r) = Some r"
    "ses_provider_id (agg_session agg) = pid" and p: "bt_get (br_providers b) pid = Some p"
    "\<not> pc_contains (pd_capabilities (rp_descriptor p)) PC_APPROVAL_REQUEST"
    using stuck by (auto simp: stuck_request_def)
  note sessions = handle_event_sessions [OF step]
  show ?thesis
  proof (cases "br_sessions b' = br_sessions b \<or> ev_session_id e \<noteq> sid")
    case True
    then have "bt_get (br_sessions b') sid = Some agg" using sessions agg(1) by auto
    with sessions agg p show ?thesis by (auto simp: stuck_request_def)
  next
    case False
    then obtain p' s agg' where e: "ev_session_id e = sid" "bt_get (br_providers b) pid' = Some p'" "routing_session b e = Some s"
      "validate_provider_event (rp_descriptor p') s e = Ok ()" "reduces_to b e agg'"
      "br_sessions b' = bt_insert sid agg' (br_sessions b)" using sessions by auto
    have s: "s = agg_session agg" and red: "apply_event agg e = (Ok Applied, agg')"
      using e agg(1) by (simp_all add: routing_session_def reduces_to_def)
    have "p' = p" using provider_of_valid_event(2) [OF inv e(2,4)] e(2) p(1) agg(3) s by simp
    then have "\<not> (\<exists>c. ev_payload e = InteractionClosed c)" using e(4) p(2) by (auto simp: validate_provider_event_Ok)
    then have "bt_get (agg_pending_interactions agg') (ir_id r) = Some r"
      using pending_interactions_refine [OF red] agg(2) assms(3) e(1)
      by (cases "ev_payload e") (auto simp: settles_def split: if_splits)
    moreover have "ses_provider_id (agg_session agg') = pid" using apply_event_frame [OF red] agg(3) by simp
    ultimately show ?thesis using e(6) sessions p by (auto simp: stuck_request_def)
  qed
qed

text \<open>The events of any Providers, published one after the other.\<close>

fun publish_all :: "('c, 'x) channel_port \<Rightarrow> (provider_id \<times> agent_event) list \<Rightarrow> ('p, 'c) bridge \<Rightarrow> ('p, 'c) bridge" where
  "publish_all cp [] b = b"
| "publish_all cp ((pid, e) # later) b = publish_all cp later (snd (handle_provider_event cp pid e b))"

lemma stuck_request_published:
  assumes "bridge_inv b" "stuck_request sid r pid b" "list_all (\<lambda>(_, e). wf_event e \<and> \<not> settles sid (ir_id r) e) later"
  shows "stuck_request sid r pid (publish_all cp later b) \<and> bridge_inv (publish_all cp later b)"
  using assms
proof (induction later arbitrary: b)
  case (Cons x later)
  obtain pid' e where x: "x = (pid', e)" by fastforce
  obtain res b' where step: "handle_provider_event cp pid' e b = (res, b')" by fastforce
  have e: "wf_event e" "\<not> settles sid (ir_id r) e" using Cons.prems(3) by (simp_all add: x)
  from Cons.IH [OF bridge_inv_handle_provider_event [OF Cons.prems(1) e(1) step] stuck_request_stays [OF Cons.prems(1,2) e(2) step]]
    Cons.prems(3) show ?case by (simp add: x step)
qed simp

lemma publish_all_providers: "br_providers (publish_all cp later b) = br_providers b"
proof (induction cp later b rule: publish_all.induct)
  case (2 cp pid e later b)
  have "br_providers (snd (handle_provider_event cp pid e b)) = br_providers b"
    using handle_event_sessions [OF prod.collapse [symmetric], of cp pid e b] by blast
  with 2 show ?case by simp
qed simp

lemma registered_provider_id:
  assumes "bridge_inv b" and "bt_get (br_providers b) pid = Some p"
  shows "pd_id (rp_descriptor p) = pid"
proof -
  have "br_provider_descriptor b pid = Some (rp_descriptor p)" using assms(2) by (simp add: br_provider_descriptor_def)
  with assms(1) show ?thesis by (auto simp: bridge_inv_def)
qed

lemma closure_refused:
  fixes cp :: "('c, 'x) channel_port"
  assumes inv: "bridge_inv b" and stuck: "stuck_request sid r pid b"
    and x: "ev_session_id x = sid" "ev_payload x = InteractionClosed closed" and p: "bt_get (br_providers b) pid = Some p"
  shows "handle_provider_event cp pid x b =
    (Err (EvCapabilityRoute (MissingProviderCapabilities PC_APPROVAL_REQUEST (pd_capabilities (rp_descriptor p)))), b)"
proof -
  obtain agg where agg: "bt_get (br_sessions b) sid = Some agg" "ses_provider_id (agg_session agg) = pid"
    "\<not> pc_contains (pd_capabilities (rp_descriptor p)) PC_APPROVAL_REQUEST"
    using stuck p by (auto simp: stuck_request_def)
  have "pd_id (rp_descriptor p) = pid" by (rule registered_provider_id [OF inv p])
  moreover have "ses_id (agg_session agg) = sid" by (rule bridge_inv_session(2) [OF inv agg(1)])
  ultimately have "validate_provider_event (rp_descriptor p) (agg_session agg) x =
      Err (MissingProviderCapabilities PC_APPROVAL_REQUEST (pd_capabilities (rp_descriptor p)))"
    using agg x by (simp add: validate_provider_event_def validate_provider_session_def validate_session_id_def
        validate_provider_capabilities_def Let_def)
  with agg(1) x p show ?thesis by (simp add: handle_provider_event_def admit_event_def routing_session_def)
qed

text \<open>A request for user input of a Provider without approval is applied, and is stuck from then on.\<close>

lemma input_request_applied:
  fixes cp :: "('c, 'x) channel_port"
  assumes inv: "bridge_inv b" and wf: "wf_event e" and p: "bt_get (br_providers b) pid = Some p"
    and input: "pc_contains (pd_capabilities (rp_descriptor p)) PC_USER_INPUT_REQUEST"
    and no_approval: "\<not> pc_contains (pd_capabilities (rp_descriptor p)) PC_APPROVAL_REQUEST"
    and s: "routing_session b e = Some s" "ses_provider_id s = pid"
    and request: "ev_payload e = InteractionRequested r" "\<forall>approval. ir_payload r \<noteq> ApprovalRequested approval"
    and red: "reduces_to b e agg'"
  obtains report b' where "rep_outcome report = EventApplied"
    and "handle_provider_event cp pid e b = ((if has_failures report then Err (ChannelHandoffs report) else Ok report), b')"
    and "bridge_inv b'" and "stuck_request (ev_session_id e) r pid b'" and "br_providers b' = br_providers b"
proof -
  let ?sid = "ev_session_id e"
  obtain agg where agg: "bt_get (br_sessions b) ?sid = Some agg" "s = agg_session agg"
    using s(1) request(1) by (auto simp: routing_session_def split: option.splits)
  have ids: "pd_id (rp_descriptor p) = pid" "ses_id s = ?sid"
    using registered_provider_id [OF inv p] bridge_inv_session(2) [OF inv agg(1)] agg(2) by simp_all
  have "required_provider_request_capability (ir_payload r) = PC_USER_INPUT_REQUEST"
    using request(2) by (cases "ir_payload r") simp_all
  then have valid: "validate_provider_event (rp_descriptor p) s e = Ok ()"
    using ids s(2) input request(1) by (simp add: validate_provider_event_Ok)
  obtain routes where adm: "(admit_event pid e b :: (_, 'x provider_event_error) result) = Ok routes"
    using admit_total [OF inv wf p s(1) valid] by blast
  define b1 where "b1 = b\<lparr>br_sessions := bt_insert ?sid agg' (br_sessions b)\<rparr>"
  define v where "v = (if list_ex (\<lambda>(_, _, ds). ds) routes then Some (agg_session agg') else None)"
  define report where "report = \<lparr>rep_outcome = EventApplied, rep_deliveries = map (fst \<circ> target_result cp e v b1) routes\<rparr>"
  have "reduce_event e b = ((Ok (Applied, agg_session agg') :: (_, 'x provider_event_error) result), b1)"
    using red by (simp add: reduces_to_def reduce_event_def b1_def split: option.splits)
  from handle_applied [OF adm this v_def, where cp = cp] obtain b'
    where step: "handle_provider_event cp pid e b = ((if has_failures report then Err (ChannelHandoffs report) else Ok report), b')"
      and frame: "bridge_frame b' = bridge_frame b1" and b': "br_providers b' = br_providers b"
    unfolding report_def [symmetric] Let_def by blast
  have out: "rep_outcome report = EventApplied" by (simp add: report_def)
  have sessions: "br_sessions b' = bt_insert ?sid agg' (br_sessions b)" using frame by (simp add: bridge_frame_eq_iff b1_def)
  have ap: "apply_event agg e = (Ok Applied, agg')" using red agg(1) by (simp add: reduces_to_def)
  have "bt_get (agg_pending_interactions agg') (ir_id r) = Some r" using pending_interactions_refine [OF ap] request(1) by simp
  moreover have "ses_provider_id (agg_session agg') = pid" using apply_event_frame [OF ap] s(2) agg(2) by simp
  ultimately have stuck: "stuck_request ?sid r pid b'" using b' sessions p no_approval by (simp add: stuck_request_def)
  have inv': "bridge_inv b'" by (rule bridge_inv_handle_provider_event [OF inv wf step])
  show thesis by (rule that [OF out step inv' stuck b'])
qed

text \<open>(C38) A Provider that declares user input without approval cannot take a question back. The Bridge applies its
  choice, text or form request and the request is pending. From then on, whatever events any Providers publish, the
  request stays pending unless it is answered or the Session ends; and at any such point every closure that the
  Provider publishes in the Session is refused with the missing approval capability, and changes nothing.\<close>

theorem input_only_provider_cannot_close:
  fixes cp :: "('c, 'x) channel_port"
  assumes inv: "bridge_inv b" and wf: "wf_event e" and p: "bt_get (br_providers b) pid = Some p"
    and input: "pc_contains (pd_capabilities (rp_descriptor p)) PC_USER_INPUT_REQUEST"
    and no_approval: "\<not> pc_contains (pd_capabilities (rp_descriptor p)) PC_APPROVAL_REQUEST"
    and s: "routing_session b e = Some s" "ses_provider_id s = pid"
    and request: "ev_payload e = InteractionRequested r" "\<forall>approval. ir_payload r \<noteq> ApprovalRequested approval"
    and red: "reduces_to b e agg'"
  shows "\<exists>report b'. rep_outcome report = EventApplied
    \<and> handle_provider_event cp pid e b = ((if has_failures report then Err (ChannelHandoffs report) else Ok report), b')
    \<and> (\<forall>later. list_all (\<lambda>(_, x). wf_event x \<and> \<not> settles (ev_session_id e) (ir_id r) x) later \<longrightarrow>
         (\<exists>agg. bt_get (br_sessions (publish_all cp later b')) (ev_session_id e) = Some agg
            \<and> bt_get (agg_pending_interactions agg) (ir_id r) = Some r)
         \<and> (\<forall>x closed. ev_session_id x = ev_session_id e \<and> ev_payload x = InteractionClosed closed \<longrightarrow>
              handle_provider_event cp pid x (publish_all cp later b') =
                (Err (EvCapabilityRoute (MissingProviderCapabilities PC_APPROVAL_REQUEST (pd_capabilities (rp_descriptor p)))),
                 publish_all cp later b')))"
proof -
  let ?sid = "ev_session_id e"
  obtain report b' where out: "rep_outcome report = EventApplied"
    and step: "handle_provider_event cp pid e b = ((if has_failures report then Err (ChannelHandoffs report) else Ok report), b')"
    and inv': "bridge_inv b'" and stuck: "stuck_request ?sid r pid b'" and b': "br_providers b' = br_providers b"
    by (rule input_request_applied [OF assms, where cp = cp])
  show ?thesis
  proof (rule exI [of _ report], rule exI [of _ b'], intro conjI allI impI)
    fix later :: "(provider_id \<times> agent_event) list"
    assume later: "list_all (\<lambda>(_, x). wf_event x \<and> \<not> settles ?sid (ir_id r) x) later"
    note then_stuck = stuck_request_published [OF inv' stuck later, of cp]
    then show "\<exists>agg. bt_get (br_sessions (publish_all cp later b')) ?sid = Some agg
        \<and> bt_get (agg_pending_interactions agg) (ir_id r) = Some r"
      by (auto simp: stuck_request_def)
    fix x :: agent_event and closed :: interaction_closed
    assume x: "ev_session_id x = ?sid \<and> ev_payload x = InteractionClosed closed"
    have "bt_get (br_providers (publish_all cp later b')) pid = Some p" using b' p by (simp add: publish_all_providers)
    with closure_refused then_stuck x show "handle_provider_event cp pid x (publish_all cp later b') =
        (Err (EvCapabilityRoute (MissingProviderCapabilities PC_APPROVAL_REQUEST (pd_capabilities (rp_descriptor p)))),
         publish_all cp later b')" by blast
  qed (rule out, rule step)
qed

definition input_provider :: provider_descriptor where
  "input_provider = sample_provider\<lparr>pd_capabilities := pc_union PC_SESSION_STATE PC_USER_INPUT_REQUEST\<rparr>"

definition input_pp :: "(sample_p, string) provider_port" where
  "input_pp = sample_pp\<lparr>pp_descriptor := \<lambda>_. input_provider\<rparr>"

definition input_request :: interaction_request where
  "input_request = InteractionRequest_new (InteractionId 4) sample_sid 20 sample_text (TextRequested (TextInputRequest_new False))"

definition input_event :: agent_event where
  "input_event = sample_event 2 (InteractionRequested input_request)"

definition closing_event :: agent_event where
  "closing_event = sample_event 3 (InteractionClosed \<lparr>ic_request_id = InteractionId 4, ic_session_id = sample_sid,
     ic_reason = ProviderCancelled\<rparr>)"

definition input_bridge :: "(sample_p, sample_c) bridge" where
  "input_bridge = bridge0\<lparr>br_providers := bt_insert sample_pid \<lparr>rp_descriptor = input_provider, rp_port = ([], [])\<rparr> bt_empty,
     br_sessions := bt_insert sample_sid agg_at_1 bt_empty\<rparr>"

lemma input_capabilities:
  "pc_contains (pd_capabilities input_provider) PC_SESSION_STATE"
  "pc_contains (pd_capabilities input_provider) PC_USER_INPUT_REQUEST"
  "\<not> pc_contains (pd_capabilities input_provider) PC_APPROVAL_REQUEST"
  by (simp_all add: input_provider_def capability_eval)

lemma input_bridge_inv: "bridge_inv input_bridge"
proof -
  let ?b1 = "bridge0\<lparr>br_providers := bt_insert sample_pid \<lparr>rp_descriptor = input_provider, rp_port = ([], [])\<rparr> bt_empty\<rparr>"
  have id: "pd_id input_provider = sample_pid" by (simp add: input_provider_def sample_provider_def ProviderDescriptor_new_def)
  then have "register_provider input_pp ([], []) bridge0 = (Ok (), ?b1)"
    by (simp add: register_provider_def bridge_samples input_pp_def bt_contains_key_def)
  moreover have "bridge_inv bridge0" unfolding bridge0_def by (rule bridge_inv_initial)
  ultimately have inv: "bridge_inv ?b1" by (rule bridge_inv_register_provider [rotated])
  have "validate_provider_event input_provider sample_session event1 = Ok ()"
    using id input_capabilities(1) by (simp add: validate_provider_event_Ok sample_session_def session_builder_def)
  then have "(admit_event sample_pid event1 ?b1 :: (_, string provider_event_error) result) = Ok []"
    by (simp add: admit_event_def bridge_samples routing_session_def session_subscribers_def)
  moreover have "reduce_event event1 ?b1 = ((Ok (Applied, sample_session) :: (_, string provider_event_error) result), input_bridge)"
    using sample_start by (simp add: reduce_event_def bridge_samples input_bridge_def) (simp add: agg_at_1_def)
  ultimately have "handle_provider_event sample_cp sample_pid event1 ?b1
      = (Ok \<lparr>rep_outcome = EventApplied, rep_deliveries = []\<rparr>, input_bridge)"
    by (simp add: handle_provider_event_def has_failures_def)
  then show ?thesis by (rule bridge_inv_handle_provider_event [OF inv wf_sample_events(1)])
qed

lemma input_event_facts:
  "wf_event input_event" "ev_payload input_event = InteractionRequested input_request" "ev_session_id input_event = sample_sid"
  "wf_event closing_event" "ev_session_id closing_event = sample_sid" "\<not> settles sample_sid i closing_event"
  by (simp_all add: input_event_def closing_event_def sample_event_def settles_def wf_event_def wf_request_def input_request_def
      InteractionRequest_new_def TextInputRequest_new_def)

lemma input_applies: "\<exists>agg'. apply_event agg_at_1 input_event = (Ok Applied, agg')"
  by (simp add: apply_event_def validate_cursor_def agg_at_1_def sample_defs input_event_def input_request_def
      checked_next_def bt_contains_key_def record_event_def pop_front_to.simps counter_FIRST_def)

theorem input_only_provider_cannot_close_witness:
  "\<exists>report b' agg. rep_outcome report = EventApplied
     \<and> handle_provider_event sample_cp sample_pid input_event input_bridge
         = ((if has_failures report then Err (ChannelHandoffs report) else Ok report), b')
     \<and> handle_provider_event sample_cp sample_pid closing_event b'
         = (Err (EvCapabilityRoute (MissingProviderCapabilities PC_APPROVAL_REQUEST (pd_capabilities input_provider))), b')
     \<and> bt_get (br_sessions (publish_all sample_cp [(sample_pid, closing_event)] b')) sample_sid = Some agg
     \<and> bt_get (agg_pending_interactions agg) (InteractionId 4) = Some input_request"
proof -
  obtain agg' where "apply_event agg_at_1 input_event = (Ok Applied, agg')" using input_applies by blast
  then have red: "reduces_to input_bridge input_event agg'" by (simp add: reduces_to_def input_event_facts input_bridge_def)
  have p: "bt_get (br_providers input_bridge) sample_pid = Some \<lparr>rp_descriptor = input_provider, rp_port = ([], [])\<rparr>"
    and s: "routing_session input_bridge input_event = Some sample_session" "ses_provider_id sample_session = sample_pid"
    and kind: "\<forall>approval. ir_payload input_request \<noteq> ApprovalRequested approval" and id: "ir_id input_request = InteractionId 4"
    and closing: "\<exists>c. ev_payload closing_event = InteractionClosed c"
    by (simp_all add: input_bridge_def routing_session_def input_event_facts sample_view sample_session_def session_builder_def
        input_request_def InteractionRequest_new_def closing_event_def sample_event_def)
  from input_only_provider_cannot_close [OF input_bridge_inv input_event_facts(1) p _ _ s input_event_facts(2) kind red, where cp = sample_cp]
  obtain report b' where out: "rep_outcome report = EventApplied"
    "handle_provider_event sample_cp sample_pid input_event input_bridge
       = ((if has_failures report then Err (ChannelHandoffs report) else Ok report), b')"
    and later: "\<And>later. list_all (\<lambda>(_, x). wf_event x \<and> \<not> settles sample_sid (InteractionId 4) x) later \<Longrightarrow>
      (\<exists>agg. bt_get (br_sessions (publish_all sample_cp later b')) sample_sid = Some agg
         \<and> bt_get (agg_pending_interactions agg) (InteractionId 4) = Some input_request)
      \<and> (\<forall>x closed. ev_session_id x = sample_sid \<and> ev_payload x = InteractionClosed closed \<longrightarrow>
           handle_provider_event sample_cp sample_pid x (publish_all sample_cp later b') =
             (Err (EvCapabilityRoute (MissingProviderCapabilities PC_APPROVAL_REQUEST (pd_capabilities input_provider))),
              publish_all sample_cp later b'))"
    using input_capabilities(2,3) by (auto simp: input_event_facts(3) id)
  from later [of "[]"] closing input_event_facts(5)
  have "handle_provider_event sample_cp sample_pid closing_event b'
      = (Err (EvCapabilityRoute (MissingProviderCapabilities PC_APPROVAL_REQUEST (pd_capabilities input_provider))), b')" by auto
  with out later [of "[(sample_pid, closing_event)]"] input_event_facts(4,6) show ?thesis by auto
qed

end
