(* ===== verification/Wire_Scalar.thy ===== *)
theory Wire_Scalar
  imports Values
begin

text \<open>
  JSON scalars that do not fit a native JSON number (\<open>scalar.rs\<close>): a 64-bit counter
  travels as its canonical decimal string. \<open>decimal\<close> is the standard library's
  \<open>Display\<close> of an unsigned integer and \<open>u64_from_str\<close> its \<open>u64::from_str\<close> on a
  non-empty string of digits; \<open>deserialize\<close> is the visitor around it.
\<close>

section \<open>Decimal numerals\<close>

definition digit_char :: "nat \<Rightarrow> nat" where
  "digit_char d = 48 + d"

definition digit_value :: "nat \<Rightarrow> nat" where
  "digit_value c = c - 48"

fun decimal :: "nat \<Rightarrow> ustring" where
  "decimal n = (if n < 10 then [digit_char n] else decimal (n div 10) @ [digit_char (n mod 10)])"

declare decimal.simps [simp del]

definition decimal_value :: "ustring \<Rightarrow> nat" where
  "decimal_value cs = foldl (\<lambda>acc c. 10 * acc + digit_value c) 0 cs"

lemma digit_char [simp]:
  "d < 10 \<Longrightarrow> is_ascii_digit (digit_char d)" "digit_value (digit_char d) = d"
  by (simp_all add: is_ascii_digit_def digit_char_def digit_value_def)

lemma digit_char_value: "is_ascii_digit c \<Longrightarrow> digit_char (digit_value c) = c \<and> digit_value c < 10"
  by (auto simp: is_ascii_digit_def digit_char_def digit_value_def)

lemma decimal_value_snoc [simp]: "decimal_value (cs @ [c]) = 10 * decimal_value cs + digit_value c"
  by (simp add: decimal_value_def)

lemma decimal_value_decimal [simp]: "decimal_value (decimal n) = n"
proof (induction n rule: decimal.induct)
  case (1 n)
  then show ?case
    by (cases "n < 10") (simp_all add: decimal.simps [of n] decimal_value_def [of "[_]"])
qed

lemma decimal_nonempty [simp]: "decimal n \<noteq> []"
  by (simp add: decimal.simps [of n])

lemma decimal_digits: "\<forall>c \<in> set (decimal n). is_ascii_digit c"
proof (induction n rule: decimal.induct)
  case (1 n)
  then show ?case by (cases "n < 10") (auto simp: decimal.simps [of n])
qed

text \<open>No sign, no blank and no leading zero: the numerals that name each number once.\<close>

definition canonical_decimal :: "ustring \<Rightarrow> bool" where
  "canonical_decimal cs \<longleftrightarrow>
     cs \<noteq> [] \<and> (\<forall>c \<in> set cs. is_ascii_digit c) \<and> \<not> (length cs > 1 \<and> hd cs = 48)"

lemma decimal_hd: "0 < n \<Longrightarrow> hd (decimal n) \<noteq> 48"
proof (induction n rule: decimal.induct)
  case (1 n)
  then show ?case
    by (cases "n < 10") (auto simp: decimal.simps [of n] digit_char_def hd_append)
qed

lemma canonical_decimal_decimal [simp]: "canonical_decimal (decimal n)"
proof (cases "n = 0")
  case True
  then show ?thesis by (simp add: canonical_decimal_def decimal.simps [of 0] digit_char_def is_ascii_digit_def)
next
  case False
  with decimal_hd [of n] show ?thesis by (simp add: canonical_decimal_def decimal_digits)
qed

lemma decimal_value_pos: "canonical_decimal cs \<Longrightarrow> hd cs \<noteq> 48 \<Longrightarrow> 0 < decimal_value cs"
proof (induction cs rule: rev_induct)
  case (snoc c cs)
  show ?case
  proof (cases "cs = []")
    case True
    with snoc.prems have "is_ascii_digit c" "c \<noteq> 48" by (auto simp: canonical_decimal_def)
    with True show ?thesis by (auto simp: decimal_value_def digit_value_def is_ascii_digit_def)
  next
    case False
    with snoc.prems have "canonical_decimal cs" "hd cs \<noteq> 48" by (auto simp: canonical_decimal_def)
    with snoc.IH show ?thesis by simp
  qed
qed (simp add: canonical_decimal_def)

lemma decimal_decimal_value: "canonical_decimal cs \<Longrightarrow> decimal (decimal_value cs) = cs"
proof (induction cs rule: rev_induct)
  case (snoc c cs)
  then have c: "digit_char (digit_value c) = c" "digit_value c < 10"
    using digit_char_value by (auto simp: canonical_decimal_def)
  show ?case
  proof (cases "cs = []")
    case True
    with c show ?thesis by (simp add: decimal_value_def decimal.simps [of "digit_value c"])
  next
    case False
    with snoc.prems have cs: "canonical_decimal cs" "hd cs \<noteq> 48"
      by (cases cs; auto simp: canonical_decimal_def)+
    then have "0 < decimal_value cs" by (rule decimal_value_pos)
    with c snoc.IH [OF cs(1)] show ?thesis
      by (simp add: decimal.simps [of "10 * decimal_value cs + digit_value c"])
  qed
qed (simp add: canonical_decimal_def)

section \<open>The wire form of a counter\<close>

datatype decimal_u64 = DecimalU64 (get_u64: u64)

datatype scalar_error = NonCanonicalDecimal | DecimalOverflow

definition serialize_decimal :: "decimal_u64 \<Rightarrow> ustring" where
  "serialize_decimal value = decimal (unat (get_u64 value))"

definition u64_from_str :: "ustring \<Rightarrow> (u64, scalar_error) result" where
  "u64_from_str value =
     (if decimal_value value < 2 ^ 64 then Ok (of_nat (decimal_value value)) else Err DecimalOverflow)"

definition deserialize_decimal :: "ustring \<Rightarrow> (decimal_u64, scalar_error) result" where
  "deserialize_decimal value =
     (if value = [] \<or> \<not> list_all is_ascii_digit value \<or> (length value > 1 \<and> hd value = 48)
      then Err NonCanonicalDecimal
      else and_then (u64_from_str value) (\<lambda>v. Ok (DecimalU64 v)))"

lemma deserialize_decimal_Ok_iff [result_simps]:
  "deserialize_decimal s = Ok v \<longleftrightarrow> s = serialize_decimal v"
proof
  assume ok: "deserialize_decimal s = Ok v"
  then have can: "canonical_decimal s" and lt: "decimal_value s < 2 ^ 64"
    and v: "v = DecimalU64 (of_nat (decimal_value s))"
    by (auto simp: deserialize_decimal_def u64_from_str_def canonical_decimal_def list_all_iff
        result_simps split: if_splits)
  from lt have "unat (of_nat (decimal_value s) :: u64) = decimal_value s"
    by (simp add: unat_of_nat)
  with can v show "s = serialize_decimal v"
    by (simp add: serialize_decimal_def decimal_decimal_value)
next
  assume s: "s = serialize_decimal v"
  have "canonical_decimal s" by (simp add: s serialize_decimal_def)
  moreover have "unat (get_u64 v) < 2 ^ 64"
    using unsigned_less [of "get_u64 v", where 'a = nat] by simp
  ultimately show "deserialize_decimal s = Ok v"
    by (auto simp: deserialize_decimal_def u64_from_str_def canonical_decimal_def list_all_iff s
        serialize_decimal_def)
qed

end
