(* ===== verification/Wire_Types.thy ===== *)
theory Wire_Types
  imports Wire_Scalar Session_Event
begin

text \<open>
  The data of the wire protocol: the semantic messages (\<open>message.rs\<close>), the protocol errors
  (\<open>error.rs\<close>) and the private DTOs of JSON version 2 (\<open>v2/dto.rs\<close>). A DTO field
  holds what the JSON holds: strings for identifiers, text and times, \<open>decimal_u64\<close> for
  counters, lists and options as they are. The text of a foreign error is kept as a string.
\<close>

section \<open>Messages and errors\<close>

definition V2_PROTOCOL_VERSION :: u16 where
  "V2_PROTOCOL_VERSION = 2"

datatype protocol_message =
    ProviderDescriptorMessage provider_descriptor
  | ChannelDescriptorMessage channel_descriptor
  | AgentSessionMessage agent_session
  | AgentEventMessage agent_event
  | InteractionRequestMessage interaction_request
  | InteractionResponseMessage interaction_response
  | AgentCommandMessage agent_command

datatype protocol_error =
    JsonEncode ustring
  | JsonDecode ustring
  | UnsupportedProtocolVersion u64 u16
  | InvalidWireValue string ustring
  | DomainViolation domain_error
  | UnsupportedDomainVariant string

section \<open>Endpoints\<close>

datatype provider_capability_dto =
    PSessionState | PToolEvents | PPlan | PProgress | PApprovalRequest | PApprovalResponse
  | PUserInputRequest | PUserInputResponse | PPromptSubmit | PCancel | PControl

record provider_descriptor_dto =
  pdd_id :: ustring
  pdd_kind :: ustring
  pdd_display_name :: ustring
  pdd_version :: "ustring option"
  pdd_capabilities :: "provider_capability_dto list"

datatype channel_capability_dto =
    CNotification | CSessionView | CToolView | CPlanView | CProgressView | CRichMessage
  | CApproval | CChoiceInput | CTextInput | CFormInput | CRealtimeSync | CRemoteCommand

record channel_descriptor_dto =
  cdd_id :: ustring
  cdd_kind :: ustring
  cdd_display_name :: ustring
  cdd_version :: "ustring option"
  cdd_capabilities :: "channel_capability_dto list"

section \<open>Sessions\<close>

record workspace_ref_dto =
  wsd_path :: ustring
  wsd_display_name :: "ustring option"

datatype agent_state_dto =
    InitializingDto | IdleDto | RunningDto | WaitingForInteractionDto | CompletedDto | FailedDto
  | CancelledDto

datatype connection_state_dto = ConnectedDto | ReconnectingDto | DisconnectedDto

record agent_session_dto =
  sd_id :: ustring
  sd_provider_id :: ustring
  sd_external_id :: "ustring option"
  sd_title :: "ustring option"
  sd_workspace :: "workspace_ref_dto option"
  sd_state :: agent_state_dto
  sd_connection_state :: connection_state_dto
  sd_revision :: decimal_u64
  sd_created_at :: ustring
  sd_updated_at :: ustring

section \<open>Messages, tools and outcomes\<close>

datatype agent_message_role_dto = UserDto | AssistantDto | SystemDto

datatype agent_message_level_dto = InfoDto | WarningDto | ErrorDto

record agent_message_dto =
  amd_role :: agent_message_role_dto
  amd_level :: agent_message_level_dto
  amd_content :: ustring

datatype tool_outcome_dto = ToolSucceededDto | ToolFailedDto | ToolCancelledDto

datatype tool_activity_dto =
    ToolStartedDto ustring ustring "ustring option"
  | ToolFinishedDto ustring tool_outcome_dto "ustring option"

datatype session_outcome_dto =
    OutcomeCompletedDto "ustring option"
  | OutcomeFailedDto ustring
  | OutcomeCancelledDto "ustring option"

section \<open>Plans and progress\<close>

datatype plan_item_status_dto =
    PlanPendingDto | PlanInProgressDto | PlanCompletedDto | PlanBlockedDto | PlanSkippedDto

record plan_item_dto =
  pid_id :: ustring
  pid_content :: ustring
  pid_status :: plan_item_status_dto

record plan_snapshot_dto =
  psd_revision :: decimal_u64
  psd_explanation :: "ustring option"
  psd_items :: "plan_item_dto list"

datatype progress_value_dto = IndeterminateDto | DeterminateDto decimal_u64 decimal_u64

record progress_snapshot_dto =
  prd_revision :: decimal_u64
  prd_value :: progress_value_dto
  prd_message :: "ustring option"

section \<open>Interactions\<close>

datatype approval_command_kind_dto = NewCommandDto | WriteStdinDto

record approval_network_context_dto =
  ancd_host :: ustring
  ancd_protocol :: ustring

datatype approval_file_change_kind_dto = FileAddDto | FileDeleteDto | FileUpdateDto

record approval_file_change_dto =
  afcd_path :: ustring
  afcd_kind :: approval_file_change_kind_dto
  afcd_diff :: ustring

datatype approval_subject_dto =
    CommandSubjectDto approval_command_kind_dto "ustring option" "ustring option" "ustring option"
      "approval_network_context_dto option"
  | FileChangeSubjectDto "approval_file_change_dto list" "ustring option" "ustring option"

datatype approval_disposition_dto = ApproveDto | RejectDto | CancelDto

record approval_option_dto =
  aod_id :: ustring
  aod_disposition :: approval_disposition_dto
  aod_label :: ustring
  aod_description :: "ustring option"

record choice_option_dto =
  cod_id :: ustring
  cod_label :: ustring
  cod_description :: "ustring option"

record form_field_dto =
  ffd_id :: ustring
  ffd_header :: ustring
  ffd_prompt :: ustring
  ffd_options :: "choice_option_dto list"
  ffd_allows_other :: bool
  ffd_sensitive :: bool

datatype interaction_request_payload_dto =
    ApprovalDto approval_subject_dto "approval_option_dto list" "ustring option"
  | ChoiceDto "choice_option_dto list" bool
  | TextDto "ustring option" bool
  | FormDto "form_field_dto list" bool

record interaction_request_dto =
  ird_id :: ustring
  ird_session_id :: ustring
  ird_requested_at :: ustring
  ird_expires_at :: "ustring option"
  ird_prompt :: ustring
  ird_payload :: interaction_request_payload_dto

datatype form_answer_value_dto = AnswerChoiceDto ustring | AnswerTextDto ustring

record form_answer_dto =
  fad_field_id :: ustring
  fad_value :: form_answer_value_dto

datatype interaction_response_payload_dto =
    ApprovalAnswerDto ustring
  | ChoiceAnswerDto "ustring list"
  | TextAnswerDto ustring
  | FormAnswersDto "form_answer_dto list"

record interaction_response_dto =
  isd_request_id :: ustring
  isd_session_id :: ustring
  isd_channel_id :: ustring
  isd_responded_at :: ustring
  isd_payload :: interaction_response_payload_dto

datatype interaction_close_reason_dto = ResolvedElsewhereDto | ProviderCancelledDto

record interaction_closed_dto =
  icd_request_id :: ustring
  icd_session_id :: ustring
  icd_reason :: interaction_close_reason_dto

section \<open>Commands\<close>

datatype prompt_delivery_dto = DeliverQueueDto | DeliverSteerDto

datatype queue_action_dto = QueuePauseDto | QueueResumeDto | QueueClearDto

datatype agent_command_payload_dto =
    SubmitPromptDto ustring prompt_delivery_dto
  | CancelSessionDto "ustring option"
  | ListModelsDto
  | SelectModelDto ustring "ustring option"
  | SetPlanModeDto bool
  | ListThreadsDto "ustring option"
  | ResumeThreadDto ustring
  | StartThreadDto ustring
  | CompactDto
  | ReviewDto "ustring option"
  | RenameDto ustring
  | ForkDto
  | StatusDto
  | ListPermissionProfilesDto
  | SelectPermissionProfileDto ustring
  | QueueDto queue_action_dto

record agent_command_dto =
  acd_id :: ustring
  acd_session_id :: ustring
  acd_channel_id :: ustring
  acd_issued_at :: ustring
  acd_payload :: agent_command_payload_dto

section \<open>Events and the envelope\<close>

datatype agent_event_payload_dto =
    SessionStartedDto agent_session_dto
  | StateChangedDto agent_state_dto
  | ConnectionChangedDto connection_state_dto
  | MessageDto agent_message_dto
  | ToolActivityDto tool_activity_dto
  | PlanUpdatedDto plan_snapshot_dto
  | ProgressUpdatedDto progress_snapshot_dto
  | InteractionRequestedDto interaction_request_dto
  | InteractionRespondedDto interaction_response_dto
  | InteractionClosedDto interaction_closed_dto
  | CommandIssuedDto agent_command_dto
  | SessionEndedDto session_outcome_dto

record agent_event_dto =
  aed_id :: ustring
  aed_session_id :: ustring
  aed_sequence :: decimal_u64
  aed_occurred_at :: ustring
  aed_payload :: agent_event_payload_dto

datatype message_dto =
    ProviderDescriptorDtoMessage provider_descriptor_dto
  | ChannelDescriptorDtoMessage channel_descriptor_dto
  | AgentSessionDtoMessage agent_session_dto
  | AgentEventDtoMessage agent_event_dto
  | InteractionRequestDtoMessage interaction_request_dto
  | InteractionResponseDtoMessage interaction_response_dto
  | AgentCommandDtoMessage agent_command_dto

record envelope_dto =
  env_protocol_version :: u16
  env_message :: message_dto

section \<open>Foreign code\<close>

text \<open>
  What the conversion calls in other crates: the display, parser and version of a UUID
  (\<open>uuid\<close>), and RFC 3339 formatting and parsing (\<open>time\<close>), both fallible with an
  error that is shown. \<open>wire_laws\<close> states the documented behaviour the protocol relies on:
  the printed form of a UUID parses back to it, and a formatted time parses back to the same
  instant.
\<close>

record wire_env =
  we_uuid_show :: "uuid \<Rightarrow> ustring"
  we_uuid_parse :: "ustring \<Rightarrow> uuid option"
  we_uuid_version :: "uuid \<Rightarrow> nat"
  we_rfc3339_format :: "timestamp \<Rightarrow> (ustring, ustring) result"
  we_rfc3339_parse :: "ustring \<Rightarrow> (timestamp, ustring) result"

definition wire_laws :: "wire_env \<Rightarrow> bool" where
  "wire_laws env \<longleftrightarrow>
     (\<forall>u. we_uuid_parse env (we_uuid_show env u) = Some u)
     \<and> (\<forall>t s. we_rfc3339_format env t = Ok s \<longrightarrow> we_rfc3339_parse env s = Ok t)"

end
