(* ===== verification/Wire_Convert.thy ===== *)
theory Wire_Convert
  imports Wire_Types
begin

text \<open>
  The conversions between validated domain values and DTOs (\<open>v2/convert.rs\<close>), one pair of
  functions per type, with the order of the checks of the source: the first failing field of a
  struct expression decides the error. \<open>env\<close> holds the foreign code. The wildcard arms of
  the encoders serve variants a later version of the core may add; no value of today's types
  reaches them, so they have no equation here.
\<close>

section \<open>Scalars\<close>

definition encode_timestamp :: "wire_env \<Rightarrow> timestamp \<Rightarrow> string \<Rightarrow> (ustring, protocol_error) result" where
  "encode_timestamp env value field = map_err (InvalidWireValue field) (we_rfc3339_format env value)"

definition decode_timestamp :: "wire_env \<Rightarrow> ustring \<Rightarrow> string \<Rightarrow> (timestamp, protocol_error) result" where
  "decode_timestamp env value field = map_err (InvalidWireValue field) (we_rfc3339_parse env value)"

definition parse_id ::
  "wire_env \<Rightarrow> string \<Rightarrow> (uuid \<Rightarrow> 'i) \<Rightarrow> ustring \<Rightarrow> ('i, protocol_error) result" where
  "parse_id env entity mk value =
     map_err DomainViolation
       (id_from_str (we_uuid_version env) (we_uuid_parse env) entity mk value)"

abbreviation parse_provider_id :: "wire_env \<Rightarrow> ustring \<Rightarrow> (provider_id, protocol_error) result" where
  "parse_provider_id env \<equiv> parse_id env ''provider ID'' ProviderId"

abbreviation parse_channel_id :: "wire_env \<Rightarrow> ustring \<Rightarrow> (channel_id, protocol_error) result" where
  "parse_channel_id env \<equiv> parse_id env ''channel ID'' ChannelId"

abbreviation parse_session_id :: "wire_env \<Rightarrow> ustring \<Rightarrow> (session_id, protocol_error) result" where
  "parse_session_id env \<equiv> parse_id env ''session ID'' SessionId"

abbreviation parse_event_id :: "wire_env \<Rightarrow> ustring \<Rightarrow> (event_id, protocol_error) result" where
  "parse_event_id env \<equiv> parse_id env ''event ID'' EventId"

abbreviation parse_interaction_id :: "wire_env \<Rightarrow> ustring \<Rightarrow> (interaction_id, protocol_error) result" where
  "parse_interaction_id env \<equiv> parse_id env ''interaction ID'' InteractionId"

abbreviation parse_command_id :: "wire_env \<Rightarrow> ustring \<Rightarrow> (command_id, protocol_error) result" where
  "parse_command_id env \<equiv> parse_id env ''command ID'' CommandId"

abbreviation parse_plan_item_id :: "wire_env \<Rightarrow> ustring \<Rightarrow> (plan_item_id, protocol_error) result" where
  "parse_plan_item_id env \<equiv> parse_id env ''plan item ID'' PlanItemId"

abbreviation parse_choice_option_id :: "wire_env \<Rightarrow> ustring \<Rightarrow> (choice_option_id, protocol_error) result" where
  "parse_choice_option_id env \<equiv> parse_id env ''choice option ID'' ChoiceOptionId"

abbreviation parse_form_field_id :: "wire_env \<Rightarrow> ustring \<Rightarrow> (form_field_id, protocol_error) result" where
  "parse_form_field_id env \<equiv> parse_id env ''form field ID'' FormFieldId"

abbreviation parse_approval_option_id ::
  "wire_env \<Rightarrow> ustring \<Rightarrow> (approval_option_id, protocol_error) result" where
  "parse_approval_option_id env \<equiv> parse_id env ''approval option ID'' ApprovalOptionId"

abbreviation parse_tool_call_id :: "wire_env \<Rightarrow> ustring \<Rightarrow> (tool_call_id, protocol_error) result" where
  "parse_tool_call_id env \<equiv> parse_id env ''tool call ID'' ToolCallId"

text \<open>\<open>NonEmptyText::new(value)?\<close> in a function that returns a \<open>ProtocolError\<close>.\<close>

definition decode_text :: "ustring \<Rightarrow> (non_empty_text, protocol_error) result" where
  "decode_text value = map_err DomainViolation (NonEmptyText_new value)"

definition decode_optional_text ::
  "ustring option \<Rightarrow> (non_empty_text option, protocol_error) result" where
  "decode_optional_text value = map_err DomainViolation (transpose_option (map_option NonEmptyText_new value))"

text \<open>The match \<open>Some(text) => Ok(x.with_...(NonEmptyText::new(text)?)), None => Ok(x)\<close>.\<close>

definition with_optional ::
  "('a \<Rightarrow> non_empty_text \<Rightarrow> 'a) \<Rightarrow> ustring option \<Rightarrow> 'a \<Rightarrow> ('a, protocol_error) result" where
  "with_optional attach value x =
     (case value of
        Some t \<Rightarrow> and_then (decode_text t) (\<lambda>parsed. Ok (attach x parsed))
      | None \<Rightarrow> Ok x)"

section \<open>Capabilities\<close>

fun provider_capability_flag :: "provider_capability_dto \<Rightarrow> provider_capabilities" where
  "provider_capability_flag PSessionState = PC_SESSION_STATE"
| "provider_capability_flag PToolEvents = PC_TOOL_EVENTS"
| "provider_capability_flag PPlan = PC_PLAN"
| "provider_capability_flag PProgress = PC_PROGRESS"
| "provider_capability_flag PApprovalRequest = PC_APPROVAL_REQUEST"
| "provider_capability_flag PApprovalResponse = PC_APPROVAL_RESPONSE"
| "provider_capability_flag PUserInputRequest = PC_USER_INPUT_REQUEST"
| "provider_capability_flag PUserInputResponse = PC_USER_INPUT_RESPONSE"
| "provider_capability_flag PPromptSubmit = PC_PROMPT_SUBMIT"
| "provider_capability_flag PCancel = PC_CANCEL"
| "provider_capability_flag PControl = PC_CONTROL"

fun channel_capability_flag :: "channel_capability_dto \<Rightarrow> channel_capabilities" where
  "channel_capability_flag CNotification = CC_NOTIFICATION"
| "channel_capability_flag CSessionView = CC_SESSION_VIEW"
| "channel_capability_flag CToolView = CC_TOOL_VIEW"
| "channel_capability_flag CPlanView = CC_PLAN_VIEW"
| "channel_capability_flag CProgressView = CC_PROGRESS_VIEW"
| "channel_capability_flag CRichMessage = CC_RICH_MESSAGE"
| "channel_capability_flag CApproval = CC_APPROVAL"
| "channel_capability_flag CChoiceInput = CC_CHOICE_INPUT"
| "channel_capability_flag CTextInput = CC_TEXT_INPUT"
| "channel_capability_flag CFormInput = CC_FORM_INPUT"
| "channel_capability_flag CRealtimeSync = CC_REALTIME_SYNC"
| "channel_capability_flag CRemoteCommand = CC_REMOTE_COMMAND"

fun provider_capability_name :: "provider_capability_dto \<Rightarrow> string" where
  "provider_capability_name PSessionState = ''session_state''"
| "provider_capability_name PToolEvents = ''tool_events''"
| "provider_capability_name PPlan = ''plan''"
| "provider_capability_name PProgress = ''progress''"
| "provider_capability_name PApprovalRequest = ''approval_request''"
| "provider_capability_name PApprovalResponse = ''approval_response''"
| "provider_capability_name PUserInputRequest = ''user_input_request''"
| "provider_capability_name PUserInputResponse = ''user_input_response''"
| "provider_capability_name PPromptSubmit = ''prompt_submit''"
| "provider_capability_name PCancel = ''cancel''"
| "provider_capability_name PControl = ''control''"

fun channel_capability_name :: "channel_capability_dto \<Rightarrow> string" where
  "channel_capability_name CNotification = ''notification''"
| "channel_capability_name CSessionView = ''session_view''"
| "channel_capability_name CToolView = ''tool_view''"
| "channel_capability_name CPlanView = ''plan_view''"
| "channel_capability_name CProgressView = ''progress_view''"
| "channel_capability_name CRichMessage = ''rich_message''"
| "channel_capability_name CApproval = ''approval''"
| "channel_capability_name CChoiceInput = ''choice_input''"
| "channel_capability_name CTextInput = ''text_input''"
| "channel_capability_name CFormInput = ''form_input''"
| "channel_capability_name CRealtimeSync = ''realtime_sync''"
| "channel_capability_name CRemoteCommand = ''remote_command''"

definition duplicate_capability :: "string \<Rightarrow> string \<Rightarrow> protocol_error" where
  "duplicate_capability field capability =
     InvalidWireValue field (utf (''duplicate capability `'' @ capability @ ''`''))"

definition known_provider_capabilities :: "(provider_capabilities \<times> provider_capability_dto) list" where
  "known_provider_capabilities =
     [(PC_SESSION_STATE, PSessionState), (PC_TOOL_EVENTS, PToolEvents), (PC_PLAN, PPlan),
      (PC_PROGRESS, PProgress), (PC_APPROVAL_REQUEST, PApprovalRequest),
      (PC_APPROVAL_RESPONSE, PApprovalResponse), (PC_USER_INPUT_REQUEST, PUserInputRequest),
      (PC_USER_INPUT_RESPONSE, PUserInputResponse), (PC_PROMPT_SUBMIT, PPromptSubmit),
      (PC_CANCEL, PCancel), (PC_CONTROL, PControl)]"

definition encode_provider_capabilities :: "provider_capabilities \<Rightarrow> provider_capability_dto list" where
  "encode_provider_capabilities value =
     List.map_filter (\<lambda>(capability, dto). if pc_contains value capability then Some dto else None)
       known_provider_capabilities"

text \<open>The loop of the decoder: the \<open>seen\<close> set and the flags collected so far.\<close>

fun collect_provider_capabilities ::
  "provider_capability_dto list \<Rightarrow> provider_capabilities \<Rightarrow> provider_capability_dto list
     \<Rightarrow> (provider_capabilities, protocol_error) result" where
  "collect_provider_capabilities seen capabilities [] = Ok capabilities"
| "collect_provider_capabilities seen capabilities (value # values) =
     (if value \<in> set seen
      then Err (duplicate_capability ''provider capabilities'' (provider_capability_name value))
      else collect_provider_capabilities (value # seen)
             (pc_union capabilities (provider_capability_flag value)) values)"

definition decode_provider_capabilities ::
  "provider_capability_dto list \<Rightarrow> (provider_capabilities, protocol_error) result" where
  "decode_provider_capabilities values = collect_provider_capabilities [] PC_NONE values"

definition known_channel_capabilities :: "(channel_capabilities \<times> channel_capability_dto) list" where
  "known_channel_capabilities =
     [(CC_NOTIFICATION, CNotification), (CC_SESSION_VIEW, CSessionView), (CC_TOOL_VIEW, CToolView),
      (CC_PLAN_VIEW, CPlanView), (CC_PROGRESS_VIEW, CProgressView), (CC_RICH_MESSAGE, CRichMessage),
      (CC_APPROVAL, CApproval), (CC_CHOICE_INPUT, CChoiceInput), (CC_TEXT_INPUT, CTextInput),
      (CC_FORM_INPUT, CFormInput), (CC_REALTIME_SYNC, CRealtimeSync),
      (CC_REMOTE_COMMAND, CRemoteCommand)]"

definition encode_channel_capabilities :: "channel_capabilities \<Rightarrow> channel_capability_dto list" where
  "encode_channel_capabilities value =
     List.map_filter (\<lambda>(capability, dto). if cc_contains value capability then Some dto else None)
       known_channel_capabilities"

fun collect_channel_capabilities ::
  "channel_capability_dto list \<Rightarrow> channel_capabilities \<Rightarrow> channel_capability_dto list
     \<Rightarrow> (channel_capabilities, protocol_error) result" where
  "collect_channel_capabilities seen capabilities [] = Ok capabilities"
| "collect_channel_capabilities seen capabilities (value # values) =
     (if value \<in> set seen
      then Err (duplicate_capability ''channel capabilities'' (channel_capability_name value))
      else collect_channel_capabilities (value # seen)
             (cc_union capabilities (channel_capability_flag value)) values)"

definition decode_channel_capabilities ::
  "channel_capability_dto list \<Rightarrow> (channel_capabilities, protocol_error) result" where
  "decode_channel_capabilities values = collect_channel_capabilities [] CC_NONE values"

section \<open>Enumerations\<close>

fun encode_agent_state :: "agent_state \<Rightarrow> (agent_state_dto, protocol_error) result" where
  "encode_agent_state Initializing = Ok InitializingDto"
| "encode_agent_state Idle = Ok IdleDto"
| "encode_agent_state Running = Ok RunningDto"
| "encode_agent_state WaitingForInteraction = Ok WaitingForInteractionDto"
| "encode_agent_state Completed = Ok CompletedDto"
| "encode_agent_state Failed = Ok FailedDto"
| "encode_agent_state Cancelled = Ok CancelledDto"

fun decode_agent_state :: "agent_state_dto \<Rightarrow> agent_state" where
  "decode_agent_state InitializingDto = Initializing"
| "decode_agent_state IdleDto = Idle"
| "decode_agent_state RunningDto = Running"
| "decode_agent_state WaitingForInteractionDto = WaitingForInteraction"
| "decode_agent_state CompletedDto = Completed"
| "decode_agent_state FailedDto = Failed"
| "decode_agent_state CancelledDto = Cancelled"

fun encode_connection_state :: "connection_state \<Rightarrow> (connection_state_dto, protocol_error) result" where
  "encode_connection_state Connected = Ok ConnectedDto"
| "encode_connection_state Reconnecting = Ok ReconnectingDto"
| "encode_connection_state Disconnected = Ok DisconnectedDto"

fun decode_connection_state :: "connection_state_dto \<Rightarrow> connection_state" where
  "decode_connection_state ConnectedDto = Connected"
| "decode_connection_state ReconnectingDto = Reconnecting"
| "decode_connection_state DisconnectedDto = Disconnected"

fun encode_message_role :: "agent_message_role \<Rightarrow> (agent_message_role_dto, protocol_error) result" where
  "encode_message_role RoleUser = Ok UserDto"
| "encode_message_role RoleAssistant = Ok AssistantDto"
| "encode_message_role RoleSystem = Ok SystemDto"

fun decode_message_role :: "agent_message_role_dto \<Rightarrow> agent_message_role" where
  "decode_message_role UserDto = RoleUser"
| "decode_message_role AssistantDto = RoleAssistant"
| "decode_message_role SystemDto = RoleSystem"

fun encode_message_level :: "agent_message_level \<Rightarrow> (agent_message_level_dto, protocol_error) result" where
  "encode_message_level LevelInfo = Ok InfoDto"
| "encode_message_level LevelWarning = Ok WarningDto"
| "encode_message_level LevelError = Ok ErrorDto"

fun decode_message_level :: "agent_message_level_dto \<Rightarrow> agent_message_level" where
  "decode_message_level InfoDto = LevelInfo"
| "decode_message_level WarningDto = LevelWarning"
| "decode_message_level ErrorDto = LevelError"

fun encode_tool_outcome :: "tool_outcome \<Rightarrow> (tool_outcome_dto, protocol_error) result" where
  "encode_tool_outcome ToolSucceeded = Ok ToolSucceededDto"
| "encode_tool_outcome ToolFailed = Ok ToolFailedDto"
| "encode_tool_outcome ToolCancelled = Ok ToolCancelledDto"

fun decode_tool_outcome :: "tool_outcome_dto \<Rightarrow> tool_outcome" where
  "decode_tool_outcome ToolSucceededDto = ToolSucceeded"
| "decode_tool_outcome ToolFailedDto = ToolFailed"
| "decode_tool_outcome ToolCancelledDto = ToolCancelled"

fun encode_plan_item_status :: "plan_item_status \<Rightarrow> (plan_item_status_dto, protocol_error) result" where
  "encode_plan_item_status PlanPending = Ok PlanPendingDto"
| "encode_plan_item_status PlanInProgress = Ok PlanInProgressDto"
| "encode_plan_item_status PlanCompleted = Ok PlanCompletedDto"
| "encode_plan_item_status PlanBlocked = Ok PlanBlockedDto"
| "encode_plan_item_status PlanSkipped = Ok PlanSkippedDto"

fun decode_plan_item_status :: "plan_item_status_dto \<Rightarrow> plan_item_status" where
  "decode_plan_item_status PlanPendingDto = PlanPending"
| "decode_plan_item_status PlanInProgressDto = PlanInProgress"
| "decode_plan_item_status PlanCompletedDto = PlanCompleted"
| "decode_plan_item_status PlanBlockedDto = PlanBlocked"
| "decode_plan_item_status PlanSkippedDto = PlanSkipped"

fun encode_approval_command_kind ::
  "approval_command_kind \<Rightarrow> (approval_command_kind_dto, protocol_error) result" where
  "encode_approval_command_kind NewCommand = Ok NewCommandDto"
| "encode_approval_command_kind WriteStdin = Ok WriteStdinDto"

fun decode_approval_command_kind :: "approval_command_kind_dto \<Rightarrow> approval_command_kind" where
  "decode_approval_command_kind NewCommandDto = NewCommand"
| "decode_approval_command_kind WriteStdinDto = WriteStdin"

fun encode_approval_file_change_kind ::
  "approval_file_change_kind \<Rightarrow> (approval_file_change_kind_dto, protocol_error) result" where
  "encode_approval_file_change_kind FileAdd = Ok FileAddDto"
| "encode_approval_file_change_kind FileDelete = Ok FileDeleteDto"
| "encode_approval_file_change_kind FileUpdate = Ok FileUpdateDto"

fun decode_approval_file_change_kind ::
  "approval_file_change_kind_dto \<Rightarrow> approval_file_change_kind" where
  "decode_approval_file_change_kind FileAddDto = FileAdd"
| "decode_approval_file_change_kind FileDeleteDto = FileDelete"
| "decode_approval_file_change_kind FileUpdateDto = FileUpdate"

fun encode_approval_disposition ::
  "approval_disposition \<Rightarrow> (approval_disposition_dto, protocol_error) result" where
  "encode_approval_disposition Approve = Ok ApproveDto"
| "encode_approval_disposition Reject = Ok RejectDto"
| "encode_approval_disposition Cancel = Ok CancelDto"

fun decode_approval_disposition :: "approval_disposition_dto \<Rightarrow> approval_disposition" where
  "decode_approval_disposition ApproveDto = Approve"
| "decode_approval_disposition RejectDto = Reject"
| "decode_approval_disposition CancelDto = Cancel"

fun encode_close_reason :: "interaction_close_reason \<Rightarrow> interaction_close_reason_dto" where
  "encode_close_reason ResolvedElsewhere = ResolvedElsewhereDto"
| "encode_close_reason ProviderCancelled = ProviderCancelledDto"

fun decode_close_reason :: "interaction_close_reason_dto \<Rightarrow> interaction_close_reason" where
  "decode_close_reason ResolvedElsewhereDto = ResolvedElsewhere"
| "decode_close_reason ProviderCancelledDto = ProviderCancelled"

fun encode_prompt_delivery :: "prompt_delivery \<Rightarrow> prompt_delivery_dto" where
  "encode_prompt_delivery DeliverQueue = DeliverQueueDto"
| "encode_prompt_delivery DeliverSteer = DeliverSteerDto"

fun decode_prompt_delivery :: "prompt_delivery_dto \<Rightarrow> prompt_delivery" where
  "decode_prompt_delivery DeliverQueueDto = DeliverQueue"
| "decode_prompt_delivery DeliverSteerDto = DeliverSteer"

fun encode_queue_action :: "queue_action \<Rightarrow> queue_action_dto" where
  "encode_queue_action QueuePause = QueuePauseDto"
| "encode_queue_action QueueResume = QueueResumeDto"
| "encode_queue_action QueueClear = QueueClearDto"

fun decode_queue_action :: "queue_action_dto \<Rightarrow> queue_action" where
  "decode_queue_action QueuePauseDto = QueuePause"
| "decode_queue_action QueueResumeDto = QueueResume"
| "decode_queue_action QueueClearDto = QueueClear"

end
