(* ===== verification/Wire_Records.thy ===== *)
theory Wire_Records
  imports Wire_Convert
begin

text \<open>
  The conversions of the compound types of \<open>v2/convert.rs\<close>, from endpoint descriptors to
  the versioned envelope.
\<close>

section \<open>Endpoints and sessions\<close>

definition encode_provider_descriptor :: "wire_env \<Rightarrow> provider_descriptor \<Rightarrow> provider_descriptor_dto" where
  "encode_provider_descriptor env descriptor =
     \<lparr>pdd_id = we_uuid_show env (provider_uuid (pd_id descriptor)),
      pdd_kind = provider_slug (pd_kind descriptor),
      pdd_display_name = as_str (pd_display_name descriptor),
      pdd_version = map_option as_str (pd_version descriptor),
      pdd_capabilities = encode_provider_capabilities (pd_capabilities descriptor)\<rparr>"

definition decode_provider_descriptor ::
  "wire_env \<Rightarrow> provider_descriptor_dto \<Rightarrow> (provider_descriptor, protocol_error) result" where
  "decode_provider_descriptor env dto =
     and_then (parse_provider_id env (pdd_id dto)) (\<lambda>i.
     and_then (map_err DomainViolation (ProviderKind_new (pdd_kind dto))) (\<lambda>kind.
     and_then (decode_text (pdd_display_name dto)) (\<lambda>display_name.
     and_then (decode_provider_capabilities (pdd_capabilities dto)) (\<lambda>capabilities.
     with_optional pd_with_version (pdd_version dto)
       (ProviderDescriptor_new i kind display_name capabilities)))))"

definition encode_channel_descriptor :: "wire_env \<Rightarrow> channel_descriptor \<Rightarrow> channel_descriptor_dto" where
  "encode_channel_descriptor env descriptor =
     \<lparr>cdd_id = we_uuid_show env (channel_uuid (cd_id descriptor)),
      cdd_kind = channel_slug (cd_kind descriptor),
      cdd_display_name = as_str (cd_display_name descriptor),
      cdd_version = map_option as_str (cd_version descriptor),
      cdd_capabilities = encode_channel_capabilities (cd_capabilities descriptor)\<rparr>"

definition decode_channel_descriptor ::
  "wire_env \<Rightarrow> channel_descriptor_dto \<Rightarrow> (channel_descriptor, protocol_error) result" where
  "decode_channel_descriptor env dto =
     and_then (parse_channel_id env (cdd_id dto)) (\<lambda>i.
     and_then (map_err DomainViolation (ChannelKind_new (cdd_kind dto))) (\<lambda>kind.
     and_then (decode_text (cdd_display_name dto)) (\<lambda>display_name.
     and_then (decode_channel_capabilities (cdd_capabilities dto)) (\<lambda>capabilities.
     with_optional cd_with_version (cdd_version dto)
       (ChannelDescriptor_new i kind display_name capabilities)))))"

definition encode_workspace :: "workspace_ref \<Rightarrow> workspace_ref_dto" where
  "encode_workspace workspace =
     \<lparr>wsd_path = as_str (ws_path workspace),
      wsd_display_name = map_option as_str (ws_display_name workspace)\<rparr>"

definition decode_workspace :: "workspace_ref_dto \<Rightarrow> (workspace_ref, protocol_error) result" where
  "decode_workspace dto =
     and_then (decode_text (wsd_path dto)) (\<lambda>path.
     with_optional ws_with_display_name (wsd_display_name dto) (WorkspaceRef_new path))"

definition encode_session :: "wire_env \<Rightarrow> agent_session \<Rightarrow> (agent_session_dto, protocol_error) result" where
  "encode_session env session =
     and_then (encode_agent_state (ses_state session)) (\<lambda>state.
     and_then (encode_connection_state (ses_connection_state session)) (\<lambda>connection_state.
     and_then (encode_timestamp env (ses_created_at session) ''session created_at'') (\<lambda>created_at.
     and_then (encode_timestamp env (ses_updated_at session) ''session updated_at'') (\<lambda>updated_at.
     Ok \<lparr>sd_id = we_uuid_show env (session_uuid (ses_id session)),
         sd_provider_id = we_uuid_show env (provider_uuid (ses_provider_id session)),
         sd_external_id = map_option (\<lambda>x. as_str (external_text x)) (ses_external_id session),
         sd_title = map_option as_str (ses_title session),
         sd_workspace = map_option encode_workspace (ses_workspace session),
         sd_state = state, sd_connection_state = connection_state,
         sd_revision = DecimalU64 (ses_revision session),
         sd_created_at = created_at, sd_updated_at = updated_at\<rparr>))))"

text \<open>The three optional fields of the builder, in the order the code sets them.\<close>

definition build_optional_fields ::
  "agent_session_dto \<Rightarrow> agent_session_builder \<Rightarrow> (agent_session_builder, protocol_error) result" where
  "build_optional_fields dto builder =
     and_then (case sd_external_id dto of
        Some external_id \<Rightarrow>
          and_then (map_err DomainViolation (ExternalId_new external_id))
            (\<lambda>x. Ok (sb_external_id builder x))
      | None \<Rightarrow> Ok builder) (\<lambda>builder1.
     and_then (with_optional sb_title (sd_title dto) builder1) (\<lambda>builder2.
     case sd_workspace dto of
        Some workspace \<Rightarrow>
          and_then (decode_workspace workspace) (\<lambda>x. Ok (sb_workspace builder2 x))
      | None \<Rightarrow> Ok builder2))"

definition decode_session :: "wire_env \<Rightarrow> agent_session_dto \<Rightarrow> (agent_session, protocol_error) result" where
  "decode_session env dto =
     and_then (decode_timestamp env (sd_created_at dto) ''session created_at'') (\<lambda>created_at.
     and_then (decode_timestamp env (sd_updated_at dto) ''session updated_at'') (\<lambda>updated_at.
     and_then (parse_session_id env (sd_id dto)) (\<lambda>i.
     and_then (parse_provider_id env (sd_provider_id dto)) (\<lambda>provider_id.
     and_then (map_err DomainViolation (Revision_new (get_u64 (sd_revision dto)))) (\<lambda>revision.
     and_then (build_optional_fields dto
       (sb_revision
         (sb_connection_state
           (sb_state (session_builder i provider_id created_at) (decode_agent_state (sd_state dto)))
           (decode_connection_state (sd_connection_state dto)))
         revision updated_at)) (\<lambda>builder.
     map_err DomainViolation (session_build builder)))))))"

section \<open>Messages, tools and outcomes\<close>

definition encode_message :: "agent_message \<Rightarrow> (agent_message_dto, protocol_error) result" where
  "encode_message message =
     and_then (encode_message_role (msg_role message)) (\<lambda>role.
     and_then (encode_message_level (msg_level message)) (\<lambda>level.
     Ok \<lparr>amd_role = role, amd_level = level, amd_content = as_str (msg_content message)\<rparr>))"

definition decode_message :: "agent_message_dto \<Rightarrow> (agent_message, protocol_error) result" where
  "decode_message dto =
     and_then (decode_text (amd_content dto)) (\<lambda>content.
     Ok \<lparr>msg_role = decode_message_role (amd_role dto),
         msg_level = decode_message_level (amd_level dto), msg_content = content\<rparr>)"

fun encode_tool_activity ::
  "wire_env \<Rightarrow> tool_activity \<Rightarrow> (tool_activity_dto, protocol_error) result" where
  "encode_tool_activity env (ToolStarted call_id name summary) =
     Ok (ToolStartedDto (we_uuid_show env (tool_call_uuid call_id)) (as_str name)
           (map_option as_str summary))"
| "encode_tool_activity env (ToolFinished call_id outcome summary) =
     and_then (encode_tool_outcome outcome) (\<lambda>outcome'.
     Ok (ToolFinishedDto (we_uuid_show env (tool_call_uuid call_id)) outcome'
           (map_option as_str summary)))"

fun decode_tool_activity ::
  "wire_env \<Rightarrow> tool_activity_dto \<Rightarrow> (tool_activity, protocol_error) result" where
  "decode_tool_activity env (ToolStartedDto call_id name summary) =
     and_then (parse_tool_call_id env call_id) (\<lambda>i.
     and_then (decode_text name) (\<lambda>name'.
     and_then (decode_optional_text summary) (\<lambda>summary'.
     Ok (ToolStarted i name' summary'))))"
| "decode_tool_activity env (ToolFinishedDto call_id outcome summary) =
     and_then (parse_tool_call_id env call_id) (\<lambda>i.
     and_then (decode_optional_text summary) (\<lambda>summary'.
     Ok (ToolFinished i (decode_tool_outcome outcome) summary')))"

fun encode_session_outcome :: "session_outcome \<Rightarrow> (session_outcome_dto, protocol_error) result" where
  "encode_session_outcome (OutcomeCompleted summary) =
     Ok (OutcomeCompletedDto (map_option as_str summary))"
| "encode_session_outcome (OutcomeFailed failure) = Ok (OutcomeFailedDto (as_str failure))"
| "encode_session_outcome (OutcomeCancelled reason) =
     Ok (OutcomeCancelledDto (map_option as_str reason))"

fun decode_session_outcome :: "session_outcome_dto \<Rightarrow> (session_outcome, protocol_error) result" where
  "decode_session_outcome (OutcomeCompletedDto summary) =
     and_then (decode_optional_text summary) (\<lambda>s. Ok (OutcomeCompleted s))"
| "decode_session_outcome (OutcomeFailedDto failure) =
     and_then (decode_text failure) (\<lambda>e. Ok (OutcomeFailed e))"
| "decode_session_outcome (OutcomeCancelledDto reason) =
     and_then (decode_optional_text reason) (\<lambda>r. Ok (OutcomeCancelled r))"

section \<open>Plans and progress\<close>

definition encode_plan_item :: "wire_env \<Rightarrow> plan_item \<Rightarrow> (plan_item_dto, protocol_error) result" where
  "encode_plan_item env item =
     and_then (encode_plan_item_status (pi_status item)) (\<lambda>status.
     Ok \<lparr>pid_id = we_uuid_show env (plan_item_uuid (pi_id item)),
         pid_content = as_str (pi_content item), pid_status = status\<rparr>)"

definition decode_plan_item :: "wire_env \<Rightarrow> plan_item_dto \<Rightarrow> (plan_item, protocol_error) result" where
  "decode_plan_item env dto =
     and_then (parse_plan_item_id env (pid_id dto)) (\<lambda>i.
     and_then (decode_text (pid_content dto)) (\<lambda>content.
     Ok \<lparr>pi_id = i, pi_content = content, pi_status = decode_plan_item_status (pid_status dto)\<rparr>))"

definition encode_plan :: "wire_env \<Rightarrow> plan_snapshot \<Rightarrow> (plan_snapshot_dto, protocol_error) result" where
  "encode_plan env plan =
     and_then (collect_results (encode_plan_item env) (plan_items plan)) (\<lambda>items.
     Ok \<lparr>psd_revision = DecimalU64 (plan_revision plan),
         psd_explanation = map_option as_str (plan_explanation plan), psd_items = items\<rparr>)"

definition decode_plan :: "wire_env \<Rightarrow> plan_snapshot_dto \<Rightarrow> (plan_snapshot, protocol_error) result" where
  "decode_plan env dto =
     and_then (collect_results (decode_plan_item env) (psd_items dto)) (\<lambda>items.
     and_then (map_err DomainViolation (Revision_new (get_u64 (psd_revision dto)))) (\<lambda>revision.
     and_then (map_err DomainViolation (PlanSnapshot_new revision items)) (\<lambda>plan.
     with_optional plan_with_explanation (psd_explanation dto) plan)))"

fun encode_progress_value :: "progress_value \<Rightarrow> (progress_value_dto, protocol_error) result" where
  "encode_progress_value Indeterminate = Ok IndeterminateDto"
| "encode_progress_value (Determinate progress) =
     Ok (DeterminateDto (DecimalU64 (dp_completed progress)) (DecimalU64 (dp_total progress)))"

fun decode_progress_value :: "progress_value_dto \<Rightarrow> (progress_value, protocol_error) result" where
  "decode_progress_value IndeterminateDto = Ok Indeterminate"
| "decode_progress_value (DeterminateDto completed all_units) =
     and_then (map_err DomainViolation
        (DeterminateProgress_new (get_u64 completed) (get_u64 all_units)))
       (\<lambda>progress. Ok (Determinate progress))"

definition encode_progress :: "progress_snapshot \<Rightarrow> (progress_snapshot_dto, protocol_error) result" where
  "encode_progress progress =
     and_then (encode_progress_value (prog_value progress)) (\<lambda>value.
     Ok \<lparr>prd_revision = DecimalU64 (prog_revision progress), prd_value = value,
         prd_message = map_option as_str (prog_message progress)\<rparr>)"

definition decode_progress :: "progress_snapshot_dto \<Rightarrow> (progress_snapshot, protocol_error) result" where
  "decode_progress dto =
     and_then (map_err DomainViolation (Revision_new (get_u64 (prd_revision dto)))) (\<lambda>revision.
     and_then (decode_progress_value (prd_value dto)) (\<lambda>value.
     with_optional prog_with_message (prd_message dto) (ProgressSnapshot_new revision value)))"

section \<open>Interaction requests\<close>

definition encode_choice_option ::
  "wire_env \<Rightarrow> choice_option \<Rightarrow> (choice_option_dto, protocol_error) result" where
  "encode_choice_option env option =
     Ok \<lparr>cod_id = we_uuid_show env (choice_option_uuid (co_id option)),
         cod_label = as_str (co_label option),
         cod_description = map_option as_str (co_description option)\<rparr>"

definition decode_choice_option ::
  "wire_env \<Rightarrow> choice_option_dto \<Rightarrow> (choice_option, protocol_error) result" where
  "decode_choice_option env dto =
     and_then (parse_choice_option_id env (cod_id dto)) (\<lambda>i.
     and_then (decode_text (cod_label dto)) (\<lambda>label.
     with_optional co_with_description (cod_description dto) (ChoiceOption_new i label)))"

definition encode_network_context :: "approval_network_context \<Rightarrow> approval_network_context_dto" where
  "encode_network_context network =
     \<lparr>ancd_host = as_str (anc_host network), ancd_protocol = as_str (anc_protocol network)\<rparr>"

definition decode_network_context ::
  "approval_network_context_dto \<Rightarrow> (approval_network_context, protocol_error) result" where
  "decode_network_context dto =
     and_then (decode_text (ancd_host dto)) (\<lambda>host.
     and_then (decode_text (ancd_protocol dto)) (\<lambda>protocol.
     Ok \<lparr>anc_host = host, anc_protocol = protocol\<rparr>))"

definition encode_file_change ::
  "approval_file_change \<Rightarrow> (approval_file_change_dto, protocol_error) result" where
  "encode_file_change change =
     and_then (encode_approval_file_change_kind (afc_kind change)) (\<lambda>kind.
     Ok \<lparr>afcd_path = as_str (afc_path change), afcd_kind = kind, afcd_diff = afc_diff change\<rparr>)"

definition decode_file_change ::
  "approval_file_change_dto \<Rightarrow> (approval_file_change, protocol_error) result" where
  "decode_file_change dto =
     and_then (decode_text (afcd_path dto)) (\<lambda>path.
     Ok \<lparr>afc_path = path, afc_kind = decode_approval_file_change_kind (afcd_kind dto),
         afc_diff = afcd_diff dto\<rparr>)"

fun encode_approval_subject :: "approval_subject \<Rightarrow> (approval_subject_dto, protocol_error) result" where
  "encode_approval_subject (CommandSubject kind command cwd reason network) =
     and_then (encode_approval_command_kind kind) (\<lambda>kind'.
     Ok (CommandSubjectDto kind' (map_option as_str command) (map_option as_str cwd)
           (map_option as_str reason) (map_option encode_network_context network)))"
| "encode_approval_subject (FileChangeSubject changes grant_root reason) =
     and_then (collect_results encode_file_change changes) (\<lambda>changes'.
     Ok (FileChangeSubjectDto changes' (map_option as_str grant_root) (map_option as_str reason)))"

fun decode_approval_subject :: "approval_subject_dto \<Rightarrow> (approval_subject, protocol_error) result" where
  "decode_approval_subject (CommandSubjectDto kind command cwd reason network) =
     and_then (decode_optional_text command) (\<lambda>command'.
     and_then (decode_optional_text cwd) (\<lambda>cwd'.
     and_then (decode_optional_text reason) (\<lambda>reason'.
     and_then (transpose_option (map_option decode_network_context network)) (\<lambda>network'.
     Ok (CommandSubject (decode_approval_command_kind kind) command' cwd' reason' network')))))"
| "decode_approval_subject (FileChangeSubjectDto changes grant_root reason) =
     and_then (collect_results decode_file_change changes) (\<lambda>changes'.
     and_then (decode_optional_text grant_root) (\<lambda>grant_root'.
     and_then (decode_optional_text reason) (\<lambda>reason'.
     Ok (FileChangeSubject changes' grant_root' reason'))))"

definition encode_approval_option ::
  "wire_env \<Rightarrow> approval_option \<Rightarrow> (approval_option_dto, protocol_error) result" where
  "encode_approval_option env option =
     and_then (encode_approval_disposition (ao_disposition option)) (\<lambda>disposition.
     Ok \<lparr>aod_id = we_uuid_show env (approval_option_uuid (ao_id option)),
         aod_disposition = disposition, aod_label = as_str (ao_label option),
         aod_description = map_option as_str (ao_description option)\<rparr>)"

definition decode_approval_option ::
  "wire_env \<Rightarrow> approval_option_dto \<Rightarrow> (approval_option, protocol_error) result" where
  "decode_approval_option env dto =
     and_then (parse_approval_option_id env (aod_id dto)) (\<lambda>i.
     and_then (decode_text (aod_label dto)) (\<lambda>label.
     with_optional ao_with_description (aod_description dto)
       (ApprovalOption_new i (decode_approval_disposition (aod_disposition dto)) label)))"

definition encode_form_field :: "wire_env \<Rightarrow> form_field \<Rightarrow> (form_field_dto, protocol_error) result" where
  "encode_form_field env form_field =
     and_then (collect_results (encode_choice_option env) (ff_options form_field)) (\<lambda>options.
     Ok \<lparr>ffd_id = we_uuid_show env (form_field_uuid (ff_id form_field)),
         ffd_header = as_str (ff_header form_field), ffd_prompt = as_str (ff_prompt form_field),
         ffd_options = options, ffd_allows_other = ff_allows_other form_field,
         ffd_sensitive = ff_sensitive form_field\<rparr>)"

definition decode_form_field :: "wire_env \<Rightarrow> form_field_dto \<Rightarrow> (form_field, protocol_error) result" where
  "decode_form_field env dto =
     and_then (parse_form_field_id env (ffd_id dto)) (\<lambda>i.
     and_then (decode_text (ffd_header dto)) (\<lambda>header.
     and_then (decode_text (ffd_prompt dto)) (\<lambda>prompt.
     and_then (collect_results (decode_choice_option env) (ffd_options dto)) (\<lambda>options.
     map_err DomainViolation
       (FormField_new i header prompt options (ffd_allows_other dto) (ffd_sensitive dto))))))"

fun encode_interaction_request_payload ::
  "wire_env \<Rightarrow> interaction_request_payload
     \<Rightarrow> (interaction_request_payload_dto, protocol_error) result" where
  "encode_interaction_request_payload env (ApprovalRequested request) =
     and_then (encode_approval_subject (ar_subject request)) (\<lambda>subject.
     and_then (collect_results (encode_approval_option env) (ar_options request)) (\<lambda>options.
     Ok (ApprovalDto subject options (map_option as_str (ar_unavailable_reason request)))))"
| "encode_interaction_request_payload env (ChoiceRequested request) =
     and_then (collect_results (encode_choice_option env) (cr_options request)) (\<lambda>options.
     Ok (ChoiceDto options (cr_multiple request)))"
| "encode_interaction_request_payload env (TextRequested request) =
     Ok (TextDto (map_option as_str (ti_placeholder request)) (ti_multiline request))"
| "encode_interaction_request_payload env (FormRequested request) =
     and_then (collect_results (encode_form_field env) (fr_fields request)) (\<lambda>form_fields.
     Ok (FormDto form_fields (fr_blocking request)))"

definition decode_approval_request ::
  "approval_subject \<Rightarrow> approval_option list \<Rightarrow> ustring option
     \<Rightarrow> (approval_request, protocol_error) result" where
  "decode_approval_request subject options unavailable_reason =
     (case (options = [], unavailable_reason) of
        (False, None) \<Rightarrow> map_err DomainViolation (ApprovalRequest_actionable subject options)
      | (True, Some reason) \<Rightarrow>
          and_then (decode_text reason) (\<lambda>r. Ok (ApprovalRequest_unavailable subject r))
      | (True, None) \<Rightarrow>
          Err (InvalidWireValue ''approval''
            (utf ''an approval without options requires unavailable_reason''))
      | (False, Some _) \<Rightarrow>
          Err (InvalidWireValue ''approval''
            (utf ''an actionable approval cannot carry unavailable_reason'')))"

fun decode_interaction_request_payload ::
  "wire_env \<Rightarrow> interaction_request_payload_dto
     \<Rightarrow> (interaction_request_payload, protocol_error) result" where
  "decode_interaction_request_payload env (ApprovalDto subject options unavailable_reason) =
     and_then (decode_approval_subject subject) (\<lambda>subject'.
     and_then (collect_results (decode_approval_option env) options) (\<lambda>options'.
     and_then (decode_approval_request subject' options' unavailable_reason) (\<lambda>request.
     Ok (ApprovalRequested request))))"
| "decode_interaction_request_payload env (ChoiceDto options multiple) =
     and_then (collect_results (decode_choice_option env) options) (\<lambda>options'.
     and_then (map_err DomainViolation (ChoiceRequest_new options' multiple)) (\<lambda>request.
     Ok (ChoiceRequested request)))"
| "decode_interaction_request_payload env (TextDto placeholder multiline) =
     and_then (with_optional ti_with_placeholder placeholder (TextInputRequest_new multiline))
       (\<lambda>request. Ok (TextRequested request))"
| "decode_interaction_request_payload env (FormDto form_fields blocking) =
     and_then (collect_results (decode_form_field env) form_fields) (\<lambda>form_fields'.
     and_then (map_err DomainViolation (FormRequest_new form_fields' blocking)) (\<lambda>request.
     Ok (FormRequested request)))"

definition encode_interaction_request ::
  "wire_env \<Rightarrow> interaction_request \<Rightarrow> (interaction_request_dto, protocol_error) result" where
  "encode_interaction_request env request =
     and_then (encode_timestamp env (ir_requested_at request) ''interaction requested_at'') (\<lambda>requested_at.
     and_then (transpose_option (map_option (\<lambda>value.
        encode_timestamp env value ''interaction expires_at'') (ir_expires_at request))) (\<lambda>expires_at.
     and_then (encode_interaction_request_payload env (ir_payload request)) (\<lambda>payload.
     Ok \<lparr>ird_id = we_uuid_show env (interaction_uuid (ir_id request)),
         ird_session_id = we_uuid_show env (session_uuid (ir_session_id request)),
         ird_requested_at = requested_at, ird_expires_at = expires_at,
         ird_prompt = as_str (ir_prompt request), ird_payload = payload\<rparr>)))"

definition decode_interaction_request ::
  "wire_env \<Rightarrow> interaction_request_dto \<Rightarrow> (interaction_request, protocol_error) result" where
  "decode_interaction_request env dto =
     and_then (parse_interaction_id env (ird_id dto)) (\<lambda>i.
     and_then (parse_session_id env (ird_session_id dto)) (\<lambda>sid.
     and_then (decode_timestamp env (ird_requested_at dto) ''interaction requested_at'') (\<lambda>requested_at.
     and_then (decode_text (ird_prompt dto)) (\<lambda>prompt.
     and_then (decode_interaction_request_payload env (ird_payload dto)) (\<lambda>payload.
     let request = InteractionRequest_new i sid requested_at prompt payload
     in case ird_expires_at dto of
          Some expires_at \<Rightarrow>
            and_then (decode_timestamp env expires_at ''interaction expires_at'')
              (\<lambda>t. map_err DomainViolation (with_expiration request t))
        | None \<Rightarrow> Ok request)))))"

section \<open>Interaction responses and closures\<close>

fun encode_form_answer_value :: "wire_env \<Rightarrow> form_answer_value \<Rightarrow> form_answer_value_dto" where
  "encode_form_answer_value env (AnswerChoice option_id) =
     AnswerChoiceDto (we_uuid_show env (choice_option_uuid option_id))"
| "encode_form_answer_value env (AnswerText answer) = AnswerTextDto (as_str answer)"

definition encode_form_answer :: "wire_env \<Rightarrow> form_answer \<Rightarrow> form_answer_dto" where
  "encode_form_answer env answer =
     \<lparr>fad_field_id = we_uuid_show env (form_field_uuid (fa_field_id answer)),
      fad_value = encode_form_answer_value env (fa_value answer)\<rparr>"

fun decode_form_answer_value ::
  "wire_env \<Rightarrow> form_answer_value_dto \<Rightarrow> (form_answer_value, protocol_error) result" where
  "decode_form_answer_value env (AnswerChoiceDto option_id) =
     and_then (parse_choice_option_id env option_id) (\<lambda>i. Ok (AnswerChoice i))"
| "decode_form_answer_value env (AnswerTextDto answer) =
     and_then (decode_text answer) (\<lambda>t. Ok (AnswerText t))"

text \<open>The value is decoded before the identifier of its field.\<close>

definition decode_form_answer ::
  "wire_env \<Rightarrow> form_answer_dto \<Rightarrow> (form_answer, protocol_error) result" where
  "decode_form_answer env dto =
     and_then (decode_form_answer_value env (fad_value dto)) (\<lambda>value.
     and_then (parse_form_field_id env (fad_field_id dto)) (\<lambda>i.
     Ok \<lparr>fa_field_id = i, fa_value = value\<rparr>))"

fun encode_interaction_response_payload ::
  "wire_env \<Rightarrow> interaction_response_payload
     \<Rightarrow> (interaction_response_payload_dto, protocol_error) result" where
  "encode_interaction_response_payload env (ApprovalAnswer option_id) =
     Ok (ApprovalAnswerDto (we_uuid_show env (approval_option_uuid option_id)))"
| "encode_interaction_response_payload env (ChoiceAnswer option_ids) =
     Ok (ChoiceAnswerDto (map (\<lambda>i. we_uuid_show env (choice_option_uuid i)) option_ids))"
| "encode_interaction_response_payload env (TextAnswer answer) = Ok (TextAnswerDto (as_str answer))"
| "encode_interaction_response_payload env (FormAnswers response) =
     Ok (FormAnswersDto (map (encode_form_answer env) response))"

fun decode_interaction_response_payload ::
  "wire_env \<Rightarrow> interaction_response_payload_dto
     \<Rightarrow> (interaction_response_payload, protocol_error) result" where
  "decode_interaction_response_payload env (ApprovalAnswerDto option_id) =
     and_then (parse_approval_option_id env option_id) (\<lambda>i. Ok (ApprovalAnswer i))"
| "decode_interaction_response_payload env (ChoiceAnswerDto option_ids) =
     and_then (collect_results (parse_choice_option_id env) option_ids) (\<lambda>ids.
     and_then (map_err DomainViolation (ChoiceSelection_new ids)) (\<lambda>selection.
     Ok (ChoiceAnswer selection)))"
| "decode_interaction_response_payload env (TextAnswerDto answer) =
     and_then (decode_text answer) (\<lambda>t. Ok (TextAnswer t))"
| "decode_interaction_response_payload env (FormAnswersDto answer_dtos) =
     and_then (collect_results (decode_form_answer env) answer_dtos) (\<lambda>answers'.
     and_then (map_err DomainViolation (FormResponse_new answers')) (\<lambda>response.
     Ok (FormAnswers response)))"

definition encode_interaction_response ::
  "wire_env \<Rightarrow> interaction_response \<Rightarrow> (interaction_response_dto, protocol_error) result" where
  "encode_interaction_response env response =
     and_then (encode_timestamp env (is_responded_at response) ''interaction responded_at'') (\<lambda>responded_at.
     and_then (encode_interaction_response_payload env (is_payload response)) (\<lambda>payload.
     Ok \<lparr>isd_request_id = we_uuid_show env (interaction_uuid (is_request_id response)),
         isd_session_id = we_uuid_show env (session_uuid (is_session_id response)),
         isd_channel_id = we_uuid_show env (channel_uuid (is_channel_id response)),
         isd_responded_at = responded_at, isd_payload = payload\<rparr>))"

definition decode_interaction_response ::
  "wire_env \<Rightarrow> interaction_response_dto \<Rightarrow> (interaction_response, protocol_error) result" where
  "decode_interaction_response env dto =
     and_then (parse_interaction_id env (isd_request_id dto)) (\<lambda>request_id.
     and_then (parse_session_id env (isd_session_id dto)) (\<lambda>sid.
     and_then (parse_channel_id env (isd_channel_id dto)) (\<lambda>cid.
     and_then (decode_timestamp env (isd_responded_at dto) ''interaction responded_at'') (\<lambda>responded_at.
     and_then (decode_interaction_response_payload env (isd_payload dto)) (\<lambda>payload.
     Ok \<lparr>is_request_id = request_id, is_session_id = sid, is_channel_id = cid,
         is_responded_at = responded_at, is_payload = payload\<rparr>)))))"

definition encode_interaction_closed ::
  "wire_env \<Rightarrow> interaction_closed \<Rightarrow> (interaction_closed_dto, protocol_error) result" where
  "encode_interaction_closed env interaction =
     Ok \<lparr>icd_request_id = we_uuid_show env (interaction_uuid (ic_request_id interaction)),
         icd_session_id = we_uuid_show env (session_uuid (ic_session_id interaction)),
         icd_reason = encode_close_reason (ic_reason interaction)\<rparr>"

definition decode_interaction_closed ::
  "wire_env \<Rightarrow> interaction_closed_dto \<Rightarrow> (interaction_closed, protocol_error) result" where
  "decode_interaction_closed env dto =
     and_then (parse_interaction_id env (icd_request_id dto)) (\<lambda>request_id.
     and_then (parse_session_id env (icd_session_id dto)) (\<lambda>sid.
     Ok \<lparr>ic_request_id = request_id, ic_session_id = sid,
         ic_reason = decode_close_reason (icd_reason dto)\<rparr>))"

section \<open>Commands\<close>

fun encode_command_payload ::
  "agent_command_payload \<Rightarrow> (agent_command_payload_dto, protocol_error) result" where
  "encode_command_payload (SubmitPrompt prompt delivery) =
     Ok (SubmitPromptDto (as_str prompt) (encode_prompt_delivery delivery))"
| "encode_command_payload (CancelSession reason) = Ok (CancelSessionDto (map_option as_str reason))"
| "encode_command_payload ListModels = Ok ListModelsDto"
| "encode_command_payload (SelectModel model effort) =
     Ok (SelectModelDto (as_str model) (map_option as_str effort))"
| "encode_command_payload (SetPlanMode enabled) = Ok (SetPlanModeDto enabled)"
| "encode_command_payload (ListThreads cursor) = Ok (ListThreadsDto (map_option as_str cursor))"
| "encode_command_payload (ResumeThread thread_id) = Ok (ResumeThreadDto (as_str thread_id))"
| "encode_command_payload (StartThread cwd) = Ok (StartThreadDto (as_str cwd))"
| "encode_command_payload Compact = Ok CompactDto"
| "encode_command_payload (Review instructions) = Ok (ReviewDto (map_option as_str instructions))"
| "encode_command_payload (Rename name) = Ok (RenameDto (as_str name))"
| "encode_command_payload Fork = Ok ForkDto"
| "encode_command_payload Status = Ok StatusDto"
| "encode_command_payload ListPermissionProfiles = Ok ListPermissionProfilesDto"
| "encode_command_payload (SelectPermissionProfile profile) =
     Ok (SelectPermissionProfileDto (as_str profile))"
| "encode_command_payload (Queue action) = Ok (QueueDto (encode_queue_action action))"

fun decode_command_payload ::
  "agent_command_payload_dto \<Rightarrow> (agent_command_payload, protocol_error) result" where
  "decode_command_payload (SubmitPromptDto prompt delivery) =
     and_then (decode_text prompt) (\<lambda>t. Ok (SubmitPrompt t (decode_prompt_delivery delivery)))"
| "decode_command_payload (CancelSessionDto reason) =
     and_then (decode_optional_text reason) (\<lambda>r. Ok (CancelSession r))"
| "decode_command_payload ListModelsDto = Ok ListModels"
| "decode_command_payload (SelectModelDto model effort) =
     and_then (decode_text model) (\<lambda>m.
     and_then (decode_optional_text effort) (\<lambda>e. Ok (SelectModel m e)))"
| "decode_command_payload (SetPlanModeDto enabled) = Ok (SetPlanMode enabled)"
| "decode_command_payload (ListThreadsDto cursor) =
     and_then (decode_optional_text cursor) (\<lambda>c. Ok (ListThreads c))"
| "decode_command_payload (ResumeThreadDto thread_id) =
     and_then (decode_text thread_id) (\<lambda>t. Ok (ResumeThread t))"
| "decode_command_payload (StartThreadDto cwd) =
     and_then (decode_text cwd) (\<lambda>t. Ok (StartThread t))"
| "decode_command_payload CompactDto = Ok Compact"
| "decode_command_payload (ReviewDto instructions) =
     and_then (decode_optional_text instructions) (\<lambda>i. Ok (Review i))"
| "decode_command_payload (RenameDto name) = and_then (decode_text name) (\<lambda>t. Ok (Rename t))"
| "decode_command_payload ForkDto = Ok Fork"
| "decode_command_payload StatusDto = Ok Status"
| "decode_command_payload ListPermissionProfilesDto = Ok ListPermissionProfiles"
| "decode_command_payload (SelectPermissionProfileDto profile) =
     and_then (decode_text profile) (\<lambda>t. Ok (SelectPermissionProfile t))"
| "decode_command_payload (QueueDto action) = Ok (Queue (decode_queue_action action))"

definition encode_command :: "wire_env \<Rightarrow> agent_command \<Rightarrow> (agent_command_dto, protocol_error) result" where
  "encode_command env command =
     and_then (encode_timestamp env (cmd_issued_at command) ''command issued_at'') (\<lambda>issued_at.
     and_then (encode_command_payload (cmd_payload command)) (\<lambda>payload.
     Ok \<lparr>acd_id = we_uuid_show env (command_uuid (cmd_id command)),
         acd_session_id = we_uuid_show env (session_uuid (cmd_session_id command)),
         acd_channel_id = we_uuid_show env (channel_uuid (cmd_channel_id command)),
         acd_issued_at = issued_at, acd_payload = payload\<rparr>))"

definition decode_command :: "wire_env \<Rightarrow> agent_command_dto \<Rightarrow> (agent_command, protocol_error) result" where
  "decode_command env dto =
     and_then (parse_command_id env (acd_id dto)) (\<lambda>i.
     and_then (parse_session_id env (acd_session_id dto)) (\<lambda>sid.
     and_then (parse_channel_id env (acd_channel_id dto)) (\<lambda>cid.
     and_then (decode_timestamp env (acd_issued_at dto) ''command issued_at'') (\<lambda>issued_at.
     and_then (decode_command_payload (acd_payload dto)) (\<lambda>payload.
     Ok \<lparr>cmd_id = i, cmd_session_id = sid, cmd_channel_id = cid, cmd_issued_at = issued_at,
         cmd_payload = payload\<rparr>)))))"

section \<open>Events and the envelope\<close>

fun encode_event_payload ::
  "wire_env \<Rightarrow> agent_event_payload \<Rightarrow> (agent_event_payload_dto, protocol_error) result" where
  "encode_event_payload env (SessionStarted session) =
     and_then (encode_session env session) (\<lambda>d. Ok (SessionStartedDto d))"
| "encode_event_payload env (StateChanged state) =
     and_then (encode_agent_state state) (\<lambda>d. Ok (StateChangedDto d))"
| "encode_event_payload env (ConnectionChanged connection_state) =
     and_then (encode_connection_state connection_state) (\<lambda>d. Ok (ConnectionChangedDto d))"
| "encode_event_payload env (Message message) =
     and_then (encode_message message) (\<lambda>d. Ok (MessageDto d))"
| "encode_event_payload env (ToolActivity activity) =
     and_then (encode_tool_activity env activity) (\<lambda>d. Ok (ToolActivityDto d))"
| "encode_event_payload env (PlanUpdated plan) =
     and_then (encode_plan env plan) (\<lambda>d. Ok (PlanUpdatedDto d))"
| "encode_event_payload env (ProgressUpdated progress) =
     and_then (encode_progress progress) (\<lambda>d. Ok (ProgressUpdatedDto d))"
| "encode_event_payload env (InteractionRequested request) =
     and_then (encode_interaction_request env request) (\<lambda>d. Ok (InteractionRequestedDto d))"
| "encode_event_payload env (InteractionResponded response) =
     and_then (encode_interaction_response env response) (\<lambda>d. Ok (InteractionRespondedDto d))"
| "encode_event_payload env (InteractionClosed interaction) =
     and_then (encode_interaction_closed env interaction) (\<lambda>d. Ok (InteractionClosedDto d))"
| "encode_event_payload env (CommandIssued command) =
     and_then (encode_command env command) (\<lambda>d. Ok (CommandIssuedDto d))"
| "encode_event_payload env (SessionEnded outcome) =
     and_then (encode_session_outcome outcome) (\<lambda>d. Ok (SessionEndedDto d))"

fun decode_event_payload ::
  "wire_env \<Rightarrow> agent_event_payload_dto \<Rightarrow> (agent_event_payload, protocol_error) result" where
  "decode_event_payload env (SessionStartedDto session) =
     and_then (decode_session env session) (\<lambda>x. Ok (SessionStarted x))"
| "decode_event_payload env (StateChangedDto state) = Ok (StateChanged (decode_agent_state state))"
| "decode_event_payload env (ConnectionChangedDto connection_state) =
     Ok (ConnectionChanged (decode_connection_state connection_state))"
| "decode_event_payload env (MessageDto message) =
     and_then (decode_message message) (\<lambda>x. Ok (Message x))"
| "decode_event_payload env (ToolActivityDto activity) =
     and_then (decode_tool_activity env activity) (\<lambda>x. Ok (ToolActivity x))"
| "decode_event_payload env (PlanUpdatedDto plan) =
     and_then (decode_plan env plan) (\<lambda>x. Ok (PlanUpdated x))"
| "decode_event_payload env (ProgressUpdatedDto progress) =
     and_then (decode_progress progress) (\<lambda>x. Ok (ProgressUpdated x))"
| "decode_event_payload env (InteractionRequestedDto request) =
     and_then (decode_interaction_request env request) (\<lambda>x. Ok (InteractionRequested x))"
| "decode_event_payload env (InteractionRespondedDto response) =
     and_then (decode_interaction_response env response) (\<lambda>x. Ok (InteractionResponded x))"
| "decode_event_payload env (InteractionClosedDto interaction) =
     and_then (decode_interaction_closed env interaction) (\<lambda>x. Ok (InteractionClosed x))"
| "decode_event_payload env (CommandIssuedDto command) =
     and_then (decode_command env command) (\<lambda>x. Ok (CommandIssued x))"
| "decode_event_payload env (SessionEndedDto outcome) =
     and_then (decode_session_outcome outcome) (\<lambda>x. Ok (SessionEnded x))"

definition encode_event :: "wire_env \<Rightarrow> agent_event \<Rightarrow> (agent_event_dto, protocol_error) result" where
  "encode_event env event =
     and_then (encode_timestamp env (ev_occurred_at event) ''event occurred_at'') (\<lambda>occurred_at.
     and_then (encode_event_payload env (ev_payload event)) (\<lambda>payload.
     Ok \<lparr>aed_id = we_uuid_show env (event_uuid (ev_id event)),
         aed_session_id = we_uuid_show env (session_uuid (ev_session_id event)),
         aed_sequence = DecimalU64 (ev_sequence event), aed_occurred_at = occurred_at,
         aed_payload = payload\<rparr>))"

definition decode_event :: "wire_env \<Rightarrow> agent_event_dto \<Rightarrow> (agent_event, protocol_error) result" where
  "decode_event env dto =
     and_then (parse_event_id env (aed_id dto)) (\<lambda>i.
     and_then (parse_session_id env (aed_session_id dto)) (\<lambda>sid.
     and_then (map_err DomainViolation (EventSequence_new (get_u64 (aed_sequence dto)))) (\<lambda>seq.
     and_then (decode_timestamp env (aed_occurred_at dto) ''event occurred_at'') (\<lambda>occurred_at.
     and_then (decode_event_payload env (aed_payload dto)) (\<lambda>payload.
     map_err DomainViolation (AgentEvent_new i sid seq occurred_at payload))))))"

fun encode_protocol_message :: "wire_env \<Rightarrow> protocol_message \<Rightarrow> (message_dto, protocol_error) result" where
  "encode_protocol_message env (ProviderDescriptorMessage descriptor) =
     Ok (ProviderDescriptorDtoMessage (encode_provider_descriptor env descriptor))"
| "encode_protocol_message env (ChannelDescriptorMessage descriptor) =
     Ok (ChannelDescriptorDtoMessage (encode_channel_descriptor env descriptor))"
| "encode_protocol_message env (AgentSessionMessage session) =
     and_then (encode_session env session) (\<lambda>d. Ok (AgentSessionDtoMessage d))"
| "encode_protocol_message env (AgentEventMessage event) =
     and_then (encode_event env event) (\<lambda>d. Ok (AgentEventDtoMessage d))"
| "encode_protocol_message env (InteractionRequestMessage request) =
     and_then (encode_interaction_request env request) (\<lambda>d. Ok (InteractionRequestDtoMessage d))"
| "encode_protocol_message env (InteractionResponseMessage response) =
     and_then (encode_interaction_response env response) (\<lambda>d. Ok (InteractionResponseDtoMessage d))"
| "encode_protocol_message env (AgentCommandMessage command) =
     and_then (encode_command env command) (\<lambda>d. Ok (AgentCommandDtoMessage d))"

fun decode_protocol_message :: "wire_env \<Rightarrow> message_dto \<Rightarrow> (protocol_message, protocol_error) result" where
  "decode_protocol_message env (ProviderDescriptorDtoMessage descriptor) =
     and_then (decode_provider_descriptor env descriptor) (\<lambda>x. Ok (ProviderDescriptorMessage x))"
| "decode_protocol_message env (ChannelDescriptorDtoMessage descriptor) =
     and_then (decode_channel_descriptor env descriptor) (\<lambda>x. Ok (ChannelDescriptorMessage x))"
| "decode_protocol_message env (AgentSessionDtoMessage session) =
     and_then (decode_session env session) (\<lambda>x. Ok (AgentSessionMessage x))"
| "decode_protocol_message env (AgentEventDtoMessage event) =
     and_then (decode_event env event) (\<lambda>x. Ok (AgentEventMessage x))"
| "decode_protocol_message env (InteractionRequestDtoMessage request) =
     and_then (decode_interaction_request env request) (\<lambda>x. Ok (InteractionRequestMessage x))"
| "decode_protocol_message env (InteractionResponseDtoMessage response) =
     and_then (decode_interaction_response env response) (\<lambda>x. Ok (InteractionResponseMessage x))"
| "decode_protocol_message env (AgentCommandDtoMessage command) =
     and_then (decode_command env command) (\<lambda>x. Ok (AgentCommandMessage x))"

definition encode_envelope :: "wire_env \<Rightarrow> protocol_message \<Rightarrow> (envelope_dto, protocol_error) result" where
  "encode_envelope env message =
     and_then (encode_protocol_message env message) (\<lambda>d.
     Ok \<lparr>env_protocol_version = V2_PROTOCOL_VERSION, env_message = d\<rparr>)"

definition decode_envelope :: "wire_env \<Rightarrow> envelope_dto \<Rightarrow> (protocol_message, protocol_error) result" where
  "decode_envelope env envelope =
     (if env_protocol_version envelope \<noteq> V2_PROTOCOL_VERSION
      then Err (UnsupportedProtocolVersion (ucast (env_protocol_version envelope)) V2_PROTOCOL_VERSION)
      else decode_protocol_message env (env_message envelope))"

end
