(* ===== verification/Wire_Roundtrip.thy ===== *)
theory Wire_Roundtrip
  imports Wire_Records
begin

text \<open>
  What a pair of conversions promises, as the locale \<open>codec\<close>: under the laws of the foreign
  code a valid value survives encoding, and whatever a decoder accepts is valid. Every pair of
  \<open>v2/convert.rs\<close> that can fail interprets it; the lifting to lists and options is proved once.
  A value is valid on the wire when it satisfies the invariant of its constructors
  (\<open>wf_\<close>) and its identifiers are UUIDs of version 7 (\<open>ids_\<close>).
\<close>

named_theorems wire_simps

section \<open>The contract of a codec\<close>

locale codec =
  fixes laws :: bool
    and enc :: "'a \<Rightarrow> ('d, 'e) result"
    and dec :: "'d \<Rightarrow> ('a, 'e) result"
    and valid :: "'a \<Rightarrow> bool"
  assumes round: "laws \<Longrightarrow> valid x \<Longrightarrow> enc x = Ok d \<Longrightarrow> dec d = Ok x"
    and sound: "dec d = Ok x \<Longrightarrow> valid x"
begin

lemma enc_inj: "laws \<Longrightarrow> valid x \<Longrightarrow> valid y \<Longrightarrow> enc x = Ok d \<Longrightarrow> enc y = Ok d \<Longrightarrow> x = y"
  by (metis round Inr_inject)

lemma normal: "laws \<Longrightarrow> dec d = Ok x \<Longrightarrow> enc x = Ok d' \<Longrightarrow> dec d' = Ok x"
  using round sound by blast

lemma round_list:
  "laws \<Longrightarrow> list_all valid xs \<Longrightarrow> collect_results enc xs = Ok ds \<Longrightarrow> collect_results dec ds = Ok xs"
  by (induction xs arbitrary: ds) (auto simp: result_simps round)

lemma sound_list: "collect_results dec ds = Ok xs \<Longrightarrow> list_all valid xs"
  by (induction ds arbitrary: xs) (auto simp: result_simps dest: sound)

lemma round_option:
  "laws \<Longrightarrow> pred_option valid x \<Longrightarrow> transpose_option (map_option enc x) = Ok d
     \<Longrightarrow> transpose_option (map_option dec d) = Ok x"
  by (cases x) (auto simp: result_simps round)

lemma sound_option: "transpose_option (map_option dec d) = Ok x \<Longrightarrow> pred_option valid x"
  by (cases d) (auto simp: result_simps dest: sound)

end

section \<open>Identifiers, times and text\<close>

definition v7 :: "wire_env \<Rightarrow> uuid \<Rightarrow> bool" where
  "v7 env u \<longleftrightarrow> we_uuid_version env u = 7"

lemma parse_id_Ok_iff [result_simps]:
  "parse_id env entity mk s = Ok i \<longleftrightarrow> (\<exists>u. we_uuid_parse env s = Some u \<and> v7 env u \<and> i = mk u)"
  by (auto simp: parse_id_def result_simps v7_def)

lemma parse_show [wire_simps]:
  "wire_laws env \<Longrightarrow> v7 env u \<Longrightarrow> parse_id env entity mk (we_uuid_show env u) = Ok (mk u)"
  by (simp add: parse_id_Ok_iff wire_laws_def)

lemma timestamp_round [wire_simps]:
  "wire_laws env \<Longrightarrow> encode_timestamp env t field = Ok s \<Longrightarrow> decode_timestamp env s field' = Ok t"
  by (auto simp: encode_timestamp_def decode_timestamp_def wire_laws_def result_simps)

lemma decode_text_Ok_iff [result_simps]: "decode_text s = Ok t \<longleftrightarrow> as_str t = s \<and> wf_text t"
  by (simp add: decode_text_def result_simps)

lemma decode_text_as_str [wire_simps]: "wf_text t \<Longrightarrow> decode_text (as_str t) = Ok t"
  by (simp add: decode_text_Ok_iff)

lemma decode_optional_text_Ok_iff [result_simps]:
  "decode_optional_text s = Ok t \<longleftrightarrow> map_option as_str t = s \<and> pred_option wf_text t"
  by (cases s; cases t) (auto simp: decode_optional_text_def result_simps)

lemma decode_optional_text_round [wire_simps]:
  "pred_option wf_text t \<Longrightarrow> decode_optional_text (map_option as_str t) = Ok t"
  by (simp add: decode_optional_text_Ok_iff)

lemma with_optional_Ok_iff [result_simps]:
  "with_optional attach s x = Ok y \<longleftrightarrow> (\<exists>t. s = map_option as_str t \<and> pred_option wf_text t
     \<and> y = (case t of None \<Rightarrow> x | Some v \<Rightarrow> attach x v))"
proof (cases s)
  case None
  then show ?thesis by (auto simp: with_optional_def)
next
  case (Some v)
  have "(\<exists>t. s = map_option as_str t \<and> pred_option wf_text t \<and> y = (case t of None \<Rightarrow> x | Some v \<Rightarrow> attach x v))
     \<longleftrightarrow> (\<exists>w. as_str w = v \<and> wf_text w \<and> y = attach x w)"
    by (rule iffI) (force simp: Some split: option.splits)+
  with Some show ?thesis by (auto simp: with_optional_def result_simps)
qed

lemma with_optional_round [wire_simps]:
  "pred_option wf_text t \<Longrightarrow>
     with_optional attach (map_option as_str t) x = Ok (case t of None \<Rightarrow> x | Some v \<Rightarrow> attach x v)"
  by (cases t) (simp_all add: with_optional_def wire_simps)

lemma with_optional_cases [wire_simps]:
  "with_optional attach None x = Ok x"
  "wf_text t \<Longrightarrow> with_optional attach (Some (as_str t)) x = Ok (attach x t)"
  by (simp_all add: with_optional_def wire_simps)

lemma constructors_accept [wire_simps]:
  "wf_slug s \<Longrightarrow> kind_new field mk s = Ok (mk s)"
  "v \<noteq> 0 \<Longrightarrow> counter_new field v = Ok v"
  "wf_text (external_text x) \<Longrightarrow> ExternalId_new (as_str (external_text x)) = Ok x"
  "distinct (map pi_id items) \<Longrightarrow> PlanSnapshot_new r items =
     Ok \<lparr>plan_revision = r, plan_explanation = None, plan_items = items\<rparr>"
  "as \<noteq> [] \<Longrightarrow> distinct (map ao_id as) \<Longrightarrow> ApprovalRequest_actionable subject as =
     Ok \<lparr>ar_subject = subject, ar_options = as, ar_unavailable_reason = None\<rparr>"
  "cs \<noteq> [] \<Longrightarrow> distinct (map co_id cs) \<Longrightarrow> ChoiceRequest_new cs multiple =
     Ok \<lparr>cr_options = cs, cr_multiple = multiple\<rparr>"
  "distinct (map co_id cs) \<Longrightarrow> (cs = [] \<longrightarrow> other) \<Longrightarrow> FormField_new fi header prompt cs other sens =
     Ok \<lparr>ff_id = fi, ff_header = header, ff_prompt = prompt, ff_options = cs, ff_allows_other = other,
         ff_sensitive = sens\<rparr>"
  "fs \<noteq> [] \<Longrightarrow> distinct (map ff_id fs) \<Longrightarrow> FormRequest_new fs blocking =
     Ok \<lparr>fr_fields = fs, fr_blocking = blocking\<rparr>"
  "fas \<noteq> [] \<Longrightarrow> distinct (map fa_field_id fas) \<Longrightarrow> FormResponse_new fas = Ok fas"
  "ids \<noteq> [] \<Longrightarrow> distinct ids \<Longrightarrow> ChoiceSelection_new ids = Ok ids"
  "ir_requested_at q < t \<Longrightarrow> with_expiration q t = Ok (q\<lparr>ir_expires_at := Some t\<rparr>)"
  "pred_option (\<lambda>y. y = sid) (embedded_session_id payload) \<Longrightarrow> AgentEvent_new ei sid seq at payload =
     Ok \<lparr>ev_id = ei, ev_session_id = sid, ev_sequence = seq, ev_occurred_at = at, ev_payload = payload\<rparr>"
  by (simp_all add: result_simps)

section \<open>Enumerations\<close>

lemma enum_round [wire_simps]:
  "encode_agent_state st = Ok sd \<Longrightarrow> decode_agent_state sd = st"
  "encode_connection_state cs = Ok cd \<Longrightarrow> decode_connection_state cd = cs"
  "encode_message_role ro = Ok rd \<Longrightarrow> decode_message_role rd = ro"
  "encode_message_level le = Ok ld \<Longrightarrow> decode_message_level ld = le"
  "encode_tool_outcome tou = Ok td \<Longrightarrow> decode_tool_outcome td = tou"
  "encode_plan_item_status ps = Ok pd \<Longrightarrow> decode_plan_item_status pd = ps"
  "encode_approval_command_kind ck = Ok kd \<Longrightarrow> decode_approval_command_kind kd = ck"
  "encode_approval_file_change_kind fk = Ok fd \<Longrightarrow> decode_approval_file_change_kind fd = fk"
  "encode_approval_disposition ad = Ok dd \<Longrightarrow> decode_approval_disposition dd = ad"
  "decode_close_reason (encode_close_reason cr) = cr"
  "decode_prompt_delivery (encode_prompt_delivery dl) = dl"
  "decode_queue_action (encode_queue_action qa) = qa"
  by ((cases st; force), (cases cs; force), (cases ro; force), (cases le; force), (cases tou; force), (cases ps; force),
      (cases ck; force), (cases fk; force), (cases ad; force), (cases cr; force), (cases dl; force), (cases qa; force))

lemma enum_total:
  "\<exists>d. encode_agent_state st = Ok d" "\<exists>d. encode_connection_state cs = Ok d"
  "\<exists>d. encode_message_role ro = Ok d" "\<exists>d. encode_message_level le = Ok d"
  "\<exists>d. encode_tool_outcome tou = Ok d" "\<exists>d. encode_plan_item_status ps = Ok d"
  "\<exists>d. encode_approval_command_kind ck = Ok d" "\<exists>d. encode_approval_file_change_kind fk = Ok d"
  "\<exists>d. encode_approval_disposition ad = Ok d"
  by ((cases st; simp), (cases cs; simp), (cases ro; simp), (cases le; simp), (cases tou; simp), (cases ps; simp),
      (cases ck; simp), (cases fk; simp), (cases ad; simp))

end
