(* ===== verification/Wire_Capabilities.thy ===== *)
theory Wire_Capabilities
  imports Wire_Roundtrip
begin

text \<open>
  Capability sets travel as lists of names. The locale \<open>capability_list\<close> extends the contract
  of a capability set by the table of named flags, the encoder that lists them in table order and
  the decoder loop that refuses a repeated name; it is interpreted for Provider and Channel
  capabilities. A set is \<open>known\<close> when it has no bit outside the table.
\<close>

locale capability_list = capability_set cnone ccontains cunion
  for cnone :: "'c" and ccontains :: "'c \<Rightarrow> 'c \<Rightarrow> bool" and cunion :: "'c \<Rightarrow> 'c \<Rightarrow> 'c" +
  fixes flag :: "'d \<Rightarrow> 'c"
    and repeated :: "'d \<Rightarrow> 'e"
    and enc :: "'c \<Rightarrow> 'd list"
    and collect :: "'d list \<Rightarrow> 'c \<Rightarrow> 'd list \<Rightarrow> ('c, 'e) result"
    and known :: "'c \<Rightarrow> bool"
  assumes collect_Nil: "collect seen c [] = Ok c"
    and collect_Cons: "collect seen c (v # vs) =
      (if v \<in> set seen then Err (repeated v) else collect (v # seen) (cunion c (flag v)) vs)"
    and enc_distinct: "distinct (enc c)"
    and enc_set: "v \<in> set (enc c) \<longleftrightarrow> ccontains c (flag v)"
    and flag_none: "\<not> ccontains cnone (flag v)"
    and flag_union: "ccontains (cunion a b) (flag v) \<longleftrightarrow> ccontains a (flag v) \<or> ccontains b (flag v)"
    and flag_flag: "ccontains (flag v) (flag w) \<longleftrightarrow> v = w"
    and known_none: "known cnone"
    and known_union: "known a \<Longrightarrow> known (cunion a (flag v))"
    and known_ext: "known a \<Longrightarrow> known b \<Longrightarrow> (\<And>v. ccontains a (flag v) \<longleftrightarrow> ccontains b (flag v)) \<Longrightarrow> a = b"
begin

lemma collect_Ok_iff:
  "collect seen c vs = Ok c' \<longleftrightarrow>
     distinct vs \<and> set seen \<inter> set vs = {} \<and> c' = fold (\<lambda>v acc. cunion acc (flag v)) vs c"
  by (induction vs arbitrary: seen c) (auto simp: collect_Nil collect_Cons)

lemma contains_fold:
  "ccontains (fold (\<lambda>v acc. cunion acc (flag v)) vs c) (flag w) \<longleftrightarrow> ccontains c (flag w) \<or> w \<in> set vs"
  by (induction vs arbitrary: c) (auto simp: flag_union flag_flag)

lemma known_fold: "known c \<Longrightarrow> known (fold (\<lambda>v acc. cunion acc (flag v)) vs c)"
  by (induction vs arbitrary: c) (auto simp: known_union)

lemma decoded_members:
  assumes "collect [] cnone vs = Ok c"
  shows "known c" and "ccontains c (flag v) \<longleftrightarrow> v \<in> set vs"
  using assms by (auto simp: collect_Ok_iff contains_fold flag_none intro: known_fold known_none)

lemma decode_total_iff: "(\<exists>c. collect [] cnone vs = Ok c) \<longleftrightarrow> distinct vs"
  by (simp add: collect_Ok_iff)

lemma capability_round:
  assumes "known c"
  shows "collect [] cnone (enc c) = Ok c"
proof -
  obtain c' where c': "collect [] cnone (enc c) = Ok c'"
    using decode_total_iff enc_distinct by blast
  then have "c' = c"
    using assms by (intro known_ext decoded_members(1) [OF c']) (simp_all add: decoded_members(2) [OF c'] enc_set)
  with c' show ?thesis by simp
qed

lemma decode_determined_by_members:
  assumes "collect [] cnone vs = Ok c" and "collect [] cnone ws = Ok d"
  shows "c = d \<longleftrightarrow> set vs = set ws"
  using decoded_members [OF assms(1)] decoded_members [OF assms(2)] known_ext by blast

end

section \<open>Bits of the two tables\<close>

fun provider_bit :: "provider_capability_dto \<Rightarrow> nat" where
  "provider_bit PSessionState = 0"
| "provider_bit PToolEvents = 1"
| "provider_bit PPlan = 2"
| "provider_bit PProgress = 3"
| "provider_bit PApprovalRequest = 4"
| "provider_bit PApprovalResponse = 5"
| "provider_bit PUserInputRequest = 6"
| "provider_bit PUserInputResponse = 7"
| "provider_bit PPromptSubmit = 8"
| "provider_bit PCancel = 9"
| "provider_bit PControl = 10"

fun channel_bit :: "channel_capability_dto \<Rightarrow> nat" where
  "channel_bit CNotification = 0"
| "channel_bit CSessionView = 1"
| "channel_bit CToolView = 2"
| "channel_bit CPlanView = 3"
| "channel_bit CProgressView = 4"
| "channel_bit CRichMessage = 5"
| "channel_bit CApproval = 6"
| "channel_bit CChoiceInput = 7"
| "channel_bit CTextInput = 8"
| "channel_bit CFormInput = 9"
| "channel_bit CRealtimeSync = 10"
| "channel_bit CRemoteCommand = 11"

lemma provider_flag_bit: "provider_capability_flag v = ProviderCapabilities (2 ^ provider_bit v)"
  by (cases v) (simp_all add: capability_flags)

lemma channel_flag_bit: "channel_capability_flag v = ChannelCapabilities (2 ^ channel_bit v)"
  by (cases v) (simp_all add: capability_flags)

lemma provider_bit_less: "provider_bit v < 11"
  by (cases v) simp_all

lemma channel_bit_less: "channel_bit v < 12"
  by (cases v) simp_all

lemma provider_bit_inj: "provider_bit v = provider_bit w \<longleftrightarrow> v = w"
  by (cases v; cases w) simp_all

lemma channel_bit_inj: "channel_bit v = channel_bit w \<longleftrightarrow> v = w"
  by (cases v; cases w) simp_all

text \<open>The table lists the flags in the order of their bits.\<close>

lemma known_provider_nth: "n < 11 \<Longrightarrow> provider_bit (map snd known_provider_capabilities ! n) = n"
  by (auto simp: less_Suc_eq numeral_eq_Suc known_provider_capabilities_def)

lemma known_channel_nth: "n < 12 \<Longrightarrow> channel_bit (map snd known_channel_capabilities ! n) = n"
  by (auto simp: less_Suc_eq numeral_eq_Suc known_channel_capabilities_def)

lemma provider_bit_onto: "n < 11 \<Longrightarrow> \<exists>v. provider_bit v = n"
  using known_provider_nth by blast

lemma channel_bit_onto: "n < 12 \<Longrightarrow> \<exists>v. channel_bit v = n"
  using known_channel_nth by blast

lemma flags_contains_bit: "n < 16 \<Longrightarrow> flags_contains a (2 ^ n) \<longleftrightarrow> bit a n"
  by (auto simp: flags_contains_iff bit_simps)

lemma provider_contains_flag:
  "pc_contains c (provider_capability_flag v) \<longleftrightarrow> bit (provider_bits c) (provider_bit v)"
  using provider_bit_less [of v] by (simp add: pc_contains_def provider_flag_bit flags_contains_bit)

lemma channel_contains_flag:
  "cc_contains c (channel_capability_flag v) \<longleftrightarrow> bit (channel_bits c) (channel_bit v)"
  using channel_bit_less [of v] by (simp add: cc_contains_def channel_flag_bit flags_contains_bit)

definition known_provider :: "provider_capabilities \<Rightarrow> bool" where
  "known_provider c \<longleftrightarrow> take_bit 11 (provider_bits c) = provider_bits c"

definition known_channel :: "channel_capabilities \<Rightarrow> bool" where
  "known_channel c \<longleftrightarrow> take_bit 12 (channel_bits c) = channel_bits c"

lemma take_bit_fixed: "take_bit k w = (w :: u16) \<longleftrightarrow> (\<forall>n. bit w n \<longrightarrow> n < k)"
  by (metis bit_take_bit_iff bit_eqI)

lemma known_provider_table:
  "(c, v) \<in> set known_provider_capabilities \<longleftrightarrow> c = provider_capability_flag v"
  by (cases v) (auto simp: known_provider_capabilities_def)

lemma known_channel_table:
  "(c, v) \<in> set known_channel_capabilities \<longleftrightarrow> c = channel_capability_flag v"
  by (cases v) (auto simp: known_channel_capabilities_def)

lemma map_filter_fst:
  "List.map_filter (\<lambda>(c, d). if P c then Some d else None) xs = map snd (filter (P \<circ> fst) xs)"
  by (induction xs) (auto simp: List.map_filter_simps)

lemma mem_filter_snd: "v \<in> set (map snd (filter (P \<circ> fst) xs)) \<longleftrightarrow> (\<exists>c. (c, v) \<in> set xs \<and> P c)"
  by force

section \<open>Interpretations\<close>

interpretation pcaps: capability_list PC_NONE pc_contains pc_union provider_capability_flag
  "\<lambda>v. duplicate_capability ''provider capabilities'' (provider_capability_name v)"
  encode_provider_capabilities collect_provider_capabilities known_provider
proof unfold_locales
  fix a b c v w
  show "distinct (encode_provider_capabilities c)"
    unfolding encode_provider_capabilities_def map_filter_fst
    by (rule distinct_map_filter) (simp add: known_provider_capabilities_def)
  show "v \<in> set (encode_provider_capabilities c) \<longleftrightarrow> pc_contains c (provider_capability_flag v)"
    unfolding encode_provider_capabilities_def map_filter_fst mem_filter_snd known_provider_table by simp
  show "\<not> pc_contains PC_NONE (provider_capability_flag v)"
    by (simp add: provider_contains_flag PC_NONE_def)
  show "pc_contains (pc_union a b) (provider_capability_flag v) \<longleftrightarrow>
      pc_contains a (provider_capability_flag v) \<or> pc_contains b (provider_capability_flag v)"
    by (simp add: provider_contains_flag pc_union_def flags_union_def bit_or_iff)
  show "pc_contains (provider_capability_flag v) (provider_capability_flag w) \<longleftrightarrow> v = w"
    using provider_bit_less [of v]
    unfolding provider_contains_flag by (auto simp: provider_flag_bit bit_simps provider_bit_inj)
  show "known_provider PC_NONE" by (simp add: known_provider_def PC_NONE_def)
  show "known_provider a \<Longrightarrow> known_provider (pc_union a (provider_capability_flag v))"
    using provider_bit_less [of v]
    unfolding known_provider_def take_bit_fixed
    by (auto simp: pc_union_def flags_union_def provider_flag_bit bit_simps)
next
  fix a b
  assume "known_provider a" "known_provider b"
    and same: "\<And>v. pc_contains a (provider_capability_flag v) \<longleftrightarrow> pc_contains b (provider_capability_flag v)"
  then have "bit (provider_bits a) n \<longleftrightarrow> bit (provider_bits b) n" for n
    using provider_bit_onto [of n] unfolding known_provider_def take_bit_fixed
    by (metis provider_contains_flag)
  then show "a = b" by (intro provider_capabilities.expand bit_eqI) simp
qed simp_all

interpretation ccaps: capability_list CC_NONE cc_contains cc_union channel_capability_flag
  "\<lambda>v. duplicate_capability ''channel capabilities'' (channel_capability_name v)"
  encode_channel_capabilities collect_channel_capabilities known_channel
proof unfold_locales
  fix a b c v w
  show "distinct (encode_channel_capabilities c)"
    unfolding encode_channel_capabilities_def map_filter_fst
    by (rule distinct_map_filter) (simp add: known_channel_capabilities_def)
  show "v \<in> set (encode_channel_capabilities c) \<longleftrightarrow> cc_contains c (channel_capability_flag v)"
    unfolding encode_channel_capabilities_def map_filter_fst mem_filter_snd known_channel_table by simp
  show "\<not> cc_contains CC_NONE (channel_capability_flag v)"
    by (simp add: channel_contains_flag CC_NONE_def)
  show "cc_contains (cc_union a b) (channel_capability_flag v) \<longleftrightarrow>
      cc_contains a (channel_capability_flag v) \<or> cc_contains b (channel_capability_flag v)"
    by (simp add: channel_contains_flag cc_union_def flags_union_def bit_or_iff)
  show "cc_contains (channel_capability_flag v) (channel_capability_flag w) \<longleftrightarrow> v = w"
    using channel_bit_less [of v]
    unfolding channel_contains_flag by (auto simp: channel_flag_bit bit_simps channel_bit_inj)
  show "known_channel CC_NONE" by (simp add: known_channel_def CC_NONE_def)
  show "known_channel a \<Longrightarrow> known_channel (cc_union a (channel_capability_flag v))"
    using channel_bit_less [of v]
    unfolding known_channel_def take_bit_fixed
    by (auto simp: cc_union_def flags_union_def channel_flag_bit bit_simps)
next
  fix a b
  assume "known_channel a" "known_channel b"
    and same: "\<And>v. cc_contains a (channel_capability_flag v) \<longleftrightarrow> cc_contains b (channel_capability_flag v)"
  then have "bit (channel_bits a) n \<longleftrightarrow> bit (channel_bits b) n" for n
    using channel_bit_onto [of n] unfolding known_channel_def take_bit_fixed
    by (metis channel_contains_flag)
  then show "a = b" by (intro channel_capabilities.expand bit_eqI) simp
qed simp_all

lemma capability_wire [wire_simps]:
  "known_provider c \<Longrightarrow> decode_provider_capabilities (encode_provider_capabilities c) = Ok c"
  "known_channel k \<Longrightarrow> decode_channel_capabilities (encode_channel_capabilities k) = Ok k"
  by (simp_all add: decode_provider_capabilities_def decode_channel_capabilities_def
      pcaps.capability_round ccaps.capability_round)

lemma capability_sound:
  "decode_provider_capabilities vs = Ok c \<Longrightarrow> known_provider c"
  "decode_channel_capabilities ws = Ok k \<Longrightarrow> known_channel k"
  by (simp_all add: decode_provider_capabilities_def decode_channel_capabilities_def
      pcaps.decoded_members(1) ccaps.decoded_members(1))

end
