(* ===== verification/Wire_Codecs.thy ===== *)
theory Wire_Codecs
  imports Wire_Capabilities
begin

text \<open>
  Every compound conversion interprets \<open>codec\<close>, from the leaves to the whole message. Under
  the heading of each group stand the identifiers its values carry (\<open>ids_\<close>) and the
  validity its decoder establishes (\<open>wire_\<close>).
\<close>

lemma list_all_conj: "list_all P xs \<and> list_all Q xs \<longleftrightarrow> list_all (\<lambda>x. P x \<and> Q x) xs"
  by (auto simp: list_all_iff)

section \<open>Endpoints and sessions\<close>

definition wire_provider :: "wire_env \<Rightarrow> provider_descriptor \<Rightarrow> bool" where
  "wire_provider env d \<longleftrightarrow> v7 env (provider_uuid (pd_id d)) \<and> wf_slug (provider_slug (pd_kind d))
     \<and> wf_text (pd_display_name d) \<and> pred_option wf_text (pd_version d)
     \<and> known_provider (pd_capabilities d)"

definition wire_channel :: "wire_env \<Rightarrow> channel_descriptor \<Rightarrow> bool" where
  "wire_channel env d \<longleftrightarrow> v7 env (channel_uuid (cd_id d)) \<and> wf_slug (channel_slug (cd_kind d))
     \<and> wf_text (cd_display_name d) \<and> pred_option wf_text (cd_version d)
     \<and> known_channel (cd_capabilities d)"

definition wire_session :: "wire_env \<Rightarrow> agent_session \<Rightarrow> bool" where
  "wire_session env s \<longleftrightarrow> wf_session s \<and> v7 env (session_uuid (ses_id s))
     \<and> v7 env (provider_uuid (ses_provider_id s))"

interpretation provider_wire: codec "wire_laws env" "\<lambda>x. Ok (encode_provider_descriptor env x)"
  "decode_provider_descriptor env" "wire_provider env" for env
proof unfold_locales
  fix x d
  assume laws: "wire_laws env" and ok: "wire_provider env x"
    and "Ok (encode_provider_descriptor env x) = (Ok d :: (_, protocol_error) result)"
  then have d: "d = encode_provider_descriptor env x" by simp
  from laws ok show "decode_provider_descriptor env d = Ok x"
    by (cases x; cases "pd_version x")
      (simp_all add: d encode_provider_descriptor_def decode_provider_descriptor_def wire_provider_def
        wire_simps ProviderKind_new_def ProviderDescriptor_new_def pd_with_version_def)
next
  fix x d
  assume "decode_provider_descriptor env d = Ok x"
  then show "wire_provider env x"
    by (auto simp: decode_provider_descriptor_def wire_provider_def result_simps ProviderKind_new_def
        ProviderDescriptor_new_def pd_with_version_def dest: capability_sound split: option.splits)
qed

interpretation channel_wire: codec "wire_laws env" "\<lambda>x. Ok (encode_channel_descriptor env x)"
  "decode_channel_descriptor env" "wire_channel env" for env
proof unfold_locales
  fix x d
  assume laws: "wire_laws env" and ok: "wire_channel env x"
    and "Ok (encode_channel_descriptor env x) = (Ok d :: (_, protocol_error) result)"
  then have d: "d = encode_channel_descriptor env x" by simp
  from laws ok show "decode_channel_descriptor env d = Ok x"
    by (cases x; cases "cd_version x")
      (simp_all add: d encode_channel_descriptor_def decode_channel_descriptor_def wire_channel_def
        wire_simps ChannelKind_new_def ChannelDescriptor_new_def cd_with_version_def)
next
  fix x d
  assume "decode_channel_descriptor env d = Ok x"
  then show "wire_channel env x"
    by (auto simp: decode_channel_descriptor_def wire_channel_def result_simps ChannelKind_new_def
        ChannelDescriptor_new_def cd_with_version_def dest: capability_sound split: option.splits)
qed

interpretation workspace_wire: codec True "\<lambda>x. Ok (encode_workspace x)" decode_workspace wf_workspace
proof unfold_locales
  fix x d
  assume "wf_workspace x" "Ok (encode_workspace x) = (Ok d :: (_, protocol_error) result)"
  then show "decode_workspace d = Ok x"
    by (cases x; cases "ws_display_name x") (auto simp: encode_workspace_def decode_workspace_def
        wf_workspace_def wire_simps WorkspaceRef_new_def ws_with_display_name_def)
next
  fix x d
  assume "decode_workspace d = Ok x"
  then show "wf_workspace x"
    by (auto simp: decode_workspace_def wf_workspace_def result_simps WorkspaceRef_new_def
        ws_with_display_name_def split: option.splits)
qed

lemma build_optional_round:
  assumes "pred_option (\<lambda>x. wf_text (external_text x)) (ses_external_id s)"
    and "pred_option wf_text (ses_title s)" and "pred_option wf_workspace (ses_workspace s)"
    and "sd_external_id dto = map_option (\<lambda>x. as_str (external_text x)) (ses_external_id s)"
    and "sd_title dto = map_option as_str (ses_title s)"
    and "sd_workspace dto = map_option encode_workspace (ses_workspace s)"
    and "ses_external_id b = None" and "ses_title b = None" and "ses_workspace b = None"
  shows "build_optional_fields dto b = Ok (b\<lparr>ses_external_id := ses_external_id s,
     ses_title := ses_title s, ses_workspace := ses_workspace s\<rparr>)"
proof -
  have ws: "decode_workspace (encode_workspace w) = Ok w" if "wf_workspace w" for w
    using that by (intro workspace_wire.round) simp_all
  have none: "b\<lparr>ses_external_id := None\<rparr> = b" "c\<lparr>ses_title := ses_title c\<rparr> = c"
    "c\<lparr>ses_workspace := ses_workspace c\<rparr> = c" for c :: agent_session_builder
    using assms(7) by simp_all
  show ?thesis
    using assms
    by (cases "ses_external_id s"; cases "ses_title s"; cases "ses_workspace s"; cases b)
      (auto simp: build_optional_fields_def wire_simps ws sb_external_id_def sb_title_def sb_workspace_def)
qed

lemma build_optional_sound:
  assumes ok: "build_optional_fields dto b = Ok c"
    and none: "ses_external_id b = None" "ses_title b = None" "ses_workspace b = None"
  shows "pred_option (\<lambda>x. wf_text (external_text x)) (ses_external_id c)
    \<and> pred_option wf_text (ses_title c) \<and> pred_option wf_workspace (ses_workspace c)
    \<and> ses_id c = ses_id b \<and> ses_provider_id c = ses_provider_id b \<and> ses_revision c = ses_revision b"
proof -
  obtain b1 b2 where b1: "(case sd_external_id dto of
        Some external_id \<Rightarrow> and_then (map_err DomainViolation (ExternalId_new external_id))
          (\<lambda>x. Ok (sb_external_id b x))
      | None \<Rightarrow> Ok b) = Ok b1"
    and b2: "with_optional sb_title (sd_title dto) b1 = Ok b2"
    and c: "(case sd_workspace dto of
        Some workspace \<Rightarrow> and_then (decode_workspace workspace) (\<lambda>x. Ok (sb_workspace b2 x))
      | None \<Rightarrow> Ok b2) = Ok c"
    using ok unfolding build_optional_fields_def and_then_Ok_iff by blast
  let ?same = "\<lambda>x y :: agent_session. ses_id x = ses_id y \<and> ses_provider_id x = ses_provider_id y
    \<and> ses_revision x = ses_revision y"
  have 1: "pred_option (\<lambda>x. wf_text (external_text x)) (ses_external_id b1) \<and> ses_title b1 = None
      \<and> ses_workspace b1 = None \<and> ?same b1 b"
    using b1 none by (cases "sd_external_id dto") (auto simp: result_simps sb_external_id_def)
  have 2: "pred_option wf_text (ses_title b2) \<and> ses_external_id b2 = ses_external_id b1
      \<and> ses_workspace b2 = None \<and> ?same b2 b1"
    using b2 1 by (cases "sd_title dto") (auto simp: with_optional_def result_simps sb_title_def)
  have "pred_option wf_workspace (ses_workspace c) \<and> ses_external_id c = ses_external_id b2
      \<and> ses_title c = ses_title b2 \<and> ?same c b2"
    using c 2 workspace_wire.sound by (cases "sd_workspace dto") (auto simp: result_simps sb_workspace_def)
  with 1 2 show ?thesis by simp
qed

interpretation session_wire: codec "wire_laws env" "encode_session env" "decode_session env"
  "wire_session env" for env
proof unfold_locales
  fix x d
  assume laws: "wire_laws env" and ok: "wire_session env x" and enc: "encode_session env x = Ok d"
  let ?b = "x\<lparr>ses_external_id := None, ses_title := None, ses_workspace := None\<rparr>"
  have opt: "build_optional_fields d ?b = Ok x"
    using ok enc by (subst build_optional_round [where s = x])
      (auto simp: wire_session_def wf_session_def encode_session_def result_simps)
  from laws ok enc show "decode_session env d = Ok x"
    by (clarsimp simp: encode_session_def result_simps(1))
      (insert opt, cases x, simp add: decode_session_def wire_simps Revision_new_def session_build_def
        session_builder_def wire_session_def wf_session_def sb_state_def sb_connection_state_def
        sb_revision_def)
next
  fix x d
  assume "decode_session env d = Ok x"
  then show "wire_session env x"
    by (clarsimp simp: decode_session_def result_simps wire_session_def wf_session_def Revision_new_def
        session_builder_def sb_state_def sb_connection_state_def sb_revision_def)
      (drule build_optional_sound; simp)
qed

section \<open>Messages, tools, outcomes, plans and progress\<close>

fun wire_tool_activity :: "wire_env \<Rightarrow> tool_activity \<Rightarrow> bool" where
  "wire_tool_activity env (ToolStarted i name summary) =
     (v7 env (tool_call_uuid i) \<and> wf_tool_activity (ToolStarted i name summary))"
| "wire_tool_activity env (ToolFinished i outcome summary) =
     (v7 env (tool_call_uuid i) \<and> wf_tool_activity (ToolFinished i outcome summary))"

definition wire_plan_item :: "wire_env \<Rightarrow> plan_item \<Rightarrow> bool" where
  "wire_plan_item env i \<longleftrightarrow> wf_plan_item i \<and> v7 env (plan_item_uuid (pi_id i))"

definition wire_plan :: "wire_env \<Rightarrow> plan_snapshot \<Rightarrow> bool" where
  "wire_plan env p \<longleftrightarrow> wf_plan p \<and> list_all (\<lambda>i. v7 env (plan_item_uuid (pi_id i))) (plan_items p)"

lemma wire_plan_items:
  "wire_plan env p \<longleftrightarrow> plan_revision p \<noteq> 0 \<and> pred_option wf_text (plan_explanation p)
     \<and> distinct (map pi_id (plan_items p)) \<and> list_all (wire_plan_item env) (plan_items p)"
  by (auto simp: wire_plan_def wf_plan_def wire_plan_item_def list_all_iff)

interpretation message_wire: codec True encode_message decode_message "\<lambda>m. wf_text (msg_content m)"
proof unfold_locales
  fix x d
  assume "wf_text (msg_content x)" "encode_message x = Ok d"
  then show "decode_message d = Ok x"
    by (clarsimp simp: encode_message_def result_simps(1)) (simp add: decode_message_def wire_simps)
qed (auto simp: decode_message_def result_simps)

interpretation tool_wire: codec "wire_laws env" "encode_tool_activity env" "decode_tool_activity env"
  "wire_tool_activity env" for env
proof unfold_locales
  fix x d
  assume "wire_laws env" "wire_tool_activity env x" "encode_tool_activity env x = Ok d"
  then show "decode_tool_activity env d = Ok x"
    by (cases x) (auto simp: wire_simps and_then_Ok_iff [of "encode_tool_outcome _"])
next
  fix x d
  assume "decode_tool_activity env d = Ok x"
  then show "wire_tool_activity env x" by (cases d) (auto simp: result_simps)
qed

interpretation outcome_wire: codec True encode_session_outcome decode_session_outcome wf_outcome
proof unfold_locales
  fix x d
  assume "wf_outcome x" "encode_session_outcome x = Ok d"
  then show "decode_session_outcome d = Ok x" by (cases x) (auto simp: wire_simps)
next
  fix x d
  assume "decode_session_outcome d = Ok x"
  then show "wf_outcome x" by (cases d) (auto simp: result_simps)
qed

interpretation plan_item_wire: codec "wire_laws env" "encode_plan_item env" "decode_plan_item env"
  "wire_plan_item env" for env
proof unfold_locales
  fix x d
  assume "wire_laws env" "wire_plan_item env x" "encode_plan_item env x = Ok d"
  then show "decode_plan_item env d = Ok x"
    by (clarsimp simp: encode_plan_item_def result_simps(1))
      (simp add: decode_plan_item_def wire_plan_item_def wf_plan_item_def wire_simps)
qed (auto simp: decode_plan_item_def wire_plan_item_def wf_plan_item_def result_simps)

interpretation plan_wire: codec "wire_laws env" "encode_plan env" "decode_plan env" "wire_plan env" for env
proof unfold_locales
  fix x d
  assume laws: "wire_laws env" and ok: "wire_plan env x" and enc: "encode_plan env x = Ok d"
  from enc obtain items where "collect_results (encode_plan_item env) (plan_items x) = Ok items"
    and d: "d = \<lparr>psd_revision = DecimalU64 (plan_revision x),
      psd_explanation = map_option as_str (plan_explanation x), psd_items = items\<rparr>"
    by (auto simp: encode_plan_def result_simps)
  with laws ok have "collect_results (decode_plan_item env) items = Ok (plan_items x)"
    by (auto simp: wire_plan_items intro: plan_item_wire.round_list)
  with ok show "decode_plan env d = Ok x"
    by (cases x; cases "plan_explanation x") (auto simp: d decode_plan_def wire_plan_items wire_simps
        Revision_new_def plan_with_explanation_def)
next
  fix x d
  assume "decode_plan env d = Ok x"
  then show "wire_plan env x"
    by (auto simp: decode_plan_def wire_plan_items result_simps Revision_new_def plan_with_explanation_def
        dest: plan_item_wire.sound_list split: option.splits)
qed

interpretation progress_value_wire: codec True encode_progress_value decode_progress_value wf_progress_value
proof unfold_locales
  fix x d
  assume "wf_progress_value x" "encode_progress_value x = Ok d"
  then show "decode_progress_value d = Ok x"
    by (cases x) (auto simp: DeterminateProgress_new_def not_less)
next
  fix x d
  assume "decode_progress_value d = Ok x"
  then show "wf_progress_value x" by (cases d) (auto simp: result_simps)
qed

interpretation progress_wire: codec True encode_progress decode_progress wf_progress
proof unfold_locales
  fix x d
  assume ok: "wf_progress x" and "encode_progress x = Ok d"
  then obtain v where "encode_progress_value (prog_value x) = Ok v"
    and d: "d = \<lparr>prd_revision = DecimalU64 (prog_revision x), prd_value = v,
      prd_message = map_option as_str (prog_message x)\<rparr>"
    by (auto simp: encode_progress_def result_simps)
  with ok have "decode_progress_value v = Ok (prog_value x)"
    by (auto simp: wf_progress_def intro: progress_value_wire.round)
  with ok show "decode_progress d = Ok x"
    by (cases x; cases "prog_message x") (auto simp: d decode_progress_def wf_progress_def wire_simps
        Revision_new_def ProgressSnapshot_new_def prog_with_message_def)
next
  fix x d
  assume "decode_progress d = Ok x"
  then show "wf_progress x"
    by (auto simp: decode_progress_def wf_progress_def result_simps Revision_new_def
        ProgressSnapshot_new_def prog_with_message_def dest: progress_value_wire.sound split: option.splits)
qed

end
