(* ===== verification/Wire_Interaction.thy ===== *)
theory Wire_Interaction
  imports Wire_Codecs
begin

text \<open>The codecs of interaction requests, responses and closures.\<close>

section \<open>Requests\<close>

definition wire_choice_option :: "wire_env \<Rightarrow> choice_option \<Rightarrow> bool" where
  "wire_choice_option env c \<longleftrightarrow> wf_choice_option c \<and> v7 env (choice_option_uuid (co_id c))"

definition wire_approval_option :: "wire_env \<Rightarrow> approval_option \<Rightarrow> bool" where
  "wire_approval_option env c \<longleftrightarrow> wf_approval_option c \<and> v7 env (approval_option_uuid (ao_id c))"

definition wire_form_field :: "wire_env \<Rightarrow> form_field \<Rightarrow> bool" where
  "wire_form_field env f \<longleftrightarrow> wf_form_field f \<and> v7 env (form_field_uuid (ff_id f))
     \<and> list_all (wire_choice_option env) (ff_options f)"

fun wire_request_payload :: "wire_env \<Rightarrow> interaction_request_payload \<Rightarrow> bool" where
  "wire_request_payload env (ApprovalRequested r) =
     (wf_approval r \<and> list_all (wire_approval_option env) (ar_options r))"
| "wire_request_payload env (ChoiceRequested r) =
     (wf_choice r \<and> list_all (wire_choice_option env) (cr_options r))"
| "wire_request_payload env (TextRequested r) = pred_option wf_text (ti_placeholder r)"
| "wire_request_payload env (FormRequested r) =
     (wf_form r \<and> list_all (wire_form_field env) (fr_fields r))"

definition wire_request :: "wire_env \<Rightarrow> interaction_request \<Rightarrow> bool" where
  "wire_request env r \<longleftrightarrow> wf_request r \<and> v7 env (interaction_uuid (ir_id r))
     \<and> v7 env (session_uuid (ir_session_id r)) \<and> wire_request_payload env (ir_payload r)"

interpretation choice_option_wire: codec "wire_laws env" "encode_choice_option env"
  "decode_choice_option env" "wire_choice_option env" for env
proof unfold_locales
  fix x d
  assume "wire_laws env" "wire_choice_option env x" "encode_choice_option env x = Ok d"
  then show "decode_choice_option env d = Ok x"
    by (cases x; cases "co_description x") (auto simp: encode_choice_option_def decode_choice_option_def
        wire_choice_option_def wf_choice_option_def wire_simps ChoiceOption_new_def co_with_description_def)
next
  fix x d
  assume "decode_choice_option env d = Ok x"
  then show "wire_choice_option env x"
    by (auto simp: decode_choice_option_def wire_choice_option_def wf_choice_option_def result_simps
        ChoiceOption_new_def co_with_description_def split: option.splits)
qed

interpretation approval_option_wire: codec "wire_laws env" "encode_approval_option env"
  "decode_approval_option env" "wire_approval_option env" for env
proof unfold_locales
  fix x d
  assume "wire_laws env" "wire_approval_option env x" "encode_approval_option env x = Ok d"
  then show "decode_approval_option env d = Ok x"
    by (cases x; cases "ao_description x"; clarsimp simp: encode_approval_option_def result_simps(1))
      (auto simp: decode_approval_option_def wire_approval_option_def wf_approval_option_def wire_simps
        ApprovalOption_new_def ao_with_description_def)
next
  fix x d
  assume "decode_approval_option env d = Ok x"
  then show "wire_approval_option env x"
    by (auto simp: decode_approval_option_def wire_approval_option_def wf_approval_option_def result_simps
        ApprovalOption_new_def ao_with_description_def split: option.splits)
qed

interpretation network_wire: codec True "\<lambda>x. Ok (encode_network_context x)" decode_network_context
  "\<lambda>n. wf_text (anc_host n) \<and> wf_text (anc_protocol n)"
proof unfold_locales
  fix x d
  assume "wf_text (anc_host x) \<and> wf_text (anc_protocol x)"
    "Ok (encode_network_context x) = (Ok d :: (_, protocol_error) result)"
  then show "decode_network_context d = Ok x"
    by (auto simp: encode_network_context_def decode_network_context_def wire_simps)
qed (auto simp: decode_network_context_def result_simps)

interpretation file_change_wire: codec True encode_file_change decode_file_change
  "\<lambda>c. wf_text (afc_path c)"
proof unfold_locales
  fix x d
  assume "wf_text (afc_path x)" "encode_file_change x = Ok d"
  then show "decode_file_change d = Ok x"
    by (clarsimp simp: encode_file_change_def result_simps(1)) (simp add: decode_file_change_def wire_simps)
qed (auto simp: decode_file_change_def result_simps)

lemma transpose_Ok [simp]: "transpose_option (map_option (\<lambda>x. Ok (f x)) v) = Ok (map_option f v)"
  by (cases v) simp_all

interpretation subject_wire: codec True encode_approval_subject decode_approval_subject wf_approval_subject
proof unfold_locales
  fix x d
  assume ok: "wf_approval_subject x" and enc: "encode_approval_subject x = Ok d"
  show "decode_approval_subject d = Ok x"
  proof (cases x)
    case (CommandSubject kind command cwd reason network)
    with ok have "transpose_option (map_option decode_network_context (map_option encode_network_context network))
        = Ok network"
      by (intro network_wire.round_option) simp_all
    with CommandSubject ok enc show ?thesis
      by (clarsimp simp: result_simps(1)) (simp add: wire_simps)
  next
    case (FileChangeSubject changes grant_root reason)
    with ok enc obtain ds where "collect_results encode_file_change changes = Ok ds"
      and d: "d = FileChangeSubjectDto ds (map_option as_str grant_root) (map_option as_str reason)"
      by (auto simp: result_simps)
    with ok FileChangeSubject have "collect_results decode_file_change ds = Ok changes"
      by (auto intro: file_change_wire.round_list)
    with ok FileChangeSubject show ?thesis by (simp add: d wire_simps)
  qed
next
  fix x d
  assume "decode_approval_subject d = Ok x"
  then show "wf_approval_subject x"
    by (cases d) (auto simp: and_then_Ok_iff decode_optional_text_Ok_iff
        dest: file_change_wire.sound_list network_wire.sound_option)
qed

interpretation form_field_wire: codec "wire_laws env" "encode_form_field env" "decode_form_field env"
  "wire_form_field env" for env
proof unfold_locales
  fix x d
  assume laws: "wire_laws env" and ok: "wire_form_field env x" and enc: "encode_form_field env x = Ok d"
  from enc obtain opts where opts: "collect_results (encode_choice_option env) (ff_options x) = Ok opts"
    and d: "d = \<lparr>ffd_id = we_uuid_show env (form_field_uuid (ff_id x)), ffd_header = as_str (ff_header x),
      ffd_prompt = as_str (ff_prompt x), ffd_options = opts, ffd_allows_other = ff_allows_other x,
      ffd_sensitive = ff_sensitive x\<rparr>"
    by (auto simp: encode_form_field_def result_simps)
  from laws ok have "collect_results (decode_choice_option env) opts = Ok (ff_options x)"
    by (intro choice_option_wire.round_list [OF _ _ opts]) (simp_all add: wire_form_field_def)
  with laws ok show "decode_form_field env d = Ok x"
    by (simp add: d decode_form_field_def wire_form_field_def wf_form_field_def wire_simps)
next
  fix x d
  assume "decode_form_field env d = Ok x"
  then show "wire_form_field env x"
    by (auto simp: decode_form_field_def wire_form_field_def wf_form_field_def result_simps list_all_iff
        wire_choice_option_def dest!: choice_option_wire.sound_list)
qed

lemma decode_approval_request_Ok_iff:
  "decode_approval_request s opts reason = Ok r \<longleftrightarrow>
     (\<exists>why. reason = map_option as_str why \<and> pred_option wf_text why \<and> (opts = [] \<longleftrightarrow> why \<noteq> None)
       \<and> distinct (map ao_id opts) \<and> r = \<lparr>ar_subject = s, ar_options = opts, ar_unavailable_reason = why\<rparr>)"
  by (cases reason; cases opts)
    (auto simp: decode_approval_request_def result_simps ApprovalRequest_unavailable_def)

interpretation request_payload_wire: codec "wire_laws env" "encode_interaction_request_payload env"
  "decode_interaction_request_payload env" "wire_request_payload env" for env
proof unfold_locales
  fix x d
  assume laws: "wire_laws env" and ok: "wire_request_payload env x"
    and enc: "encode_interaction_request_payload env x = Ok d"
  show "decode_interaction_request_payload env d = Ok x"
  proof (cases x)
    case (ApprovalRequested r)
    with enc obtain sd od where s: "encode_approval_subject (ar_subject r) = Ok sd"
      and opts: "collect_results (encode_approval_option env) (ar_options r) = Ok od"
      and d: "d = ApprovalDto sd od (map_option as_str (ar_unavailable_reason r))"
      by (auto simp: result_simps)
    from ok ApprovalRequested have "decode_approval_subject sd = Ok (ar_subject r)"
      by (intro subject_wire.round [OF _ _ s]) (simp_all add: wf_approval_def)
    moreover have "collect_results (decode_approval_option env) od = Ok (ar_options r)"
      using laws ok ApprovalRequested by (intro approval_option_wire.round_list [OF _ _ opts]) simp_all
    moreover have "decode_approval_request (ar_subject r) (ar_options r)
        (map_option as_str (ar_unavailable_reason r)) = Ok r"
      using ok ApprovalRequested by (auto simp: decode_approval_request_Ok_iff wf_approval_def)
    ultimately show ?thesis by (simp add: d ApprovalRequested)
  next
    case (ChoiceRequested r)
    with enc obtain od where opts: "collect_results (encode_choice_option env) (cr_options r) = Ok od"
      and d: "d = ChoiceDto od (cr_multiple r)"
      by (auto simp: result_simps)
    have "collect_results (decode_choice_option env) od = Ok (cr_options r)"
      using laws ok ChoiceRequested by (intro choice_option_wire.round_list [OF _ _ opts]) simp_all
    with ok ChoiceRequested show ?thesis by (simp add: d wf_choice_def wire_simps)
  next
    case (TextRequested r)
    with ok enc show ?thesis
      by (cases r; cases "ti_placeholder r") (auto simp: wire_simps TextInputRequest_new_def ti_with_placeholder_def)
  next
    case (FormRequested r)
    with enc obtain fd where fs: "collect_results (encode_form_field env) (fr_fields r) = Ok fd"
      and d: "d = FormDto fd (fr_blocking r)"
      by (auto simp: result_simps)
    have "collect_results (decode_form_field env) fd = Ok (fr_fields r)"
      using laws ok FormRequested by (intro form_field_wire.round_list [OF _ _ fs]) simp_all
    with ok FormRequested show ?thesis by (simp add: d wf_form_def wire_simps)
  qed
next
  fix x d
  assume "decode_interaction_request_payload env d = Ok x"
  then show "wire_request_payload env x"
  proof (cases d)
    case (ApprovalDto s opts why)
    with \<open>decode_interaction_request_payload env d = Ok x\<close> show ?thesis
      by (auto simp: and_then_Ok_iff decode_approval_request_Ok_iff wf_approval_def list_all_iff
          wire_approval_option_def dest!: subject_wire.sound approval_option_wire.sound_list)
  next
    case (ChoiceDto opts multiple)
    with \<open>decode_interaction_request_payload env d = Ok x\<close> show ?thesis
      by (auto simp: result_simps wf_choice_def list_all_iff wire_choice_option_def
          dest!: choice_option_wire.sound_list)
  next
    case (TextDto placeholder multiline)
    with \<open>decode_interaction_request_payload env d = Ok x\<close> show ?thesis
      by (auto simp: result_simps TextInputRequest_new_def ti_with_placeholder_def split: option.splits)
  next
    case (FormDto fs blocking)
    with \<open>decode_interaction_request_payload env d = Ok x\<close> show ?thesis
      by (auto simp: result_simps wf_form_def list_all_iff wire_form_field_def
          dest!: form_field_wire.sound_list)
  qed
qed

interpretation timestamp_wire: codec "wire_laws env" "\<lambda>t. encode_timestamp env t field"
  "\<lambda>s. decode_timestamp env s field" "\<lambda>_. True" for env field
  by unfold_locales (simp_all add: wire_simps)

lemma wire_request_payload_wf: "wire_request_payload env p \<Longrightarrow> wf_request_payload p"
  by (cases p) (simp_all add: list_all_iff wire_approval_option_def)

interpretation request_wire: codec "wire_laws env" "encode_interaction_request env"
  "decode_interaction_request env" "wire_request env" for env
proof unfold_locales
  fix x d
  assume laws: "wire_laws env" and ok: "wire_request env x" and enc: "encode_interaction_request env x = Ok d"
  from enc obtain q e p where q: "encode_timestamp env (ir_requested_at x) ''interaction requested_at'' = Ok q"
    and e: "transpose_option (map_option (\<lambda>v. encode_timestamp env v ''interaction expires_at'')
        (ir_expires_at x)) = Ok e"
    and p: "encode_interaction_request_payload env (ir_payload x) = Ok p"
    and d: "d = \<lparr>ird_id = we_uuid_show env (interaction_uuid (ir_id x)),
      ird_session_id = we_uuid_show env (session_uuid (ir_session_id x)), ird_requested_at = q,
      ird_expires_at = e, ird_prompt = as_str (ir_prompt x), ird_payload = p\<rparr>"
    by (auto simp: encode_interaction_request_def and_then_Ok_iff)
  have p': "decode_interaction_request_payload env p = Ok (ir_payload x)"
    using laws ok by (intro request_payload_wire.round [OF _ _ p]) (simp_all add: wire_request_def)
  have e': "transpose_option (map_option (\<lambda>s. decode_timestamp env s ''interaction expires_at'') e)
      = Ok (ir_expires_at x)"
    using laws by (intro timestamp_wire.round_option [OF _ _ e]) (simp_all add: option.pred_True)
  show "decode_interaction_request env d = Ok x"
    using laws ok e' p' timestamp_round [OF laws q]
    by (cases x; cases "ir_expires_at x"; cases e)
      (auto simp: d decode_interaction_request_def wire_request_def wf_request_def wire_simps
        InteractionRequest_new_def transpose_option_Ok_iff)
next
  fix x d
  assume "decode_interaction_request env d = Ok x"
  then have "wire_request_payload env (ir_payload x) \<and> wf_text (ir_prompt x)
      \<and> pred_option (\<lambda>t. ir_requested_at x < t) (ir_expires_at x)
      \<and> v7 env (interaction_uuid (ir_id x)) \<and> v7 env (session_uuid (ir_session_id x))"
    by (auto simp: decode_interaction_request_def result_simps Let_def InteractionRequest_new_def
        dest!: request_payload_wire.sound split: option.splits)
  then show "wire_request env x"
    unfolding wire_request_def wf_request_def using wire_request_payload_wf by blast
qed

section \<open>Responses and closures\<close>

fun wire_answer_value :: "wire_env \<Rightarrow> form_answer_value \<Rightarrow> bool" where
  "wire_answer_value env (AnswerChoice i) = v7 env (choice_option_uuid i)"
| "wire_answer_value env (AnswerText t) = wf_text t"

definition wire_form_answer :: "wire_env \<Rightarrow> form_answer \<Rightarrow> bool" where
  "wire_form_answer env a \<longleftrightarrow> v7 env (form_field_uuid (fa_field_id a)) \<and> wire_answer_value env (fa_value a)"

fun wire_response_payload :: "wire_env \<Rightarrow> interaction_response_payload \<Rightarrow> bool" where
  "wire_response_payload env (ApprovalAnswer i) = v7 env (approval_option_uuid i)"
| "wire_response_payload env (ChoiceAnswer ids) =
     (ids \<noteq> [] \<and> distinct ids \<and> list_all (\<lambda>i. v7 env (choice_option_uuid i)) ids)"
| "wire_response_payload env (TextAnswer t) = wf_text t"
| "wire_response_payload env (FormAnswers as) =
     (as \<noteq> [] \<and> distinct (map fa_field_id as) \<and> list_all (wire_form_answer env) as)"

definition wire_response :: "wire_env \<Rightarrow> interaction_response \<Rightarrow> bool" where
  "wire_response env r \<longleftrightarrow> v7 env (interaction_uuid (is_request_id r))
     \<and> v7 env (session_uuid (is_session_id r)) \<and> v7 env (channel_uuid (is_channel_id r))
     \<and> wire_response_payload env (is_payload r)"

definition wire_closed :: "wire_env \<Rightarrow> interaction_closed \<Rightarrow> bool" where
  "wire_closed env c \<longleftrightarrow> v7 env (interaction_uuid (ic_request_id c)) \<and> v7 env (session_uuid (ic_session_id c))"

lemma wire_answer_value_wf: "wire_answer_value env v \<Longrightarrow> wf_form_answer_value v"
  by (cases v) simp_all

lemma wire_response_wf: "wire_response env r \<Longrightarrow> wf_response r"
  using wire_answer_value_wf by (cases "is_payload r")
    (auto simp: wire_response_def wf_response_def list_all_iff wire_form_answer_def)

interpretation choice_id_wire: codec "wire_laws env"
  "\<lambda>i. Ok (we_uuid_show env (choice_option_uuid i))" "parse_choice_option_id env"
  "\<lambda>i. v7 env (choice_option_uuid i)" for env
proof unfold_locales
  fix x d
  assume "wire_laws env" "v7 env (choice_option_uuid x)"
    "Ok (we_uuid_show env (choice_option_uuid x)) = (Ok d :: (_, protocol_error) result)"
  then show "parse_choice_option_id env d = Ok x" by (auto simp: wire_simps)
qed (auto simp: result_simps)

interpretation form_answer_wire: codec "wire_laws env" "\<lambda>x. Ok (encode_form_answer env x)"
  "decode_form_answer env" "wire_form_answer env" for env
proof unfold_locales
  fix x d
  assume laws: "wire_laws env" and ok: "wire_form_answer env x"
    and "Ok (encode_form_answer env x) = (Ok d :: (_, protocol_error) result)"
  then have d: "d = encode_form_answer env x" by simp
  from laws ok show "decode_form_answer env d = Ok x"
    by (cases "fa_value x") (simp_all add: d encode_form_answer_def decode_form_answer_def
        wire_form_answer_def wire_simps)
next
  fix x d
  assume "decode_form_answer env d = Ok x"
  then show "wire_form_answer env x"
    by (cases "fad_value d") (auto simp: decode_form_answer_def wire_form_answer_def result_simps)
qed

lemma collect_Ok_map [simp]: "collect_results (\<lambda>x. Ok (f x)) xs = Ok (map f xs)"
  by (induction xs) simp_all

interpretation response_payload_wire: codec "wire_laws env" "encode_interaction_response_payload env"
  "decode_interaction_response_payload env" "wire_response_payload env" for env
proof unfold_locales
  fix x d
  assume laws: "wire_laws env" and ok: "wire_response_payload env x"
    and enc: "encode_interaction_response_payload env x = Ok d"
  show "decode_interaction_response_payload env d = Ok x"
  proof (cases x)
    case (ChoiceAnswer ids)
    with laws ok have "collect_results (parse_choice_option_id env)
        (map (\<lambda>i. we_uuid_show env (choice_option_uuid i)) ids) = Ok ids"
      by (intro choice_id_wire.round_list) simp_all
    with ok enc ChoiceAnswer show ?thesis by (auto simp: wire_simps)
  next
    case (FormAnswers as)
    with laws ok have "collect_results (decode_form_answer env) (map (encode_form_answer env) as) = Ok as"
      by (intro form_answer_wire.round_list) simp_all
    with ok enc FormAnswers show ?thesis by (auto simp: wire_simps)
  qed (use laws ok enc in \<open>auto simp: wire_simps\<close>)
next
  fix x d
  assume "decode_interaction_response_payload env d = Ok x"
  then show "wire_response_payload env x"
    by (cases d) (auto simp: result_simps dest: choice_id_wire.sound_list form_answer_wire.sound_list)
qed

interpretation response_wire: codec "wire_laws env" "encode_interaction_response env"
  "decode_interaction_response env" "wire_response env" for env
proof unfold_locales
  fix x d
  assume laws: "wire_laws env" and ok: "wire_response env x" and enc: "encode_interaction_response env x = Ok d"
  from enc obtain t p where t: "encode_timestamp env (is_responded_at x) ''interaction responded_at'' = Ok t"
    and p: "encode_interaction_response_payload env (is_payload x) = Ok p"
    and d: "d = \<lparr>isd_request_id = we_uuid_show env (interaction_uuid (is_request_id x)),
      isd_session_id = we_uuid_show env (session_uuid (is_session_id x)),
      isd_channel_id = we_uuid_show env (channel_uuid (is_channel_id x)),
      isd_responded_at = t, isd_payload = p\<rparr>"
    by (auto simp: encode_interaction_response_def and_then_Ok_iff)
  have "decode_interaction_response_payload env p = Ok (is_payload x)"
    using laws ok by (intro response_payload_wire.round [OF _ _ p]) (simp_all add: wire_response_def)
  with laws ok timestamp_round [OF laws t] show "decode_interaction_response env d = Ok x"
    by (simp add: d decode_interaction_response_def wire_response_def wire_simps)
next
  fix x d
  assume "decode_interaction_response env d = Ok x"
  then show "wire_response env x"
    by (auto simp: decode_interaction_response_def wire_response_def result_simps
        dest: response_payload_wire.sound)
qed

interpretation closed_wire: codec "wire_laws env" "encode_interaction_closed env"
  "decode_interaction_closed env" "wire_closed env" for env
proof unfold_locales
  fix x d
  assume "wire_laws env" "wire_closed env x" "encode_interaction_closed env x = Ok d"
  then show "decode_interaction_closed env d = Ok x"
    by (auto simp: encode_interaction_closed_def decode_interaction_closed_def wire_closed_def wire_simps)
qed (auto simp: decode_interaction_closed_def wire_closed_def result_simps)

end
