(* ===== verification/Wire_Message.thy ===== *)
theory Wire_Message
  imports Wire_Interaction
begin

text \<open>The codecs of commands, events and whole messages.\<close>

section \<open>Commands\<close>

definition wire_command :: "wire_env \<Rightarrow> agent_command \<Rightarrow> bool" where
  "wire_command env c \<longleftrightarrow> wf_command c \<and> v7 env (command_uuid (cmd_id c))
     \<and> v7 env (session_uuid (cmd_session_id c)) \<and> v7 env (channel_uuid (cmd_channel_id c))"

interpretation command_payload_wire: codec True encode_command_payload decode_command_payload wf_command_payload
proof unfold_locales
  fix x d
  assume "wf_command_payload x" "encode_command_payload x = Ok d"
  then show "decode_command_payload d = Ok x" by (cases x) (auto simp: wire_simps)
next
  fix x d
  assume "decode_command_payload d = Ok x"
  then show "wf_command_payload x" by (cases d) (auto simp: result_simps)
qed

interpretation command_wire: codec "wire_laws env" "encode_command env" "decode_command env"
  "wire_command env" for env
proof unfold_locales
  fix x d
  assume laws: "wire_laws env" and ok: "wire_command env x" and enc: "encode_command env x = Ok d"
  from enc obtain t p where t: "encode_timestamp env (cmd_issued_at x) ''command issued_at'' = Ok t"
    and p: "encode_command_payload (cmd_payload x) = Ok p"
    and d: "d = \<lparr>acd_id = we_uuid_show env (command_uuid (cmd_id x)),
      acd_session_id = we_uuid_show env (session_uuid (cmd_session_id x)),
      acd_channel_id = we_uuid_show env (channel_uuid (cmd_channel_id x)),
      acd_issued_at = t, acd_payload = p\<rparr>"
    by (auto simp: encode_command_def and_then_Ok_iff)
  have "decode_command_payload p = Ok (cmd_payload x)"
    using ok by (intro command_payload_wire.round [OF _ _ p]) (simp_all add: wire_command_def wf_command_def)
  with laws ok timestamp_round [OF laws t] show "decode_command env d = Ok x"
    by (simp add: d decode_command_def wire_command_def wire_simps)
next
  fix x d
  assume "decode_command env d = Ok x"
  then show "wire_command env x"
    by (auto simp: decode_command_def wire_command_def wf_command_def result_simps
        dest: command_payload_wire.sound)
qed

section \<open>Events\<close>

fun wire_event_payload :: "wire_env \<Rightarrow> agent_event_payload \<Rightarrow> bool" where
  "wire_event_payload env (SessionStarted s) = wire_session env s"
| "wire_event_payload env (StateChanged _) = True"
| "wire_event_payload env (ConnectionChanged _) = True"
| "wire_event_payload env (Message m) = wf_text (msg_content m)"
| "wire_event_payload env (ToolActivity a) = wire_tool_activity env a"
| "wire_event_payload env (PlanUpdated p) = wire_plan env p"
| "wire_event_payload env (ProgressUpdated p) = wf_progress p"
| "wire_event_payload env (InteractionRequested r) = wire_request env r"
| "wire_event_payload env (InteractionResponded r) = wire_response env r"
| "wire_event_payload env (InteractionClosed c) = wire_closed env c"
| "wire_event_payload env (CommandIssued c) = wire_command env c"
| "wire_event_payload env (SessionEnded out) = wf_outcome out"

definition wire_event :: "wire_env \<Rightarrow> agent_event \<Rightarrow> bool" where
  "wire_event env e \<longleftrightarrow> v7 env (event_uuid (ev_id e)) \<and> v7 env (session_uuid (ev_session_id e))
     \<and> ev_sequence e \<noteq> 0 \<and> wire_event_payload env (ev_payload e)
     \<and> pred_option (\<lambda>sid. sid = ev_session_id e) (embedded_session_id (ev_payload e))"

lemma wire_tool_activity_wf: "wire_tool_activity env a \<Longrightarrow> wf_tool_activity a"
  by (cases a) simp_all

lemma wire_event_payload_wf: "wire_event_payload env p \<Longrightarrow> wf_event_payload p"
  by (cases p) (auto simp: wire_session_def wire_plan_def wire_request_def wire_command_def
      dest: wire_tool_activity_wf wire_response_wf)

lemma wire_event_wf: "wire_event env e \<Longrightarrow> wf_event e"
  using wire_event_payload_wf by (auto simp: wire_event_def wf_event_def)

lemmas message_rounds =
  session_wire.round message_wire.round tool_wire.round plan_wire.round progress_wire.round
  request_wire.round response_wire.round closed_wire.round command_wire.round outcome_wire.round

lemmas message_sounds =
  session_wire.sound message_wire.sound tool_wire.sound plan_wire.sound progress_wire.sound
  request_wire.sound response_wire.sound closed_wire.sound command_wire.sound outcome_wire.sound

interpretation event_payload_wire: codec "wire_laws env" "encode_event_payload env"
  "decode_event_payload env" "wire_event_payload env" for env
proof unfold_locales
  fix x d
  assume "wire_laws env" "wire_event_payload env x" "encode_event_payload env x = Ok d"
  then show "decode_event_payload env d = Ok x"
    by (cases x) (auto simp: and_then_Ok_iff enum_round message_rounds)
next
  fix x d
  assume "decode_event_payload env d = Ok x"
  then show "wire_event_payload env x" by (cases d) (auto simp: and_then_Ok_iff message_sounds)
qed

interpretation event_wire: codec "wire_laws env" "encode_event env" "decode_event env" "wire_event env" for env
proof unfold_locales
  fix x d
  assume laws: "wire_laws env" and ok: "wire_event env x" and enc: "encode_event env x = Ok d"
  from enc obtain t p where t: "encode_timestamp env (ev_occurred_at x) ''event occurred_at'' = Ok t"
    and p: "encode_event_payload env (ev_payload x) = Ok p"
    and d: "d = \<lparr>aed_id = we_uuid_show env (event_uuid (ev_id x)),
      aed_session_id = we_uuid_show env (session_uuid (ev_session_id x)),
      aed_sequence = DecimalU64 (ev_sequence x), aed_occurred_at = t, aed_payload = p\<rparr>"
    by (auto simp: encode_event_def and_then_Ok_iff)
  have "decode_event_payload env p = Ok (ev_payload x)"
    using laws ok by (intro event_payload_wire.round [OF _ _ p]) (simp_all add: wire_event_def)
  with laws ok timestamp_round [OF laws t] show "decode_event env d = Ok x"
    by (simp add: d decode_event_def wire_event_def wire_simps EventSequence_new_def)
next
  fix x d
  assume "decode_event env d = Ok x"
  then show "wire_event env x"
    by (auto simp: decode_event_def wire_event_def result_simps EventSequence_new_def
        dest: event_payload_wire.sound)
qed

section \<open>Messages\<close>

fun wire_message :: "wire_env \<Rightarrow> protocol_message \<Rightarrow> bool" where
  "wire_message env (ProviderDescriptorMessage d) = wire_provider env d"
| "wire_message env (ChannelDescriptorMessage d) = wire_channel env d"
| "wire_message env (AgentSessionMessage s) = wire_session env s"
| "wire_message env (AgentEventMessage e) = wire_event env e"
| "wire_message env (InteractionRequestMessage r) = wire_request env r"
| "wire_message env (InteractionResponseMessage r) = wire_response env r"
| "wire_message env (AgentCommandMessage c) = wire_command env c"

interpretation protocol_message_wire: codec "wire_laws env" "encode_protocol_message env"
  "decode_protocol_message env" "wire_message env" for env
proof unfold_locales
  fix x d
  assume laws: "wire_laws env" and ok: "wire_message env x" and enc: "encode_protocol_message env x = Ok d"
  then show "decode_protocol_message env d = Ok x"
    by (cases x) (auto simp: and_then_Ok_iff message_rounds event_wire.round
        provider_wire.round [OF laws _ refl] channel_wire.round [OF laws _ refl])
next
  fix x d
  assume "decode_protocol_message env d = Ok x"
  then show "wire_message env x"
    by (cases d) (auto simp: and_then_Ok_iff message_sounds event_wire.sound provider_wire.sound channel_wire.sound)
qed

interpretation envelope_wire: codec "wire_laws env" "encode_envelope env" "decode_envelope env"
  "wire_message env" for env
proof unfold_locales
  fix x d
  assume "wire_laws env" "wire_message env x" "encode_envelope env x = Ok d"
  then show "decode_envelope env d = Ok x"
    by (auto simp: encode_envelope_def decode_envelope_def and_then_Ok_iff protocol_message_wire.round)
next
  fix x d
  assume "decode_envelope env d = Ok x"
  then show "wire_message env x"
    by (auto simp: decode_envelope_def protocol_message_wire.sound split: if_splits)
qed

end
