(* ===== verification/Wire_Json.thy ===== *)
theory Wire_Json
  imports Wire_Message
begin

text \<open>
  The entry points of the codec (\<open>codec.rs\<close>) and when encoding succeeds. The JSON text layer
  is \<open>serde_json\<close> with the derived implementations of the DTOs, all of it foreign:
  \<open>json_env\<close> holds the four calls the code makes, on an abstract type of JSON values.
  \<open>json_laws\<close> is the documented contract of a derived pair of implementations: what was
  written parses as a value whose version member is the number written, and which reads back as
  the same DTO. One member of the DTOs has a pair of implementations that is not derived, the decimal
  counters of \<open>scalar.rs\<close>; the law covers it with the rest, and \<open>Wire_Scalar\<close> models it and shows
  that it is exact.
\<close>

section \<open>Encoding and decoding bytes\<close>

type_synonym u8 = "8 word"

record 'v json_env =
  js_to_vec :: "envelope_dto \<Rightarrow> (u8 list, ustring) result"
  js_from_slice :: "u8 list \<Rightarrow> ('v, ustring) result"
  js_protocol_version :: "'v \<Rightarrow> u64 option"
  js_from_value :: "'v \<Rightarrow> (envelope_dto, ustring) result"

definition json_laws :: "'v json_env \<Rightarrow> bool" where
  "json_laws js \<longleftrightarrow> (\<forall>e bytes. js_to_vec js e = Ok bytes \<longrightarrow>
     (\<exists>v. js_from_slice js bytes = Ok v
        \<and> js_protocol_version js v = Some (ucast (env_protocol_version e))
        \<and> js_from_value js v = Ok e))"

definition encode_json ::
  "wire_env \<Rightarrow> 'v json_env \<Rightarrow> protocol_message \<Rightarrow> (u8 list, protocol_error) result" where
  "encode_json env js message =
     and_then (encode_envelope env message) (\<lambda>envelope.
     map_err JsonEncode (js_to_vec js envelope))"

definition decode_json ::
  "wire_env \<Rightarrow> 'v json_env \<Rightarrow> u8 list \<Rightarrow> (protocol_message, protocol_error) result" where
  "decode_json env js bytes =
     and_then (map_err JsonDecode (js_from_slice js bytes)) (\<lambda>value.
     and_then (ok_or (InvalidWireValue ''protocol_version'' (utf ''expected an unsigned JSON integer''))
        (js_protocol_version js value)) (\<lambda>received.
     if received \<noteq> ucast V2_PROTOCOL_VERSION
     then Err (UnsupportedProtocolVersion received V2_PROTOCOL_VERSION)
     else and_then (map_err JsonDecode (js_from_value js value)) (decode_envelope env)))"

interpretation json_wire: codec "wire_laws env \<and> json_laws js" "encode_json env js" "decode_json env js"
  "wire_message env" for env js
proof unfold_locales
  fix m bytes
  assume laws: "wire_laws env \<and> json_laws js" and ok: "wire_message env m"
    and enc: "encode_json env js m = Ok bytes"
  then obtain e where e: "encode_envelope env m = Ok e" "js_to_vec js e = Ok bytes"
    by (auto simp: encode_json_def result_simps)
  then have "env_protocol_version e = V2_PROTOCOL_VERSION"
    by (auto simp: encode_envelope_def result_simps)
  with laws e(2) obtain v where "js_from_slice js bytes = Ok v" "js_from_value js v = Ok e"
    "js_protocol_version js v = Some (ucast V2_PROTOCOL_VERSION)"
    unfolding json_laws_def by metis
  moreover have "decode_envelope env e = Ok m"
    using laws ok e(1) envelope_wire.round by blast
  ultimately show "decode_json env js bytes = Ok m" by (simp add: decode_json_def)
next
  fix m bytes
  assume "decode_json env js bytes = Ok m"
  then show "wire_message env m"
    by (auto simp: decode_json_def and_then_Ok_iff envelope_wire.sound split: if_splits)
qed

section \<open>When encoding succeeds\<close>

definition formats :: "wire_env \<Rightarrow> timestamp \<Rightarrow> bool" where
  "formats env t \<longleftrightarrow> (\<exists>s. we_rfc3339_format env t = Ok s)"

definition session_times :: "agent_session \<Rightarrow> timestamp list" where
  "session_times s = [ses_created_at s, ses_updated_at s]"

definition request_times :: "interaction_request \<Rightarrow> timestamp list" where
  "request_times r = ir_requested_at r # (case ir_expires_at r of Some t \<Rightarrow> [t] | None \<Rightarrow> [])"

fun payload_times :: "agent_event_payload \<Rightarrow> timestamp list" where
  "payload_times (SessionStarted s) = session_times s"
| "payload_times (InteractionRequested r) = request_times r"
| "payload_times (InteractionResponded r) = [is_responded_at r]"
| "payload_times (CommandIssued c) = [cmd_issued_at c]"
| "payload_times _ = []"

fun message_times :: "protocol_message \<Rightarrow> timestamp list" where
  "message_times (ProviderDescriptorMessage _) = []"
| "message_times (ChannelDescriptorMessage _) = []"
| "message_times (AgentSessionMessage s) = session_times s"
| "message_times (AgentEventMessage e) = ev_occurred_at e # payload_times (ev_payload e)"
| "message_times (InteractionRequestMessage r) = request_times r"
| "message_times (InteractionResponseMessage r) = [is_responded_at r]"
| "message_times (AgentCommandMessage c) = [cmd_issued_at c]"

lemma encode_timestamp_total: "(\<exists>s. encode_timestamp env t field = Ok s) \<longleftrightarrow> formats env t"
  by (simp add: encode_timestamp_def formats_def result_simps)

lemma and_then_total:
  "(\<exists>y. and_then r f = Ok y) \<longleftrightarrow> (\<exists>x. r = Ok x \<and> (\<exists>y. f x = Ok y))"
  by (auto simp: and_then_Ok_iff)

lemma collect_total: "(\<And>x. \<exists>y. f x = Ok y) \<Longrightarrow> \<exists>ys. collect_results f xs = Ok ys"
  by (induction xs) (auto simp: and_then_Ok_iff)

lemma collect_total_iff: "(\<And>x. \<exists>y. f x = Ok y) \<Longrightarrow> (\<exists>ys. collect_results f xs = Ok ys) \<longleftrightarrow> True"
  by (simp add: collect_total)

lemma list_encoders_total:
  "\<exists>d. encode_choice_option env c = Ok d" "\<exists>d. encode_approval_option env ao = Ok d"
  "\<exists>d. encode_file_change fc = Ok d" "\<exists>d. encode_plan_item env i = Ok d"
  using enum_total
  by (auto simp: encode_choice_option_def encode_approval_option_def encode_file_change_def
      encode_plan_item_def and_then_total)

lemma encode_form_field_total: "\<exists>d. encode_form_field env f = Ok d"
  unfolding encode_form_field_def and_then_total
  using collect_total [of "encode_choice_option env"] list_encoders_total by auto

lemma encode_subject_total: "\<exists>d. encode_approval_subject s = Ok d"
  using enum_total collect_total [of encode_file_change] list_encoders_total
  by (cases s) (auto simp: and_then_total)

lemma encode_request_payload_total: "\<exists>d. encode_interaction_request_payload env p = Ok d"
  using encode_subject_total collect_total [of "encode_approval_option env"]
    collect_total [of "encode_choice_option env"] collect_total [of "encode_form_field env"]
    list_encoders_total encode_form_field_total
  by (cases p) (auto simp: and_then_total)

lemma leaf_encoders_total:
  "\<exists>d. encode_message m = Ok d" "\<exists>d. encode_tool_activity env a = Ok d" "\<exists>d. encode_plan env p = Ok d"
  "\<exists>d. encode_progress g = Ok d" "\<exists>d. encode_session_outcome out = Ok d"
  "\<exists>d. encode_interaction_response_payload env q = Ok d" "\<exists>d. encode_command_payload cp = Ok d"
  subgoal using enum_total by (auto simp: encode_message_def and_then_total)
  subgoal using enum_total by (cases a) (auto simp: and_then_total)
  subgoal unfolding encode_plan_def and_then_total
    using collect_total [of "encode_plan_item env"] list_encoders_total by auto
  subgoal by (cases "prog_value g") (auto simp: encode_progress_def)
  subgoal by (cases out) auto
  subgoal by (cases q) auto
  subgoal by (cases cp) auto
  done

lemma encode_session_total: "(\<exists>d. encode_session env s = Ok d) \<longleftrightarrow> list_all (formats env) (session_times s)"
  using enum_total(1) [of "ses_state s"] enum_total(2) [of "ses_connection_state s"]
  by (auto simp: encode_session_def and_then_total session_times_def simp: formats_def encode_timestamp_def map_err_Ok_iff)

lemma encode_request_total:
  "(\<exists>d. encode_interaction_request env r = Ok d) \<longleftrightarrow> list_all (formats env) (request_times r)"
  using encode_request_payload_total [of env "ir_payload r"]
  by (cases "ir_expires_at r")
    (auto simp: encode_interaction_request_def and_then_total request_times_def result_simps
      simp: formats_def encode_timestamp_def map_err_Ok_iff)

lemma encode_response_total:
  "(\<exists>d. encode_interaction_response env r = Ok d) \<longleftrightarrow> formats env (is_responded_at r)"
  using leaf_encoders_total(6) [of env "is_payload r"]
  by (auto simp: encode_interaction_response_def and_then_total simp: formats_def encode_timestamp_def map_err_Ok_iff)

lemma encode_command_total: "(\<exists>d. encode_command env c = Ok d) \<longleftrightarrow> formats env (cmd_issued_at c)"
  using leaf_encoders_total(7) [of "cmd_payload c"]
  by (auto simp: encode_command_def and_then_total simp: formats_def encode_timestamp_def map_err_Ok_iff)

lemma encode_event_payload_total:
  "(\<exists>d. encode_event_payload env p = Ok d) \<longleftrightarrow> list_all (formats env) (payload_times p)"
  using encode_session_total encode_request_total encode_response_total encode_command_total
    leaf_encoders_total enum_total
  by (cases p) (simp_all add: and_then_total encode_interaction_closed_def)

lemma encode_event_total:
  "(\<exists>d. encode_event env e = Ok d) \<longleftrightarrow>
     list_all (formats env) (ev_occurred_at e # payload_times (ev_payload e))"
  using encode_event_payload_total [of env "ev_payload e"]
  by (auto simp: encode_event_def and_then_total simp: formats_def encode_timestamp_def map_err_Ok_iff)

lemma encode_message_total:
  "(\<exists>d. encode_protocol_message env m = Ok d) \<longleftrightarrow> list_all (formats env) (message_times m)"
  using encode_session_total encode_request_total encode_response_total encode_command_total
    encode_event_total
  by (cases m) (simp_all add: and_then_total)

lemma encode_envelope_total:
  "(\<exists>d. encode_envelope env m = Ok d) \<longleftrightarrow> list_all (formats env) (message_times m)"
  using encode_message_total by (simp add: encode_envelope_def and_then_total)

end
