(* ===== verification/Wire_Properties.thy ===== *)
theory Wire_Properties
  imports Wire_Json
begin

text \<open>
  The properties of the wire protocol, and one concrete instance of the foreign code they are
  exercised with: identifiers print as decimal numerals, times from the epoch on format as
  decimal numerals, and the JSON layer knows one envelope.
\<close>

section \<open>A concrete environment\<close>

definition sample_wire :: wire_env where
  "sample_wire =
     \<lparr>we_uuid_show = \<lambda>u. decimal (unat u),
      we_uuid_parse = \<lambda>s. if canonical_decimal s \<and> decimal_value s < 2 ^ 128
        then Some (of_nat (decimal_value s)) else None,
      we_uuid_version = \<lambda>u. unat (take_bit 4 (drop_bit 76 u)),
      we_rfc3339_format = \<lambda>t. if 0 \<le> t then Ok (decimal (nat t)) else Err (utf ''out of range''),
      we_rfc3339_parse = \<lambda>s. if canonical_decimal s then Ok (int (decimal_value s))
        else Err (utf ''invalid'')\<rparr>"

definition uuid7 :: "uuid \<Rightarrow> uuid" where
  "uuid7 k = push_bit 76 7 + k"

definition wire_command_sample :: agent_command where
  "wire_command_sample = \<lparr>cmd_id = CommandId (uuid7 1), cmd_session_id = SessionId (uuid7 2),
     cmd_channel_id = ChannelId (uuid7 3), cmd_issued_at = 5, cmd_payload = Compact\<rparr>"

definition wire_command_dto :: envelope_dto where
  "wire_command_dto = \<lparr>env_protocol_version = 2, env_message = AgentCommandDtoMessage
     \<lparr>acd_id = decimal (unat (uuid7 1)), acd_session_id = decimal (unat (uuid7 2)),
      acd_channel_id = decimal (unat (uuid7 3)), acd_issued_at = decimal 5, acd_payload = CompactDto\<rparr>\<rparr>"

definition sample_json :: "envelope_dto json_env" where
  "sample_json =
     \<lparr>js_to_vec = \<lambda>e. if e = wire_command_dto then Ok [7] else Err (utf ''unknown''),
      js_from_slice = \<lambda>bytes. if bytes = [7] then Ok wire_command_dto else Err (utf ''unknown''),
      js_protocol_version = \<lambda>v. Some (ucast (env_protocol_version v)),
      js_from_value = Ok\<rparr>"

lemma sample_wire_laws: "wire_laws sample_wire"
proof -
  have "unat u < 2 ^ 128" for u :: uuid
    using unsigned_less [of u, where 'a = nat] by simp
  then show ?thesis by (simp add: wire_laws_def sample_wire_def)
qed

lemma sample_json_laws: "json_laws sample_json"
  by (simp add: json_laws_def sample_json_def)

lemma wire_command_valid: "wire_message sample_wire (AgentCommandMessage wire_command_sample)"
proof -
  have "v7 sample_wire (uuid7 1)" "v7 sample_wire (uuid7 2)" "v7 sample_wire (uuid7 3)"
    by (simp_all add: v7_def sample_wire_def uuid7_def)
  then show ?thesis by (simp add: wire_command_def wf_command_def wire_command_sample_def)
qed

lemma wire_command_encoded:
  "encode_json sample_wire sample_json (AgentCommandMessage wire_command_sample) = Ok [7]"
  by (simp add: encode_json_def encode_envelope_def encode_command_def encode_timestamp_def
      sample_wire_def wire_command_sample_def sample_json_def wire_command_dto_def V2_PROTOCOL_VERSION_def)

section \<open>Round trips\<close>

text \<open>(C39) A message survives the wire: whatever \<open>encode_json\<close> writes for a valid message,
  \<open>decode_json\<close> reads back as that message, and no two valid messages share an encoding.
  It rests only on the documented behaviour of the UUID, RFC 3339 and JSON libraries.\<close>

theorem json_round_trip:
  assumes "wire_laws env" and "json_laws js"
    and "wire_message env m" and "encode_json env js m = Ok bytes"
  shows "decode_json env js bytes = Ok m
    \<and> (\<forall>m'. wire_message env m' \<and> encode_json env js m' = Ok bytes \<longrightarrow> m' = m)"
  using assms json_wire.round json_wire.enc_inj by blast

theorem json_round_trip_witness:
  "decode_json sample_wire sample_json [7] = Ok (AgentCommandMessage wire_command_sample)"
  using json_round_trip [OF sample_wire_laws sample_json_laws wire_command_valid wire_command_encoded]
  by blast

text \<open>(C40) Whatever is decoded is valid, for any bytes and whatever the foreign code returns:
  every text is non-blank, every kind a slug, every counter positive, every identifier a UUID of
  version 7, every collection without the duplicates and empty cases the constructors refuse, and
  every embedded session the event's own. Decoding never bypasses a constructor.\<close>

theorem decoded_message_valid:
  assumes "decode_json env js bytes = Ok m"
  shows "wire_message env m
    \<and> (case m of AgentSessionMessage s \<Rightarrow> wf_session s
       | AgentEventMessage e \<Rightarrow> wf_event e
       | InteractionRequestMessage r \<Rightarrow> wf_request r
       | InteractionResponseMessage r \<Rightarrow> wf_response r
       | AgentCommandMessage c \<Rightarrow> wf_command c
       | _ \<Rightarrow> True)"
  using json_wire.sound [OF assms]
  by (cases m) (auto simp: wire_session_def wire_request_def wire_command_def
      intro: wire_event_wf wire_response_wf)

theorem decoded_message_valid_witness: "wf_command wire_command_sample"
proof -
  have "decode_json sample_wire sample_json [7] = Ok (AgentCommandMessage wire_command_sample)"
    using json_wire.round [OF conjI [OF sample_wire_laws sample_json_laws] wire_command_valid
        wire_command_encoded] .
  from decoded_message_valid [OF this] show ?thesis by simp
qed

text \<open>Encoding fails only for a time the RFC 3339 formatter refuses: an envelope is
  produced exactly when every time stamp inside the message can be formatted.\<close>

lemma encode_total_iff_times_format:
  "(\<exists>envelope. encode_envelope env m = Ok envelope) \<longleftrightarrow>
     list_all (\<lambda>t. \<exists>s. we_rfc3339_format env t = Ok s) (message_times m)"
  using encode_envelope_total [of env m] by (simp add: formats_def [abs_def])

text \<open>A counter has exactly one wire form: a string is accepted for a counter if and only if
  it is the canonical decimal numeral of it. Signs, blanks, leading zeroes and numbers from
  \<open>2 ^ 64\<close> on are all refused.\<close>

lemma decimal_wire_form_exact:
  "deserialize_decimal s = Ok v \<longleftrightarrow> s = serialize_decimal v"
  by (rule deserialize_decimal_Ok_iff)

text \<open>A capability list is accepted exactly when no name is repeated; the decoded set then
  contains exactly the named flags, so the order of the names does not matter, and encoding it
  again lists the same names.\<close>

lemma capability_list_exact:
  "(\<exists>c. decode_provider_capabilities names = Ok c) = distinct names
   \<and> (\<forall>c. decode_provider_capabilities names = Ok c \<longrightarrow>
        (\<forall>v. pc_contains c (provider_capability_flag v) = (v \<in> set names))
        \<and> set (encode_provider_capabilities c) = set names
        \<and> decode_provider_capabilities (encode_provider_capabilities c) = Ok c)"
  unfolding decode_provider_capabilities_def
  using pcaps.decode_total_iff [of names] pcaps.decoded_members pcaps.capability_round pcaps.enc_set
  by auto

end
