(* ===== verification/Runtime.thy ===== *)
theory Runtime
  imports Bridge_Invariant
begin

text \<open>
  The Runtime Host (\<open>runtime.rs\<close>): the owner of a Bridge and of the adapter sources that feed
  it. What the host shares with the handles it gives out is the record \<open>shared\<close>: the Bridge
  behind its mutex, the thread that currently owns a Bridge operation, the ingress permits
  (\<open>Arc<IngressPermit>\<close>, one new store cell per start of a source) with the thread that holds
  their lock, and whether the host is still alive.

  Locks are modelled by the value \<open>None\<close> of an operation: the operation waits for a lock that
  another operation in progress holds. A source is foreign code. Its callbacks are arbitrary
  terminating programs that act on the host only through handle calls, each depending on the
  replies so far (\<open>callback\<close>).
\<close>

section \<open>Endpoints, states and reports\<close>

type_synonym thread_id = nat
type_synonym permit_id = nat

datatype channel_subscription_scope = Persistent | SourceGeneration

datatype runtime_endpoint_id = ProviderEndpoint provider_id | ChannelEndpoint channel_id

fun endpoint_provider_id :: "runtime_endpoint_id \<Rightarrow> provider_id option" where
  "endpoint_provider_id (ProviderEndpoint pid) = Some pid"
| "endpoint_provider_id (ChannelEndpoint _) = None"

fun endpoint_channel_id :: "runtime_endpoint_id \<Rightarrow> channel_id option" where
  "endpoint_channel_id (ProviderEndpoint _) = None"
| "endpoint_channel_id (ChannelEndpoint cid) = Some cid"

datatype runtime_host_state = HostStopped | HostStarted | HostStopFailed

datatype adapter_lifecycle_state =
    AdapterStopped | AdapterRunning | AdapterStartFailed | AdapterStopFailed

datatype adapter_lifecycle_phase = PhaseStart | PhaseStop

record 'x adapter_lifecycle_error =
  ale_endpoint :: runtime_endpoint_id
  ale_phase :: adapter_lifecycle_phase
  ale_source :: "'x adapter_error"

datatype 'x adapter_lifecycle_result =
    LifecycleSucceeded runtime_endpoint_id
  | LifecycleSkipped runtime_endpoint_id adapter_lifecycle_state
  | LifecycleFailed "'x adapter_lifecycle_error"

fun alr_endpoint :: "'x adapter_lifecycle_result \<Rightarrow> runtime_endpoint_id" where
  "alr_endpoint (LifecycleSucceeded endpoint) = endpoint"
| "alr_endpoint (LifecycleSkipped endpoint _) = endpoint"
| "alr_endpoint (LifecycleFailed e) = ale_endpoint e"

fun alr_is_success :: "'x adapter_lifecycle_result \<Rightarrow> bool" where
  "alr_is_success (LifecycleFailed _) = False"
| "alr_is_success _ = True"

fun alr_error :: "'x adapter_lifecycle_result \<Rightarrow> 'x adapter_lifecycle_error option" where
  "alr_error (LifecycleFailed e) = Some e"
| "alr_error _ = None"

datatype runtime_lifecycle_outcome =
    ReportStarted | ReportAlreadyStarted | ReportStopped | ReportAlreadyStopped | ReportStopFailed

datatype runtime_lifecycle_operation = OperationStart | OperationStop

record 'x runtime_lifecycle_report =
  rlr_operation :: runtime_lifecycle_operation
  rlr_outcome :: runtime_lifecycle_outcome
  rlr_adapters :: "'x adapter_lifecycle_result list"

definition rlr_has_failures :: "'x runtime_lifecycle_report \<Rightarrow> bool" where
  "rlr_has_failures report \<longleftrightarrow> list_ex (\<lambda>result. \<not> alr_is_success result) (rlr_adapters report)"

definition rlr_first_failure :: "'x runtime_lifecycle_report \<Rightarrow> 'x adapter_lifecycle_error option" where
  "rlr_first_failure report = find_map alr_error (rlr_adapters report)"

datatype runtime_access_error = ReentrantBridgeAccess

datatype 'x runtime_lifecycle_error =
    CleanupRequired
  | LifecycleBridgeAccess runtime_access_error
  | AdapterFailures "'x runtime_lifecycle_report"

fun rle_report :: "'x runtime_lifecycle_error \<Rightarrow> 'x runtime_lifecycle_report option" where
  "rle_report (AdapterFailures report) = Some report"
| "rle_report _ = None"

datatype runtime_registration_error =
    HostNotStopped runtime_host_state
  | EndpointRefused endpoint_registration_error
  | RegistrationBridgeAccess runtime_access_error

datatype 'x runtime_subscription_error =
    SubscriptionBridgeAccess runtime_access_error
  | SubscriptionRefused "'x subscription_error"

datatype 'x provider_event_ingress_error =
    ProviderMismatch provider_id provider_id
  | ProviderInactive provider_id
  | ProviderHostDropped provider_id
  | ProviderBridgeAccess runtime_access_error
  | ProviderBridge "'x provider_event_error"

datatype 'x channel_action_ingress_error =
    ChannelMismatch channel_id channel_id
  | ChannelInactive channel_id
  | ChannelHostDropped channel_id
  | ChannelBridgeAccess runtime_access_error
  | ChannelBridge "'x channel_action_error"
  | ChannelSubscription "'x subscription_error"

section \<open>The shared Bridge and the permits\<close>

record ingress_permit =
  ip_active :: bool
  ip_holder :: "thread_id option"

definition permit_active :: ingress_permit where
  "permit_active = \<lparr>ip_active = True, ip_holder = None\<rparr>"

record ('p, 'c) shared =
  sh_bridge :: "('p, 'c) bridge"
  sh_owner :: "thread_id option"
  sh_permits :: "ingress_permit list"
  sh_alive :: bool

definition shared_new :: "('p, 'c) bridge \<Rightarrow> ('p, 'c) shared" where
  "shared_new b = \<lparr>sh_bridge = b, sh_owner = None, sh_permits = [], sh_alive = True\<rparr>"

text \<open>\<open>access\<close>, the operation under the guard, and the drop of the guard. A thread that already
  owns an operation is refused, any other thread waits for the mutex. The operation runs on the shared state
  as it is while the guard is held, so that what an adapter does in the middle of it can be stated; one that
  waits for ever is \<open>None\<close>. The operations of the handles touch the Bridge only: \<open>on_bridge\<close>.\<close>

definition on_bridge ::
  "(('p, 'c) bridge \<Rightarrow> 'r \<times> ('p, 'c) bridge) \<Rightarrow> ('p, 'c) shared \<Rightarrow> ('r \<times> ('p, 'c) shared) option" where
  "on_bridge operation held = (case operation (sh_bridge held) of (r, b) \<Rightarrow> Some (r, held\<lparr>sh_bridge := b\<rparr>))"

definition with_access ::
  "thread_id \<Rightarrow> (('p, 'c) shared \<Rightarrow> ('r \<times> ('p, 'c) shared) option) \<Rightarrow> ('p, 'c) shared
     \<Rightarrow> (('r, runtime_access_error) result \<times> ('p, 'c) shared) option" where
  "with_access current operation sh =
     (case sh_owner sh of
        Some thread \<Rightarrow> if thread = current then Some (Err ReentrantBridgeAccess, sh) else None
      | None \<Rightarrow>
          Option.bind (operation (sh\<lparr>sh_owner := Some current\<rparr>)) (\<lambda>(r, held).
            Some (Ok r, held\<lparr>sh_owner := None\<rparr>)))"

text \<open>\<open>enter\<close> locks the permit and keeps the lock for the whole operation; the reply \<open>Some False\<close>
  says that the permit is revoked. \<open>revoke\<close> locks it to clear the flag. A handle owns its permit,
  so its cell is always allocated; a cell that is not counts as revoked.\<close>

definition permit_cell :: "('p, 'c) shared \<Rightarrow> permit_id \<Rightarrow> ingress_permit" where
  "permit_cell sh p =
     (if p < length (sh_permits sh) then sh_permits sh ! p else \<lparr>ip_active = False, ip_holder = None\<rparr>)"

definition permit_enter :: "permit_id \<Rightarrow> ('p, 'c) shared \<Rightarrow> bool option" where
  "permit_enter p sh =
     (case ip_holder (permit_cell sh p) of
        Some _ \<Rightarrow> None
      | None \<Rightarrow> Some (ip_active (permit_cell sh p)))"

definition permit_hold :: "thread_id option \<Rightarrow> permit_id \<Rightarrow> ('p, 'c) shared \<Rightarrow> ('p, 'c) shared" where
  "permit_hold holder p sh =
     sh\<lparr>sh_permits := (sh_permits sh)[p := (permit_cell sh p)\<lparr>ip_holder := holder\<rparr>]\<rparr>"

definition permit_revoke :: "permit_id \<Rightarrow> ('p, 'c) shared \<Rightarrow> ('p, 'c) shared option" where
  "permit_revoke p sh =
     (case ip_holder (permit_cell sh p) of
        Some _ \<Rightarrow> None
      | None \<Rightarrow> Some (sh\<lparr>sh_permits := (sh_permits sh)[p := (permit_cell sh p)\<lparr>ip_active := False\<rparr>]\<rparr>))"

section \<open>Handles\<close>

record provider_event_handle =
  peh_provider_id :: provider_id
  peh_permit :: permit_id

record channel_action_handle =
  cah_channel_id :: channel_id
  cah_permit :: permit_id

text \<open>The three gates every handle operation passes, in order: the host is alive, the permit is
  active, the Bridge can be accessed. The first two are the errors \<open>dropped\<close> and \<open>inactive\<close>.\<close>

definition with_permit ::
  "'e \<Rightarrow> 'e \<Rightarrow> (runtime_access_error \<Rightarrow> 'e) \<Rightarrow> permit_id \<Rightarrow> thread_id
     \<Rightarrow> (('p, 'c) shared \<Rightarrow> (('r, 'e) result \<times> ('p, 'c) shared) option) \<Rightarrow> ('p, 'c) shared
     \<Rightarrow> (('r, 'e) result \<times> ('p, 'c) shared) option" where
  "with_permit dropped inactive refused p current operation sh =
     (if \<not> sh_alive sh then Some (Err dropped, sh)
      else Option.bind (permit_enter p sh) (\<lambda>active.
        if \<not> active then Some (Err inactive, sh)
        else Option.bind (with_access current operation (permit_hold (Some current) p sh))
          (\<lambda>(accessed, sh'). Some (case accessed of Ok r \<Rightarrow> r | Err e \<Rightarrow> Err (refused e),
             permit_hold None p sh'))))"

definition handle_publish_event ::
  "('c, 'x) channel_port \<Rightarrow> thread_id \<Rightarrow> provider_event_handle \<Rightarrow> agent_event \<Rightarrow> ('p, 'c) shared
     \<Rightarrow> (('x provider_event_report, 'x provider_event_ingress_error) result \<times> ('p, 'c) shared) option" where
  "handle_publish_event cp current h event sh =
     with_permit (ProviderHostDropped (peh_provider_id h)) (ProviderInactive (peh_provider_id h))
       ProviderBridgeAccess (peh_permit h) current
       (on_bridge (\<lambda>b. case handle_provider_event cp (peh_provider_id h) event b of
          (r, b') \<Rightarrow> (map_err ProviderBridge r, b'))) sh"

definition sink_publish_event ::
  "('c, 'x) channel_port \<Rightarrow> thread_id \<Rightarrow> provider_event_handle \<Rightarrow> provider_id \<Rightarrow> agent_event
     \<Rightarrow> ('p, 'c) shared \<Rightarrow> ((unit, 'x provider_event_ingress_error) result \<times> ('p, 'c) shared) option" where
  "sink_publish_event cp current h pid event sh =
     (if pid \<noteq> peh_provider_id h then Some (Err (ProviderMismatch (peh_provider_id h) pid), sh)
      else Option.bind (handle_publish_event cp current h event sh)
        (\<lambda>(r, sh'). Some (and_then r (\<lambda>_. Ok ()), sh')))"

definition with_bridge_access ::
  "thread_id \<Rightarrow> channel_action_handle
     \<Rightarrow> (('p, 'c) bridge \<Rightarrow> ('r, 'x channel_action_ingress_error) result \<times> ('p, 'c) bridge)
     \<Rightarrow> ('p, 'c) shared
     \<Rightarrow> (('r, 'x channel_action_ingress_error) result \<times> ('p, 'c) shared) option" where
  "with_bridge_access current h operation =
     with_permit (ChannelHostDropped (cah_channel_id h)) (ChannelInactive (cah_channel_id h))
       ChannelBridgeAccess (cah_permit h) current (on_bridge operation)"

definition handle_discovery_snapshot ::
  "thread_id \<Rightarrow> channel_action_handle \<Rightarrow> ('p, 'c) shared
     \<Rightarrow> ((channel_discovery_snapshot, 'x channel_action_ingress_error) result \<times> ('p, 'c) shared) option" where
  "handle_discovery_snapshot current h =
     with_bridge_access current h (\<lambda>b. (Ok (discovery_snapshot b), b))"

definition handle_subscribe ::
  "('c, 'x) channel_port \<Rightarrow> thread_id \<Rightarrow> channel_action_handle \<Rightarrow> session_id \<Rightarrow> ('p, 'c) shared
     \<Rightarrow> ((subscribe_outcome, 'x channel_action_ingress_error) result \<times> ('p, 'c) shared) option" where
  "handle_subscribe cp current h sid =
     with_bridge_access current h (\<lambda>b. case subscribe cp (cah_channel_id h) sid b of
       (r, b') \<Rightarrow> (map_err ChannelSubscription r, b'))"

definition handle_sync_session ::
  "('c, 'x) channel_port \<Rightarrow> thread_id \<Rightarrow> channel_action_handle \<Rightarrow> session_id \<Rightarrow> u64 \<Rightarrow> usize
     \<Rightarrow> ('p, 'c) shared
     \<Rightarrow> ((session_sync_outcome, 'x channel_action_ingress_error) result \<times> ('p, 'c) shared) option" where
  "handle_sync_session cp current h sid after max_events =
     with_bridge_access current h (\<lambda>b. case sync_session cp (cah_channel_id h) sid after max_events b of
       (r, b') \<Rightarrow> (map_err ChannelSubscription r, b'))"

definition handle_unsubscribe ::
  "thread_id \<Rightarrow> channel_action_handle \<Rightarrow> session_id \<Rightarrow> ('p, 'c) shared
     \<Rightarrow> ((unsubscribe_outcome, 'x channel_action_ingress_error) result \<times> ('p, 'c) shared) option" where
  "handle_unsubscribe current h sid =
     with_bridge_access current h (\<lambda>b. case unsubscribe (cah_channel_id h) sid b of
       (r, b') \<Rightarrow> (map_err ChannelSubscription r, b'))"

definition handle_submit_response ::
  "('p, 'x) provider_port \<Rightarrow> thread_id \<Rightarrow> channel_action_handle \<Rightarrow> interaction_response
     \<Rightarrow> ('p, 'c) shared \<Rightarrow> ((unit, 'x channel_action_ingress_error) result \<times> ('p, 'c) shared) option" where
  "handle_submit_response pp current h response =
     with_bridge_access current h (\<lambda>b. case handle_interaction_response pp (cah_channel_id h) response b of
       (r, b') \<Rightarrow> (map_err ChannelBridge r, b'))"

definition handle_submit_command ::
  "('p, 'x) provider_port \<Rightarrow> thread_id \<Rightarrow> channel_action_handle \<Rightarrow> agent_command
     \<Rightarrow> ('p, 'c) shared \<Rightarrow> ((unit, 'x channel_action_ingress_error) result \<times> ('p, 'c) shared) option" where
  "handle_submit_command pp current h command =
     with_bridge_access current h (\<lambda>b. case handle_command pp (cah_channel_id h) command b of
       (r, b') \<Rightarrow> (map_err ChannelBridge r, b'))"

text \<open>The two methods of \<open>ChannelActionSink\<close>, which also check the identity they are given.\<close>

definition sink_submit_response ::
  "('p, 'x) provider_port \<Rightarrow> thread_id \<Rightarrow> channel_action_handle \<Rightarrow> channel_id \<Rightarrow> interaction_response
     \<Rightarrow> ('p, 'c) shared \<Rightarrow> ((unit, 'x channel_action_ingress_error) result \<times> ('p, 'c) shared) option" where
  "sink_submit_response pp current h cid response sh =
     (if cid \<noteq> cah_channel_id h then Some (Err (ChannelMismatch (cah_channel_id h) cid), sh)
      else handle_submit_response pp current h response sh)"

definition sink_submit_command ::
  "('p, 'x) provider_port \<Rightarrow> thread_id \<Rightarrow> channel_action_handle \<Rightarrow> channel_id \<Rightarrow> agent_command
     \<Rightarrow> ('p, 'c) shared \<Rightarrow> ((unit, 'x channel_action_ingress_error) result \<times> ('p, 'c) shared) option" where
  "sink_submit_command pp current h cid command sh =
     (if cid \<noteq> cah_channel_id h then Some (Err (ChannelMismatch (cah_channel_id h) cid), sh)
      else handle_submit_command pp current h command sh)"

section \<open>Callbacks of a source\<close>

datatype handle_call =
    CallPublish provider_event_handle agent_event
  | CallDiscover channel_action_handle
  | CallSubscribe channel_action_handle session_id
  | CallSync channel_action_handle session_id u64 usize
  | CallUnsubscribe channel_action_handle session_id
  | CallResponse channel_action_handle interaction_response
  | CallCommand channel_action_handle agent_command

datatype 'x handle_reply =
    ReplyPublish "('x provider_event_report, 'x provider_event_ingress_error) result"
  | ReplyDiscover "(channel_discovery_snapshot, 'x channel_action_ingress_error) result"
  | ReplySubscribe "(subscribe_outcome, 'x channel_action_ingress_error) result"
  | ReplySync "(session_sync_outcome, 'x channel_action_ingress_error) result"
  | ReplyUnsubscribe "(unsubscribe_outcome, 'x channel_action_ingress_error) result"
  | ReplyAction "(unit, 'x channel_action_ingress_error) result"

definition reply_with ::
  "('r \<Rightarrow> 'x handle_reply) \<Rightarrow> ('r \<times> ('p, 'c) shared) option \<Rightarrow> ('x handle_reply \<times> ('p, 'c) shared) option" where
  "reply_with mk = map_option (\<lambda>(r, sh). (mk r, sh))"

fun perform ::
  "('p, 'x) provider_port \<Rightarrow> ('c, 'x) channel_port \<Rightarrow> thread_id \<Rightarrow> handle_call \<Rightarrow> ('p, 'c) shared
     \<Rightarrow> ('x handle_reply \<times> ('p, 'c) shared) option" where
  "perform pp cp t (CallPublish h event) sh = reply_with ReplyPublish (handle_publish_event cp t h event sh)"
| "perform pp cp t (CallDiscover h) sh = reply_with ReplyDiscover (handle_discovery_snapshot t h sh)"
| "perform pp cp t (CallSubscribe h sid) sh = reply_with ReplySubscribe (handle_subscribe cp t h sid sh)"
| "perform pp cp t (CallSync h sid after n) sh = reply_with ReplySync (handle_sync_session cp t h sid after n sh)"
| "perform pp cp t (CallUnsubscribe h sid) sh = reply_with ReplyUnsubscribe (handle_unsubscribe t h sid sh)"
| "perform pp cp t (CallResponse h response) sh = reply_with ReplyAction (handle_submit_response pp t h response sh)"
| "perform pp cp t (CallCommand h command) sh = reply_with ReplyAction (handle_submit_command pp t h command sh)"

datatype ('s, 'x) callback =
    Return "(unit, 'x) result" 's
  | Call handle_call "'x handle_reply \<Rightarrow> ('s, 'x) callback"

primrec run_callback ::
  "('p, 'x) provider_port \<Rightarrow> ('c, 'x) channel_port \<Rightarrow> thread_id \<Rightarrow> ('s, 'x) callback \<Rightarrow> ('p, 'c) shared
     \<Rightarrow> ((unit, 'x) result \<times> 's \<times> ('p, 'c) shared) option" where
  "run_callback pp cp t (Return r s) sh = Some (r, s, sh)"
| "run_callback pp cp t (Call c k) sh =
     (case perform pp cp t c sh of
        None \<Rightarrow> None
      | Some (reply, sh') \<Rightarrow> run_callback pp cp t (k reply) sh')"

text \<open>\<open>ProviderEventSource\<close> and \<open>ChannelActionSource\<close> on the state \<open>'s\<close> of the source.\<close>

record ('s, 'x) source_port =
  src_start_provider :: "'s \<Rightarrow> provider_event_handle \<Rightarrow> ('s, 'x) callback"
  src_start_channel :: "'s \<Rightarrow> channel_action_handle \<Rightarrow> ('s, 'x) callback"
  src_stop :: "'s \<Rightarrow> ('s, 'x) callback"
  src_subscription_scope :: "'s \<Rightarrow> channel_subscription_scope"

definition default_subscription_scope :: "'s \<Rightarrow> channel_subscription_scope" where
  "default_subscription_scope s = Persistent"

section \<open>Adapters\<close>

datatype 's registered_source =
    ProviderSource provider_id 's
  | ChannelSource channel_id 's channel_subscription_scope

fun source_endpoint :: "'s registered_source \<Rightarrow> runtime_endpoint_id" where
  "source_endpoint (ProviderSource pid _) = ProviderEndpoint pid"
| "source_endpoint (ChannelSource cid _ _) = ChannelEndpoint cid"

fun source_state :: "'s registered_source \<Rightarrow> 's" where
  "source_state (ProviderSource _ s) = s"
| "source_state (ChannelSource _ s _) = s"

fun put_source_state :: "'s \<Rightarrow> 's registered_source \<Rightarrow> 's registered_source" where
  "put_source_state s (ProviderSource pid _) = ProviderSource pid s"
| "put_source_state s (ChannelSource cid _ scope) = ChannelSource cid s scope"

fun source_start :: "('s, 'x) source_port \<Rightarrow> permit_id \<Rightarrow> 's registered_source \<Rightarrow> ('s, 'x) callback" where
  "source_start sp p (ProviderSource pid s) =
     src_start_provider sp s \<lparr>peh_provider_id = pid, peh_permit = p\<rparr>"
| "source_start sp p (ChannelSource cid s _) =
     src_start_channel sp s \<lparr>cah_channel_id = cid, cah_permit = p\<rparr>"

definition source_stop :: "('s, 'x) source_port \<Rightarrow> 's registered_source \<Rightarrow> ('s, 'x) callback" where
  "source_stop sp source = src_stop sp (source_state source)"

fun source_generation_channel :: "'s registered_source \<Rightarrow> channel_id option" where
  "source_generation_channel (ChannelSource cid _ SourceGeneration) = Some cid"
| "source_generation_channel _ = None"

record 's registered_adapter =
  ra_source :: "'s registered_source"
  ra_state :: adapter_lifecycle_state
  ra_permit :: "permit_id option"

abbreviation ra_endpoint :: "'s registered_adapter \<Rightarrow> runtime_endpoint_id" where
  "ra_endpoint ad \<equiv> source_endpoint (ra_source ad)"

definition adapter_provider :: "provider_id \<Rightarrow> 's \<Rightarrow> 's registered_adapter" where
  "adapter_provider pid source =
     \<lparr>ra_source = ProviderSource pid source, ra_state = AdapterStopped, ra_permit = None\<rparr>"

definition adapter_channel :: "('s, 'x) source_port \<Rightarrow> channel_id \<Rightarrow> 's \<Rightarrow> 's registered_adapter" where
  "adapter_channel sp cid source =
     \<lparr>ra_source = ChannelSource cid source (src_subscription_scope sp source),
      ra_state = AdapterStopped, ra_permit = None\<rparr>"

text \<open>A new permit is a new cell of the store. The revoker clears it when the start fails.\<close>

definition adapter_start ::
  "('s, 'x) source_port \<Rightarrow> ('p, 'x) provider_port \<Rightarrow> ('c, 'x) channel_port \<Rightarrow> thread_id
     \<Rightarrow> 's registered_adapter \<Rightarrow> ('p, 'c) shared
     \<Rightarrow> ((unit, 'x adapter_lifecycle_error) result \<times> 's registered_adapter \<times> ('p, 'c) shared) option" where
  "adapter_start sp pp cp t ad sh =
     (let p = length (sh_permits sh);
          sh1 = sh\<lparr>sh_permits := sh_permits sh @ [permit_active]\<rparr>;
          ad1 = ad\<lparr>ra_permit := Some p, ra_state := AdapterStartFailed\<rparr>
      in Option.bind (run_callback pp cp t (source_start sp p (ra_source ad)) sh1) (\<lambda>(r, s, sh2).
         let ad2 = ad1\<lparr>ra_source := put_source_state s (ra_source ad)\<rparr>
         in case r of
              Ok _ \<Rightarrow> Some (Ok (), ad2\<lparr>ra_state := AdapterRunning\<rparr>, sh2)
            | Err source \<Rightarrow>
                Option.bind (permit_revoke p sh2) (\<lambda>sh3.
                Some (Err \<lparr>ale_endpoint = ra_endpoint ad, ale_phase = PhaseStart,
                          ale_source = Boxed source\<rparr>, ad2, sh3))))"

definition adapter_revoke_ingress ::
  "'s registered_adapter \<Rightarrow> ('p, 'c) shared \<Rightarrow> ('p, 'c) shared option" where
  "adapter_revoke_ingress ad sh =
     (case ra_permit ad of Some p \<Rightarrow> permit_revoke p sh | None \<Rightarrow> Some sh)"

definition adapter_stop ::
  "('s, 'x) source_port \<Rightarrow> ('p, 'x) provider_port \<Rightarrow> ('c, 'x) channel_port \<Rightarrow> thread_id
     \<Rightarrow> 's registered_adapter \<Rightarrow> ('p, 'c) shared
     \<Rightarrow> ((unit, 'x adapter_lifecycle_error) result \<times> 's registered_adapter \<times> ('p, 'c) shared) option" where
  "adapter_stop sp pp cp t ad sh =
     Option.bind (adapter_revoke_ingress ad sh) (\<lambda>sh1.
     Option.bind (run_callback pp cp t (source_stop sp (ra_source ad)) sh1) (\<lambda>(r, s, sh2).
     let ad1 = ad\<lparr>ra_state := AdapterStopFailed, ra_source := put_source_state s (ra_source ad)\<rparr>
     in Some (case r of
                Ok _ \<Rightarrow> (Ok (), ad1\<lparr>ra_state := AdapterStopped\<rparr>, sh2)
              | Err source \<Rightarrow>
                  (Err \<lparr>ale_endpoint = ra_endpoint ad, ale_phase = PhaseStop, ale_source = Boxed source\<rparr>,
                   ad1, sh2))))"

section \<open>The host\<close>

record ('s, 'p, 'c) runtime_host =
  rh_state :: runtime_host_state
  rh_adapters :: "'s registered_adapter list"
  rh_shared :: "('p, 'c) shared"

definition host_with_session_config :: "session_aggregate_config \<Rightarrow> ('s, 'p, 'c) runtime_host" where
  "host_with_session_config config =
     \<lparr>rh_state = HostStopped, rh_adapters = [], rh_shared = shared_new (with_session_config config)\<rparr>"

definition RuntimeHost_new :: "('s, 'p, 'c) runtime_host" where
  "RuntimeHost_new = host_with_session_config SessionAggregateConfig_default"

definition ensure_registration_allowed ::
  "('s, 'p, 'c) runtime_host \<Rightarrow> (unit, runtime_registration_error) result" where
  "ensure_registration_allowed host =
     (if rh_state host = HostStopped then Ok () else Err (HostNotStopped (rh_state host)))"

text \<open>Registering an endpoint in the Bridge and, when it is accepted, its adapter in the host.\<close>

definition register_adapter ::
  "thread_id
     \<Rightarrow> (('p, 'c) bridge \<Rightarrow> (unit, endpoint_registration_error) result \<times> ('p, 'c) bridge)
     \<Rightarrow> 's registered_adapter \<Rightarrow> ('s, 'p, 'c) runtime_host
     \<Rightarrow> ((unit, runtime_registration_error) result \<times> ('s, 'p, 'c) runtime_host) option" where
  "register_adapter t register adapter host =
     (case ensure_registration_allowed host of
        Err e \<Rightarrow> Some (Err e, host)
      | Ok _ \<Rightarrow>
          Option.bind (with_access t (on_bridge register) (rh_shared host)) (\<lambda>(accessed, sh).
          let host1 = host\<lparr>rh_shared := sh\<rparr>
          in Some (case accessed of
               Err e \<Rightarrow> (Err (RegistrationBridgeAccess e), host1)
             | Ok (Err e) \<Rightarrow> (Err (EndpointRefused e), host1)
             | Ok (Ok _) \<Rightarrow> (Ok (), host1\<lparr>rh_adapters := rh_adapters host1 @ [adapter]\<rparr>))))"

definition host_register_provider ::
  "('p, 'x) provider_port \<Rightarrow> thread_id \<Rightarrow> 'p \<Rightarrow> 's \<Rightarrow> ('s, 'p, 'c) runtime_host
     \<Rightarrow> ((unit, runtime_registration_error) result \<times> ('s, 'p, 'c) runtime_host) option" where
  "host_register_provider pp t provider source =
     register_adapter t (register_provider pp provider)
       (adapter_provider (pd_id (pp_descriptor pp provider)) source)"

definition host_register_channel ::
  "('s, 'x) source_port \<Rightarrow> ('c, 'x) channel_port \<Rightarrow> thread_id \<Rightarrow> 'c \<Rightarrow> 's \<Rightarrow> ('s, 'p, 'c) runtime_host
     \<Rightarrow> ((unit, runtime_registration_error) result \<times> ('s, 'p, 'c) runtime_host) option" where
  "host_register_channel sp cp t channel source =
     register_adapter t (register_channel cp channel)
       (adapter_channel sp (cd_id (cp_descriptor cp channel)) source)"

definition adapter_state ::
  "('s, 'p, 'c) runtime_host \<Rightarrow> runtime_endpoint_id \<Rightarrow> adapter_lifecycle_state option" where
  "adapter_state host endpoint =
     map_option ra_state (find (\<lambda>ad. ra_endpoint ad = endpoint) (rh_adapters host))"

definition adapter_states ::
  "('s, 'p, 'c) runtime_host \<Rightarrow> (runtime_endpoint_id \<times> adapter_lifecycle_state) list" where
  "adapter_states host = map (\<lambda>ad. (ra_endpoint ad, ra_state ad)) (rh_adapters host)"

definition inspect_bridge ::
  "thread_id \<Rightarrow> (('p, 'c) bridge \<Rightarrow> 'r) \<Rightarrow> ('s, 'p, 'c) runtime_host
     \<Rightarrow> ('r, runtime_access_error) result option" where
  "inspect_bridge t inspect host =
     map_option fst (with_access t (on_bridge (\<lambda>b. (inspect b, b))) (rh_shared host))"

definition host_subscription ::
  "thread_id \<Rightarrow> (('p, 'c) bridge \<Rightarrow> ('r, 'x subscription_error) result \<times> ('p, 'c) bridge)
     \<Rightarrow> ('s, 'p, 'c) runtime_host
     \<Rightarrow> (('r, 'x runtime_subscription_error) result \<times> ('s, 'p, 'c) runtime_host) option" where
  "host_subscription t operation host =
     Option.bind (with_access t (on_bridge operation) (rh_shared host)) (\<lambda>(accessed, sh).
     Some (case accessed of
             Err e \<Rightarrow> Err (SubscriptionBridgeAccess e)
           | Ok r \<Rightarrow> map_err SubscriptionRefused r, host\<lparr>rh_shared := sh\<rparr>))"

definition host_subscribe ::
  "('c, 'x) channel_port \<Rightarrow> thread_id \<Rightarrow> channel_id \<Rightarrow> session_id \<Rightarrow> ('s, 'p, 'c) runtime_host
     \<Rightarrow> ((subscribe_outcome, 'x runtime_subscription_error) result \<times> ('s, 'p, 'c) runtime_host) option" where
  "host_subscribe cp t cid sid = host_subscription t (subscribe cp cid sid)"

definition host_unsubscribe ::
  "thread_id \<Rightarrow> channel_id \<Rightarrow> session_id \<Rightarrow> ('s, 'p, 'c) runtime_host
     \<Rightarrow> ((unsubscribe_outcome, 'x runtime_subscription_error) result \<times> ('s, 'p, 'c) runtime_host) option" where
  "host_unsubscribe t cid sid = host_subscription t (unsubscribe cid sid)"

section \<open>Start and stop\<close>

definition lifecycle_result ::
  "runtime_endpoint_id \<Rightarrow> (unit, 'x adapter_lifecycle_error) result \<Rightarrow> 'x adapter_lifecycle_result" where
  "lifecycle_result endpoint r =
     (case r of Ok _ \<Rightarrow> LifecycleSucceeded endpoint | Err e \<Rightarrow> LifecycleFailed e)"

fun start_adapters ::
  "('s, 'x) source_port \<Rightarrow> ('p, 'x) provider_port \<Rightarrow> ('c, 'x) channel_port \<Rightarrow> thread_id
     \<Rightarrow> 's registered_adapter list \<Rightarrow> ('p, 'c) shared
     \<Rightarrow> ('x adapter_lifecycle_result list \<times> 's registered_adapter list \<times> ('p, 'c) shared) option" where
  "start_adapters sp pp cp t [] sh = Some ([], [], sh)"
| "start_adapters sp pp cp t (ad # ads) sh =
     Option.bind (adapter_start sp pp cp t ad sh) (\<lambda>(r, ad', sh1).
     Option.bind (start_adapters sp pp cp t ads sh1) (\<lambda>(results, ads', sh2).
     Some (lifecycle_result (ra_endpoint ad) r # results, ad' # ads', sh2)))"

definition host_start ::
  "('s, 'x) source_port \<Rightarrow> ('p, 'x) provider_port \<Rightarrow> ('c, 'x) channel_port \<Rightarrow> thread_id
     \<Rightarrow> ('s, 'p, 'c) runtime_host
     \<Rightarrow> (('x runtime_lifecycle_report, 'x runtime_lifecycle_error) result
          \<times> ('s, 'p, 'c) runtime_host) option" where
  "host_start sp pp cp t host =
     (case rh_state host of
        HostStarted \<Rightarrow>
          Some (Ok \<lparr>rlr_operation = OperationStart, rlr_outcome = ReportAlreadyStarted,
                  rlr_adapters = []\<rparr>, host)
      | HostStopFailed \<Rightarrow> Some (Err CleanupRequired, host)
      | HostStopped \<Rightarrow>
          Option.bind (start_adapters sp pp cp t (rh_adapters host) (rh_shared host)) (\<lambda>(results, ads, sh).
          let host1 = host\<lparr>rh_adapters := ads, rh_shared := sh, rh_state := HostStarted\<rparr>;
              report = \<lparr>rlr_operation = OperationStart, rlr_outcome = ReportStarted,
                        rlr_adapters = results\<rparr>
          in Some (if rlr_has_failures report then Err (AdapterFailures report) else Ok report, host1)))"

fun revoke_all_ingress ::
  "'s registered_adapter list \<Rightarrow> ('p, 'c) shared \<Rightarrow> ('p, 'c) shared option" where
  "revoke_all_ingress [] sh = Some sh"
| "revoke_all_ingress (ad # ads) sh =
     Option.bind (adapter_revoke_ingress ad sh) (revoke_all_ingress ads)"

fun unsubscribe_channels :: "channel_id list \<Rightarrow> ('p, 'c) bridge \<Rightarrow> ('p, 'c) bridge" where
  "unsubscribe_channels [] b = b"
| "unsubscribe_channels (cid # cids) b =
     unsubscribe_channels cids
       (snd (unsubscribe_channel cid b :: (_, unit subscription_error) result \<times> ('p, 'c) bridge))"

definition clear_source_generation_subscriptions ::
  "thread_id \<Rightarrow> 's registered_adapter list \<Rightarrow> ('p, 'c) shared
     \<Rightarrow> ((unit, runtime_access_error) result \<times> ('p, 'c) shared) option" where
  "clear_source_generation_subscriptions t ads sh =
     (let channel_ids = List.map_filter (\<lambda>ad. source_generation_channel (ra_source ad)) ads
      in if channel_ids = [] then Some (Ok (), sh)
         else with_access t (on_bridge (\<lambda>b. ((), unsubscribe_channels channel_ids b))) sh)"

text \<open>The loop of \<open>stop\<close> over the adapters in reverse order of registration.\<close>

fun stop_adapters ::
  "('s, 'x) source_port \<Rightarrow> ('p, 'x) provider_port \<Rightarrow> ('c, 'x) channel_port \<Rightarrow> thread_id
     \<Rightarrow> 's registered_adapter list \<Rightarrow> ('p, 'c) shared
     \<Rightarrow> ('x adapter_lifecycle_result list \<times> 's registered_adapter list \<times> ('p, 'c) shared) option" where
  "stop_adapters sp pp cp t [] sh = Some ([], [], sh)"
| "stop_adapters sp pp cp t (ad # ads) sh =
     (if ra_state ad = AdapterStopped
      then Option.bind (stop_adapters sp pp cp t ads sh) (\<lambda>(results, ads', sh1).
           Some (LifecycleSkipped (ra_endpoint ad) AdapterStopped # results, ad # ads', sh1))
      else Option.bind (adapter_stop sp pp cp t ad sh) (\<lambda>(r, ad', sh1).
           Option.bind (stop_adapters sp pp cp t ads sh1) (\<lambda>(results, ads', sh2).
           Some (lifecycle_result (ra_endpoint ad) r # results, ad' # ads', sh2))))"

definition host_stop ::
  "('s, 'x) source_port \<Rightarrow> ('p, 'x) provider_port \<Rightarrow> ('c, 'x) channel_port \<Rightarrow> thread_id
     \<Rightarrow> ('s, 'p, 'c) runtime_host
     \<Rightarrow> (('x runtime_lifecycle_report, 'x runtime_lifecycle_error) result
          \<times> ('s, 'p, 'c) runtime_host) option" where
  "host_stop sp pp cp t host =
     (if rh_state host = HostStopped
      then Some (Ok \<lparr>rlr_operation = OperationStop, rlr_outcome = ReportAlreadyStopped,
                    rlr_adapters = []\<rparr>, host)
      else
        Option.bind (revoke_all_ingress (rh_adapters host) (rh_shared host)) (\<lambda>sh1.
        Option.bind (clear_source_generation_subscriptions t (rh_adapters host) sh1) (\<lambda>(cleared, sh2).
        case cleared of
          Err e \<Rightarrow> Some (Err (LifecycleBridgeAccess e), host\<lparr>rh_shared := sh2\<rparr>)
        | Ok _ \<Rightarrow>
            Option.bind (stop_adapters sp pp cp t (rev (rh_adapters host)) sh2) (\<lambda>(results, ads, sh3).
            let failed = list_ex (\<lambda>result. \<not> alr_is_success result) results;
                host1 = host\<lparr>rh_adapters := rev ads, rh_shared := sh3,
                            rh_state := (if failed then HostStopFailed else HostStopped)\<rparr>;
                report = \<lparr>rlr_operation = OperationStop,
                          rlr_outcome = (if failed then ReportStopFailed else ReportStopped),
                          rlr_adapters = results\<rparr>
            in Some (if failed then Err (AdapterFailures report) else Ok report, host1)))))"

text \<open>\<open>Drop\<close>: the same steps with every result ignored; afterwards the handles' weak references
  no longer upgrade.\<close>

definition host_drop ::
  "('s, 'x) source_port \<Rightarrow> ('p, 'x) provider_port \<Rightarrow> ('c, 'x) channel_port \<Rightarrow> thread_id
     \<Rightarrow> ('s, 'p, 'c) runtime_host \<Rightarrow> ('p, 'c) shared option" where
  "host_drop sp pp cp t host =
     Option.bind (revoke_all_ingress (rh_adapters host) (rh_shared host)) (\<lambda>sh1.
     Option.bind (clear_source_generation_subscriptions t (rh_adapters host) sh1) (\<lambda>(_, sh2).
     Option.bind (stop_adapters sp pp cp t (rev (rh_adapters host)) sh2) (\<lambda>(_, _, sh3).
     Some (sh3\<lparr>sh_alive := False\<rparr>))))"

end
