(* ===== verification/Runtime_Invariant.thy ===== *)
theory Runtime_Invariant
  imports Runtime Bridge_Properties
begin

text \<open>
  What host operations do when no other operation is in progress (\<open>quiet\<close>): every one of them
  returns, acts on the Bridge only by Bridge operations (\<open>bridge_leads\<close>), and touches the permits
  only as its lifecycle step says.
\<close>

section \<open>Bridge evolution\<close>

fun endpoint_known :: "('p, 'c) bridge \<Rightarrow> runtime_endpoint_id \<Rightarrow> bool" where
  "endpoint_known b (ProviderEndpoint pid) = (bt_get (br_providers b) pid \<noteq> None)"
| "endpoint_known b (ChannelEndpoint cid) = (bt_get (br_channels b) cid \<noteq> None)"

text \<open>A Bridge leads to another when the second is reached from the first by Bridge operations and
  no endpoint got lost.\<close>

definition bridge_leads ::
  "('p, 'x) provider_port \<Rightarrow> ('c, 'x) channel_port \<Rightarrow> ('p, 'c) bridge \<Rightarrow> ('p, 'c) bridge \<Rightarrow> bool" where
  "bridge_leads pp cp b b' \<longleftrightarrow>
     (\<forall>cfg. bridge_reachable pp cp cfg b \<longrightarrow> bridge_reachable pp cp cfg b')
     \<and> (\<forall>endpoint. endpoint_known b endpoint \<longrightarrow> endpoint_known b' endpoint)"

lemma bridge_leads_refl [simp]: "bridge_leads pp cp b b"
  by (simp add: bridge_leads_def)

lemma bridge_leads_trans: "bridge_leads pp cp b b' \<Longrightarrow> bridge_leads pp cp b' b'' \<Longrightarrow> bridge_leads pp cp b b''"
  by (simp add: bridge_leads_def)

lemma endpoint_known_descriptor:
  "endpoint_known b (ProviderEndpoint pid) \<longleftrightarrow> br_provider_descriptor b pid \<noteq> None"
  "endpoint_known b (ChannelEndpoint cid) \<longleftrightarrow> br_channel_descriptor b cid \<noteq> None"
  by (simp_all add: br_provider_descriptor_def br_channel_descriptor_def)

lemma endpoint_known_frame:
  "bridge_frame b' = bridge_frame b \<Longrightarrow> endpoint_known b' endpoint = endpoint_known b endpoint"
  by (cases endpoint) (simp_all only: endpoint_known_descriptor bridge_frame_eq_iff)

lemma endpoint_known_channels:
  "endpoint_known b endpoint \<Longrightarrow> endpoint_known (b\<lparr>br_channels := bt_insert cid ch (br_channels b)\<rparr>) endpoint"
  by (cases endpoint) auto

lemma endpoint_known_activate [simp]:
  "endpoint_known (activate_subscription cid sid b) endpoint = endpoint_known b endpoint"
  by (cases endpoint) (simp_all add: activate_subscription_def)

lemma leads_event:
  fixes cp :: "('c, 'x) channel_port"
  assumes wf: "wf_event e" and step: "handle_provider_event cp pid e b = (r, b')"
  shows "bridge_leads pp cp b b'"
proof -
  have known: "endpoint_known b' endpoint" if "endpoint_known b endpoint" for endpoint
  proof (cases "admit_event pid e b :: (_, 'x provider_event_error) result")
    case (Inl x)
    with step that show ?thesis by (auto simp: handle_provider_event_def)
  next
    case (Inr routes)
    obtain res :: "(_, 'x provider_event_error) result" and b1
      where red: "reduce_event e b = (res, b1)" by fastforce
    have "endpoint_known b1 endpoint"
      using that reduce_event_channels [OF red] by (cases endpoint) simp_all
    with step Inr red show ?thesis
      by (auto simp: handle_provider_event_def Let_def endpoint_known_frame [OF fan_out_frame]
          split: sum.splits prod.splits apply_outcome.splits if_splits)
  qed
  with bridge_reachable.event [OF _ wf step] show ?thesis by (auto simp: bridge_leads_def)
qed

lemma leads_subscribe: "subscribe cp cid sid b = (r, b') \<Longrightarrow> bridge_leads pp cp b b'"
proof -
  assume step: "subscribe cp cid sid b = (r, b')"
  then have "endpoint_known b endpoint \<Longrightarrow> endpoint_known b' endpoint" for endpoint
    by (auto simp: subscribe_def Let_def intro: endpoint_known_channels
        split: option.splits if_splits sum.splits prod.splits)
  with bridge_reachable.subscribed [OF _ step] show ?thesis by (auto simp: bridge_leads_def)
qed

lemma leads_sync: "sync_session cp cid sid after n b = (r, b') \<Longrightarrow> bridge_leads pp cp b b'"
proof -
  assume step: "sync_session cp cid sid after n b = (r, b')"
  then have "endpoint_known b endpoint \<Longrightarrow> endpoint_known b' endpoint" for endpoint
    by (auto simp: sync_session_def Let_def intro: endpoint_known_channels
        split: option.splits if_splits sum.splits prod.splits)
  with bridge_reachable.synced [OF _ step] show ?thesis by (auto simp: bridge_leads_def)
qed

lemma leads_unsubscribe:
  "(unsubscribe cid sid b :: (_, 'x subscription_error) result \<times> _) = (r, b')
     \<Longrightarrow> bridge_leads (pp :: ('p, 'x) provider_port) cp b b'"
proof -
  assume step: "(unsubscribe cid sid b :: (_, 'x subscription_error) result \<times> _) = (r, b')"
  then have "endpoint_known b' endpoint = endpoint_known b endpoint" for endpoint
    by (cases endpoint) (auto simp: unsubscribe_def Let_def split: if_splits prod.splits)
  with bridge_reachable.unsubscribed [OF _ step] show ?thesis by (auto simp: bridge_leads_def)
qed

lemma leads_unsubscribe_channel:
  "(unsubscribe_channel cid b :: (_, 'x subscription_error) result \<times> _) = (r, b')
     \<Longrightarrow> bridge_leads (pp :: ('p, 'x) provider_port) cp b b'"
proof -
  assume step: "(unsubscribe_channel cid b :: (_, 'x subscription_error) result \<times> _) = (r, b')"
  then have "endpoint_known b' endpoint = endpoint_known b endpoint" for endpoint
    by (cases endpoint) (auto simp: unsubscribe_channel_def split: if_splits)
  with bridge_reachable.channel_left [OF _ step] show ?thesis by (auto simp: bridge_leads_def)
qed

lemma leads_actions:
  "handle_interaction_response pp cid response b = (r, b') \<Longrightarrow> bridge_leads pp cp b b'"
  "handle_command pp cid command b = (r', b'') \<Longrightarrow> bridge_leads pp cp b b''"
  using bridge_reachable.response bridge_reachable.command
  by (auto simp: bridge_leads_def endpoint_known_frame [OF interaction_response_frame]
      endpoint_known_frame [OF command_frame])

lemma leads_register:
  "register_provider pp p b = (r, b') \<Longrightarrow> bridge_leads pp cp b b'"
  "register_channel cp c b = (r', b'') \<Longrightarrow> bridge_leads pp cp b b''"
proof -
  assume step: "register_provider pp p b = (r, b')"
  then have "endpoint_known b endpoint \<Longrightarrow> endpoint_known b' endpoint" for endpoint
    by (cases endpoint) (auto simp: register_provider_def Let_def split: if_splits)
  with bridge_reachable.registered_provider [OF _ step] show "bridge_leads pp cp b b'"
    by (auto simp: bridge_leads_def)
next
  assume step: "register_channel cp c b = (r', b'')"
  then have "endpoint_known b endpoint \<Longrightarrow> endpoint_known b'' endpoint" for endpoint
    by (cases endpoint) (auto simp: register_channel_def Let_def split: if_splits)
  with bridge_reachable.registered_channel [OF _ step] show "bridge_leads pp cp b b''"
    by (auto simp: bridge_leads_def)
qed

section \<open>Operations on a quiet host\<close>

definition quiet :: "('p, 'c) shared \<Rightarrow> bool" where
  "quiet sh \<longleftrightarrow> sh_owner sh = None \<and> list_all (\<lambda>p. ip_holder p = None) (sh_permits sh)"

definition ingress_open :: "('p, 'c) shared \<Rightarrow> permit_id \<Rightarrow> bool" where
  "ingress_open sh p \<longleftrightarrow> ip_active (permit_cell sh p)"

lemma quiet_cell [simp]: "quiet sh \<Longrightarrow> ip_holder (permit_cell sh p) = None"
  by (auto simp: quiet_def permit_cell_def list_all_length)

lemma quiet_bridge [simp]: "quiet (sh\<lparr>sh_bridge := b\<rparr>) = quiet sh"
  by (simp add: quiet_def)

lemma ingress_open_bridge [simp]: "ingress_open (sh\<lparr>sh_bridge := b\<rparr>) p = ingress_open sh p"
  by (simp add: ingress_open_def permit_cell_def)

lemma with_access_quiet:
  "quiet sh \<Longrightarrow> with_access t (on_bridge f) sh = Some (Ok (fst (f (sh_bridge sh))), sh\<lparr>sh_bridge := snd (f (sh_bridge sh))\<rparr>)"
  by (auto simp: with_access_def on_bridge_def quiet_def split: prod.splits)

lemma permit_hold_release:
  assumes "quiet sh" and "sh' = permit_hold (Some t) p sh"
  shows "permit_hold None p (sh'\<lparr>sh_bridge := b\<rparr>) = sh\<lparr>sh_bridge := b\<rparr>"
proof (cases "p < length (sh_permits sh)")
  case True
  with assms(1) have "ip_holder (sh_permits sh ! p) = None" by (simp add: quiet_def list_all_length)
  with True assms(2) show ?thesis
    by (simp add: permit_hold_def permit_cell_def list_update_same_conv)
next
  case False
  with assms(2) show ?thesis by (simp add: permit_hold_def not_less list_update_beyond)
qed

lemma with_permit_quiet:
  assumes "quiet sh"
  shows "with_permit dropped inactive refused p t (on_bridge f) sh =
    (if \<not> sh_alive sh then Some (Err dropped, sh)
     else if \<not> ingress_open sh p then Some (Err inactive, sh)
     else Some (fst (f (sh_bridge sh)), sh\<lparr>sh_bridge := snd (f (sh_bridge sh))\<rparr>))"
proof -
  have "with_access t (on_bridge f) (permit_hold (Some t) p sh) =
      Some (Ok (fst (f (sh_bridge sh))), (permit_hold (Some t) p sh)\<lparr>sh_bridge := snd (f (sh_bridge sh))\<rparr>)"
    using assms by (auto simp: with_access_def on_bridge_def quiet_def permit_hold_def split: prod.splits)
  with assms permit_hold_release [OF assms refl] show ?thesis
    by (simp add: with_permit_def permit_enter_def ingress_open_def)
qed

lemmas handle_defs = handle_publish_event_def handle_discovery_snapshot_def handle_subscribe_def
  handle_sync_session_def handle_unsubscribe_def handle_submit_response_def handle_submit_command_def
  with_bridge_access_def

fun call_permit :: "handle_call \<Rightarrow> permit_id" where
  "call_permit (CallPublish h _) = peh_permit h"
| "call_permit (CallDiscover h) = cah_permit h"
| "call_permit (CallSubscribe h _) = cah_permit h"
| "call_permit (CallSync h _ _ _) = cah_permit h"
| "call_permit (CallUnsubscribe h _) = cah_permit h"
| "call_permit (CallResponse h _) = cah_permit h"
| "call_permit (CallCommand h _) = cah_permit h"

text \<open>An \<open>AgentEvent\<close> value is well formed by construction; a callback can only publish such.\<close>

fun wf_call :: "handle_call \<Rightarrow> bool" where
  "wf_call (CallPublish _ event) = wf_event event"
| "wf_call _ = True"

lemma perform_shut:
  assumes "quiet sh" and "\<not> sh_alive sh \<or> \<not> ingress_open sh (call_permit c)"
  shows "\<exists>reply. perform pp cp t c sh = Some (reply, sh)"
  using assms by (cases c) (auto simp: handle_defs with_permit_quiet reply_with_def)

text \<open>The Bridge operation behind a call that passes the gates.\<close>

fun call_bridge ::
  "('p, 'x) provider_port \<Rightarrow> ('c, 'x) channel_port \<Rightarrow> handle_call \<Rightarrow> ('p, 'c) bridge \<Rightarrow> ('p, 'c) bridge" where
  "call_bridge pp cp (CallPublish h event) b = snd (handle_provider_event cp (peh_provider_id h) event b)"
| "call_bridge pp cp (CallDiscover h) b = b"
| "call_bridge pp cp (CallSubscribe h sid) b = snd (subscribe cp (cah_channel_id h) sid b)"
| "call_bridge pp cp (CallSync h sid after n) b = snd (sync_session cp (cah_channel_id h) sid after n b)"
| "call_bridge pp (cp :: ('c, 'x) channel_port) (CallUnsubscribe h sid) b =
     snd (unsubscribe (cah_channel_id h) sid b :: (_, 'x subscription_error) result \<times> _)"
| "call_bridge pp cp (CallResponse h response) b =
     snd (handle_interaction_response pp (cah_channel_id h) response b)"
| "call_bridge pp cp (CallCommand h command) b = snd (handle_command pp (cah_channel_id h) command b)"

lemma leads_call: "wf_call c \<Longrightarrow> bridge_leads pp cp b (call_bridge pp cp c b)"
  by (cases c) (auto intro: leads_event leads_subscribe leads_sync leads_unsubscribe leads_actions
      surjective_pairing)

lemma perform_open:
  assumes "quiet sh" and "sh_alive sh" and "ingress_open sh (call_permit c)"
  shows "\<exists>reply. perform pp cp t c sh = Some (reply, sh\<lparr>sh_bridge := call_bridge pp cp c (sh_bridge sh)\<rparr>)"
  using assms by (cases c) (simp_all add: handle_defs with_permit_quiet reply_with_def case_prod_unfold)

lemma perform_quiet:
  assumes "quiet sh" and "wf_call c"
  shows "\<exists>reply b. perform pp cp t c sh = Some (reply, sh\<lparr>sh_bridge := b\<rparr>)
    \<and> bridge_leads pp cp (sh_bridge sh) b"
proof (cases "\<not> sh_alive sh \<or> \<not> ingress_open sh (call_permit c)")
  case True
  from perform_shut [OF assms(1) this] obtain reply where "perform pp cp t c sh = Some (reply, sh)" by blast
  then show ?thesis by (intro exI [of _ reply] exI [of _ "sh_bridge sh"]) simp
next
  case False
  with perform_open [OF assms(1)] leads_call [OF assms(2)] show ?thesis by blast
qed

primrec wf_callback :: "('s, 'x) callback \<Rightarrow> bool" where
  "wf_callback (Return r s) = True"
| "wf_callback (Call c k) = (wf_call c \<and> (\<forall>reply. wf_callback (k reply)))"

definition wf_source :: "('s, 'x) source_port \<Rightarrow> bool" where
  "wf_source sp \<longleftrightarrow> (\<forall>s h. wf_callback (src_start_provider sp s h))
     \<and> (\<forall>s h. wf_callback (src_start_channel sp s h)) \<and> (\<forall>s. wf_callback (src_stop sp s))"

text \<open>The reply of a call whose permit is revoked.\<close>

fun inactive_reply :: "handle_call \<Rightarrow> 'x handle_reply" where
  "inactive_reply (CallPublish h _) = ReplyPublish (Err (ProviderInactive (peh_provider_id h)))"
| "inactive_reply (CallDiscover h) = ReplyDiscover (Err (ChannelInactive (cah_channel_id h)))"
| "inactive_reply (CallSubscribe h _) = ReplySubscribe (Err (ChannelInactive (cah_channel_id h)))"
| "inactive_reply (CallSync h _ _ _) = ReplySync (Err (ChannelInactive (cah_channel_id h)))"
| "inactive_reply (CallUnsubscribe h _) = ReplyUnsubscribe (Err (ChannelInactive (cah_channel_id h)))"
| "inactive_reply (CallResponse h _) = ReplyAction (Err (ChannelInactive (cah_channel_id h)))"
| "inactive_reply (CallCommand h _) = ReplyAction (Err (ChannelInactive (cah_channel_id h)))"

lemma perform_inactive:
  assumes "quiet sh" and "sh_alive sh" and "\<not> ingress_open sh (call_permit call)"
  shows "perform pp cp t call sh = Some (inactive_reply call, sh)"
  using assms by (cases call) (simp_all add: handle_defs with_permit_quiet reply_with_def)

text \<open>The result of a callback all of whose calls are answered that way.\<close>

primrec shut_callback :: "('s, 'x) callback \<Rightarrow> (unit, 'x) result \<times> 's" where
  "shut_callback (Return r s) = (r, s)"
| "shut_callback (Call c k) = shut_callback (k (inactive_reply c))"

lemma callback_shut:
  assumes "quiet sh" and "sh_alive sh" and "\<forall>p. \<not> ingress_open sh p"
  shows "run_callback pp cp t cb sh = Some (fst (shut_callback cb), snd (shut_callback cb), sh)"
  using assms by (induction cb) (simp_all add: perform_inactive)

lemma callback_quiet:
  assumes "quiet sh" and "wf_callback cb"
  shows "\<exists>r s b. run_callback pp cp t cb sh = Some (r, s, sh\<lparr>sh_bridge := b\<rparr>)
    \<and> bridge_leads pp cp (sh_bridge sh) b"
  using assms
proof (induction cb arbitrary: sh)
  case (Return r s)
  then show ?case by (intro exI [of _ r] exI [of _ s] exI [of _ "sh_bridge sh"]) simp
next
  case (Call c k)
  obtain reply b where step: "perform pp cp t c sh = Some (reply, sh\<lparr>sh_bridge := b\<rparr>)"
    "bridge_leads pp cp (sh_bridge sh) b"
    using perform_quiet [OF Call.prems(1), of c pp cp t] Call.prems(2) by auto
  obtain r s b' where "run_callback pp cp t (k reply) (sh\<lparr>sh_bridge := b\<rparr>)
      = Some (r, s, sh\<lparr>sh_bridge := b, sh_bridge := b'\<rparr>)" "bridge_leads pp cp b b'"
    using Call.IH [OF rangeI, of "sh\<lparr>sh_bridge := b\<rparr>" reply] Call.prems by auto
  with step bridge_leads_trans show ?case by fastforce
qed

section \<open>Revoking and starting\<close>

lemma put_source_simps [simp]:
  "source_endpoint (put_source_state s source) = source_endpoint source"
  "source_generation_channel (put_source_state s source) = source_generation_channel source"
proof -
  show "source_endpoint (put_source_state s source) = source_endpoint source" by (cases source) simp_all
  show "source_generation_channel (put_source_state s source) = source_generation_channel source"
  proof (cases source)
    case (ChannelSource cid s' scope)
    then show ?thesis by (cases scope) simp_all
  qed simp
qed

lemma permit_revoke_quiet:
  assumes "quiet sh"
  obtains sh' where "permit_revoke p sh = Some sh'" and "quiet sh'" and "sh_bridge sh' = sh_bridge sh"
    and "sh_alive sh' = sh_alive sh" and "length (sh_permits sh') = length (sh_permits sh)"
    and "\<And>q. ingress_open sh' q \<longleftrightarrow> ingress_open sh q \<and> q \<noteq> p"
proof
  let ?sh = "sh\<lparr>sh_permits := (sh_permits sh)[p := (permit_cell sh p)\<lparr>ip_active := False\<rparr>]\<rparr>"
  show "permit_revoke p sh = Some ?sh" using assms by (simp add: permit_revoke_def)
  show "quiet ?sh"
    using assms by (auto simp: quiet_def list_all_length nth_list_update permit_cell_def)
  show "ingress_open ?sh q \<longleftrightarrow> ingress_open sh q \<and> q \<noteq> p" for q
    by (auto simp: ingress_open_def permit_cell_def nth_list_update)
qed simp_all

lemma shared_eqI:
  fixes sh :: "('p, 'c) shared"
  assumes "quiet sh" and "quiet sh'" and "sh_bridge sh' = sh_bridge sh" and "sh_alive sh' = sh_alive sh"
    and "length (sh_permits sh') = length (sh_permits sh)" and "\<And>q. ingress_open sh' q = ingress_open sh q"
  shows "sh' = sh"
proof -
  have "sh_permits sh' ! q = sh_permits sh ! q" if "q < length (sh_permits sh)" for q
    using assms(1,2,5) assms(6) [of q] that
    by (intro ingress_permit.equality) (simp_all add: ingress_open_def permit_cell_def quiet_def list_all_length)
  with assms show ?thesis
    by (intro shared.equality nth_equalityI) (simp_all add: quiet_def)
qed

lemma adapter_revoke_quiet:
  assumes "quiet sh"
  obtains sh' where "adapter_revoke_ingress ad sh = Some sh'" and "quiet sh'"
    and "sh_bridge sh' = sh_bridge sh" and "sh_alive sh' = sh_alive sh"
    and "length (sh_permits sh') = length (sh_permits sh)"
    and "\<And>q. ingress_open sh' q \<longleftrightarrow> ingress_open sh q \<and> ra_permit ad \<noteq> Some q"
proof (cases "ra_permit ad")
  case None
  with assms that [of sh] show thesis by (simp add: adapter_revoke_ingress_def)
next
  case (Some p)
  obtain sh' where "permit_revoke p sh = Some sh'" "quiet sh'" "sh_bridge sh' = sh_bridge sh"
    "sh_alive sh' = sh_alive sh" "length (sh_permits sh') = length (sh_permits sh)"
    "\<And>q. ingress_open sh' q \<longleftrightarrow> ingress_open sh q \<and> q \<noteq> p"
    using permit_revoke_quiet [OF assms] by metis
  with Some show thesis by (intro that [of sh']) (auto simp: adapter_revoke_ingress_def)
qed

lemma revoke_all_quiet:
  assumes "quiet sh"
  shows "\<exists>sh'. revoke_all_ingress ads sh = Some sh' \<and> quiet sh' \<and> sh_bridge sh' = sh_bridge sh
    \<and> sh_alive sh' = sh_alive sh \<and> length (sh_permits sh') = length (sh_permits sh)
    \<and> (\<forall>q. ingress_open sh' q \<longleftrightarrow> ingress_open sh q \<and> Some q \<notin> ra_permit ` set ads)"
  using assms
proof (induction ads arbitrary: sh)
  case (Cons ad ads)
  obtain sh1 where sh1: "adapter_revoke_ingress ad sh = Some sh1" "quiet sh1" "sh_bridge sh1 = sh_bridge sh"
    "sh_alive sh1 = sh_alive sh" "length (sh_permits sh1) = length (sh_permits sh)"
    "\<And>q. ingress_open sh1 q \<longleftrightarrow> ingress_open sh q \<and> ra_permit ad \<noteq> Some q"
    using adapter_revoke_quiet [OF Cons.prems] by metis
  from Cons.IH [OF sh1(2)] sh1 show ?case by auto
qed auto

lemma ingress_open_less: "ingress_open sh p \<Longrightarrow> p < length (sh_permits sh)"
  by (auto simp: ingress_open_def permit_cell_def split: if_splits)

lemma alloc_quiet:
  assumes "quiet sh" and "sh' = sh\<lparr>sh_permits := sh_permits sh @ [permit_active]\<rparr>"
  shows "quiet sh'" and "ingress_open sh' q \<longleftrightarrow> ingress_open sh q \<or> q = length (sh_permits sh)"
  using assms by (auto simp: quiet_def permit_active_def ingress_open_def permit_cell_def nth_append)

text \<open>Starting one source: a fresh permit that stays open exactly when the callback succeeds.\<close>

lemma adapter_start_quiet:
  assumes "quiet sh" and "wf_source sp"
  shows "\<exists>r ad' sh'. adapter_start sp pp cp t ad sh = Some (r, ad', sh') \<and> quiet sh'
    \<and> sh_alive sh' = sh_alive sh \<and> bridge_leads pp cp (sh_bridge sh) (sh_bridge sh')
    \<and> length (sh_permits sh') = Suc (length (sh_permits sh))
    \<and> (\<forall>q. ingress_open sh' q \<longleftrightarrow> ingress_open sh q \<or> q = length (sh_permits sh) \<and> ra_state ad' = AdapterRunning)
    \<and> ra_permit ad' = Some (length (sh_permits sh)) \<and> ra_endpoint ad' = ra_endpoint ad
    \<and> source_generation_channel (ra_source ad') = source_generation_channel (ra_source ad)
    \<and> ra_state ad' = (case r of Ok _ \<Rightarrow> AdapterRunning | Err _ \<Rightarrow> AdapterStartFailed)
    \<and> (\<forall>e. r = Err e \<longrightarrow> ale_endpoint e = ra_endpoint ad \<and> ale_phase e = PhaseStart)"
proof -
  let ?p = "length (sh_permits sh)"
  let ?sh1 = "sh\<lparr>sh_permits := sh_permits sh @ [permit_active]\<rparr>"
  have q1: "quiet ?sh1" and open1: "\<And>q. ingress_open ?sh1 q \<longleftrightarrow> ingress_open sh q \<or> q = ?p"
    using alloc_quiet [OF assms(1) refl] by blast+
  have "wf_callback (source_start sp ?p (ra_source ad))"
    using assms(2) by (cases "ra_source ad") (simp_all add: wf_source_def)
  then obtain r s b where cb: "run_callback pp cp t (source_start sp ?p (ra_source ad)) ?sh1
      = Some (r, s, ?sh1\<lparr>sh_bridge := b\<rparr>)" "bridge_leads pp cp (sh_bridge sh) b"
    using callback_quiet [OF q1, of _ pp cp t] by fastforce
  let ?sh2 = "?sh1\<lparr>sh_bridge := b\<rparr>"
  show ?thesis
  proof (cases r)
    case (Inr u)
    with cb q1 open1 show ?thesis by (auto simp: adapter_start_def Let_def)
  next
    case (Inl x)
    obtain sh3 where sh3: "permit_revoke ?p ?sh2 = Some sh3" "quiet sh3" "sh_bridge sh3 = b"
      "sh_alive sh3 = sh_alive sh" "length (sh_permits sh3) = Suc ?p"
      "\<And>q. ingress_open sh3 q \<longleftrightarrow> ingress_open ?sh1 q \<and> q \<noteq> ?p"
      using permit_revoke_quiet [of ?sh2 ?p] q1 by (simp del: shared.update_convs) metis
    have "ingress_open sh3 q \<longleftrightarrow> ingress_open sh q" for q
      using sh3(6) open1 ingress_open_less [of sh q] by blast
    with Inl cb sh3 show ?thesis by (auto simp: adapter_start_def Let_def)
  qed
qed

end
