(* ===== verification/Runtime_Lifecycle.thy ===== *)
theory Runtime_Lifecycle
  imports Runtime_Invariant
begin

text \<open>
  The lifecycle loops of the host: what one pass of \<open>start\<close> and of \<open>stop\<close> does to each adapter
  (\<open>start_step\<close>, \<open>stop_one\<close>), the host invariant, the transitions of a host together with the
  handles it has given out, and that every transition keeps the invariant.
\<close>

section \<open>One pass over the adapters\<close>

definition same_source :: "'s registered_adapter \<Rightarrow> 's registered_adapter \<Rightarrow> bool" where
  "same_source ad ad' \<longleftrightarrow> ra_endpoint ad' = ra_endpoint ad
     \<and> source_generation_channel (ra_source ad') = source_generation_channel (ra_source ad)"

definition start_step ::
  "permit_id \<Rightarrow> 's registered_adapter \<Rightarrow> 'x adapter_lifecycle_result \<Rightarrow> 's registered_adapter \<Rightarrow> bool" where
  "start_step p ad r ad' \<longleftrightarrow> same_source ad ad' \<and> ra_permit ad' = Some p
     \<and> (case r of
          LifecycleSucceeded endpoint \<Rightarrow> endpoint = ra_endpoint ad \<and> ra_state ad' = AdapterRunning
        | LifecycleSkipped _ _ \<Rightarrow> False
        | LifecycleFailed e \<Rightarrow> ale_endpoint e = ra_endpoint ad \<and> ale_phase e = PhaseStart
            \<and> ra_state ad' = AdapterStartFailed)"

text \<open>Stopping an adapter whose calls are all refused depends on nothing but the adapter.\<close>

definition stop_one ::
  "('s, 'x) source_port \<Rightarrow> 's registered_adapter \<Rightarrow> 'x adapter_lifecycle_result \<times> 's registered_adapter" where
  "stop_one sp ad =
     (if ra_state ad = AdapterStopped then (LifecycleSkipped (ra_endpoint ad) AdapterStopped, ad)
      else case shut_callback (source_stop sp (ra_source ad)) of
        (Ok _, s) \<Rightarrow> (LifecycleSucceeded (ra_endpoint ad),
          ad\<lparr>ra_source := put_source_state s (ra_source ad), ra_state := AdapterStopped\<rparr>)
      | (Err e, s) \<Rightarrow> (LifecycleFailed \<lparr>ale_endpoint = ra_endpoint ad, ale_phase = PhaseStop, ale_source = Boxed e\<rparr>,
          ad\<lparr>ra_source := put_source_state s (ra_source ad), ra_state := AdapterStopFailed\<rparr>))"

lemma stop_one_simps [simp]:
  "ra_permit (snd (stop_one sp ad)) = ra_permit ad"
  "source_endpoint (ra_source (snd (stop_one sp ad))) = ra_endpoint ad"
  "alr_endpoint (fst (stop_one sp ad)) = ra_endpoint ad"
  "ra_state (snd (stop_one sp ad)) =
     (if alr_is_success (fst (stop_one sp ad)) then AdapterStopped else AdapterStopFailed)"
  by (auto simp: stop_one_def split: prod.splits sum.splits)

lemma start_step_lifecycle:
  "start_step p ad (lifecycle_result (ra_endpoint ad) r) ad' \<longleftrightarrow>
     same_source ad ad' \<and> ra_permit ad' = Some p
     \<and> ra_state ad' = (case r of Ok _ \<Rightarrow> AdapterRunning | Err _ \<Rightarrow> AdapterStartFailed)
     \<and> (\<forall>e. r = Err e \<longrightarrow> ale_endpoint e = ra_endpoint ad \<and> ale_phase e = PhaseStart)"
  by (cases r) (auto simp: start_step_def lifecycle_result_def)

definition running_permit :: "'s registered_adapter list \<Rightarrow> permit_id \<Rightarrow> bool" where
  "running_permit ads q \<longleftrightarrow> (\<exists>ad\<in>set ads. ra_permit ad = Some q \<and> ra_state ad = AdapterRunning)"

lemma running_permit_Cons [simp]:
  "running_permit [] q = False"
  "running_permit (ad # ads) q \<longleftrightarrow> ra_permit ad = Some q \<and> ra_state ad = AdapterRunning \<or> running_permit ads q"
  by (auto simp: running_permit_def)

lemma start_adapters_quiet:
  assumes "quiet sh" and "wf_source sp"
  shows "\<exists>results ads' sh'. start_adapters sp pp cp t ads sh = Some (results, ads', sh') \<and> quiet sh'
    \<and> sh_alive sh' = sh_alive sh \<and> bridge_leads pp cp (sh_bridge sh) (sh_bridge sh')
    \<and> length (sh_permits sh') = length (sh_permits sh) + length ads
    \<and> length results = length ads \<and> length ads' = length ads
    \<and> (\<forall>i<length ads. start_step (length (sh_permits sh) + i) (ads ! i) (results ! i) (ads' ! i))
    \<and> (\<forall>q. ingress_open sh' q \<longleftrightarrow> ingress_open sh q \<or> running_permit ads' q)"
  using assms(1)
proof (induction ads arbitrary: sh)
  case (Cons ad ads)
  obtain r ad' sh1 where one: "adapter_start sp pp cp t ad sh = Some (r, ad', sh1)" "quiet sh1"
    "sh_alive sh1 = sh_alive sh" "bridge_leads pp cp (sh_bridge sh) (sh_bridge sh1)"
    "length (sh_permits sh1) = Suc (length (sh_permits sh))"
    "\<forall>q. ingress_open sh1 q \<longleftrightarrow> ingress_open sh q \<or> q = length (sh_permits sh) \<and> ra_state ad' = AdapterRunning"
    "ra_permit ad' = Some (length (sh_permits sh))"
    "start_step (length (sh_permits sh)) ad (lifecycle_result (ra_endpoint ad) r) ad'"
    using adapter_start_quiet [OF Cons.prems assms(2), of pp cp t ad]
    unfolding start_step_lifecycle same_source_def by blast
  obtain results ads' sh2 where rest: "start_adapters sp pp cp t ads sh1 = Some (results, ads', sh2)"
    "quiet sh2" "sh_alive sh2 = sh_alive sh1" "bridge_leads pp cp (sh_bridge sh1) (sh_bridge sh2)"
    "length (sh_permits sh2) = length (sh_permits sh1) + length ads"
    "length results = length ads" "length ads' = length ads"
    "\<forall>i<length ads. start_step (length (sh_permits sh1) + i) (ads ! i) (results ! i) (ads' ! i)"
    "\<forall>q. ingress_open sh2 q \<longleftrightarrow> ingress_open sh1 q \<or> running_permit ads' q"
    using Cons.IH [OF one(2)] by auto
  have "start_adapters sp pp cp t (ad # ads) sh =
      Some (lifecycle_result (ra_endpoint ad) r # results, ad' # ads', sh2)"
    using one(1) rest(1) by simp
  with one rest bridge_leads_trans [OF one(4) rest(4)] show ?case
    by (auto simp: All_less_Suc2)
qed simp

lemma adapter_stop_shut:
  assumes "quiet sh" and "sh_alive sh" and "\<forall>p. \<not> ingress_open sh p" and "ra_state ad \<noteq> AdapterStopped"
  obtains r where "adapter_stop sp pp cp t ad sh = Some (r, snd (stop_one sp ad), sh)"
    and "lifecycle_result (ra_endpoint ad) r = fst (stop_one sp ad)"
proof -
  obtain sh1 where sh1: "adapter_revoke_ingress ad sh = Some sh1" "quiet sh1" "sh_bridge sh1 = sh_bridge sh"
    "sh_alive sh1 = sh_alive sh" "length (sh_permits sh1) = length (sh_permits sh)"
    "\<And>q. ingress_open sh1 q \<longleftrightarrow> ingress_open sh q \<and> ra_permit ad \<noteq> Some q"
    using adapter_revoke_quiet [OF assms(1), of ad] by metis
  have "sh1 = sh" using shared_eqI [OF assms(1) sh1(2-5)] sh1(6) assms(3) by blast
  moreover obtain r s where cb: "shut_callback (source_stop sp (ra_source ad)) = (r, s)" by fastforce
  moreover have "run_callback pp cp t (source_stop sp (ra_source ad)) sh = Some (r, s, sh)"
    by (simp add: callback_shut [OF assms(1-3)] cb)
  ultimately show thesis using that sh1(1) assms(4)
    by (cases r) (simp_all add: adapter_stop_def Let_def stop_one_def lifecycle_result_def)
qed

lemma stop_adapters_shut:
  assumes "quiet sh" and "sh_alive sh" and "\<forall>p. \<not> ingress_open sh p"
  shows "stop_adapters sp pp cp t ads sh = Some (map (fst \<circ> stop_one sp) ads, map (snd \<circ> stop_one sp) ads, sh)"
proof (induction ads)
  case (Cons ad ads)
  show ?case
  proof (cases "ra_state ad = AdapterStopped")
    case True
    with Cons show ?thesis by (simp add: stop_one_def)
  next
    case False
    with adapter_stop_shut [OF assms False, of sp pp cp t] Cons show ?thesis by fastforce
  qed
qed simp

section \<open>Subscriptions of one source generation\<close>

lemma unsubscribe_channel_untyped:
  "snd (unsubscribe_channel cid b :: (_, unit subscription_error) result \<times> _)
     = snd (unsubscribe_channel cid b :: (_, 'x subscription_error) result \<times> _)"
  by (simp add: unsubscribe_channel_def Let_def split: prod.splits)

lemma leads_unsubscribe_channels:
  "bridge_leads (pp :: ('p, 'x) provider_port) cp b (unsubscribe_channels cids b)"
proof (induction cids arbitrary: b)
  case (Cons cid cids)
  have "bridge_leads pp cp b (snd (unsubscribe_channel cid b :: (_, 'x subscription_error) result \<times> _))"
    by (rule leads_unsubscribe_channel) (rule surjective_pairing)
  with Cons bridge_leads_trans unsubscribe_channel_untyped show ?case by (metis unsubscribe_channels.simps(2))
qed simp

lemma unsubscribe_channels_rel:
  assumes "\<forall>cid\<in>set cids. endpoint_known b (ChannelEndpoint cid)"
  shows "subscription_rel (unsubscribe_channels cids b) = {(c, s) \<in> subscription_rel b. c \<notin> set cids}"
  using assms
proof (induction cids arbitrary: b)
  case (Cons cid cids)
  let ?b = "snd (unsubscribe_channel cid b :: (_, unit subscription_error) result \<times> _)"
  have "bt_contains_key (br_channels b) cid" using Cons.prems by (simp add: bt_contains_key_def)
  then obtain n where "unsubscribe_channel cid b = (Ok n :: (_, unit subscription_error) result, ?b)"
    by (simp add: unsubscribe_channel_def)
  then have rel: "subscription_rel ?b = {(c, s) \<in> subscription_rel b. c \<noteq> cid}"
    and known: "endpoint_known ?b endpoint = endpoint_known b endpoint" for endpoint
    using unsubscribe_channel_rel
    by (blast, cases endpoint) (auto simp: unsubscribe_channel_def split: if_splits)
  have "\<forall>c\<in>set cids. endpoint_known ?b (ChannelEndpoint c)"
    unfolding known using Cons.prems by simp
  from Cons.IH [OF this] show ?case by (auto simp: rel)
qed simp

section \<open>The host invariant\<close>

fun lifecycle_ok :: "runtime_host_state \<Rightarrow> adapter_lifecycle_state list \<Rightarrow> bool" where
  "lifecycle_ok HostStopped states = list_all (\<lambda>s. s = AdapterStopped) states"
| "lifecycle_ok HostStarted states = list_all (\<lambda>s. s = AdapterRunning \<or> s = AdapterStartFailed) states"
| "lifecycle_ok HostStopFailed states =
     (list_all (\<lambda>s. s = AdapterStopped \<or> s = AdapterStopFailed) states
      \<and> list_ex (\<lambda>s. s = AdapterStopFailed) states)"

text \<open>Nothing is locked, the adapters' states fit the host's, the endpoints are distinct and known
  to the Bridge, and a permit is open exactly when it belongs to a running adapter.\<close>

definition host_inv :: "('s, 'p, 'c) runtime_host \<Rightarrow> bool" where
  "host_inv host \<longleftrightarrow> quiet (rh_shared host) \<and> sh_alive (rh_shared host)
     \<and> lifecycle_ok (rh_state host) (map ra_state (rh_adapters host))
     \<and> distinct (map source_endpoint (map ra_source (rh_adapters host)))
     \<and> (\<forall>ad\<in>set (rh_adapters host). endpoint_known (sh_bridge (rh_shared host)) (ra_endpoint ad))
     \<and> (\<forall>p. ingress_open (rh_shared host) p \<longleftrightarrow> running_permit (rh_adapters host) p)"

lemma lifecycle_ok_not_started:
  "lifecycle_ok state (map ra_state ads) \<Longrightarrow> state \<noteq> HostStarted \<Longrightarrow> \<not> running_permit ads p"
  by (cases state) (auto simp: running_permit_def list_all_iff)

lemma list_ex_rev: "list_ex P (rev xs) = list_ex P xs"
  by (simp add: list_ex_iff)

text \<open>The list of endpoints as a whole, and what a change of the Bridge keeps.\<close>

lemma endpoints_kept:
  assumes "length ads' = length ads" and "\<And>i. i < length ads \<Longrightarrow> same_source (ads ! i) (ads' ! i)"
  shows "map source_endpoint (map ra_source ads') = map source_endpoint (map ra_source ads)"
  using assms by (intro nth_equalityI) (simp_all add: same_source_def)

lemma endpoints_known_leads:
  assumes "map source_endpoint (map ra_source ads') = map source_endpoint (map ra_source ads)"
    and "\<forall>ad\<in>set ads. endpoint_known b (ra_endpoint ad)" and "bridge_leads pp cp b b'"
  shows "\<forall>ad\<in>set ads'. endpoint_known b' (ra_endpoint ad)"
proof
  fix ad assume "ad \<in> set ads'"
  then have "ra_endpoint ad \<in> set (map source_endpoint (map ra_source ads'))" by simp
  with assms show "endpoint_known b' (ra_endpoint ad)" by (auto simp: bridge_leads_def)
qed

lemma host_inv_bridge:
  assumes "host_inv host" and "bridge_leads pp cp (sh_bridge (rh_shared host)) b"
  shows "host_inv (host\<lparr>rh_shared := (rh_shared host)\<lparr>sh_bridge := b\<rparr>\<rparr>)"
  using assms by (auto simp: host_inv_def bridge_leads_def)

lemma start_all_states:
  assumes "length results = length ads" and "length ads' = length ads"
    and "\<forall>i<length ads. start_step (n + i) (ads ! i) (results ! i) (ads' ! i)"
  shows "lifecycle_ok HostStarted (map ra_state ads')"
proof -
  have "ra_state (ads' ! i) = AdapterRunning \<or> ra_state (ads' ! i) = AdapterStartFailed"
    if "i < length ads" for i
    using assms(3) that by (cases "results ! i") (auto simp: start_step_def)
  with assms show ?thesis by (simp add: list_all_length)
qed

lemma stop_all_states:
  "lifecycle_ok (if list_ex (\<lambda>r. \<not> alr_is_success r) (map (fst \<circ> stop_one sp) ads) then HostStopFailed else HostStopped)
     (map ra_state (map (snd \<circ> stop_one sp) ads))"
  by (auto simp: list_all_iff list_ex_iff)

section \<open>Start and stop of a consistent host\<close>

definition start_report :: "'x adapter_lifecycle_result list \<Rightarrow> 'x runtime_lifecycle_report" where
  "start_report results = \<lparr>rlr_operation = OperationStart, rlr_outcome = ReportStarted, rlr_adapters = results\<rparr>"

definition stop_report :: "'x adapter_lifecycle_result list \<Rightarrow> 'x runtime_lifecycle_report" where
  "stop_report results = \<lparr>rlr_operation = OperationStop,
     rlr_outcome = (if list_ex (\<lambda>r. \<not> alr_is_success r) results then ReportStopFailed else ReportStopped),
     rlr_adapters = results\<rparr>"

definition report_result ::
  "'x runtime_lifecycle_report \<Rightarrow> ('x runtime_lifecycle_report, 'x runtime_lifecycle_error) result" where
  "report_result report = (if rlr_has_failures report then Err (AdapterFailures report) else Ok report)"

lemma host_start_stopped:
  assumes inv: "host_inv host" and wf: "wf_source sp" and stopped: "rh_state host = HostStopped"
  obtains results host' where
    "host_start sp pp cp t host = Some (report_result (start_report results), host')"
    "host_inv host'" "rh_state host' = HostStarted"
    "bridge_leads pp cp (sh_bridge (rh_shared host)) (sh_bridge (rh_shared host'))"
    "length results = length (rh_adapters host)" "length (rh_adapters host') = length (rh_adapters host)"
    "\<forall>i<length (rh_adapters host). start_step (length (sh_permits (rh_shared host)) + i)
       (rh_adapters host ! i) (results ! i) (rh_adapters host' ! i)"
    "length (sh_permits (rh_shared host')) = length (sh_permits (rh_shared host)) + length (rh_adapters host)"
proof -
  obtain results ads sh where step: "start_adapters sp pp cp t (rh_adapters host) (rh_shared host) = Some (results, ads, sh)"
    "quiet sh" "sh_alive sh = sh_alive (rh_shared host)"
    "bridge_leads pp cp (sh_bridge (rh_shared host)) (sh_bridge sh)"
    "length (sh_permits sh) = length (sh_permits (rh_shared host)) + length (rh_adapters host)"
    "length results = length (rh_adapters host)" "length ads = length (rh_adapters host)"
    "\<forall>i<length (rh_adapters host). start_step (length (sh_permits (rh_shared host)) + i)
       (rh_adapters host ! i) (results ! i) (ads ! i)"
    "\<forall>q. ingress_open sh q \<longleftrightarrow> ingress_open (rh_shared host) q \<or> running_permit ads q"
    using start_adapters_quiet [of "rh_shared host" sp pp cp t "rh_adapters host"] inv wf
    unfolding host_inv_def by blast
  let ?host = "host\<lparr>rh_adapters := ads, rh_shared := sh, rh_state := HostStarted\<rparr>"
  have same: "map source_endpoint (map ra_source ads) = map source_endpoint (map ra_source (rh_adapters host))"
    using endpoints_kept [OF step(7)] step(8) by (simp add: start_step_def)
  have "\<forall>q. ingress_open sh q \<longleftrightarrow> running_permit ads q"
    using step(9) inv lifecycle_ok_not_started [of "rh_state host" "rh_adapters host"] stopped
    by (simp add: host_inv_def)
  then have "host_inv ?host"
    using inv step(2,3) same endpoints_known_leads [OF same _ step(4)] start_all_states [OF step(6-8)]
    by (simp add: host_inv_def del: lifecycle_ok.simps)
  moreover have "host_start sp pp cp t host = Some (report_result (start_report results), ?host)"
    using step(1) stopped by (simp add: host_start_def start_report_def report_result_def Let_def)
  ultimately show thesis using step(4-8) by (intro that [of results ?host]) simp_all
qed

abbreviation source_generation_channels :: "'s registered_adapter list \<Rightarrow> channel_id list" where
  "source_generation_channels \<equiv> List.map_filter (\<lambda>ad. source_generation_channel (ra_source ad))"

lemma host_stop_cleanup:
  fixes sp :: "('s, 'x) source_port" and host :: "('s, 'p, 'c) runtime_host"
  assumes inv: "host_inv host" and active: "rh_state host \<noteq> HostStopped"
  defines "results \<equiv> map (fst \<circ> stop_one sp) (rev (rh_adapters host))"
  obtains host' where
    "host_stop sp pp cp t host = Some (report_result (stop_report results), host')"
    "host_inv host'"
    "rh_state host' = (if rlr_has_failures (stop_report results) then HostStopFailed else HostStopped)"
    "rh_adapters host' = map (snd \<circ> stop_one sp) (rh_adapters host)"
    "sh_bridge (rh_shared host') =
       unsubscribe_channels (source_generation_channels (rh_adapters host)) (sh_bridge (rh_shared host))"
    "\<forall>p. \<not> ingress_open (rh_shared host') p"
    "length (sh_permits (rh_shared host')) = length (sh_permits (rh_shared host))"
proof -
  let ?ads = "rh_adapters host"
  let ?b = "unsubscribe_channels (source_generation_channels ?ads) (sh_bridge (rh_shared host))"
  obtain sh1 where sh1: "revoke_all_ingress ?ads (rh_shared host) = Some sh1" "quiet sh1"
    "sh_bridge sh1 = sh_bridge (rh_shared host)" "sh_alive sh1"
    "length (sh_permits sh1) = length (sh_permits (rh_shared host))"
    "\<forall>q. ingress_open sh1 q \<longleftrightarrow> ingress_open (rh_shared host) q \<and> Some q \<notin> ra_permit ` set ?ads"
    using revoke_all_quiet [of "rh_shared host" ?ads] inv unfolding host_inv_def by blast
  have shut: "\<forall>p. \<not> ingress_open sh1 p"
    using sh1(6) inv by (force simp: host_inv_def running_permit_def)
  let ?sh2 = "sh1\<lparr>sh_bridge := ?b\<rparr>"
  have clear: "clear_source_generation_subscriptions t ?ads sh1 = Some (Ok (), ?sh2)"
    using sh1(2,3) by (auto simp: clear_source_generation_subscriptions_def Let_def with_access_quiet)
  have step: "stop_adapters sp pp cp t (rev ?ads) ?sh2 =
      Some (results, map (snd \<circ> stop_one sp) (rev ?ads), ?sh2)"
    unfolding results_def by (rule stop_adapters_shut) (use shut sh1(2,4) in simp_all)
  let ?failed = "list_ex (\<lambda>r. \<not> alr_is_success r) results"
  let ?host = "host\<lparr>rh_adapters := map (snd \<circ> stop_one sp) ?ads, rh_shared := ?sh2,
    rh_state := (if ?failed then HostStopFailed else HostStopped)\<rparr>"
  have same: "map source_endpoint (map ra_source (map (snd \<circ> stop_one sp) ?ads)) = map source_endpoint (map ra_source ?ads)"
    by simp
  have known: "\<forall>ad\<in>set (map (snd \<circ> stop_one sp) ?ads). endpoint_known ?b (ra_endpoint ad)"
    by (rule endpoints_known_leads [OF same _ leads_unsubscribe_channels [of pp cp]])
      (use inv in \<open>simp add: host_inv_def\<close>)
  have states: "lifecycle_ok (rh_state ?host) (map ra_state (map (snd \<circ> stop_one sp) ?ads))"
    using stop_all_states [of sp ?ads] by (simp add: results_def list_ex_rev flip: rev_map)
  have "\<not> running_permit (map (snd \<circ> stop_one sp) ?ads) p" for p
    using lifecycle_ok_not_started [OF states] by simp
  then have "host_inv ?host"
    using inv sh1(2,4) shut same known states
    by (simp add: host_inv_def del: lifecycle_ok.simps map_map list.map_comp)
  moreover have "host_stop sp pp cp t host = Some (report_result (stop_report results), ?host)"
    using sh1(1) clear step active
    by (simp add: host_stop_def stop_report_def report_result_def rlr_has_failures_def Let_def rev_map)
  ultimately show thesis
    using shut sh1(5) by (intro that [of ?host]) (simp_all add: stop_report_def rlr_has_failures_def)
qed

section \<open>Transitions\<close>

text \<open>A host moves by its own operations and by the calls of the handles its sources hold, from
  any thread.\<close>

inductive host_step ::
  "('s, 'x) source_port \<Rightarrow> ('p, 'x) provider_port \<Rightarrow> ('c, 'x) channel_port
     \<Rightarrow> ('s, 'p, 'c) runtime_host \<Rightarrow> ('s, 'p, 'c) runtime_host \<Rightarrow> bool"
  for sp pp cp where
  provider_registered: "host_register_provider pp t p s host = Some (r, host') \<Longrightarrow> host_step sp pp cp host host'"
| channel_registered: "host_register_channel sp cp t c s host = Some (r, host') \<Longrightarrow> host_step sp pp cp host host'"
| started: "host_start sp pp cp t host = Some (l, host') \<Longrightarrow> host_step sp pp cp host host'"
| stopped: "host_stop sp pp cp t host = Some (l, host') \<Longrightarrow> host_step sp pp cp host host'"
| subscribed: "host_subscribe cp t cid sid host = Some (u, host') \<Longrightarrow> host_step sp pp cp host host'"
| unsubscribed: "(host_unsubscribe t cid sid host :: ((_, 'x runtime_subscription_error) result \<times> _) option)
    = Some (v, host') \<Longrightarrow> host_step sp pp cp host host'"
| called: "wf_call call \<Longrightarrow> perform pp cp t call (rh_shared host) = Some (reply, sh)
    \<Longrightarrow> host_step sp pp cp host (host\<lparr>rh_shared := sh\<rparr>)"

definition host_reachable ::
  "('s, 'x) source_port \<Rightarrow> ('p, 'x) provider_port \<Rightarrow> ('c, 'x) channel_port \<Rightarrow> session_aggregate_config
     \<Rightarrow> ('s, 'p, 'c) runtime_host \<Rightarrow> bool" where
  "host_reachable sp pp cp cfg = (host_step sp pp cp)\<^sup>*\<^sup>* (host_with_session_config cfg)"

text \<open>What every step keeps: the invariant, the Bridge's history, and that an allocated permit is
  never opened again.\<close>

definition host_advances ::
  "('p, 'x) provider_port \<Rightarrow> ('c, 'x) channel_port
     \<Rightarrow> ('s, 'p, 'c) runtime_host \<Rightarrow> ('s, 'p, 'c) runtime_host \<Rightarrow> bool" where
  "host_advances pp cp host host' \<longleftrightarrow> host_inv host'
     \<and> bridge_leads pp cp (sh_bridge (rh_shared host)) (sh_bridge (rh_shared host'))
     \<and> length (sh_permits (rh_shared host)) \<le> length (sh_permits (rh_shared host'))
     \<and> (\<forall>p<length (sh_permits (rh_shared host)). ingress_open (rh_shared host') p \<longrightarrow> ingress_open (rh_shared host) p)"

lemma host_advances_refl: "host_inv host \<Longrightarrow> host_advances pp cp host host"
  by (simp add: host_advances_def)

lemma host_advances_bridge:
  assumes "host_inv host" and "bridge_leads pp cp (sh_bridge (rh_shared host)) b"
  shows "host_advances pp cp host (host\<lparr>rh_shared := (rh_shared host)\<lparr>sh_bridge := b\<rparr>\<rparr>)"
  using assms host_inv_bridge [OF assms] by (simp add: host_advances_def)

lemma advances_start:
  assumes "host_inv host" and "wf_source sp" and "host_start sp pp cp t host = Some (l, host')"
  shows "host_advances pp cp host host'"
proof (cases "rh_state host = HostStopped")
  case True
  obtain results host2 where "host_start sp pp cp t host = Some (report_result (start_report results), host2)"
    "host_inv host2" "rh_state host2 = HostStarted"
    "bridge_leads pp cp (sh_bridge (rh_shared host)) (sh_bridge (rh_shared host2))"
    "length results = length (rh_adapters host)" and ads: "length (rh_adapters host2) = length (rh_adapters host)"
    "\<forall>i<length (rh_adapters host). start_step (length (sh_permits (rh_shared host)) + i)
       (rh_adapters host ! i) (results ! i) (rh_adapters host2 ! i)"
    and "length (sh_permits (rh_shared host2)) = length (sh_permits (rh_shared host)) + length (rh_adapters host)"
    using host_start_stopped [OF assms(1,2) True] by metis
  moreover have "\<not> running_permit (rh_adapters host2) p" if "p < length (sh_permits (rh_shared host))" for p
    using ads that by (auto simp: running_permit_def in_set_conv_nth start_step_def)
  ultimately show ?thesis using assms(3) by (auto simp: host_advances_def host_inv_def)
next
  case False
  with assms show ?thesis
    by (auto simp: host_start_def intro: host_advances_refl split: runtime_host_state.splits)
qed

lemma advances_stop:
  assumes "host_inv host" and "host_stop sp pp cp t host = Some (l, host')"
  shows "host_advances pp cp host host'"
proof (cases "rh_state host = HostStopped")
  case False
  obtain r host2 where "host_stop sp pp cp t host = Some (r, host2)" "host_inv host2"
    "sh_bridge (rh_shared host2) =
       unsubscribe_channels (source_generation_channels (rh_adapters host)) (sh_bridge (rh_shared host))"
    "\<forall>p. \<not> ingress_open (rh_shared host2) p"
    "length (sh_permits (rh_shared host2)) = length (sh_permits (rh_shared host))"
    using host_stop_cleanup [OF assms(1) False] by metis
  with assms(2) show ?thesis by (simp add: host_advances_def leads_unsubscribe_channels)
next
  case True
  with assms show ?thesis by (auto simp: host_stop_def intro: host_advances_refl)
qed

lemma advances_register:
  assumes inv: "host_inv host" and step: "register_adapter t register ad host = Some (r, host')"
    and leads: "bridge_leads pp cp (sh_bridge (rh_shared host)) (snd (register (sh_bridge (rh_shared host))))"
    and fresh: "\<And>u. fst (register (sh_bridge (rh_shared host))) = Ok u \<Longrightarrow>
      \<not> endpoint_known (sh_bridge (rh_shared host)) (ra_endpoint ad)
      \<and> endpoint_known (snd (register (sh_bridge (rh_shared host)))) (ra_endpoint ad)"
    and ad: "ra_state ad = AdapterStopped"
  shows "host_advances pp cp host host'"
proof (cases "rh_state host = HostStopped")
  case False
  with step inv show ?thesis
    by (auto simp: register_adapter_def ensure_registration_allowed_def intro: host_advances_refl)
next
  case True
  let ?b = "snd (register (sh_bridge (rh_shared host)))"
  let ?host = "host\<lparr>rh_shared := (rh_shared host)\<lparr>sh_bridge := ?b\<rparr>\<rparr>"
  have adv: "host_advances pp cp host ?host" by (rule host_advances_bridge [OF inv leads])
  have quiet: "quiet (rh_shared host)" using inv by (simp add: host_inv_def)
  show ?thesis
  proof (cases "fst (register (sh_bridge (rh_shared host)))")
    case (Inl e)
    with step True quiet adv show ?thesis
      by (simp add: register_adapter_def ensure_registration_allowed_def with_access_quiet Let_def)
  next
    case (Inr u)
    then have new: "host' = ?host\<lparr>rh_adapters := rh_adapters host @ [ad]\<rparr>"
      using step True quiet
      by (simp add: register_adapter_def ensure_registration_allowed_def with_access_quiet Let_def)
    have "ra_endpoint ad \<notin> set (map source_endpoint (map ra_source (rh_adapters host)))"
      using inv fresh [OF Inr] by (auto simp: host_inv_def)
    then have "host_inv host'"
      using adv fresh [OF Inr] True ad by (auto simp: host_advances_def host_inv_def new running_permit_def)
    with adv show ?thesis by (simp add: host_advances_def new)
  qed
qed

lemma advances_register_provider:
  assumes "host_inv host" and "host_register_provider pp t p s host = Some (r, host')"
  shows "host_advances pp cp host host'"
  by (rule advances_register [OF assms(1) assms(2) [unfolded host_register_provider_def]], rule leads_register(1) [OF surjective_pairing])
    (auto simp: adapter_provider_def register_provider_def Let_def bt_contains_key_def split: if_splits)

lemma advances_register_channel:
  assumes "host_inv host" and "host_register_channel sp cp t c s host = Some (r, host')"
  shows "host_advances pp cp host host'"
  by (rule advances_register [OF assms(1) assms(2) [unfolded host_register_channel_def]], rule leads_register(2) [OF surjective_pairing])
    (auto simp: adapter_channel_def register_channel_def Let_def bt_contains_key_def split: if_splits)

lemma advances_subscription:
  assumes "host_inv host" and "host_subscription t operation host = Some (r, host')"
    and "bridge_leads pp cp (sh_bridge (rh_shared host)) (snd (operation (sh_bridge (rh_shared host))))"
  shows "host_advances pp cp host host'"
proof -
  have "quiet (rh_shared host)" using assms(1) by (simp add: host_inv_def)
  with assms(2) host_advances_bridge [OF assms(1,3)] show ?thesis
    by (simp add: host_subscription_def with_access_quiet)
qed

lemma advances_call:
  assumes "host_inv host" and "wf_call call" and "perform pp cp t call (rh_shared host) = Some (reply, sh)"
  shows "host_advances pp cp host (host\<lparr>rh_shared := sh\<rparr>)"
proof -
  have "quiet (rh_shared host)" using assms(1) by (simp add: host_inv_def)
  from perform_quiet [OF this assms(2), of pp cp t] assms(3) host_advances_bridge [OF assms(1)]
  show ?thesis by auto
qed

lemma host_step_advances:
  assumes "host_step sp pp cp host host'" and "wf_source sp" and "host_inv host"
  shows "host_advances pp cp host host'"
  using assms
proof cases
  case (subscribed t cid sid u)
  then show ?thesis unfolding host_subscribe_def
    by (rule advances_subscription [OF assms(3)]) (rule leads_subscribe [OF surjective_pairing])
next
  case (unsubscribed t cid sid v)
  then show ?thesis unfolding host_unsubscribe_def
    by (rule advances_subscription [OF assms(3)]) (rule leads_unsubscribe [OF surjective_pairing])
qed (use assms in \<open>blast intro: advances_register_provider advances_register_channel advances_start
  advances_stop advances_call\<close>)+

lemma host_steps_advance:
  assumes "(host_step sp pp cp)\<^sup>*\<^sup>* host host'" and "wf_source sp" and "host_inv host"
  shows "host_advances pp cp host host'"
  using assms(1)
proof (induction rule: rtranclp_induct)
  case base
  show ?case by (rule host_advances_refl [OF assms(3)])
next
  case (step host1 host2)
  then have "host_advances pp cp host1 host2"
    using host_step_advances [OF step.hyps(2) assms(2)] by (simp add: host_advances_def)
  with step.IH show ?case
    by (auto simp: host_advances_def intro: bridge_leads_trans)
qed

lemma host_inv_initial: "host_inv (host_with_session_config cfg)"
  by (simp add: host_inv_def host_with_session_config_def shared_new_def quiet_def ingress_open_def
      permit_cell_def)

lemma reachable_host_inv: "host_reachable sp pp cp cfg host \<Longrightarrow> wf_source sp \<Longrightarrow> host_inv host"
  unfolding host_reachable_def by (drule (1) host_steps_advance [OF _ _ host_inv_initial]) (simp add: host_advances_def)

end
