(* ===== verification/Runtime_Properties.thy ===== *)
theory Runtime_Properties
  imports Runtime_Lifecycle
begin

text \<open>
  The properties of the Runtime Host: the invariant of every reachable host, revocation, what a
  start and a stop do, the lifecycle as a state machine and re-entry. They hold for all sources
  whose callbacks return; the sources, Providers and Channels are otherwise arbitrary.
\<close>

section \<open>A sample host\<close>

text \<open>One Provider source that publishes the first event when it starts, and one Channel source
  that subscribes when it starts and refuses to stop as often as its state says.\<close>

definition sample_source :: "(nat, string) source_port" where
  "sample_source = \<lparr>
     src_start_provider = (\<lambda>s h. Call (CallPublish h event1) (\<lambda>_. Return (Ok ()) s)),
     src_start_channel = (\<lambda>s h. Call (CallSubscribe h sample_sid) (\<lambda>_. Return (Ok ()) s)),
     src_stop = (\<lambda>s. if s = 0 then Return (Ok ()) 0 else Return (Err ''busy'') (s - 1)),
     src_subscription_scope = (\<lambda>_. SourceGeneration)\<rparr>"

type_synonym sample_host = "(nat, sample_p, sample_c) runtime_host"

definition sample_adapters :: "adapter_lifecycle_state \<Rightarrow> permit_id option \<Rightarrow> permit_id option \<Rightarrow> nat registered_adapter list" where
  "sample_adapters state p q =
     [\<lparr>ra_source = ProviderSource sample_pid 0, ra_state = state, ra_permit = p\<rparr>,
      \<lparr>ra_source = ChannelSource sample_cid 1 SourceGeneration, ra_state = state, ra_permit = q\<rparr>]"

definition host0 :: sample_host where "host0 = host_with_session_config small_config"

definition host1 :: sample_host where
  "host1 = \<lparr>rh_state = HostStopped, rh_adapters = take 1 (sample_adapters AdapterStopped None None),
     rh_shared = shared_new bridge1\<rparr>"

definition host2 :: sample_host where
  "host2 = \<lparr>rh_state = HostStopped, rh_adapters = sample_adapters AdapterStopped None None,
     rh_shared = shared_new bridge2\<rparr>"

definition host3 :: sample_host where
  "host3 = \<lparr>rh_state = HostStarted, rh_adapters = sample_adapters AdapterRunning (Some 0) (Some 1),
     rh_shared = \<lparr>sh_bridge = bridge4, sh_owner = None, sh_permits = [permit_active, permit_active],
                  sh_alive = True\<rparr>\<rparr>"

text \<open>After the first stop: the Channel source refused once.\<close>

definition permit_revoked :: ingress_permit where
  "permit_revoked = \<lparr>ip_active = False, ip_holder = None\<rparr>"

definition host4 :: sample_host where
  "host4 = \<lparr>rh_state = HostStopFailed,
     rh_adapters = [\<lparr>ra_source = ProviderSource sample_pid 0, ra_state = AdapterStopped, ra_permit = Some 0\<rparr>,
       \<lparr>ra_source = ChannelSource sample_cid 0 SourceGeneration, ra_state = AdapterStopFailed, ra_permit = Some 1\<rparr>],
     rh_shared = \<lparr>sh_bridge = unsubscribe_channels [sample_cid] bridge4, sh_owner = None,
                  sh_permits = [permit_revoked, permit_revoked], sh_alive = True\<rparr>\<rparr>"

lemmas host_samples = host0_def host1_def host2_def host3_def host4_def host_with_session_config_def shared_new_def
  sample_adapters_def

lemma wf_sample_source: "wf_source sample_source"
  by (simp add: wf_source_def sample_source_def)

lemma sample_descriptor: "pd_id (pp_descriptor sample_pp p) = sample_pid"
  by (simp add: sample_pp_def sample_provider_def ProviderDescriptor_new_def)

lemma sample_host1: "host_register_provider sample_pp 0 ([], []) 0 host0 = Some (Ok (), host1)"
  using sample_register_provider [unfolded bridge0_def]
  by (simp add: host_register_provider_def register_adapter_def ensure_registration_allowed_def host_samples
      with_access_def on_bridge_def Let_def sample_descriptor adapter_provider_def)

lemma sample_host2: "host_register_channel sample_source sample_cp 0 (sample_cid, True, []) 1 host1 = Some (Ok (), host2)"
  using sample_register_channel
  by (simp add: host_register_channel_def register_adapter_def ensure_registration_allowed_def host_samples
      with_access_def on_bridge_def Let_def adapter_channel_def sample_cp_def sample_source_def)

lemma sample_quiet:
  "quiet \<lparr>sh_bridge = b, sh_owner = None, sh_permits = [permit_active], sh_alive = True\<rparr>"
  "quiet \<lparr>sh_bridge = b, sh_owner = None, sh_permits = [permit_active, permit_active], sh_alive = True\<rparr>"
  by (simp_all add: quiet_def permit_active_def)

lemma sample_host3: "\<exists>report. host_start sample_source sample_pp sample_cp 0 host2 = Some (Ok report, host3)"
proof -
  have "adapter_start sample_source sample_pp sample_cp 0 (rh_adapters host2 ! 0) (rh_shared host2) =
      Some (Ok (), rh_adapters host3 ! 0,
        \<lparr>sh_bridge = bridge3, sh_owner = None, sh_permits = [permit_active], sh_alive = True\<rparr>)"
    by (simp add: adapter_start_def host_samples Let_def sample_source_def reply_with_def handle_defs
        with_permit_quiet sample_quiet sample_handle1 ingress_open_def permit_cell_def)
      (simp add: permit_active_def)
  moreover have "adapter_start sample_source sample_pp sample_cp 0 (rh_adapters host2 ! 1)
      \<lparr>sh_bridge = bridge3, sh_owner = None, sh_permits = [permit_active], sh_alive = True\<rparr> =
      Some (Ok (), rh_adapters host3 ! 1, rh_shared host3)"
    by (simp add: adapter_start_def host_samples Let_def sample_source_def reply_with_def handle_defs
        with_permit_quiet sample_quiet sample_subscribe ingress_open_def permit_cell_def)
      (simp add: permit_active_def)
  ultimately show ?thesis
    by (simp add: host_start_def host_samples Let_def lifecycle_result_def rlr_has_failures_def)
qed

lemma sample_host4: "\<exists>r. host_stop sample_source sample_pp sample_cp 0 host3 = Some (r, host4)"
  by (simp add: host_stop_def host_samples adapter_revoke_ingress_def permit_revoke_def permit_cell_def
      permit_active_def clear_source_generation_subscriptions_def map_filter_simps with_access_def on_bridge_def Let_def
      adapter_stop_def source_stop_def sample_source_def lifecycle_result_def permit_revoked_def)

lemma sample_reachable_host:
  "host_reachable sample_source sample_pp sample_cp small_config host2"
  "host_reachable sample_source sample_pp sample_cp small_config host3"
  "host_reachable sample_source sample_pp sample_cp small_config host4"
proof -
  have "host_step sample_source sample_pp sample_cp host0 host1" using sample_host1 by (rule provider_registered)
  moreover have "host_step sample_source sample_pp sample_cp host1 host2" using sample_host2 by (rule channel_registered)
  ultimately show two: "host_reachable sample_source sample_pp sample_cp small_config host2"
    by (simp add: host_reachable_def flip: host0_def)
  have "host_step sample_source sample_pp sample_cp host2 host3" using sample_host3 started by blast
  with two show three: "host_reachable sample_source sample_pp sample_cp small_config host3"
    by (simp add: host_reachable_def)
  have "host_step sample_source sample_pp sample_cp host3 host4" using sample_host4 stopped by blast
  with three show "host_reachable sample_source sample_pp sample_cp small_config host4"
    by (simp add: host_reachable_def)
qed

lemma source_generation_endpoint:
  "source_generation_channel source = Some cid \<Longrightarrow> source_endpoint source = ChannelEndpoint cid"
  by (cases source rule: source_generation_channel.cases) simp_all

lemma in_set_map_filter: "y \<in> set (List.map_filter f xs) \<longleftrightarrow> Some y \<in> f ` set xs"
  by (induction xs) (auto simp: map_filter_simps split: option.splits)

section \<open>Reachable hosts\<close>

text \<open>(C11) A host reached from a new one by any operations of its owner and any calls through the
  handles it gave out is consistent: no lock is left behind, the adapters' states fit the state of
  the host, the endpoints are distinct and registered in the Bridge, and a permit is open exactly
  when it belongs to a running adapter. Its Bridge has been changed by Bridge operations only.\<close>

theorem reachable_host_consistent:
  assumes "host_reachable sp pp cp cfg host" and "wf_source sp"
  shows "host_inv host \<and> bridge_reachable pp cp cfg (sh_bridge (rh_shared host))"
proof -
  have "host_advances pp cp (host_with_session_config cfg) host"
    using assms host_steps_advance [OF _ _ host_inv_initial] unfolding host_reachable_def by blast
  then show ?thesis using bridge_reachable.empty
    by (auto simp: host_advances_def bridge_leads_def host_with_session_config_def shared_new_def)
qed

theorem reachable_host_consistent_witness:
  "host_inv host3 \<and> bridge_reachable sample_pp sample_cp small_config (sh_bridge (rh_shared host3))"
  by (rule reachable_host_consistent [OF sample_reachable_host(2) wf_sample_source])

section \<open>Revocation\<close>

text \<open>(C12) Once a permit that was handed out is revoked, it stays revoked whatever happens later, a
  restart of the host included, and every call through a handle that carries it is answered with
  the inactive error and changes nothing.\<close>

theorem revoked_handle_stays_inert:
  assumes "host_reachable sp pp cp cfg host" and "wf_source sp" and "(host_step sp pp cp)\<^sup>*\<^sup>* host host'"
    and "call_permit call < length (sh_permits (rh_shared host))"
    and "\<not> ingress_open (rh_shared host) (call_permit call)"
  shows "perform pp cp t call (rh_shared host') = Some (inactive_reply call, rh_shared host')"
proof -
  have "host_advances pp cp host host'"
    using host_steps_advance [OF assms(3,2)] reachable_host_inv [OF assms(1,2)] .
  with assms(4,5) have "host_inv host'" "\<not> ingress_open (rh_shared host') (call_permit call)"
    by (auto simp: host_advances_def)
  then show ?thesis by (intro perform_inactive) (simp_all add: host_inv_def)
qed

definition sample_handle :: channel_action_handle where
  "sample_handle = \<lparr>cah_channel_id = sample_cid, cah_permit = 1\<rparr>"

theorem revoked_handle_stays_inert_witness:
  "perform sample_pp sample_cp 9 (CallSubscribe sample_handle sample_sid) (rh_shared host4) =
     Some (ReplySubscribe (Err (ChannelInactive sample_cid)), rh_shared host4)"
  using revoked_handle_stays_inert [OF sample_reachable_host(3) wf_sample_source rtranclp.rtrancl_refl,
    of "CallSubscribe sample_handle sample_sid" 9]
  by (simp add: sample_handle_def host_samples ingress_open_def permit_cell_def permit_revoked_def)

section \<open>Start and stop\<close>

text \<open>(C14) A start of a stopped host returns and has attempted every adapter in registration order,
  whatever the others did: the adapter is running on a permit of its own that no earlier handle
  carries, or its start failed and the report says so. The start is an error exactly when some
  adapter failed, the host is started either way, and exactly the running adapters can call in.\<close>

theorem start_attempts_every_adapter:
  assumes "host_reachable sp pp cp cfg host" and "wf_source sp" and "rh_state host = HostStopped"
  shows "\<exists>results host'. host_start sp pp cp t host = Some (report_result (start_report results), host')
    \<and> rh_state host' = HostStarted
    \<and> length results = length (rh_adapters host) \<and> length (rh_adapters host') = length (rh_adapters host)
    \<and> (\<forall>i<length (rh_adapters host). start_step (length (sh_permits (rh_shared host)) + i)
          (rh_adapters host ! i) (results ! i) (rh_adapters host' ! i))
    \<and> (\<forall>p. ingress_open (rh_shared host') p \<longleftrightarrow> running_permit (rh_adapters host') p)"
  using host_start_stopped [OF reachable_host_inv [OF assms(1,2)] assms(2,3), of pp cp t]
  unfolding host_inv_def by metis

theorem start_attempts_every_adapter_witness:
  "rh_state host2 = HostStopped \<and>
   (\<exists>results host'. host_start sample_source sample_pp sample_cp 5 host2 =
      Some (report_result (start_report results), host') \<and> length results = 2)"
proof
  show stopped: "rh_state host2 = HostStopped" by (simp add: host_samples)
  have "length (rh_adapters host2) = 2" by (simp add: host_samples)
  with start_attempts_every_adapter [OF sample_reachable_host(1) wf_sample_source stopped, of 5]
  show "\<exists>results host'. host_start sample_source sample_pp sample_cp 5 host2 =
      Some (report_result (start_report results), host') \<and> length results = 2" by metis
qed

text \<open>(C13) A stop of a started or half-stopped host returns. Before any adapter is asked to stop, all
  ingress is revoked and the subscriptions of the source-generation Channels are dropped while all
  others are kept. The adapters are then attempted in reverse registration order, those already
  stopped are skipped untouched, and a failure does not keep the others from being stopped. The host
  is stopped when no attempt failed and asks for another stop otherwise.\<close>

theorem stop_shuts_ingress_and_cleans_up:
  fixes host :: "('s, 'p, 'c) runtime_host" and sp :: "('s, 'x) source_port"
  assumes "host_reachable sp pp cp cfg host" and "wf_source sp" and "rh_state host \<noteq> HostStopped"
  shows "\<exists>host'. let results = map (fst \<circ> stop_one sp) (rev (rh_adapters host)) in
      host_stop sp pp cp t host = Some (report_result (stop_report results), host')
    \<and> rh_state host' = (if rlr_has_failures (stop_report results) then HostStopFailed else HostStopped)
    \<and> rh_adapters host' = map (snd \<circ> stop_one sp) (rh_adapters host)
    \<and> (\<forall>p. \<not> ingress_open (rh_shared host') p)
    \<and> subscription_rel (sh_bridge (rh_shared host')) =
        {(cid, sid) \<in> subscription_rel (sh_bridge (rh_shared host)).
           Some cid \<notin> (\<lambda>ad. source_generation_channel (ra_source ad)) ` set (rh_adapters host)}"
proof -
  let ?ids = "source_generation_channels (rh_adapters host)"
  have inv: "host_inv host" by (rule reachable_host_inv [OF assms(1,2)])
  have "endpoint_known (sh_bridge (rh_shared host)) (ChannelEndpoint cid)" if mem: "cid \<in> set ?ids" for cid
  proof -
    obtain ad where "ad \<in> set (rh_adapters host)" "source_generation_channel (ra_source ad) = Some cid"
      using mem by (auto simp: in_set_map_filter image_iff)
    with inv source_generation_endpoint show ?thesis unfolding host_inv_def by metis
  qed
  then have rel: "subscription_rel (unsubscribe_channels ?ids (sh_bridge (rh_shared host))) =
      {(c, s) \<in> subscription_rel (sh_bridge (rh_shared host)). c \<notin> set ?ids}"
    by (intro unsubscribe_channels_rel) blast
  show ?thesis
  proof (rule host_stop_cleanup [OF inv assms(3), of sp pp cp t], intro exI, unfold Let_def, intro conjI)
    fix host' :: "('s, 'p, 'c) runtime_host"
    assume "sh_bridge (rh_shared host') = unsubscribe_channels ?ids (sh_bridge (rh_shared host))"
    with rel show "subscription_rel (sh_bridge (rh_shared host')) =
        {(cid, sid) \<in> subscription_rel (sh_bridge (rh_shared host)).
           Some cid \<notin> (\<lambda>ad. source_generation_channel (ra_source ad)) ` set (rh_adapters host)}"
      by (simp only: in_set_map_filter)
  qed
qed

theorem stop_shuts_ingress_and_cleans_up_witness:
  "\<exists>r host'. host_stop sample_source sample_pp sample_cp 0 host3 = Some (r, host')
     \<and> subscription_rel (sh_bridge (rh_shared host')) = {}
     \<and> map ra_state (rh_adapters host') = [AdapterStopped, AdapterStopFailed]"
proof -
  have started: "rh_state host3 \<noteq> HostStopped" by (simp add: host_samples)
  have "subscription_rel (sh_bridge (rh_shared host3)) = {(sample_cid, sample_sid)}"
    by (auto simp: host_samples bridge_samples subscription_rel_def is_subscribed_def split: option.splits if_splits)
  moreover have "Some sample_cid \<in> (\<lambda>ad. source_generation_channel (ra_source ad)) ` set (rh_adapters host3)"
    and "map ra_state (map (snd \<circ> stop_one sample_source) (rh_adapters host3)) = [AdapterStopped, AdapterStopFailed]"
    by (simp_all add: host_samples stop_one_def source_stop_def sample_source_def)
  ultimately show ?thesis
    using stop_shuts_ingress_and_cleans_up [OF sample_reachable_host(2) wf_sample_source started, of 0]
    unfolding Let_def by fastforce
qed

section \<open>Stopping again\<close>

text \<open>\<open>stop\<close> called up to \<open>n\<close> times, as long as the host is not stopped.\<close>

primrec stop_until_stopped ::
  "('s, 'x) source_port \<Rightarrow> ('p, 'x) provider_port \<Rightarrow> ('c, 'x) channel_port \<Rightarrow> thread_id \<Rightarrow> nat
     \<Rightarrow> ('s, 'p, 'c) runtime_host \<Rightarrow> ('s, 'p, 'c) runtime_host option" where
  "stop_until_stopped sp pp cp t 0 host = Some host"
| "stop_until_stopped sp pp cp t (Suc n) host =
     (if rh_state host = HostStopped then Some host
      else Option.bind (host_stop sp pp cp t host) (\<lambda>(_, host'). stop_until_stopped sp pp cp t n host'))"

text \<open>A source accepts its stop after at most as many refusals as a measure of its state allows.\<close>

definition stops_within :: "('s, 'x) source_port \<Rightarrow> ('s \<Rightarrow> nat) \<Rightarrow> bool" where
  "stops_within sp refusals \<longleftrightarrow>
     (\<forall>s. case shut_callback (src_stop sp s) of (Ok _, _) \<Rightarrow> True | (Err _, s') \<Rightarrow> refusals s' < refusals s)"

text \<open>How many more calls of \<open>stop\<close> an adapter needs: none when it is stopped, else one more than its refusals.\<close>

definition stop_calls_left :: "('s \<Rightarrow> nat) \<Rightarrow> 's registered_adapter \<Rightarrow> nat" where
  "stop_calls_left refusals ad =
     (if ra_state ad = AdapterStopped then 0 else Suc (refusals (source_state (ra_source ad))))"

lemma source_state_put [simp]: "source_state (put_source_state s source) = s"
  by (cases source) simp_all

lemma stop_one_calls_left:
  assumes "stops_within sp refusals" and "stop_calls_left refusals ad \<le> Suc n"
  shows "stop_calls_left refusals (snd (stop_one sp ad)) \<le> n"
proof (cases "ra_state ad = AdapterStopped")
  case False
  obtain r s where cb: "shut_callback (src_stop sp (source_state (ra_source ad))) = (r, s)" by fastforce
  with assms(1) have "(\<exists>u. r = Ok u) \<or> refusals s < refusals (source_state (ra_source ad))"
    by (cases r) (auto simp: stops_within_def dest: spec [of _ "source_state (ra_source ad)"])
  with False cb assms(2) show ?thesis
    by (cases r) (auto simp: stop_calls_left_def stop_one_def source_stop_def)
qed (simp add: stop_one_def stop_calls_left_def)

lemma host_stop_finishes:
  assumes "host_inv host" "rh_state host \<noteq> HostStopped"
    and "\<forall>ad\<in>set (rh_adapters host). ra_state (snd (stop_one sp ad)) = AdapterStopped"
  shows "\<exists>r host'. host_stop sp pp cp t host = Some (r, host') \<and> rh_state host' = HostStopped"
proof -
  obtain r host' where step: "host_stop sp pp cp t host = Some (r, host')" "host_inv host'"
    "rh_adapters host' = map (snd \<circ> stop_one sp) (rh_adapters host)" "rh_state host' \<noteq> HostStarted"
    using host_stop_cleanup [OF assms(1,2), of sp pp cp t] by (metis runtime_host_state.distinct(1,5))
  have "\<forall>ad\<in>set (rh_adapters host'). ra_state ad = AdapterStopped" using assms(3) by (auto simp: step(3))
  with step(2,4) have "rh_state host' = HostStopped"
    by (cases "rh_state host'") (auto simp: host_inv_def list_ex_iff)
  with step(1) show ?thesis by blast
qed

lemma stop_until_stopped_ends:
  assumes "stops_within sp refusals" and "host_inv host"
    and "\<forall>ad\<in>set (rh_adapters host). stop_calls_left refusals ad \<le> Suc n"
  shows "\<exists>host'. stop_until_stopped sp pp cp t (Suc n) host = Some host' \<and> rh_state host' = HostStopped"
  using assms(2,3)
proof (induction n arbitrary: host)
  case 0
  have "\<forall>ad\<in>set (rh_adapters host). ra_state (snd (stop_one sp ad)) = AdapterStopped"
    using 0(2) stop_one_calls_left [OF assms(1), of _ 0] by (fastforce simp: stop_calls_left_def split: if_splits)
  from host_stop_finishes [OF 0(1) _ this, of pp cp t] show ?case
    by (cases "rh_state host = HostStopped") auto
next
  case (Suc n)
  show ?case
  proof (cases "rh_state host = HostStopped")
    case False
    obtain r host' where step: "host_stop sp pp cp t host = Some (r, host')" "host_inv host'"
      "rh_adapters host' = map (snd \<circ> stop_one sp) (rh_adapters host)"
      using host_stop_cleanup [OF Suc.prems(1) False, of sp pp cp t] by metis
    have "\<forall>ad\<in>set (rh_adapters host'). stop_calls_left refusals ad \<le> Suc n"
      using Suc.prems(2) stop_one_calls_left [OF assms(1)] by (auto simp: step(3))
    from Suc.IH [OF step(2) this] step(1) False show ?thesis
      by (simp del: stop_until_stopped.simps(2) add: stop_until_stopped.simps(2) [of _ _ _ _ "Suc n"])
  qed simp
qed

text \<open>(C15) The stop can be driven to its end: when no source refuses to stop for ever, calling stop
  again until the host is stopped needs at most one call more than the largest number of refusals
  left in any adapter, and every one of these calls returns.\<close>

theorem repeated_stop_terminates:
  assumes "host_reachable sp pp cp cfg host" and "wf_source sp" and "stops_within sp refusals"
    and "\<forall>ad\<in>set (rh_adapters host). refusals (source_state (ra_source ad)) \<le> n"
  shows "\<exists>host'. stop_until_stopped sp pp cp t (Suc n) host = Some host' \<and> rh_state host' = HostStopped"
  using assms stop_until_stopped_ends [OF assms(3) reachable_host_inv [OF assms(1,2)]]
  by (auto simp: stop_calls_left_def)

theorem repeated_stop_terminates_witness:
  "\<exists>host'. stop_until_stopped sample_source sample_pp sample_cp 0 2 host3 = Some host' \<and> rh_state host' = HostStopped"
proof -
  have "stops_within sample_source id" by (simp add: stops_within_def sample_source_def)
  moreover have "\<forall>ad\<in>set (rh_adapters host3). id (source_state (ra_source ad)) \<le> 1" by (simp add: host_samples)
  ultimately show ?thesis
    using repeated_stop_terminates [OF sample_reachable_host(2) wf_sample_source, of id 1 0]
    by (simp add: numeral_2_eq_2)
qed

section \<open>Re-entry\<close>

text \<open>The reply of a call that is refused because its own thread is inside a Bridge operation.\<close>

fun reentrant_reply :: "handle_call \<Rightarrow> 'x handle_reply" where
  "reentrant_reply (CallPublish _ _) = ReplyPublish (Err (ProviderBridgeAccess ReentrantBridgeAccess))"
| "reentrant_reply (CallDiscover _) = ReplyDiscover (Err (ChannelBridgeAccess ReentrantBridgeAccess))"
| "reentrant_reply (CallSubscribe _ _) = ReplySubscribe (Err (ChannelBridgeAccess ReentrantBridgeAccess))"
| "reentrant_reply (CallSync _ _ _ _) = ReplySync (Err (ChannelBridgeAccess ReentrantBridgeAccess))"
| "reentrant_reply (CallUnsubscribe _ _) = ReplyUnsubscribe (Err (ChannelBridgeAccess ReentrantBridgeAccess))"
| "reentrant_reply (CallResponse _ _) = ReplyAction (Err (ChannelBridgeAccess ReentrantBridgeAccess))"
| "reentrant_reply (CallCommand _ _) = ReplyAction (Err (ChannelBridgeAccess ReentrantBridgeAccess))"

lemma permit_hold_own:
  "ip_holder (permit_cell sh q) = None \<Longrightarrow> permit_hold None q (permit_hold (Some t) q sh) = sh"
  by (cases "q < length (sh_permits sh)")
    (simp_all add: permit_hold_def permit_cell_def list_update_same_conv list_update_beyond)

text \<open>A callback of an adapter: the Bridge operation in progress has brought the Bridge to \<open>b\<close> when the adapter
  makes the call. The operation goes on with the reply.\<close>

definition calls_back ::
  "('p, 'x) provider_port \<Rightarrow> ('c, 'x) channel_port \<Rightarrow> thread_id \<Rightarrow> handle_call \<Rightarrow> ('p, 'c) bridge
     \<Rightarrow> ('p, 'c) shared \<Rightarrow> (('x handle_reply, 'e) result \<times> ('p, 'c) shared) option" where
  "calls_back pp cp t call b held =
     Option.bind (perform pp cp t call (held\<lparr>sh_bridge := b\<rparr>)) (\<lambda>(reply, held'). Some (Ok reply, held'))"

text \<open>A second passage through the gates while thread \<open>t\<close> is inside: through the same permit it waits for ever,
  through another one it is refused.\<close>

lemma with_permit_inside:
  assumes "quiet sh" and "sh_alive sh" and "ingress_open sh p"
    and "held = (permit_hold (Some t) p sh)\<lparr>sh_owner := Some t, sh_bridge := b\<rparr>"
  shows "with_permit dropped inactive refused p t f held = None"
    and "q \<noteq> p \<Longrightarrow> ingress_open sh q \<Longrightarrow> with_permit dropped inactive refused q t f held = Some (Err (refused ReentrantBridgeAccess), held)"
proof -
  have p: "p < length (sh_permits sh)" using assms(3) by (rule ingress_open_less)
  then have "permit_enter p held = None"
    by (simp add: permit_enter_def assms(4) permit_hold_def permit_cell_def)
  with assms(2) show "with_permit dropped inactive refused p t f held = None"
    by (simp add: with_permit_def assms(4) permit_hold_def)
  assume q: "q \<noteq> p" "ingress_open sh q"
  then have cell: "permit_cell held q = permit_cell sh q"
    by (simp add: assms(4) permit_hold_def permit_cell_def)
  then have "permit_hold None q (permit_hold (Some t) q held) = held"
    using assms(1) by (intro permit_hold_own) simp
  with cell q assms(1,2) show "with_permit dropped inactive refused q t f held = Some (Err (refused ReentrantBridgeAccess), held)"
    by (simp add: with_permit_def permit_enter_def ingress_open_def with_access_def)
      (simp add: assms(4) permit_hold_def)
qed

text \<open>(C16) A call through a handle, in the middle of which an adapter calls back on the same thread, with the Bridge
  at any intermediate state. If the callback goes through another live handle it is refused with the re-entry error
  and touches nothing, and the outer call returns. If it goes through the same handle, or a clone of it, the outer
  call never returns: the callback waits for the permit that its own thread holds during the operation, so the
  documented error is not reported.\<close>

theorem reentry_refused_only_across_handles:
  assumes "host_reachable sp pp cp cfg host" and "wf_source sp" and "ingress_open (rh_shared host) p"
  shows "(call_permit call = p \<longrightarrow>
        with_permit dropped inactive refused p t (calls_back pp cp t call b) (rh_shared host) = None)
    \<and> (call_permit call \<noteq> p \<and> ingress_open (rh_shared host) (call_permit call) \<longrightarrow>
        with_permit dropped inactive refused p t (calls_back pp cp t call b) (rh_shared host) =
          Some (Ok (reentrant_reply call), (rh_shared host)\<lparr>sh_bridge := b\<rparr>))"
proof -
  let ?sh = "rh_shared host"
  have idle: "quiet ?sh" "sh_alive ?sh"
    using reachable_host_inv [OF assms(1,2)] by (simp_all add: host_inv_def)
  note inside = with_permit_inside [OF idle assms(3) refl]
  let ?held = "(permit_hold (Some t) p ?sh)\<lparr>sh_owner := Some t, sh_bridge := b\<rparr>"
  have same: "call_permit call = p \<Longrightarrow> perform pp cp t call ?held = None"
    by (cases call) (auto simp: handle_defs reply_with_def inside)
  have other: "call_permit call \<noteq> p \<Longrightarrow> ingress_open ?sh (call_permit call) \<Longrightarrow> perform pp cp t call ?held = Some (reentrant_reply call, ?held)"
    by (cases call) (auto simp: handle_defs reply_with_def inside)
  have owner: "sh_owner (permit_hold (Some t) p ?sh) = None" using idle(1) by (simp add: quiet_def permit_hold_def)
  have enter: "permit_enter p ?sh = Some True" using idle(1) assms(3) by (simp add: permit_enter_def ingress_open_def)
  have "?held\<lparr>sh_owner := None\<rparr> = (permit_hold (Some t) p ?sh)\<lparr>sh_bridge := b\<rparr>"
    using owner by (cases "permit_hold (Some t) p ?sh") simp
  then have "permit_hold None p (?held\<lparr>sh_owner := None\<rparr>) = ?sh\<lparr>sh_bridge := b\<rparr>"
    using permit_hold_release [OF idle(1) refl, where p = p and t = t and b = b] by simp
  with same other show ?thesis
    using idle(2) owner enter by (auto simp: with_permit_def with_access_def calls_back_def)
qed

theorem reentry_refused_only_across_handles_witness:
  "with_permit ''dropped'' ''inactive'' (\<lambda>_. ''refused'') 1 4
     (calls_back sample_pp sample_cp 4 (CallDiscover sample_handle) (sh_bridge (rh_shared host3))) (rh_shared host3) = None
   \<and> with_permit ''dropped'' ''inactive'' (\<lambda>_. ''refused'') 0 4
     (calls_back sample_pp sample_cp 4 (CallDiscover sample_handle) (sh_bridge (rh_shared host3))) (rh_shared host3)
     = Some (Ok (ReplyDiscover (Err (ChannelBridgeAccess ReentrantBridgeAccess))), rh_shared host3)"
proof -
  have "ingress_open (rh_shared host3) 0" "ingress_open (rh_shared host3) 1"
    by (simp_all add: host_samples ingress_open_def permit_cell_def permit_active_def)
  with reentry_refused_only_across_handles [where call = "CallDiscover sample_handle" and t = 4
      and b = "sh_bridge (rh_shared host3)" and dropped = "''dropped''" and inactive = "''inactive''"
      and refused = "\<lambda>_. ''refused''", OF sample_reachable_host(2) wf_sample_source]
  show ?thesis by (simp add: sample_handle_def)
qed

end
