(* ===== verification/Native_Types.thy ===== *)
theory Native_Types
  imports Wire_Json Routing
begin

text \<open>
  The messages of the Native Transport (\<open>native/src/protocol.rs\<close>) and their data transfer
  objects. A nested domain envelope is a JSON value of the foreign type \<open>'v\<close> inside a DTO. The
  struct variants with many fields are records. A Rust \<open>String\<close> that holds a whole frame is the
  list of its UTF-8 bytes.
\<close>

section \<open>Errors\<close>

datatype native_protocol_error =
    NativeJson ustring
  | NativeUnsupportedVersion u64 u16
  | NativeInvalidField string ustring
  | NativeDomainProtocol protocol_error
  | NativeInvalidDomainContext string string

definition NATIVE_TRANSPORT_VERSION :: u16 where
  "NATIVE_TRANSPORT_VERSION = 3"

section \<open>Messages\<close>

record native_client_hello =
  nch_client_id :: ustring
  nch_display_name :: ustring
  nch_version :: "ustring option"
  nch_supported_protocol_versions :: "u16 list"
  nch_host_run_id :: "ustring option"
  nch_session_cursors :: "(session_id, u64) btree_map"

datatype native_client_message =
    ClientHello native_client_hello
  | ClientDiscover ustring
  | ClientSubscribe ustring session_id
  | ClientUnsubscribe ustring session_id
  | ClientInteractionResponse ustring interaction_response
  | ClientCommand ustring agent_command

datatype native_event_route = NativeObserveOnly | NativeInteractionReadOnly | NativeInteractionInteractive

text \<open>\<open>from_core\<close>; its error arm is for route variants that do not exist yet.\<close>

fun native_route_from_core :: "channel_event_route_kind \<Rightarrow> (native_event_route, native_protocol_error) result" where
  "native_route_from_core ObserveOnly = Ok NativeObserveOnly"
| "native_route_from_core (InteractionMode ReadOnly) = Ok NativeInteractionReadOnly"
| "native_route_from_core (InteractionMode Interactive) = Ok NativeInteractionInteractive"

datatype native_delivery_context =
    DiscoveryProvider ustring
  | DiscoverySession ustring event_sequence
  | SubscriptionSession ustring
  | SubscriptionInteraction ustring native_event_route
  | LiveEvent native_event_route
  | LiveSession

datatype native_subscription_status = StatusCatchingUp | StatusSubscribed | StatusAlreadySubscribed

datatype native_unsubscription_status = StatusUnsubscribed | StatusNotSubscribed

datatype native_error_code =
    CodeConnectionBusy | CodeInvalidHandshake | CodeInvalidRequest | CodeSessionNotDiscovered
  | CodeSessionNotFound | CodeInternal | CodeCapabilityUnavailable | CodeInteractionNotPending
  | CodeSessionNotSubscribed | CodeProviderRejected

record native_server_hello =
  nsh_connection_id :: ustring
  nsh_channel :: channel_descriptor
  nsh_protocol_version :: u16
  nsh_max_frame_bytes :: usize
  nsh_ping_interval_seconds :: u64
  nsh_idle_timeout_seconds :: u64
  nsh_host_run_id :: ustring
  nsh_resume_accepted :: bool

record native_subscription_result =
  nsr_request_id :: ustring
  nsr_session_id :: session_id
  nsr_status :: native_subscription_status
  nsr_baseline_sequence :: event_sequence
  nsr_pending_interaction_count :: usize
  nsr_event_count :: usize
  nsr_reset :: bool

datatype native_server_message =
    ServerHello native_server_hello
  | ServerSyncStarted ustring usize usize
  | ServerDomain native_delivery_context protocol_message
  | ServerSyncCompleted ustring
  | ServerSubscriptionResult native_subscription_result
  | ServerUnsubscriptionResult ustring session_id native_unsubscription_status
  | ServerInteractionResponseResult ustring session_id ustring
  | ServerCommandResult ustring session_id ustring
  | ServerError "ustring option" native_error_code ustring bool

section \<open>Data transfer objects\<close>

record 'm native_envelope =
  nev_native_transport_version :: u16
  nev_message :: 'm

record session_cursor_dto =
  scd_session_id :: ustring
  scd_last_sequence :: ustring

record client_hello_dto =
  chd_client_id :: ustring
  chd_display_name :: ustring
  chd_version :: "ustring option"
  chd_supported_protocol_versions :: "u16 list"
  chd_host_run_id :: "ustring option"
  chd_session_cursors :: "session_cursor_dto list"

datatype 'v client_message_dto =
    ClientHelloDto client_hello_dto
  | DiscoverSessionsDto ustring
  | SubscribeSessionDto ustring ustring
  | UnsubscribeSessionDto ustring ustring
  | SubmitInteractionResponseDto ustring 'v
  | SubmitCommandDto ustring 'v

datatype event_route_dto = ObserveOnlyDto | InteractionReadOnlyDto | InteractionInteractiveDto

datatype delivery_context_dto =
    DiscoveryProviderDto ustring
  | DiscoverySessionDto ustring ustring
  | SubscriptionSessionDto ustring
  | SubscriptionInteractionDto ustring event_route_dto
  | LiveEventDto event_route_dto
  | LiveSessionDto

datatype subscription_status_dto = CatchingUpDto | SubscribedDto | AlreadySubscribedDto

datatype unsubscription_status_dto = UnsubscribedDto | NotSubscribedDto

datatype error_code_dto =
    ConnectionBusyDto | InvalidHandshakeDto | InvalidRequestDto | SessionNotDiscoveredDto
  | SessionNotFoundDto | InternalDto | CapabilityUnavailableDto | InteractionNotPendingDto
  | SessionNotSubscribedDto | ProviderRejectedDto

record 'v server_hello_dto =
  shd_connection_id :: ustring
  shd_channel :: 'v
  shd_protocol_version :: u16
  shd_max_frame_bytes :: usize
  shd_ping_interval_seconds :: u64
  shd_idle_timeout_seconds :: u64
  shd_host_run_id :: ustring
  shd_resume_accepted :: bool

record subscription_result_dto =
  srd_request_id :: ustring
  srd_session_id :: ustring
  srd_status :: subscription_status_dto
  srd_baseline_sequence :: ustring
  srd_pending_interaction_count :: usize
  srd_event_count :: usize
  srd_reset :: bool

datatype 'v server_message_dto =
    ServerHelloDto "'v server_hello_dto"
  | SyncStartedDto ustring usize usize
  | DomainMessageDto delivery_context_dto 'v
  | SyncCompletedDto ustring
  | SubscriptionResultDto subscription_result_dto
  | UnsubscriptionResultDto ustring ustring unsubscription_status_dto
  | InteractionResponseResultDto ustring ustring ustring
  | CommandResultDto ustring ustring ustring
  | ErrorDto "ustring option" error_code_dto ustring bool

section \<open>Foreign code\<close>

text \<open>
  What the Native protocol calls in other crates beside what the domain codec does: the text of
  a UUID parse error and of a \<open>DomainError\<close> (its \<open>Display\<close> is generated by \<open>thiserror\<close>),
  and \<open>serde_json\<close> on values, client and server envelopes. \<open>native_laws\<close> is the documented
  contract: a written envelope parses as a value with its version that reads back as the same
  envelope, the value of a written domain message can be written again and parses as the same
  value, and everything \<open>serde_json\<close> writes is UTF-8.
\<close>

record 'v native_env =
  nv_wire :: wire_env
  nv_json :: "'v json_env"
  nv_uuid_error :: "ustring \<Rightarrow> ustring"
  nv_domain_error :: "domain_error \<Rightarrow> ustring"
  nv_utf8_error :: "u8 list \<Rightarrow> ustring"
  nv_value_to_vec :: "'v \<Rightarrow> (u8 list, ustring) result"
  nv_transport_version :: "'v \<Rightarrow> u64 option"
  nv_client_to_vec :: "'v client_message_dto native_envelope \<Rightarrow> (u8 list, ustring) result"
  nv_client_from_value :: "'v \<Rightarrow> ('v client_message_dto native_envelope, ustring) result"
  nv_server_to_vec :: "'v server_message_dto native_envelope \<Rightarrow> (u8 list, ustring) result"
  nv_server_from_value :: "'v \<Rightarrow> ('v server_message_dto native_envelope, ustring) result"

text \<open>\<open>String::from_utf8\<close> accepts the well-formed byte sequences of the Unicode standard.\<close>

definition continuation :: "u8 \<Rightarrow> bool" where
  "continuation b \<longleftrightarrow> 0x80 \<le> b \<and> b \<le> 0xBF"

fun valid_utf8 :: "u8 list \<Rightarrow> bool" where
  "valid_utf8 [] = True"
| "valid_utf8 (a # rest) =
     (if a \<le> 0x7F then valid_utf8 rest
      else case rest of
        [] \<Rightarrow> False
      | b # rest1 \<Rightarrow>
          if 0xC2 \<le> a \<and> a \<le> 0xDF then continuation b \<and> valid_utf8 rest1
          else case rest1 of
            [] \<Rightarrow> False
          | c # rest2 \<Rightarrow>
              if 0xE0 \<le> a \<and> a \<le> 0xEF
              then continuation b \<and> (a = 0xE0 \<longrightarrow> 0xA0 \<le> b) \<and> (a = 0xED \<longrightarrow> b \<le> 0x9F)
                \<and> continuation c \<and> valid_utf8 rest2
              else case rest2 of
                [] \<Rightarrow> False
              | d # rest3 \<Rightarrow>
                  0xF0 \<le> a \<and> a \<le> 0xF4 \<and> continuation b \<and> (a = 0xF0 \<longrightarrow> 0x90 \<le> b)
                  \<and> (a = 0xF4 \<longrightarrow> b \<le> 0x8F) \<and> continuation c \<and> continuation d \<and> valid_utf8 rest3)"

definition writes_back ::
  "('v \<Rightarrow> u64 option) \<Rightarrow> (u8 list \<Rightarrow> ('v, ustring) result)
     \<Rightarrow> ('m native_envelope \<Rightarrow> (u8 list, ustring) result) \<Rightarrow> ('v \<Rightarrow> ('m native_envelope, ustring) result) \<Rightarrow> bool" where
  "writes_back version from_slice to_vec from_value \<longleftrightarrow>
     (\<forall>e bytes. to_vec e = Ok bytes \<longrightarrow> valid_utf8 bytes
        \<and> (\<exists>v. from_slice bytes = Ok v
             \<and> version v = Some (ucast (nev_native_transport_version e)) \<and> from_value v = Ok e))"

definition native_laws :: "'v native_env \<Rightarrow> bool" where
  "native_laws nv \<longleftrightarrow> wire_laws (nv_wire nv) \<and> json_laws (nv_json nv)
     \<and> (\<forall>e bytes v. js_to_vec (nv_json nv) e = Ok bytes \<longrightarrow> js_from_slice (nv_json nv) bytes = Ok v \<longrightarrow>
          (\<exists>bytes'. nv_value_to_vec nv v = Ok bytes' \<and> js_from_slice (nv_json nv) bytes' = Ok v))
     \<and> writes_back (nv_transport_version nv) (js_from_slice (nv_json nv)) (nv_client_to_vec nv) (nv_client_from_value nv)
     \<and> writes_back (nv_transport_version nv) (js_from_slice (nv_json nv)) (nv_server_to_vec nv) (nv_server_from_value nv)"

end
