(* ===== verification/Native_Codec.thy ===== *)
theory Native_Codec
  imports Native_Types
begin

text \<open>
  Validation, conversion and codec entry points of the Native Transport
  (\<open>native/src/protocol.rs\<close>), with the order of the checks of the code.
\<close>

section \<open>Scalars\<close>

definition native_invalid :: "string \<Rightarrow> string \<Rightarrow> ('a, native_protocol_error) result" where
  "native_invalid field reason = Err (NativeInvalidField field (utf reason))"

definition validate_uuid_v7 ::
  "'v native_env \<Rightarrow> string \<Rightarrow> ustring \<Rightarrow> (unit, native_protocol_error) result" where
  "validate_uuid_v7 nv field value =
     and_then (ok_or (NativeInvalidField field (nv_uuid_error nv value)) (we_uuid_parse (nv_wire nv) value))
       (\<lambda>parsed.
       if we_uuid_version (nv_wire nv) parsed \<noteq> 7 \<or> we_uuid_show (nv_wire nv) parsed \<noteq> value
       then native_invalid field ''expected a canonical lowercase UUIDv7 string''
       else Ok ())"

definition validate_nonblank :: "string \<Rightarrow> ustring \<Rightarrow> (unit, native_protocol_error) result" where
  "validate_nonblank field value =
     (if trim_text value = [] then native_invalid field ''must not be blank'' else Ok ())"

definition native_parse_session_id ::
  "'v native_env \<Rightarrow> ustring \<Rightarrow> (session_id, native_protocol_error) result" where
  "native_parse_session_id nv value =
     map_err (\<lambda>e. NativeInvalidField ''session_id'' (nv_domain_error nv e))
       (id_from_str (we_uuid_version (nv_wire nv)) (we_uuid_parse (nv_wire nv)) ''session ID'' SessionId value)"

text \<open>The standard library's \<open>str::parse::<u64>\<close>: an optional plus sign, then digits, no overflow.\<close>

definition parse_u64 :: "ustring \<Rightarrow> u64 option" where
  "parse_u64 value =
     (let digits = (case value of c # rest \<Rightarrow> if c = 43 then rest else value | [] \<Rightarrow> [])
      in if digits \<noteq> [] \<and> list_all is_ascii_digit digits \<and> decimal_value digits < 2 ^ 64
         then Some (of_nat (decimal_value digits)) else None)"

fun insert_session_cursors ::
  "'v native_env \<Rightarrow> (session_id, u64) btree_map \<Rightarrow> session_cursor_dto list
     \<Rightarrow> ((session_id, u64) btree_map, native_protocol_error) result" where
  "insert_session_cursors nv parsed [] = Ok parsed"
| "insert_session_cursors nv parsed (cursor # cursors) =
     and_then (native_parse_session_id nv (scd_session_id cursor)) (\<lambda>sid.
     and_then (ok_or (NativeInvalidField ''last_sequence'' (utf ''expected a canonical positive decimal u64''))
        (parse_u64 (scd_last_sequence cursor))) (\<lambda>last_sequence.
     if last_sequence = 0 \<or> scd_last_sequence cursor \<noteq> decimal (unat last_sequence)
     then native_invalid ''last_sequence'' ''expected a canonical positive decimal u64''
     else if bt_get parsed sid \<noteq> None
     then native_invalid ''session_cursors'' ''must not contain duplicate Session IDs''
     else insert_session_cursors nv (bt_insert sid last_sequence parsed) cursors))"

definition parse_session_cursors ::
  "'v native_env \<Rightarrow> session_cursor_dto list \<Rightarrow> ((session_id, u64) btree_map, native_protocol_error) result" where
  "parse_session_cursors nv cursors = insert_session_cursors nv bt_empty cursors"

definition parse_sequence :: "'v native_env \<Rightarrow> ustring \<Rightarrow> (event_sequence, native_protocol_error) result" where
  "parse_sequence nv value =
     (if value = [] \<or> \<not> list_all is_ascii_digit value \<or> (length value > 1 \<and> hd value = 48)
      then native_invalid ''event sequence'' ''expected a canonical unsigned decimal string''
      else and_then (ok_or (NativeInvalidField ''event sequence'' (utf ''number too large to fit in target type''))
          (parse_u64 value)) (\<lambda>parsed.
        map_err (\<lambda>e. NativeInvalidField ''event sequence'' (nv_domain_error nv e)) (EventSequence_new parsed)))"

section \<open>Nested domain messages\<close>

definition encode_domain_value ::
  "'v native_env \<Rightarrow> protocol_message \<Rightarrow> ('v, native_protocol_error) result" where
  "encode_domain_value nv message =
     and_then (map_err NativeDomainProtocol (encode_json (nv_wire nv) (nv_json nv) message)) (\<lambda>bytes.
     map_err NativeJson (js_from_slice (nv_json nv) bytes))"

definition decode_domain_value ::
  "'v native_env \<Rightarrow> 'v \<Rightarrow> (protocol_message, native_protocol_error) result" where
  "decode_domain_value nv value =
     and_then (map_err NativeJson (nv_value_to_vec nv value)) (\<lambda>bytes.
     map_err NativeDomainProtocol (decode_json (nv_wire nv) (nv_json nv) bytes))"

fun protocol_message_type :: "protocol_message \<Rightarrow> string" where
  "protocol_message_type (ProviderDescriptorMessage _) = ''provider_descriptor''"
| "protocol_message_type (ChannelDescriptorMessage _) = ''channel_descriptor''"
| "protocol_message_type (AgentSessionMessage _) = ''agent_session''"
| "protocol_message_type (AgentEventMessage _) = ''agent_event''"
| "protocol_message_type (InteractionRequestMessage _) = ''interaction_request''"
| "protocol_message_type (InteractionResponseMessage _) = ''interaction_response''"
| "protocol_message_type (AgentCommandMessage _) = ''agent_command''"

section \<open>Validation\<close>

definition validate_client_hello ::
  "'v native_env \<Rightarrow> native_client_hello \<Rightarrow> (unit, native_protocol_error) result" where
  "validate_client_hello nv h =
     and_then (validate_uuid_v7 nv ''client_id'' (nch_client_id h)) (\<lambda>_.
     and_then (validate_nonblank ''display_name'' (nch_display_name h)) (\<lambda>_.
     and_then (case nch_version h of Some version \<Rightarrow> validate_nonblank ''version'' version | None \<Rightarrow> Ok ()) (\<lambda>_.
     and_then (case nch_host_run_id h of Some run \<Rightarrow> validate_uuid_v7 nv ''host_run_id'' run | None \<Rightarrow> Ok ()) (\<lambda>_.
     if nch_host_run_id h = None \<and> \<not> bt_is_empty (nch_session_cursors h)
     then native_invalid ''session_cursors'' ''stored Session cursors require host_run_id''
     else if list_ex (\<lambda>sequence. sequence = 0) (bt_values (nch_session_cursors h))
     then native_invalid ''session_cursors'' ''stored Session cursors must be positive''
     else if nch_supported_protocol_versions h = []
     then native_invalid ''supported_protocol_versions'' ''must not be empty''
     else if length (remdups_adj (sort (nch_supported_protocol_versions h)))
            \<noteq> length (nch_supported_protocol_versions h)
     then native_invalid ''supported_protocol_versions'' ''must not contain duplicates''
     else Ok ()))))"

fun validate_client_message ::
  "'v native_env \<Rightarrow> native_client_message \<Rightarrow> (unit, native_protocol_error) result" where
  "validate_client_message nv (ClientHello h) = validate_client_hello nv h"
| "validate_client_message nv (ClientDiscover request_id) = validate_uuid_v7 nv ''request_id'' request_id"
| "validate_client_message nv (ClientSubscribe request_id _) = validate_uuid_v7 nv ''request_id'' request_id"
| "validate_client_message nv (ClientUnsubscribe request_id _) = validate_uuid_v7 nv ''request_id'' request_id"
| "validate_client_message nv (ClientInteractionResponse request_id _) = validate_uuid_v7 nv ''request_id'' request_id"
| "validate_client_message nv (ClientCommand request_id _) = validate_uuid_v7 nv ''request_id'' request_id"

text \<open>The two steps of the match: the identifier of the context, then whether the message fits.\<close>

fun delivery_context_request :: "native_delivery_context \<Rightarrow> ustring option" where
  "delivery_context_request (DiscoveryProvider request_id) = Some request_id"
| "delivery_context_request (DiscoverySession request_id _) = Some request_id"
| "delivery_context_request (SubscriptionSession request_id) = Some request_id"
| "delivery_context_request (SubscriptionInteraction request_id _) = Some request_id"
| "delivery_context_request (LiveEvent _) = None"
| "delivery_context_request LiveSession = None"

fun delivery_context_name :: "native_delivery_context \<Rightarrow> string" where
  "delivery_context_name (DiscoveryProvider _) = ''discovery_provider''"
| "delivery_context_name (DiscoverySession _ _) = ''discovery_session''"
| "delivery_context_name (SubscriptionSession _) = ''subscription_session''"
| "delivery_context_name (SubscriptionInteraction _ _) = ''subscription_interaction''"
| "delivery_context_name (LiveEvent _) = ''live_event''"
| "delivery_context_name LiveSession = ''live_session''"

fun delivery_context_fits :: "native_delivery_context \<Rightarrow> protocol_message \<Rightarrow> bool" where
  "delivery_context_fits (DiscoveryProvider _) (ProviderDescriptorMessage _) = True"
| "delivery_context_fits (DiscoverySession _ _) (AgentSessionMessage _) = True"
| "delivery_context_fits (SubscriptionSession _) (AgentSessionMessage _) = True"
| "delivery_context_fits (SubscriptionInteraction _ _) (InteractionRequestMessage _) = True"
| "delivery_context_fits (LiveEvent _) (AgentEventMessage _) = True"
| "delivery_context_fits LiveSession (AgentSessionMessage _) = True"
| "delivery_context_fits _ _ = False"

definition validate_delivery_context ::
  "'v native_env \<Rightarrow> native_delivery_context \<Rightarrow> protocol_message \<Rightarrow> (unit, native_protocol_error) result" where
  "validate_delivery_context nv ctx message =
     and_then (case delivery_context_request ctx of
         Some request_id \<Rightarrow> validate_uuid_v7 nv ''request_id'' request_id | None \<Rightarrow> Ok ()) (\<lambda>_.
     if delivery_context_fits ctx message then Ok ()
     else Err (NativeInvalidDomainContext (delivery_context_name ctx) (protocol_message_type message)))"

definition native_capabilities :: channel_capabilities where
  "native_capabilities = fold (\<lambda>c acc. cc_union acc c)
     [CC_SESSION_VIEW, CC_REALTIME_SYNC, CC_APPROVAL, CC_FORM_INPUT, CC_TEXT_INPUT, CC_REMOTE_COMMAND]
     CC_NOTIFICATION"

definition validate_server_hello ::
  "'v native_env \<Rightarrow> native_server_hello \<Rightarrow> (unit, native_protocol_error) result" where
  "validate_server_hello nv h =
     and_then (validate_uuid_v7 nv ''connection_id'' (nsh_connection_id h)) (\<lambda>_.
     and_then (validate_uuid_v7 nv ''host_run_id'' (nsh_host_run_id h)) (\<lambda>_.
     if channel_slug (cd_kind (nsh_channel h)) \<noteq> utf ''native''
     then native_invalid ''channel.kind'' ''server must identify a native Channel''
     else if cd_capabilities (nsh_channel h) \<noteq> native_capabilities
     then native_invalid ''channel.capabilities''
       ''Native v3 requires its complete interactive command capability set''
     else if nsh_protocol_version h \<noteq> V2_PROTOCOL_VERSION
     then native_invalid ''protocol_version'' ''server must select AgentPulse JSON v2''
     else if nsh_max_frame_bytes h = 0 \<or> nsh_ping_interval_seconds h = 0 \<or> nsh_idle_timeout_seconds h = 0
     then native_invalid ''server_hello limits'' ''all limits must be greater than zero''
     else Ok ()))"

fun validate_server_message ::
  "'v native_env \<Rightarrow> native_server_message \<Rightarrow> (unit, native_protocol_error) result" where
  "validate_server_message nv (ServerHello h) = validate_server_hello nv h"
| "validate_server_message nv (ServerSyncStarted request_id _ _) = validate_uuid_v7 nv ''request_id'' request_id"
| "validate_server_message nv (ServerSyncCompleted request_id) = validate_uuid_v7 nv ''request_id'' request_id"
| "validate_server_message nv (ServerSubscriptionResult r) = validate_uuid_v7 nv ''request_id'' (nsr_request_id r)"
| "validate_server_message nv (ServerUnsubscriptionResult request_id _ _) =
     validate_uuid_v7 nv ''request_id'' request_id"
| "validate_server_message nv (ServerInteractionResponseResult request_id _ interaction_id) =
     and_then (validate_uuid_v7 nv ''request_id'' request_id)
       (\<lambda>_. validate_uuid_v7 nv ''interaction_id'' interaction_id)"
| "validate_server_message nv (ServerCommandResult request_id _ command_id) =
     and_then (validate_uuid_v7 nv ''request_id'' request_id)
       (\<lambda>_. validate_uuid_v7 nv ''command_id'' command_id)"
| "validate_server_message nv (ServerDomain ctx message) = validate_delivery_context nv ctx message"
| "validate_server_message nv (ServerError request_id _ message _) =
     and_then (case request_id of
         Some rid \<Rightarrow> validate_uuid_v7 nv ''request_id'' rid | None \<Rightarrow> Ok ())
       (\<lambda>_. validate_nonblank ''error.message'' message)"

section \<open>Conversions\<close>

definition show_session_id :: "'v native_env \<Rightarrow> session_id \<Rightarrow> ustring" where
  "show_session_id nv sid = we_uuid_show (nv_wire nv) (session_uuid sid)"

definition cursor_dto :: "'v native_env \<Rightarrow> session_id \<times> u64 \<Rightarrow> session_cursor_dto" where
  "cursor_dto nv entry =
     \<lparr>scd_session_id = show_session_id nv (fst entry), scd_last_sequence = decimal (unat (snd entry))\<rparr>"

fun client_from_semantic ::
  "'v native_env \<Rightarrow> native_client_message \<Rightarrow> ('v client_message_dto, native_protocol_error) result" where
  "client_from_semantic nv (ClientHello h) = Ok (ClientHelloDto
     \<lparr>chd_client_id = nch_client_id h, chd_display_name = nch_display_name h, chd_version = nch_version h,
      chd_supported_protocol_versions = nch_supported_protocol_versions h,
      chd_host_run_id = nch_host_run_id h,
      chd_session_cursors = map (cursor_dto nv) (bt_entries (nch_session_cursors h))\<rparr>)"
| "client_from_semantic nv (ClientDiscover request_id) = Ok (DiscoverSessionsDto request_id)"
| "client_from_semantic nv (ClientSubscribe request_id sid) =
     Ok (SubscribeSessionDto request_id (show_session_id nv sid))"
| "client_from_semantic nv (ClientUnsubscribe request_id sid) =
     Ok (UnsubscribeSessionDto request_id (show_session_id nv sid))"
| "client_from_semantic nv (ClientInteractionResponse request_id response) =
     and_then (encode_domain_value nv (InteractionResponseMessage response))
       (\<lambda>value. Ok (SubmitInteractionResponseDto request_id value))"
| "client_from_semantic nv (ClientCommand request_id command) =
     and_then (encode_domain_value nv (AgentCommandMessage command))
       (\<lambda>value. Ok (SubmitCommandDto request_id value))"

fun client_into_semantic ::
  "'v native_env \<Rightarrow> 'v client_message_dto \<Rightarrow> (native_client_message, native_protocol_error) result" where
  "client_into_semantic nv (ClientHelloDto d) =
     and_then (parse_session_cursors nv (chd_session_cursors d)) (\<lambda>cursors.
     Ok (ClientHello \<lparr>nch_client_id = chd_client_id d, nch_display_name = chd_display_name d,
       nch_version = chd_version d, nch_supported_protocol_versions = chd_supported_protocol_versions d,
       nch_host_run_id = chd_host_run_id d, nch_session_cursors = cursors\<rparr>))"
| "client_into_semantic nv (DiscoverSessionsDto request_id) = Ok (ClientDiscover request_id)"
| "client_into_semantic nv (SubscribeSessionDto request_id sid) =
     and_then (native_parse_session_id nv sid) (\<lambda>sid. Ok (ClientSubscribe request_id sid))"
| "client_into_semantic nv (UnsubscribeSessionDto request_id sid) =
     and_then (native_parse_session_id nv sid) (\<lambda>sid. Ok (ClientUnsubscribe request_id sid))"
| "client_into_semantic nv (SubmitInteractionResponseDto request_id value) =
     and_then (decode_domain_value nv value) (\<lambda>message.
     case message of
       InteractionResponseMessage response \<Rightarrow> Ok (ClientInteractionResponse request_id response)
     | _ \<Rightarrow> Err (NativeInvalidDomainContext ''submit_interaction_response'' ''non-interaction_response''))"
| "client_into_semantic nv (SubmitCommandDto request_id value) =
     and_then (decode_domain_value nv value) (\<lambda>message.
     case message of
       AgentCommandMessage command \<Rightarrow> Ok (ClientCommand request_id command)
     | _ \<Rightarrow> Err (NativeInvalidDomainContext ''submit_command'' ''non-agent_command''))"

fun route_into_dto :: "native_event_route \<Rightarrow> event_route_dto" where
  "route_into_dto NativeObserveOnly = ObserveOnlyDto"
| "route_into_dto NativeInteractionReadOnly = InteractionReadOnlyDto"
| "route_into_dto NativeInteractionInteractive = InteractionInteractiveDto"

fun route_from_dto :: "event_route_dto \<Rightarrow> native_event_route" where
  "route_from_dto ObserveOnlyDto = NativeObserveOnly"
| "route_from_dto InteractionReadOnlyDto = NativeInteractionReadOnly"
| "route_from_dto InteractionInteractiveDto = NativeInteractionInteractive"

fun subscription_status_into_dto :: "native_subscription_status \<Rightarrow> subscription_status_dto" where
  "subscription_status_into_dto StatusCatchingUp = CatchingUpDto"
| "subscription_status_into_dto StatusSubscribed = SubscribedDto"
| "subscription_status_into_dto StatusAlreadySubscribed = AlreadySubscribedDto"

fun subscription_status_from_dto :: "subscription_status_dto \<Rightarrow> native_subscription_status" where
  "subscription_status_from_dto CatchingUpDto = StatusCatchingUp"
| "subscription_status_from_dto SubscribedDto = StatusSubscribed"
| "subscription_status_from_dto AlreadySubscribedDto = StatusAlreadySubscribed"

fun unsubscription_status_into_dto :: "native_unsubscription_status \<Rightarrow> unsubscription_status_dto" where
  "unsubscription_status_into_dto StatusUnsubscribed = UnsubscribedDto"
| "unsubscription_status_into_dto StatusNotSubscribed = NotSubscribedDto"

fun unsubscription_status_from_dto :: "unsubscription_status_dto \<Rightarrow> native_unsubscription_status" where
  "unsubscription_status_from_dto UnsubscribedDto = StatusUnsubscribed"
| "unsubscription_status_from_dto NotSubscribedDto = StatusNotSubscribed"

fun error_code_into_dto :: "native_error_code \<Rightarrow> error_code_dto" where
  "error_code_into_dto CodeConnectionBusy = ConnectionBusyDto"
| "error_code_into_dto CodeInvalidHandshake = InvalidHandshakeDto"
| "error_code_into_dto CodeInvalidRequest = InvalidRequestDto"
| "error_code_into_dto CodeSessionNotDiscovered = SessionNotDiscoveredDto"
| "error_code_into_dto CodeSessionNotFound = SessionNotFoundDto"
| "error_code_into_dto CodeInternal = InternalDto"
| "error_code_into_dto CodeCapabilityUnavailable = CapabilityUnavailableDto"
| "error_code_into_dto CodeInteractionNotPending = InteractionNotPendingDto"
| "error_code_into_dto CodeSessionNotSubscribed = SessionNotSubscribedDto"
| "error_code_into_dto CodeProviderRejected = ProviderRejectedDto"

fun error_code_from_dto :: "error_code_dto \<Rightarrow> native_error_code" where
  "error_code_from_dto ConnectionBusyDto = CodeConnectionBusy"
| "error_code_from_dto InvalidHandshakeDto = CodeInvalidHandshake"
| "error_code_from_dto InvalidRequestDto = CodeInvalidRequest"
| "error_code_from_dto SessionNotDiscoveredDto = CodeSessionNotDiscovered"
| "error_code_from_dto SessionNotFoundDto = CodeSessionNotFound"
| "error_code_from_dto InternalDto = CodeInternal"
| "error_code_from_dto CapabilityUnavailableDto = CodeCapabilityUnavailable"
| "error_code_from_dto InteractionNotPendingDto = CodeInteractionNotPending"
| "error_code_from_dto SessionNotSubscribedDto = CodeSessionNotSubscribed"
| "error_code_from_dto ProviderRejectedDto = CodeProviderRejected"

fun delivery_context_from_semantic :: "native_delivery_context \<Rightarrow> delivery_context_dto" where
  "delivery_context_from_semantic (DiscoveryProvider request_id) = DiscoveryProviderDto request_id"
| "delivery_context_from_semantic (DiscoverySession request_id last_sequence) =
     DiscoverySessionDto request_id (decimal (unat last_sequence))"
| "delivery_context_from_semantic (SubscriptionSession request_id) = SubscriptionSessionDto request_id"
| "delivery_context_from_semantic (SubscriptionInteraction request_id route) =
     SubscriptionInteractionDto request_id (route_into_dto route)"
| "delivery_context_from_semantic (LiveEvent route) = LiveEventDto (route_into_dto route)"
| "delivery_context_from_semantic LiveSession = LiveSessionDto"

fun delivery_context_into_semantic ::
  "'v native_env \<Rightarrow> delivery_context_dto \<Rightarrow> (native_delivery_context, native_protocol_error) result" where
  "delivery_context_into_semantic nv (DiscoveryProviderDto request_id) = Ok (DiscoveryProvider request_id)"
| "delivery_context_into_semantic nv (DiscoverySessionDto request_id last_sequence) =
     and_then (parse_sequence nv last_sequence) (\<lambda>n. Ok (DiscoverySession request_id n))"
| "delivery_context_into_semantic nv (SubscriptionSessionDto request_id) = Ok (SubscriptionSession request_id)"
| "delivery_context_into_semantic nv (SubscriptionInteractionDto request_id route) =
     Ok (SubscriptionInteraction request_id (route_from_dto route))"
| "delivery_context_into_semantic nv (LiveEventDto route) = Ok (LiveEvent (route_from_dto route))"
| "delivery_context_into_semantic nv LiveSessionDto = Ok LiveSession"

fun server_from_semantic ::
  "'v native_env \<Rightarrow> native_server_message \<Rightarrow> ('v server_message_dto, native_protocol_error) result" where
  "server_from_semantic nv (ServerHello h) =
     and_then (encode_domain_value nv (ChannelDescriptorMessage (nsh_channel h))) (\<lambda>channel.
     Ok (ServerHelloDto \<lparr>shd_connection_id = nsh_connection_id h, shd_channel = channel,
       shd_protocol_version = nsh_protocol_version h, shd_max_frame_bytes = nsh_max_frame_bytes h,
       shd_ping_interval_seconds = nsh_ping_interval_seconds h,
       shd_idle_timeout_seconds = nsh_idle_timeout_seconds h, shd_host_run_id = nsh_host_run_id h,
       shd_resume_accepted = nsh_resume_accepted h\<rparr>))"
| "server_from_semantic nv (ServerSyncStarted request_id providers sessions) =
     Ok (SyncStartedDto request_id providers sessions)"
| "server_from_semantic nv (ServerDomain ctx message) =
     and_then (encode_domain_value nv message)
       (\<lambda>domain. Ok (DomainMessageDto (delivery_context_from_semantic ctx) domain))"
| "server_from_semantic nv (ServerSyncCompleted request_id) = Ok (SyncCompletedDto request_id)"
| "server_from_semantic nv (ServerSubscriptionResult r) = Ok (SubscriptionResultDto
     \<lparr>srd_request_id = nsr_request_id r, srd_session_id = show_session_id nv (nsr_session_id r),
      srd_status = subscription_status_into_dto (nsr_status r),
      srd_baseline_sequence = decimal (unat (nsr_baseline_sequence r)),
      srd_pending_interaction_count = nsr_pending_interaction_count r,
      srd_event_count = nsr_event_count r, srd_reset = nsr_reset r\<rparr>)"
| "server_from_semantic nv (ServerUnsubscriptionResult request_id sid status) =
     Ok (UnsubscriptionResultDto request_id (show_session_id nv sid) (unsubscription_status_into_dto status))"
| "server_from_semantic nv (ServerInteractionResponseResult request_id sid interaction_id) =
     Ok (InteractionResponseResultDto request_id (show_session_id nv sid) interaction_id)"
| "server_from_semantic nv (ServerCommandResult request_id sid command_id) =
     Ok (CommandResultDto request_id (show_session_id nv sid) command_id)"
| "server_from_semantic nv (ServerError request_id code message recoverable) =
     Ok (ErrorDto request_id (error_code_into_dto code) message recoverable)"

fun server_into_semantic ::
  "'v native_env \<Rightarrow> 'v server_message_dto \<Rightarrow> (native_server_message, native_protocol_error) result" where
  "server_into_semantic nv (ServerHelloDto d) =
     and_then (decode_domain_value nv (shd_channel d)) (\<lambda>message.
     case message of
       ChannelDescriptorMessage channel \<Rightarrow> Ok (ServerHello
         \<lparr>nsh_connection_id = shd_connection_id d, nsh_channel = channel,
          nsh_protocol_version = shd_protocol_version d, nsh_max_frame_bytes = shd_max_frame_bytes d,
          nsh_ping_interval_seconds = shd_ping_interval_seconds d,
          nsh_idle_timeout_seconds = shd_idle_timeout_seconds d, nsh_host_run_id = shd_host_run_id d,
          nsh_resume_accepted = shd_resume_accepted d\<rparr>)
     | _ \<Rightarrow> Err (NativeInvalidDomainContext ''server_hello'' ''non-channel_descriptor''))"
| "server_into_semantic nv (SyncStartedDto request_id providers sessions) =
     Ok (ServerSyncStarted request_id providers sessions)"
| "server_into_semantic nv (DomainMessageDto ctx domain) =
     and_then (delivery_context_into_semantic nv ctx) (\<lambda>ctx.
     and_then (decode_domain_value nv domain) (\<lambda>message. Ok (ServerDomain ctx message)))"
| "server_into_semantic nv (SyncCompletedDto request_id) = Ok (ServerSyncCompleted request_id)"
| "server_into_semantic nv (SubscriptionResultDto d) =
     and_then (native_parse_session_id nv (srd_session_id d)) (\<lambda>sid.
     and_then (parse_sequence nv (srd_baseline_sequence d)) (\<lambda>baseline.
     Ok (ServerSubscriptionResult \<lparr>nsr_request_id = srd_request_id d, nsr_session_id = sid,
       nsr_status = subscription_status_from_dto (srd_status d), nsr_baseline_sequence = baseline,
       nsr_pending_interaction_count = srd_pending_interaction_count d,
       nsr_event_count = srd_event_count d, nsr_reset = srd_reset d\<rparr>)))"
| "server_into_semantic nv (UnsubscriptionResultDto request_id sid status) =
     and_then (native_parse_session_id nv sid)
       (\<lambda>sid. Ok (ServerUnsubscriptionResult request_id sid (unsubscription_status_from_dto status)))"
| "server_into_semantic nv (InteractionResponseResultDto request_id sid interaction_id) =
     and_then (native_parse_session_id nv sid)
       (\<lambda>sid. Ok (ServerInteractionResponseResult request_id sid interaction_id))"
| "server_into_semantic nv (CommandResultDto request_id sid command_id) =
     and_then (native_parse_session_id nv sid) (\<lambda>sid. Ok (ServerCommandResult request_id sid command_id))"
| "server_into_semantic nv (ErrorDto request_id code message recoverable) =
     Ok (ServerError request_id (error_code_from_dto code) message recoverable)"

section \<open>Frames\<close>

definition native_encode_envelope ::
  "('m native_envelope \<Rightarrow> (u8 list, ustring) result) \<Rightarrow> 'm \<Rightarrow> (u8 list, native_protocol_error) result" where
  "native_encode_envelope to_vec message =
     map_err NativeJson (to_vec
       \<lparr>nev_native_transport_version = NATIVE_TRANSPORT_VERSION, nev_message = message\<rparr>)"

definition native_decode_envelope ::
  "'v native_env \<Rightarrow> ('v \<Rightarrow> ('m native_envelope, ustring) result) \<Rightarrow> u8 list
     \<Rightarrow> ('m native_envelope, native_protocol_error) result" where
  "native_decode_envelope nv from_value input =
     and_then (map_err NativeJson (js_from_slice (nv_json nv) input)) (\<lambda>value.
     and_then (ok_or (NativeInvalidField ''native_transport_version'' (utf ''expected an unsigned JSON integer''))
        (nv_transport_version nv value)) (\<lambda>received.
     if received \<noteq> ucast NATIVE_TRANSPORT_VERSION
     then Err (NativeUnsupportedVersion received NATIVE_TRANSPORT_VERSION)
     else map_err NativeJson (from_value value)))"

definition encode_client_message ::
  "'v native_env \<Rightarrow> native_client_message \<Rightarrow> (u8 list, native_protocol_error) result" where
  "encode_client_message nv message =
     and_then (validate_client_message nv message) (\<lambda>_.
     and_then (client_from_semantic nv message) (native_encode_envelope (nv_client_to_vec nv)))"

definition decode_client_message ::
  "'v native_env \<Rightarrow> u8 list \<Rightarrow> (native_client_message, native_protocol_error) result" where
  "decode_client_message nv input =
     and_then (native_decode_envelope nv (nv_client_from_value nv) input) (\<lambda>dto.
     and_then (client_into_semantic nv (nev_message dto)) (\<lambda>message.
     and_then (validate_client_message nv message) (\<lambda>_. Ok message)))"

definition encode_server_message ::
  "'v native_env \<Rightarrow> native_server_message \<Rightarrow> (u8 list, native_protocol_error) result" where
  "encode_server_message nv message =
     and_then (validate_server_message nv message) (\<lambda>_.
     and_then (server_from_semantic nv message) (native_encode_envelope (nv_server_to_vec nv)))"

definition decode_server_message ::
  "'v native_env \<Rightarrow> u8 list \<Rightarrow> (native_server_message, native_protocol_error) result" where
  "decode_server_message nv input =
     and_then (native_decode_envelope nv (nv_server_from_value nv) input) (\<lambda>dto.
     and_then (server_into_semantic nv (nev_message dto)) (\<lambda>message.
     and_then (validate_server_message nv message) (\<lambda>_. Ok message)))"

text \<open>\<open>server_text\<close> and, with its own error type around it, the \<open>encoded_text\<close> of the Port.\<close>

definition server_text :: "'v native_env \<Rightarrow> native_server_message \<Rightarrow> (u8 list, native_protocol_error) result" where
  "server_text nv message =
     and_then (encode_server_message nv message) (\<lambda>bytes.
     if valid_utf8 bytes then Ok bytes
     else Err (NativeInvalidField ''encoded server frame'' (nv_utf8_error nv bytes)))"

end
