(* ===== verification/Native_Delivery.thy ===== *)
theory Native_Delivery
  imports Native_Codec Ports
begin

text \<open>
  The bounded delivery state of a Native Channel (\<open>native/src/state.rs\<close>, \<open>status.rs\<close>) and its
  Channel Port (\<open>port.rs\<close>). The delivery state is one value that Port and Source worker share;
  here it is the state of the Port, and the worker finds it in the Bridge. A queued frame is the
  UTF-8 text of an encoded server message.
\<close>

section \<open>Monitoring\<close>

datatype native_channel_health = HealthStopped | HealthListening | HealthConnected | HealthFailed

datatype ip_addr = IpV4 "32 word" | IpV6 "128 word"

type_synonym socket_addr = "ip_addr \<times> u16"

record native_channel_snapshot =
  ncs_health :: native_channel_health
  ncs_local_address :: "socket_addr option"
  ncs_client_id :: "ustring option"
  ncs_connections :: u64
  ncs_discoveries :: u64
  ncs_subscriptions :: u64
  ncs_domain_frames :: u64
  ncs_frames_sent :: u64
  ncs_frames_received :: u64
  ncs_disconnects :: u64
  ncs_last_error :: "ustring option"

definition native_channel_snapshot_default :: native_channel_snapshot where
  "native_channel_snapshot_default =
     \<lparr>ncs_health = HealthStopped, ncs_local_address = None, ncs_client_id = None, ncs_connections = 0,
      ncs_discoveries = 0, ncs_subscriptions = 0, ncs_domain_frames = 0, ncs_frames_sent = 0,
      ncs_frames_received = 0, ncs_disconnects = 0, ncs_last_error = None\<rparr>"

section \<open>Delivery state\<close>

type_synonym frame = "u8 list"

record pending_subscription =
  ps_request_id :: ustring
  ps_session_id :: session_id
  ps_frames :: "frame list"
  ps_trailing_frames :: "frame list"
  ps_sync_delivered :: bool

record active_client =
  ac_discovered :: "session_id btree_set"
  ac_subscriptions :: "session_id btree_set"
  ac_pending :: "pending_subscription option"
  ac_session_cursors :: "(session_id, u64) btree_map"

record delivery_state =
  ds_client :: "active_client option"
  ds_outgoing :: "frame list"
  ds_abort_reason :: "ustring option"
  ds_capacity :: usize
  ds_status :: native_channel_snapshot

definition DeliveryState_new :: "usize \<Rightarrow> native_channel_snapshot \<Rightarrow> delivery_state" where
  "DeliveryState_new capacity status =
     \<lparr>ds_client = None, ds_outgoing = [], ds_abort_reason = None, ds_capacity = capacity, ds_status = status\<rparr>"

definition ds_pending :: "delivery_state \<Rightarrow> pending_subscription option" where
  "ds_pending ds = Option.bind (ds_client ds) ac_pending"

definition queued_len :: "delivery_state \<Rightarrow> usize" where
  "queued_len ds = length (ds_outgoing ds)
     + (case ds_pending ds of
          Some pending \<Rightarrow> length (ps_frames pending) + length (ps_trailing_frames pending)
        | None \<Rightarrow> 0)"

definition saturating_add :: "usize \<Rightarrow> usize \<Rightarrow> usize" where
  "saturating_add a b = min usize_max (a + b)"

definition queue_limit_text :: "usize \<Rightarrow> ustring" where
  "queue_limit_text capacity =
     utf ''Native client output queue reached its '' @ decimal capacity @ utf ''-frame limit''"

definition abort_queue :: "delivery_state \<Rightarrow> delivery_state" where
  "abort_queue ds = ds\<lparr>ds_abort_reason := Some (queue_limit_text (ds_capacity ds))\<rparr>"

definition enqueue :: "frame \<Rightarrow> delivery_state \<Rightarrow> (unit, usize) result \<times> delivery_state" where
  "enqueue frame ds =
     (if queued_len ds \<ge> ds_capacity ds then (Err (ds_capacity ds), abort_queue ds)
      else (Ok (), ds\<lparr>ds_outgoing := ds_outgoing ds @ [frame]\<rparr>))"

definition enqueue_batch :: "frame list \<Rightarrow> delivery_state \<Rightarrow> (unit, usize) result \<times> delivery_state" where
  "enqueue_batch frames ds =
     (if saturating_add (queued_len ds) (length frames) > ds_capacity ds
      then (Err (ds_capacity ds), abort_queue ds)
      else (Ok (), ds\<lparr>ds_outgoing := ds_outgoing ds @ frames\<rparr>))"

definition clear_connection :: "delivery_state \<Rightarrow> delivery_state" where
  "clear_connection ds = ds\<lparr>ds_client := None, ds_outgoing := [], ds_abort_reason := None\<rparr>"

text \<open>Writes through \<open>client.as_mut()\<close> and through its \<open>pending.as_mut()\<close>.\<close>

definition map_client :: "(active_client \<Rightarrow> active_client) \<Rightarrow> delivery_state \<Rightarrow> delivery_state" where
  "map_client f ds = ds\<lparr>ds_client := map_option f (ds_client ds)\<rparr>"

definition set_pending :: "pending_subscription option \<Rightarrow> delivery_state \<Rightarrow> delivery_state" where
  "set_pending pending = map_client (\<lambda>c. c\<lparr>ac_pending := pending\<rparr>)"

definition map_status ::
  "(native_channel_snapshot \<Rightarrow> native_channel_snapshot) \<Rightarrow> delivery_state \<Rightarrow> delivery_state" where
  "map_status f ds = ds\<lparr>ds_status := f (ds_status ds)\<rparr>"

definition count_domain_frames :: "nat \<Rightarrow> delivery_state \<Rightarrow> delivery_state" where
  "count_domain_frames n = map_status (\<lambda>s. s\<lparr>ncs_domain_frames := ncs_domain_frames s + of_nat n\<rparr>)"

section \<open>The Channel Port\<close>

datatype native_channel_port_error =
    NoActiveClient
  | PortSessionNotSubscribed session_id
  | UnsupportedEventRoute
  | PortProtocol native_protocol_error
  | QueueFull usize

record native_channel_port =
  ncp_descriptor :: channel_descriptor
  ncp_state :: delivery_state

definition encoded_text ::
  "'v native_env \<Rightarrow> native_server_message \<Rightarrow> (frame, native_channel_port_error) result" where
  "encoded_text nv message = map_err PortProtocol (server_text nv message)"

definition live_route ::
  "channel_event_route_kind \<Rightarrow> (native_event_route, native_channel_port_error) result" where
  "live_route route = map_err (\<lambda>_. UnsupportedEventRoute) (native_route_from_core route)"

definition subscribed_context ::
  "active_client \<Rightarrow> session_id \<Rightarrow> channel_event_route_kind option
     \<Rightarrow> (native_delivery_context, native_channel_port_error) result" where
  "subscribed_context client sid event_route =
     (if bs_contains (ac_subscriptions client) sid
      then (case event_route of
              Some route \<Rightarrow> and_then (live_route route) (\<lambda>r. Ok (LiveEvent r))
            | None \<Rightarrow> Ok LiveSession)
      else Err (PortSessionNotSubscribed sid))"

definition delivery_context ::
  "active_client \<Rightarrow> session_id \<Rightarrow> channel_event_route_kind option
     \<Rightarrow> (native_delivery_context, native_channel_port_error) result" where
  "delivery_context client sid event_route =
     (case ac_pending client of
        Some pending \<Rightarrow>
          if ps_session_id pending = sid
          then (case event_route of
                  Some route \<Rightarrow> and_then (live_route route) (\<lambda>r. Ok (LiveEvent r))
                | None \<Rightarrow> if ps_frames pending = [] then Ok (SubscriptionSession (ps_request_id pending))
                          else Ok LiveSession)
          else subscribed_context client sid event_route
      | None \<Rightarrow> subscribed_context client sid event_route)"

text \<open>The pending subscription of this session, if that is the one being synchronized.\<close>

definition pending_for :: "session_id \<Rightarrow> delivery_state \<Rightarrow> pending_subscription option" where
  "pending_for sid ds =
     (case ds_pending ds of
        Some pending \<Rightarrow> if ps_session_id pending = sid then Some pending else None
      | None \<Rightarrow> None)"

definition push_pending :: "frame \<Rightarrow> pending_subscription \<Rightarrow> pending_subscription" where
  "push_pending frame pending =
     (if ps_sync_delivered pending then pending\<lparr>ps_trailing_frames := ps_trailing_frames pending @ [frame]\<rparr>
      else pending\<lparr>ps_frames := ps_frames pending @ [frame]\<rparr>)"

definition deliver ::
  "'v native_env \<Rightarrow> session_id \<Rightarrow> protocol_message \<Rightarrow> channel_event_route_kind option \<Rightarrow> delivery_state
     \<Rightarrow> (unit, native_channel_port_error) result \<times> delivery_state" where
  "deliver nv sid message event_route ds =
     (case and_then (ok_or NoActiveClient (ds_client ds)) (\<lambda>client.
           and_then (delivery_context client sid event_route) (\<lambda>ctx.
           encoded_text nv (ServerDomain ctx message))) of
        Err e \<Rightarrow> (Err e, ds)
      | Ok frame \<Rightarrow>
          (case pending_for sid ds of
             Some pending \<Rightarrow>
               if queued_len ds \<ge> ds_capacity ds then (Err (QueueFull (ds_capacity ds)), abort_queue ds)
               else (Ok (), count_domain_frames 1 (set_pending (Some (push_pending frame pending)) ds))
           | None \<Rightarrow>
               (case enqueue frame ds of
                  (Err capacity, ds') \<Rightarrow> (Err (QueueFull capacity), ds')
                | (Ok _, ds') \<Rightarrow> (Ok (), count_domain_frames 1 ds'))))"

definition native_deliver_event ::
  "'v native_env \<Rightarrow> agent_event \<Rightarrow> channel_event_route_kind \<Rightarrow> delivery_state
     \<Rightarrow> (unit, native_channel_port_error) result \<times> delivery_state" where
  "native_deliver_event nv event route = deliver nv (ev_session_id event) (AgentEventMessage event) (Some route)"

definition native_deliver_session ::
  "'v native_env \<Rightarrow> agent_session \<Rightarrow> delivery_state
     \<Rightarrow> (unit, native_channel_port_error) result \<times> delivery_state" where
  "native_deliver_session nv session = deliver nv (ses_id session) (AgentSessionMessage session) None"

definition session_frame ::
  "'v native_env \<Rightarrow> ustring \<Rightarrow> agent_session \<Rightarrow> (frame, native_channel_port_error) result" where
  "session_frame nv request_id session =
     encoded_text nv (ServerDomain (SubscriptionSession request_id) (AgentSessionMessage session))"

definition interaction_frame ::
  "'v native_env \<Rightarrow> ustring \<Rightarrow> routed_interaction_request
     \<Rightarrow> (frame, native_channel_port_error) result" where
  "interaction_frame nv request_id interaction =
     and_then (live_route (InteractionMode (rir_route interaction))) (\<lambda>route.
     encoded_text nv (ServerDomain (SubscriptionInteraction request_id route)
       (InteractionRequestMessage (rir_request interaction))))"

definition baseline_frames ::
  "'v native_env \<Rightarrow> ustring \<Rightarrow> channel_session_baseline
     \<Rightarrow> (frame list, native_channel_port_error) result" where
  "baseline_frames nv request_id baseline =
     and_then (session_frame nv request_id (csb_session baseline)) (\<lambda>first.
     and_then (collect_results (interaction_frame nv request_id) (csb_pending_interactions baseline)) (\<lambda>rest.
     Ok (first # rest)))"

definition event_frame ::
  "'v native_env \<Rightarrow> session_id \<Rightarrow> routed_agent_event \<Rightarrow> (frame, native_channel_port_error) result" where
  "event_frame nv sid routed =
     (if ev_session_id (rae_event routed) \<noteq> sid then Err (PortSessionNotSubscribed sid)
      else and_then (live_route (rae_route routed)) (\<lambda>route.
           encoded_text nv (ServerDomain (LiveEvent route) (AgentEventMessage (rae_event routed)))))"

text \<open>The end both deliveries share: the whole batch is queued behind the pending subscription or
  nothing is.\<close>

definition queue_sync ::
  "session_id \<Rightarrow> ustring \<Rightarrow> frame list \<Rightarrow> delivery_state
     \<Rightarrow> (unit, native_channel_port_error) result \<times> delivery_state" where
  "queue_sync sid request_id frames ds =
     (if saturating_add (queued_len ds) (length frames) > ds_capacity ds
      then (Err (QueueFull (ds_capacity ds)), abort_queue ds)
      else case ds_pending ds of
        Some pending \<Rightarrow>
          if ps_session_id pending = sid \<and> ps_request_id pending = request_id
          then (Ok (), count_domain_frames (length frames)
             (set_pending (Some (pending\<lparr>ps_frames := ps_frames pending @ frames, ps_sync_delivered := True\<rparr>)) ds))
          else (Err NoActiveClient, ds)
      | None \<Rightarrow> (Err NoActiveClient, ds))"

definition native_deliver_session_baseline ::
  "'v native_env \<Rightarrow> channel_session_baseline \<Rightarrow> delivery_state
     \<Rightarrow> (unit, native_channel_port_error) result \<times> delivery_state" where
  "native_deliver_session_baseline nv baseline ds =
     (case and_then (ok_or NoActiveClient (ds_pending ds)) (\<lambda>pending.
           if ps_session_id pending \<noteq> ses_id (csb_session baseline)
           then Err (PortSessionNotSubscribed (ses_id (csb_session baseline)))
           else and_then (baseline_frames nv (ps_request_id pending) baseline) (\<lambda>frames.
             Ok (ps_request_id pending, frames))) of
        Err e \<Rightarrow> (Err e, ds)
      | Ok (request_id, frames) \<Rightarrow> queue_sync (ses_id (csb_session baseline)) request_id frames ds)"

definition sync_frames ::
  "'v native_env \<Rightarrow> session_id \<Rightarrow> ustring \<Rightarrow> channel_session_sync
     \<Rightarrow> (frame list, native_channel_port_error) result" where
  "sync_frames nv sid request_id sync =
     and_then (collect_results (event_frame nv sid) (css_events sync)) (\<lambda>events.
     case css_baseline sync of
       Some baseline \<Rightarrow>
         and_then (baseline_frames nv request_id baseline) (\<lambda>frames. Ok (events @ frames))
     | None \<Rightarrow> Ok events)"

definition native_deliver_session_sync ::
  "'v native_env \<Rightarrow> channel_session_sync \<Rightarrow> delivery_state
     \<Rightarrow> (unit, native_channel_port_error) result \<times> delivery_state" where
  "native_deliver_session_sync nv sync ds =
     (case and_then (ok_or NoActiveClient (ds_pending ds)) (\<lambda>pending.
           and_then (sync_frames nv (ps_session_id pending) (ps_request_id pending) sync) (\<lambda>frames.
           Ok (ps_session_id pending, ps_request_id pending, frames))) of
        Err e \<Rightarrow> (Err e, ds)
      | Ok (sid, request_id, frames) \<Rightarrow> queue_sync sid request_id frames ds)"

text \<open>The Port as the Bridge sees it; \<open>inject\<close> is the boxing of its error.\<close>

definition on_port ::
  "(native_channel_port_error \<Rightarrow> 'x)
     \<Rightarrow> (delivery_state \<Rightarrow> (unit, native_channel_port_error) result \<times> delivery_state)
     \<Rightarrow> native_channel_port \<Rightarrow> (unit, 'x) result \<times> native_channel_port" where
  "on_port inject call port =
     (case call (ncp_state port) of (r, ds) \<Rightarrow> (map_err inject r, port\<lparr>ncp_state := ds\<rparr>))"

definition native_channel ::
  "'v native_env \<Rightarrow> (native_channel_port_error \<Rightarrow> 'x) \<Rightarrow> (native_channel_port, 'x) channel_port" where
  "native_channel nv inject =
     \<lparr>cp_descriptor = ncp_descriptor,
      cp_deliver_event = (\<lambda>port event route. on_port inject (native_deliver_event nv event route) port),
      cp_deliver_session = (\<lambda>port session. on_port inject (native_deliver_session nv session) port),
      cp_deliver_session_baseline =
        (\<lambda>port baseline. on_port inject (native_deliver_session_baseline nv baseline) port),
      cp_deliver_session_sync = (\<lambda>port sync. on_port inject (native_deliver_session_sync nv sync) port)\<rparr>"

end
