(* ===== verification/Native_Session.thy ===== *)
theory Native_Session
  imports Native_Delivery Runtime
begin

text \<open>
  The connection state machine of the Native Channel worker (\<open>native/src/runtime.rs\<close>): the
  handshake, the request handlers and the disconnect. The worker owns an action handle of the
  Runtime Host, so it works on the host's shared state; the delivery state it shares with its Port
  is the state of the Port registered there. As for all handle operations, \<open>None\<close> means that an
  operation waits for a lock that is held.
\<close>

section \<open>The worker's view\<close>

text \<open>What the worker captured when it was spawned: the foreign code, the Provider ports behind the
  Bridge, the boxing and the text of errors, its handle and its thread.\<close>

record ('v, 'p, 'x) native_worker =
  nw_env :: "'v native_env"
  nw_providers :: "('p, 'x) provider_port"
  nw_inject :: "native_channel_port_error \<Rightarrow> 'x"
  nw_show :: "'x channel_action_ingress_error \<Rightarrow> ustring"
  nw_protocol_text :: "native_protocol_error \<Rightarrow> ustring"
  nw_actions :: channel_action_handle
  nw_thread :: thread_id

type_synonym 'p native_shared = "('p, native_channel_port) shared"

abbreviation nw_channel :: "('v, 'p, 'x) native_worker \<Rightarrow> channel_id" where
  "nw_channel w \<equiv> cah_channel_id (nw_actions w)"

definition port_of :: "channel_id \<Rightarrow> 'p native_shared \<Rightarrow> native_channel_port registered_channel option" where
  "port_of cid sh = bt_get (br_channels (sh_bridge sh)) cid"

text \<open>\<open>lock_delivery\<close>: reading and replacing the shared value. A worker runs only for a registered
  Channel; without one its state is a new one and writes go nowhere.\<close>

definition delivery_of :: "channel_id \<Rightarrow> 'p native_shared \<Rightarrow> delivery_state" where
  "delivery_of cid sh =
     (case port_of cid sh of
        Some reg \<Rightarrow> ncp_state (rc_port reg)
      | None \<Rightarrow> DeliveryState_new 0 native_channel_snapshot_default)"

definition put_delivery :: "channel_id \<Rightarrow> delivery_state \<Rightarrow> 'p native_shared \<Rightarrow> 'p native_shared" where
  "put_delivery cid ds sh =
     (case port_of cid sh of
        Some reg \<Rightarrow>
          sh\<lparr>sh_bridge := (sh_bridge sh)\<lparr>br_channels :=
             bt_insert cid (reg\<lparr>rc_port := (rc_port reg)\<lparr>ncp_state := ds\<rparr>\<rparr>) (br_channels (sh_bridge sh))\<rparr>\<rparr>
      | None \<Rightarrow> sh)"

definition on_delivery ::
  "channel_id \<Rightarrow> (delivery_state \<Rightarrow> 'r \<times> delivery_state) \<Rightarrow> 'p native_shared \<Rightarrow> 'r \<times> 'p native_shared" where
  "on_delivery cid f sh = (case f (delivery_of cid sh) of (r, ds) \<Rightarrow> (r, put_delivery cid ds sh))"

definition update_delivery ::
  "channel_id \<Rightarrow> (delivery_state \<Rightarrow> delivery_state) \<Rightarrow> 'p native_shared \<Rightarrow> 'p native_shared" where
  "update_delivery cid f sh = put_delivery cid (f (delivery_of cid sh)) sh"

section \<open>Failures\<close>

datatype connection_failure = Recoverable native_server_message | Fatal native_protocol_error

definition protocol_error_message ::
  "ustring option \<Rightarrow> native_error_code \<Rightarrow> ustring \<Rightarrow> bool \<Rightarrow> native_server_message" where
  "protocol_error_message request_id code message recoverable = ServerError request_id code message recoverable"

definition refuse :: "ustring \<Rightarrow> native_error_code \<Rightarrow> string \<Rightarrow> connection_failure" where
  "refuse request_id code message =
     Recoverable (protocol_error_message (Some request_id) code (utf message) True)"

definition internal_error :: "ustring option \<Rightarrow> string \<Rightarrow> connection_failure" where
  "internal_error request_id message =
     Recoverable (protocol_error_message request_id CodeInternal (utf message) True)"

definition runtime_failure ::
  "('x channel_action_ingress_error \<Rightarrow> ustring) \<Rightarrow> ustring option \<Rightarrow> 'x channel_action_ingress_error
     \<Rightarrow> connection_failure" where
  "runtime_failure show_error request_id e =
     (let code = (case e of ChannelSubscription (SubSessionNotFound _) \<Rightarrow> CodeSessionNotFound
                  | _ \<Rightarrow> CodeInternal)
      in Recoverable (protocol_error_message request_id code (show_error e) True))"

definition interaction_response_failure ::
  "('x channel_action_ingress_error \<Rightarrow> ustring) \<Rightarrow> ustring \<Rightarrow> 'x channel_action_ingress_error
     \<Rightarrow> connection_failure" where
  "interaction_response_failure show_error request_id e =
     (let code = (case e of
            ChannelBridge (ActInteractionNotPending _ _) \<Rightarrow> CodeInteractionNotPending
          | ChannelBridge (ChannelNotSubscribed _ _) \<Rightarrow> CodeSessionNotSubscribed
          | ChannelBridge (ActCapabilityRoute _) \<Rightarrow> CodeCapabilityUnavailable
          | ChannelBridge (ProviderHandoff _ _ _) \<Rightarrow> CodeProviderRejected
          | _ \<Rightarrow> CodeInternal)
      in Recoverable (protocol_error_message (Some request_id) code (show_error e) True))"

definition queue_error :: "usize \<Rightarrow> native_protocol_error" where
  "queue_error capacity =
     NativeInvalidField ''outbound queue'' (utf ''reached its '' @ decimal capacity @ utf ''-frame limit'')"

definition enqueue_control ::
  "'v native_env \<Rightarrow> native_server_message \<Rightarrow> delivery_state
     \<Rightarrow> (unit, native_protocol_error) result \<times> delivery_state" where
  "enqueue_control nv message ds =
     (case server_text nv message of
        Err e \<Rightarrow> (Err e, ds)
      | Ok text \<Rightarrow> (case enqueue text ds of (r, ds') \<Rightarrow> (map_err queue_error r, ds')))"

text \<open>The parts of the configuration the worker reads; durations in milliseconds.\<close>

record native_channel_config =
  ncc_channel_id :: channel_id
  ncc_bind_address :: socket_addr
  ncc_loopback :: bool
  ncc_handshake_timeout :: nat
  ncc_io_poll_interval :: nat
  ncc_ping_interval :: nat
  ncc_idle_timeout :: nat
  ncc_shutdown_timeout :: nat
  ncc_max_frame_bytes :: usize
  ncc_outbound_capacity :: usize
  ncc_host_run_id :: ustring

definition as_secs :: "nat \<Rightarrow> u64" where
  "as_secs millis = of_nat (millis div 1000)"

section \<open>Handshake\<close>

definition admit_hello ::
  "native_client_message \<Rightarrow> ustring option \<Rightarrow> (native_client_hello, connection_failure) result" where
  "admit_hello message authenticated =
     (case message of
        ClientHello h \<Rightarrow>
          if authenticated \<noteq> None \<and> authenticated \<noteq> Some (nch_client_id h)
          then Err (Fatal (NativeInvalidField ''client_id''
            (utf ''client hello identity does not match the authenticated upgrade'')))
          else if V2_PROTOCOL_VERSION \<notin> set (nch_supported_protocol_versions h)
          then Err (Fatal (NativeInvalidField ''supported_protocol_versions''
            (utf ''AgentPulse JSON protocol v2 is required'')))
          else Ok h
      | _ \<Rightarrow> Err (Fatal (NativeInvalidField ''first client message'' (utf ''expected client_hello''))))"

definition hello_client :: "bool \<Rightarrow> native_client_hello \<Rightarrow> active_client" where
  "hello_client resume_accepted h =
     \<lparr>ac_discovered = bt_empty, ac_subscriptions = bt_empty, ac_pending = None,
      ac_session_cursors = (if resume_accepted then nch_session_cursors h else bt_empty)\<rparr>"

definition server_hello ::
  "channel_descriptor \<Rightarrow> native_channel_config \<Rightarrow> ustring \<Rightarrow> bool \<Rightarrow> native_server_message" where
  "server_hello descriptor config connection_id resume_accepted = ServerHello
     \<lparr>nsh_connection_id = connection_id, nsh_channel = descriptor,
      nsh_protocol_version = V2_PROTOCOL_VERSION, nsh_max_frame_bytes = ncc_max_frame_bytes config,
      nsh_ping_interval_seconds = as_secs (ncc_ping_interval config),
      nsh_idle_timeout_seconds = as_secs (ncc_idle_timeout config),
      nsh_host_run_id = ncc_host_run_id config, nsh_resume_accepted = resume_accepted\<rparr>"

text \<open>\<open>connection_id\<close> is the text of the new UUID of this connection.\<close>

definition process_hello ::
  "'v native_env \<Rightarrow> native_client_message \<Rightarrow> ustring option \<Rightarrow> channel_descriptor
     \<Rightarrow> native_channel_config \<Rightarrow> ustring \<Rightarrow> delivery_state
     \<Rightarrow> (unit, connection_failure) result \<times> delivery_state" where
  "process_hello nv message authenticated descriptor config connection_id ds =
     (case admit_hello message authenticated of
        Err e \<Rightarrow> (Err e, ds)
      | Ok h \<Rightarrow>
          let resume_accepted = (nch_host_run_id h = Some (ncc_host_run_id config));
              ds1 = (clear_connection ds)\<lparr>ds_client := Some (hello_client resume_accepted h)\<rparr>
          in (case enqueue_control nv (server_hello descriptor config connection_id resume_accepted) ds1 of
                (Err e, ds2) \<Rightarrow> (Err (Fatal e), ds2)
              | (Ok _, ds2) \<Rightarrow>
                  (Ok (), map_status (\<lambda>s. s\<lparr>ncs_health := HealthConnected, ncs_client_id := Some (nch_client_id h),
                     ncs_connections := ncs_connections s + 1\<rparr>) ds2)))"

section \<open>Requests\<close>

definition discovery_frames ::
  "'v native_env \<Rightarrow> ustring \<Rightarrow> channel_discovery_snapshot \<Rightarrow> (frame list, native_protocol_error) result" where
  "discovery_frames nv request_id snapshot =
     and_then (server_text nv (ServerSyncStarted request_id (length (disc_providers snapshot))
        (length (disc_sessions snapshot)))) (\<lambda>first.
     and_then (collect_results (\<lambda>provider. server_text nv
        (ServerDomain (DiscoveryProvider request_id) (ProviderDescriptorMessage provider)))
        (disc_providers snapshot)) (\<lambda>providers.
     and_then (collect_results (\<lambda>entry. server_text nv
        (ServerDomain (DiscoverySession request_id (ds_last_sequence entry)) (AgentSessionMessage (ds_session entry))))
        (disc_sessions snapshot)) (\<lambda>sessions.
     and_then (server_text nv (ServerSyncCompleted request_id)) (\<lambda>last.
     Ok (first # providers @ sessions @ [last])))))"

definition discovered_ids :: "channel_discovery_snapshot \<Rightarrow> session_id btree_set" where
  "discovered_ids snapshot = fold (\<lambda>entry. bs_insert (ses_id (ds_session entry))) (disc_sessions snapshot) bt_empty"

definition discover_admitted :: "ustring \<Rightarrow> delivery_state \<Rightarrow> (unit, connection_failure) result" where
  "discover_admitted request_id ds =
     (case ds_client ds of
        None \<Rightarrow> Err (internal_error (Some request_id) ''client state is unavailable'')
      | Some client \<Rightarrow>
          if ac_pending client \<noteq> None
          then Err (refuse request_id CodeInvalidRequest ''wait for the active subscription baseline before discovery'')
          else Ok ())"

definition finish_discovery ::
  "frame list \<Rightarrow> session_id btree_set \<Rightarrow> delivery_state \<Rightarrow> (unit, connection_failure) result \<times> delivery_state" where
  "finish_discovery frames discovered ds =
     (case enqueue_batch frames ds of
        (Err capacity, ds1) \<Rightarrow> (Err (Fatal (queue_error capacity)), ds1)
      | (Ok _, ds1) \<Rightarrow>
          (Ok (), map_status (\<lambda>s. s\<lparr>ncs_discoveries := ncs_discoveries s + 1\<rparr>)
             (map_client (\<lambda>c. c\<lparr>ac_discovered := discovered\<rparr>) ds1)))"

definition process_discover ::
  "('v, 'p, 'x) native_worker \<Rightarrow> ustring \<Rightarrow> 'p native_shared
     \<Rightarrow> ((unit, connection_failure) result \<times> 'p native_shared) option" where
  "process_discover w request_id sh =
     (case discover_admitted request_id (delivery_of (nw_channel w) sh) of
        Err e \<Rightarrow> Some (Err e, sh)
      | Ok _ \<Rightarrow>
          Option.bind (handle_discovery_snapshot (nw_thread w) (nw_actions w) sh) (\<lambda>(r, sh1).
          Some (case r of
            Err e \<Rightarrow> (Err (runtime_failure (nw_show w) (Some request_id) e), sh1)
          | Ok snapshot \<Rightarrow>
              (case discovery_frames (nw_env w) request_id snapshot of
                 Err e \<Rightarrow> (Err (Fatal e), sh1)
               | Ok frames \<Rightarrow>
                   on_delivery (nw_channel w) (finish_discovery frames (discovered_ids snapshot)) sh1))))"

definition SESSION_SYNC_PAGE_EVENTS :: usize where
  "SESSION_SYNC_PAGE_EVENTS = 128"

text \<open>The first part of \<open>process_subscribe\<close>: \<open>Ok True\<close> goes on to synchronize, \<open>Ok False\<close> has
  answered an existing subscription.\<close>

definition begin_subscribe ::
  "'v native_env \<Rightarrow> ustring \<Rightarrow> session_id \<Rightarrow> delivery_state
     \<Rightarrow> (bool, connection_failure) result \<times> delivery_state" where
  "begin_subscribe nv request_id sid ds =
     (case ds_client ds of
        None \<Rightarrow> (Err (internal_error (Some request_id) ''client state is unavailable''), ds)
      | Some client \<Rightarrow>
          if \<not> bs_contains (ac_discovered client) sid
          then (Err (refuse request_id CodeSessionNotDiscovered
                  ''Session was not present in the latest discovery snapshot''), ds)
          else if ac_pending client \<noteq> None
          then (Err (refuse request_id CodeInvalidRequest ''another subscription is being synchronized''), ds)
          else if bs_contains (ac_subscriptions client) sid
          then (case Option.bind (bt_get (ac_session_cursors client) sid)
                  (\<lambda>sequence. if sequence = 0 then None else Some sequence) of
                  None \<Rightarrow> (Err (internal_error (Some request_id) ''active subscription cursor is unavailable''), ds)
                | Some baseline \<Rightarrow>
                    (case server_text nv (ServerSubscriptionResult
                         \<lparr>nsr_request_id = request_id, nsr_session_id = sid, nsr_status = StatusAlreadySubscribed,
                          nsr_baseline_sequence = baseline, nsr_pending_interaction_count = 0,
                          nsr_event_count = 0, nsr_reset = False\<rparr>) of
                       Err e \<Rightarrow> (Err (Fatal e), ds)
                     | Ok frame \<Rightarrow>
                         (case enqueue frame ds of
                            (Err capacity, ds1) \<Rightarrow> (Err (Fatal (queue_error capacity)), ds1)
                          | (Ok _, ds1) \<Rightarrow> (Ok False, ds1))))
          else (Ok True, set_pending (Some \<lparr>ps_request_id = request_id, ps_session_id = sid, ps_frames = [],
                   ps_trailing_frames = [], ps_sync_delivered = False\<rparr>) ds))"

definition subscribe_cursor :: "session_id \<Rightarrow> delivery_state \<Rightarrow> u64" where
  "subscribe_cursor sid ds =
     (case Option.bind (ds_client ds) (\<lambda>client. bt_get (ac_session_cursors client) sid) of
        Some sequence \<Rightarrow> sequence | None \<Rightarrow> 0)"

text \<open>The last part, once the Bridge has answered.\<close>

definition subscription_result ::
  "ustring \<Rightarrow> session_id \<Rightarrow> session_sync_outcome \<Rightarrow> native_subscription_result" where
  "subscription_result request_id sid outcome =
     \<lparr>nsr_request_id = request_id, nsr_session_id = sid,
      nsr_status = (if sso_subscribed outcome then StatusSubscribed else StatusCatchingUp),
      nsr_baseline_sequence = sso_through_sequence outcome,
      nsr_pending_interaction_count = sso_pending_interaction_count outcome,
      nsr_event_count = sso_event_count outcome, nsr_reset = sso_reset outcome\<rparr>"

definition end_subscribe ::
  "'v native_env \<Rightarrow> ustring \<Rightarrow> session_id \<Rightarrow> session_sync_outcome \<Rightarrow> delivery_state
     \<Rightarrow> (unit, connection_failure) result \<times> delivery_state" where
  "end_subscribe nv request_id sid outcome ds =
     (if sso_through_sequence outcome = 0
      then (Err (internal_error (Some request_id) ''invalid synchronized Event cursor''), ds)
      else case server_text nv (ServerSubscriptionResult (subscription_result request_id sid outcome)) of
        Err e \<Rightarrow> (Err (Fatal e), ds)
      | Ok result_frame \<Rightarrow>
     (case ds_client ds of
        None \<Rightarrow> (Err (internal_error None ''client disconnected during subscription''), ds)
      | Some client \<Rightarrow>
     (case ac_pending client of
        None \<Rightarrow> (Err (internal_error None ''subscription synchronization state disappeared''), ds)
      | Some pending \<Rightarrow>
          let ds1 = set_pending None ds
          in (case server_text nv (ServerSyncCompleted request_id) of
                Err e \<Rightarrow> (Err (Fatal e), ds1)
              | Ok completed \<Rightarrow>
                  (case enqueue_batch (result_frame # ps_frames pending @ completed # ps_trailing_frames pending) ds1 of
                     (Err capacity, ds2) \<Rightarrow> (Err (Fatal (queue_error capacity)), ds2)
                   | (Ok _, ds2) \<Rightarrow>
                       let ds3 = map_client (\<lambda>c. c\<lparr>ac_session_cursors :=
                             bt_insert sid (sso_through_sequence outcome) (ac_session_cursors c)\<rparr>) ds2
                       in (Ok (), if sso_subscribed outcome
                           then map_status (\<lambda>s. s\<lparr>ncs_subscriptions := ncs_subscriptions s + 1\<rparr>)
                             (map_client (\<lambda>c. c\<lparr>ac_subscriptions := bs_insert sid (ac_subscriptions c)\<rparr>) ds3)
                           else ds3))))))"

definition process_subscribe ::
  "('v, 'p, 'x) native_worker \<Rightarrow> ustring \<Rightarrow> session_id \<Rightarrow> 'p native_shared
     \<Rightarrow> ((unit, connection_failure) result \<times> 'p native_shared) option" where
  "process_subscribe w request_id sid sh =
     (let cid = nw_channel w; cp = native_channel (nw_env w) (nw_inject w) in
      case on_delivery cid (begin_subscribe (nw_env w) request_id sid) sh of
        (Err e, sh1) \<Rightarrow> Some (Err e, sh1)
      | (Ok False, sh1) \<Rightarrow> Some (Ok (), sh1)
      | (Ok True, sh1) \<Rightarrow>
          Option.bind (handle_sync_session cp (nw_thread w) (nw_actions w) sid
             (subscribe_cursor sid (delivery_of cid sh1)) SESSION_SYNC_PAGE_EVENTS sh1) (\<lambda>(r, sh2).
          Some (case r of
            Err e \<Rightarrow> (Err (runtime_failure (nw_show w) (Some request_id) e), update_delivery cid (set_pending None) sh2)
          | Ok outcome \<Rightarrow> on_delivery cid (end_subscribe (nw_env w) request_id sid outcome) sh2)))"

definition client_subscribed :: "session_id \<Rightarrow> delivery_state \<Rightarrow> bool" where
  "client_subscribed sid ds =
     (case ds_client ds of Some client \<Rightarrow> bs_contains (ac_subscriptions client) sid | None \<Rightarrow> False)"

text \<open>\<open>enqueue_control(...).map_err(ConnectionFailure::Fatal)\<close>.\<close>

definition reply_control ::
  "('v, 'p, 'x) native_worker \<Rightarrow> native_server_message \<Rightarrow> 'p native_shared
     \<Rightarrow> (unit, connection_failure) result \<times> 'p native_shared" where
  "reply_control w message sh =
     (case on_delivery (nw_channel w) (enqueue_control (nw_env w) message) sh of
        (r, sh') \<Rightarrow> (map_err Fatal r, sh'))"

definition process_interaction_response ::
  "('v, 'p, 'x) native_worker \<Rightarrow> ustring \<Rightarrow> interaction_response \<Rightarrow> 'p native_shared
     \<Rightarrow> ((unit, connection_failure) result \<times> 'p native_shared) option" where
  "process_interaction_response w request_id response sh =
     (if \<not> client_subscribed (is_session_id response) (delivery_of (nw_channel w) sh)
      then Some (Err (refuse request_id CodeSessionNotSubscribed
        ''the current Native connection is not subscribed to the response Session''), sh)
      else Option.bind (handle_submit_response (nw_providers w) (nw_thread w) (nw_actions w) response sh)
        (\<lambda>(r, sh1). Some (case r of
            Err e \<Rightarrow> (Err (interaction_response_failure (nw_show w) request_id e), sh1)
          | Ok _ \<Rightarrow> reply_control w (ServerInteractionResponseResult request_id (is_session_id response)
                (we_uuid_show (nv_wire (nw_env w)) (interaction_uuid (is_request_id response)))) sh1)))"

definition process_command ::
  "('v, 'p, 'x) native_worker \<Rightarrow> ustring \<Rightarrow> agent_command \<Rightarrow> 'p native_shared
     \<Rightarrow> ((unit, connection_failure) result \<times> 'p native_shared) option" where
  "process_command w request_id command sh =
     (if \<not> client_subscribed (cmd_session_id command) (delivery_of (nw_channel w) sh)
      then Some (Err (refuse request_id CodeSessionNotSubscribed
        ''the current Native connection is not subscribed to the command Session''), sh)
      else Option.bind (handle_submit_command (nw_providers w) (nw_thread w) (nw_actions w) command sh)
        (\<lambda>(r, sh1). Some (case r of
            Err e \<Rightarrow> (Err (interaction_response_failure (nw_show w) request_id e), sh1)
          | Ok _ \<Rightarrow> reply_control w (ServerCommandResult request_id (cmd_session_id command)
                (we_uuid_show (nv_wire (nw_env w)) (command_uuid (cmd_id command)))) sh1)))"

definition process_unsubscribe ::
  "('v, 'p, 'x) native_worker \<Rightarrow> ustring \<Rightarrow> session_id \<Rightarrow> 'p native_shared
     \<Rightarrow> ((unit, connection_failure) result \<times> 'p native_shared) option" where
  "process_unsubscribe w request_id sid sh =
     Option.bind (handle_unsubscribe (nw_thread w) (nw_actions w) sid sh) (\<lambda>(r, sh1).
     Some (case r of
       Err e \<Rightarrow> (Err (runtime_failure (nw_show w) (Some request_id) e), sh1)
     | Ok outcome \<Rightarrow>
         let status = (case outcome of Unsubscribed \<Rightarrow> StatusUnsubscribed | NotSubscribed \<Rightarrow> StatusNotSubscribed);
             sh2 = update_delivery (nw_channel w)
               (map_client (\<lambda>c. c\<lparr>ac_subscriptions := bt_remove sid (ac_subscriptions c)\<rparr>)) sh1
         in reply_control w (ServerUnsubscriptionResult request_id sid status) sh2))"

fun process_ready_message ::
  "('v, 'p, 'x) native_worker \<Rightarrow> native_client_message \<Rightarrow> 'p native_shared
     \<Rightarrow> ((unit, connection_failure) result \<times> 'p native_shared) option" where
  "process_ready_message w (ClientHello _) sh =
     Some (Err (Fatal (NativeInvalidField ''client_hello'' (utf ''client hello may only be sent once''))), sh)"
| "process_ready_message w (ClientDiscover request_id) sh = process_discover w request_id sh"
| "process_ready_message w (ClientSubscribe request_id sid) sh = process_subscribe w request_id sid sh"
| "process_ready_message w (ClientUnsubscribe request_id sid) sh = process_unsubscribe w request_id sid sh"
| "process_ready_message w (ClientInteractionResponse request_id response) sh =
     process_interaction_response w request_id response sh"
| "process_ready_message w (ClientCommand request_id command) sh = process_command w request_id command sh"

section \<open>Disconnect\<close>

fun unsubscribe_all ::
  "('v, 'p, 'x) native_worker \<Rightarrow> session_id list \<Rightarrow> 'p native_shared \<Rightarrow> 'p native_shared option" where
  "unsubscribe_all w [] sh = Some sh"
| "unsubscribe_all w (sid # sids) sh =
     Option.bind (handle_unsubscribe (nw_thread w) (nw_actions w) sid sh
         :: ((unsubscribe_outcome, 'x channel_action_ingress_error) result \<times> 'p native_shared) option)
       (\<lambda>(_, sh'). unsubscribe_all w sids sh')"

definition disconnect :: "('v, 'p, 'x) native_worker \<Rightarrow> 'p native_shared \<Rightarrow> 'p native_shared option" where
  "disconnect w sh =
     (let subscriptions = (case ds_client (delivery_of (nw_channel w) sh) of
            Some client \<Rightarrow> bs_elems (ac_subscriptions client) | None \<Rightarrow> [])
      in Option.bind (unsubscribe_all w subscriptions sh) (\<lambda>sh1.
         Some (update_delivery (nw_channel w) (\<lambda>ds.
           map_status (\<lambda>s. s\<lparr>ncs_disconnects := (if ncs_health s = HealthConnected then ncs_disconnects s + 1
                else ncs_disconnects s), ncs_health := HealthListening, ncs_client_id := None\<rparr>)
             (clear_connection ds)) sh1)))"

end
