(* ===== verification/Native_Worker.thy ===== *)
theory Native_Worker
  imports Native_Session
begin

text \<open>
  The worker loop of the Native Channel (\<open>run_worker\<close> in \<open>native/src/runtime.rs\<close>), its
  configuration check (\<open>config.rs\<close>) and its construction (\<open>lib.rs\<close>). One pass of the loop is
  the function \<open>worker_round\<close>. What sockets and clock answer during the pass is its argument
  \<open>transport_round\<close>; what it writes to the sockets is its output. A pass is one step with respect to the Bridge
  calls of other threads, which come between passes, and in a subscription also between its two halves; the
  mutex of the delivery state is therefore not a lock of the model.
\<close>

section \<open>Configuration\<close>

datatype native_channel_build_error =
    BuildDomain domain_error
  | InvalidSetting string string
  | NonLoopbackAddress socket_addr
  | NonPrivateLanAddress socket_addr

text \<open>\<open>IpAddr::is_loopback\<close> of the standard library: 127.0.0.0/8 and ::1.\<close>

fun is_loopback :: "ip_addr \<Rightarrow> bool" where
  "is_loopback (IpV4 a) = (drop_bit 24 a = 127)"
| "is_loopback (IpV6 a) = (a = 1)"

definition positive_settings :: "native_channel_config \<Rightarrow> (string \<times> nat) list" where
  "positive_settings config =
     [(''handshake timeout'', ncc_handshake_timeout config), (''I/O poll interval'', ncc_io_poll_interval config),
      (''Ping interval'', ncc_ping_interval config), (''idle timeout'', ncc_idle_timeout config),
      (''shutdown timeout'', ncc_shutdown_timeout config)]"

definition validate_config :: "native_channel_config \<Rightarrow> (unit, native_channel_build_error) result" where
  "validate_config config =
     (if ncc_loopback config \<and> \<not> is_loopback (fst (ncc_bind_address config))
      then Err (NonLoopbackAddress (ncc_bind_address config))
      else case find (\<lambda>(_, v). v = 0) (positive_settings config) of
        Some (field, _) \<Rightarrow> Err (InvalidSetting field ''must be greater than zero'')
      | None \<Rightarrow>
          if ncc_idle_timeout config \<le> ncc_ping_interval config
          then Err (InvalidSetting ''idle timeout'' ''must be greater than the Ping interval'')
          else if ncc_max_frame_bytes config = 0
          then Err (InvalidSetting ''maximum frame bytes'' ''must be greater than zero'')
          else if ncc_outbound_capacity config < 3
          then Err (InvalidSetting ''outbound capacity'' ''must hold at least three frames'')
          else Ok ())"

text \<open>\<open>build\<close>: descriptor, status and delivery state; \<open>version\<close> is the version of the package.\<close>

definition native_build ::
  "ustring \<Rightarrow> native_channel_config \<Rightarrow> (native_channel_port, native_channel_build_error) result" where
  "native_build version config =
     and_then (validate_config config) (\<lambda>_.
     and_then (map_err BuildDomain (ChannelKind_new (utf ''native''))) (\<lambda>kind.
     and_then (map_err BuildDomain (NonEmptyText_new (utf ''Native Local''))) (\<lambda>name.
     and_then (map_err BuildDomain (NonEmptyText_new version)) (\<lambda>version.
     Ok \<lparr>ncp_descriptor = cd_with_version
            (ChannelDescriptor_new (ncc_channel_id config) kind name native_capabilities) version,
         ncp_state = DeliveryState_new (ncc_outbound_capacity config) native_channel_snapshot_default\<rparr>))))"

section \<open>Sockets and clock\<close>

datatype close_code = ClosePolicy | CloseError | CloseProtocol | CloseAway

datatype socket_action = SendText frame | SendPing | CloseSocket close_code ustring

text \<open>A fresh connection carries the client identity its upgrade authenticated, if any.\<close>

datatype accept_outcome =
    AcceptSocket "ustring option"
  | AcceptNothing
  | AcceptHandshakeError ustring
  | AcceptError ustring

datatype transport_read = ReadText "u8 list" | ReadPong | ReadControl | ReadTimeout | ReadClosed

record transport_round =
  tr_accept :: accept_outcome
  tr_accepted_at :: nat
  tr_authorized :: bool
  tr_send :: "nat \<Rightarrow> (unit, ustring) result"
  tr_now :: nat
  tr_ping :: "(unit, ustring) result"
  tr_read :: "(transport_read, ustring) result"
  tr_read_at :: nat
  tr_connection_id :: ustring

record native_connection =
  nc_authenticated :: "ustring option"
  nc_handshaken :: bool
  nc_accepted_at :: nat
  nc_last_activity :: nat
  nc_last_ping :: nat

section \<open>One pass of the loop\<close>

definition record_error :: "ustring \<Rightarrow> delivery_state \<Rightarrow> delivery_state" where
  "record_error message = map_status (\<lambda>s. s\<lparr>ncs_last_error := Some message\<rparr>)"

text \<open>\<open>send_direct\<close>: the text goes to the socket when it can be encoded; every result is ignored.\<close>

definition send_direct :: "'v native_env \<Rightarrow> native_server_message \<Rightarrow> socket_action list" where
  "send_direct nv message = (case server_text nv message of Ok text \<Rightarrow> [SendText text] | Err _ \<Rightarrow> [])"

record 'p worker_state =
  ws_connection :: "native_connection option"
  ws_shared :: "'p native_shared"
  ws_sent :: "socket_action list"

datatype 'p round_outcome = Continue "'p worker_state" | WorkerFailed ustring "'p worker_state"

definition ws_update ::
  "('v, 'p, 'x) native_worker \<Rightarrow> (delivery_state \<Rightarrow> delivery_state) \<Rightarrow> 'p worker_state \<Rightarrow> 'p worker_state" where
  "ws_update w f ws = ws\<lparr>ws_shared := update_delivery (nw_channel w) f (ws_shared ws)\<rparr>"

definition ws_send :: "socket_action list \<Rightarrow> 'p worker_state \<Rightarrow> 'p worker_state" where
  "ws_send actions ws = ws\<lparr>ws_sent := ws_sent ws @ actions\<rparr>"

text \<open>Every way a connection ends: the optional diagnostic, then \<open>disconnect\<close>.\<close>

definition drop_connection ::
  "('v, 'p, 'x) native_worker \<Rightarrow> ustring option \<Rightarrow> socket_action list \<Rightarrow> 'p worker_state
     \<Rightarrow> 'p worker_state option" where
  "drop_connection w diagnostic actions ws =
     (let ws1 = ws_send actions (case diagnostic of
            Some message \<Rightarrow> ws_update w (record_error message) ws | None \<Rightarrow> ws)
      in Option.bind (disconnect w (ws_shared ws1)) (\<lambda>sh.
         Some (ws1\<lparr>ws_shared := sh, ws_connection := None\<rparr>)))"

definition accept_round ::
  "('v, 'p, 'x) native_worker \<Rightarrow> transport_round \<Rightarrow> 'p worker_state \<Rightarrow> 'p round_outcome option" where
  "accept_round w tr ws =
     (case tr_accept tr of
        AcceptSocket authenticated \<Rightarrow> Some (Continue
          (if ws_connection ws \<noteq> None
           then ws_send (send_direct (nw_env w) (ServerError None CodeConnectionBusy
                  (utf ''another Native client is already connected'') False)
                @ [CloseSocket ClosePolicy (utf ''Native Channel is busy'')]) ws
           else ws\<lparr>ws_connection := Some \<lparr>nc_authenticated = authenticated, nc_handshaken = False,
                  nc_accepted_at = tr_accepted_at tr, nc_last_activity = tr_accepted_at tr,
                  nc_last_ping = tr_accepted_at tr\<rparr>\<rparr>))
      | AcceptNothing \<Rightarrow> Some (Continue ws)
      | AcceptHandshakeError diagnostic \<Rightarrow> Some (Continue (ws_update w (record_error diagnostic) ws))
      | AcceptError diagnostic \<Rightarrow>
          map_option (\<lambda>ws1. WorkerFailed diagnostic (ws_update w
              (map_status (\<lambda>s. s\<lparr>ncs_health := HealthFailed, ncs_local_address := None, ncs_client_id := None\<rparr>)) ws1))
            (drop_connection w (Some diagnostic)
               (if ws_connection ws \<noteq> None then [CloseSocket CloseError (utf ''Native listener failed'')] else []) ws))"

text \<open>The loop that drains the queue into the socket: the frames written, those left, and the error of
  the write that failed, whose frame is lost.\<close>

fun send_frames ::
  "(nat \<Rightarrow> (unit, ustring) result) \<Rightarrow> nat \<Rightarrow> frame list \<Rightarrow> frame list \<times> frame list \<times> ustring option" where
  "send_frames send n [] = ([], [], None)"
| "send_frames send n (frame # frames) =
     (case send n of
        Err e \<Rightarrow> ([], frames, Some e)
      | Ok _ \<Rightarrow> (case send_frames send (Suc n) frames of (sent, left, e) \<Rightarrow> (frame # sent, left, e)))"

definition drain_round ::
  "('v, 'p, 'x) native_worker \<Rightarrow> transport_round \<Rightarrow> 'p worker_state \<Rightarrow> 'p worker_state option" where
  "drain_round w tr ws =
     (case send_frames (tr_send tr) 0 (ds_outgoing (delivery_of (nw_channel w) (ws_shared ws))) of
        (sent, left, failure) \<Rightarrow>
          let ws1 = ws_send (map SendText sent) (ws_update w (\<lambda>ds.
                map_status (\<lambda>s. s\<lparr>ncs_frames_sent := ncs_frames_sent s + of_nat (length sent)\<rparr>)
                  (ds\<lparr>ds_outgoing := left\<rparr>)) ws)
          in (case failure of
                Some e \<Rightarrow> drop_connection w (Some e) [] ws1
              | None \<Rightarrow> Some ws1))"

text \<open>A message of the client, and what its result does to the connection.\<close>

definition process_message ::
  "('v, 'p, 'x) native_worker \<Rightarrow> native_channel_config \<Rightarrow> channel_descriptor \<Rightarrow> ustring \<Rightarrow> native_connection
     \<Rightarrow> native_client_message \<Rightarrow> 'p native_shared
     \<Rightarrow> ((unit, connection_failure) result \<times> 'p native_shared) option" where
  "process_message w config descriptor connection_id conn message sh =
     (if nc_handshaken conn then process_ready_message w message sh
      else Some (on_delivery (nw_channel w)
        (process_hello (nw_env w) message (nc_authenticated conn) descriptor config connection_id) sh))"

definition finish_message ::
  "('v, 'p, 'x) native_worker \<Rightarrow> native_connection \<Rightarrow> (unit, connection_failure) result \<Rightarrow> 'p worker_state
     \<Rightarrow> 'p worker_state option" where
  "finish_message w conn r ws =
     (case r of
        Ok _ \<Rightarrow> Some (ws\<lparr>ws_connection := Some (conn\<lparr>nc_handshaken := True\<rparr>)\<rparr>)
      | Err (Recoverable message) \<Rightarrow>
          (case on_delivery (nw_channel w) (enqueue_control (nw_env w) message) (ws_shared ws) of
             (sent, sh) \<Rightarrow>
               let ws1 = ws\<lparr>ws_shared := sh\<rparr>
               in Some (case sent of
                     Err e \<Rightarrow> ws_update w (record_error (nw_protocol_text w e)) ws1
                   | Ok _ \<Rightarrow> ws1))
      | Err (Fatal e) \<Rightarrow>
          let diagnostic = nw_protocol_text w e
          in drop_connection w (Some diagnostic)
               (send_direct (nw_env w) (ServerError None CodeInvalidHandshake diagnostic False)
                @ [CloseSocket ClosePolicy diagnostic]) ws)"

definition read_round ::
  "('v, 'p, 'x) native_worker \<Rightarrow> native_channel_config \<Rightarrow> channel_descriptor \<Rightarrow> transport_round
     \<Rightarrow> native_connection \<Rightarrow> 'p worker_state \<Rightarrow> 'p worker_state option" where
  "read_round w config descriptor tr conn ws =
     (let active = conn\<lparr>nc_last_activity := tr_read_at tr\<rparr> in
      case tr_read tr of
        Ok (ReadText text) \<Rightarrow>
          let ws1 = ws_update w (map_status (\<lambda>s. s\<lparr>ncs_frames_received := ncs_frames_received s + 1\<rparr>))
                (ws\<lparr>ws_connection := Some active\<rparr>)
          in (case decode_client_message (nw_env w) text of
                Err e \<Rightarrow>
                  let diagnostic = nw_protocol_text w e
                  in drop_connection w (Some diagnostic)
                       (send_direct (nw_env w) (ServerError None CodeInvalidRequest diagnostic False)
                        @ [CloseSocket CloseProtocol diagnostic]) ws1
              | Ok message \<Rightarrow>
                  Option.bind (process_message w config descriptor (tr_connection_id tr) active message (ws_shared ws1))
                    (\<lambda>(r, sh). finish_message w active r (ws1\<lparr>ws_shared := sh\<rparr>)))
      | Ok ReadPong \<Rightarrow> Some (ws\<lparr>ws_connection := Some active\<rparr>)
      | Ok ReadControl \<Rightarrow> Some (ws\<lparr>ws_connection := Some active\<rparr>)
      | Ok ReadTimeout \<Rightarrow> Some ws
      | Ok ReadClosed \<Rightarrow> drop_connection w None [] ws
      | Err e \<Rightarrow> drop_connection w (Some e) [CloseSocket CloseProtocol e] ws)"

text \<open>The timers and the read, once the queue is drained.\<close>

definition timed_round ::
  "('v, 'p, 'x) native_worker \<Rightarrow> native_channel_config \<Rightarrow> channel_descriptor \<Rightarrow> transport_round
     \<Rightarrow> native_connection \<Rightarrow> 'p worker_state \<Rightarrow> 'p worker_state option" where
  "timed_round w config descriptor tr conn ws =
     (if \<not> nc_handshaken conn \<and> tr_now tr - nc_accepted_at conn \<ge> ncc_handshake_timeout config
      then drop_connection w None
        (send_direct (nw_env w) (ServerError None CodeInvalidHandshake (utf ''client hello timed out'') False)
         @ [CloseSocket ClosePolicy (utf ''client hello timed out'')]) ws
      else if tr_now tr - nc_last_activity conn \<ge> ncc_idle_timeout config
      then drop_connection w None [CloseSocket CloseAway (utf ''Native client timed out'')] ws
      else if nc_handshaken conn \<and> tr_now tr - nc_last_ping conn \<ge> ncc_ping_interval config
      then (case tr_ping tr of
              Err e \<Rightarrow> drop_connection w (Some e) [] ws
            | Ok _ \<Rightarrow>
                let conn1 = conn\<lparr>nc_last_ping := tr_now tr\<rparr>
                in read_round w config descriptor tr conn1 (ws_send [SendPing] (ws\<lparr>ws_connection := Some conn1\<rparr>)))
      else read_round w config descriptor tr conn ws)"

definition serve_round ::
  "('v, 'p, 'x) native_worker \<Rightarrow> native_channel_config \<Rightarrow> channel_descriptor \<Rightarrow> transport_round
     \<Rightarrow> 'p worker_state \<Rightarrow> 'p worker_state option" where
  "serve_round w config descriptor tr ws =
     (case ws_connection ws of
        None \<Rightarrow> Some ws
      | Some conn \<Rightarrow>
          if \<not> tr_authorized tr
          then drop_connection w (Some (utf ''Native device credential was revoked''))
            [CloseSocket ClosePolicy (utf ''Native device credential was revoked'')] ws
          else case ds_abort_reason (delivery_of (nw_channel w) (ws_shared ws)) of
            Some reason \<Rightarrow> drop_connection w (Some reason) [CloseSocket CloseError reason] ws
          | None \<Rightarrow>
              Option.bind (drain_round w tr ws) (\<lambda>ws1.
              case ws_connection ws1 of
                None \<Rightarrow> Some ws1
              | Some _ \<Rightarrow> timed_round w config descriptor tr conn ws1))"

definition worker_round ::
  "('v, 'p, 'x) native_worker \<Rightarrow> native_channel_config \<Rightarrow> channel_descriptor \<Rightarrow> transport_round
     \<Rightarrow> 'p worker_state \<Rightarrow> 'p round_outcome option" where
  "worker_round w config descriptor tr ws =
     Option.bind (accept_round w tr ws) (\<lambda>r.
     case r of
       WorkerFailed diagnostic ws1 \<Rightarrow> Some (WorkerFailed diagnostic ws1)
     | Continue ws1 \<Rightarrow> map_option Continue (serve_round w config descriptor tr ws1))"

text \<open>The whole loop: one round per answer of the environment until the stop flag is seen, which is
  the end of the list, or the listener fails; then the connection is closed and left.\<close>

fun run_worker ::
  "('v, 'p, 'x) native_worker \<Rightarrow> native_channel_config \<Rightarrow> channel_descriptor \<Rightarrow> transport_round list
     \<Rightarrow> 'p worker_state \<Rightarrow> ((unit, ustring) result \<times> 'p worker_state) option" where
  "run_worker w config descriptor [] ws =
     Option.bind (drop_connection w None
         (if ws_connection ws \<noteq> None then [CloseSocket CloseAway (utf ''Native Channel stopped'')] else []) ws)
       (\<lambda>ws1. Some (Ok (), ws1))"
| "run_worker w config descriptor (tr # rounds) ws =
     Option.bind (worker_round w config descriptor tr ws) (\<lambda>r.
     case r of
       WorkerFailed diagnostic ws1 \<Rightarrow> Some (Err diagnostic, ws1)
     | Continue ws1 \<Rightarrow> run_worker w config descriptor rounds ws1)"

section \<open>The Source\<close>

datatype native_channel_source_error =
    AlreadyRunning
  | SourceBuild native_channel_build_error
  | SourceTransport ustring
  | WorkerSpawn ustring
  | SourceWorkerFailed ustring
  | ShutdownTimeout
  | WorkerPanicked

text \<open>The worker thread as its owner can observe it through the completion channel and the join
  handle. A thread that panics drops the channel without sending.\<close>

datatype worker_thread = ThreadRunning | ThreadFinished "(unit, ustring) result" | ThreadPanicked

record native_channel_source =
  nso_config :: native_channel_config
  nso_status :: native_channel_snapshot
  nso_worker :: "worker_thread option"

definition recv_completion :: "worker_thread \<Rightarrow> (unit, ustring) result option" where
  "recv_completion thread = (case thread of ThreadFinished r \<Rightarrow> Some r | _ \<Rightarrow> None)"

definition join_worker :: "worker_thread \<Rightarrow> bool" where
  "join_worker thread \<longleftrightarrow> thread \<noteq> ThreadPanicked"

text \<open>\<open>start\<close> with the answers of the listener and of the thread builder.\<close>

definition native_source_start ::
  "(socket_addr, native_channel_source_error) result \<Rightarrow> (unit, ustring) result \<Rightarrow> native_channel_source
     \<Rightarrow> (unit, native_channel_source_error) result \<times> native_channel_source" where
  "native_source_start bound spawned source =
     (if nso_worker source \<noteq> None then (Err AlreadyRunning, source)
      else case and_then (map_err SourceBuild (validate_config (nso_config source))) (\<lambda>_. bound) of
        Err e \<Rightarrow> (Err e, source)
      | Ok address \<Rightarrow>
          let listening = (nso_status source)\<lparr>ncs_health := HealthListening, ncs_local_address := Some address,
                 ncs_client_id := None, ncs_last_error := None\<rparr>
          in (case spawned of
                Err e \<Rightarrow> (Err (WorkerSpawn e), source\<lparr>nso_status := listening\<lparr>ncs_health := HealthFailed,
                   ncs_local_address := None, ncs_last_error := Some e\<rparr>\<rparr>)
              | Ok _ \<Rightarrow> (Ok (), source\<lparr>nso_status := listening, nso_worker := Some ThreadRunning\<rparr>)))"

text \<open>\<open>stop_worker\<close>; the thread is as it is found when the shutdown deadline is reached.\<close>

definition native_source_stop ::
  "native_channel_source \<Rightarrow> (unit, native_channel_source_error) result \<times> native_channel_source" where
  "native_source_stop source =
     (case nso_worker source of
        None \<Rightarrow> (Ok (), source\<lparr>nso_status := (nso_status source)\<lparr>ncs_health := HealthStopped,
                  ncs_local_address := None, ncs_client_id := None\<rparr>\<rparr>)
      | Some thread \<Rightarrow>
          (case recv_completion thread of
             None \<Rightarrow> (Err ShutdownTimeout, source)
           | Some completed \<Rightarrow>
               if \<not> join_worker thread then (Err WorkerPanicked, source)
               else
                 let status = (nso_status source)\<lparr>ncs_local_address := None, ncs_client_id := None\<rparr>;
                     left = source\<lparr>nso_worker := None\<rparr>
                 in (case completed of
                       Ok _ \<Rightarrow> (Ok (), left\<lparr>nso_status := status\<lparr>ncs_health := HealthStopped\<rparr>\<rparr>)
                     | Err message \<Rightarrow> (Err (SourceWorkerFailed message),
                         left\<lparr>nso_status := status\<lparr>ncs_health := HealthFailed\<rparr>\<rparr>))))"

end
