(* ===== verification/Native_Roundtrip.thy ===== *)
theory Native_Roundtrip
  imports Native_Codec
begin

text \<open>
  Client and server frames interpret the locale \<open>codec\<close> of the wire protocol: a valid message
  survives its frame, and whatever a frame decodes to is valid.
\<close>

section \<open>Scalars\<close>

lemma validate_uuid_v7_Ok_iff [result_simps]:
  "validate_uuid_v7 nv field s = Ok u \<longleftrightarrow>
     (\<exists>i. we_uuid_parse (nv_wire nv) s = Some i \<and> v7 (nv_wire nv) i \<and> we_uuid_show (nv_wire nv) i = s)"
  by (auto simp: validate_uuid_v7_def result_simps v7_def native_invalid_def)

lemma validate_nonblank_Ok_iff [result_simps]:
  "validate_nonblank field s = Ok u \<longleftrightarrow> trim_text s \<noteq> []"
  by (simp add: validate_nonblank_def native_invalid_def)

lemma native_parse_session_id_Ok_iff [result_simps]:
  "native_parse_session_id nv s = Ok sid \<longleftrightarrow>
     (\<exists>u. we_uuid_parse (nv_wire nv) s = Some u \<and> v7 (nv_wire nv) u \<and> sid = SessionId u)"
  by (auto simp: native_parse_session_id_def result_simps v7_def)

definition v7_session :: "'v native_env \<Rightarrow> session_id \<Rightarrow> bool" where
  "v7_session nv sid \<longleftrightarrow> v7 (nv_wire nv) (session_uuid sid)"

lemma parse_show_session:
  "wire_laws (nv_wire nv) \<Longrightarrow> v7_session nv sid \<Longrightarrow> native_parse_session_id nv (show_session_id nv sid) = Ok sid"
  by (simp add: native_parse_session_id_Ok_iff show_session_id_def wire_laws_def v7_session_def)

lemma parse_session_v7: "native_parse_session_id nv s = Ok sid \<Longrightarrow> v7_session nv sid"
  by (auto simp: native_parse_session_id_Ok_iff v7_session_def)

lemma parse_u64_decimal: "parse_u64 (decimal (unat n)) = Some n"
proof -
  have "is_ascii_digit (hd (decimal (unat n)))"
    using decimal_digits [of "unat n"] decimal_nonempty [of "unat n"] hd_in_set by blast
  then have "hd (decimal (unat n)) \<noteq> 43" by (auto simp: is_ascii_digit_def)
  then have digits: "(case decimal (unat n) of c # rest \<Rightarrow> if c = 43 then rest else decimal (unat n) | [] \<Rightarrow> [])
      = decimal (unat n)"
    by (cases "decimal (unat n)") simp_all
  have "unat n < 2 ^ 64" using unsigned_less [of n, where 'a = nat] by simp
  then show ?thesis
    unfolding parse_u64_def digits Let_def using decimal_digits [of "unat n"] by (simp add: list_all_iff)
qed

lemma parse_sequence_decimal: "n \<noteq> 0 \<Longrightarrow> parse_sequence nv (decimal (unat n)) = Ok n"
  using canonical_decimal_decimal [of "unat n"]
  by (auto simp: parse_sequence_def canonical_decimal_def list_all_iff parse_u64_decimal EventSequence_new_def
      result_simps)

lemma parse_sequence_pos: "parse_sequence nv s = Ok n \<Longrightarrow> n \<noteq> 0"
  by (auto simp: parse_sequence_def native_invalid_def EventSequence_new_def result_simps split: if_splits)

section \<open>Cursors\<close>

definition cursors_ok :: "'v native_env \<Rightarrow> (session_id, u64) btree_map \<Rightarrow> bool" where
  "cursors_ok nv m \<longleftrightarrow> (\<forall>sid n. bt_get m sid = Some n \<longrightarrow> v7_session nv sid \<and> n \<noteq> 0)"

lemma insert_cursors_round:
  assumes "wire_laws (nv_wire nv)" and "distinct (map fst es)"
    and "\<forall>e\<in>set es. v7_session nv (fst e) \<and> snd e \<noteq> 0 \<and> bt_get acc (fst e) = None"
  shows "\<exists>m. insert_session_cursors nv acc (map (cursor_dto nv) es) = Ok m
    \<and> (\<forall>sid. bt_get m sid = (case map_of es sid of Some n \<Rightarrow> Some n | None \<Rightarrow> bt_get acc sid))"
  using assms(2,3)
proof (induction es arbitrary: acc)
  case (Cons e es)
  let ?acc = "bt_insert (fst e) (snd e) acc"
  have "fst e' \<noteq> fst e" if "e' \<in> set es" for e'
    using Cons.prems(1) that by (metis distinct.simps(2) image_eqI list.set_map list.simps(9))
  then have "\<forall>e\<in>set es. v7_session nv (fst e) \<and> snd e \<noteq> 0 \<and> bt_get ?acc (fst e) = None"
    using Cons.prems(2) by simp
  with Cons.IH [of ?acc] Cons.prems obtain m where m: "insert_session_cursors nv ?acc (map (cursor_dto nv) es) = Ok m"
    "\<forall>sid. bt_get m sid = (case map_of es sid of Some n \<Rightarrow> Some n | None \<Rightarrow> bt_get ?acc sid)" by auto
  moreover have "map_of es (fst e) = None" using Cons.prems by (simp add: map_of_eq_None_iff)
  ultimately have "bt_get m sid = (case map_of (e # es) sid of Some n \<Rightarrow> Some n | None \<Rightarrow> bt_get acc sid)" for sid
    by (cases e) (auto split: option.splits)
  moreover have "insert_session_cursors nv acc (map (cursor_dto nv) (e # es)) = Ok m"
    using m(1) Cons.prems by (simp add: cursor_dto_def [of _ e] parse_show_session [OF assms(1)] parse_u64_decimal)
  ultimately show ?case by blast
qed simp

lemma parse_session_cursors_round:
  assumes "wire_laws (nv_wire nv)" and "cursors_ok nv m"
  shows "parse_session_cursors nv (map (cursor_dto nv) (bt_entries m)) = Ok m"
proof -
  have get: "bt_get m sid = map_of (bt_entries m) sid" for sid by (rule bt.get_map_of)
  have "\<forall>e\<in>set (bt_entries m). v7_session nv (fst e) \<and> snd e \<noteq> 0 \<and> bt_get bt_empty (fst e) = (None :: u64 option)"
    using assms(2) bt.keys_distinct [of m] by (auto simp: cursors_ok_def get)
  then obtain m' where "parse_session_cursors nv (map (cursor_dto nv) (bt_entries m)) = Ok m'"
    "\<forall>sid. bt_get m' sid = (case map_of (bt_entries m) sid of Some n \<Rightarrow> Some n | None \<Rightarrow> bt_get bt_empty sid)"
    using insert_cursors_round [OF assms(1) bt.keys_distinct [of m], of bt_empty]
    unfolding parse_session_cursors_def by blast
  moreover from this have "m' = m" by (intro bt_ext) (auto simp: get split: option.splits)
  ultimately show ?thesis by simp
qed

lemma insert_cursors_sound:
  "insert_session_cursors nv acc cs = Ok m \<Longrightarrow> cursors_ok nv acc \<Longrightarrow> cursors_ok nv m"
proof (induction cs arbitrary: acc)
  case (Cons c cs)
  then obtain sid n where "native_parse_session_id nv (scd_session_id c) = Ok sid" "n \<noteq> 0"
    "insert_session_cursors nv (bt_insert sid n acc) cs = Ok m"
    by (auto simp: and_then_Ok_iff ok_or_Ok_iff native_invalid_def split: if_splits)
  moreover from this Cons.prems(2) parse_session_v7 have "cursors_ok nv (bt_insert sid n acc)"
    by (auto simp: cursors_ok_def)
  ultimately show ?case using Cons.IH by blast
qed simp

lemma parse_cursors_sound: "parse_session_cursors nv cs = Ok m \<Longrightarrow> cursors_ok nv m"
  unfolding parse_session_cursors_def by (erule insert_cursors_sound) (simp add: cursors_ok_def)

section \<open>Nested domain messages\<close>

lemma domain_value_round:
  assumes "native_laws nv" and "wire_message (nv_wire nv) m" and "encode_domain_value nv m = Ok v"
  shows "decode_domain_value nv v = Ok m"
proof -
  obtain bytes e where enc: "encode_json (nv_wire nv) (nv_json nv) m = Ok bytes"
    "js_to_vec (nv_json nv) e = Ok bytes" "js_from_slice (nv_json nv) bytes = Ok v"
    using assms(3) by (auto simp: encode_domain_value_def encode_json_def result_simps)
  moreover obtain bytes' where "nv_value_to_vec nv v = Ok bytes'" "js_from_slice (nv_json nv) bytes' = Ok v"
    using assms(1) enc(2,3) unfolding native_laws_def by blast
  moreover have "decode_json (nv_wire nv) (nv_json nv) bytes = Ok m"
    using json_wire.round [OF _ assms(2) enc(1)] assms(1) by (simp add: native_laws_def)
  ultimately show ?thesis by (simp add: decode_domain_value_def decode_json_def)
qed

lemma domain_value_sound: "decode_domain_value nv v = Ok m \<Longrightarrow> wire_message (nv_wire nv) m"
  by (auto simp: decode_domain_value_def result_simps intro: json_wire.sound)

text \<open>The \<open>let ... else\<close> of the conversions.\<close>

lemma expected_domain:
  "(case m of InteractionResponseMessage r \<Rightarrow> Ok (f r) | _ \<Rightarrow> Err e) = Ok y \<longleftrightarrow> (\<exists>r. m = InteractionResponseMessage r \<and> y = f r)"
  "(case m of AgentCommandMessage c \<Rightarrow> Ok (g c) | _ \<Rightarrow> Err e) = Ok y \<longleftrightarrow> (\<exists>c. m = AgentCommandMessage c \<and> y = g c)"
  "(case m of ChannelDescriptorMessage d \<Rightarrow> Ok (h d) | _ \<Rightarrow> Err e) = Ok y \<longleftrightarrow> (\<exists>d. m = ChannelDescriptorMessage d \<and> y = h d)"
  by (cases m; auto)+

section \<open>Messages\<close>

fun client_payload_ok :: "'v native_env \<Rightarrow> native_client_message \<Rightarrow> bool" where
  "client_payload_ok nv (ClientHello h) = cursors_ok nv (nch_session_cursors h)"
| "client_payload_ok nv (ClientDiscover _) = True"
| "client_payload_ok nv (ClientSubscribe _ sid) = v7_session nv sid"
| "client_payload_ok nv (ClientUnsubscribe _ sid) = v7_session nv sid"
| "client_payload_ok nv (ClientInteractionResponse _ r) = wire_message (nv_wire nv) (InteractionResponseMessage r)"
| "client_payload_ok nv (ClientCommand _ c) = wire_message (nv_wire nv) (AgentCommandMessage c)"

definition native_client_valid :: "'v native_env \<Rightarrow> native_client_message \<Rightarrow> bool" where
  "native_client_valid nv m \<longleftrightarrow> client_payload_ok nv m \<and> validate_client_message nv m = Ok ()"

fun delivery_context_ok :: "native_delivery_context \<Rightarrow> bool" where
  "delivery_context_ok (DiscoverySession _ n) = (n \<noteq> 0)"
| "delivery_context_ok _ = True"

fun server_payload_ok :: "'v native_env \<Rightarrow> native_server_message \<Rightarrow> bool" where
  "server_payload_ok nv (ServerHello h) = wire_message (nv_wire nv) (ChannelDescriptorMessage (nsh_channel h))"
| "server_payload_ok nv (ServerDomain ctx m) = (delivery_context_ok ctx \<and> wire_message (nv_wire nv) m)"
| "server_payload_ok nv (ServerSubscriptionResult r) =
     (v7_session nv (nsr_session_id r) \<and> nsr_baseline_sequence r \<noteq> 0)"
| "server_payload_ok nv (ServerUnsubscriptionResult _ sid _) = v7_session nv sid"
| "server_payload_ok nv (ServerInteractionResponseResult _ sid _) = v7_session nv sid"
| "server_payload_ok nv (ServerCommandResult _ sid _) = v7_session nv sid"
| "server_payload_ok nv _ = True"

definition native_server_valid :: "'v native_env \<Rightarrow> native_server_message \<Rightarrow> bool" where
  "native_server_valid nv m \<longleftrightarrow> server_payload_ok nv m \<and> validate_server_message nv m = Ok ()"

lemma client_round:
  assumes "native_laws nv" and "client_payload_ok nv m" and "client_from_semantic nv m = Ok d"
  shows "client_into_semantic nv d = Ok m"
  using assms parse_show_session [of nv] parse_session_cursors_round [of nv] domain_value_round [OF assms(1)]
  by (cases m) (auto simp: and_then_Ok_iff native_laws_def simp del: wire_message.simps)

lemma client_sound: "client_into_semantic nv d = Ok m \<Longrightarrow> client_payload_ok nv m"
  by (cases d) (auto simp: and_then_Ok_iff expected_domain
      dest!: parse_cursors_sound parse_session_v7 domain_value_sound)

lemma context_round:
  "delivery_context_ok ctx \<Longrightarrow> delivery_context_into_semantic nv (delivery_context_from_semantic ctx) = Ok ctx"
proof (cases ctx)
  case (SubscriptionInteraction rid route)
  then show ?thesis by (cases route) simp_all
next
  case (LiveEvent route)
  then show ?thesis by (cases route) simp_all
qed (simp_all add: parse_sequence_decimal)

lemma context_sound: "delivery_context_into_semantic nv d = Ok ctx \<Longrightarrow> delivery_context_ok ctx"
  by (cases d) (auto simp: and_then_Ok_iff dest: parse_sequence_pos)

lemma enum_dto_round [simp]:
  "subscription_status_from_dto (subscription_status_into_dto s) = s"
  "unsubscription_status_from_dto (unsubscription_status_into_dto u) = u"
  "error_code_from_dto (error_code_into_dto c) = c"
  subgoal by (cases s) simp_all
  subgoal by (cases u) simp_all
  subgoal by (cases c) simp_all
  done

lemma server_round:
  assumes "native_laws nv" and "server_payload_ok nv m" and "server_from_semantic nv m = Ok d"
  shows "server_into_semantic nv d = Ok m"
  using assms parse_show_session [of nv] domain_value_round [OF assms(1)]
  by (cases m) (auto simp: and_then_Ok_iff native_laws_def context_round parse_sequence_decimal
      simp del: wire_message.simps)

lemma server_sound: "server_into_semantic nv d = Ok m \<Longrightarrow> server_payload_ok nv m"
  by (cases d) (auto simp: and_then_Ok_iff expected_domain
      dest!: parse_session_v7 domain_value_sound context_sound parse_sequence_pos)

section \<open>Frames\<close>

lemma frame_round:
  assumes "writes_back (nv_transport_version nv) (js_from_slice (nv_json nv)) to_vec from_value"
    and "native_encode_envelope to_vec d = Ok bytes"
  shows "\<exists>e. native_decode_envelope nv from_value bytes = Ok e \<and> nev_message e = d"
proof -
  let ?e = "\<lparr>nev_native_transport_version = NATIVE_TRANSPORT_VERSION, nev_message = d\<rparr>"
  have "to_vec ?e = Ok bytes" using assms(2) by (simp add: native_encode_envelope_def result_simps)
  with assms(1) obtain v where "js_from_slice (nv_json nv) bytes = Ok v"
    "nv_transport_version nv v = Some (ucast (nev_native_transport_version ?e))" "from_value v = Ok ?e"
    unfolding writes_back_def by blast
  then show ?thesis by (simp add: native_decode_envelope_def)
qed

interpretation client_frame: codec "native_laws nv" "encode_client_message nv" "decode_client_message nv"
  "native_client_valid nv" for nv
proof unfold_locales
  fix m bytes
  assume laws: "native_laws nv" and valid: "native_client_valid nv m" and enc: "encode_client_message nv m = Ok bytes"
  then obtain d where d: "client_from_semantic nv m = Ok d"
    "native_encode_envelope (nv_client_to_vec nv) d = Ok bytes"
    by (auto simp: encode_client_message_def and_then_Ok_iff)
  from frame_round [OF _ d(2)] laws
  obtain e where "native_decode_envelope nv (nv_client_from_value nv) bytes = Ok e" "nev_message e = d"
    by (auto simp: native_laws_def)
  with client_round [OF laws _ d(1)] valid show "decode_client_message nv bytes = Ok m"
    by (simp add: decode_client_message_def native_client_valid_def)
next
  fix m bytes
  assume "decode_client_message nv bytes = Ok m"
  then show "native_client_valid nv m"
    by (auto simp: decode_client_message_def native_client_valid_def and_then_Ok_iff client_sound)
qed

interpretation server_frame: codec "native_laws nv" "encode_server_message nv" "decode_server_message nv"
  "native_server_valid nv" for nv
proof unfold_locales
  fix m bytes
  assume laws: "native_laws nv" and valid: "native_server_valid nv m" and enc: "encode_server_message nv m = Ok bytes"
  then obtain d where d: "server_from_semantic nv m = Ok d"
    "native_encode_envelope (nv_server_to_vec nv) d = Ok bytes"
    by (auto simp: encode_server_message_def and_then_Ok_iff)
  from frame_round [OF _ d(2)] laws
  obtain e where "native_decode_envelope nv (nv_server_from_value nv) bytes = Ok e" "nev_message e = d"
    by (auto simp: native_laws_def)
  with server_round [OF laws _ d(1)] valid show "decode_server_message nv bytes = Ok m"
    by (simp add: decode_server_message_def native_server_valid_def)
next
  fix m bytes
  assume "decode_server_message nv bytes = Ok m"
  then show "native_server_valid nv m"
    by (auto simp: decode_server_message_def native_server_valid_def and_then_Ok_iff server_sound)
qed

lemma encoded_client_checked: "encode_client_message nv m = Ok bytes \<Longrightarrow> validate_client_message nv m = Ok ()"
  by (auto simp: encode_client_message_def and_then_Ok_iff)

lemma encoded_server_checked: "encode_server_message nv m = Ok bytes \<Longrightarrow> validate_server_message nv m = Ok ()"
  by (auto simp: encode_server_message_def and_then_Ok_iff)

end
