(* ===== verification/Native_Invariant.thy ===== *)
theory Native_Invariant
  imports Native_Worker Native_Roundtrip Runtime_Properties
begin

text \<open>
  What the Bridge and the worker do to the delivery state of a Native Channel. \<open>port_steps\<close> is the
  contract between the Bridge and a Channel Port: the Bridge changes the state of a Port only by
  calling its methods, so every relation that all methods keep is kept by every Bridge operation.
  The Native Port interprets it with \<open>port_grows\<close>: deliveries append to bounded queues and touch
  nothing else of the connection.
\<close>

section \<open>What a delivery changes\<close>

definition delivery_bounded :: "delivery_state \<Rightarrow> bool" where
  "delivery_bounded ds \<longleftrightarrow> queued_len ds \<le> ds_capacity ds \<and> ds_capacity ds < usize_max"

fun client_kept :: "active_client option \<Rightarrow> active_client option \<Rightarrow> bool" where
  "client_kept None None = True"
| "client_kept (Some c) (Some c') = (ac_discovered c' = ac_discovered c
     \<and> ac_subscriptions c' = ac_subscriptions c \<and> ac_session_cursors c' = ac_session_cursors c
     \<and> (ac_pending c' = None \<longleftrightarrow> ac_pending c = None))"
| "client_kept _ _ = False"

definition delivery_grows :: "delivery_state \<Rightarrow> delivery_state \<Rightarrow> bool" where
  "delivery_grows ds ds' \<longleftrightarrow> client_kept (ds_client ds) (ds_client ds') \<and> ds_capacity ds' = ds_capacity ds
     \<and> (delivery_bounded ds \<longrightarrow> delivery_bounded ds') \<and> (\<exists>frames. ds_outgoing ds' = ds_outgoing ds @ frames)"

definition port_grows :: "native_channel_port \<Rightarrow> native_channel_port \<Rightarrow> bool" where
  "port_grows port port' \<longleftrightarrow> ncp_descriptor port' = ncp_descriptor port
     \<and> delivery_grows (ncp_state port) (ncp_state port')
     \<and> (ds_client (ncp_state port) = None \<longrightarrow> ncp_state port' = ncp_state port)"

lemma client_kept_refl [simp]: "client_kept c c"
  by (cases c) simp_all

lemma client_kept_trans: "client_kept a b \<Longrightarrow> client_kept b c \<Longrightarrow> client_kept a c"
  by (cases a; cases b; cases c) simp_all

lemma client_kept_None: "client_kept a b \<Longrightarrow> b = None \<longleftrightarrow> a = None"
  by (cases a; cases b) simp_all

lemma delivery_grows_refl [simp]: "delivery_grows ds ds"
  by (simp add: delivery_grows_def)

lemma delivery_grows_trans: "delivery_grows a b \<Longrightarrow> delivery_grows b c \<Longrightarrow> delivery_grows a c"
  by (auto simp: delivery_grows_def intro: client_kept_trans)

lemma delivery_fields [simp]:
  "ds_client (abort_queue ds) = ds_client ds" "ds_outgoing (abort_queue ds) = ds_outgoing ds"
  "ds_capacity (abort_queue ds) = ds_capacity ds" "queued_len (abort_queue ds) = queued_len ds"
  "ds_abort_reason (map_status f ds) = ds_abort_reason ds"
  "ds_client (map_status f ds) = ds_client ds" "ds_outgoing (map_status f ds) = ds_outgoing ds"
  "ds_capacity (map_status f ds) = ds_capacity ds" "queued_len (map_status f ds) = queued_len ds"
  "ds_client (count_domain_frames n ds) = ds_client ds" "ds_outgoing (count_domain_frames n ds) = ds_outgoing ds"
  "ds_capacity (count_domain_frames n ds) = ds_capacity ds" "queued_len (count_domain_frames n ds) = queued_len ds"
  "ds_outgoing (map_client g ds) = ds_outgoing ds" "ds_capacity (map_client g ds) = ds_capacity ds"
  "ds_client (map_client g ds) = map_option g (ds_client ds)"
  "ds_outgoing (set_pending p ds) = ds_outgoing ds" "ds_capacity (set_pending p ds) = ds_capacity ds"
  "ds_client (set_pending p ds) = map_option (\<lambda>c. c\<lparr>ac_pending := p\<rparr>) (ds_client ds)"
  by (simp_all add: abort_queue_def map_status_def count_domain_frames_def map_client_def set_pending_def
      queued_len_def ds_pending_def)

lemma grows_enqueue: "delivery_grows ds (snd (enqueue frame ds))"
  by (auto simp: delivery_grows_def delivery_bounded_def enqueue_def queued_len_def ds_pending_def)

lemma saturating_fits: "a < usize_max \<Longrightarrow> \<not> a < saturating_add m n \<Longrightarrow> m + n \<le> a"
  by (auto simp: saturating_add_def min_def split: if_splits)

lemma grows_enqueue_batch: "delivery_grows ds (snd (enqueue_batch frames ds))"
  using saturating_fits [of "ds_capacity ds" "queued_len ds" "length frames"]
  by (auto simp: delivery_grows_def delivery_bounded_def enqueue_batch_def queued_len_def ds_pending_def)

lemma queued_len_pending:
  "ds_client ds \<noteq> None \<Longrightarrow> queued_len (set_pending (Some p) ds) =
     length (ds_outgoing ds) + length (ps_frames p) + length (ps_trailing_frames p)"
  by (auto simp: queued_len_def ds_pending_def)

lemma ds_pendingD: "ds_pending ds = Some p \<Longrightarrow> \<exists>c. ds_client ds = Some c \<and> ac_pending c = Some p"
  by (cases "ds_client ds") (simp_all add: ds_pending_def)

text \<open>Replacing the pending subscription by a longer one that still fits.\<close>

lemma grows_set_pending:
  assumes "ds_pending ds = Some p"
    and "delivery_bounded ds \<Longrightarrow>
      length (ds_outgoing ds) + length (ps_frames q) + length (ps_trailing_frames q) \<le> ds_capacity ds"
  shows "delivery_grows ds (count_domain_frames n (set_pending (Some q) ds))"
  using assms ds_pendingD [OF assms(1)] queued_len_pending [of ds q]
  by (auto simp: delivery_grows_def delivery_bounded_def)

lemma grows_deliver: "delivery_grows ds (snd (deliver nv sid message route ds))"
proof -
  have pend: "delivery_grows ds (count_domain_frames 1 (set_pending (Some (push_pending frame p)) ds))"
    if "pending_for sid ds = Some p" and "\<not> ds_capacity ds \<le> queued_len ds" for frame p
  proof -
    from that(1) have p: "ds_pending ds = Some p" by (auto simp: pending_for_def split: option.splits if_splits)
    then show ?thesis
      using that(2) by (intro grows_set_pending) (auto simp: push_pending_def queued_len_def)
  qed
  have "delivery_grows ds (count_domain_frames 1 ds')" if "enqueue frame ds = (r, ds')" for frame r ds'
    using grows_enqueue [of ds frame] that by (auto simp: delivery_grows_def delivery_bounded_def)
  then show ?thesis
    using pend grows_enqueue [of ds]
    by (auto simp: deliver_def delivery_grows_def [of ds "abort_queue ds"] delivery_bounded_def
        split: sum.splits option.splits prod.splits) (metis snd_conv)
qed

lemma grows_queue_sync: "delivery_grows ds (snd (queue_sync sid request_id frames ds))"
proof (cases "saturating_add (queued_len ds) (length frames) > ds_capacity ds")
  case True
  then show ?thesis by (simp add: queue_sync_def delivery_grows_def delivery_bounded_def)
next
  case fits: False
  show ?thesis
  proof (cases "ds_pending ds")
    case (Some p)
    have "delivery_grows ds (count_domain_frames n
        (set_pending (Some (p\<lparr>ps_frames := ps_frames p @ frames, ps_sync_delivered := True\<rparr>)) ds))" for n
      using fits Some saturating_fits [of "ds_capacity ds" "queued_len ds" "length frames"]
      by (intro grows_set_pending [OF Some]) (auto simp: delivery_bounded_def queued_len_def)
    with fits Some show ?thesis by (simp add: queue_sync_def)
  qed (use fits in \<open>simp add: queue_sync_def\<close>)
qed

lemma native_methods_grow:
  "delivery_grows ds (snd (native_deliver_event nv event route ds))"
  "delivery_grows ds (snd (native_deliver_session nv session ds))"
  "delivery_grows ds (snd (native_deliver_session_baseline nv baseline ds))"
  "delivery_grows ds (snd (native_deliver_session_sync nv sync ds))"
  by (simp_all add: native_deliver_event_def native_deliver_session_def grows_deliver
      native_deliver_session_baseline_def native_deliver_session_sync_def grows_queue_sync split: sum.splits prod.splits)

text \<open>Without a client every delivery is refused and nothing changes.\<close>

lemma native_methods_idle:
  assumes "ds_client ds = None"
  shows "snd (native_deliver_event nv event route ds) = ds" and "snd (native_deliver_session nv session ds) = ds"
    and "snd (native_deliver_session_baseline nv baseline ds) = ds"
    and "snd (native_deliver_session_sync nv sync ds) = ds"
  using assms
  by (simp_all add: native_deliver_event_def native_deliver_session_def deliver_def ds_pending_def
      native_deliver_session_baseline_def native_deliver_session_sync_def)

section \<open>The Bridge and a Channel Port\<close>

definition ports_step :: "('c \<Rightarrow> 'c \<Rightarrow> bool) \<Rightarrow> ('p, 'c) bridge \<Rightarrow> ('p, 'c) bridge \<Rightarrow> bool" where
  "ports_step R b b' \<longleftrightarrow> (\<forall>cid. rel_option
     (\<lambda>reg reg'. rc_descriptor reg' = rc_descriptor reg \<and> R (rc_port reg) (rc_port reg'))
     (bt_get (br_channels b) cid) (bt_get (br_channels b') cid))"

locale port_steps =
  fixes cp :: "('c, 'x) channel_port"
    and R :: "'c \<Rightarrow> 'c \<Rightarrow> bool"
  assumes refl: "R c c"
    and trans: "R a b \<Longrightarrow> R b c \<Longrightarrow> R a c"
    and event: "R c (snd (cp_deliver_event cp c e r))"
    and session: "R c (snd (cp_deliver_session cp c s))"
    and baseline: "R c (snd (cp_deliver_session_baseline cp c bl))"
    and sync: "R c (snd (cp_deliver_session_sync cp c sy))"
begin

lemma step_refl [simp]: "ports_step R b b"
  by (auto simp: ports_step_def refl intro!: option.rel_refl)

lemma step_channels: "br_channels b' = br_channels b \<Longrightarrow> ports_step R b b'"
  using step_refl by (simp add: ports_step_def)

lemma step_trans:
  assumes "ports_step R a b" and "ports_step R b c"
  shows "ports_step R a c"
proof -
  have "rel_option (\<lambda>reg reg'. rc_descriptor reg' = rc_descriptor reg \<and> R (rc_port reg) (rc_port reg'))
      (bt_get (br_channels a) cid) (bt_get (br_channels c) cid)" for cid
    using assms [unfolded ports_step_def, rule_format, of cid] trans by (auto simp: option_rel_Some1 elim!: option.rel_cases)
  then show ?thesis by (simp add: ports_step_def)
qed

lemma handoff:
  assumes "bt_get (br_channels b) cid = Some reg" and "rc_handoff call reg = (r, reg')"
    and "\<And>c. R c (snd (call c))" and "br_channels b' = bt_insert cid reg' (br_channels b)"
  shows "ports_step R b b'"
proof -
  have "rc_descriptor reg' = rc_descriptor reg" "R (rc_port reg) (rc_port reg')"
    using assms(2) assms(3) [of "rc_port reg"] by (auto simp: rc_handoff_def split: prod.splits)
  with assms(1,4) refl show ?thesis
    by (auto simp: ports_step_def intro!: option.rel_refl)
qed

lemmas handoffs = handoff [OF _ _ event] handoff [OF _ _ session] handoff [OF _ _ baseline] handoff [OF _ _ sync]

lemma deliver_one_step:
  assumes "bt_get (br_channels b) cid = Some reg" and "deliver_one cp e view cid route flag reg = (res, reg')"
    and "br_channels b' = bt_insert cid reg' (br_channels b)"
  shows "ports_step R b b'"
proof -
  obtain r1 reg1 where one: "rc_deliver_event cp reg e route = (r1, reg1)" by fastforce
  let ?b1 = "b\<lparr>br_channels := bt_insert cid reg1 (br_channels b)\<rparr>"
  have step1: "ports_step R b ?b1"
    using handoff [OF assms(1) one [unfolded rc_deliver_event_def] event] by simp
  show ?thesis
  proof (cases "\<exists>s. (if flag then view else None) = Some s \<and> (\<exists>u. r1 = Ok u)")
    case True
    then obtain s u where s: "(if flag then view else None) = Some s" "r1 = Ok u" by blast
    obtain r2 reg2 where two: "rc_deliver_session cp reg1 s = (r2, reg2)" by fastforce
    have "reg' = reg2" using assms(2) one two s by (auto simp: deliver_one_def split: sum.splits)
    moreover have "ports_step R ?b1 b'"
      using handoff [OF _ two [unfolded rc_deliver_session_def] session, of ?b1 cid b'] assms(3) calculation
      by (simp add: bt_single)
    ultimately show ?thesis using step_trans [OF step1] by blast
  next
    case False
    then have "reg' = reg1" using assms(2) one by (auto simp: deliver_one_def split: sum.splits option.splits)
    with step1 assms(3) show ?thesis by (simp add: ports_step_def)
  qed
qed

lemma fan_out_step: "ports_step R b (snd (fan_out cp e view routes ds b))"
proof (induction routes arbitrary: ds b)
  case (Cons route routes)
  obtain cid kind flag where route: "route = (cid, kind, flag)" by (cases route)
  show ?case
  proof (cases "bt_get (br_channels b) cid")
    case None
    then show ?thesis by (simp add: route step_refl)
  next
    case (Some reg)
    obtain res reg' where one: "deliver_one cp e view cid kind flag reg = (res, reg')" by fastforce
    let ?b1 = "b\<lparr>br_channels := bt_insert cid reg' (br_channels b)\<rparr>"
    have "ports_step R b ?b1" by (rule deliver_one_step [OF Some one]) simp
    from step_trans [OF this Cons.IH] Some one route show ?thesis by simp
  qed
qed (simp add: step_refl)

lemma event_step: "ports_step R b (snd (handle_provider_event cp pid e b))"
proof (cases "admit_event pid e b :: (_, 'x provider_event_error) result")
  case (Inr routes)
  obtain res :: "(_, 'x provider_event_error) result" and b1 where red: "reduce_event e b = (res, b1)" by fastforce
  have one: "ports_step R b b1" using reduce_event_channels [OF red] by (intro step_channels) simp
  then have "ports_step R b (snd (fan_out cp e view routes [] b1))" for view
    using step_trans fan_out_step by blast
  with one Inr red show ?thesis
    by (auto simp: handle_provider_event_def Let_def split: sum.splits prod.splits apply_outcome.splits)
      (metis snd_conv)+
qed (simp add: handle_provider_event_def step_refl)

lemma activate_step: "ports_step R b b1 \<Longrightarrow> ports_step R b (activate_subscription cid sid b1)"
  by (simp add: ports_step_def activate_subscription_def)

lemma subscribe_step: "ports_step R b (snd (subscribe cp cid sid b))"
proof -
  have "ports_step R b (b\<lparr>br_channels := bt_insert cid reg' (br_channels b)\<rparr>)"
    if "bt_get (br_channels b) cid = Some reg" and "rc_deliver_session_baseline cp reg bl = (r, reg')" for reg bl r reg'
    by (rule handoff [OF that(1) that(2) [unfolded rc_deliver_session_baseline_def] baseline]) simp
  then show ?thesis
    by (auto simp: subscribe_def Let_def intro!: activate_step split: option.splits sum.splits prod.splits)
qed

lemma sync_step: "ports_step R b (snd (sync_session cp cid sid after n b))"
proof -
  have "ports_step R b (b\<lparr>br_channels := bt_insert cid reg' (br_channels b)\<rparr>)"
    if "bt_get (br_channels b) cid = Some reg" and "rc_deliver_session_sync cp reg sy = (r, reg')" for reg sy r reg'
    by (rule handoff [OF that(1) that(2) [unfolded rc_deliver_session_sync_def] sync]) simp
  then show ?thesis
    by (auto simp: sync_session_def Let_def intro!: activate_step split: option.splits sum.splits prod.splits)
qed

lemma call_step: "ports_step R b (call_bridge pp cp c b)"
proof (cases c)
  case (CallUnsubscribe h sid)
  then show ?thesis
    by (auto intro!: step_channels simp: unsubscribe_def Let_def split: prod.splits)
next
  case (CallResponse h response)
  then show ?thesis
    by (auto intro!: step_channels simp: handle_interaction_response_def hand_to_provider_def
        split: sum.splits prod.splits option.splits)
next
  case (CallCommand h command)
  then show ?thesis
    by (auto intro!: step_channels simp: handle_command_def hand_to_provider_def split: sum.splits prod.splits)
qed (simp_all add: event_step subscribe_step sync_step step_refl)

lemma perform_step:
  assumes "quiet sh"
  shows "\<exists>reply b. perform pp cp t c sh = Some (reply, sh\<lparr>sh_bridge := b\<rparr>) \<and> ports_step R (sh_bridge sh) b"
proof (cases "\<not> sh_alive sh \<or> \<not> ingress_open sh (call_permit c)")
  case True
  from perform_shut [OF assms this, of pp cp t] step_refl show ?thesis
    by (metis (no_types) shared.surjective shared.update_convs(1))
next
  case False
  with perform_open [OF assms, of c pp cp t] call_step show ?thesis by blast
qed

end

interpretation native_port: port_steps "native_channel nv inject" port_grows for nv inject
proof unfold_locales
  show "port_grows c c" for c by (simp add: port_grows_def)
  show "port_grows a b \<Longrightarrow> port_grows b c \<Longrightarrow> port_grows a c" for a b c
    by (auto simp: port_grows_def intro: delivery_grows_trans)
qed (simp_all add: native_channel_def on_port_def port_grows_def native_methods_grow native_methods_idle case_prod_unfold)

section \<open>The worker's operations\<close>

definition native_ready :: "channel_id \<Rightarrow> 'p native_shared \<Rightarrow> bool" where
  "native_ready cid sh \<longleftrightarrow> quiet sh \<and> port_of cid sh \<noteq> None"

text \<open>What every request keeps: the bound of the queue, and whether a client is present.\<close>

definition delivery_kept :: "delivery_state \<Rightarrow> delivery_state \<Rightarrow> bool" where
  "delivery_kept ds ds' \<longleftrightarrow> (delivery_bounded ds \<longrightarrow> delivery_bounded ds')
     \<and> (ds_client ds' = None \<longleftrightarrow> ds_client ds = None)"

definition native_kept :: "channel_id \<Rightarrow> 'p native_shared \<Rightarrow> 'p native_shared \<Rightarrow> bool" where
  "native_kept cid sh sh' \<longleftrightarrow> native_ready cid sh' \<and> delivery_kept (delivery_of cid sh) (delivery_of cid sh')"

lemma put_delivery_simps [simp]:
  assumes "port_of cid sh \<noteq> None"
  shows "delivery_of cid (put_delivery cid ds sh) = ds" and "port_of cid (put_delivery cid ds sh) \<noteq> None"
  using assms by (auto simp: delivery_of_def put_delivery_def port_of_def)

lemma quiet_put [simp]: "quiet (put_delivery cid ds sh) = quiet sh"
  by (simp add: put_delivery_def split: option.splits)

lemma ready_put: "native_ready cid sh \<Longrightarrow> native_ready cid (put_delivery cid ds sh)"
  unfolding native_ready_def using put_delivery_simps(2) by simp

lemma delivery_of_put: "native_ready cid sh \<Longrightarrow> delivery_of cid (put_delivery cid ds sh) = ds"
  by (rule put_delivery_simps(1)) (simp add: native_ready_def)

lemma delivery_kept_refl [simp]: "delivery_kept ds ds"
  by (simp add: delivery_kept_def)

lemma delivery_kept_trans: "delivery_kept a b \<Longrightarrow> delivery_kept b c \<Longrightarrow> delivery_kept a c"
  by (simp add: delivery_kept_def)

lemma grows_kept: "delivery_grows a b \<Longrightarrow> delivery_kept a b"
  using client_kept_None by (auto simp: delivery_grows_def delivery_kept_def)

lemma native_kept_refl: "native_ready cid sh \<Longrightarrow> native_kept cid sh sh"
  by (simp add: native_kept_def)

lemma native_kept_trans: "native_kept cid a b \<Longrightarrow> native_kept cid b c \<Longrightarrow> native_kept cid a c"
  by (auto simp: native_kept_def intro: delivery_kept_trans)

lemma native_kept_put:
  "native_ready cid sh \<Longrightarrow> delivery_kept (delivery_of cid sh) ds \<Longrightarrow> native_kept cid sh (put_delivery cid ds sh)"
  by (simp add: native_kept_def ready_put delivery_of_put)

lemma kept_on_delivery:
  assumes "native_ready cid sh" and "\<And>ds. delivery_kept ds (snd (f ds))" and "on_delivery cid f sh = (r, sh')"
  shows "native_kept cid sh sh'"
  using assms native_kept_put [OF assms(1)] by (auto simp: on_delivery_def split: prod.splits) (metis snd_conv)

lemma kept_update:
  "native_ready cid sh \<Longrightarrow> (\<And>ds. delivery_kept ds (f ds)) \<Longrightarrow> native_kept cid sh (update_delivery cid f sh)"
  by (simp add: update_delivery_def native_kept_put)

lemma kept_status: "delivery_kept ds ds' \<Longrightarrow> delivery_kept ds (map_status f ds')"
  by (simp add: delivery_kept_def delivery_bounded_def)

lemma kept_client:
  "delivery_kept ds ds' \<Longrightarrow> (\<And>c. ac_pending (g c) = ac_pending c) \<Longrightarrow> delivery_kept ds (map_client g ds')"
  by (cases "ds_client ds'") (simp_all add: delivery_kept_def delivery_bounded_def queued_len_def ds_pending_def)

lemma kept_no_pending: "delivery_kept ds (set_pending None ds)"
  by (cases "ds_client ds")
    (auto simp: delivery_kept_def delivery_bounded_def queued_len_def ds_pending_def split: option.splits)

lemma kept_enqueue: "enqueue f ds = (r, ds') \<Longrightarrow> delivery_kept ds ds'"
  using grows_kept [OF grows_enqueue [of ds f]] by simp

lemma kept_batch: "enqueue_batch fs ds = (r, ds') \<Longrightarrow> delivery_kept ds ds'"
  using grows_kept [OF grows_enqueue_batch [of ds fs]] by simp

lemma kept_control: "delivery_kept ds (snd (enqueue_control nv message ds))"
  using kept_enqueue by (auto simp: enqueue_control_def split: sum.splits prod.splits)

lemma kept_finish_discovery: "delivery_kept ds (snd (finish_discovery frames discovered ds))"
  using kept_batch by (auto simp: finish_discovery_def intro!: kept_status kept_client split: sum.splits prod.splits)

lemma kept_new_pending:
  "ps_frames p = [] \<Longrightarrow> ps_trailing_frames p = [] \<Longrightarrow> delivery_kept ds (set_pending (Some p) ds)"
  by (cases "ds_client ds")
    (auto simp: delivery_kept_def delivery_bounded_def queued_len_def ds_pending_def split: option.splits)

lemma kept_begin_subscribe: "delivery_kept ds (snd (begin_subscribe nv request_id sid ds))"
  by (auto simp: begin_subscribe_def intro: kept_new_pending kept_enqueue
      split: option.splits sum.splits prod.splits)

lemma kept_end_subscribe: "delivery_kept ds (snd (end_subscribe nv request_id sid outcome ds))"
proof -
  have "delivery_kept ds ds'" if "enqueue_batch frames (set_pending None ds) = (r, ds')" for frames r ds'
    using kept_batch [OF that] kept_no_pending delivery_kept_trans by blast
  then show ?thesis
    by (auto simp: end_subscribe_def Let_def intro!: kept_status kept_client kept_no_pending
        split: option.splits sum.splits prod.splits)
qed

lemma kept_reply:
  assumes "native_ready (nw_channel w) sh"
  shows "native_kept (nw_channel w) sh (snd (reply_control w message sh))"
proof -
  obtain r sh' where step: "on_delivery (nw_channel w) (enqueue_control (nw_env w) message) sh = (r, sh')" by fastforce
  then have "native_kept (nw_channel w) sh sh'" by (rule kept_on_delivery [OF assms kept_control])
  with step show ?thesis by (simp add: reply_control_def)
qed

text \<open>A handle call of any thread.\<close>

lemma perform_grows:
  assumes "native_ready cid sh"
  shows "\<exists>reply sh'. perform pp (native_channel nv inject) t c sh = Some (reply, sh')
    \<and> native_ready cid sh' \<and> delivery_grows (delivery_of cid sh) (delivery_of cid sh')
    \<and> (ds_client (delivery_of cid sh) = None \<longrightarrow> delivery_of cid sh' = delivery_of cid sh)"
proof -
  obtain reply b where step: "perform pp (native_channel nv inject) t c sh = Some (reply, sh\<lparr>sh_bridge := b\<rparr>)"
    and ports: "ports_step port_grows (sh_bridge sh) b"
    using native_port.perform_step assms unfolding native_ready_def by metis
  have "rel_option (\<lambda>reg reg'. rc_descriptor reg' = rc_descriptor reg \<and> port_grows (rc_port reg) (rc_port reg'))
      (port_of cid sh) (port_of cid (sh\<lparr>sh_bridge := b\<rparr>))"
    using ports by (simp add: ports_step_def port_of_def)
  with assms have "native_ready cid (sh\<lparr>sh_bridge := b\<rparr>)"
    "delivery_grows (delivery_of cid sh) (delivery_of cid (sh\<lparr>sh_bridge := b\<rparr>))"
    "ds_client (delivery_of cid sh) = None \<longrightarrow> delivery_of cid (sh\<lparr>sh_bridge := b\<rparr>) = delivery_of cid sh"
    by (auto simp: native_ready_def delivery_of_def port_grows_def option_rel_Some1 option_rel_Some2)
  with step show ?thesis by auto
qed

lemma reply_with_Some: "reply_with mk x = Some (y, sh) \<longleftrightarrow> (\<exists>r. x = Some (r, sh) \<and> y = mk r)"
  by (auto simp: reply_with_def)

lemma handles_kept:
  fixes sh :: "'p native_shared" and pp :: "('p, 'x) provider_port" and inject :: "native_channel_port_error \<Rightarrow> 'x"
  assumes "native_ready cid sh"
  shows "\<exists>r sh'. handle_discovery_snapshot t h sh = Some (r :: (_, 'x channel_action_ingress_error) result, sh')
      \<and> native_kept cid sh sh'"
    and "\<exists>r sh'. handle_sync_session (native_channel nv inject) t h sid after n sh = Some (r, sh') \<and> native_kept cid sh sh'"
    and "\<exists>r sh'. handle_unsubscribe t h sid sh = Some (r :: (_, 'x channel_action_ingress_error) result, sh')
      \<and> native_kept cid sh sh'"
    and "\<exists>r sh'. handle_submit_response pp t h response sh = Some (r, sh') \<and> native_kept cid sh sh'"
    and "\<exists>r sh'. handle_submit_command pp t h command sh = Some (r, sh') \<and> native_kept cid sh sh'"
proof -
  have step: "\<exists>reply sh'. perform pp (native_channel nv inject) t call sh = Some (reply, sh') \<and> native_kept cid sh sh'"
    for call
    using perform_grows [OF assms, of pp nv inject t call] grows_kept unfolding native_kept_def by blast
  note calls = step [of "CallDiscover h"] step [of "CallSync h sid after n"] step [of "CallUnsubscribe h sid"]
    step [of "CallResponse h response"] step [of "CallCommand h command"]
  show "\<exists>r sh'. handle_discovery_snapshot t h sh = Some (r :: (_, 'x channel_action_ingress_error) result, sh')
      \<and> native_kept cid sh sh'"
    and "\<exists>r sh'. handle_sync_session (native_channel nv inject) t h sid after n sh = Some (r, sh') \<and> native_kept cid sh sh'"
    and "\<exists>r sh'. handle_unsubscribe t h sid sh = Some (r :: (_, 'x channel_action_ingress_error) result, sh')
      \<and> native_kept cid sh sh'"
    and "\<exists>r sh'. handle_submit_response pp t h response sh = Some (r, sh') \<and> native_kept cid sh sh'"
    and "\<exists>r sh'. handle_submit_command pp t h command sh = Some (r, sh') \<and> native_kept cid sh sh'"
    using calls by (auto simp: reply_with_Some)
qed

lemma ex_pairI: "K (snd y) \<Longrightarrow> \<exists>r sh'. y = (r, sh') \<and> K sh'"
  by (cases y) simp

text \<open>Every request of a handshaken client is answered.\<close>

lemma kept_discover:
  fixes w :: "('v, 'p, 'x) native_worker"
  assumes ready: "native_ready (nw_channel w) sh"
  shows "\<exists>r sh'. process_discover w request_id sh = Some (r, sh') \<and> native_kept (nw_channel w) sh sh'"
proof -
  obtain r :: "(_, 'x channel_action_ingress_error) result" and sh1
    where one: "handle_discovery_snapshot (nw_thread w) (nw_actions w) sh = Some (r, sh1)"
      "native_kept (nw_channel w) sh sh1"
    using handles_kept(1) [OF ready] by blast
  have two: "native_kept (nw_channel w) sh (snd (on_delivery (nw_channel w) (finish_discovery frames discovered) sh1))"
    for frames discovered
  proof -
    have "native_ready (nw_channel w) sh1" using one(2) by (simp add: native_kept_def)
    from native_kept_trans [OF one(2) kept_on_delivery [OF this kept_finish_discovery surjective_pairing]]
    show ?thesis .
  qed
  show ?thesis
  proof (cases "discover_admitted request_id (delivery_of (nw_channel w) sh)")
    case (Inl e)
    with native_kept_refl [OF ready] show ?thesis by (simp add: process_discover_def)
  next
    case admitted: (Inr u)
    show ?thesis
    proof (cases "\<exists>snapshot frames. r = Ok snapshot \<and> discovery_frames (nw_env w) request_id snapshot = Ok frames")
      case True
      with admitted one show ?thesis by (auto simp: process_discover_def intro!: ex_pairI two)
    next
      case False
      with admitted one show ?thesis by (auto simp: process_discover_def split: sum.splits)
    qed
  qed
qed

lemma kept_unsubscribe:
  fixes w :: "('v, 'p, 'x) native_worker"
  assumes ready: "native_ready (nw_channel w) sh"
  shows "\<exists>r sh'. process_unsubscribe w request_id sid sh = Some (r, sh') \<and> native_kept (nw_channel w) sh sh'"
proof -
  obtain r :: "(_, 'x channel_action_ingress_error) result" and sh1
    where one: "handle_unsubscribe (nw_thread w) (nw_actions w) sid sh = Some (r, sh1)"
      "native_kept (nw_channel w) sh sh1"
    using handles_kept(3) [OF ready] by blast
  let ?sh2 = "update_delivery (nw_channel w) (map_client (\<lambda>c. c\<lparr>ac_subscriptions := bt_remove sid (ac_subscriptions c)\<rparr>)) sh1"
  have two: "native_kept (nw_channel w) sh1 ?sh2"
    using one(2) by (intro kept_update kept_client) (simp_all add: native_kept_def)
  have "native_kept (nw_channel w) sh (snd (reply_control w m ?sh2))" for m
    using native_kept_trans [OF native_kept_trans [OF one(2) two] kept_reply] two by (simp add: native_kept_def)
  with one show ?thesis
    by (cases r) (auto simp: process_unsubscribe_def Let_def intro!: ex_pairI)
qed

lemma kept_response:
  fixes w :: "('v, 'p, 'x) native_worker"
  assumes ready: "native_ready (nw_channel w) sh"
  shows "\<exists>r sh'. process_interaction_response w request_id response sh = Some (r, sh') \<and> native_kept (nw_channel w) sh sh'"
proof -
  obtain r sh1 where one: "handle_submit_response (nw_providers w) (nw_thread w) (nw_actions w) response sh = Some (r, sh1)"
      "native_kept (nw_channel w) sh sh1"
    using handles_kept(4) [OF ready] by blast
  then have "native_kept (nw_channel w) sh (snd (reply_control w m sh1))" for m
    using native_kept_trans [OF one(2) kept_reply] by (simp add: native_kept_def)
  with one native_kept_refl [OF ready] show ?thesis
    by (cases r) (auto simp: process_interaction_response_def intro!: ex_pairI)
qed

lemma kept_command:
  fixes w :: "('v, 'p, 'x) native_worker"
  assumes ready: "native_ready (nw_channel w) sh"
  shows "\<exists>r sh'. process_command w request_id command sh = Some (r, sh') \<and> native_kept (nw_channel w) sh sh'"
proof -
  obtain r sh1 where one: "handle_submit_command (nw_providers w) (nw_thread w) (nw_actions w) command sh = Some (r, sh1)"
      "native_kept (nw_channel w) sh sh1"
    using handles_kept(5) [OF ready] by blast
  then have "native_kept (nw_channel w) sh (snd (reply_control w m sh1))" for m
    using native_kept_trans [OF one(2) kept_reply] by (simp add: native_kept_def)
  with one native_kept_refl [OF ready] show ?thesis
    by (cases r) (auto simp: process_command_def intro!: ex_pairI)
qed

lemma kept_subscribe:
  fixes w :: "('v, 'p, 'x) native_worker"
  assumes ready: "native_ready (nw_channel w) sh"
  shows "\<exists>r sh'. process_subscribe w request_id sid sh = Some (r, sh') \<and> native_kept (nw_channel w) sh sh'"
proof -
  obtain r1 sh1 where first: "on_delivery (nw_channel w) (begin_subscribe (nw_env w) request_id sid) sh = (r1, sh1)" by fastforce
  have one: "native_kept (nw_channel w) sh sh1" by (rule kept_on_delivery [OF ready kept_begin_subscribe first])
  then have ready1: "native_ready (nw_channel w) sh1" by (simp add: native_kept_def)
  obtain r2 sh2 where sync: "handle_sync_session (native_channel (nw_env w) (nw_inject w)) (nw_thread w) (nw_actions w) sid
      (subscribe_cursor sid (delivery_of (nw_channel w) sh1)) SESSION_SYNC_PAGE_EVENTS sh1 = Some (r2, sh2)"
    and two: "native_kept (nw_channel w) sh1 sh2"
    using handles_kept(2) [OF ready1] by blast
  then have ready2: "native_ready (nw_channel w) sh2" by (simp add: native_kept_def)
  have undo: "native_kept (nw_channel w) sh (update_delivery (nw_channel w) (set_pending None) sh2)"
    using native_kept_trans [OF native_kept_trans [OF one two] kept_update [OF ready2 kept_no_pending]] .
  have fin: "native_kept (nw_channel w) sh (snd (on_delivery (nw_channel w) (end_subscribe (nw_env w) request_id sid outcome) sh2))"
    for outcome
    using native_kept_trans [OF native_kept_trans [OF one two]
      kept_on_delivery [OF ready2 kept_end_subscribe surjective_pairing]] .
  show ?thesis
  proof (cases "\<exists>outcome. r1 = Ok True \<and> r2 = Ok outcome")
    case True
    with first sync show ?thesis by (auto simp: process_subscribe_def Let_def intro!: ex_pairI fin)
  next
    case False
    with first one sync undo show ?thesis
      by (auto simp: process_subscribe_def Let_def split: sum.splits bool.splits)
  qed
qed

lemma process_kept:
  assumes "native_ready (nw_channel w) sh"
  shows "\<exists>r sh'. process_ready_message w message sh = Some (r, sh') \<and> native_kept (nw_channel w) sh sh'"
  using assms kept_discover kept_subscribe kept_unsubscribe kept_response kept_command native_kept_refl
  by (cases message) simp_all

section \<open>Leaving a connection\<close>

lemma unsubscribe_all_kept:
  fixes w :: "('v, 'p, 'x) native_worker"
  assumes "native_ready (nw_channel w) sh"
  shows "\<exists>sh'. unsubscribe_all w sids sh = Some sh' \<and> native_kept (nw_channel w) sh sh'"
  using assms
proof (induction sids arbitrary: sh)
  case (Cons sid sids)
  obtain r :: "(_, 'x channel_action_ingress_error) result" and sh1
    where one: "handle_unsubscribe (nw_thread w) (nw_actions w) sid sh = Some (r, sh1)" "native_kept (nw_channel w) sh sh1"
    using handles_kept(3) [OF Cons.prems] by blast
  then obtain sh2 where "unsubscribe_all w sids sh1 = Some sh2" "native_kept (nw_channel w) sh1 sh2"
    using Cons.IH [of sh1] by (auto simp: native_kept_def)
  with one native_kept_trans show ?case by fastforce
qed (simp add: native_kept_refl)

text \<open>The state of a Channel without a connection.\<close>

definition delivery_idle :: "delivery_state \<Rightarrow> bool" where
  "delivery_idle ds \<longleftrightarrow> ds_client ds = None \<and> ds_outgoing ds = [] \<and> ds_abort_reason ds = None"

lemma disconnect_idle:
  assumes "native_ready (nw_channel w) sh" and "delivery_bounded (delivery_of (nw_channel w) sh)"
  shows "\<exists>sh'. disconnect w sh = Some sh' \<and> native_ready (nw_channel w) sh'
    \<and> delivery_bounded (delivery_of (nw_channel w) sh') \<and> delivery_idle (delivery_of (nw_channel w) sh')"
proof -
  obtain sh1 where one: "unsubscribe_all w (case ds_client (delivery_of (nw_channel w) sh) of
      Some client \<Rightarrow> bs_elems (ac_subscriptions client) | None \<Rightarrow> []) sh = Some sh1" "native_kept (nw_channel w) sh sh1"
    using unsubscribe_all_kept [OF assms(1)] by blast
  then have "native_ready (nw_channel w) sh1" "ds_capacity (delivery_of (nw_channel w) sh1) < usize_max"
    using assms(2) by (auto simp: native_kept_def delivery_kept_def delivery_bounded_def)
  with one(1) show ?thesis
    by (simp add: disconnect_def Let_def update_delivery_def ready_put delivery_of_put delivery_idle_def
        delivery_bounded_def clear_connection_def queued_len_def ds_pending_def map_status_def)
qed

section \<open>The worker loop\<close>

definition worker_live :: "('v, 'p, 'x) native_worker \<Rightarrow> 'p worker_state \<Rightarrow> bool" where
  "worker_live w ws \<longleftrightarrow> native_ready (nw_channel w) (ws_shared ws)
     \<and> delivery_bounded (delivery_of (nw_channel w) (ws_shared ws))"

text \<open>A client is present exactly while a handshaken connection is, and without a connection nothing
  is queued.\<close>

definition worker_inv :: "('v, 'p, 'x) native_worker \<Rightarrow> 'p worker_state \<Rightarrow> bool" where
  "worker_inv w ws \<longleftrightarrow> worker_live w ws
     \<and> (case ws_connection ws of
          None \<Rightarrow> delivery_idle (delivery_of (nw_channel w) (ws_shared ws))
        | Some conn \<Rightarrow>
            ds_client (delivery_of (nw_channel w) (ws_shared ws)) = None \<longleftrightarrow> \<not> nc_handshaken conn)"

lemma worker_live_simps [simp]:
  "worker_live w (ws_send actions ws) = worker_live w ws"
  "worker_live w (ws\<lparr>ws_connection := c\<rparr>) = worker_live w ws"
  by (simp_all add: worker_live_def ws_send_def)

lemma live_update:
  "worker_live w ws \<Longrightarrow> (\<And>ds. delivery_kept ds (f ds)) \<Longrightarrow> worker_live w (ws_update w f ws)
     \<and> delivery_of (nw_channel w) (ws_shared (ws_update w f ws)) = f (delivery_of (nw_channel w) (ws_shared ws))"
  by (simp add: worker_live_def ws_update_def update_delivery_def ready_put delivery_of_put delivery_kept_def)

lemma record_error_fields [simp]:
  "ds_client (record_error message ds) = ds_client ds" "ds_outgoing (record_error message ds) = ds_outgoing ds"
  "ds_abort_reason (record_error message ds) = ds_abort_reason ds"
  by (simp_all add: record_error_def map_status_def)

lemma kept_record_error: "delivery_kept ds (record_error message ds)"
  by (simp add: record_error_def kept_status)

lemma ws_fields [simp]:
  "ws_connection (ws_send actions ws) = ws_connection ws" "ws_shared (ws_send actions ws) = ws_shared ws"
  "ws_connection (ws_update w f ws) = ws_connection ws"
  by (simp_all add: ws_send_def ws_update_def)

lemma drop_connection_inv:
  assumes "worker_live w ws"
  shows "\<exists>ws'. drop_connection w diagnostic actions ws = Some ws' \<and> worker_inv w ws' \<and> ws_connection ws' = None"
proof -
  let ?ws1 = "ws_send actions (case diagnostic of Some message \<Rightarrow> ws_update w (record_error message) ws | None \<Rightarrow> ws)"
  have "worker_live w ?ws1"
    using assms live_update [OF assms kept_record_error] by (auto split: option.splits)
  with disconnect_idle [of w "ws_shared ?ws1"] obtain sh where "disconnect w (ws_shared ?ws1) = Some sh"
    "native_ready (nw_channel w) sh" "delivery_bounded (delivery_of (nw_channel w) sh)"
    "delivery_idle (delivery_of (nw_channel w) sh)"
    unfolding worker_live_def by blast
  then show ?thesis
    by (simp add: drop_connection_def Let_def worker_inv_def worker_live_def del: ws_fields)
qed

lemma process_hello_spec:
  assumes "delivery_bounded ds"
  shows "delivery_bounded (snd (process_hello nv message auth descriptor config cid ds))"
    and "fst (process_hello nv message auth descriptor config cid ds) = Ok u
      \<Longrightarrow> ds_client (snd (process_hello nv message auth descriptor config cid ds)) \<noteq> None"
    and "fst (process_hello nv message auth descriptor config cid ds) \<noteq> Err (Recoverable m)"
proof -
  have fresh: "delivery_bounded ((clear_connection ds)\<lparr>ds_client := Some (hello_client resume h)\<rparr>)" for resume h
    using assms by (simp add: delivery_bounded_def clear_connection_def queued_len_def ds_pending_def hello_client_def)
  have sent: "delivery_bounded ds' \<and> ds_client ds' \<noteq> None"
    if "enqueue_control nv m ((clear_connection ds)\<lparr>ds_client := Some (hello_client resume h)\<rparr>) = (r, ds')" for m resume h r ds'
    using kept_control [of "(clear_connection ds)\<lparr>ds_client := Some (hello_client resume h)\<rparr>" nv m] fresh [of resume h] that
    by (simp add: delivery_kept_def)
  show "delivery_bounded (snd (process_hello nv message auth descriptor config cid ds))"
    using assms sent by (auto simp: process_hello_def Let_def delivery_bounded_def split: sum.splits prod.splits)
  show "fst (process_hello nv message auth descriptor config cid ds) = Ok u
      \<Longrightarrow> ds_client (snd (process_hello nv message auth descriptor config cid ds)) \<noteq> None"
    using sent by (auto simp: process_hello_def Let_def split: sum.splits prod.splits)
  show "fst (process_hello nv message auth descriptor config cid ds) \<noteq> Err (Recoverable m)"
    by (auto simp: process_hello_def admit_hello_def Let_def
        split: sum.splits prod.splits native_client_message.splits if_splits)
qed

lemma process_message_spec:
  assumes "worker_live w ws" and "ds_client (delivery_of (nw_channel w) (ws_shared ws)) = None \<longleftrightarrow> \<not> nc_handshaken conn"
  shows "\<exists>r sh. process_message w config descriptor connection_id conn message (ws_shared ws) = Some (r, sh)
    \<and> worker_live w (ws\<lparr>ws_shared := sh\<rparr>)
    \<and> (\<forall>u. r = Ok u \<longrightarrow> ds_client (delivery_of (nw_channel w) sh) \<noteq> None)
    \<and> (\<forall>m. r = Err (Recoverable m) \<longrightarrow>
          (ds_client (delivery_of (nw_channel w) sh) = None \<longleftrightarrow> \<not> nc_handshaken conn))"
proof (cases "nc_handshaken conn")
  case True
  obtain r sh where "process_ready_message w message (ws_shared ws) = Some (r, sh)"
    "native_kept (nw_channel w) (ws_shared ws) sh"
    using process_kept [of w "ws_shared ws" message] assms(1) by (auto simp: worker_live_def)
  with True assms show ?thesis
    by (auto simp: process_message_def native_kept_def delivery_kept_def worker_live_def)
next
  case False
  let ?hello = "process_hello (nw_env w) message (nc_authenticated conn) descriptor config connection_id
    (delivery_of (nw_channel w) (ws_shared ws))"
  have ready: "native_ready (nw_channel w) (ws_shared ws)" and "delivery_bounded (delivery_of (nw_channel w) (ws_shared ws))"
    using assms(1) by (simp_all add: worker_live_def)
  note spec = process_hello_spec [OF this(2), of "nw_env w" message "nc_authenticated conn" descriptor config connection_id]
  have "process_message w config descriptor connection_id conn message (ws_shared ws) =
      Some (fst ?hello, put_delivery (nw_channel w) (snd ?hello) (ws_shared ws))"
    using False by (simp add: process_message_def on_delivery_def case_prod_unfold)
  with spec ready show ?thesis
    by (auto simp: worker_live_def ready_put delivery_of_put)
qed

lemma finish_message_inv:
  assumes "worker_live w ws" and "ws_connection ws = Some conn"
    and "\<And>u. r = Ok u \<Longrightarrow> ds_client (delivery_of (nw_channel w) (ws_shared ws)) \<noteq> None"
    and "\<And>m. r = Err (Recoverable m) \<Longrightarrow>
      ds_client (delivery_of (nw_channel w) (ws_shared ws)) = None \<longleftrightarrow> \<not> nc_handshaken conn"
  shows "\<exists>ws'. finish_message w conn r ws = Some ws' \<and> worker_inv w ws'"
proof (cases r)
  case (Inr u)
  with assms show ?thesis by (simp add: finish_message_def worker_inv_def)
next
  case (Inl failure)
  show ?thesis
  proof (cases failure)
    case (Fatal e)
    with Inl show ?thesis using drop_connection_inv [OF assms(1)] by (fastforce simp: finish_message_def Let_def)
  next
    case (Recoverable m)
    obtain sent sh where step: "on_delivery (nw_channel w) (enqueue_control (nw_env w) m) (ws_shared ws) = (sent, sh)" by fastforce
    have "native_kept (nw_channel w) (ws_shared ws) sh"
      using kept_on_delivery [OF _ kept_control step] assms(1) by (simp add: worker_live_def)
    then have "worker_live w (ws\<lparr>ws_shared := sh\<rparr>)"
      "ds_client (delivery_of (nw_channel w) sh) = None \<longleftrightarrow> \<not> nc_handshaken conn"
      using assms(1) assms(4) [of m] Inl Recoverable
      by (auto simp: native_kept_def delivery_kept_def worker_live_def)
    with live_update [OF this(1) kept_record_error] step Inl Recoverable assms(2) show ?thesis
      by (auto simp: finish_message_def Let_def worker_inv_def record_error_def split: sum.splits)
  qed
qed

lemma read_round_inv:
  assumes "worker_inv w ws" and "ws_connection ws = Some conn"
  shows "\<exists>ws'. read_round w config descriptor tr conn ws = Some ws' \<and> worker_inv w ws'"
proof -
  have live: "worker_live w ws" and client: "ds_client (delivery_of (nw_channel w) (ws_shared ws)) = None \<longleftrightarrow> \<not> nc_handshaken conn"
    using assms by (simp_all add: worker_inv_def)
  let ?active = "conn\<lparr>nc_last_activity := tr_read_at tr\<rparr>"
  show ?thesis
  proof (cases "\<exists>frame. tr_read tr = Ok (ReadText frame)")
    case True
    then obtain frame where frame: "tr_read tr = Ok (ReadText frame)" by blast
    let ?count = "map_status (\<lambda>s. s\<lparr>ncs_frames_received := ncs_frames_received s + 1\<rparr>)"
    let ?ws1 = "ws_update w ?count (ws\<lparr>ws_connection := Some ?active\<rparr>)"
    have live1: "worker_live w ?ws1"
      and client1: "ds_client (delivery_of (nw_channel w) (ws_shared ?ws1)) = None \<longleftrightarrow> \<not> nc_handshaken ?active"
      using live_update [of w "ws\<lparr>ws_connection := Some ?active\<rparr>" ?count] live client kept_status [OF delivery_kept_refl] by auto
    show ?thesis
    proof (cases "decode_client_message (nw_env w) frame")
      case (Inl e)
      with frame drop_connection_inv [OF live1] show ?thesis by (fastforce simp: read_round_def Let_def)
    next
      case (Inr message)
      obtain r sh where step: "process_message w config descriptor (tr_connection_id tr) ?active message (ws_shared ?ws1) = Some (r, sh)"
        "worker_live w (?ws1\<lparr>ws_shared := sh\<rparr>)"
        "\<forall>u. r = Ok u \<longrightarrow> ds_client (delivery_of (nw_channel w) sh) \<noteq> None"
        "\<forall>m. r = Err (Recoverable m) \<longrightarrow> (ds_client (delivery_of (nw_channel w) sh) = None \<longleftrightarrow> \<not> nc_handshaken ?active)"
        using process_message_spec [OF live1 client1] by blast
      have "\<exists>ws'. finish_message w ?active r (?ws1\<lparr>ws_shared := sh\<rparr>) = Some ws' \<and> worker_inv w ws'"
        by (rule finish_message_inv [OF step(2)]) (use step(3,4) in simp_all)
      with frame Inr step(1) show ?thesis by (simp add: read_round_def Let_def)
    qed
  next
    case False
    with assms live client drop_connection_inv [OF live] show ?thesis
      by (fastforce simp: read_round_def Let_def worker_inv_def split: sum.splits transport_read.splits)
  qed
qed

lemma timed_round_inv:
  assumes "worker_inv w ws" and "ws_connection ws = Some conn"
  shows "\<exists>ws'. timed_round w config descriptor tr conn ws = Some ws' \<and> worker_inv w ws'"
proof -
  have live: "worker_live w ws" using assms(1) by (simp add: worker_inv_def)
  let ?conn = "conn\<lparr>nc_last_ping := tr_now tr\<rparr>"
  let ?ws = "ws_send [SendPing] (ws\<lparr>ws_connection := Some ?conn\<rparr>)"
  have "worker_inv w ?ws" "ws_connection ?ws = Some ?conn"
    using assms by (simp_all add: worker_inv_def)
  from read_round_inv [OF this, of config descriptor tr] read_round_inv [OF assms, of config descriptor tr]
    drop_connection_inv [OF live]
  show ?thesis by (fastforce simp: timed_round_def Let_def split: sum.splits)
qed

lemma send_frames_left: "send_frames send n frames = (sent, left, e) \<Longrightarrow> length left \<le> length frames"
  by (induction frames arbitrary: n sent left e) (auto split: sum.splits prod.splits intro: le_SucI)

lemma drain_round_inv:
  assumes "worker_inv w ws" and "ws_connection ws = Some conn"
  shows "\<exists>ws'. drain_round w tr ws = Some ws' \<and> worker_inv w ws' \<and> ws_connection ws' \<in> {None, Some conn}"
proof -
  let ?ds = "delivery_of (nw_channel w) (ws_shared ws)"
  obtain sent left failure where sent: "send_frames (tr_send tr) 0 (ds_outgoing ?ds) = (sent, left, failure)"
    by (metis prod_cases3)
  let ?drain = "\<lambda>ds. map_status (\<lambda>s. s\<lparr>ncs_frames_sent := ncs_frames_sent s + of_nat (length sent)\<rparr>)
    (ds\<lparr>ds_outgoing := left\<rparr>)"
  let ?ws1 = "ws_send (map SendText sent) (ws_update w ?drain ws)"
  have ready: "native_ready (nw_channel w) (ws_shared ws)" using assms(1) by (simp add: worker_inv_def worker_live_def)
  have ds1: "delivery_of (nw_channel w) (ws_shared ?ws1) = ?drain ?ds"
    using ready by (simp add: ws_update_def update_delivery_def delivery_of_put)
  have live: "worker_live w ?ws1"
    using assms(1) send_frames_left [OF sent] ready ds1
    by (simp add: worker_inv_def worker_live_def ws_update_def update_delivery_def ready_put delivery_bounded_def
        queued_len_def ds_pending_def map_status_def)
  then have "worker_inv w ?ws1" "ws_connection ?ws1 = Some conn"
    using assms ds1 by (simp_all add: worker_inv_def)
  then show ?thesis
    using sent drop_connection_inv [OF live] by (cases failure) (fastforce simp: drain_round_def Let_def)+
qed

lemma serve_round_inv:
  assumes "worker_inv w ws"
  shows "\<exists>ws'. serve_round w config descriptor tr ws = Some ws' \<and> worker_inv w ws'"
proof (cases "ws_connection ws")
  case None
  with assms show ?thesis by (simp add: serve_round_def)
next
  case (Some conn)
  obtain ws1 where one: "drain_round w tr ws = Some ws1" "worker_inv w ws1" "ws_connection ws1 \<in> {None, Some conn}"
    using drain_round_inv [OF assms Some] by blast
  then have "\<exists>ws'. (case ws_connection ws1 of None \<Rightarrow> Some ws1
      | Some _ \<Rightarrow> timed_round w config descriptor tr conn ws1) = Some ws' \<and> worker_inv w ws'"
    using timed_round_inv [of w ws1 conn config descriptor tr] by auto
  then show ?thesis
    using Some one(1) drop_connection_inv [of w ws] assms
    by (fastforce simp: serve_round_def worker_inv_def [of w ws] split: option.split)
qed

fun round_state :: "'p round_outcome \<Rightarrow> 'p worker_state" where
  "round_state (Continue ws) = ws"
| "round_state (WorkerFailed _ ws) = ws"

lemma accept_round_inv:
  assumes "worker_inv w ws"
  shows "\<exists>r. accept_round w tr ws = Some r \<and> worker_inv w (round_state r)
    \<and> (\<forall>diagnostic ws'. r = WorkerFailed diagnostic ws' \<longrightarrow> ws_connection ws' = None)"
proof (cases "tr_accept tr")
  case (AcceptSocket auth)
  with assms show ?thesis
    by (auto simp: accept_round_def worker_inv_def delivery_idle_def split: option.splits)
next
  case AcceptNothing
  with assms show ?thesis by (simp add: accept_round_def)
next
  case (AcceptHandshakeError diagnostic)
  have "worker_live w ws" using assms by (simp add: worker_inv_def)
  from AcceptHandshakeError assms live_update [OF this kept_record_error [of _ diagnostic]] show ?thesis
    by (auto simp: accept_round_def worker_inv_def delivery_idle_def split: option.splits)
next
  case (AcceptError diagnostic)
  have live: "worker_live w ws" using assms by (simp add: worker_inv_def)
  let ?actions = "if ws_connection ws \<noteq> None then [CloseSocket CloseError (utf ''Native listener failed'')] else []"
  obtain ws1 where one: "drop_connection w (Some diagnostic) ?actions ws = Some ws1" "worker_inv w ws1" "ws_connection ws1 = None"
    using drop_connection_inv [OF live] by blast
  let ?fail = "map_status (\<lambda>s. s\<lparr>ncs_health := HealthFailed, ncs_local_address := None, ncs_client_id := None\<rparr>)"
  have "worker_live w ws1" using one by (simp add: worker_inv_def)
  from live_update [OF this, of ?fail] one have "worker_inv w (ws_update w ?fail ws1)"
    by (simp add: worker_inv_def delivery_idle_def kept_status)
  with AcceptError one show ?thesis by (simp add: accept_round_def)
qed

lemma worker_round_inv:
  assumes "worker_inv w ws"
  shows "\<exists>r. worker_round w config descriptor tr ws = Some r \<and> worker_inv w (round_state r)
    \<and> (\<forall>diagnostic ws'. r = WorkerFailed diagnostic ws' \<longrightarrow> ws_connection ws' = None)"
proof -
  obtain r where r: "accept_round w tr ws = Some r" "worker_inv w (round_state r)"
    "\<forall>diagnostic ws'. r = WorkerFailed diagnostic ws' \<longrightarrow> ws_connection ws' = None"
    using accept_round_inv [OF assms] by blast
  then show ?thesis
    using serve_round_inv [of w _ config descriptor tr] by (cases r) (fastforce simp: worker_round_def)+
qed

text \<open>The worker always ends, with the Channel left as it is without a connection.\<close>

lemma run_worker_returns:
  assumes "worker_inv w ws"
  shows "\<exists>r ws'. run_worker w config descriptor rounds ws = Some (r, ws') \<and> worker_inv w ws' \<and> ws_connection ws' = None"
  using assms
proof (induction rounds arbitrary: ws)
  case Nil
  then have "worker_live w ws" by (simp add: worker_inv_def)
  from drop_connection_inv [OF this, of None
      "if ws_connection ws \<noteq> None then [CloseSocket CloseAway (utf ''Native Channel stopped'')] else []"]
  show ?case by auto
next
  case (Cons tr rounds)
  obtain r where r: "worker_round w config descriptor tr ws = Some r" "worker_inv w (round_state r)"
    "\<forall>diagnostic ws'. r = WorkerFailed diagnostic ws' \<longrightarrow> ws_connection ws' = None"
    using worker_round_inv [OF Cons.prems] by blast
  then show ?case using Cons.IH by (cases r) fastforce+
qed

section \<open>Reachable states\<close>

text \<open>Calls of other threads: Provider events, other Channels, the host.\<close>

lemma foreign_call_inv:
  assumes "worker_inv w ws"
  shows "\<exists>reply sh. perform pp (native_channel (nw_env w) (nw_inject w)) t call (ws_shared ws) = Some (reply, sh)
    \<and> worker_inv w (ws\<lparr>ws_shared := sh\<rparr>)"
proof -
  have ready: "native_ready (nw_channel w) (ws_shared ws)" using assms by (simp add: worker_inv_def worker_live_def)
  obtain reply sh where "perform pp (native_channel (nw_env w) (nw_inject w)) t call (ws_shared ws) = Some (reply, sh)"
    and grown: "native_ready (nw_channel w) sh"
      "delivery_grows (delivery_of (nw_channel w) (ws_shared ws)) (delivery_of (nw_channel w) sh)"
      "ds_client (delivery_of (nw_channel w) (ws_shared ws)) = None \<longrightarrow>
        delivery_of (nw_channel w) sh = delivery_of (nw_channel w) (ws_shared ws)"
    using perform_grows [OF ready] by blast
  moreover have "worker_inv w (ws\<lparr>ws_shared := sh\<rparr>)"
    using assms grown grows_kept [OF grown(2)]
    by (auto simp: worker_inv_def worker_live_def delivery_kept_def delivery_idle_def split: option.splits)
  ultimately show ?thesis by blast
qed

text \<open>The states of a worker between its passes, with calls of any thread in between. It starts for
  a registered Channel without a connection.\<close>

definition worker_started :: "('v, 'p, 'x) native_worker \<Rightarrow> 'p worker_state \<Rightarrow> bool" where
  "worker_started w ws \<longleftrightarrow> ws_connection ws = None \<and> native_ready (nw_channel w) (ws_shared ws)
     \<and> (\<exists>capacity status. capacity < usize_max
          \<and> delivery_of (nw_channel w) (ws_shared ws) = DeliveryState_new capacity status)"

inductive worker_reaches ::
  "('v, 'p, 'x) native_worker \<Rightarrow> native_channel_config \<Rightarrow> channel_descriptor \<Rightarrow> 'p worker_state \<Rightarrow> 'p worker_state \<Rightarrow> bool"
  for w config descriptor ws where
  start: "worker_reaches w config descriptor ws ws"
| pass: "worker_reaches w config descriptor ws ws1 \<Longrightarrow>
    worker_round w config descriptor tr ws1 = Some (Continue ws2) \<Longrightarrow> worker_reaches w config descriptor ws ws2"
| call: "worker_reaches w config descriptor ws ws1 \<Longrightarrow>
    perform (nw_providers w) (native_channel (nw_env w) (nw_inject w)) t c (ws_shared ws1) = Some (reply, sh) \<Longrightarrow>
    worker_reaches w config descriptor ws (ws1\<lparr>ws_shared := sh\<rparr>)"

lemma worker_started_inv: "worker_started w ws \<Longrightarrow> worker_inv w ws"
  by (auto simp: worker_started_def worker_inv_def worker_live_def delivery_idle_def delivery_bounded_def
      DeliveryState_new_def queued_len_def ds_pending_def)

lemma worker_reaches_inv:
  assumes "worker_reaches w config descriptor ws ws'" and "worker_inv w ws"
  shows "worker_inv w ws'"
  using assms
proof (induction rule: worker_reaches.induct)
  case (pass ws1 tr ws2)
  with worker_round_inv [of w ws1 config descriptor tr] show ?case by auto
next
  case (call ws1 t c reply sh)
  with foreign_call_inv [of w ws1 "nw_providers w" t c] show ?case by auto
qed

end
