(* ===== verification/Native_Subscription.thy ===== *)
theory Native_Subscription
  imports Native_Invariant
begin

text \<open>
  What the subscriptions of a Native client do to the Bridge, and in which order the frames of a
  subscription reach the queue: leaving a connection gives back the client's subscriptions and no
  other, and a synchronization is one batch however the Bridge's deliveries interleave with it.
\<close>

section \<open>Subscriptions given back\<close>

definition worker_open :: "('v, 'p, 'x) native_worker \<Rightarrow> 'p native_shared \<Rightarrow> bool" where
  "worker_open w sh \<longleftrightarrow> native_ready (nw_channel w) sh \<and> sh_alive sh
     \<and> ingress_open sh (cah_permit (nw_actions w)) \<and> bridge_inv (sh_bridge sh)"

lemma unsubscribe_rel_registered:
  assumes "bridge_inv b" and "bt_get (br_channels b) cid \<noteq> None" and "unsubscribe cid sid b = (r, b')"
  shows "subscription_rel b' = subscription_rel b - {(cid, sid)} \<and> br_channels b' = br_channels b"
proof (cases "bt_contains_key (br_sessions b) sid")
  case True
  from assms(3) have "(r, b') = unsubscribe cid sid b" by simp
  with True assms(2) obtain out where "r = Ok out" "br_channels b' = br_channels b"
    by (simp add: unsubscribe_def bt_contains_key_def Let_def case_prod_unfold)
  then show ?thesis using unsubscribe_rel [OF assms(3) [unfolded \<open>r = Ok out\<close>]] by simp
next
  case False
  with assms(1) have "bt_get (br_subscriptions b) sid = None"
    by (cases "bt_get (br_subscriptions b) sid") (auto simp: bridge_inv_def subscribers_ok_def bt_contains_key_def)
  then have "(cid, sid) \<notin> subscription_rel b" by (simp add: subscription_rel_def is_subscribed_def)
  with False assms(2,3) show ?thesis by (auto simp: unsubscribe_def bt_contains_key_def)
qed

lemma unsubscribe_all_rel:
  fixes w :: "('v, 'p, 'x) native_worker"
  assumes "worker_open w sh"
  shows "\<exists>b. unsubscribe_all w sids sh = Some (sh\<lparr>sh_bridge := b\<rparr>) \<and> bridge_inv b
    \<and> br_channels b = br_channels (sh_bridge sh)
    \<and> subscription_rel b = subscription_rel (sh_bridge sh) - {nw_channel w} \<times> set sids"
  using assms
proof (induction sids arbitrary: sh)
  case Nil
  then have "sh = sh\<lparr>sh_bridge := sh_bridge sh\<rparr>" "bridge_inv (sh_bridge sh)" by (simp_all add: worker_open_def)
  then show ?case by (intro exI [of _ "sh_bridge sh"]) simp
next
  case (Cons sid sids)
  let ?b = "sh_bridge sh"
  obtain r :: "(_, 'x subscription_error) result" and b1 where one: "unsubscribe (nw_channel w) sid ?b = (r, b1)" by fastforce
  have reg: "bt_get (br_channels ?b) (nw_channel w) \<noteq> None" and inv: "bridge_inv ?b"
    using Cons.prems by (simp_all add: worker_open_def native_ready_def port_of_def)
  have rel: "subscription_rel b1 = subscription_rel ?b - {(nw_channel w, sid)}" "br_channels b1 = br_channels ?b"
    using unsubscribe_rel_registered [OF inv reg one] by simp_all
  have "bridge_inv b1" by (rule bridge_inv_unsubscribe [OF inv one])
  then have "worker_open w (sh\<lparr>sh_bridge := b1\<rparr>)"
    using Cons.prems rel(2) by (simp add: worker_open_def native_ready_def port_of_def)
  from Cons.IH [OF this] obtain b where "unsubscribe_all w sids (sh\<lparr>sh_bridge := b1\<rparr>) = Some (sh\<lparr>sh_bridge := b\<rparr>)"
    "bridge_inv b" "br_channels b = br_channels ?b"
    "subscription_rel b = subscription_rel ?b - {nw_channel w} \<times> set (sid # sids)"
    using rel by auto
  moreover have "(handle_unsubscribe (nw_thread w) (nw_actions w) sid sh
      :: ((_, 'x channel_action_ingress_error) result \<times> _) option) =
      Some (map_err ChannelSubscription r, sh\<lparr>sh_bridge := b1\<rparr>)"
    using Cons.prems one by (simp add: worker_open_def native_ready_def handle_defs with_permit_quiet)
  ultimately show ?case by auto
qed

lemma rel_put_delivery [simp]: "subscription_rel (sh_bridge (put_delivery cid ds sh)) = subscription_rel (sh_bridge sh)"
  by (simp add: put_delivery_def subscription_rel_def is_subscribed_def split: option.split)

lemma worker_open_put: "worker_open w sh \<Longrightarrow> worker_open w (put_delivery (nw_channel w) ds sh)"
proof -
  assume open_sh: "worker_open w sh"
  have "bridge_inv (sh_bridge (put_delivery (nw_channel w) ds sh)) = bridge_inv (sh_bridge sh)"
    by (rule bridge_inv_frame) (simp add: put_delivery_def port_of_def put_channel_frame split: option.split)
  moreover have "ingress_open (put_delivery cid ds sh) p = ingress_open sh p"
    and "sh_alive (put_delivery cid ds sh) = sh_alive sh" for cid p
    by (simp_all add: put_delivery_def split: option.split)
  ultimately show ?thesis
    using open_sh by (simp add: worker_open_def ready_put)
qed

lemma disconnect_rel:
  assumes "worker_open w sh"
  shows "\<exists>sh'. disconnect w sh = Some sh' \<and> worker_open w sh' \<and> delivery_idle (delivery_of (nw_channel w) sh')
    \<and> subscription_rel (sh_bridge sh') = subscription_rel (sh_bridge sh)
        - {nw_channel w} \<times> {sid. client_subscribed sid (delivery_of (nw_channel w) sh)}"
proof -
  let ?sids = "case ds_client (delivery_of (nw_channel w) sh) of
    Some client \<Rightarrow> bs_elems (ac_subscriptions client) | None \<Rightarrow> []"
  obtain b where b: "unsubscribe_all w ?sids sh = Some (sh\<lparr>sh_bridge := b\<rparr>)" "br_channels b = br_channels (sh_bridge sh)"
    "bridge_inv b" "subscription_rel b = subscription_rel (sh_bridge sh) - {nw_channel w} \<times> set ?sids"
    using unsubscribe_all_rel [OF assms] by blast
  have "set ?sids = {sid. client_subscribed sid (delivery_of (nw_channel w) sh)}"
    by (cases "ds_client (delivery_of (nw_channel w) sh)") (simp_all add: client_subscribed_def)
  moreover have "worker_open w (sh\<lparr>sh_bridge := b\<rparr>)" "native_ready (nw_channel w) (sh\<lparr>sh_bridge := b\<rparr>)"
    using assms b(2,3) by (simp_all add: worker_open_def native_ready_def port_of_def)
  ultimately show ?thesis
    using b(1,4) by (simp add: disconnect_def Let_def update_delivery_def delivery_of_put delivery_idle_def
        worker_open_put clear_connection_def map_status_def)
qed

section \<open>The order of a synchronization\<close>

text \<open>A delivery of the Bridge to the Port outside the synchronization itself, and the frame it
  queues when it succeeds.\<close>

datatype port_call = PortEvent agent_event channel_event_route_kind | PortSession agent_session

fun call_session :: "port_call \<Rightarrow> session_id" where
  "call_session (PortEvent event _) = ev_session_id event"
| "call_session (PortSession session) = ses_id session"

fun call_port ::
  "'v native_env \<Rightarrow> port_call \<Rightarrow> delivery_state \<Rightarrow> (unit, native_channel_port_error) result \<times> delivery_state" where
  "call_port nv (PortEvent event route) ds = native_deliver_event nv event route ds"
| "call_port nv (PortSession session) ds = native_deliver_session nv session ds"

fun call_message :: "port_call \<Rightarrow> protocol_message" where
  "call_message (PortEvent event _) = AgentEventMessage event"
| "call_message (PortSession session) = AgentSessionMessage session"

fun call_route :: "port_call \<Rightarrow> channel_event_route_kind option" where
  "call_route (PortEvent _ route) = Some route"
| "call_route (PortSession _) = None"

lemma call_port_deliver: "call_port nv c ds = deliver nv (call_session c) (call_message c) (call_route c) ds"
  by (cases c) (simp_all add: native_deliver_event_def native_deliver_session_def)

definition call_frame :: "'v native_env \<Rightarrow> port_call \<Rightarrow> delivery_state \<Rightarrow> (frame, native_channel_port_error) result" where
  "call_frame nv c ds = and_then (ok_or NoActiveClient (ds_client ds)) (\<lambda>client.
     and_then (delivery_context client (call_session c) (call_route c)) (\<lambda>ctx.
     encoded_text nv (ServerDomain ctx (call_message c))))"

text \<open>A sequence of deliveries: the frames that were accepted, each with its Session.\<close>

fun call_ports ::
  "'v native_env \<Rightarrow> port_call list \<Rightarrow> delivery_state \<Rightarrow> (session_id \<times> frame) list \<times> delivery_state" where
  "call_ports nv [] ds = ([], ds)"
| "call_ports nv (c # cs) ds =
     (case call_port nv c ds of (r, ds1) \<Rightarrow>
      case call_ports nv cs ds1 of (accepted, ds2) \<Rightarrow>
        (case (r, call_frame nv c ds) of
           (Ok _, Ok frame) \<Rightarrow> ((call_session c, frame) # accepted, ds2)
         | _ \<Rightarrow> (accepted, ds2)))"

abbreviation frames_of :: "session_id \<Rightarrow> (session_id \<times> frame) list \<Rightarrow> frame list" where
  "frames_of sid accepted \<equiv> map snd (filter (\<lambda>(s, _). s = sid) accepted)"

abbreviation frames_beside :: "session_id \<Rightarrow> (session_id \<times> frame) list \<Rightarrow> frame list" where
  "frames_beside sid accepted \<equiv> map snd (filter (\<lambda>(s, _). s \<noteq> sid) accepted)"

text \<open>The state during the synchronization of a Session, and what deliveries add to it.\<close>

definition push_all :: "frame list \<Rightarrow> pending_subscription \<Rightarrow> pending_subscription" where
  "push_all frames p = fold push_pending frames p"

lemma push_all_fields:
  "ps_session_id (push_all frames p) = ps_session_id p \<and> ps_request_id (push_all frames p) = ps_request_id p
   \<and> ps_sync_delivered (push_all frames p) = ps_sync_delivered p
   \<and> ps_frames (push_all frames p) = (if ps_sync_delivered p then ps_frames p else ps_frames p @ frames)
   \<and> ps_trailing_frames (push_all frames p) =
       (if ps_sync_delivered p then ps_trailing_frames p @ frames else ps_trailing_frames p)"
  unfolding push_all_def by (induction frames arbitrary: p) (auto simp: push_pending_def)

lemma call_port_step:
  assumes "call_port nv c ds = (r, ds')" and "ds_client ds = Some client" and "ac_pending client = Some p"
  shows "case (r, call_frame nv c ds) of
      (Ok _, Ok frame) \<Rightarrow>
        if call_session c = ps_session_id p
        then ds_client ds' = Some (client\<lparr>ac_pending := Some (push_pending frame p)\<rparr>) \<and> ds_outgoing ds' = ds_outgoing ds
        else ds_client ds' = ds_client ds \<and> ds_outgoing ds' = ds_outgoing ds @ [frame]
    | _ \<Rightarrow> ds_client ds' = ds_client ds \<and> ds_outgoing ds' = ds_outgoing ds"
proof -
  have pending: "ds_pending ds = Some p" using assms by (simp add: ds_pending_def)
  show ?thesis
  proof (cases "call_frame nv c ds")
    case (Inl e)
    with assms show ?thesis by (auto simp: call_port_deliver deliver_def call_frame_def)
  next
    case (Inr frame)
    then have "deliver nv (call_session c) (call_message c) (call_route c) ds = (case pending_for (call_session c) ds of
         Some pending \<Rightarrow>
           if queued_len ds \<ge> ds_capacity ds then (Err (QueueFull (ds_capacity ds)), abort_queue ds)
           else (Ok (), count_domain_frames 1 (set_pending (Some (push_pending frame pending)) ds))
       | None \<Rightarrow>
           (case enqueue frame ds of
              (Err capacity, ds') \<Rightarrow> (Err (QueueFull capacity), ds')
            | (Ok _, ds') \<Rightarrow> (Ok (), count_domain_frames 1 ds')))"
      by (simp add: deliver_def call_frame_def)
    with assms pending Inr show ?thesis
      by (auto simp: call_port_deliver pending_for_def enqueue_def split: if_splits)
  qed
qed

lemma call_ports_step:
  assumes "call_ports nv cs ds = (accepted, ds')" and "ds_client ds = Some client" and "ac_pending client = Some p"
  shows "ds_client ds' = Some (client\<lparr>ac_pending := Some (push_all (frames_of (ps_session_id p) accepted) p)\<rparr>)
    \<and> ds_outgoing ds' = ds_outgoing ds @ frames_beside (ps_session_id p) accepted"
  using assms
proof (induction cs arbitrary: ds ds' client p accepted)
  case Nil
  then show ?case by (simp add: push_all_def)
next
  case (Cons c cs)
  obtain r ds1 where one: "call_port nv c ds = (r, ds1)" by fastforce
  obtain rest ds2 where two: "call_ports nv cs ds1 = (rest, ds2)" by fastforce
  note step = call_port_step [OF one Cons.prems(2,3)]
  show ?case
  proof (cases "\<exists>u frame. r = Ok u \<and> call_frame nv c ds = Ok frame")
    case True
    then obtain u frame where ok: "r = Ok u" "call_frame nv c ds = Ok frame" by blast
    then have acc: "accepted = (call_session c, frame) # rest" "ds' = ds2" using Cons.prems(1) one two by simp_all
    show ?thesis
    proof (cases "call_session c = ps_session_id p")
      case True
      with step ok have "ds_client ds1 = Some (client\<lparr>ac_pending := Some (push_pending frame p)\<rparr>)" "ds_outgoing ds1 = ds_outgoing ds"
        by simp_all
      from Cons.IH [OF two this(1)] this(2) acc True show ?thesis
        by (simp add: push_all_def push_pending_def)
    next
      case False
      with step ok Cons.prems have "ds_client ds1 = Some client" "ds_outgoing ds1 = ds_outgoing ds @ [frame]" by simp_all
      from Cons.IH [OF two this(1) Cons.prems(3)] this(2) acc False show ?thesis by simp
    qed
  next
    case False
    with step Cons.prems(2) have "ds_client ds1 = Some client" "ds_outgoing ds1 = ds_outgoing ds"
      by (auto split: sum.splits)
    moreover have "accepted = rest" "ds' = ds2"
      using False Cons.prems(1) one two by (auto split: sum.splits)
    ultimately show ?thesis using Cons.IH [OF two _ Cons.prems(3)] by simp
  qed
qed

lemma begin_subscribe_pending:
  assumes "begin_subscribe nv request_id sid ds = (Ok True, ds')"
  shows "\<exists>client. ds_client ds = Some client \<and> \<not> bs_contains (ac_subscriptions client) sid
    \<and> ds' = set_pending (Some \<lparr>ps_request_id = request_id, ps_session_id = sid, ps_frames = [],
          ps_trailing_frames = [], ps_sync_delivered = False\<rparr>) ds"
  using assms by (auto simp: begin_subscribe_def split: option.splits sum.splits prod.splits if_splits)

lemma session_sync_pending:
  assumes "native_deliver_session_sync nv sync ds = (Ok u, ds')" and "ds_client ds = Some client"
    and "ac_pending client = Some p"
  shows "\<exists>page. sync_frames nv (ps_session_id p) (ps_request_id p) sync = Ok page \<and> ds_outgoing ds' = ds_outgoing ds
    \<and> ds_client ds' = Some (client\<lparr>ac_pending := Some (p\<lparr>ps_frames := ps_frames p @ page, ps_sync_delivered := True\<rparr>)\<rparr>)"
  using assms
  by (auto simp: native_deliver_session_sync_def queue_sync_def ds_pending_def and_then_Ok_iff split: sum.splits if_splits)

lemma end_subscribe_batch:
  assumes "end_subscribe nv request_id sid outcome ds = (Ok u, ds')" and "ds_client ds = Some client"
    and "ac_pending client = Some p"
  shows "\<exists>result completed. server_text nv (ServerSubscriptionResult (subscription_result request_id sid outcome)) = Ok result
    \<and> server_text nv (ServerSyncCompleted request_id) = Ok completed
    \<and> ds_outgoing ds' = ds_outgoing ds @ result # ps_frames p @ completed # ps_trailing_frames p
    \<and> ds_client ds' = Some (client\<lparr>ac_pending := None,
        ac_subscriptions := (if sso_subscribed outcome then bs_insert sid (ac_subscriptions client) else ac_subscriptions client),
        ac_session_cursors := bt_insert sid (sso_through_sequence outcome) (ac_session_cursors client)\<rparr>)"
  using assms
  by (auto simp: end_subscribe_def Let_def enqueue_batch_def split: sum.splits if_splits)

section \<open>A subscription whose batch does not fit\<close>

lemma sync_session_subscribed:
  assumes "sync_session cp cid sid after n b = (Ok outcome, b')" and "sso_subscribed outcome"
  shows "is_subscribed b' cid sid"
  using assms
  by (auto simp: sync_session_def prepare_sync_def sync_outcome_def css_is_final_def Let_def and_then_Ok_iff
      split: if_splits option.splits sum.splits prod.splits)

lemma client_subscribed_kept:
  "client_kept (ds_client ds) (ds_client ds') \<Longrightarrow> client_subscribed sid ds' = client_subscribed sid ds"
  by (cases "ds_client ds"; cases "ds_client ds'") (simp_all add: client_subscribed_def)

lemma end_subscribe_full:
  assumes "delivery_bounded ds" and "ds_client ds = Some client" and "ac_pending client = Some p"
    and "sso_through_sequence outcome \<noteq> 0"
    and "server_text nv (ServerSubscriptionResult (subscription_result request_id sid outcome)) = Ok result"
    and "server_text nv (ServerSyncCompleted request_id) = Ok completed"
    and "ds_capacity ds < queued_len ds + 2"
  shows "\<exists>ds'. end_subscribe nv request_id sid outcome ds = (Err (Fatal (queue_error (ds_capacity ds))), ds')
    \<and> ds_client ds' = Some (client\<lparr>ac_pending := None\<rparr>)"
proof -
  let ?frames = "result # ps_frames p @ completed # ps_trailing_frames p"
  have "queued_len ds = length (ds_outgoing ds) + length (ps_frames p) + length (ps_trailing_frames p)"
    "queued_len (set_pending None ds) = length (ds_outgoing ds)"
    using assms(2,3) by (simp_all add: queued_len_def ds_pending_def)
  then have "ds_capacity ds < saturating_add (queued_len (set_pending None ds)) (length ?frames)"
    using assms(1,7) by (simp add: saturating_add_def delivery_bounded_def)
  then show ?thesis
    using assms by (simp add: end_subscribe_def Let_def enqueue_batch_def)
qed

text \<open>A synchronization through the worker's handle.\<close>

lemma worker_sync:
  fixes w :: "('v, 'p, 'x) native_worker"
  assumes "worker_open w sh"
    and "handle_sync_session (native_channel (nw_env w) (nw_inject w)) (nw_thread w) (nw_actions w) sid after n sh
      = Some (Ok outcome, sh')"
  shows "sync_session (native_channel (nw_env w) (nw_inject w)) (nw_channel w) sid after n (sh_bridge sh)
      = (Ok outcome, sh_bridge sh')"
    and "worker_open w sh'" and "delivery_grows (delivery_of (nw_channel w) sh) (delivery_of (nw_channel w) sh')"
proof -
  let ?cp = "native_channel (nw_env w) (nw_inject w)"
  obtain r b where sync: "sync_session ?cp (nw_channel w) sid after n (sh_bridge sh) = (r, b)" by fastforce
  have ready: "native_ready (nw_channel w) sh" using assms(1) by (simp add: worker_open_def)
  have step: "r = Ok outcome" "sh' = sh\<lparr>sh_bridge := b\<rparr>"
    using assms sync by (auto simp: worker_open_def native_ready_def handle_defs with_permit_quiet map_err_Ok_iff)
  then show "sync_session ?cp (nw_channel w) sid after n (sh_bridge sh) = (Ok outcome, sh_bridge sh')"
    using sync by simp
  obtain reply sh1 where one: "perform (nw_providers w) ?cp (nw_thread w) (CallSync (nw_actions w) sid after n) sh = Some (reply, sh1)"
    and grown: "native_ready (nw_channel w) sh1" "delivery_grows (delivery_of (nw_channel w) sh) (delivery_of (nw_channel w) sh1)"
    using perform_grows [OF ready] by blast
  have "sh1 = sh'" using one assms(2) by (simp add: reply_with_def)
  with grown show "delivery_grows (delivery_of (nw_channel w) sh) (delivery_of (nw_channel w) sh')" by simp
  have "bridge_inv b" using bridge_inv_sync_session [OF _ sync] assms(1) by (simp add: worker_open_def)
  with grown(1) \<open>sh1 = sh'\<close> assms(1) step show "worker_open w sh'" by (simp add: worker_open_def)
qed

text \<open>From the admission of a subscription to the end of its synchronization.\<close>

lemma worker_begin_sync:
  fixes w :: "('v, 'p, 'x) native_worker"
  assumes "worker_open w sh" and "delivery_bounded (delivery_of (nw_channel w) sh)"
    and "on_delivery (nw_channel w) (begin_subscribe (nw_env w) request_id sid) sh = (Ok True, sh1)"
    and "handle_sync_session (native_channel (nw_env w) (nw_inject w)) (nw_thread w) (nw_actions w) sid after n sh1
      = Some (Ok outcome, sh2)"
  shows "worker_open w sh2" and "delivery_bounded (delivery_of (nw_channel w) sh2)"
    and "\<not> client_subscribed sid (delivery_of (nw_channel w) sh2)"
    and "\<exists>client p. ds_client (delivery_of (nw_channel w) sh2) = Some client \<and> ac_pending client = Some p"
    and "sso_subscribed outcome \<Longrightarrow> is_subscribed (sh_bridge sh2) (nw_channel w) sid"
proof -
  let ?ds = "delivery_of (nw_channel w) sh" and ?ds1 = "delivery_of (nw_channel w) sh1"
  obtain ds1 where admit: "begin_subscribe (nw_env w) request_id sid ?ds = (Ok True, ds1)"
    and sh1: "sh1 = put_delivery (nw_channel w) ds1 sh"
    using assms(3) by (auto simp: on_delivery_def split: prod.splits)
  have open1: "worker_open w sh1" and ds1: "?ds1 = ds1"
    using assms(1) sh1 by (simp_all add: worker_open_put) (simp add: worker_open_def delivery_of_put)
  note sync = worker_sync [OF open1 assms(4)]
  obtain client where "ds_client ?ds = Some client" "\<not> bs_contains (ac_subscriptions client) sid"
    and "\<exists>c p. ds_client ?ds1 = Some c \<and> ac_subscriptions c = ac_subscriptions client \<and> ac_pending c = Some p"
    using begin_subscribe_pending [OF admit] ds1 by auto
  then show "\<not> client_subscribed sid (delivery_of (nw_channel w) sh2)"
    and "\<exists>client p. ds_client (delivery_of (nw_channel w) sh2) = Some client \<and> ac_pending client = Some p"
    using sync(3) by (cases "ds_client (delivery_of (nw_channel w) sh2)"; auto simp: delivery_grows_def client_subscribed_def)+
  show "worker_open w sh2" by (rule sync(2))
  show "delivery_bounded (delivery_of (nw_channel w) sh2)"
    using kept_begin_subscribe [of ?ds "nw_env w" request_id sid] admit ds1 assms(2) sync(3)
    by (simp add: delivery_kept_def delivery_grows_def)
  show "is_subscribed (sh_bridge sh2) (nw_channel w) sid" if "sso_subscribed outcome"
    by (rule sync_session_subscribed [OF sync(1) that])
qed

end
