(* ===== verification/Native_Samples.thy ===== *)
theory Native_Samples
  imports Native_Subscription Wire_Properties
begin

text \<open>
  A Native Channel registered with the sample Bridge, at which its properties are instantiated:
  the JSON layer of \<open>plain_native\<close> writes every value as the one byte \<open>A\<close>, and the Channel has
  the smallest queue its configuration allows.
\<close>

definition plain_native :: "unit native_env" where
  "plain_native =
     \<lparr>nv_wire = sample_wire,
      nv_json = \<lparr>js_to_vec = \<lambda>_. Ok [65], js_from_slice = \<lambda>_. Ok (), js_protocol_version = \<lambda>_. None,
        js_from_value = \<lambda>_. Err []\<rparr>,
      nv_uuid_error = \<lambda>_. [], nv_domain_error = \<lambda>_. [], nv_utf8_error = \<lambda>_. [],
      nv_value_to_vec = \<lambda>_. Ok [65], nv_transport_version = \<lambda>_. None,
      nv_client_to_vec = \<lambda>_. Ok [65], nv_client_from_value = \<lambda>_. Err [],
      nv_server_to_vec = \<lambda>_. Ok [65], nv_server_from_value = \<lambda>_. Err []\<rparr>"

definition sample_rid :: ustring where
  "sample_rid = decimal (unat (uuid7 9))"

definition native_client :: active_client where
  "native_client = \<lparr>ac_discovered = bs_insert sample_sid bt_empty, ac_subscriptions = bt_empty,
     ac_pending = None, ac_session_cursors = bt_empty\<rparr>"

definition native_delivery :: "active_client option \<Rightarrow> usize \<Rightarrow> delivery_state" where
  "native_delivery client capacity =
     (DeliveryState_new capacity native_channel_snapshot_default)\<lparr>ds_client := client\<rparr>"

definition native_bridge :: "delivery_state \<Rightarrow> (sample_p, native_channel_port) bridge" where
  "native_bridge ds = \<lparr>br_providers = br_providers live_bridge1,
     br_channels = bt_insert sample_cid \<lparr>rc_descriptor = sample_channel,
       rc_port = \<lparr>ncp_descriptor = sample_channel, ncp_state = ds\<rparr>\<rparr> bt_empty,
     br_session_config = br_session_config live_bridge1, br_sessions = br_sessions live_bridge1,
     br_subscriptions = bt_empty\<rparr>"

definition native_shared_at :: "delivery_state \<Rightarrow> sample_p native_shared" where
  "native_shared_at ds = \<lparr>sh_bridge = native_bridge ds, sh_owner = None, sh_permits = [permit_active], sh_alive = True\<rparr>"

definition sample_worker :: "(unit, sample_p, string) native_worker" where
  "sample_worker = \<lparr>nw_env = plain_native, nw_providers = sample_pp, nw_inject = \<lambda>_. ''native'', nw_show = \<lambda>_. [],
     nw_protocol_text = \<lambda>_. [], nw_actions = \<lparr>cah_channel_id = sample_cid, cah_permit = 0\<rparr>, nw_thread = 0\<rparr>"

lemma sample_rid_ok: "validate_uuid_v7 plain_native field sample_rid = Ok ()"
proof -
  have "we_uuid_parse sample_wire sample_rid = Some (uuid7 9)"
    using sample_wire_laws by (simp add: wire_laws_def sample_rid_def sample_wire_def)
  moreover have "v7 sample_wire (uuid7 9)" by (simp add: v7_def sample_wire_def uuid7_def)
  moreover have "we_uuid_show sample_wire (uuid7 9) = sample_rid" by (simp add: sample_rid_def sample_wire_def)
  ultimately show ?thesis by (auto simp: validate_uuid_v7_Ok_iff plain_native_def)
qed

lemma native_bridge_inv: "bridge_inv (native_bridge ds)"
proof -
  have providers: "br_provider_descriptor (native_bridge ds) = br_provider_descriptor live_bridge1"
    by (rule ext) (simp add: br_provider_descriptor_def native_bridge_def)
  then have sessions: "session_ok (native_bridge ds) = session_ok live_bridge1"
    by (intro ext) (simp add: session_ok_def native_bridge_def)
  have "br_channel_descriptor (native_bridge ds) cid = Some d \<Longrightarrow> cd_id d = cid" for cid d
    by (auto simp: br_channel_descriptor_def native_bridge_def sample_defs split: if_splits)
  moreover have "br_sessions (native_bridge ds) = br_sessions live_bridge1" "br_subscriptions (native_bridge ds) = bt_empty"
    by (simp_all add: native_bridge_def)
  ultimately show ?thesis
    using live_inv unfolding bridge_inv_def providers sessions by simp
qed

lemma sample_worker_open: "worker_open sample_worker (native_shared_at ds)"
  by (simp add: worker_open_def native_shared_at_def sample_worker_def native_ready_def quiet_def port_of_def
      ingress_open_def permit_cell_def permit_active_def native_bridge_inv) (simp add: native_bridge_def)

lemma sample_delivery_of: "delivery_of sample_cid (native_shared_at ds) = ds"
  by (simp add: delivery_of_def port_of_def native_shared_at_def native_bridge_def)

lemma plain_text:
  "validate_server_message plain_native m = Ok () \<Longrightarrow> server_from_semantic plain_native m = Ok d \<Longrightarrow> server_text plain_native m = Ok [65]"
  by (simp add: server_text_def encode_server_message_def native_encode_envelope_def plain_native_def)

lemma sample_domain:
  "encode_domain_value plain_native (AgentEventMessage event1) = Ok ()"
  "encode_domain_value plain_native (AgentSessionMessage sample_session) = Ok ()"
  by (simp_all add: encode_domain_value_def encode_json_def plain_native_def encode_envelope_def encode_event_def
      encode_session_def encode_timestamp_def sample_wire_def sample_defs)

text \<open>The page of the sample Session: its one event and its state, as two frames.\<close>

definition sample_sync :: channel_session_sync where
  "sample_sync = \<lparr>css_after_sequence = 0, css_through_sequence = 1, css_reset = False,
     css_events = [\<lparr>rae_event = event1, rae_route = ObserveOnly\<rparr>],
     css_baseline = Some \<lparr>csb_session = sample_session, csb_sequence = 1, csb_pending_interactions = []\<rparr>\<rparr>"

lemma sample_prepare:
  "prepare_sync sample_cid sample_provider sample_channel agg_live 0 SESSION_SYNC_PAGE_EVENTS =
     (Ok sample_sync :: (_, string subscription_error) result)"
proof -
  have live: "agg_session agg_live = sample_session" "agg_pending_interactions agg_live = bt_empty"
    by (simp_all add: agg_live_def agg_at_1_def)
  have "retained_event_page_after agg_live 0 SESSION_SYNC_PAGE_EVENTS = Some [event1]"
    by (simp add: retained_event_page_after_def live_facts checked_next_def SESSION_SYNC_PAGE_EVENTS_def)
  moreover have "channel_event_route sample_provider sample_channel sample_session event1 = Ok ObserveOnly"
    by (simp add: channel_event_route_Ok)
  ultimately show ?thesis
    by (simp add: prepare_sync_def sync_page_def route_page_def live live_facts(6) sample_sync_def route_pending_def
        bt_values_def)
qed

lemma sample_texts:
  "encoded_text plain_native (ServerDomain (LiveEvent NativeObserveOnly) (AgentEventMessage event1)) = Ok [65]"
  "encoded_text plain_native (ServerDomain (SubscriptionSession sample_rid) (AgentSessionMessage sample_session)) = Ok [65]"
  by (simp_all add: encoded_text_def plain_text validate_delivery_context_def sample_domain sample_rid_ok)

lemma sample_frames: "sync_frames plain_native sample_sid sample_rid sample_sync = Ok [[65], [65]]"
  by (simp add: sync_frames_def sample_sync_def event_frame_def live_route_def sample_texts
     baseline_frames_def session_frame_def)

lemma sample_control:
  "server_text plain_native (ServerSubscriptionResult (subscription_result sample_rid sample_sid outcome)) = Ok [65]"
  "server_text plain_native (ServerSyncCompleted sample_rid) = Ok [65]"
  by (simp_all add: plain_text sample_rid_ok subscription_result_def)

text \<open>The subscription of the sample client up to the end of its synchronization.\<close>

definition pending_sample :: "frame list \<Rightarrow> bool \<Rightarrow> pending_subscription" where
  "pending_sample frames delivered = \<lparr>ps_request_id = sample_rid, ps_session_id = sample_sid, ps_frames = frames,
     ps_trailing_frames = [], ps_sync_delivered = delivered\<rparr>"

lemma pending_sample_fields [simp]:
  "ps_request_id (pending_sample frames delivered) = sample_rid" "ps_session_id (pending_sample frames delivered) = sample_sid"
  "ps_frames (pending_sample frames delivered) = frames" "ps_trailing_frames (pending_sample frames delivered) = []"
  "(pending_sample frames delivered)\<lparr>ps_frames := frames', ps_sync_delivered := delivered'\<rparr> = pending_sample frames' delivered'"
  by (simp_all add: pending_sample_def)

definition waiting_delivery :: "usize \<Rightarrow> delivery_state" where
  "waiting_delivery capacity = set_pending (Some (pending_sample [] False)) (native_delivery (Some native_client) capacity)"

definition synced_delivery :: "usize \<Rightarrow> delivery_state" where
  "synced_delivery capacity = count_domain_frames 2
     (set_pending (Some (pending_sample [[65], [65]] True)) (native_delivery (Some native_client) capacity))"

lemmas delivery_samples = waiting_delivery_def synced_delivery_def pending_sample_def native_delivery_def native_client_def
  DeliveryState_new_def map_client_def set_pending_def

lemma sample_begin:
  "begin_subscribe plain_native sample_rid sample_sid (native_delivery (Some native_client) capacity) =
     (Ok True, waiting_delivery capacity)"
  by (simp add: begin_subscribe_def delivery_samples)

lemma sample_session_sync:
  assumes "2 \<le> capacity" and "capacity < usize_max"
  shows "native_deliver_session_sync plain_native sample_sync (waiting_delivery capacity) = (Ok (), synced_delivery capacity)"
proof -
  have "ds_pending (waiting_delivery capacity) = Some (pending_sample [] False)"
    "queued_len (waiting_delivery capacity) = 0" "ds_capacity (waiting_delivery capacity) = capacity"
    by (simp_all add: delivery_samples ds_pending_def queued_len_def)
  moreover have "\<not> saturating_add 0 2 > capacity" using assms by (simp add: saturating_add_def)
  ultimately show ?thesis
    using sample_frames
    by (simp add: native_deliver_session_sync_def queue_sync_def numeral_2_eq_2)
      (simp add: waiting_delivery_def synced_delivery_def set_pending_def map_client_def native_delivery_def
        numeral_2_eq_2)
qed

lemma put_native_shared: "put_delivery sample_cid ds' (native_shared_at ds) = native_shared_at ds'"
  by (simp add: put_delivery_def port_of_def native_shared_at_def native_bridge_def)

lemma sample_on_delivery:
  "f ds = (r, ds') \<Longrightarrow> on_delivery sample_cid f (native_shared_at ds) = (r, native_shared_at ds')"
  by (simp add: on_delivery_def sample_delivery_of put_native_shared)

text \<open>The Bridge hands the page to the Port and activates the subscription.\<close>

definition activated :: "sample_p native_shared \<Rightarrow> sample_p native_shared" where
  "activated sh = sh\<lparr>sh_bridge := activate_subscription sample_cid sample_sid (sh_bridge sh)\<rparr>"

lemma sample_native_sync:
  assumes "2 \<le> capacity" and "capacity < usize_max"
  shows "handle_sync_session (native_channel plain_native (\<lambda>_. ''native'')) 0 \<lparr>cah_channel_id = sample_cid, cah_permit = 0\<rparr>
      sample_sid 0 SESSION_SYNC_PAGE_EVENTS (native_shared_at (waiting_delivery capacity)) =
    Some (Ok (sync_outcome sample_sync), activated (native_shared_at (synced_delivery capacity)))"
proof -
  let ?cp = "native_channel plain_native (\<lambda>_. ''native'')"
  let ?b = "native_bridge (waiting_delivery capacity)"
  have "rc_deliver_session_sync ?cp \<lparr>rc_descriptor = sample_channel,
      rc_port = \<lparr>ncp_descriptor = sample_channel, ncp_state = waiting_delivery capacity\<rparr>\<rparr> sample_sync =
    (Ok (), \<lparr>rc_descriptor = sample_channel, rc_port = \<lparr>ncp_descriptor = sample_channel, ncp_state = synced_delivery capacity\<rparr>\<rparr>)"
    using sample_session_sync [OF assms] by (simp add: rc_calls rc_handoff_def native_channel_def on_port_def)
  moreover have "bt_get (br_sessions ?b) sample_sid = Some agg_live" "\<not> is_subscribed ?b sample_cid sample_sid"
    using live_facts(2) by (simp_all add: native_bridge_def is_subscribed_def)
  moreover have "bt_get (br_providers ?b) (ses_provider_id (agg_session agg_live)) =
      Some \<lparr>rp_descriptor = sample_provider, rp_port = ([], [])\<rparr>"
    by (simp add: native_bridge_def agg_live_def agg_at_1_def live_bridge1_def live_bridge_def bridge_samples
        sample_session_def session_builder_def)
  moreover have "bt_get (br_channels ?b) sample_cid = Some \<lparr>rc_descriptor = sample_channel,
      rc_port = \<lparr>ncp_descriptor = sample_channel, ncp_state = waiting_delivery capacity\<rparr>\<rparr>"
    by (simp add: native_bridge_def)
  moreover have "SESSION_SYNC_PAGE_EVENTS \<noteq> 0" "css_through_sequence sample_sync = last_sequence agg_live"
    by (simp_all add: SESSION_SYNC_PAGE_EVENTS_def sample_sync_def live_facts(6))
  moreover have "?b\<lparr>br_channels := bt_insert sample_cid \<lparr>rc_descriptor = sample_channel,
      rc_port = \<lparr>ncp_descriptor = sample_channel, ncp_state = synced_delivery capacity\<rparr>\<rparr> (br_channels ?b)\<rparr> =
      native_bridge (synced_delivery capacity)"
    by (simp add: native_bridge_def)
  ultimately have "sync_session ?cp sample_cid sample_sid 0 SESSION_SYNC_PAGE_EVENTS ?b =
      (Ok (sync_outcome sample_sync), activate_subscription sample_cid sample_sid (native_bridge (synced_delivery capacity)))"
    by (simp add: sync_session_def sample_prepare)
  moreover have "quiet (native_shared_at ds)" "sh_alive (native_shared_at ds)" "ingress_open (native_shared_at ds) 0"
    "sh_bridge (native_shared_at ds) = native_bridge ds" for ds
    by (simp_all add: native_shared_at_def quiet_def permit_active_def ingress_open_def permit_cell_def)
  moreover have "(native_shared_at (waiting_delivery capacity))\<lparr>sh_bridge := b\<rparr> =
      (native_shared_at (synced_delivery capacity))\<lparr>sh_bridge := b\<rparr>" for b
    by (simp add: native_shared_at_def)
  ultimately show ?thesis
    by (simp add: handle_defs with_permit_quiet activated_def)
qed

section \<open>The sample worker\<close>

definition idle_worker_state :: "sample_p worker_state" where
  "idle_worker_state = \<lparr>ws_connection = None, ws_shared = native_shared_at (native_delivery None 3), ws_sent = []\<rparr>"

text \<open>A pass in which a client connects and sends nothing yet.\<close>

definition connecting_round :: transport_round where
  "connecting_round = \<lparr>tr_accept = AcceptSocket None, tr_accepted_at = 5, tr_authorized = True, tr_send = \<lambda>_. Ok (),
     tr_now = 6, tr_ping = Ok (), tr_read = Ok ReadTimeout, tr_read_at = 7, tr_connection_id = sample_rid\<rparr>"

definition sample_native_config :: native_channel_config where
  "sample_native_config = \<lparr>ncc_channel_id = sample_cid, ncc_bind_address = (IpV4 (push_bit 24 127), 0), ncc_loopback = True,
     ncc_handshake_timeout = 5000, ncc_io_poll_interval = 10, ncc_ping_interval = 15000, ncc_idle_timeout = 45000,
     ncc_shutdown_timeout = 2000, ncc_max_frame_bytes = 65536, ncc_outbound_capacity = 3, ncc_host_run_id = sample_rid\<rparr>"

lemma sample_config_valid: "validate_config sample_native_config = Ok ()"
  by (simp add: validate_config_def sample_native_config_def positive_settings_def)

lemma sample_worker_channel [simp]: "cah_channel_id (nw_actions sample_worker) = sample_cid"
  by (simp add: sample_worker_def)

lemma sample_started: "worker_started sample_worker idle_worker_state"
proof -
  have "native_ready sample_cid (native_shared_at (native_delivery None 3))"
    using sample_worker_open by (simp add: worker_open_def)
  then show ?thesis
    by (auto simp: worker_started_def idle_worker_state_def sample_delivery_of native_delivery_def usize_max_def
        DeliveryState_new_def)
qed

definition connected_worker_state :: "sample_p worker_state" where
  "connected_worker_state = idle_worker_state\<lparr>ws_connection := Some \<lparr>nc_authenticated = None, nc_handshaken = False,
     nc_accepted_at = 5, nc_last_activity = 5, nc_last_ping = 5\<rparr>\<rparr>"

lemma update_native_shared: "update_delivery sample_cid f (native_shared_at ds) = native_shared_at (f ds)"
  by (simp add: update_delivery_def sample_delivery_of put_native_shared)

lemma sample_round:
  "worker_round sample_worker sample_native_config sample_channel connecting_round idle_worker_state =
     Some (Continue connected_worker_state)"
  by (simp add: worker_round_def accept_round_def serve_round_def drain_round_def timed_round_def read_round_def
      connecting_round_def idle_worker_state_def connected_worker_state_def sample_delivery_of native_delivery_def
      DeliveryState_new_def sample_native_config_def ws_send_def ws_update_def update_native_shared map_status_def)

lemma activated_delivery: "delivery_of sample_cid (activated (native_shared_at ds)) = ds"
  by (simp add: delivery_of_def port_of_def activated_def activate_subscription_def native_shared_at_def native_bridge_def)

lemma activated_open: "worker_open sample_worker (activated (native_shared_at ds))"
proof -
  have "bridge_inv (activate_subscription sample_cid sample_sid (native_bridge ds))"
    by (rule activate_inv [OF native_bridge_inv])
      (use live_facts(2) in \<open>simp_all add: native_bridge_def br_channel_descriptor_def\<close>)
  moreover have "sh_bridge (native_shared_at ds) = native_bridge ds" by (simp add: native_shared_at_def)
  moreover have "br_channels (activate_subscription sample_cid sample_sid b) = br_channels b" for b :: "(sample_p, native_channel_port) bridge"
    by (simp add: activate_subscription_def)
  ultimately show ?thesis
    using sample_worker_open [of ds] by (simp add: worker_open_def native_ready_def port_of_def activated_def)
qed

lemma synced_facts:
  "ds_client (synced_delivery capacity) = Some (native_client\<lparr>ac_pending := Some (pending_sample [[65], [65]] True)\<rparr>)"
  "queued_len (synced_delivery capacity) = 2" "queued_len (set_pending None (synced_delivery capacity)) = 0"
  "ds_capacity (synced_delivery capacity) = capacity"
  by (simp_all add: synced_delivery_def native_delivery_def DeliveryState_new_def queued_len_def ds_pending_def)

lemma sample_outcome: "sso_through_sequence (sync_outcome sample_sync) = 1" "sso_subscribed (sync_outcome sample_sync)"
  by (simp_all add: sync_outcome_def sample_sync_def css_is_final_def)

lemma sample_end:
  assumes "end_subscribe plain_native sample_rid sample_sid (sync_outcome sample_sync) (synced_delivery 8) = (r, ds')"
  shows "r = Ok ()"
proof -
  have "\<not> saturating_add 0 (Suc (Suc (Suc (Suc 0)))) > (8 :: nat)" by (simp add: saturating_add_def usize_max_def)
  with assms show ?thesis
    by (simp add: end_subscribe_def sample_control sample_outcome synced_facts Let_def enqueue_batch_def split: if_splits)
qed

section \<open>An environment with frames\<close>

text \<open>Its JSON layer knows the command envelope of the wire protocol, one client and one server frame;
  its values are numbers.\<close>

definition framed_client_dto :: "nat client_message_dto native_envelope" where
  "framed_client_dto = \<lparr>nev_native_transport_version = NATIVE_TRANSPORT_VERSION, nev_message = SubmitCommandDto sample_rid 7\<rparr>"

definition framed_server_dto :: "nat server_message_dto native_envelope" where
  "framed_server_dto = \<lparr>nev_native_transport_version = NATIVE_TRANSPORT_VERSION, nev_message = SyncCompletedDto sample_rid\<rparr>"

definition framed_native :: "nat native_env" where
  "framed_native =
     \<lparr>nv_wire = sample_wire,
      nv_json = \<lparr>js_to_vec = \<lambda>e. if e = wire_command_dto then Ok [7] else Err [],
        js_from_slice = \<lambda>bytes. if length bytes = 1 then Ok (unat (hd bytes)) else Err [],
        js_protocol_version = \<lambda>v. if v = 7 then Some 2 else None,
        js_from_value = \<lambda>v. if v = 7 then Ok wire_command_dto else Err []\<rparr>,
      nv_uuid_error = \<lambda>_. [], nv_domain_error = \<lambda>_. [], nv_utf8_error = \<lambda>_. [],
      nv_value_to_vec = \<lambda>v. Ok [of_nat v],
      nv_transport_version = \<lambda>v. if v = 8 \<or> v = 9 then Some (ucast NATIVE_TRANSPORT_VERSION) else None,
      nv_client_to_vec = \<lambda>e. if e = framed_client_dto then Ok [8] else Err [],
      nv_client_from_value = \<lambda>v. if v = 8 then Ok framed_client_dto else Err [],
      nv_server_to_vec = \<lambda>e. if e = framed_server_dto then Ok [9] else Err [],
      nv_server_from_value = \<lambda>v. if v = 9 then Ok framed_server_dto else Err []\<rparr>"

lemma framed_laws: "native_laws framed_native"
  using sample_wire_laws
  by (simp add: native_laws_def framed_native_def json_laws_def writes_back_def wire_command_dto_def
      framed_client_dto_def framed_server_dto_def)

lemma framed_rid: "validate_uuid_v7 framed_native field sample_rid = Ok ()"
  using sample_rid_ok by (simp add: validate_uuid_v7_def plain_native_def framed_native_def)

lemma framed_client:
  "native_client_valid framed_native (ClientCommand sample_rid wire_command_sample)"
  "encode_client_message framed_native (ClientCommand sample_rid wire_command_sample) = Ok [8]"
proof -
  have "nv_wire framed_native = sample_wire" by (simp add: framed_native_def)
  then show "native_client_valid framed_native (ClientCommand sample_rid wire_command_sample)"
    using wire_command_valid framed_rid by (simp add: native_client_valid_def del: wire_message.simps)
  have "encode_domain_value framed_native (AgentCommandMessage wire_command_sample) = Ok 7"
    using wire_command_encoded
    by (auto simp: encode_domain_value_def encode_json_def framed_native_def sample_json_def result_simps split: if_splits)
  then show "encode_client_message framed_native (ClientCommand sample_rid wire_command_sample) = Ok [8]"
    using framed_rid
    by (simp add: encode_client_message_def native_encode_envelope_def) (simp add: framed_native_def framed_client_dto_def)
qed

lemma framed_server:
  "native_server_valid framed_native (ServerSyncCompleted sample_rid)"
  "encode_server_message framed_native (ServerSyncCompleted sample_rid) = Ok [9]"
  using framed_rid
  by (simp_all add: native_server_valid_def encode_server_message_def native_encode_envelope_def)
    (simp add: framed_native_def framed_server_dto_def)

end
