(* ===== verification/Native_Properties.thy ===== *)
theory Native_Properties
  imports Native_Samples
begin

text \<open>The properties of the Native Channel, each with an instance.\<close>

section \<open>Frames\<close>

text \<open>Native frames survive the socket: a valid client message is read back by the server as the message
  the client wrote, a valid server message by the client as the one the server wrote, and whatever
  either side accepts from the socket is valid, in particular every nested domain message is.
  The laws of the UUID, RFC 3339 and JSON libraries are the only assumption.\<close>

lemma native_frames_round_trip:
  assumes "native_laws nv"
  shows "(\<forall>m bytes. native_client_valid nv m \<longrightarrow> encode_client_message nv m = Ok bytes \<longrightarrow> decode_client_message nv bytes = Ok m)
    \<and> (\<forall>m bytes. native_server_valid nv m \<longrightarrow> encode_server_message nv m = Ok bytes \<longrightarrow> decode_server_message nv bytes = Ok m)
    \<and> (\<forall>m bytes. decode_client_message nv bytes = Ok m \<longrightarrow> native_client_valid nv m)
    \<and> (\<forall>m bytes. decode_server_message nv bytes = Ok m \<longrightarrow> native_server_valid nv m)"
  using client_frame.round [OF assms] server_frame.round [OF assms] client_frame.sound [of nv] server_frame.sound [of nv]
  by blast

section \<open>The worker\<close>

text \<open>(C17) A Native worker that starts without a client stays consistent through all passes of its loop,
  whatever the sockets and the clock answer, and through all calls other threads make on the Bridge
  in between: the frames queued and withheld never exceed the configured capacity, a client is
  present exactly while a connection has completed its handshake, and without a connection nothing is
  queued and no abort is pending.\<close>

theorem native_worker_consistent:
  assumes "worker_started w ws" and "worker_reaches w config descriptor ws ws'"
  defines "ds \<equiv> delivery_of (nw_channel w) (ws_shared ws')"
  shows "queued_len ds \<le> ds_capacity ds
    \<and> (ds_client ds \<noteq> None \<longleftrightarrow> (\<exists>conn. ws_connection ws' = Some conn \<and> nc_handshaken conn))
    \<and> (ws_connection ws' = None \<longrightarrow> ds_outgoing ds = [] \<and> ds_abort_reason ds = None)"
  using worker_reaches_inv [OF assms(2) worker_started_inv [OF assms(1)]]
  by (auto simp: ds_def worker_inv_def worker_live_def delivery_bounded_def delivery_idle_def split: option.splits)

theorem native_worker_consistent_witness:
  "ds_client (delivery_of sample_cid (ws_shared connected_worker_state)) = None"
proof -
  have "worker_reaches sample_worker sample_native_config sample_channel idle_worker_state connected_worker_state"
    by (rule worker_reaches.pass [OF worker_reaches.start sample_round])
  from native_worker_consistent [OF sample_started this] show ?thesis
    by (auto simp: connected_worker_state_def)
qed

text \<open>(C21) The worker always ends: whatever the sockets answer in any number of passes, its loop
  returns once the stop flag is seen or the listener fails, never waiting for a lock, and leaves the
  Channel without connection, client, queued frames or abort.\<close>

theorem native_worker_returns:
  assumes "worker_started w ws" and "worker_reaches w config descriptor ws ws1"
  shows "\<exists>r ws'. run_worker w config descriptor rounds ws1 = Some (r, ws') \<and> ws_connection ws' = None
    \<and> delivery_idle (delivery_of (nw_channel w) (ws_shared ws'))"
proof -
  have "worker_inv w ws1" by (rule worker_reaches_inv [OF assms(2) worker_started_inv [OF assms(1)]])
  from run_worker_returns [OF this, of config descriptor rounds] show ?thesis by (auto simp: worker_inv_def)
qed

theorem native_worker_returns_witness:
  "\<exists>r ws'. run_worker sample_worker sample_native_config sample_channel [connecting_round] idle_worker_state = Some (r, ws')
     \<and> ws_connection ws' = None"
  using native_worker_returns [OF sample_started worker_reaches.start,
    of sample_native_config sample_channel "[connecting_round]"] by blast

section \<open>Subscriptions\<close>

text \<open>(C19) Leaving a connection gives back exactly what the client subscribed to: afterwards the Bridge
  has the subscriptions it had before, without those of this Channel to the Sessions the client was
  subscribed to.\<close>

theorem native_disconnect_unsubscribes:
  assumes "worker_open w sh"
  shows "\<exists>sh'. disconnect w sh = Some sh' \<and> delivery_idle (delivery_of (nw_channel w) sh')
    \<and> subscription_rel (sh_bridge sh') = subscription_rel (sh_bridge sh)
        - {nw_channel w} \<times> {sid. client_subscribed sid (delivery_of (nw_channel w) sh)}"
  using disconnect_rel [OF assms] by blast

theorem native_disconnect_unsubscribes_witness:
  "\<exists>sh'. disconnect sample_worker (activated (native_shared_at
       (native_delivery (Some (native_client\<lparr>ac_subscriptions := bs_insert sample_sid bt_empty\<rparr>)) 3))) = Some sh'
     \<and> subscription_rel (sh_bridge sh') = {}"
proof -
  let ?ds = "native_delivery (Some (native_client\<lparr>ac_subscriptions := bs_insert sample_sid bt_empty\<rparr>)) 3"
  have "subscription_rel (sh_bridge (activated (native_shared_at ?ds))) = {(sample_cid, sample_sid)}"
    by (simp add: activated_def activate_rel native_shared_at_def)
      (simp add: subscription_rel_def is_subscribed_def native_bridge_def)
  moreover have "client_subscribed sample_sid (delivery_of sample_cid (activated (native_shared_at ?ds)))"
    by (simp add: activated_delivery client_subscribed_def native_delivery_def)
  ultimately show ?thesis
    using native_disconnect_unsubscribes [OF activated_open, of ?ds] by auto
qed

text \<open>(C18) A subscription is one ordered batch. The Bridge may deliver other events between the steps of
  \<open>process_subscribe\<close>. When the subscription succeeds the client is sent, after what was queued
  and what other Sessions delivered meanwhile: the result, what its own Session delivered before the
  page, the page, the completion, and what its Session delivered after the page. The cursor of the
  Session moves to the end of the page, and the client counts as subscribed if the page was final.\<close>

theorem native_subscription_is_one_batch:
  assumes "begin_subscribe nv request_id sid ds = (Ok True, ds0)"
    and "call_ports nv before ds0 = (early, ds1)"
    and "native_deliver_session_sync nv sync ds1 = (Ok u, ds2)"
    and "call_ports nv later ds2 = (late, ds3)"
    and "end_subscribe nv request_id sid outcome ds3 = (Ok v, ds4)"
  shows "\<exists>client result page completed. ds_client ds = Some client
    \<and> server_text nv (ServerSubscriptionResult (subscription_result request_id sid outcome)) = Ok result
    \<and> sync_frames nv sid request_id sync = Ok page
    \<and> server_text nv (ServerSyncCompleted request_id) = Ok completed
    \<and> ds_outgoing ds4 = ds_outgoing ds @ frames_beside sid (early @ late)
        @ result # frames_of sid early @ page @ completed # frames_of sid late
    \<and> ds_client ds4 = Some (client\<lparr>ac_pending := None,
        ac_subscriptions := (if sso_subscribed outcome then bs_insert sid (ac_subscriptions client) else ac_subscriptions client),
        ac_session_cursors := bt_insert sid (sso_through_sequence outcome) (ac_session_cursors client)\<rparr>)"
proof -
  let ?p = "\<lparr>ps_request_id = request_id, ps_session_id = sid, ps_frames = [], ps_trailing_frames = [],
    ps_sync_delivered = False\<rparr>"
  obtain client where client: "ds_client ds = Some client" and ds0: "ds0 = set_pending (Some ?p) ds"
    using begin_subscribe_pending [OF assms(1)] by blast
  then have c0: "ds_client ds0 = Some (client\<lparr>ac_pending := Some ?p\<rparr>)" and o0: "ds_outgoing ds0 = ds_outgoing ds" by simp_all
  have c1: "ds_client ds1 = Some (client\<lparr>ac_pending := Some (push_all (frames_of sid early) ?p)\<rparr>)"
    and o1: "ds_outgoing ds1 = ds_outgoing ds @ frames_beside sid early"
    using call_ports_step [OF assms(2) c0, of ?p] o0 by simp_all
  let ?p1 = "push_all (frames_of sid early) ?p"
  obtain page where page: "sync_frames nv sid request_id sync = Ok page" and o2: "ds_outgoing ds2 = ds_outgoing ds1"
    and c2: "ds_client ds2 = Some (client\<lparr>ac_pending := Some (?p1\<lparr>ps_frames := ps_frames ?p1 @ page, ps_sync_delivered := True\<rparr>)\<rparr>)"
    using session_sync_pending [OF assms(3) c1, of ?p1] push_all_fields [of "frames_of sid early" ?p] by auto
  let ?p2 = "?p1\<lparr>ps_frames := ps_frames ?p1 @ page, ps_sync_delivered := True\<rparr>"
  have p2: "ps_session_id ?p2 = sid" using push_all_fields [of "frames_of sid early" ?p] by simp
  have c3: "ds_client ds3 = Some (client\<lparr>ac_pending := Some (push_all (frames_of sid late) ?p2)\<rparr>)"
    and o3: "ds_outgoing ds3 = ds_outgoing ds2 @ frames_beside sid late"
    using call_ports_step [OF assms(4) c2, of ?p2] p2 by simp_all
  let ?p3 = "push_all (frames_of sid late) ?p2"
  have p3: "ps_frames ?p3 = frames_of sid early @ page" "ps_trailing_frames ?p3 = frames_of sid late"
    using push_all_fields [of "frames_of sid late" ?p2] push_all_fields [of "frames_of sid early" ?p] by simp_all
  show ?thesis
    using end_subscribe_batch [OF assms(5) c3, of ?p3] client page o1 o2 o3 p3 by auto
qed

theorem native_subscription_is_one_batch_witness:
  "\<exists>ds4. fst (end_subscribe plain_native sample_rid sample_sid (sync_outcome sample_sync) (synced_delivery 8)) = Ok ()
     \<and> snd (end_subscribe plain_native sample_rid sample_sid (sync_outcome sample_sync) (synced_delivery 8)) = ds4
     \<and> ds_outgoing ds4 = [[65], [65], [65], [65]]"
proof -
  have "2 \<le> (8 :: nat)" "8 < usize_max" by (simp_all add: usize_max_def)
  note sync = sample_session_sync [OF this]
  obtain r ds4 where fin: "end_subscribe plain_native sample_rid sample_sid (sync_outcome sample_sync) (synced_delivery 8) = (r, ds4)"
    by fastforce
  moreover have "r = Ok ()" using fin by (rule sample_end)
  ultimately show ?thesis
    using native_subscription_is_one_batch [OF sample_begin call_ports.simps(1) sync call_ports.simps(1)]
      sample_control sample_frames
    by (auto simp: native_delivery_def DeliveryState_new_def)
qed

text \<open>(C20) A subscription whose page fits into the queue but whose result and completion do not is fatal to
  the connection, and it outlives it: the Bridge has already activated it, the disconnect does not give
  it back because the client never recorded it, and from then on synchronizing the Session answers
  \<open>subscribed\<close> without events and without a baseline, whatever the next client already knows.\<close>

theorem native_full_queue_leaks_subscription:
  fixes w :: "('v, 'p, 'x) native_worker"
  defines "cid \<equiv> nw_channel w" and "nv \<equiv> nw_env w" and "cp \<equiv> native_channel (nw_env w) (nw_inject w)"
  assumes "worker_open w sh" and "delivery_bounded (delivery_of cid sh)"
    and "on_delivery cid (begin_subscribe nv request_id sid) sh = (Ok True, sh1)"
    and "handle_sync_session cp (nw_thread w) (nw_actions w) sid
      (subscribe_cursor sid (delivery_of cid sh1)) SESSION_SYNC_PAGE_EVENTS sh1 = Some (Ok outcome, sh2)"
    and "sso_subscribed outcome" and "sso_through_sequence outcome \<noteq> 0"
    and "server_text nv (ServerSubscriptionResult (subscription_result request_id sid outcome)) = Ok result"
    and "server_text nv (ServerSyncCompleted request_id) = Ok completed"
    and "ds_capacity (delivery_of cid sh2) < queued_len (delivery_of cid sh2) + 2"
  shows "\<exists>sh3 sh4. process_subscribe w request_id sid sh =
        Some (Err (Fatal (queue_error (ds_capacity (delivery_of cid sh2)))), sh3)
    \<and> disconnect w sh3 = Some sh4 \<and> delivery_idle (delivery_of cid sh4)
    \<and> (\<forall>after n. 0 < n \<longrightarrow> (\<exists>agg. bt_get (br_sessions (sh_bridge sh4)) sid = Some agg
        \<and> sync_session cp cid sid after n (sh_bridge sh4) =
            (Ok \<lparr>sso_through_sequence = last_sequence agg, sso_event_count = 0, sso_reset = False,
                 sso_subscribed = True, sso_pending_interaction_count = 0\<rparr>, sh_bridge sh4)))"
proof -
  note start = worker_begin_sync [OF assms(4) assms(5-7) [unfolded cid_def nv_def cp_def], folded cid_def]
  obtain client p where client: "ds_client (delivery_of cid sh2) = Some client" "ac_pending client = Some p"
    using start(4) by blast
  obtain ds3 where fin: "end_subscribe nv request_id sid outcome (delivery_of cid sh2) =
      (Err (Fatal (queue_error (ds_capacity (delivery_of cid sh2)))), ds3)" "ds_client ds3 = Some (client\<lparr>ac_pending := None\<rparr>)"
    using end_subscribe_full [OF start(2) client assms(9-12)] by blast
  let ?sh3 = "put_delivery cid ds3 sh2"
  have "process_subscribe w request_id sid sh =
      Some (Err (Fatal (queue_error (ds_capacity (delivery_of cid sh2)))), ?sh3)"
    using assms(6,7) fin(1)
    by (simp add: process_subscribe_def Let_def on_delivery_def cid_def nv_def cp_def split: prod.splits)
  moreover have open3: "worker_open w ?sh3" using worker_open_put [OF start(1)] by (simp add: cid_def)
  obtain sh4 where out: "disconnect w ?sh3 = Some sh4" "worker_open w sh4" "delivery_idle (delivery_of cid sh4)"
    "subscription_rel (sh_bridge sh4) = subscription_rel (sh_bridge ?sh3) - {cid} \<times> {s. client_subscribed s (delivery_of cid ?sh3)}"
    using disconnect_rel [OF open3] by (auto simp: cid_def)
  moreover have "\<not> client_subscribed sid (delivery_of cid ?sh3)"
    using start(1,3) fin(2) client by (simp add: client_subscribed_def worker_open_def cid_def delivery_of_put)
  moreover have "(cid, sid) \<in> subscription_rel (sh_bridge sh2)" using start(5) [OF assms(8)] by (simp add: subscription_rel_def)
  ultimately have "(cid, sid) \<in> subscription_rel (sh_bridge sh4)" by simp
  then have "is_subscribed (sh_bridge sh4) cid sid" "bridge_inv (sh_bridge sh4)"
    using out(2) by (simp_all add: subscription_rel_def worker_open_def)
  then have "\<exists>agg. bt_get (br_sessions (sh_bridge sh4)) sid = Some agg \<and> sync_session cp cid sid after n (sh_bridge sh4) =
      (Ok \<lparr>sso_through_sequence = last_sequence agg, sso_event_count = 0, sso_reset = False,
           sso_subscribed = True, sso_pending_interaction_count = 0\<rparr>, sh_bridge sh4)" if "0 < n" for after n
    using subscribed_registered [of "sh_bridge sh4" cid sid] that by (auto simp: sync_session_def)
  with \<open>process_subscribe w request_id sid sh = _\<close> out(1,3) show ?thesis by blast
qed

theorem native_full_queue_leaks_subscription_witness:
  "\<exists>sh3 sh4. process_subscribe sample_worker sample_rid sample_sid
        (native_shared_at (native_delivery (Some native_client) (ncc_outbound_capacity sample_native_config))) =
        Some (Err (Fatal (queue_error 3)), sh3)
     \<and> disconnect sample_worker sh3 = Some sh4 \<and> delivery_idle (delivery_of sample_cid sh4)
     \<and> fst (sync_session (native_channel plain_native (\<lambda>_. ''native'')) sample_cid sample_sid 0 128 (sh_bridge sh4)) =
         Ok \<lparr>sso_through_sequence = last_sequence (the (bt_get (br_sessions (sh_bridge sh4)) sample_sid)), sso_event_count = 0, sso_reset = False,
             sso_subscribed = True, sso_pending_interaction_count = 0\<rparr>"
proof -
  have "2 \<le> (3 :: nat)" "3 < usize_max" by (simp_all add: usize_max_def)
  note sync = sample_native_sync [OF this]
  let ?sh = "native_shared_at (native_delivery (Some native_client) 3)"
  have w: "nw_env sample_worker = plain_native" "nw_inject sample_worker = (\<lambda>_. ''native'')" "nw_thread sample_worker = 0"
    "nw_actions sample_worker = \<lparr>cah_channel_id = sample_cid, cah_permit = 0\<rparr>"
    by (simp_all add: sample_worker_def)
  have begun: "on_delivery sample_cid (begin_subscribe plain_native sample_rid sample_sid) ?sh =
      (Ok True, native_shared_at (waiting_delivery 3))"
    by (rule sample_on_delivery) (rule sample_begin)
  have cursor: "subscribe_cursor sample_sid (delivery_of sample_cid (native_shared_at (waiting_delivery 3))) = 0"
    by (simp add: sample_delivery_of subscribe_cursor_def delivery_samples)
  have "delivery_bounded (delivery_of sample_cid ?sh)"
    by (simp add: sample_delivery_of delivery_bounded_def queued_len_def ds_pending_def native_delivery_def
        DeliveryState_new_def native_client_def usize_max_def)
  then obtain sh3 sh4 where out: "process_subscribe sample_worker sample_rid sample_sid ?sh = Some (Err (Fatal (queue_error 3)), sh3)"
    "disconnect sample_worker sh3 = Some sh4" "delivery_idle (delivery_of sample_cid sh4)"
    "\<forall>after n. 0 < n \<longrightarrow> (\<exists>agg. bt_get (br_sessions (sh_bridge sh4)) sample_sid = Some agg
        \<and> sync_session (native_channel plain_native (\<lambda>_. ''native'')) sample_cid sample_sid after n (sh_bridge sh4) =
            (Ok \<lparr>sso_through_sequence = last_sequence agg, sso_event_count = 0, sso_reset = False,
                 sso_subscribed = True, sso_pending_interaction_count = 0\<rparr>, sh_bridge sh4))"
    using native_full_queue_leaks_subscription [OF sample_worker_open [of "native_delivery (Some native_client) 3"],
        of sample_rid sample_sid "native_shared_at (waiting_delivery 3)" "sync_outcome sample_sync"
          "activated (native_shared_at (synced_delivery 3))"] begun cursor sync
    by (auto simp: w sample_outcome sample_control activated_delivery synced_facts)
  from out(4) have "\<exists>agg. bt_get (br_sessions (sh_bridge sh4)) sample_sid = Some agg
      \<and> sync_session (native_channel plain_native (\<lambda>_. ''native'')) sample_cid sample_sid 0 128 (sh_bridge sh4) =
          (Ok \<lparr>sso_through_sequence = last_sequence agg, sso_event_count = 0, sso_reset = False,
               sso_subscribed = True, sso_pending_interaction_count = 0\<rparr>, sh_bridge sh4)" by simp
  with out(1-3) show ?thesis by (auto simp: sample_native_config_def)
qed

section \<open>Stopping after a panic\<close>

text \<open>A worker that panicked drops its completion channel, so stopping the Source reports a timeout,
  never the panic, and keeps the worker: the Source can neither be stopped nor started again.\<close>

lemma panicked_worker_wedges_source:
  "nso_worker source = Some ThreadPanicked \<Longrightarrow>
     native_source_stop source = (Err ShutdownTimeout, source)
     \<and> native_source_start bound spawned source = (Err AlreadyRunning, source)"
  by (simp add: native_source_stop_def native_source_start_def recv_completion_def)

lemma stop_never_reports_panic: "fst (native_source_stop source) \<noteq> Err WorkerPanicked"
  by (auto simp: native_source_stop_def recv_completion_def join_worker_def Let_def
      split: option.splits worker_thread.splits sum.splits)

section \<open>Sub-second Ping intervals\<close>

text \<open>The configuration check accepts every positive Ping interval, but the server hello announces it
  in whole seconds and must not announce zero.\<close>

lemma subsecond_ping_refuses_clients:
  assumes "ncc_ping_interval config < 1000"
  shows "fst (process_hello nv message auth descriptor config cid ds) \<noteq> Ok ()"
proof -
  have "as_secs (ncc_ping_interval config) = 0" using assms by (simp add: as_secs_def)
  then have "validate_server_message nv (server_hello descriptor config cid resume) \<noteq> Ok ()" for resume
    by (auto simp: server_hello_def validate_server_hello_def and_then_Ok_iff native_invalid_def)
  then have "server_text nv (server_hello descriptor config cid resume) \<noteq> Ok frame" for resume frame
    by (auto simp: server_text_def encode_server_message_def and_then_Ok_iff)
  then show ?thesis
    by (auto simp: process_hello_def enqueue_control_def Let_def split: sum.splits)
qed

lemma subsecond_ping_accepted:
  "validate_config (sample_native_config\<lparr>ncc_ping_interval := 500\<rparr>) = Ok ()"
  by (simp add: validate_config_def sample_native_config_def positive_settings_def)

end
