(* ===== verification/Net_Text.thy ===== *)
theory Net_Text
  imports Wire_Json
begin

text \<open>
  The standard library's string and address functions that the transport, pairing and relay crates
  call: \<open>str::split\<close>, \<open>rsplit_once\<close>, \<open>strip_prefix\<close>, \<open>u16::from_str\<close>, the parser and the
  \<open>Display\<close> of \<open>IpAddr\<close>, and the predicates on addresses. An address is its list of octets or
  of 16-bit segments.
\<close>

section \<open>Strings\<close>

text \<open>The UTF-8 bytes of a string, which \<open>str::len\<close> counts.\<close>

definition utf8_char :: "nat \<Rightarrow> u8 list" where
  "utf8_char c =
     (if c < 0x80 then [of_nat c]
      else if c < 0x800 then [of_nat (0xC0 + c div 64), of_nat (0x80 + c mod 64)]
      else if c < 0x10000 then [of_nat (0xE0 + c div 4096), of_nat (0x80 + c div 64 mod 64), of_nat (0x80 + c mod 64)]
      else [of_nat (0xF0 + c div 262144), of_nat (0x80 + c div 4096 mod 64), of_nat (0x80 + c div 64 mod 64),
        of_nat (0x80 + c mod 64)])"

definition as_bytes :: "ustring \<Rightarrow> u8 list" where
  "as_bytes value = concat (map utf8_char value)"

definition str_len :: "ustring \<Rightarrow> usize" where
  "str_len value = length (as_bytes value)"

definition is_ascii :: "ustring \<Rightarrow> bool" where
  "is_ascii value = list_all (\<lambda>c. c < 128) value"

definition to_ascii_lowercase :: "ustring \<Rightarrow> ustring" where
  "to_ascii_lowercase value = map (\<lambda>c. if 65 \<le> c \<and> c \<le> 90 then c + 32 else c) value"

definition is_ascii_alphanumeric :: "nat \<Rightarrow> bool" where
  "is_ascii_alphanumeric c \<longleftrightarrow> is_ascii_lowercase c \<or> (65 \<le> c \<and> c \<le> 90) \<or> is_ascii_digit c"

fun split_on :: "nat \<Rightarrow> ustring \<Rightarrow> ustring list" where
  "split_on sep [] = [[]]"
| "split_on sep (c # cs) =
     (if c = sep then [] # split_on sep cs
      else case split_on sep cs of [] \<Rightarrow> [[c]] | part # parts \<Rightarrow> (c # part) # parts)"

definition rsplit_once :: "nat \<Rightarrow> ustring \<Rightarrow> (ustring \<times> ustring) option" where
  "rsplit_once sep value =
     (if sep \<in> set value
      then Some (rev (tl (dropWhile (\<lambda>c. c \<noteq> sep) (rev value))), rev (takeWhile (\<lambda>c. c \<noteq> sep) (rev value)))
      else None)"

definition strip_prefix :: "ustring \<Rightarrow> ustring \<Rightarrow> ustring option" where
  "strip_prefix prefix value =
     (if take (length prefix) value = prefix then Some (drop (length prefix) value) else None)"

fun contains_text :: "ustring \<Rightarrow> ustring \<Rightarrow> bool" where
  "contains_text needle [] \<longleftrightarrow> needle = []"
| "contains_text needle (c # cs) \<longleftrightarrow> take (length needle) (c # cs) = needle \<or> contains_text needle cs"

definition starts_with :: "nat \<Rightarrow> ustring \<Rightarrow> bool" where
  "starts_with c value \<longleftrightarrow> value \<noteq> [] \<and> hd value = c"

definition ends_with :: "nat \<Rightarrow> ustring \<Rightarrow> bool" where
  "ends_with c value \<longleftrightarrow> value \<noteq> [] \<and> last value = c"

text \<open>\<open>u16::from_str\<close>: an optional plus sign, then digits, no overflow.\<close>

definition parse_u16 :: "ustring \<Rightarrow> u16 option" where
  "parse_u16 value =
     (let digits = (case value of c # rest \<Rightarrow> if c = 43 then rest else value | [] \<Rightarrow> [])
      in if digits \<noteq> [] \<and> list_all is_ascii_digit digits \<and> decimal_value digits < 2 ^ 16
         then Some (of_nat (decimal_value digits)) else None)"

lemma strip_prefix_append [simp]: "strip_prefix prefix (prefix @ value) = Some value"
  by (simp add: strip_prefix_def)

lemma strip_prefix_Some: "strip_prefix prefix value = Some rest \<longleftrightarrow> value = prefix @ rest"
  by (auto simp: strip_prefix_def) (metis append_take_drop_id)

lemma split_on_nonempty [simp]: "split_on sep value \<noteq> []"
  by (cases "value") (auto split: list.splits)

lemma rsplit_once_Some:
  assumes "rsplit_once sep value = Some (left, right)"
  shows "value = left @ sep # right \<and> sep \<notin> set right"
proof -
  let ?w = "takeWhile (\<lambda>c. c \<noteq> sep) (rev value)" and ?d = "dropWhile (\<lambda>c. c \<noteq> sep) (rev value)"
  from assms have mem: "sep \<in> set (rev value)" and l: "left = rev (tl ?d)" and r: "right = rev ?w"
    by (auto simp: rsplit_once_def split: if_splits)
  from mem have "?d \<noteq> []" by (auto simp: dropWhile_eq_Nil_conv)
  then have d: "?d = sep # tl ?d" using hd_dropWhile [of "\<lambda>c. c \<noteq> sep" "rev value"] by (cases ?d) auto
  have "rev value = ?w @ sep # tl ?d" using d by (metis takeWhile_dropWhile_id)
  then have "value = left @ sep # right" using l r by (metis append.assoc append_Cons append_Nil rev.simps(2) rev_append rev_rev_ident)
  moreover have "sep \<notin> set right" using r by (auto dest: set_takeWhileD)
  ultimately show ?thesis by simp
qed

section \<open>Addresses\<close>

datatype ip_address = V4 "nat list" | V6 "nat list"

record net_address =
  net_ip :: ip_address
  net_port :: u16

definition digit_of :: "nat \<Rightarrow> nat \<Rightarrow> nat option" where
  "digit_of radix c =
     (let d = (if is_ascii_digit c then c - 48 else if 97 \<le> c \<and> c \<le> 122 then c - 87
               else if 65 \<le> c \<and> c \<le> 90 then c - 55 else radix)
      in if d < radix then Some d else None)"

definition read_number ::
  "nat \<Rightarrow> nat \<Rightarrow> bool \<Rightarrow> nat \<Rightarrow> ustring \<Rightarrow> (nat \<times> ustring) option" where
  "read_number radix max_digits allow_zero_prefix limit input =
     (let digits = takeWhile (\<lambda>c. digit_of radix c \<noteq> None) input;
          number = foldl (\<lambda>acc c. acc * radix + the (digit_of radix c)) 0 digits
      in if digits = [] \<or> length digits > max_digits then None
         else if \<not> allow_zero_prefix \<and> hd digits = 48 \<and> length digits > 1 then None
         else if number < limit then Some (number, drop (length digits) input) else None)"

definition read_separator ::
  "nat \<Rightarrow> nat \<Rightarrow> (ustring \<Rightarrow> ('a \<times> ustring) option) \<Rightarrow> ustring \<Rightarrow> ('a \<times> ustring) option" where
  "read_separator sep index inner input =
     (if index = 0 then inner input
      else case input of [] \<Rightarrow> None | c # rest \<Rightarrow> if c = sep then inner rest else None)"

fun read_octets :: "nat \<Rightarrow> nat \<Rightarrow> ustring \<Rightarrow> (nat list \<times> ustring) option" where
  "read_octets index 0 input = Some ([], input)"
| "read_octets index (Suc n) input =
     Option.bind (read_separator 46 index (read_number 10 3 False 256) input) (\<lambda>(octet, rest).
     map_option (\<lambda>(octets, rest). (octet # octets, rest)) (read_octets (Suc index) n rest))"

definition read_ipv4_addr :: "ustring \<Rightarrow> (nat list \<times> ustring) option" where
  "read_ipv4_addr input = read_octets 0 4 input"

text \<open>\<open>read_groups\<close>: the second argument is the number of groups left; an embedded IPv4 address needs two.\<close>

fun read_groups :: "nat \<Rightarrow> nat \<Rightarrow> ustring \<Rightarrow> nat list \<times> bool \<times> ustring" where
  "read_groups index 0 input = ([], False, input)"
| "read_groups index (Suc n) input =
     (case (if n > 0 then read_separator 58 index read_ipv4_addr input else None) of
        Some (v4, rest) \<Rightarrow> ([v4 ! 0 * 256 + v4 ! 1, v4 ! 2 * 256 + v4 ! 3], True, rest)
      | None \<Rightarrow>
          (case read_separator 58 index (read_number 16 4 True 65536) input of
             None \<Rightarrow> ([], False, input)
           | Some (segment, rest) \<Rightarrow>
               (case read_groups (Suc index) n rest of (groups, v4, rest) \<Rightarrow> (segment # groups, v4, rest))))"

definition read_ipv6_addr :: "ustring \<Rightarrow> (nat list \<times> ustring) option" where
  "read_ipv6_addr input =
     (case read_groups 0 8 input of
        (head, head_ipv4, rest) \<Rightarrow>
          if length head = 8 then Some (head, rest)
          else if head_ipv4 then None
          else Option.bind (strip_prefix [58, 58] rest) (\<lambda>rest.
            case read_groups 0 (7 - length head) rest of
              (tail, _, rest) \<Rightarrow> Some (head @ replicate (8 - length head - length tail) 0 @ tail, rest)))"

definition parse_ip_addr :: "ustring \<Rightarrow> ip_address option" where
  "parse_ip_addr value =
     (case (case read_ipv4_addr value of
              Some (octets, rest) \<Rightarrow> Some (V4 octets, rest)
            | None \<Rightarrow> map_option (\<lambda>(segments, rest). (V6 segments, rest)) (read_ipv6_addr value)) of
        Some (address, []) \<Rightarrow> Some address
      | _ \<Rightarrow> None)"

definition lower_hex_digit :: "nat \<Rightarrow> nat" where
  "lower_hex_digit d = (if d < 10 then 48 + d else 87 + d)"

fun lower_hex :: "nat \<Rightarrow> ustring" where
  "lower_hex n = (if n < 16 then [lower_hex_digit n] else lower_hex (n div 16) @ [lower_hex_digit (n mod 16)])"

declare lower_hex.simps [simp del]

definition joined :: "nat \<Rightarrow> ustring list \<Rightarrow> ustring" where
  "joined sep parts = concat (case parts of [] \<Rightarrow> [] | p # ps \<Rightarrow> p # map ((#) sep) ps)"

definition show_ipv4 :: "nat list \<Rightarrow> ustring" where
  "show_ipv4 octets = joined 46 (map decimal octets)"

text \<open>The first longest run of zero segments, as its start and length.\<close>

fun zero_span :: "nat \<Rightarrow> nat \<times> nat \<Rightarrow> nat \<times> nat \<Rightarrow> nat list \<Rightarrow> nat \<times> nat" where
  "zero_span i current longest [] = longest"
| "zero_span i current longest (s # segments) =
     (if s = 0
      then let current = (if snd current = 0 then i else fst current, snd current + 1)
           in zero_span (Suc i) current (if snd current > snd longest then current else longest) segments
      else zero_span (Suc i) (0, 0) longest segments)"

definition show_ipv6 :: "nat list \<Rightarrow> ustring" where
  "show_ipv6 segments =
     (if take 6 segments = [0, 0, 0, 0, 0, 0xFFFF]
      then utf ''::ffff:'' @ show_ipv4 [segments ! 6 div 256, segments ! 6 mod 256, segments ! 7 div 256, segments ! 7 mod 256]
      else case zero_span 0 (0, 0) (0, 0) segments of (start, len) \<Rightarrow>
        if len > 1
        then joined 58 (map lower_hex (take start segments)) @ utf ''::'' @ joined 58 (map lower_hex (drop (start + len) segments))
        else joined 58 (map lower_hex segments))"

fun show_ip_addr :: "ip_address \<Rightarrow> ustring" where
  "show_ip_addr (V4 octets) = show_ipv4 octets"
| "show_ip_addr (V6 segments) = show_ipv6 segments"

fun is_loopback_ip :: "ip_address \<Rightarrow> bool" where
  "is_loopback_ip (V4 octets) \<longleftrightarrow> hd octets = 127"
| "is_loopback_ip (V6 segments) \<longleftrightarrow> segments = [0, 0, 0, 0, 0, 0, 0, 1]"

fun is_unspecified :: "ip_address \<Rightarrow> bool" where
  "is_unspecified (V4 octets) \<longleftrightarrow> octets = [0, 0, 0, 0]"
| "is_unspecified (V6 segments) \<longleftrightarrow> segments = [0, 0, 0, 0, 0, 0, 0, 0]"

fun is_multicast :: "ip_address \<Rightarrow> bool" where
  "is_multicast (V4 octets) \<longleftrightarrow> 224 \<le> hd octets \<and> hd octets \<le> 239"
| "is_multicast (V6 segments) \<longleftrightarrow> hd segments div 256 = 255"

definition is_private_v4 :: "nat list \<Rightarrow> bool" where
  "is_private_v4 octets \<longleftrightarrow>
     octets ! 0 = 10 \<or> octets ! 0 = 172 \<and> 16 \<le> octets ! 1 \<and> octets ! 1 \<le> 31 \<or> octets ! 0 = 192 \<and> octets ! 1 = 168"

definition is_link_local_v4 :: "nat list \<Rightarrow> bool" where
  "is_link_local_v4 octets \<longleftrightarrow> octets ! 0 = 169 \<and> octets ! 1 = 254"

definition is_unique_local_v6 :: "nat list \<Rightarrow> bool" where
  "is_unique_local_v6 segments \<longleftrightarrow> segments ! 0 div 512 = 0x7E"

definition is_link_local_v6 :: "nat list \<Rightarrow> bool" where
  "is_link_local_v6 segments \<longleftrightarrow> segments ! 0 div 64 = 0x3FA"

text \<open>A value of type \<open>IpAddr\<close>: four octets or eight segments.\<close>

fun wf_ip_addr :: "ip_address \<Rightarrow> bool" where
  "wf_ip_addr (V4 octets) \<longleftrightarrow> length octets = 4 \<and> list_all (\<lambda>n. n < 256) octets"
| "wf_ip_addr (V6 segments) \<longleftrightarrow> length segments = 8 \<and> list_all (\<lambda>n. n < 65536) segments"

text \<open>Text that begins neither with a hexadecimal digit nor with a colon is not an address.\<close>

lemma parse_ip_addr_letter:
  assumes "digit_of 10 c = None" "digit_of 16 c = None" "c \<noteq> 58"
  shows "parse_ip_addr (c # cs) = None"
proof -
  have no_number: "read_number 10 3 z l (c # cs) = None" "read_number 16 4 z l (c # cs) = None" for z l
    using assms by (simp_all add: read_number_def)
  have "read_octets 0 (Suc 3) (c # cs) = None"
    unfolding read_octets.simps read_separator_def by (simp add: no_number)
  then have v4: "read_ipv4_addr (c # cs) = None" by (simp add: read_ipv4_addr_def)
  have "read_groups 0 (Suc 7) (c # cs) = ([], False, c # cs)"
    unfolding read_groups.simps read_separator_def by (simp add: v4 no_number)
  then have "read_ipv6_addr (c # cs) = None" using assms(3) by (simp add: read_ipv6_addr_def strip_prefix_def)
  with v4 show ?thesis by (simp add: parse_ip_addr_def)
qed

end
