(* ===== verification/Transport.thy ===== *)
theory Transport
  imports Net_Text
begin

text \<open>
  The bounded WebSocket transports (\<open>agentpulse-transport\<close>): configuration, the upgrade of a
  connection with bearer authorization, and the outcomes of reading, writing and closing. Sockets,
  TLS and the WebSocket protocol are foreign; what they answer are arguments. The locale
  \<open>bearer_authorizer\<close> is the contract of the trait \<open>BearerTokenAuthorizer\<close>: a credential is
  authorized only while it is granted.
\<close>

section \<open>Errors\<close>

datatype ws_error =
    WsNonLoopbackAddress net_address
  | WsNonLoopbackPeer net_address
  | WsInvalidPath ustring
  | WsInvalidSubprotocol ustring
  | WsInvalidLimit string
  | WsIo string ustring
  | WsHandshake ustring
  | WsBinaryFrame
  | WsMessageTooLarge usize usize
  | WsWebSocket string ustring
  | WsTlsIdentity ustring
  | WsTls ustring
  | WsNonPrivateAddress net_address

datatype ws_read = WsReadText ustring | WsReadPong | WsReadControl | WsReadTimeout | WsReadClosed

definition DEFAULT_MAX_MESSAGE_BYTES :: usize where "DEFAULT_MAX_MESSAGE_BYTES = 1024 * 1024"
definition CLIENT_ID_HEADER :: string where "CLIENT_ID_HEADER = ''x-agentpulse-client-id''"

section \<open>Configuration\<close>

record loopback_config =
  lwc_bind_address :: net_address
  lwc_path :: ustring
  lwc_subprotocol :: ustring
  lwc_handshake_timeout :: nat
  lwc_io_poll_interval :: nat
  lwc_max_message_bytes :: usize

record tls_identity =
  tid_certificate_chain_der :: "u8 list list"
  tid_private_key_der :: "u8 list"

definition identity_from_der :: "u8 list list \<Rightarrow> u8 list \<Rightarrow> (tls_identity, ws_error) result" where
  "identity_from_der chain key =
     (if chain = [] then Err (WsTlsIdentity (utf ''certificate chain is empty''))
      else if key = [] then Err (WsTlsIdentity (utf ''private key is empty''))
      else Ok \<lparr>tid_certificate_chain_der = chain, tid_private_key_der = key\<rparr>)"

record tls_config =
  tlc_bind_address :: net_address
  tlc_allow_public :: bool
  tlc_path :: ustring
  tlc_subprotocol :: ustring
  tlc_identity :: tls_identity
  tlc_authorizer :: "(ustring \<Rightarrow> ustring \<Rightarrow> bool) option"
  tlc_handshake_timeout :: nat
  tlc_io_poll_interval :: nat
  tlc_max_message_bytes :: usize

text \<open>\<open>char::is_ascii_whitespace\<close> leaves out the vertical tab.\<close>

definition is_ascii_whitespace :: "nat \<Rightarrow> bool" where
  "is_ascii_whitespace c \<longleftrightarrow> c = 32 \<or> c = 9 \<or> c = 10 \<or> c = 12 \<or> c = 13"

definition validate_limits ::
  "ustring \<Rightarrow> ustring \<Rightarrow> nat \<Rightarrow> nat \<Rightarrow> usize \<Rightarrow> (unit, ws_error) result" where
  "validate_limits path subprotocol handshake_timeout io_poll_interval max_message_bytes =
     (if \<not> starts_with 47 path \<or> list_ex (\<lambda>c. c = 63 \<or> c = 35) path then Err (WsInvalidPath path)
      else if trim_text subprotocol = [] \<or> list_ex (\<lambda>c. is_ascii_whitespace c \<or> c = 44) subprotocol
      then Err (WsInvalidSubprotocol subprotocol)
      else if handshake_timeout = 0 then Err (WsInvalidLimit ''handshake timeout'')
      else if io_poll_interval = 0 then Err (WsInvalidLimit ''I/O poll interval'')
      else if max_message_bytes = 0 then Err (WsInvalidLimit ''maximum message bytes'')
      else Ok ())"

definition validate_loopback_config :: "loopback_config \<Rightarrow> (unit, ws_error) result" where
  "validate_loopback_config config =
     (if \<not> is_loopback_ip (net_ip (lwc_bind_address config)) then Err (WsNonLoopbackAddress (lwc_bind_address config))
      else validate_limits (lwc_path config) (lwc_subprotocol config) (lwc_handshake_timeout config)
        (lwc_io_poll_interval config) (lwc_max_message_bytes config))"

definition loopback_config_new ::
  "net_address \<Rightarrow> ustring \<Rightarrow> ustring \<Rightarrow> (loopback_config, ws_error) result" where
  "loopback_config_new bind_address path subprotocol =
     (let config = \<lparr>lwc_bind_address = bind_address, lwc_path = path, lwc_subprotocol = subprotocol,
            lwc_handshake_timeout = 5000, lwc_io_poll_interval = 100,
            lwc_max_message_bytes = DEFAULT_MAX_MESSAGE_BYTES\<rparr>
      in and_then (validate_loopback_config config) (\<lambda>_. Ok config))"

fun is_private_endpoint :: "ip_address \<Rightarrow> bool" where
  "is_private_endpoint (V4 octets) \<longleftrightarrow> is_loopback_ip (V4 octets) \<or> is_private_v4 octets \<or> is_link_local_v4 octets"
| "is_private_endpoint (V6 segments) \<longleftrightarrow>
     is_loopback_ip (V6 segments) \<or> is_unique_local_v6 segments \<or> is_link_local_v6 segments"

definition validate_tls_config :: "tls_config \<Rightarrow> (unit, ws_error) result" where
  "validate_tls_config config =
     (let ip = net_ip (tlc_bind_address config) in
      if (\<not> tlc_allow_public config \<and> \<not> is_private_endpoint ip) \<or> is_multicast ip
      then Err (WsNonPrivateAddress (tlc_bind_address config))
      else validate_limits (tlc_path config) (tlc_subprotocol config) (tlc_handshake_timeout config)
        (tlc_io_poll_interval config) (tlc_max_message_bytes config))"

definition new_with_boundary ::
  "net_address \<Rightarrow> ustring \<Rightarrow> ustring \<Rightarrow> tls_identity \<Rightarrow> bool \<Rightarrow> (tls_config, ws_error) result" where
  "new_with_boundary bind_address path subprotocol identity allow_public =
     (let config = \<lparr>tlc_bind_address = bind_address, tlc_allow_public = allow_public, tlc_path = path,
            tlc_subprotocol = subprotocol, tlc_identity = identity, tlc_authorizer = None,
            tlc_handshake_timeout = 5000, tlc_io_poll_interval = 100,
            tlc_max_message_bytes = DEFAULT_MAX_MESSAGE_BYTES\<rparr>
      in and_then (validate_tls_config config) (\<lambda>_. Ok config))"

definition tls_config_new ::
  "net_address \<Rightarrow> ustring \<Rightarrow> ustring \<Rightarrow> tls_identity \<Rightarrow> (tls_config, ws_error) result" where
  "tls_config_new bind_address path subprotocol identity =
     new_with_boundary bind_address path subprotocol identity False"

definition tls_config_new_public ::
  "net_address \<Rightarrow> ustring \<Rightarrow> ustring \<Rightarrow> tls_identity \<Rightarrow> (tls_config, ws_error) result" where
  "tls_config_new_public bind_address path subprotocol identity =
     new_with_boundary bind_address path subprotocol identity True"

definition with_bearer_authorizer :: "(ustring \<Rightarrow> ustring \<Rightarrow> bool) \<Rightarrow> tls_config \<Rightarrow> tls_config" where
  "with_bearer_authorizer authorizer config = config\<lparr>tlc_authorizer := Some authorizer\<rparr>"

definition requires_authorization :: "tls_config \<Rightarrow> bool" where
  "requires_authorization config \<longleftrightarrow> tlc_authorizer config \<noteq> None"

text \<open>\<open>TlsWebSocketListener::bind\<close> and \<open>LoopbackWebSocketListener::bind\<close>: the answers are whether the identity
  parses, and what the socket says to bind, nonblocking mode and the local address.\<close>

record bind_answers =
  ba_server_config :: "(unit, ustring) result"
  ba_bind :: "(unit, ustring) result"
  ba_nonblocking :: "(unit, ustring) result"
  ba_local_address :: "(net_address, ustring) result"

definition tls_listener_bind :: "bind_answers \<Rightarrow> tls_config \<Rightarrow> (net_address, ws_error) result" where
  "tls_listener_bind ba config =
     and_then (validate_tls_config config) (\<lambda>_.
     and_then (map_err WsTlsIdentity (ba_server_config ba)) (\<lambda>_.
     and_then (map_err (WsIo ''bind TLS LAN listener'') (ba_bind ba)) (\<lambda>_.
     and_then (map_err (WsIo ''configure TLS LAN listener'') (ba_nonblocking ba)) (\<lambda>_.
     map_err (WsIo ''read TLS LAN listener address'') (ba_local_address ba)))))"

definition loopback_listener_bind :: "bind_answers \<Rightarrow> loopback_config \<Rightarrow> (net_address, ws_error) result" where
  "loopback_listener_bind ba config =
     and_then (validate_loopback_config config) (\<lambda>_.
     and_then (map_err (WsIo ''bind loopback listener'') (ba_bind ba)) (\<lambda>_.
     and_then (map_err (WsIo ''configure loopback listener'') (ba_nonblocking ba)) (\<lambda>_.
     map_err (WsIo ''read loopback listener address'') (ba_local_address ba))))"

section \<open>Upgrade\<close>

text \<open>An upgrade request: path, query and the text of a header, \<open>None\<close> when it is missing or not visible ASCII.\<close>

record upgrade_request =
  up_path :: ustring
  up_query :: "ustring option"
  up_header :: "string \<Rightarrow> ustring option"

datatype rejection = Rejection nat string

definition validate_upgrade :: "upgrade_request \<Rightarrow> ustring \<Rightarrow> ustring \<Rightarrow> (unit, rejection) result" where
  "validate_upgrade request expected_path expected_subprotocol =
     (if up_path request \<noteq> expected_path \<or> up_query request \<noteq> None
      then Err (Rejection 404 ''unknown WebSocket path'')
      else if (case up_header request ''sec-websocket-protocol'' of
                 None \<Rightarrow> False
               | Some offered \<Rightarrow> list_ex (\<lambda>candidate. trim_text candidate = expected_subprotocol) (split_on 44 offered))
      then Ok ()
      else Err (Rejection 400 ''required WebSocket subprotocol was not offered''))"

definition header_value :: "upgrade_request \<Rightarrow> string \<Rightarrow> ustring option" where
  "header_value request name =
     (case up_header request name of
        None \<Rightarrow> None
      | Some v \<Rightarrow> if trim_text v \<noteq> [] \<and> str_len v \<le> 512 then Some v else None)"

definition bearer_token :: "upgrade_request \<Rightarrow> ustring option" where
  "bearer_token request =
     Option.bind (header_value request ''authorization'') (\<lambda>v.
     Option.bind (strip_prefix (utf ''Bearer '') v) (\<lambda>token. if token \<noteq> [] then Some token else None))"

text \<open>The callback of \<open>try_accept\<close>; the result is what it captures as the credentials.\<close>

definition upgrade_callback ::
  "tls_config \<Rightarrow> upgrade_request \<Rightarrow> ((ustring \<times> ustring) option, rejection) result" where
  "upgrade_callback config request =
     and_then (validate_upgrade request (tlc_path config) (tlc_subprotocol config)) (\<lambda>_.
     case tlc_authorizer config of
       None \<Rightarrow> Ok None
     | Some authorize \<Rightarrow>
         and_then (ok_or (Rejection 401 ''device authorization required'') (header_value request CLIENT_ID_HEADER)) (\<lambda>client_id.
         and_then (ok_or (Rejection 401 ''device authorization required'') (bearer_token request)) (\<lambda>bearer.
         if \<not> authorize client_id bearer then Err (Rejection 401 ''device authorization failed'')
         else Ok (Some (client_id, bearer)))))"

text \<open>The answers to one \<open>try_accept\<close>: the accept, the socket options, the TLS connection, the request that
  reached the callback (or why none did), and the end of the handshake.\<close>

datatype listener_answer = Accepted net_address | AcceptWouldBlock | AcceptFailed ustring

record accept_answers =
  aa_accept :: listener_answer
  aa_blocking :: "(unit, ustring) result"
  aa_handshake_timeouts :: "(unit, ustring) result \<times> (unit, ustring) result"
  aa_server_connection :: "(unit, ustring) result"
  aa_request :: "(upgrade_request, ustring) result"
  aa_rejected :: "rejection \<Rightarrow> ustring"
  aa_finish :: "(unit, ustring) result"
  aa_poll_timeouts :: "(unit, ustring) result \<times> (unit, ustring) result"

definition configure_stream ::
  "(unit, ustring) result \<times> (unit, ustring) result \<Rightarrow> (unit, ws_error) result" where
  "configure_stream timeouts =
     and_then (map_err (WsIo ''configure socket read timeout'') (fst timeouts)) (\<lambda>_.
     map_err (WsIo ''configure socket write timeout'') (snd timeouts))"

record tls_web_socket =
  tws_peer_address :: net_address
  tws_max_message_bytes :: usize
  tws_credentials :: "(ustring \<times> ustring) option"
  tws_authorizer :: "(ustring \<Rightarrow> ustring \<Rightarrow> bool) option"

definition tls_handshake ::
  "accept_answers \<Rightarrow> tls_config \<Rightarrow> ((ustring \<times> ustring) option, ws_error) result" where
  "tls_handshake aa config =
     and_then (map_err WsHandshake (aa_request aa)) (\<lambda>request.
     and_then (map_err (\<lambda>r. WsHandshake (aa_rejected aa r)) (upgrade_callback config request)) (\<lambda>credentials.
     and_then (map_err WsHandshake (aa_finish aa)) (\<lambda>_. Ok credentials)))"

definition tls_try_accept :: "accept_answers \<Rightarrow> tls_config \<Rightarrow> (tls_web_socket option, ws_error) result" where
  "tls_try_accept aa config =
     (case aa_accept aa of
        AcceptWouldBlock \<Rightarrow> Ok None
      | AcceptFailed e \<Rightarrow> Err (WsIo ''accept TLS LAN connection'' e)
      | Accepted peer \<Rightarrow>
          and_then (map_err (WsIo ''configure accepted TLS connection for handshake'') (aa_blocking aa)) (\<lambda>_.
          and_then (configure_stream (aa_handshake_timeouts aa)) (\<lambda>_.
          and_then (map_err WsTls (aa_server_connection aa)) (\<lambda>_.
          and_then (tls_handshake aa config) (\<lambda>credentials.
          and_then (configure_stream (aa_poll_timeouts aa)) (\<lambda>_.
          Ok (Some \<lparr>tws_peer_address = peer, tws_max_message_bytes = tlc_max_message_bytes config,
                    tws_credentials = credentials, tws_authorizer = tlc_authorizer config\<rparr>)))))))"

definition loopback_try_accept ::
  "accept_answers \<Rightarrow> loopback_config \<Rightarrow> (net_address option, ws_error) result" where
  "loopback_try_accept aa config =
     (case aa_accept aa of
        AcceptWouldBlock \<Rightarrow> Ok None
      | AcceptFailed e \<Rightarrow> Err (WsIo ''accept loopback connection'' e)
      | Accepted peer \<Rightarrow>
          if \<not> is_loopback_ip (net_ip peer) then Err (WsNonLoopbackPeer peer)
          else
          and_then (configure_stream (aa_handshake_timeouts aa)) (\<lambda>_.
          and_then (map_err WsHandshake (aa_request aa)) (\<lambda>request.
          and_then (map_err (\<lambda>r. WsHandshake (aa_rejected aa r))
            (validate_upgrade request (lwc_path config) (lwc_subprotocol config))) (\<lambda>_.
          and_then (map_err WsHandshake (aa_finish aa)) (\<lambda>_.
          and_then (configure_stream (aa_poll_timeouts aa)) (\<lambda>_. Ok (Some peer)))))))"

section \<open>Connections\<close>

definition authenticated_client_id :: "tls_web_socket \<Rightarrow> ustring option" where
  "authenticated_client_id socket = map_option fst (tws_credentials socket)"

definition remains_authorized :: "tls_web_socket \<Rightarrow> bool" where
  "remains_authorized socket =
     (case (tws_authorizer socket, tws_credentials socket) of
        (Some authorize, Some (client_id, token)) \<Rightarrow> authorize client_id token
      | (None, None) \<Rightarrow> True
      | _ \<Rightarrow> False)"

datatype io_kind = KindWouldBlock | KindTimedOut | KindInterrupted | KindOther

datatype ws_message = MsgText ustring | MsgBinary | MsgPing | MsgPong | MsgClose | MsgFrame

text \<open>Errors of the WebSocket library, each with its display text.\<close>

datatype ws_failure =
    FailIo io_kind ustring | FailConnectionClosed ustring | FailAlreadyClosed ustring | FailOther ustring

fun failure_text :: "ws_failure \<Rightarrow> ustring" where
  "failure_text (FailIo _ e) = e"
| "failure_text (FailOther e) = e"
| "failure_text (FailConnectionClosed e) = e"
| "failure_text (FailAlreadyClosed e) = e"

definition map_websocket_error_value :: "string \<Rightarrow> ws_failure \<Rightarrow> ws_error" where
  "map_websocket_error_value operation e = WsWebSocket operation (failure_text e)"

text \<open>\<open>read\<close> of either transport (\<open>operation\<close> names it in errors); \<open>flush\<close> answers the automatic pong.\<close>

definition socket_read ::
  "string \<Rightarrow> (ws_message, ws_failure) result \<Rightarrow> (unit, ws_failure) result \<Rightarrow> (ws_read, ws_error) result" where
  "socket_read operation received flush =
     (case received of
        Ok (MsgText t) \<Rightarrow> Ok (WsReadText t)
      | Ok MsgBinary \<Rightarrow> Err WsBinaryFrame
      | Ok MsgPing \<Rightarrow>
          and_then (map_err (map_websocket_error_value ''flush automatic pong'') flush) (\<lambda>_. Ok WsReadControl)
      | Ok MsgPong \<Rightarrow> Ok WsReadPong
      | Ok MsgClose \<Rightarrow> Ok WsReadClosed
      | Ok MsgFrame \<Rightarrow> Ok WsReadControl
      | Err (FailIo KindWouldBlock _) \<Rightarrow> Ok WsReadTimeout
      | Err (FailIo KindTimedOut _) \<Rightarrow> Ok WsReadTimeout
      | Err (FailConnectionClosed _) \<Rightarrow> Ok WsReadClosed
      | Err (FailAlreadyClosed _) \<Rightarrow> Ok WsReadClosed
      | Err e \<Rightarrow> Err (map_websocket_error_value operation e))"

definition validate_outgoing_size :: "usize \<Rightarrow> usize \<Rightarrow> (unit, ws_error) result" where
  "validate_outgoing_size actual maximum =
     (if actual > maximum then Err (WsMessageTooLarge actual maximum) else Ok ())"

definition socket_send_text ::
  "string \<Rightarrow> usize \<Rightarrow> u8 list \<Rightarrow> (unit, ws_failure) result \<Rightarrow> (unit, ws_error) result" where
  "socket_send_text operation max_message_bytes bytes sent =
     and_then (validate_outgoing_size (length bytes) max_message_bytes) (\<lambda>_.
     map_err (map_websocket_error_value operation) sent)"

definition MAX_REASON_BYTES :: usize where "MAX_REASON_BYTES = 123"

function truncate_close_reason :: "ustring \<Rightarrow> ustring" where
  "truncate_close_reason reason =
     (if str_len reason \<le> MAX_REASON_BYTES \<or> reason = [] then reason else truncate_close_reason (butlast reason))"
  by pat_completeness auto
termination by (relation "measure length") auto

definition socket_close :: "string \<Rightarrow> (unit, ws_failure) result \<Rightarrow> (unit, ws_error) result" where
  "socket_close operation closed =
     (case closed of
        Ok _ \<Rightarrow> Ok ()
      | Err (FailConnectionClosed _) \<Rightarrow> Ok ()
      | Err (FailAlreadyClosed _) \<Rightarrow> Ok ()
      | Err e \<Rightarrow> Err (map_websocket_error_value operation e))"

declare truncate_close_reason.simps [simp del]

lemma str_len_Nil [simp]: "str_len [] = 0"
  by (simp add: str_len_def as_bytes_def)

lemma truncate_bounded: "str_len (truncate_close_reason reason) \<le> MAX_REASON_BYTES"
  by (induction reason rule: truncate_close_reason.induct)
    (subst truncate_close_reason.simps, auto simp: MAX_REASON_BYTES_def)

lemma truncate_prefix: "\<exists>rest. reason = truncate_close_reason reason @ rest"
proof (induction reason rule: truncate_close_reason.induct)
  case (1 reason)
  show ?case
  proof (cases "str_len reason \<le> MAX_REASON_BYTES \<or> reason = []")
    case False
    with 1 obtain rest where "butlast reason = truncate_close_reason (butlast reason) @ rest" by blast
    then have "reason = truncate_close_reason (butlast reason) @ rest @ [last reason]"
      using False by (metis append.assoc append_butlast_last_id)
    then show ?thesis using False by (subst truncate_close_reason.simps) auto
  qed (auto simp: truncate_close_reason.simps [of reason])
qed

section \<open>The authorizer contract\<close>

locale bearer_authorizer =
  fixes granted :: "'s \<Rightarrow> ustring \<rightharpoonup> 'd"
    and digest :: "ustring \<Rightarrow> 'd"
    and authorizes :: "'s \<Rightarrow> ustring \<Rightarrow> ustring \<Rightarrow> bool"
  assumes authorizes_granted: "authorizes s client_id token \<Longrightarrow> granted s client_id = Some (digest token)"
begin

lemma upgrade_granted:
  assumes "tlc_authorizer config = Some (authorizes s)" and "upgrade_callback config request = Ok credentials"
  shows "\<exists>client_id token. credentials = Some (client_id, token) \<and> granted s client_id = Some (digest token)"
  using assms authorizes_granted by (auto simp: upgrade_callback_def result_simps split: if_splits)

text \<open>A connection that was accepted while the state was \<open>s\<close> and is checked again when it is \<open>s'\<close>.\<close>

lemma revoked_closed:
  assumes "tws_authorizer socket = Some (authorizes s')"
    and "authenticated_client_id socket = Some client_id" and "granted s' client_id = None"
  shows "\<not> remains_authorized socket"
  using assms authorizes_granted by (auto simp: remains_authorized_def authenticated_client_id_def)

lemma accepted_granted:
  assumes "tlc_authorizer config = Some (authorizes s)" and "tls_try_accept aa config = Ok (Some socket)"
  shows "\<exists>client_id token. tws_credentials socket = Some (client_id, token)
    \<and> granted s client_id = Some (digest token)"
proof -
  obtain request where "upgrade_callback config request = Ok (tws_credentials socket)"
    using assms(2) by (auto simp: tls_try_accept_def tls_handshake_def result_simps split: listener_answer.splits)
  from upgrade_granted [OF assms(1) this] show ?thesis .
qed

end

end
