(* ===== verification/Pairing_Store.thy ===== *)
theory Pairing_Store
  imports Transport
begin

text \<open>
  The credential store of a Host (\<open>agentpulse-pairing/src/store.rs\<close>, \<open>error.rs\<close>) and the atomic
  replacement of private files (\<open>agentpulse-platform/src/lib.rs\<close>). The state of the store is the
  content of its file, \<open>None\<close> while the file does not exist. What the file system answers during an
  operation, the current time and the random secret are arguments; so is the code of other crates:
  UUID text, SHA-256, Base64, certificates and the JSON form of the record. All operations hold the
  lock of the store while they read and write, so each is one step.
\<close>

unbundle bit_operations_syntax

section \<open>Errors and foreign code\<close>

datatype pairing_error =
    PairingInvalidField string ustring
  | PairingJson ustring
  | PairingBase64 ustring
  | PairingCertificate ustring
  | PairingTransport ws_error
  | PairingIo string ustring ustring
  | AlreadyInitialized ustring
  | NotInitialized ustring
  | InvalidStore ustring
  | DeviceCapacity usize
  | DeviceNotFound ustring
  | PairingExpired
  | PairingDenied
  | AttemptLimit

record certificate_record =
  cer_ca_certificate_der :: ustring
  cer_ca_private_key_der :: ustring
  cer_leaf_certificate_der :: ustring
  cer_leaf_private_key_der :: ustring
  cer_leaf_not_after_unix_seconds :: int

record device_record =
  dev_client_id :: ustring
  dev_display_name :: ustring
  dev_version :: "ustring option"
  dev_token_sha256 :: ustring
  dev_paired_at_unix_seconds :: int

record store_record =
  sto_schema_version :: u16
  sto_host_id :: ustring
  sto_host_name :: ustring
  sto_provider_id :: ustring
  sto_channel_id :: ustring
  sto_server_name :: ustring
  sto_thread_ids :: "ustring list"
  sto_certificates :: certificate_record
  sto_devices :: "device_record list"

record pairing_env =
  pe_uuid_parse :: "ustring \<Rightarrow> (uuid, ustring) result"
  pe_uuid_version :: "uuid \<Rightarrow> nat"
  pe_sha256 :: "u8 list \<Rightarrow> u8 list"
  pe_standard_encode :: "u8 list \<Rightarrow> ustring"
  pe_standard_decode :: "ustring \<Rightarrow> (u8 list, ustring) result"
  pe_url_encode :: "u8 list \<Rightarrow> ustring"
  pe_url_decode :: "ustring \<Rightarrow> (u8 list, ustring) result"
  pe_record_to_vec :: "store_record \<Rightarrow> (u8 list, ustring) result"
  pe_record_from_slice :: "u8 list \<Rightarrow> (store_record, ustring) result"

text \<open>What the code relies on: a digest has 32 bytes, and a written record is read back.\<close>

definition pairing_laws :: "pairing_env \<Rightarrow> bool" where
  "pairing_laws pe \<longleftrightarrow> (\<forall>bytes. length (pe_sha256 pe bytes) = 32)
     \<and> (\<forall>record bytes. pe_record_to_vec pe record = Ok bytes \<longrightarrow> pe_record_from_slice pe bytes = Ok record)"

text \<open>What \<open>rcgen\<close> answers: a fresh authority for a Host name, whether a stored authority can be
  restored, and a fresh leaf for a server name, each a certificate and its key.\<close>

record certificate_answers =
  ca_new :: "ustring \<Rightarrow> (u8 list \<times> u8 list, ustring) result"
  ca_restore :: "u8 list \<Rightarrow> u8 list \<Rightarrow> (unit, ustring) result"
  leaf_new :: "ustring \<Rightarrow> (u8 list \<times> u8 list, ustring) result"

section \<open>Text\<close>

definition pairing_invalid :: "string \<Rightarrow> string \<Rightarrow> (unit, pairing_error) result" where
  "pairing_invalid field reason = Err (PairingInvalidField field (utf reason))"

definition validate_bounded :: "string \<Rightarrow> ustring \<Rightarrow> usize \<Rightarrow> (unit, pairing_error) result" where
  "validate_bounded field value maximum =
     (if trim_text value = [] \<or> str_len value > maximum
      then pairing_invalid field ''must be nonblank and within its size limit'' else Ok ())"

definition validate_name :: "ustring \<Rightarrow> (unit, pairing_error) result" where
  "validate_name value = validate_bounded ''display_name'' value 80"

definition pairing_uuid_v7 :: "pairing_env \<Rightarrow> string \<Rightarrow> ustring \<Rightarrow> (unit, pairing_error) result" where
  "pairing_uuid_v7 pe field value =
     and_then (map_err (PairingInvalidField field) (pe_uuid_parse pe value)) (\<lambda>uuid.
     if pe_uuid_version pe uuid \<noteq> 7 then pairing_invalid field ''must be UUIDv7'' else Ok ())"

fun for_each :: "('a \<Rightarrow> (unit, 'e) result) \<Rightarrow> 'a list \<Rightarrow> (unit, 'e) result" where
  "for_each f [] = Ok ()"
| "for_each f (x # xs) = and_then (f x) (\<lambda>_. for_each f xs)"

definition hex_digit :: "u8 \<Rightarrow> nat" where
  "hex_digit d = (if d < 10 then 48 + unat d else 87 + unat d)"

definition hex :: "u8 list \<Rightarrow> ustring" where
  "hex bytes = concat (map (\<lambda>b. [hex_digit (drop_bit 4 b), hex_digit (take_bit 4 b)]) bytes)"

definition hex_value :: "u8 \<Rightarrow> u8 option" where
  "hex_value value =
     (if 48 \<le> value \<and> value \<le> 57 then Some (value - 48)
      else if 97 \<le> value \<and> value \<le> 102 then Some (value - 97 + 10)
      else None)"

fun decode_hex_pairs :: "u8 list \<Rightarrow> u8 list option" where
  "decode_hex_pairs (h # l # rest) =
     Option.bind (hex_value h) (\<lambda>high.
     Option.bind (hex_value l) (\<lambda>low.
     map_option ((#) (push_bit 4 high OR low)) (decode_hex_pairs rest)))"
| "decode_hex_pairs _ = Some []"

definition decode_hex_32 :: "ustring \<Rightarrow> u8 list option" where
  "decode_hex_32 value = (if str_len value \<noteq> 64 then None else decode_hex_pairs (as_bytes value))"

section \<open>The record\<close>

definition STORE_SCHEMA_VERSION :: u16 where "STORE_SCHEMA_VERSION = 1"
definition MAX_DEVICES :: usize where "MAX_DEVICES = 16"
definition LEAF_LIFETIME_DAYS :: int where "LEAF_LIFETIME_DAYS = 90"
definition LEAF_RENEWAL_DAYS :: int where "LEAF_RENEWAL_DAYS = 14"

definition days_seconds :: "int \<Rightarrow> int" where
  "days_seconds days = days * 86400"

record host_identity_snapshot =
  his_host_id :: ustring
  his_host_name :: ustring
  his_provider_id :: ustring
  his_channel_id :: ustring
  his_server_name :: ustring
  his_thread_ids :: "ustring list"
  his_leaf_certificate_der :: "u8 list"
  his_ca_certificate_der :: "u8 list"
  his_leaf_private_key_der :: "u8 list"
  his_leaf_not_after_unix_seconds :: int

definition leaf_sha256 :: "pairing_env \<Rightarrow> host_identity_snapshot \<Rightarrow> ustring" where
  "leaf_sha256 pe identity = hex (pe_sha256 pe (his_leaf_certificate_der identity))"

definition ca_certificate_base64 :: "pairing_env \<Rightarrow> host_identity_snapshot \<Rightarrow> ustring" where
  "ca_certificate_base64 pe identity = pe_standard_encode pe (his_ca_certificate_der identity)"

definition standard_decode :: "pairing_env \<Rightarrow> ustring \<Rightarrow> (u8 list, pairing_error) result" where
  "standard_decode pe value = map_err PairingBase64 (pe_standard_decode pe value)"

definition identity_snapshot :: "pairing_env \<Rightarrow> store_record \<Rightarrow> (host_identity_snapshot, pairing_error) result" where
  "identity_snapshot pe record =
     and_then (standard_decode pe (cer_leaf_certificate_der (sto_certificates record))) (\<lambda>leaf.
     and_then (standard_decode pe (cer_ca_certificate_der (sto_certificates record))) (\<lambda>ca.
     and_then (standard_decode pe (cer_leaf_private_key_der (sto_certificates record))) (\<lambda>key.
     Ok \<lparr>his_host_id = sto_host_id record, his_host_name = sto_host_name record,
         his_provider_id = sto_provider_id record, his_channel_id = sto_channel_id record,
         his_server_name = sto_server_name record, his_thread_ids = sto_thread_ids record,
         his_leaf_certificate_der = leaf, his_ca_certificate_der = ca, his_leaf_private_key_der = key,
         his_leaf_not_after_unix_seconds = cer_leaf_not_after_unix_seconds (sto_certificates record)\<rparr>)))"

definition validate_device :: "pairing_env \<Rightarrow> device_record \<Rightarrow> (unit, pairing_error) result" where
  "validate_device pe device =
     and_then (pairing_uuid_v7 pe ''client_id'' (dev_client_id device)) (\<lambda>_.
     and_then (validate_name (dev_display_name device)) (\<lambda>_.
     if decode_hex_32 (dev_token_sha256 device) = None
     then Err (InvalidStore (utf ''invalid device credential hash'')) else Ok ()))"

definition validate_record :: "pairing_env \<Rightarrow> store_record \<Rightarrow> (unit, pairing_error) result" where
  "validate_record pe record =
     (if sto_schema_version record \<noteq> STORE_SCHEMA_VERSION
      then Err (InvalidStore (utf ''unsupported schema version '' @ decimal (unat (sto_schema_version record))))
      else
     and_then (pairing_uuid_v7 pe ''host_id'' (sto_host_id record)) (\<lambda>_.
     and_then (pairing_uuid_v7 pe ''provider_id'' (sto_provider_id record)) (\<lambda>_.
     and_then (pairing_uuid_v7 pe ''channel_id'' (sto_channel_id record)) (\<lambda>_.
     and_then (validate_name (sto_host_name record)) (\<lambda>_.
     and_then (validate_bounded ''server_name'' (sto_server_name record) 253) (\<lambda>_.
     if length (sto_devices record) > MAX_DEVICES then Err (InvalidStore (utf ''device capacity exceeded''))
     else
     and_then (for_each (pairing_uuid_v7 pe ''thread_id'') (sto_thread_ids record)) (\<lambda>_.
     and_then (for_each (validate_device pe) (sto_devices record)) (\<lambda>_.
     and_then (identity_snapshot pe record) (\<lambda>_. Ok ())))))))))"

section \<open>Certificates\<close>

definition create_leaf ::
  "certificate_answers \<Rightarrow> int \<Rightarrow> ustring \<Rightarrow> (u8 list \<times> u8 list \<times> int, pairing_error) result" where
  "create_leaf ca now server_name =
     and_then (map_err PairingCertificate (leaf_new ca server_name)) (\<lambda>(der, key).
     Ok (der, key, now + days_seconds LEAF_LIFETIME_DAYS))"

definition generate_identity ::
  "pairing_env \<Rightarrow> certificate_answers \<Rightarrow> int \<Rightarrow> ustring \<Rightarrow> ustring \<Rightarrow> (certificate_record, pairing_error) result" where
  "generate_identity pe ca now host_name server_name =
     and_then (map_err PairingCertificate (ca_new ca host_name)) (\<lambda>(ca_der, ca_key).
     and_then (create_leaf ca now server_name) (\<lambda>(leaf_der, leaf_key, not_after).
     Ok \<lparr>cer_ca_certificate_der = pe_standard_encode pe ca_der, cer_ca_private_key_der = pe_standard_encode pe ca_key,
         cer_leaf_certificate_der = pe_standard_encode pe leaf_der,
         cer_leaf_private_key_der = pe_standard_encode pe leaf_key,
         cer_leaf_not_after_unix_seconds = not_after\<rparr>))"

definition renew_leaf ::
  "pairing_env \<Rightarrow> certificate_answers \<Rightarrow> int \<Rightarrow> store_record \<Rightarrow> (store_record, pairing_error) result" where
  "renew_leaf pe ca now record =
     (let certificates = sto_certificates record in
      and_then (standard_decode pe (cer_ca_certificate_der certificates)) (\<lambda>ca_der.
      and_then (standard_decode pe (cer_ca_private_key_der certificates)) (\<lambda>ca_key.
      and_then (map_err PairingCertificate (ca_restore ca ca_der ca_key)) (\<lambda>_.
      and_then (create_leaf ca now (sto_server_name record)) (\<lambda>(leaf_der, leaf_key, not_after).
      Ok (record\<lparr>sto_certificates := certificates\<lparr>
            cer_leaf_certificate_der := pe_standard_encode pe leaf_der,
            cer_leaf_private_key_der := pe_standard_encode pe leaf_key,
            cer_leaf_not_after_unix_seconds := not_after\<rparr>\<rparr>))))))"

section \<open>Private files\<close>

text \<open>The answers of the file system to \<open>atomic_write_private\<close>, step by step. The file is replaced by the
  rename; the synchronization of the directory follows it.\<close>

record write_answers =
  wa_parent :: "ustring option"
  wa_private_dir :: "(unit, ustring) result"
  wa_protect_old :: "(unit, ustring) result"
  wa_open_temporary :: "(unit, ustring) result"
  wa_protect_temporary :: "(unit, ustring) result"
  wa_write_all :: "(unit, ustring) result"
  wa_sync_all :: "(unit, ustring) result"
  wa_rename :: "(unit, ustring) result"
  wa_sync_parent :: "(unit, ustring) result"

type_synonym private_file = "u8 list option"

definition prepare_temporary :: "write_answers \<Rightarrow> private_file \<Rightarrow> (unit, ustring) result" where
  "prepare_temporary wa file =
     and_then (ok_or (utf ''private file requires a parent directory'') (wa_parent wa)) (\<lambda>_.
     and_then (wa_private_dir wa) (\<lambda>_.
     and_then (if file \<noteq> None then wa_protect_old wa else Ok ()) (\<lambda>_.
     and_then (wa_open_temporary wa) (\<lambda>_.
     and_then (wa_protect_temporary wa) (\<lambda>_.
     and_then (wa_write_all wa) (\<lambda>_. wa_sync_all wa))))))"

definition atomic_write_private ::
  "write_answers \<Rightarrow> u8 list \<Rightarrow> private_file \<Rightarrow> (unit, ustring) result \<times> private_file" where
  "atomic_write_private wa bytes file =
     (case and_then (prepare_temporary wa file) (\<lambda>_. wa_rename wa) of
        Err e \<Rightarrow> (Err e, file)
      | Ok _ \<Rightarrow> (wa_sync_parent wa, Some bytes))"

section \<open>The store\<close>

record host_credential_store =
  hcs_path :: ustring
  hcs_lock_path :: ustring

text \<open>The answers of the file system to one store operation.\<close>

record store_answers =
  sa_parent :: "ustring option"
  sa_private_dir :: "(unit, ustring) result"
  sa_open_lock :: "(unit, ustring) result"
  sa_lock :: "(unit, ustring) result"
  sa_protect_file :: "(unit, ustring) result"
  sa_read :: "(unit, ustring) result"
  sa_write :: write_answers

definition ensure_parent :: "store_answers \<Rightarrow> (unit, pairing_error) result" where
  "ensure_parent sa =
     (case sa_parent sa of
        None \<Rightarrow> pairing_invalid ''credential_path'' ''path has no parent''
      | Some parent \<Rightarrow> map_err (PairingIo ''protect directory'' parent) (sa_private_dir sa))"

definition open_lock :: "host_credential_store \<Rightarrow> store_answers \<Rightarrow> (unit, pairing_error) result" where
  "open_lock st sa = map_err (PairingIo ''open lock'' (hcs_lock_path st)) (sa_open_lock sa)"

text \<open>The beginning of every operation: parent, lock file and lock.\<close>

definition lock_store :: "host_credential_store \<Rightarrow> store_answers \<Rightarrow> (unit, pairing_error) result" where
  "lock_store st sa =
     and_then (ensure_parent sa) (\<lambda>_.
     and_then (open_lock st sa) (\<lambda>_.
     map_err (PairingIo ''lock'' (hcs_lock_path st)) (sa_lock sa)))"

definition load_unlocked ::
  "pairing_env \<Rightarrow> host_credential_store \<Rightarrow> store_answers \<Rightarrow> private_file \<Rightarrow> (store_record, pairing_error) result" where
  "load_unlocked pe st sa file =
     (case file of
        None \<Rightarrow> Err (NotInitialized (hcs_path st))
      | Some bytes \<Rightarrow>
          and_then (map_err (PairingIo ''protect file'' (hcs_path st)) (sa_protect_file sa)) (\<lambda>_.
          and_then (map_err (PairingIo ''read'' (hcs_path st)) (sa_read sa)) (\<lambda>_.
          and_then (map_err PairingJson (pe_record_from_slice pe bytes)) (\<lambda>record.
          and_then (validate_record pe record) (\<lambda>_. Ok record)))))"

definition load_record ::
  "pairing_env \<Rightarrow> host_credential_store \<Rightarrow> store_answers \<Rightarrow> private_file \<Rightarrow> (store_record, pairing_error) result" where
  "load_record pe st sa file = and_then (lock_store st sa) (\<lambda>_. load_unlocked pe st sa file)"

definition save_unlocked ::
  "pairing_env \<Rightarrow> host_credential_store \<Rightarrow> store_answers \<Rightarrow> store_record \<Rightarrow> private_file
     \<Rightarrow> (unit, pairing_error) result \<times> private_file" where
  "save_unlocked pe st sa record file =
     (case pe_record_to_vec pe record of
        Err e \<Rightarrow> (Err (PairingJson e), file)
      | Ok bytes \<Rightarrow>
          (case atomic_write_private (sa_write sa) bytes file of
             (r, file') \<Rightarrow> (map_err (PairingIo ''replace private file'' (hcs_path st)) r, file')))"

definition update_store ::
  "pairing_env \<Rightarrow> host_credential_store \<Rightarrow> store_answers
     \<Rightarrow> (store_record \<Rightarrow> (store_record, pairing_error) result) \<Rightarrow> private_file
     \<Rightarrow> (store_record, pairing_error) result \<times> private_file" where
  "update_store pe st sa operation file =
     (case and_then (load_record pe st sa file) (\<lambda>record.
           and_then (operation record) (\<lambda>record.
           and_then (validate_record pe record) (\<lambda>_. Ok record))) of
        Err e \<Rightarrow> (Err e, file)
      | Ok record \<Rightarrow>
          (case save_unlocked pe st sa record file of
             (r, file') \<Rightarrow> (and_then r (\<lambda>_. Ok record), file')))"

definition with_identity ::
  "pairing_env \<Rightarrow> (store_record, pairing_error) result \<times> private_file
     \<Rightarrow> (host_identity_snapshot, pairing_error) result \<times> private_file" where
  "with_identity pe step = (case step of (r, file) \<Rightarrow> (and_then r (identity_snapshot pe), file))"

text \<open>\<open>initialize\<close>; the three UUIDs are the fresh ones of this call.\<close>

definition initialize ::
  "pairing_env \<Rightarrow> host_credential_store \<Rightarrow> store_answers \<Rightarrow> certificate_answers \<Rightarrow> int
     \<Rightarrow> ustring \<Rightarrow> ustring \<Rightarrow> ustring \<Rightarrow> ustring \<Rightarrow> private_file
     \<Rightarrow> (host_identity_snapshot, pairing_error) result \<times> private_file" where
  "initialize pe st sa ca now host_id provider_id channel_id host_name file =
     (let server_name = host_id @ utf ''.agentpulse.local'' in
      case and_then (validate_name host_name) (\<lambda>_.
           and_then (lock_store st sa) (\<lambda>_.
           if file \<noteq> None then Err (AlreadyInitialized (hcs_path st))
           else generate_identity pe ca now host_name server_name)) of
        Err e \<Rightarrow> (Err e, file)
      | Ok certificates \<Rightarrow>
          let record = \<lparr>sto_schema_version = STORE_SCHEMA_VERSION, sto_host_id = host_id, sto_host_name = host_name,
                sto_provider_id = provider_id, sto_channel_id = channel_id, sto_server_name = server_name,
                sto_thread_ids = [], sto_certificates = certificates, sto_devices = []\<rparr>
          in (case save_unlocked pe st sa record file of
                (r, file') \<Rightarrow> with_identity pe (and_then r (\<lambda>_. Ok record), file')))"

definition load_identity ::
  "pairing_env \<Rightarrow> host_credential_store \<Rightarrow> store_answers \<Rightarrow> certificate_answers \<Rightarrow> int \<Rightarrow> private_file
     \<Rightarrow> (host_identity_snapshot, pairing_error) result \<times> private_file" where
  "load_identity pe st sa ca now file =
     with_identity pe (update_store pe st sa (\<lambda>record.
       if cer_leaf_not_after_unix_seconds (sto_certificates record) \<le> now + days_seconds LEAF_RENEWAL_DAYS
       then renew_leaf pe ca now record else Ok record) file)"

fun validate_thread_ids :: "pairing_env \<Rightarrow> ustring list \<Rightarrow> ustring list \<Rightarrow> (unit, pairing_error) result" where
  "validate_thread_ids pe unique [] = Ok ()"
| "validate_thread_ids pe unique (thread_id # thread_ids) =
     and_then (pairing_uuid_v7 pe ''thread_id'' thread_id) (\<lambda>_.
     if thread_id \<in> set unique
     then Err (PairingInvalidField ''thread_id'' (utf ''duplicate thread '' @ thread_id))
     else validate_thread_ids pe (thread_id # unique) thread_ids)"

definition set_thread_ids ::
  "pairing_env \<Rightarrow> host_credential_store \<Rightarrow> store_answers \<Rightarrow> ustring list \<Rightarrow> private_file
     \<Rightarrow> (unit, pairing_error) result \<times> private_file" where
  "set_thread_ids pe st sa thread_ids file =
     (case validate_thread_ids pe [] thread_ids of
        Err e \<Rightarrow> (Err e, file)
      | Ok _ \<Rightarrow>
          (case update_store pe st sa (\<lambda>record. Ok (record\<lparr>sto_thread_ids := thread_ids\<rparr>)) file of
             (r, file') \<Rightarrow> (and_then r (\<lambda>_. Ok ()), file')))"

record device_credential_summary =
  dcs_client_id :: ustring
  dcs_display_name :: ustring
  dcs_version :: "ustring option"
  dcs_paired_at_unix_seconds :: int

definition list_devices ::
  "pairing_env \<Rightarrow> host_credential_store \<Rightarrow> store_answers \<Rightarrow> private_file
     \<Rightarrow> (device_credential_summary list, pairing_error) result" where
  "list_devices pe st sa file =
     and_then (load_record pe st sa file) (\<lambda>record.
     Ok (map (\<lambda>d. \<lparr>dcs_client_id = dev_client_id d, dcs_display_name = dev_display_name d,
                   dcs_version = dev_version d, dcs_paired_at_unix_seconds = dev_paired_at_unix_seconds d\<rparr>)
           (sto_devices record)))"

definition device_credential_digests ::
  "pairing_env \<Rightarrow> host_credential_store \<Rightarrow> store_answers \<Rightarrow> private_file
     \<Rightarrow> ((ustring \<times> u8 list) list, pairing_error) result" where
  "device_credential_digests pe st sa file =
     and_then (load_record pe st sa file) (\<lambda>record.
     collect_results (\<lambda>d.
       and_then (ok_or (InvalidStore (utf ''invalid device credential hash'')) (decode_hex_32 (dev_token_sha256 d)))
         (\<lambda>digest. Ok (dev_client_id d, digest))) (sto_devices record))"

text \<open>\<open>iter_mut().find(..)\<close> followed by the update of the device found.\<close>

fun replace_device :: "device_record \<Rightarrow> device_record list \<Rightarrow> device_record list" where
  "replace_device device [] = []"
| "replace_device device (d # ds) =
     (if dev_client_id d = dev_client_id device then device # ds else d # replace_device device ds)"

definition put_device :: "device_record \<Rightarrow> store_record \<Rightarrow> (store_record, pairing_error) result" where
  "put_device device record =
     (if \<exists>d \<in> set (sto_devices record). dev_client_id d = dev_client_id device
      then Ok (record\<lparr>sto_devices := replace_device device (sto_devices record)\<rparr>)
      else if length (sto_devices record) \<ge> MAX_DEVICES then Err (DeviceCapacity MAX_DEVICES)
      else Ok (record\<lparr>sto_devices := sto_devices record @ [device]\<rparr>))"

text \<open>\<open>issue_device\<close>; \<open>secret\<close> are the 32 random bytes of this call.\<close>

definition device_token :: "pairing_env \<Rightarrow> u8 list \<Rightarrow> ustring" where
  "device_token pe secret = pe_url_encode pe secret"

definition validate_issue ::
  "pairing_env \<Rightarrow> ustring \<Rightarrow> ustring \<Rightarrow> ustring option \<Rightarrow> (unit, pairing_error) result" where
  "validate_issue pe client_id display_name version =
     and_then (pairing_uuid_v7 pe ''client_id'' client_id) (\<lambda>_.
     and_then (validate_name display_name) (\<lambda>_.
     case version of Some v \<Rightarrow> validate_bounded ''version'' v 64 | None \<Rightarrow> Ok ()))"

definition issue_device ::
  "pairing_env \<Rightarrow> host_credential_store \<Rightarrow> store_answers \<Rightarrow> int \<Rightarrow> u8 list
     \<Rightarrow> ustring \<Rightarrow> ustring \<Rightarrow> ustring option \<Rightarrow> private_file
     \<Rightarrow> (ustring, pairing_error) result \<times> private_file" where
  "issue_device pe st sa now secret client_id display_name version file =
     (case validate_issue pe client_id display_name version of
        Err e \<Rightarrow> (Err e, file)
      | Ok _ \<Rightarrow>
          let token = device_token pe secret;
              device = \<lparr>dev_client_id = client_id, dev_display_name = display_name, dev_version = version,
                dev_token_sha256 = hex (pe_sha256 pe (as_bytes token)), dev_paired_at_unix_seconds = now\<rparr>
          in (case update_store pe st sa (put_device device) file of
                (r, file') \<Rightarrow> (and_then r (\<lambda>_. Ok token), file')))"

definition drop_device :: "ustring \<Rightarrow> store_record \<Rightarrow> (store_record, pairing_error) result" where
  "drop_device client_id record =
     (let kept = filter (\<lambda>d. dev_client_id d \<noteq> client_id) (sto_devices record) in
      if length (sto_devices record) = length kept then Err (DeviceNotFound client_id)
      else Ok (record\<lparr>sto_devices := kept\<rparr>))"

definition revoke_device ::
  "pairing_env \<Rightarrow> host_credential_store \<Rightarrow> store_answers \<Rightarrow> ustring \<Rightarrow> private_file
     \<Rightarrow> (unit, pairing_error) result \<times> private_file" where
  "revoke_device pe st sa client_id file =
     (case update_store pe st sa (drop_device client_id) file of
        (r, file') \<Rightarrow> (and_then r (\<lambda>_. Ok ()), file'))"

definition rotate_credentials ::
  "pairing_env \<Rightarrow> host_credential_store \<Rightarrow> store_answers \<Rightarrow> certificate_answers \<Rightarrow> int \<Rightarrow> private_file
     \<Rightarrow> (host_identity_snapshot, pairing_error) result \<times> private_file" where
  "rotate_credentials pe st sa ca now file =
     with_identity pe (update_store pe st sa (\<lambda>record.
       and_then (generate_identity pe ca now (sto_host_name record) (sto_server_name record)) (\<lambda>certificates.
       Ok (record\<lparr>sto_certificates := certificates, sto_devices := []\<rparr>))) file)"

definition authorize ::
  "pairing_env \<Rightarrow> host_credential_store \<Rightarrow> store_answers \<Rightarrow> ustring \<Rightarrow> ustring \<Rightarrow> private_file \<Rightarrow> bool" where
  "authorize pe st sa client_id token file =
     (case load_record pe st sa file of
        Err _ \<Rightarrow> False
      | Ok record \<Rightarrow>
          (case find (\<lambda>d. dev_client_id d = client_id) (sto_devices record) of
             None \<Rightarrow> False
           | Some device \<Rightarrow>
               (case decode_hex_32 (dev_token_sha256 device) of
                  None \<Rightarrow> False
                | Some expected \<Rightarrow> pe_sha256 pe (as_bytes token) = expected)))"

end
