(* ===== verification/Pairing_Protocol.thy ===== *)
theory Pairing_Protocol
  imports Pairing_Store Native_Types
begin

text \<open>
  The pairing URI and the messages of the pairing socket (\<open>agentpulse-pairing/src/protocol.rs\<close>).
  Requests and server messages are instances of the \<open>codec\<close> contract of the wire protocol. The JSON
  text of the derived implementations is foreign (\<open>pairing_json\<close>).
\<close>

section \<open>Data\<close>

definition PAIRING_PROTOCOL_VERSION :: u16 where "PAIRING_PROTOCOL_VERSION = 1"
definition PAIRING_WEBSOCKET_PATH :: ustring where "PAIRING_WEBSOCKET_PATH = utf ''/agentpulse/pair/v1''"
definition PAIRING_WEBSOCKET_SUBPROTOCOL :: ustring where "PAIRING_WEBSOCKET_SUBPROTOCOL = utf ''agentpulse.pair.v1''"
definition PAIRING_URI_PREFIX :: ustring where "PAIRING_URI_PREFIX = utf ''agentpulse://pair/v1/''"

record pairing_bundle =
  pb_pairing_version :: u16
  pb_pairing_id :: ustring
  pb_host_id :: ustring
  pb_host_name :: ustring
  pb_server_name :: ustring
  pb_address :: ustring
  pb_port :: u16
  pb_leaf_sha256 :: ustring
  pb_bootstrap_token :: ustring
  pb_relay_endpoint :: ustring
  pb_route :: "ustring option"
  pb_expires_at_unix_seconds :: int

record pairing_request =
  pr_pairing_id :: ustring
  pr_bootstrap_token :: ustring
  pr_client_id :: ustring
  pr_display_name :: ustring
  pr_version :: "ustring option"

datatype pairing_error_code =
  PairInvalidRequest | PairInvalidCredential | PairExpired | PairUsed | PairDenied | PairCapacity | PairInternal

record pairing_success =
  ps_host_id :: ustring
  ps_host_name :: ustring
  ps_ca_certificate_der :: ustring
  ps_server_name :: ustring
  ps_native_address :: ustring
  ps_native_port :: u16
  ps_access_token :: ustring
  ps_native_transport_version :: u16
  ps_domain_protocol_versions :: "u16 list"

datatype pairing_server_message =
    PairPending ustring ustring
  | PairSucceeded pairing_success
  | PairError pairing_error_code ustring bool

record 'm pairing_envelope =
  pen_pairing_version :: u64
  pen_message :: 'm

datatype request_dto = PairRequestDto ustring ustring ustring ustring "ustring option"

datatype pair_error_code_dto =
    PairInvalidRequestDto | PairInvalidCredentialDto | PairExpiredDto | PairUsedDto | PairDeniedDto
  | PairCapacityDto | PairInternalDto

datatype pair_server_dto =
    PairingPendingDto ustring ustring
  | PairingSucceededDto pairing_success
  | PairingErrorDto pair_error_code_dto ustring bool

text \<open>\<open>serde_json\<close> on these types. A parsed JSON value is represented by the set of its members, the only
  thing the code asks of it (\<open>value.get(name).is_some()\<close>).\<close>

record pairing_json =
  pj_bundle_to_vec :: "pairing_bundle \<Rightarrow> (u8 list, ustring) result"
  pj_bundle_from_slice :: "u8 list \<Rightarrow> (pairing_bundle, ustring) result"
  pj_value_members :: "u8 list \<Rightarrow> (string \<Rightarrow> bool, ustring) result"
  pj_request_to_vec :: "request_dto pairing_envelope \<Rightarrow> (u8 list, ustring) result"
  pj_request_from_slice :: "u8 list \<Rightarrow> (request_dto pairing_envelope, ustring) result"
  pj_server_to_vec :: "pair_server_dto pairing_envelope \<Rightarrow> (u8 list, ustring) result"
  pj_server_from_slice :: "u8 list \<Rightarrow> (pair_server_dto pairing_envelope, ustring) result"
  pj_utf8_error :: "u8 list \<Rightarrow> ustring"

text \<open>The contract of the derived implementations and of Base64: what was written reads back, written JSON is
  UTF-8, and the two optional members of a bundle are written exactly when they are present
  (\<open>skip_serializing_if\<close>).\<close>

definition pairing_json_laws :: "pairing_env \<Rightarrow> pairing_json \<Rightarrow> bool" where
  "pairing_json_laws pe pj \<longleftrightarrow>
     (\<forall>bytes. pe_url_decode pe (pe_url_encode pe bytes) = Ok bytes)
     \<and> (\<forall>b bytes. pj_bundle_to_vec pj b = Ok bytes \<longrightarrow> pj_bundle_from_slice pj bytes = Ok b
          \<and> (\<exists>members. pj_value_members pj bytes = Ok members
               \<and> members ''route'' = (pb_route b \<noteq> None) \<and> members ''relay_endpoint'' = (pb_relay_endpoint b \<noteq> [])))
     \<and> (\<forall>e bytes. pj_request_to_vec pj e = Ok bytes \<longrightarrow> pj_request_from_slice pj bytes = Ok e)
     \<and> (\<forall>e bytes. pj_server_to_vec pj e = Ok bytes \<longrightarrow> valid_utf8 bytes \<and> pj_server_from_slice pj bytes = Ok e)"

section \<open>Validation\<close>

definition validate_version :: "u64 \<Rightarrow> (unit, pairing_error) result" where
  "validate_version version =
     (if version = ucast PAIRING_PROTOCOL_VERSION then Ok ()
      else pairing_invalid ''pairing_version'' ''unsupported version'')"

definition relay_label :: "ustring \<Rightarrow> bool" where
  "relay_label label \<longleftrightarrow> label \<noteq> [] \<and> str_len label \<le> 63 \<and> \<not> starts_with 45 label \<and> \<not> ends_with 45 label
     \<and> list_all (\<lambda>c. is_ascii_lowercase c \<or> is_ascii_digit c \<or> c = 45) label"

definition validate_relay_endpoint :: "ustring \<Rightarrow> (unit, pairing_error) result" where
  "validate_relay_endpoint endpoint =
     (if trim_text endpoint \<noteq> endpoint \<or> contains_text (utf ''//'') endpoint
        \<or> list_ex (\<lambda>c. c \<in> set (utf ''/?#@'')) endpoint
      then pairing_invalid ''relay_endpoint'' ''must be a canonical DNS host:port authority''
      else case rsplit_once 58 endpoint of
        None \<Rightarrow> pairing_invalid ''relay_endpoint'' ''must contain one port''
      | Some (host, port) \<Rightarrow>
          if 58 \<in> set host \<or> str_len host > 253 \<or> 46 \<notin> set host \<or> host \<noteq> to_ascii_lowercase host
            \<or> \<not> is_ascii host \<or> parse_ip_addr host \<noteq> None
            \<or> list_ex (\<lambda>label. \<not> relay_label label) (split_on 46 host)
          then pairing_invalid ''relay_endpoint'' ''must use a canonical public ASCII DNS name''
          else case parse_u16 port of
            None \<Rightarrow> pairing_invalid ''relay_endpoint'' ''port must be 1..65535''
          | Some p \<Rightarrow> if p = 0 then pairing_invalid ''relay_endpoint'' ''port must be 1..65535'' else Ok ())"

definition direct_label :: "ustring \<Rightarrow> bool" where
  "direct_label label \<longleftrightarrow> label \<noteq> [] \<and> str_len label \<le> 63 \<and> \<not> starts_with 45 label \<and> \<not> ends_with 45 label
     \<and> list_all (\<lambda>c. is_ascii_alphanumeric c \<or> c = 45) label"

definition validate_direct_host :: "ustring \<Rightarrow> (unit, pairing_error) result" where
  "validate_direct_host host =
     (case parse_ip_addr host of
        Some ip \<Rightarrow>
          if \<not> is_unspecified ip \<and> \<not> is_multicast ip then Ok ()
          else pairing_invalid ''address'' ''must be a unicast IP or ASCII DNS name''
      | None \<Rightarrow>
          if \<not> list_all (\<lambda>c. is_ascii_digit c \<or> c = 46) host \<and> str_len host \<le> 253 \<and> is_ascii host
            \<and> list_all direct_label (split_on 46 host)
          then Ok () else pairing_invalid ''address'' ''must be a unicast IP or ASCII DNS name'')"

definition validate_route :: "pairing_bundle \<Rightarrow> (unit, pairing_error) result" where
  "validate_route b =
     (if pb_pairing_version b = 1 \<and> pb_route b = None then validate_relay_endpoint (pb_relay_endpoint b)
      else if pb_pairing_version b = 2 \<and> pb_route b = Some (utf ''direct'') \<and> pb_relay_endpoint b = []
      then validate_direct_host (pb_address b)
      else pairing_invalid ''route'' ''invalid discovery route'')"

definition validate_bundle :: "pairing_env \<Rightarrow> pairing_bundle \<Rightarrow> (unit, pairing_error) result" where
  "validate_bundle pe b =
     (if pb_pairing_version b \<noteq> 1 \<and> pb_pairing_version b \<noteq> 2
      then pairing_invalid ''pairing_version'' ''unsupported version'' else
     and_then (pairing_uuid_v7 pe ''pairing_id'' (pb_pairing_id b)) (\<lambda>_.
     and_then (pairing_uuid_v7 pe ''host_id'' (pb_host_id b)) (\<lambda>_.
     and_then (validate_bounded ''host_name'' (pb_host_name b) 80) (\<lambda>_.
     and_then (validate_bounded ''server_name'' (pb_server_name b) 253) (\<lambda>_.
     and_then (validate_bounded ''address'' (pb_address b) 253) (\<lambda>_.
     if str_len (pb_leaf_sha256 b) \<noteq> 64
       \<or> \<not> list_all (\<lambda>c. is_ascii_digit c \<or> (97 \<le> c \<and> c \<le> 102)) (pb_leaf_sha256 b)
     then pairing_invalid ''leaf_sha256'' ''must be a lowercase SHA-256 fingerprint'' else
     and_then (validate_bounded ''bootstrap_token'' (pb_bootstrap_token b) 128) (\<lambda>_.
     and_then (validate_route b) (\<lambda>_.
     if pb_port b = 0 then pairing_invalid ''port'' ''must be non-zero''
     else if pb_expires_at_unix_seconds b \<le> 0
     then pairing_invalid ''expires_at_unix_seconds'' ''must be positive'' else Ok ()))))))))"

definition validate_request :: "pairing_env \<Rightarrow> pairing_request \<Rightarrow> (unit, pairing_error) result" where
  "validate_request pe r =
     and_then (pairing_uuid_v7 pe ''pairing_id'' (pr_pairing_id r)) (\<lambda>_.
     and_then (pairing_uuid_v7 pe ''client_id'' (pr_client_id r)) (\<lambda>_.
     and_then (validate_bounded ''bootstrap_token'' (pr_bootstrap_token r) 128) (\<lambda>_.
     and_then (validate_bounded ''display_name'' (pr_display_name r) 80) (\<lambda>_.
     case pr_version r of Some v \<Rightarrow> validate_bounded ''version'' v 64 | None \<Rightarrow> Ok ()))))"

definition validate_success :: "pairing_env \<Rightarrow> pairing_success \<Rightarrow> (unit, pairing_error) result" where
  "validate_success pe s =
     and_then (pairing_uuid_v7 pe ''host_id'' (ps_host_id s)) (\<lambda>_.
     and_then (validate_bounded ''host_name'' (ps_host_name s) 80) (\<lambda>_.
     and_then (validate_bounded ''ca_certificate_der'' (ps_ca_certificate_der s) (16 * 1024)) (\<lambda>_.
     and_then (validate_bounded ''server_name'' (ps_server_name s) 253) (\<lambda>_.
     and_then (validate_bounded ''native_address'' (ps_native_address s) 253) (\<lambda>_.
     and_then (validate_bounded ''access_token'' (ps_access_token s) 128) (\<lambda>_.
     if ps_native_port s = 0 \<or> ps_native_transport_version s = 0
     then pairing_invalid ''endpoint'' ''port and version must be non-zero''
     else if ps_domain_protocol_versions s = []
     then pairing_invalid ''domain_protocol_versions'' ''at least one version is required'' else Ok ()))))))"

fun pairing_validate_server :: "pairing_env \<Rightarrow> pairing_server_message \<Rightarrow> (unit, pairing_error) result" where
  "pairing_validate_server pe (PairPending client_id display_name) =
     and_then (pairing_uuid_v7 pe ''client_id'' client_id) (\<lambda>_. validate_bounded ''display_name'' display_name 80)"
| "pairing_validate_server pe (PairSucceeded s) = validate_success pe s"
| "pairing_validate_server pe (PairError _ message _) = validate_bounded ''message'' message 512"

section \<open>Encoding and decoding\<close>

fun pair_code_into_dto :: "pairing_error_code \<Rightarrow> pair_error_code_dto" where
  "pair_code_into_dto PairInvalidRequest = PairInvalidRequestDto"
| "pair_code_into_dto PairInvalidCredential = PairInvalidCredentialDto"
| "pair_code_into_dto PairExpired = PairExpiredDto"
| "pair_code_into_dto PairUsed = PairUsedDto"
| "pair_code_into_dto PairDenied = PairDeniedDto"
| "pair_code_into_dto PairCapacity = PairCapacityDto"
| "pair_code_into_dto PairInternal = PairInternalDto"

fun pair_code_from_dto :: "pair_error_code_dto \<Rightarrow> pairing_error_code" where
  "pair_code_from_dto PairInvalidRequestDto = PairInvalidRequest"
| "pair_code_from_dto PairInvalidCredentialDto = PairInvalidCredential"
| "pair_code_from_dto PairExpiredDto = PairExpired"
| "pair_code_from_dto PairUsedDto = PairUsed"
| "pair_code_from_dto PairDeniedDto = PairDenied"
| "pair_code_from_dto PairCapacityDto = PairCapacity"
| "pair_code_from_dto PairInternalDto = PairInternal"

fun pair_server_into_dto :: "pairing_server_message \<Rightarrow> pair_server_dto" where
  "pair_server_into_dto (PairPending client_id display_name) = PairingPendingDto client_id display_name"
| "pair_server_into_dto (PairSucceeded s) = PairingSucceededDto s"
| "pair_server_into_dto (PairError code message recoverable) =
     PairingErrorDto (pair_code_into_dto code) message recoverable"

fun pair_server_from_dto :: "pair_server_dto \<Rightarrow> pairing_server_message" where
  "pair_server_from_dto (PairingPendingDto client_id display_name) = PairPending client_id display_name"
| "pair_server_from_dto (PairingSucceededDto s) = PairSucceeded s"
| "pair_server_from_dto (PairingErrorDto code message recoverable) =
     PairError (pair_code_from_dto code) message recoverable"

definition encode_pairing_request ::
  "pairing_env \<Rightarrow> pairing_json \<Rightarrow> pairing_request \<Rightarrow> (u8 list, pairing_error) result" where
  "encode_pairing_request pe pj r =
     and_then (validate_request pe r) (\<lambda>_.
     map_err PairingJson (pj_request_to_vec pj
       \<lparr>pen_pairing_version = ucast PAIRING_PROTOCOL_VERSION,
        pen_message = PairRequestDto (pr_pairing_id r) (pr_bootstrap_token r) (pr_client_id r) (pr_display_name r)
          (pr_version r)\<rparr>))"

definition decode_pairing_request ::
  "pairing_env \<Rightarrow> pairing_json \<Rightarrow> u8 list \<Rightarrow> (pairing_request, pairing_error) result" where
  "decode_pairing_request pe pj input =
     and_then (map_err PairingJson (pj_request_from_slice pj input)) (\<lambda>envelope.
     and_then (validate_version (pen_pairing_version envelope)) (\<lambda>_.
     case pen_message envelope of
       PairRequestDto pairing_id bootstrap_token client_id display_name version \<Rightarrow>
         let r = \<lparr>pr_pairing_id = pairing_id, pr_bootstrap_token = bootstrap_token, pr_client_id = client_id,
                  pr_display_name = display_name, pr_version = version\<rparr>
         in and_then (validate_request pe r) (\<lambda>_. Ok r)))"

definition pairing_encode_server ::
  "pairing_env \<Rightarrow> pairing_json \<Rightarrow> pairing_server_message \<Rightarrow> (u8 list, pairing_error) result" where
  "pairing_encode_server pe pj message =
     and_then (pairing_validate_server pe message) (\<lambda>_.
     map_err PairingJson (pj_server_to_vec pj
       \<lparr>pen_pairing_version = ucast PAIRING_PROTOCOL_VERSION, pen_message = pair_server_into_dto message\<rparr>))"

definition pairing_decode_server ::
  "pairing_env \<Rightarrow> pairing_json \<Rightarrow> u8 list \<Rightarrow> (pairing_server_message, pairing_error) result" where
  "pairing_decode_server pe pj input =
     and_then (map_err PairingJson (pj_server_from_slice pj input)) (\<lambda>envelope.
     and_then (validate_version (pen_pairing_version envelope)) (\<lambda>_.
     let message = pair_server_from_dto (pen_message envelope)
     in and_then (pairing_validate_server pe message) (\<lambda>_. Ok message)))"

definition version_prefix :: "u16 \<Rightarrow> ustring" where
  "version_prefix version = utf ''agentpulse://pair/v'' @ decimal (unat version) @ utf ''/''"

definition to_uri :: "pairing_env \<Rightarrow> pairing_json \<Rightarrow> pairing_bundle \<Rightarrow> (ustring, pairing_error) result" where
  "to_uri pe pj b =
     and_then (validate_bundle pe b) (\<lambda>_.
     and_then (map_err PairingJson (pj_bundle_to_vec pj b)) (\<lambda>bytes.
     Ok (version_prefix (pb_pairing_version b) @ pe_url_encode pe bytes)))"

definition decode_pairing_uri ::
  "pairing_env \<Rightarrow> pairing_json \<Rightarrow> int \<Rightarrow> ustring \<Rightarrow> (pairing_bundle, pairing_error) result" where
  "decode_pairing_uri pe pj now uri =
     and_then (ok_or (PairingInvalidField ''pairing_uri'' (utf ''unsupported URI scheme or version''))
       (case strip_prefix PAIRING_URI_PREFIX uri of
          Some encoded \<Rightarrow> Some encoded
        | None \<Rightarrow> strip_prefix (utf ''agentpulse://pair/v2/'') uri)) (\<lambda>encoded.
     and_then (map_err PairingBase64 (pe_url_decode pe encoded)) (\<lambda>bytes.
     and_then (map_err PairingJson (pj_bundle_from_slice pj bytes)) (\<lambda>b.
     and_then (validate_bundle pe b) (\<lambda>_.
     and_then (map_err PairingBase64 (pe_url_decode pe encoded)) (\<lambda>bytes.
     and_then (map_err PairingJson (pj_value_members pj bytes)) (\<lambda>members.
     if strip_prefix (version_prefix (pb_pairing_version b)) uri = None
       \<or> (pb_pairing_version b = 1 \<and> (members ''route'' \<or> \<not> members ''relay_endpoint''))
       \<or> (pb_pairing_version b = 2 \<and> members ''relay_endpoint'')
     then Err (PairingInvalidField ''pairing_uri'' (utf ''discovery fields or version mismatch''))
     else if pb_expires_at_unix_seconds b \<le> now
     then Err (PairingInvalidField ''expires_at_unix_seconds'' (utf ''pairing session expired''))
     else Ok b))))))"

section \<open>Round trips\<close>

interpretation pair_request: codec "pairing_json_laws pe pj" "encode_pairing_request pe pj"
  "decode_pairing_request pe pj" "\<lambda>r. validate_request pe r = Ok ()" for pe pj
proof unfold_locales
  fix r bytes
  assume "pairing_json_laws pe pj" "validate_request pe r = Ok ()" "encode_pairing_request pe pj r = Ok bytes"
  then show "decode_pairing_request pe pj bytes = Ok r"
    by (cases r) (auto simp: encode_pairing_request_def decode_pairing_request_def pairing_json_laws_def validate_version_def
        result_simps Let_def)
next
  fix r bytes
  assume dec: "decode_pairing_request pe pj bytes = Ok r"
  then obtain envelope where "pj_request_from_slice pj bytes = Ok envelope"
    by (auto simp: decode_pairing_request_def result_simps)
  with dec show "validate_request pe r = Ok ()"
    by (cases "pen_message envelope") (auto simp: decode_pairing_request_def result_simps Let_def)
qed

lemma pair_server_dto_inverse [simp]: "pair_server_from_dto (pair_server_into_dto m) = m"
proof (cases m)
  case (PairError code message recoverable)
  then show ?thesis by (cases code) simp_all
qed simp_all

interpretation pair_server: codec "pairing_json_laws pe pj" "pairing_encode_server pe pj"
  "pairing_decode_server pe pj" "\<lambda>m. pairing_validate_server pe m = Ok ()" for pe pj
proof unfold_locales
  fix m bytes
  assume "pairing_json_laws pe pj" "pairing_validate_server pe m = Ok ()" "pairing_encode_server pe pj m = Ok bytes"
  then show "pairing_decode_server pe pj bytes = Ok m"
    by (auto simp: pairing_encode_server_def pairing_decode_server_def pairing_json_laws_def validate_version_def
        result_simps Let_def)
next
  fix m bytes
  assume "pairing_decode_server pe pj bytes = Ok m"
  then show "pairing_validate_server pe m = Ok ()"
    by (auto simp: pairing_decode_server_def result_simps Let_def)
qed

lemma validate_bundle_route:
  assumes "validate_bundle pe b = Ok ()"
  shows "pb_pairing_version b = 1 \<and> pb_route b = None \<and> pb_relay_endpoint b \<noteq> []
    \<or> pb_pairing_version b = 2 \<and> pb_route b = Some (utf ''direct'') \<and> pb_relay_endpoint b = []"
proof -
  have "validate_route b = Ok ()"
    using assms by (auto simp: validate_bundle_def pairing_invalid_def result_simps split: if_splits)
  then show ?thesis
    by (auto simp: validate_route_def validate_relay_endpoint_def rsplit_once_def pairing_invalid_def
        split: if_splits)
qed

lemma version_prefixes:
  "version_prefix 1 = PAIRING_URI_PREFIX" "version_prefix 2 = utf ''agentpulse://pair/v2/''"
  by (simp_all add: version_prefix_def PAIRING_URI_PREFIX_def utf_def decimal.simps digit_char_def)

lemma prefix_v2_not_v1: "strip_prefix PAIRING_URI_PREFIX (utf ''agentpulse://pair/v2/'' @ encoded) = None"
  by (simp add: strip_prefix_def PAIRING_URI_PREFIX_def utf_def)

lemma uri_round_trip:
  assumes laws: "pairing_json_laws pe pj" and uri: "to_uri pe pj b = Ok uri"
  shows "decode_pairing_uri pe pj now uri =
    (if pb_expires_at_unix_seconds b \<le> now
     then Err (PairingInvalidField ''expires_at_unix_seconds'' (utf ''pairing session expired'')) else Ok b)"
proof -
  obtain bytes where valid: "validate_bundle pe b = Ok ()" and bytes: "pj_bundle_to_vec pj b = Ok bytes"
    and u: "uri = version_prefix (pb_pairing_version b) @ pe_url_encode pe bytes"
    using uri by (auto simp: to_uri_def result_simps)
  have reads: "pj_bundle_from_slice pj bytes = Ok b" "pe_url_decode pe (pe_url_encode pe bytes) = Ok bytes"
    using laws bytes by (auto simp: pairing_json_laws_def)
  obtain members where m: "pj_value_members pj bytes = Ok members"
    "members ''route'' = (pb_route b \<noteq> None)" "members ''relay_endpoint'' = (pb_relay_endpoint b \<noteq> [])"
    using laws bytes unfolding pairing_json_laws_def by blast
  have stripped: "(case strip_prefix PAIRING_URI_PREFIX uri of Some encoded \<Rightarrow> Some encoded
      | None \<Rightarrow> strip_prefix (utf ''agentpulse://pair/v2/'') uri) = Some (pe_url_encode pe bytes)"
    using validate_bundle_route [OF valid] u by (auto simp: version_prefixes prefix_v2_not_v1)
  show ?thesis
    unfolding decode_pairing_uri_def stripped
    using validate_bundle_route [OF valid] by (auto simp: reads valid m u)
qed

lemma uri_decode_sound:
  assumes "decode_pairing_uri pe pj now uri = Ok b"
  shows "validate_bundle pe b = Ok ()" and "now < pb_expires_at_unix_seconds b"
    and "strip_prefix (version_prefix (pb_pairing_version b)) uri \<noteq> None"
  using assms by (auto simp: decode_pairing_uri_def result_simps split: if_splits)

end
