(* ===== verification/Pairing_Grants.thy ===== *)
theory Pairing_Grants
  imports Pairing_Store
begin

text \<open>
  The credential store refines a finite map from client identities to token digests
  (\<open>store_grants\<close>): issuing updates the map at one client, revoking removes one, rotating empties
  it, every other operation leaves it alone, and so does every error, except that an error of the directory
  synchronization leaves the file replaced; the authorizer decides by the map.
\<close>

section \<open>Digests as text\<close>

lemma hex_digit_ascii: "d < 16 \<Longrightarrow> hex_digit d < 128"
  by (simp add: hex_digit_def word_less_nat_alt)

lemma hex_value_digit:
  assumes "d < 16"
  shows "hex_value (of_nat (hex_digit d)) = Some d"
proof -
  have "d = of_nat (unat d)" "unat d < 16" using assms by (simp_all add: word_less_nat_alt)
  moreover have "\<forall>n\<in>set [0..<16]. hex_value (of_nat (hex_digit (of_nat n))) = Some (of_nat n)"
    by code_simp
  ultimately show ?thesis by (metis atLeastLessThan_iff le0 set_upt)
qed

lemma hex_nibbles: "drop_bit 4 b < (16 :: u8)" "take_bit 4 b < (16 :: u8)"
proof -
  show "drop_bit 4 b < (16 :: u8)"
    using unsigned_less [of b, where 'a = nat] by (simp add: word_less_nat_alt drop_bit_eq_div unat_div)
  show "take_bit 4 b < (16 :: u8)"
    by (simp add: word_less_nat_alt take_bit_eq_mod unat_mod)
qed

lemma join_nibbles: "push_bit 4 (drop_bit 4 b) OR take_bit 4 b = (b :: u8)"
  by (rule bit_eqI) (auto simp: bit_simps)

lemma as_bytes_hex:
  "as_bytes (hex bytes) = concat (map (\<lambda>b. [of_nat (hex_digit (drop_bit 4 b)), of_nat (hex_digit (take_bit 4 b))]) bytes)"
  by (induction bytes) (simp_all add: as_bytes_def hex_def utf8_char_def hex_digit_ascii hex_nibbles)

lemma decode_hex_hex:
  assumes "length digest = 32"
  shows "decode_hex_32 (hex digest) = Some digest"
proof -
  have "length (as_bytes (hex digest)) = 2 * length digest" unfolding as_bytes_hex by (induction digest) simp_all
  moreover have "decode_hex_pairs (as_bytes (hex digest)) = Some digest"
    unfolding as_bytes_hex by (induction digest) (simp_all add: hex_value_digit hex_nibbles join_nibbles)
  ultimately show ?thesis using assms by (simp add: decode_hex_32_def str_len_def)
qed

section \<open>What the store grants\<close>

definition device_grants :: "device_record list \<Rightarrow> ustring \<rightharpoonup> u8 list" where
  "device_grants devices client_id =
     Option.bind (find (\<lambda>d. dev_client_id d = client_id) devices) (\<lambda>d. decode_hex_32 (dev_token_sha256 d))"

definition stored_record :: "pairing_env \<Rightarrow> private_file \<Rightarrow> store_record option" where
  "stored_record pe file =
     (case file of
        None \<Rightarrow> None
      | Some bytes \<Rightarrow>
          (case pe_record_from_slice pe bytes of
             Ok record \<Rightarrow> if validate_record pe record = Ok () then Some record else None
           | Err _ \<Rightarrow> None))"

definition store_grants :: "pairing_env \<Rightarrow> private_file \<Rightarrow> ustring \<rightharpoonup> u8 list" where
  "store_grants pe file =
     (case stored_record pe file of None \<Rightarrow> Map.empty | Some record \<Rightarrow> device_grants (sto_devices record))"

lemma load_record_Ok:
  "load_record pe st sa file = Ok record \<Longrightarrow> stored_record pe file = Some record"
  by (auto simp: load_record_def load_unlocked_def stored_record_def result_simps split: option.splits)

text \<open>A write either leaves the file and fails, or replaces it. The second case is an error when the file was
  replaced and only the directory could not be synchronized.\<close>

definition replaced_unsynced :: "store_answers \<Rightarrow> bool" where
  "replaced_unsynced sa \<longleftrightarrow> (\<exists>e. wa_sync_parent (sa_write sa) = Err e)"

lemma save_unlocked_cases:
  assumes "pairing_laws pe" and "save_unlocked pe st sa record file = (r, file')"
  shows "(\<exists>e. r = Err e) \<and> file' = file
    \<or> (r = Ok () \<or> replaced_unsynced sa) \<and> (\<exists>bytes. file' = Some bytes \<and> pe_record_from_slice pe bytes = Ok record)"
  using assms
  by (cases "wa_sync_parent (sa_write sa)") (auto simp: save_unlocked_def atomic_write_private_def pairing_laws_def
      replaced_unsynced_def split: sum.splits)

lemma update_store_cases:
  assumes "pairing_laws pe" and "update_store pe st sa operation file = (r, file')"
  shows "(\<exists>e. r = Err e) \<and> file' = file
    \<or> (\<exists>old record. stored_record pe file = Some old \<and> operation old = Ok record
         \<and> (r = Ok record \<or> (\<exists>e. r = Err e) \<and> replaced_unsynced sa) \<and> stored_record pe file' = Some record)"
proof (cases "and_then (load_record pe st sa file) (\<lambda>record. and_then (operation record) (\<lambda>record.
    and_then (validate_record pe record) (\<lambda>_. Ok record)))")
  case (Inl e)
  then have "(r, file') = (Err e, file)" using assms(2) by (simp add: update_store_def)
  then show ?thesis by simp
next
  case (Inr new)
  then obtain old where old: "load_record pe st sa file = Ok old" "operation old = Ok new"
    "validate_record pe new = Ok ()" by (auto simp: result_simps)
  obtain r1 where save: "save_unlocked pe st sa new file = (r1, file')" "r = and_then r1 (\<lambda>_. Ok new)"
    using assms(2) Inr by (auto simp: update_store_def split: prod.splits)
  from save_unlocked_cases [OF assms(1) save(1)] show ?thesis
    using save(2) old load_record_Ok [OF old(1)] by (cases r1) (auto simp: stored_record_def)
qed

lemma find_replace_device:
  "\<exists>d\<in>set ds. dev_client_id d = dev_client_id device \<Longrightarrow>
     find (\<lambda>d. dev_client_id d = c) (replace_device device ds) =
       (if c = dev_client_id device then Some device else find (\<lambda>d. dev_client_id d = c) ds)"
proof (induction ds)
  case (Cons d ds)
  then show ?case by (cases "dev_client_id d = dev_client_id device"; cases "c = dev_client_id device") simp_all
qed simp

lemma find_append: "find P (xs @ ys) = (case find P xs of Some x \<Rightarrow> Some x | None \<Rightarrow> find P ys)"
  by (induction xs) auto

lemma find_filter_id:
  "find (\<lambda>d. dev_client_id d = c) (filter (\<lambda>d. dev_client_id d \<noteq> k) ds) =
     (if c = k then None else find (\<lambda>d. dev_client_id d = c) ds)"
  by (induction ds) auto

lemma put_device_grants:
  assumes "put_device device record = Ok record'" and "decode_hex_32 (dev_token_sha256 device) = Some digest"
  shows "device_grants (sto_devices record') = (device_grants (sto_devices record))(dev_client_id device \<mapsto> digest)"
proof (cases "\<exists>d\<in>set (sto_devices record). dev_client_id d = dev_client_id device")
  case True
  then have "sto_devices record' = replace_device device (sto_devices record)"
    using assms(1) by (auto simp: put_device_def)
  then show ?thesis using assms(2) by (auto simp: device_grants_def find_replace_device [OF True])
next
  case False
  then have "find (\<lambda>d. dev_client_id d = dev_client_id device) (sto_devices record) = None"
    by (simp add: find_None_iff)
  moreover have "sto_devices record' = sto_devices record @ [device]"
    using assms(1) False by (auto simp: put_device_def split: if_splits)
  ultimately show ?thesis using assms(2) by (auto simp: device_grants_def find_append split: option.splits)
qed

lemma drop_device_grants:
  "drop_device client_id record = Ok record' \<Longrightarrow>
     device_grants (sto_devices record') = (device_grants (sto_devices record))(client_id := None)"
  by (auto simp: drop_device_def Let_def device_grants_def find_filter_id split: if_splits)

section \<open>The operations on the grants\<close>

text \<open>An update that changes the grants of every record by \<open>f\<close> changes the grants of the store by \<open>f\<close>, or
  fails and leaves them.\<close>


definition grants_step ::
  "pairing_env \<Rightarrow> store_answers \<Rightarrow> ((ustring \<rightharpoonup> u8 list) \<Rightarrow> (ustring \<rightharpoonup> u8 list))
     \<Rightarrow> private_file \<Rightarrow> bool \<Rightarrow> private_file \<Rightarrow> bool" where
  "grants_step pe sa f file ok file' \<longleftrightarrow>
     (if ok then store_grants pe file' = f (store_grants pe file)
      else store_grants pe file' = store_grants pe file \<or> replaced_unsynced sa \<and> store_grants pe file' = f (store_grants pe file))"

abbreviation is_Ok :: "('a, 'e) result \<Rightarrow> bool" where
  "is_Ok r \<equiv> \<exists>x. r = Ok x"

lemma update_store_grants:
  assumes laws: "pairing_laws pe" and step: "update_store pe st sa operation file = (r, file')"
    and f: "\<And>old new. operation old = Ok new \<Longrightarrow>
      device_grants (sto_devices new) = f (device_grants (sto_devices old))"
  shows "grants_step pe sa f file (is_Ok r) file'"
  using update_store_cases [OF laws step] by (auto simp: grants_step_def store_grants_def f)

lemma issue_device_grants:
  assumes laws: "pairing_laws pe"
    and step: "issue_device pe st sa now secret client_id display_name version file = (r, file')"
  shows "grants_step pe sa (\<lambda>g. g(client_id \<mapsto> pe_sha256 pe (as_bytes (device_token pe secret)))) file (is_Ok r) file'"
    and "r = Ok token \<Longrightarrow> token = device_token pe secret"
proof -
  let ?digest = "pe_sha256 pe (as_bytes (device_token pe secret))"
  let ?device = "\<lparr>dev_client_id = client_id, dev_display_name = display_name, dev_version = version,
    dev_token_sha256 = hex ?digest, dev_paired_at_unix_seconds = now\<rparr>"
  have digest: "decode_hex_32 (hex ?digest) = Some ?digest"
    using laws by (simp add: pairing_laws_def decode_hex_hex)
  show "grants_step pe sa (\<lambda>g. g(client_id \<mapsto> ?digest)) file (is_Ok r) file'"
  proof (cases "validate_issue pe client_id display_name version")
    case (Inl e)
    with step show ?thesis by (auto simp: issue_device_def grants_step_def)
  next
    case (Inr u)
    obtain r1 where r1: "update_store pe st sa (put_device ?device) file = (r1, file')" "is_Ok r \<longleftrightarrow> is_Ok r1"
      using step Inr by (auto simp: issue_device_def Let_def and_then_Ok_iff split: prod.splits)
    have "device_grants (sto_devices new) = (device_grants (sto_devices old))(client_id \<mapsto> ?digest)"
      if "put_device ?device old = Ok new" for old new
      using put_device_grants [OF that, of ?digest] digest by simp
    then have "grants_step pe sa (\<lambda>g. g(client_id \<mapsto> ?digest)) file (is_Ok r1) file'"
      by (rule update_store_grants [OF laws r1(1)])
    then show ?thesis unfolding r1(2) .
  qed
  show "token = device_token pe secret" if "r = Ok token"
    using step that by (auto simp: issue_device_def Let_def result_simps split: sum.splits prod.splits)
qed

lemma revoke_device_grants:
  assumes laws: "pairing_laws pe" and step: "revoke_device pe st sa client_id file = (r, file')"
  shows "grants_step pe sa (\<lambda>g. g(client_id := None)) file (is_Ok r) file'"
proof -
  obtain r1 where r1: "update_store pe st sa (drop_device client_id) file = (r1, file')" "is_Ok r \<longleftrightarrow> is_Ok r1"
    using step by (auto simp: revoke_device_def and_then_Ok_iff split: prod.splits)
  have "grants_step pe sa (\<lambda>g. g(client_id := None)) file (is_Ok r1) file'"
    by (rule update_store_grants [OF laws r1(1)]) (rule drop_device_grants)
  then show ?thesis unfolding r1(2) .
qed

lemma with_identity_grants:
  assumes laws: "pairing_laws pe" and step: "with_identity pe (update_store pe st sa operation file) = (r, file')"
    and f: "\<And>old new. operation old = Ok new \<Longrightarrow>
      device_grants (sto_devices new) = f (device_grants (sto_devices old))"
  shows "grants_step pe sa f file (is_Ok r) file'"
proof -
  obtain r1 where r1: "update_store pe st sa operation file = (r1, file')" "r = and_then r1 (identity_snapshot pe)"
    using step by (auto simp: with_identity_def split: prod.splits)
  have upd: "grants_step pe sa f file (is_Ok r1) file'"
    by (rule update_store_grants [OF laws r1(1)]) (rule f)
  show ?thesis
  proof (cases r1)
    case (Inl e)
    with r1 upd show ?thesis by simp
  next
    case (Inr new)
    with update_store_cases [OF laws r1(1)] have "stored_record pe file' = Some new" by auto
    then have "validate_record pe new = Ok ()"
      by (auto simp: stored_record_def split: option.splits sum.splits if_splits)
    then have "is_Ok (identity_snapshot pe new)"
      by (auto simp: validate_record_def result_simps split: if_splits)
    then have "is_Ok r" "is_Ok r1" using r1(2) Inr by auto
    with upd show ?thesis by simp
  qed
qed

lemma renew_leaf_devices: "renew_leaf pe ca now old = Ok new \<Longrightarrow> sto_devices new = sto_devices old"
  by (auto simp: renew_leaf_def Let_def result_simps split: prod.splits)

lemma load_identity_grants:
  assumes laws: "pairing_laws pe" and step: "load_identity pe st sa ca now file = (r, file')"
  shows "grants_step pe sa (\<lambda>g. g) file (is_Ok r) file'"
  by (rule with_identity_grants [OF laws step [unfolded load_identity_def]])
    (auto split: if_splits dest: renew_leaf_devices)

lemma rotate_grants:
  assumes laws: "pairing_laws pe" and step: "rotate_credentials pe st sa ca now file = (r, file')"
  shows "grants_step pe sa (\<lambda>g. Map.empty) file (is_Ok r) file'"
  by (rule with_identity_grants [OF laws step [unfolded rotate_credentials_def]])
    (auto simp: result_simps device_grants_def)

lemma set_thread_ids_grants:
  assumes laws: "pairing_laws pe" and step: "set_thread_ids pe st sa thread_ids file = (r, file')"
  shows "grants_step pe sa (\<lambda>g. g) file (is_Ok r) file'"
proof (cases "validate_thread_ids pe [] thread_ids")
  case (Inl e)
  with step show ?thesis by (auto simp: set_thread_ids_def grants_step_def)
next
  case (Inr u)
  obtain r1 where r1: "update_store pe st sa (\<lambda>record. Ok (record\<lparr>sto_thread_ids := thread_ids\<rparr>)) file = (r1, file')"
    "is_Ok r \<longleftrightarrow> is_Ok r1"
    using step Inr by (auto simp: set_thread_ids_def and_then_Ok_iff split: prod.splits)
  have "grants_step pe sa (\<lambda>g. g) file (is_Ok r1) file'"
    by (rule update_store_grants [OF laws r1(1)]) auto
  then show ?thesis unfolding r1(2) .
qed

section \<open>Authorization\<close>

lemma authorize_granted:
  "authorize pe st sa client_id token file \<Longrightarrow>
     store_grants pe file client_id = Some (pe_sha256 pe (as_bytes token))"
  by (auto simp: authorize_def store_grants_def device_grants_def dest!: load_record_Ok split: sum.splits option.splits)

text \<open>The answers of a file system that works.\<close>

definition store_io_ok :: "store_answers \<Rightarrow> bool" where
  "store_io_ok sa \<longleftrightarrow> (\<exists>parent. sa_parent sa = Some parent) \<and> sa_private_dir sa = Ok () \<and> sa_open_lock sa = Ok ()
     \<and> sa_lock sa = Ok () \<and> sa_protect_file sa = Ok () \<and> sa_read sa = Ok ()"

lemma load_record_stored:
  assumes "store_io_ok sa" and "stored_record pe file = Some old"
  shows "load_record pe st sa file = Ok old"
  using assms
  by (auto simp: store_io_ok_def load_record_def lock_store_def ensure_parent_def open_lock_def load_unlocked_def
      stored_record_def split: option.splits sum.splits if_splits)

lemma authorize_stored:
  assumes "store_io_ok sa" and "store_grants pe file client_id = Some (pe_sha256 pe (as_bytes token))"
  shows "authorize pe st sa client_id token file"
proof -
  obtain old where old: "stored_record pe file = Some old"
    and g: "device_grants (sto_devices old) client_id = Some (pe_sha256 pe (as_bytes token))"
    using assms(2) by (auto simp: store_grants_def split: option.splits)
  from g obtain d where "find (\<lambda>d. dev_client_id d = client_id) (sto_devices old) = Some d"
    "decode_hex_32 (dev_token_sha256 d) = Some (pe_sha256 pe (as_bytes token))"
    by (auto simp: device_grants_def bind_eq_Some_conv)
  then show ?thesis using load_record_stored [OF assms(1) old] by (simp add: authorize_def)
qed

text \<open>The store provides the authorizer contract of the transport: the state is the file and the answers of the
  file system to the check.\<close>

interpretation file_authorizer: bearer_authorizer "\<lambda>(file, _ :: store_answers). store_grants pe file"
  "\<lambda>token. pe_sha256 pe (as_bytes token)"
  "\<lambda>(file, sa) client_id token. authorize pe st sa client_id token file" for pe st
  by unfold_locales (auto dest: authorize_granted)

section \<open>Histories\<close>

text \<open>The operations that write the store, what each does to the map of grants, and a sequence of them, each with
  the answers of the file system.\<close>

datatype store_operation =
    Initialize certificate_answers int ustring ustring ustring ustring
  | LoadIdentity certificate_answers int
  | SetThreadIds "ustring list"
  | IssueDevice int "u8 list" ustring ustring "ustring option"
  | RevokeDevice ustring
  | RotateCredentials certificate_answers int

definition succeeded :: "('a, 'e) result \<times> private_file \<Rightarrow> bool \<times> private_file" where
  "succeeded step = (case fst step of Ok _ \<Rightarrow> True | Err _ \<Rightarrow> False, snd step)"

fun run_operation ::
  "pairing_env \<Rightarrow> host_credential_store \<Rightarrow> store_answers \<Rightarrow> store_operation \<Rightarrow> private_file \<Rightarrow> bool \<times> private_file" where
  "run_operation pe st sa (Initialize ca now h p c name) file = succeeded (initialize pe st sa ca now h p c name file)"
| "run_operation pe st sa (LoadIdentity ca now) file = succeeded (load_identity pe st sa ca now file)"
| "run_operation pe st sa (SetThreadIds ids) file = succeeded (set_thread_ids pe st sa ids file)"
| "run_operation pe st sa (IssueDevice now secret c name v) file = succeeded (issue_device pe st sa now secret c name v file)"
| "run_operation pe st sa (RevokeDevice c) file = succeeded (revoke_device pe st sa c file)"
| "run_operation pe st sa (RotateCredentials ca now) file = succeeded (rotate_credentials pe st sa ca now file)"

fun operation_grants :: "pairing_env \<Rightarrow> store_operation \<Rightarrow> (ustring \<rightharpoonup> u8 list) \<Rightarrow> (ustring \<rightharpoonup> u8 list)" where
  "operation_grants pe (IssueDevice now secret c name v) g = g(c \<mapsto> pe_sha256 pe (as_bytes (device_token pe secret)))"
| "operation_grants pe (RevokeDevice c) g = g(c := None)"
| "operation_grants pe (RotateCredentials ca now) g = Map.empty"
| "operation_grants pe _ g = g"

fun run_history ::
  "pairing_env \<Rightarrow> host_credential_store \<Rightarrow> (store_answers \<times> store_operation) list \<Rightarrow> private_file \<Rightarrow> private_file" where
  "run_history pe st [] file = file"
| "run_history pe st ((sa, operation) # history) file = run_history pe st history (snd (run_operation pe st sa operation file))"

fun history_grants ::
  "pairing_env \<Rightarrow> host_credential_store \<Rightarrow> (store_answers \<times> store_operation) list \<Rightarrow> private_file
     \<Rightarrow> (ustring \<rightharpoonup> u8 list) \<Rightarrow> (ustring \<rightharpoonup> u8 list)" where
  "history_grants pe st [] file g = g"
| "history_grants pe st ((sa, operation) # history) file g =
     (case run_operation pe st sa operation file of
        (ok, file') \<Rightarrow> history_grants pe st history file' (if ok then operation_grants pe operation g else g))"

lemma succeeded_Ok: "succeeded step = (is_Ok (fst step), snd step)"
  by (cases "fst step") (auto simp: succeeded_def)

lemma initialize_grants:
  assumes laws: "pairing_laws pe" and step: "initialize pe st sa ca now h p c name file = (r, file')"
  shows "grants_step pe sa (\<lambda>g. g) file (is_Ok r) file'"
proof -
  let ?prepared = "and_then (validate_name name) (\<lambda>_. and_then (lock_store st sa) (\<lambda>_.
    if file \<noteq> None then Err (AlreadyInitialized (hcs_path st))
    else generate_identity pe ca now name (h @ utf ''.agentpulse.local'')))"
  show ?thesis
  proof (cases ?prepared)
    case (Inl e)
    with step show ?thesis by (auto simp: initialize_def Let_def grants_step_def)
  next
    case (Inr certificates)
    then have none: "file = None" by (auto simp: result_simps split: if_splits)
    obtain new r1 where new: "sto_devices new = []" and save: "save_unlocked pe st sa new file = (r1, file')"
      using step Inr by (auto simp: initialize_def Let_def with_identity_def result_simps split: prod.splits)
        (metis store_record.select_convs(9))
    have "store_grants pe file' = store_grants pe file"
      using save_unlocked_cases [OF laws save] none new
      by (auto simp: store_grants_def stored_record_def device_grants_def)
    then show ?thesis by (simp add: grants_step_def)
  qed
qed

lemma succeeded_grants:
  assumes "succeeded step = (ok, file')" and "\<And>r f'. step = (r, f') \<Longrightarrow> grants_step pe sa f file (is_Ok r) f'"
  shows "grants_step pe sa f file ok file'"
  using assms(1) assms(2) [OF prod.collapse [symmetric]] by (auto simp: succeeded_Ok)

lemma run_operation_grants:
  assumes laws: "pairing_laws pe" and "run_operation pe st sa operation file = (ok, file')"
  shows "grants_step pe sa (operation_grants pe operation) file ok file'"
proof (cases operation)
  case (Initialize ca now h p c name)
  then have id: "operation_grants pe operation = (\<lambda>g. g)" by (auto simp: fun_eq_iff)
  from assms(2) show ?thesis unfolding id unfolding Initialize run_operation.simps
    by (rule succeeded_grants) (rule initialize_grants [OF laws])
next
  case (LoadIdentity ca now)
  then have id: "operation_grants pe operation = (\<lambda>g. g)" by (auto simp: fun_eq_iff)
  from assms(2) show ?thesis unfolding id unfolding LoadIdentity run_operation.simps
    by (rule succeeded_grants) (rule load_identity_grants [OF laws])
next
  case (SetThreadIds ids)
  then have id: "operation_grants pe operation = (\<lambda>g. g)" by (auto simp: fun_eq_iff)
  from assms(2) show ?thesis unfolding id unfolding SetThreadIds run_operation.simps
    by (rule succeeded_grants) (rule set_thread_ids_grants [OF laws])
next
  case (IssueDevice now secret c name v)
  then have id: "operation_grants pe operation = (\<lambda>g. g(c \<mapsto> pe_sha256 pe (as_bytes (device_token pe secret))))" by (auto simp: fun_eq_iff)
  from assms(2) show ?thesis unfolding id unfolding IssueDevice run_operation.simps
    by (rule succeeded_grants) (rule issue_device_grants(1) [OF laws])
next
  case (RevokeDevice c)
  then have id: "operation_grants pe operation = (\<lambda>g. g(c := None))" by (auto simp: fun_eq_iff)
  from assms(2) show ?thesis unfolding id unfolding RevokeDevice run_operation.simps
    by (rule succeeded_grants) (rule revoke_device_grants [OF laws])
next
  case (RotateCredentials ca now)
  then have id: "operation_grants pe operation = (\<lambda>g. Map.empty)" by (auto simp: fun_eq_iff)
  from assms(2) show ?thesis unfolding id unfolding RotateCredentials run_operation.simps
    by (rule succeeded_grants) (rule rotate_grants [OF laws])
qed

text \<open>What the map may be after a history, given what each operation reported: a success has its effect and an error has
  none, unless the answers show that the file was already replaced when the directory could not be synchronized;
  then the effect may be there.\<close>

fun history_outcomes ::
  "pairing_env \<Rightarrow> host_credential_store \<Rightarrow> (store_answers \<times> store_operation) list \<Rightarrow> private_file
     \<Rightarrow> (ustring \<rightharpoonup> u8 list) \<Rightarrow> (ustring \<rightharpoonup> u8 list) set" where
  "history_outcomes pe st [] file g = {g}"
| "history_outcomes pe st ((sa, operation) # history) file g =
     (case run_operation pe st sa operation file of
        (ok, file') \<Rightarrow>
          (if ok then history_outcomes pe st history file' (operation_grants pe operation g)
           else history_outcomes pe st history file' g
             \<union> (if replaced_unsynced sa then history_outcomes pe st history file' (operation_grants pe operation g) else {})))"

lemma run_history_outcomes:
  assumes laws: "pairing_laws pe"
  shows "store_grants pe (run_history pe st history file) \<in> history_outcomes pe st history file (store_grants pe file)"
proof (induction history arbitrary: "file")
  case (Cons entry history)
  obtain sa operation where entry: "entry = (sa, operation)" by fastforce
  obtain ok file' where run: "run_operation pe st sa operation file = (ok, file')" by fastforce
  from run_operation_grants [OF laws run] Cons.IH [of file'] show ?case by (auto simp: entry run grants_step_def split: if_splits)
qed simp

text \<open>Without such answers the outcome is the one of \<open>history_grants\<close>.\<close>

lemma history_outcomes_synced:
  "list_all (\<lambda>(sa, _). \<not> replaced_unsynced sa) history \<Longrightarrow> history_outcomes pe st history file g = {history_grants pe st history file g}"
  by (induction pe st history "file" g rule: history_outcomes.induct) (auto split: prod.splits)

end
