(* ===== verification/Pairing_Server.thy ===== *)
theory Pairing_Server
  imports Pairing_Protocol Pairing_Grants
begin

text \<open>
  The one-shot pairing server (\<open>agentpulse-pairing/src/server.rs\<close>): binding a session and the loop
  \<open>serve_with_ready\<close>. One turn of the loop is \<open>serve_turn\<close>; what the clock, the sockets, the file
  system and the two callbacks answer during a turn is a \<open>pairing_round\<close>. Two inner loops, reading a
  request and waiting for the close handshake, run over the reads of the turn: \<open>None\<close> is a loop that is
  still waiting. Instants are milliseconds.
\<close>

definition SESSION_LIFETIME :: nat where "SESSION_LIFETIME = 120000"
definition CLOSE_HANDSHAKE_TIMEOUT :: nat where "CLOSE_HANDSHAKE_TIMEOUT = 2000"
definition MAX_ATTEMPTS :: usize where "MAX_ATTEMPTS = 5"
definition MAX_PAIRING_MESSAGE_BYTES :: usize where "MAX_PAIRING_MESSAGE_BYTES = 16 * 1024"

record pairing_outcome =
  po_client_id :: ustring
  po_display_name :: ustring

record pairing_session =
  pss_config :: tls_config
  pss_local_address :: net_address
  pss_store :: host_credential_store
  pss_bundle :: pairing_bundle
  pss_pairing_uri :: ustring
  pss_native_address :: "ustring \<times> u16"
  pss_native_transport_version :: u16
  pss_domain_protocol_versions :: "u16 list"
  pss_expires_at :: nat

section \<open>Binding\<close>

text \<open>A call of the store: the answers of the file system and of the certificate library, the time and the
  random bytes.\<close>

record store_call =
  sc_answers :: store_answers
  sc_certificates :: certificate_answers
  sc_now :: int
  sc_secret :: "u8 list"

record bind_call =
  bc_store :: store_call
  bc_listener :: bind_answers
  bc_secret :: "u8 list"
  bc_pairing_id :: ustring
  bc_now :: int
  bc_instant :: nat

definition tls_identity_of :: "host_identity_snapshot \<Rightarrow> (tls_identity, pairing_error) result" where
  "tls_identity_of identity =
     map_err PairingTransport (identity_from_der [his_leaf_certificate_der identity, his_ca_certificate_der identity]
       (his_leaf_private_key_der identity))"

definition pairing_tls_config ::
  "net_address \<Rightarrow> bool \<Rightarrow> host_identity_snapshot \<Rightarrow> (tls_config, pairing_error) result" where
  "pairing_tls_config bind_address direct identity =
     and_then (tls_identity_of identity) (\<lambda>tls.
     and_then (map_err PairingTransport
       ((if direct then tls_config_new_public else tls_config_new) bind_address PAIRING_WEBSOCKET_PATH
         PAIRING_WEBSOCKET_SUBPROTOCOL tls)) (\<lambda>config.
     Ok (config\<lparr>tlc_handshake_timeout := 5000, tlc_io_poll_interval := 100,
                tlc_max_message_bytes := MAX_PAIRING_MESSAGE_BYTES\<rparr>)))"

definition bootstrap_bundle ::
  "pairing_env \<Rightarrow> bind_call \<Rightarrow> host_identity_snapshot \<Rightarrow> net_address \<Rightarrow> ustring \<Rightarrow> (ustring \<times> u16) option
     \<Rightarrow> pairing_bundle" where
  "bootstrap_bundle pe bc identity local_address relay_endpoint direct =
     \<lparr>pb_pairing_version = (if direct \<noteq> None then 2 else PAIRING_PROTOCOL_VERSION),
      pb_pairing_id = bc_pairing_id bc, pb_host_id = his_host_id identity, pb_host_name = his_host_name identity,
      pb_server_name = his_server_name identity,
      pb_address = (case direct of Some (address, _) \<Rightarrow> address | None \<Rightarrow> show_ip_addr (net_ip local_address)),
      pb_port = (case direct of Some (_, port) \<Rightarrow> port | None \<Rightarrow> net_port local_address),
      pb_leaf_sha256 = leaf_sha256 pe identity, pb_bootstrap_token = pe_url_encode pe (bc_secret bc),
      pb_relay_endpoint = relay_endpoint, pb_route = map_option (\<lambda>_. utf ''direct'') direct,
      pb_expires_at_unix_seconds = bc_now bc + int (SESSION_LIFETIME div 1000)\<rparr>"

definition bind_inner ::
  "pairing_env \<Rightarrow> pairing_json \<Rightarrow> bind_call \<Rightarrow> host_credential_store \<Rightarrow> net_address \<Rightarrow> ustring \<times> u16 \<Rightarrow> ustring
     \<Rightarrow> (ustring \<times> u16) option \<Rightarrow> u16 \<Rightarrow> u16 list \<Rightarrow> private_file
     \<Rightarrow> (pairing_session, pairing_error) result \<times> private_file" where
  "bind_inner pe pj bc store bind_address native_address relay_endpoint direct transport_version domain_versions file =
     (if direct = None \<and> \<not> is_loopback_ip (net_ip bind_address)
      then (Err (PairingInvalidField ''bind_address'' (utf ''QR pairing listeners must be loopback-only'')), file)
      else if domain_versions = [] \<or> transport_version = 0
      then (Err (PairingInvalidField ''supported_versions'' (utf ''versions must be non-empty and non-zero'')), file)
      else case load_identity pe store (sc_answers (bc_store bc)) (sc_certificates (bc_store bc)) (sc_now (bc_store bc)) file of
        (loaded, file') \<Rightarrow>
          (and_then loaded (\<lambda>identity.
           and_then (pairing_tls_config bind_address (direct \<noteq> None) identity) (\<lambda>config.
           and_then (map_err PairingTransport (tls_listener_bind (bc_listener bc) config)) (\<lambda>local_address.
           let b = bootstrap_bundle pe bc identity local_address relay_endpoint direct in
           and_then (to_uri pe pj b) (\<lambda>uri.
           Ok \<lparr>pss_config = config, pss_local_address = local_address, pss_store = store, pss_bundle = b,
               pss_pairing_uri = uri, pss_native_address = native_address,
               pss_native_transport_version = transport_version, pss_domain_protocol_versions = domain_versions,
               pss_expires_at = bc_instant bc + SESSION_LIFETIME\<rparr>)))), file'))"

definition pairing_bind ::
  "pairing_env \<Rightarrow> pairing_json \<Rightarrow> bind_call \<Rightarrow> host_credential_store \<Rightarrow> net_address \<Rightarrow> net_address \<Rightarrow> ustring
     \<Rightarrow> u16 \<Rightarrow> u16 list \<Rightarrow> private_file \<Rightarrow> (pairing_session, pairing_error) result \<times> private_file" where
  "pairing_bind pe pj bc store bind_address native_address relay_endpoint transport_version domain_versions file =
     bind_inner pe pj bc store bind_address (show_ip_addr (net_ip native_address), net_port native_address)
       relay_endpoint None transport_version domain_versions file"

definition bind_direct ::
  "pairing_env \<Rightarrow> pairing_json \<Rightarrow> bind_call \<Rightarrow> host_credential_store \<Rightarrow> net_address \<Rightarrow> ustring \<times> u16 \<Rightarrow> ustring \<times> u16
     \<Rightarrow> u16 \<Rightarrow> u16 list \<Rightarrow> private_file \<Rightarrow> (pairing_session, pairing_error) result \<times> private_file" where
  "bind_direct pe pj bc store bind_address pairing_address native_address transport_version domain_versions file =
     (case and_then (validate_direct_host (fst pairing_address)) (\<lambda>_.
           and_then (validate_direct_host (fst native_address)) (\<lambda>_.
           if snd pairing_address = 0 \<or> snd native_address = 0
           then pairing_invalid ''port'' ''advertised ports must be non-zero'' else Ok ())) of
        Err e \<Rightarrow> (Err e, file)
      | Ok _ \<Rightarrow> bind_inner pe pj bc store bind_address native_address [] (Some pairing_address) transport_version
          domain_versions file)"

section \<open>Serving\<close>

type_synonym socket_answer = "(ws_message, ws_failure) result \<times> (unit, ws_failure) result"

record pairing_round =
  rd_now :: nat
  rd_accept :: accept_answers
  rd_reads :: "(nat \<times> socket_answer) list"
  rd_pending_sent :: "(unit, ws_failure) result"
  rd_approve :: "pairing_request \<Rightarrow> bool"
  rd_after_approval :: nat
  rd_issue :: store_call
  rd_ready :: "ustring \<Rightarrow> (unit, pairing_error) result"
  rd_revoke :: store_answers
  rd_identity :: store_call
  rd_final_sent :: "(unit, ws_failure) result"
  rd_close :: "(unit, ws_failure) result"
  rd_close_now :: nat
  rd_close_reads :: "(nat \<times> socket_answer) list"

record serve_state =
  sv_attempts :: usize
  sv_file :: private_file
  sv_sent :: "pairing_server_message list"

datatype round_end = Continue serve_state | Return "(pairing_outcome, pairing_error) result" serve_state

text \<open>The foreign and generated code the loop calls; \<open>pv_error_text\<close> is the derived \<open>Display\<close> of errors.\<close>

record pairing_server_env =
  pv_env :: pairing_env
  pv_json :: pairing_json
  pv_error_text :: "pairing_error \<Rightarrow> ustring"

definition pairing_read :: "socket_answer \<Rightarrow> (ws_read, ws_error) result" where
  "pairing_read answer = socket_read ''read TLS WebSocket message'' (fst answer) (snd answer)"

fun read_request ::
  "pairing_server_env \<Rightarrow> nat \<Rightarrow> (nat \<times> socket_answer) list \<Rightarrow> (pairing_request, pairing_error) result option" where
  "read_request pv expires_at [] = None"
| "read_request pv expires_at ((now, answer) # reads) =
     (if now \<ge> expires_at then Some (Err PairingExpired)
      else case pairing_read answer of
        Err e \<Rightarrow> Some (Err (PairingTransport e))
      | Ok (WsReadText t) \<Rightarrow> Some (decode_pairing_request (pv_env pv) (pv_json pv) (as_bytes t))
      | Ok WsReadPong \<Rightarrow> read_request pv expires_at reads
      | Ok WsReadControl \<Rightarrow> read_request pv expires_at reads
      | Ok WsReadTimeout \<Rightarrow> read_request pv expires_at reads
      | Ok WsReadClosed \<Rightarrow> Some (Err (PairingInvalidField ''pairing_socket''
          (utf ''client disconnected before requesting pairing''))))"

fun await_close :: "nat \<Rightarrow> (nat \<times> socket_answer) list \<Rightarrow> unit option" where
  "await_close deadline [] = None"
| "await_close deadline ((now, answer) # reads) =
     (if now \<ge> deadline then Some ()
      else case pairing_read answer of
        Ok WsReadClosed \<Rightarrow> Some ()
      | Err _ \<Rightarrow> Some ()
      | _ \<Rightarrow> await_close deadline reads)"

definition finish_connection :: "pairing_round \<Rightarrow> unit option" where
  "finish_connection ro =
     (case socket_close ''close TLS WebSocket'' (rd_close ro) of
        Err _ \<Rightarrow> Some ()
      | Ok _ \<Rightarrow> await_close (rd_close_now ro + CLOSE_HANDSHAKE_TIMEOUT) (rd_close_reads ro))"

text \<open>\<open>send\<close>. The messages whose sending was completed are kept in \<open>sv_sent\<close>, a field the code does not have; a send that
  fails is not counted, though part of its frame may have been written.\<close>

definition send_pairing ::
  "pairing_server_env \<Rightarrow> tls_web_socket \<Rightarrow> (unit, ws_failure) result \<Rightarrow> pairing_server_message \<Rightarrow> serve_state
     \<Rightarrow> (unit, pairing_error) result \<times> serve_state" where
  "send_pairing pv socket sent message st =
     (case and_then (pairing_encode_server (pv_env pv) (pv_json pv) message) (\<lambda>bytes.
           if \<not> valid_utf8 bytes
           then Err (PairingInvalidField ''encoded_pairing_message'' (pj_utf8_error (pv_json pv) bytes))
           else map_err PairingTransport
             (socket_send_text ''send TLS WebSocket text'' (tws_max_message_bytes socket) bytes sent)) of
        Err e \<Rightarrow> (Err e, st)
      | Ok _ \<Rightarrow> (Ok (), st\<lparr>sv_sent := sv_sent st @ [message]\<rparr>))"

definition credential_matches :: "pairing_env \<Rightarrow> ustring \<Rightarrow> ustring \<Rightarrow> bool" where
  "credential_matches pe supplied expected \<longleftrightarrow> pe_sha256 pe (as_bytes supplied) = pe_sha256 pe (as_bytes expected)"

text \<open>A failed attempt: an error the client may see, the end of the connection and the attempt limit.\<close>

definition fail_attempt ::
  "pairing_server_env \<Rightarrow> tls_web_socket \<Rightarrow> pairing_round \<Rightarrow> pairing_error_code \<Rightarrow> ustring \<Rightarrow> serve_state
     \<Rightarrow> round_end option" where
  "fail_attempt pv socket ro code message st =
     (let attempts = sv_attempts st + 1;
          st1 = snd (send_pairing pv socket (rd_pending_sent ro) (PairError code message (attempts < MAX_ATTEMPTS))
            (st\<lparr>sv_attempts := attempts\<rparr>))
      in map_option (\<lambda>_. if attempts \<ge> MAX_ATTEMPTS then Return (Err AttemptLimit) st1 else Continue st1)
           (finish_connection ro))"

text \<open>A terminal error: it is sent with \<open>?\<close>, then the connection is finished and the error returned.\<close>

definition refuse_pairing ::
  "pairing_server_env \<Rightarrow> tls_web_socket \<Rightarrow> pairing_round \<Rightarrow> pairing_error_code \<Rightarrow> string \<Rightarrow> pairing_error \<Rightarrow> serve_state
     \<Rightarrow> round_end option" where
  "refuse_pairing pv socket ro code message failure st =
     (case send_pairing pv socket (rd_final_sent ro) (PairError code (utf message) False) st of
        (Err e, st1) \<Rightarrow> Some (Return (Err e) st1)
      | (Ok _, st1) \<Rightarrow> map_option (\<lambda>_. Return (Err failure) st1) (finish_connection ro))"

definition success_message ::
  "pairing_env \<Rightarrow> pairing_session \<Rightarrow> host_identity_snapshot \<Rightarrow> ustring \<Rightarrow> pairing_server_message" where
  "success_message pe s identity token = PairSucceeded
     \<lparr>ps_host_id = his_host_id identity, ps_host_name = his_host_name identity,
      ps_ca_certificate_der = ca_certificate_base64 pe identity, ps_server_name = his_server_name identity,
      ps_native_address = fst (pss_native_address s), ps_native_port = snd (pss_native_address s),
      ps_access_token = token, ps_native_transport_version = pss_native_transport_version s,
      ps_domain_protocol_versions = pss_domain_protocol_versions s\<rparr>"

definition deliver_token ::
  "pairing_server_env \<Rightarrow> pairing_session \<Rightarrow> tls_web_socket \<Rightarrow> pairing_round \<Rightarrow> pairing_request \<Rightarrow> ustring \<Rightarrow> serve_state
     \<Rightarrow> round_end option" where
  "deliver_token pv s socket ro request token st =
     (case load_identity (pv_env pv) (pss_store s) (sc_answers (rd_identity ro)) (sc_certificates (rd_identity ro))
             (sc_now (rd_identity ro)) (sv_file st) of
        (Err e, file) \<Rightarrow> Some (Return (Err e) (st\<lparr>sv_file := file\<rparr>))
      | (Ok identity, file) \<Rightarrow>
          (case send_pairing pv socket (rd_final_sent ro) (success_message (pv_env pv) s identity token)
                  (st\<lparr>sv_file := file\<rparr>) of
             (Err e, st1) \<Rightarrow> Some (Return (Err e) st1)
           | (Ok _, st1) \<Rightarrow> map_option (\<lambda>_. Return (Ok \<lparr>po_client_id = pr_client_id request,
               po_display_name = pr_display_name request\<rparr>) st1) (finish_connection ro)))"

definition withdraw_token ::
  "pairing_server_env \<Rightarrow> pairing_session \<Rightarrow> tls_web_socket \<Rightarrow> pairing_round \<Rightarrow> pairing_request \<Rightarrow> pairing_error
     \<Rightarrow> serve_state \<Rightarrow> round_end option" where
  "withdraw_token pv s socket ro request failure st =
     refuse_pairing pv socket ro PairInternal ''Host connection could not become ready; please pair again'' failure
       (st\<lparr>sv_file := snd (revoke_device (pv_env pv) (pss_store s) (rd_revoke ro) (pr_client_id request) (sv_file st))\<rparr>)"

definition issue_token ::
  "pairing_server_env \<Rightarrow> pairing_session \<Rightarrow> tls_web_socket \<Rightarrow> pairing_round \<Rightarrow> pairing_request \<Rightarrow> serve_state
     \<Rightarrow> round_end option" where
  "issue_token pv s socket ro request st =
     (case issue_device (pv_env pv) (pss_store s) (sc_answers (rd_issue ro)) (sc_now (rd_issue ro)) (sc_secret (rd_issue ro))
             (pr_client_id request) (pr_display_name request) (pr_version request) (sv_file st) of
        (Ok token, file) \<Rightarrow>
          (case rd_ready ro token of
             Err failure \<Rightarrow> withdraw_token pv s socket ro request failure (st\<lparr>sv_file := file\<rparr>)
           | Ok _ \<Rightarrow> deliver_token pv s socket ro request token (st\<lparr>sv_file := file\<rparr>))
      | (Err (DeviceCapacity _), file) \<Rightarrow>
          refuse_pairing pv socket ro PairCapacity ''the Host has reached its paired-device limit'' (DeviceCapacity 16)
            (st\<lparr>sv_file := file\<rparr>)
      | (Err e, file) \<Rightarrow> Some (Return (Err e) (st\<lparr>sv_file := file\<rparr>)))"

definition decide_request ::
  "pairing_server_env \<Rightarrow> pairing_session \<Rightarrow> tls_web_socket \<Rightarrow> pairing_round \<Rightarrow> pairing_request \<Rightarrow> serve_state
     \<Rightarrow> round_end option" where
  "decide_request pv s socket ro request st =
     (case send_pairing pv socket (rd_pending_sent ro) (PairPending (pr_client_id request) (pr_display_name request)) st of
        (Err e, st1) \<Rightarrow> Some (Return (Err e) st1)
      | (Ok _, st1) \<Rightarrow>
          let approved = rd_approve ro request in
          if rd_after_approval ro \<ge> pss_expires_at s
          then map_option (\<lambda>_. Return (Err PairingExpired)
                 (snd (send_pairing pv socket (rd_final_sent ro)
                   (PairError PairExpired (utf ''pairing session expired'') False) st1))) (finish_connection ro)
          else if \<not> approved
          then refuse_pairing pv socket ro PairDenied ''the Host user denied this device'' PairingDenied st1
          else issue_token pv s socket ro request st1)"

definition request_matches :: "pairing_env \<Rightarrow> pairing_bundle \<Rightarrow> pairing_request \<Rightarrow> bool" where
  "request_matches pe b request \<longleftrightarrow>
     credential_matches pe (pr_pairing_id request) (pb_pairing_id b)
     \<and> credential_matches pe (pr_bootstrap_token request) (pb_bootstrap_token b)"

definition serve_socket ::
  "pairing_server_env \<Rightarrow> pairing_session \<Rightarrow> tls_web_socket \<Rightarrow> pairing_round \<Rightarrow> serve_state \<Rightarrow> round_end option" where
  "serve_socket pv s socket ro st =
     (case read_request pv (pss_expires_at s) (rd_reads ro) of
        None \<Rightarrow> None
      | Some (Err e) \<Rightarrow> fail_attempt pv socket ro PairInvalidRequest (pv_error_text pv e) st
      | Some (Ok request) \<Rightarrow>
          if \<not> request_matches (pv_env pv) (pss_bundle s) request
          then fail_attempt pv socket ro PairInvalidCredential (utf ''pairing credential is invalid'') st
          else decide_request pv s socket ro request st)"

definition serve_turn ::
  "pairing_server_env \<Rightarrow> pairing_session \<Rightarrow> pairing_round \<Rightarrow> serve_state \<Rightarrow> round_end option" where
  "serve_turn pv s ro st =
     (case tls_try_accept (rd_accept ro) (pss_config s) of
        Ok (Some socket) \<Rightarrow> serve_socket pv s socket ro st
      | Ok None \<Rightarrow> Some (Continue st)
      | Err (WsHandshake _) \<Rightarrow>
          let st1 = st\<lparr>sv_attempts := sv_attempts st + 1\<rparr> in
          Some (if sv_attempts st1 \<ge> MAX_ATTEMPTS then Return (Err AttemptLimit) st1 else Continue st1)
      | Err e \<Rightarrow> Some (Return (Err (PairingTransport e)) st))"

text \<open>The loop, on the turns the environment provides; \<open>None\<close> is a loop that has not returned by their end.\<close>

fun serve_loop ::
  "pairing_server_env \<Rightarrow> pairing_session \<Rightarrow> pairing_round list \<Rightarrow> serve_state
     \<Rightarrow> ((pairing_outcome, pairing_error) result \<times> serve_state) option" where
  "serve_loop pv s [] st = None"
| "serve_loop pv s (ro # rounds) st =
     (if rd_now ro \<ge> pss_expires_at s then Some (Err PairingExpired, st)
      else case serve_turn pv s ro st of
        None \<Rightarrow> None
      | Some (Continue st') \<Rightarrow> serve_loop pv s rounds st'
      | Some (Return r st') \<Rightarrow> Some (r, st'))"

definition serve_with_ready ::
  "pairing_server_env \<Rightarrow> pairing_session \<Rightarrow> pairing_round list \<Rightarrow> private_file
     \<Rightarrow> ((pairing_outcome, pairing_error) result \<times> serve_state) option" where
  "serve_with_ready pv s rounds file = serve_loop pv s rounds \<lparr>sv_attempts = 0, sv_file = file, sv_sent = []\<rparr>"

text \<open>\<open>serve\<close> passes a readiness callback that always succeeds.\<close>

definition pairing_serve ::
  "pairing_server_env \<Rightarrow> pairing_session \<Rightarrow> pairing_round list \<Rightarrow> private_file
     \<Rightarrow> ((pairing_outcome, pairing_error) result \<times> serve_state) option" where
  "pairing_serve pv s rounds file = serve_with_ready pv s (map (\<lambda>ro. ro\<lparr>rd_ready := \<lambda>_. Ok ()\<rparr>) rounds) file"

definition remaining_lifetime :: "pairing_session \<Rightarrow> nat \<Rightarrow> nat" where
  "remaining_lifetime s now = pss_expires_at s - now"

end
