(* ===== verification/Pairing_Service.thy ===== *)
theory Pairing_Service
  imports Pairing_Server
begin

text \<open>
  What one turn of the pairing loop and the whole loop do: a turn that goes on leaves the store and has
  sent no token; only a turn with a matching, approved and timely request changes a grant, and only at
  the client of that request; a token is sent exactly when the loop returns successfully; the attempts
  are bounded; and the loop returns once the session has expired.
\<close>

section \<open>Turns\<close>

fun end_state :: "round_end \<Rightarrow> serve_state" where
  "end_state (Continue st) = st"
| "end_state (Return _ st) = st"

fun end_result :: "round_end \<Rightarrow> (pairing_outcome, pairing_error) result option" where
  "end_result (Continue _) = None"
| "end_result (Return r _) = Some r"

fun is_success :: "pairing_server_message \<Rightarrow> bool" where
  "is_success (PairSucceeded _) = True"
| "is_success _ = False"

abbreviation discloses :: "serve_state \<Rightarrow> bool" where
  "discloses st \<equiv> list_ex is_success (sv_sent st)"

text \<open>The request of a turn that may be granted a credential.\<close>

definition admitted_request :: "pairing_server_env \<Rightarrow> pairing_session \<Rightarrow> pairing_round \<Rightarrow> pairing_request \<Rightarrow> bool" where
  "admitted_request pv s ro request \<longleftrightarrow>
     read_request pv (pss_expires_at s) (rd_reads ro) = Some (Ok request)
     \<and> request_matches (pv_env pv) (pss_bundle s) request
     \<and> rd_approve ro request \<and> rd_after_approval ro < pss_expires_at s"

lemma send_pairing_state:
  assumes "send_pairing pv socket sent message st = (r, st')"
  shows "sv_file st' = sv_file st \<and> sv_attempts st' = sv_attempts st"
    and "sv_sent st' = (if r = Ok () then sv_sent st @ [message] else sv_sent st)"
  using assms by (auto simp: send_pairing_def split: sum.splits)

lemma send_pairing_snd [simp]:
  "sv_file (snd (send_pairing pv socket sent message st)) = sv_file st"
  "sv_attempts (snd (send_pairing pv socket sent message st)) = sv_attempts st"
  using send_pairing_state [OF prod.collapse [symmetric]] by auto

lemma send_pairing_discloses [simp]:
  "\<not> is_success message \<Longrightarrow> discloses (snd (send_pairing pv socket sent message st)) = discloses st"
  using send_pairing_state(2) [OF prod.collapse [symmetric], of pv socket sent message st] by auto

lemma fail_attempt_end:
  assumes "fail_attempt pv socket ro code message st = Some out"
  shows "sv_file (end_state out) = sv_file st" "sv_attempts (end_state out) = sv_attempts st + 1"
    "discloses (end_state out) = discloses st"
    "end_result out = (if sv_attempts st + 1 \<ge> MAX_ATTEMPTS then Some (Err AttemptLimit) else None)"
  using assms by (auto simp: fail_attempt_def Let_def split: if_splits)

lemma refuse_end:
  assumes "refuse_pairing pv socket ro code message failure st = Some out"
  shows "sv_file (end_state out) = sv_file st" "sv_attempts (end_state out) = sv_attempts st"
    "discloses (end_state out) = discloses st" "\<exists>e. end_result out = Some (Err e)"
proof -
  obtain r st1 where send: "send_pairing pv socket (rd_final_sent ro) (PairError code (utf message) False) st = (r, st1)"
    by fastforce
  have out: "end_state out = st1" "\<exists>e. end_result out = Some (Err e)"
    using assms send by (auto simp: refuse_pairing_def split: sum.splits)
  have "st1 = snd (send_pairing pv socket (rd_final_sent ro) (PairError code (utf message) False) st)"
    using send by simp
  then show "sv_file (end_state out) = sv_file st" "sv_attempts (end_state out) = sv_attempts st"
    "discloses (end_state out) = discloses st" "\<exists>e. end_result out = Some (Err e)"
    using out by simp_all
qed

text \<open>Whether a step of the store succeeded or not, it changes no grant but those its update changes.\<close>

lemma grants_step_cases:
  "grants_step pe sa f file ok file' \<Longrightarrow>
     store_grants pe file' = store_grants pe file \<or> store_grants pe file' = f (store_grants pe file)"
  by (auto simp: grants_step_def split: if_splits)

text \<open>How a turn ends that has decided to send \<open>token\<close>: an error without the token, or the token as the last
  message.\<close>

definition delivery :: "pairing_request \<Rightarrow> ustring \<Rightarrow> round_end \<Rightarrow> bool" where
  "delivery request token out =
     (case end_result out of
        None \<Rightarrow> False
      | Some (Err _) \<Rightarrow> \<not> discloses (end_state out)
      | Some (Ok outcome) \<Rightarrow> po_client_id outcome = pr_client_id request
          \<and> (\<exists>earlier ps. sv_sent (end_state out) = earlier @ [PairSucceeded ps] \<and> \<not> list_ex is_success earlier
            \<and> ps_access_token ps = token))"

lemma delivery_Return: "delivery request token (Return r st') =
    (case r of Err _ \<Rightarrow> \<not> discloses st' | Ok outcome \<Rightarrow> po_client_id outcome = pr_client_id request
       \<and> (\<exists>earlier ps. sv_sent st' = earlier @ [PairSucceeded ps] \<and> \<not> list_ex is_success earlier \<and> ps_access_token ps = token))"
  by (cases r) (simp_all add: delivery_def)

lemma deliver_token_end:
  assumes laws: "pairing_laws (pv_env pv)" and fresh: "\<not> discloses st"
    and step: "deliver_token pv s socket ro request token st = Some out"
  shows "store_grants (pv_env pv) (sv_file (end_state out)) = store_grants (pv_env pv) (sv_file st)"
    and "sv_attempts (end_state out) = sv_attempts st" and "delivery request token out"
proof -
  obtain r stored where load: "load_identity (pv_env pv) (pss_store s) (sc_answers (rd_identity ro))
      (sc_certificates (rd_identity ro)) (sc_now (rd_identity ro)) (sv_file st) = (r, stored)" by fastforce
  have same: "store_grants (pv_env pv) stored = store_grants (pv_env pv) (sv_file st)"
    using grants_step_cases [OF load_identity_grants [OF laws load]] by auto
  have ends: "sv_file (end_state out) = stored \<and> sv_attempts (end_state out) = sv_attempts st
    \<and> delivery request token out"
  proof (cases r)
    case (Inl e)
    with step load fresh show ?thesis by (auto simp: deliver_token_def delivery_Return)
  next
    case (Inr identity)
    obtain r1 st1 where send: "send_pairing pv socket (rd_final_sent ro)
        (success_message (pv_env pv) s identity token) (st\<lparr>sv_file := stored\<rparr>) = (r1, st1)" by fastforce
    show ?thesis
      using step load Inr send fresh send_pairing_state [OF send]
      by (cases r1) (auto simp: deliver_token_def success_message_def delivery_Return)
  qed
  then show "store_grants (pv_env pv) (sv_file (end_state out)) = store_grants (pv_env pv) (sv_file st)"
    and "sv_attempts (end_state out) = sv_attempts st" and "delivery request token out"
    using same by simp_all
qed

text \<open>The summary of a turn that issues a token for \<open>request\<close>.\<close>

definition issue_summary ::
  "pairing_env \<Rightarrow> private_file \<Rightarrow> usize \<Rightarrow> pairing_request \<Rightarrow> round_end \<Rightarrow> bool" where
  "issue_summary pe stored attempts request out \<longleftrightarrow>
     sv_attempts (end_state out) = attempts
     \<and> (\<forall>c. c \<noteq> pr_client_id request \<longrightarrow>
          store_grants pe (sv_file (end_state out)) c = store_grants pe stored c)
     \<and> (\<exists>token. delivery request token out
          \<and> (is_Ok (the (end_result out)) \<longrightarrow>
               store_grants pe (sv_file (end_state out)) (pr_client_id request) = Some (pe_sha256 pe (as_bytes token))))"

lemma delivery_refused:
  "end_result out = Some (Err e) \<Longrightarrow> \<not> discloses (end_state out) \<Longrightarrow> delivery request token out"
  by (simp add: delivery_def)

lemma issue_token_end:
  assumes laws: "pairing_laws (pv_env pv)" and fresh: "\<not> discloses st"
    and step: "issue_token pv s socket ro request st = Some out"
  shows "issue_summary (pv_env pv) (sv_file st) (sv_attempts st) request out"
proof -
  let ?pe = "pv_env pv" and ?c = "pr_client_id request"
  obtain r stored where issue: "issue_device ?pe (pss_store s) (sc_answers (rd_issue ro)) (sc_now (rd_issue ro))
      (sc_secret (rd_issue ro)) ?c (pr_display_name request) (pr_version request) (sv_file st) = (r, stored)" by fastforce
  note issued = issue_device_grants(1) [OF laws issue]
  have others: "store_grants ?pe stored c = store_grants ?pe (sv_file st) c" if "c \<noteq> ?c" for c
    using grants_step_cases [OF issued] that by auto
  show ?thesis
  proof (cases r)
    case (Inl e)
    have ends: "sv_file (end_state out) = stored \<and> sv_attempts (end_state out) = sv_attempts st
      \<and> \<not> discloses (end_state out) \<and> (\<exists>e. end_result out = Some (Err e))"
    proof (cases "\<exists>n. e = DeviceCapacity n")
      case True
      then have "refuse_pairing pv socket ro PairCapacity ''the Host has reached its paired-device limit'' (DeviceCapacity 16)
          (st\<lparr>sv_file := stored\<rparr>) = Some out"
        using step issue Inl by (auto simp: issue_token_def)
      from refuse_end [OF this] fresh show ?thesis by simp
    next
      case False
      then have "out = Return (Err e) (st\<lparr>sv_file := stored\<rparr>)"
        using step issue Inl by (cases e) (auto simp: issue_token_def)
      then show ?thesis using fresh by simp
    qed
    then show ?thesis using others by (auto simp: issue_summary_def intro: delivery_refused)
  next
    case (Inr token)
    have token: "token = device_token ?pe (sc_secret (rd_issue ro))" by (rule issue_device_grants(2) [OF laws issue Inr])
    have new: "store_grants ?pe stored ?c = Some (pe_sha256 ?pe (as_bytes token))"
      using issued Inr token by (simp add: grants_step_def)
    show ?thesis
    proof (cases "rd_ready ro token")
      case (Inl failure)
      obtain r2 revoked where revoke: "revoke_device ?pe (pss_store s) (rd_revoke ro) ?c stored = (r2, revoked)"
        by fastforce
      have "refuse_pairing pv socket ro PairInternal ''Host connection could not become ready; please pair again'' failure
          (st\<lparr>sv_file := revoked\<rparr>) = Some out"
        using step issue Inr Inl revoke by (simp add: issue_token_def withdraw_token_def)
      note ends = refuse_end [OF this]
      have "store_grants ?pe revoked c = store_grants ?pe stored c" if "c \<noteq> ?c" for c
        using grants_step_cases [OF revoke_device_grants [OF laws revoke]] that by auto
      then show ?thesis using ends others fresh by (auto simp: issue_summary_def intro: delivery_refused)
    next
      case (Inr u)
      then have "deliver_token pv s socket ro request token (st\<lparr>sv_file := stored\<rparr>) = Some out"
        using step issue \<open>r = Ok token\<close> by (simp add: issue_token_def)
      from deliver_token_end [OF laws _ this] fresh new others show ?thesis
        by (auto simp: issue_summary_def delivery_def)
    qed
  qed
qed

section \<open>The whole turn\<close>

lemma decide_request_end:
  assumes fresh: "\<not> discloses st" and step: "decide_request pv s socket ro request st = Some out"
  shows "(\<exists>st1. sv_file st1 = sv_file st \<and> sv_attempts st1 = sv_attempts st \<and> \<not> discloses st1
      \<and> issue_token pv s socket ro request st1 = Some out)
      \<and> rd_approve ro request \<and> rd_after_approval ro < pss_expires_at s
    \<or> sv_file (end_state out) = sv_file st \<and> sv_attempts (end_state out) = sv_attempts st
      \<and> \<not> discloses (end_state out) \<and> (\<exists>e. end_result out = Some (Err e))"
proof -
  let ?pending = "PairPending (pr_client_id request) (pr_display_name request)"
  obtain r st1 where send: "send_pairing pv socket (rd_pending_sent ro) ?pending st = (r, st1)" by fastforce
  have st1: "sv_file st1 = sv_file st" "sv_attempts st1 = sv_attempts st" "\<not> discloses st1"
    using send_pairing_state [OF send] fresh by auto
  consider e where "r = Err e" | "r = Ok ()" "rd_after_approval ro \<ge> pss_expires_at s"
    | "r = Ok ()" "rd_after_approval ro < pss_expires_at s" "\<not> rd_approve ro request"
    | "r = Ok ()" "rd_after_approval ro < pss_expires_at s" "rd_approve ro request"
    by (cases r) force+
  then show ?thesis
  proof cases
    case 1
    with step send st1 show ?thesis by (auto simp: decide_request_def)
  next
    case 2
    with step send st1 show ?thesis by (auto simp: decide_request_def)
  next
    case 3
    then have "refuse_pairing pv socket ro PairDenied ''the Host user denied this device'' PairingDenied st1 = Some out"
      using step send by (simp add: decide_request_def)
    from refuse_end [OF this] st1 show ?thesis by simp
  next
    case 4
    then have "issue_token pv s socket ro request st1 = Some out"
      using step send by (simp add: decide_request_def)
    with 4 st1 show ?thesis by blast
  qed
qed

text \<open>A turn that issues a token: on an accepted connection, for an admitted request, from a state in which
  nothing was disclosed.\<close>

definition issues ::
  "pairing_server_env \<Rightarrow> pairing_session \<Rightarrow> pairing_round \<Rightarrow> pairing_request \<Rightarrow> private_file \<Rightarrow> usize \<Rightarrow> round_end \<Rightarrow> bool" where
  "issues pv s ro request stored attempts out \<longleftrightarrow>
     admitted_request pv s ro request
     \<and> (\<exists>socket st. tls_try_accept (rd_accept ro) (pss_config s) = Ok (Some socket)
          \<and> sv_file st = stored \<and> sv_attempts st = attempts \<and> \<not> discloses st
          \<and> issue_token pv s socket ro request st = Some out)"

text \<open>A turn that grants nothing: the file is as before, no token was sent, and the attempts grow by at most one.\<close>

definition idle_summary :: "serve_state \<Rightarrow> round_end \<Rightarrow> bool" where
  "idle_summary st out \<longleftrightarrow>
     sv_file (end_state out) = sv_file st \<and> \<not> discloses (end_state out)
     \<and> (case end_result out of
          None \<Rightarrow> sv_attempts (end_state out) \<le> sv_attempts st + 1 \<and> sv_attempts (end_state out) < MAX_ATTEMPTS
        | Some (Err e) \<Rightarrow> sv_attempts (end_state out) \<le> sv_attempts st + 1
        | Some (Ok _) \<Rightarrow> False)"

lemma idle_attempt:
  assumes "sv_file (end_state out) = sv_file st" "sv_attempts (end_state out) = sv_attempts st + 1" "\<not> discloses (end_state out)"
    "end_result out = (if sv_attempts st + 1 \<ge> MAX_ATTEMPTS then Some (Err AttemptLimit) else None)"
  shows "idle_summary st out"
  using assms by (auto simp: idle_summary_def)

lemma serve_turn_end:
  assumes fresh: "\<not> discloses st" and low: "sv_attempts st < MAX_ATTEMPTS"
    and step: "serve_turn pv s ro st = Some out"
  shows "idle_summary st out \<or> (\<exists>request. issues pv s ro request (sv_file st) (sv_attempts st) out)"
proof (cases "\<exists>socket. tls_try_accept (rd_accept ro) (pss_config s) = Ok (Some socket)")
  case False
  with step fresh low show ?thesis
    by (auto simp: serve_turn_def idle_summary_def Let_def split: sum.splits option.splits ws_error.splits if_splits)
next
  case True
  then obtain socket where accepted: "tls_try_accept (rd_accept ro) (pss_config s) = Ok (Some socket)"
    and "serve_socket pv s socket ro st = Some out" using step by (auto simp: serve_turn_def)
  then obtain read where read: "read_request pv (pss_expires_at s) (rd_reads ro) = Some read"
    and socket: "serve_socket pv s socket ro st = Some out" by (auto simp: serve_socket_def split: option.splits)
  consider e where "read = Err e" | request where "read = Ok request" "\<not> request_matches (pv_env pv) (pss_bundle s) request"
    | request where "read = Ok request" "request_matches (pv_env pv) (pss_bundle s) request"
    by (cases read) auto
  then show ?thesis
  proof cases
    case 1
    with socket read have "fail_attempt pv socket ro PairInvalidRequest (pv_error_text pv e) st = Some out"
      by (simp add: serve_socket_def)
    from fail_attempt_end [OF this] fresh show ?thesis using idle_attempt by blast
  next
    case 2
    with socket read have "fail_attempt pv socket ro PairInvalidCredential (utf ''pairing credential is invalid'') st = Some out"
      by (simp add: serve_socket_def)
    from fail_attempt_end [OF this] fresh show ?thesis using idle_attempt by blast
  next
    case 3
    with socket read have "decide_request pv s socket ro request st = Some out" by (simp add: serve_socket_def)
    from decide_request_end [OF fresh this] show ?thesis
    proof (elim disjE conjE exE)
      fix st1
      assume "sv_file st1 = sv_file st" "sv_attempts st1 = sv_attempts st" "\<not> discloses st1"
        "issue_token pv s socket ro request st1 = Some out" "rd_approve ro request" "rd_after_approval ro < pss_expires_at s"
      with accepted 3 read show ?thesis unfolding issues_def admitted_request_def by blast
    qed (auto simp: idle_summary_def)
  qed
qed

section \<open>The loop\<close>

lemma issues_summary:
  assumes laws: "pairing_laws (pv_env pv)" and "issues pv s ro request stored attempts out"
  shows "issue_summary (pv_env pv) stored attempts request out"
  using assms(2) issue_token_end [OF laws] by (auto simp: issues_def)

lemma issue_summary_returns: "issue_summary pe stored attempts request out \<Longrightarrow> \<exists>r. out = Return r (end_state out)"
  by (cases out) (auto simp: issue_summary_def delivery_def)

lemma serve_loop_end:
  assumes laws: "pairing_laws (pv_env pv)"
    and "\<not> discloses st" "sv_attempts st < MAX_ATTEMPTS" "serve_loop pv s rounds st = Some (r, st')"
  shows "sv_attempts st' \<le> MAX_ATTEMPTS \<and>
    (sv_file st' = sv_file st \<and> \<not> discloses st' \<and> (\<exists>e. r = Err e)
     \<or> (\<exists>ro \<in> set rounds. \<exists>request attempts. rd_now ro < pss_expires_at s
          \<and> issues pv s ro request (sv_file st) attempts (Return r st')))"
  using assms(2-)
proof (induction rounds arbitrary: st)
  case (Cons ro rounds)
  show ?case
  proof (cases "rd_now ro \<ge> pss_expires_at s")
    case True
    with Cons.prems show ?thesis by auto
  next
    case False
    with Cons.prems(3) obtain out where out: "serve_turn pv s ro st = Some out"
      by (auto split: option.splits)
    from serve_turn_end [OF Cons.prems(1,2) out] show ?thesis
    proof (elim disjE exE)
      assume idle: "idle_summary st out"
      show ?thesis
      proof (cases out)
        case (Continue st1)
        with idle have "\<not> discloses st1" "sv_attempts st1 < MAX_ATTEMPTS" "sv_file st1 = sv_file st"
          by (auto simp: idle_summary_def)
        with Cons.IH [of st1] Cons.prems(3) out Continue False show ?thesis by auto
      next
        case (Return r1 st1)
        with idle Cons.prems(2,3) out False show ?thesis
          by (auto simp: idle_summary_def split: sum.splits)
      qed
    next
      fix request
      assume iss: "issues pv s ro request (sv_file st) (sv_attempts st) out"
      from issue_summary_returns [OF issues_summary [OF laws iss]] have ret: "out = Return r st'"
        using Cons.prems(3) out False by (cases out) auto
      with issues_summary [OF laws iss] have "sv_attempts st' = sv_attempts st" by (simp add: issue_summary_def)
      then show ?thesis using iss ret Cons.prems(2) False by (intro conjI disjI2 bexI [of _ ro] exI) auto
    qed
  qed
qed simp

lemma serve_end:
  assumes "pairing_laws (pv_env pv)" and "serve_with_ready pv s rounds stored = Some (r, st')"
  shows "sv_attempts st' \<le> MAX_ATTEMPTS"
    and "sv_file st' = stored \<and> \<not> discloses st' \<and> (\<exists>e. r = Err e)
     \<or> (\<exists>ro \<in> set rounds. \<exists>request attempts. rd_now ro < pss_expires_at s
          \<and> issues pv s ro request stored attempts (Return r st'))"
  using serve_loop_end [OF assms(1) _ _ assms(2) [unfolded serve_with_ready_def]]
  by (simp_all add: MAX_ATTEMPTS_def)

section \<open>Withdrawal\<close>

lemma for_each_Ok_iff: "for_each f xs = Ok () \<longleftrightarrow> (\<forall>x \<in> set xs. f x = Ok ())"
  by (induction xs) (auto simp: result_simps)

lemma validate_record_devices:
  assumes "validate_record pe old = Ok ()" and "set ds \<subseteq> set (sto_devices old)" and "length ds \<le> length (sto_devices old)"
  shows "validate_record pe (old\<lparr>sto_devices := ds\<rparr>) = Ok ()"
  using assms by (auto simp: validate_record_def for_each_Ok_iff identity_snapshot_def result_simps split: if_splits)

text \<open>Every step of a write succeeds, and a record that was read can be written, also without some of its devices.\<close>

definition write_io_ok :: "write_answers \<Rightarrow> bool" where
  "write_io_ok wa \<longleftrightarrow> (\<exists>parent. wa_parent wa = Some parent) \<and> wa_private_dir wa = Ok () \<and> wa_protect_old wa = Ok ()
     \<and> wa_open_temporary wa = Ok () \<and> wa_protect_temporary wa = Ok () \<and> wa_write_all wa = Ok () \<and> wa_sync_all wa = Ok ()
     \<and> wa_rename wa = Ok () \<and> wa_sync_parent wa = Ok ()"

definition records_writable :: "pairing_env \<Rightarrow> bool" where
  "records_writable pe \<longleftrightarrow> (\<forall>bytes r keep. pe_record_from_slice pe bytes = Ok r \<longrightarrow>
     (\<exists>bytes'. pe_record_to_vec pe (r\<lparr>sto_devices := filter keep (sto_devices r)\<rparr>) = Ok bytes'))"

lemma update_store_succeeds:
  assumes "store_io_ok sa" "write_io_ok (sa_write sa)" "pe_record_to_vec pe new = Ok bytes" "stored_record pe stored = Some old"
    and "operation old = Ok new" "validate_record pe new = Ok ()"
  shows "\<exists>stored'. update_store pe st sa operation stored = (Ok new, stored')"
  using assms(2,3,5,6) load_record_stored [OF assms(1,4), of st]
  by (auto simp: update_store_def save_unlocked_def atomic_write_private_def prepare_temporary_def write_io_ok_def)

lemma granted_device:
  assumes "store_grants pe stored c = Some digest"
  obtains old d where "stored_record pe stored = Some old" "validate_record pe old = Ok ()"
    "d \<in> set (sto_devices old)" "dev_client_id d = c"
proof -
  obtain old where old: "stored_record pe stored = Some old" "device_grants (sto_devices old) c = Some digest"
    using assms by (auto simp: store_grants_def split: option.splits)
  then obtain d where "find (\<lambda>d. dev_client_id d = c) (sto_devices old) = Some d"
    by (auto simp: device_grants_def bind_eq_Some_conv)
  then have "d \<in> set (sto_devices old)" "dev_client_id d = c" by (auto simp: find_Some_iff)
  moreover have "validate_record pe old = Ok ()"
    using old(1) by (auto simp: stored_record_def split: option.splits sum.splits if_splits)
  ultimately show thesis using that old(1) by blast
qed

lemma revoke_withdraws:
  assumes laws: "pairing_laws pe" and io: "store_io_ok sa" "write_io_ok (sa_write sa)" "records_writable pe"
    and granted: "store_grants pe stored c = Some digest" and step: "revoke_device pe st sa c stored = (r, stored')"
  shows "r = Ok () \<and> store_grants pe stored' = (store_grants pe stored)(c := None)"
proof -
  obtain old d where old: "stored_record pe stored = Some old" "validate_record pe old = Ok ()"
    "d \<in> set (sto_devices old)" "dev_client_id d = c" by (rule granted_device [OF granted])
  let ?kept = "filter (\<lambda>d. dev_client_id d \<noteq> c) (sto_devices old)"
  have "length ?kept < length (sto_devices old)" using old(3,4) by (intro length_filter_less) auto
  then have drop: "drop_device c old = Ok (old\<lparr>sto_devices := ?kept\<rparr>)" by (simp add: drop_device_def Let_def)
  have "validate_record pe (old\<lparr>sto_devices := ?kept\<rparr>) = Ok ()" by (rule validate_record_devices [OF old(2)]) auto
  moreover obtain content where "pe_record_from_slice pe content = Ok old"
    using old(1) by (auto simp: stored_record_def split: option.splits sum.splits if_splits)
  then obtain bytes where "pe_record_to_vec pe (old\<lparr>sto_devices := ?kept\<rparr>) = Ok bytes"
    using io(3) unfolding records_writable_def by blast
  ultimately have "\<exists>stored'. update_store pe st sa (drop_device c) stored = (Ok (old\<lparr>sto_devices := ?kept\<rparr>), stored')"
    using update_store_succeeds [where operation = "drop_device c", OF io(1,2) _ old(1) drop] by blast
  with step have "r = Ok ()"
    by (auto simp: revoke_device_def)
  with revoke_device_grants [OF laws step] show ?thesis by (simp add: grants_step_def)
qed

text \<open>The issue and the revocation of a turn.\<close>

abbreviation issue_for ::
  "pairing_server_env \<Rightarrow> pairing_session \<Rightarrow> pairing_round \<Rightarrow> pairing_request \<Rightarrow> private_file
     \<Rightarrow> (ustring, pairing_error) result \<times> private_file" where
  "issue_for pv s ro request \<equiv> issue_device (pv_env pv) (pss_store s) (sc_answers (rd_issue ro)) (sc_now (rd_issue ro))
     (sc_secret (rd_issue ro)) (pr_client_id request) (pr_display_name request) (pr_version request)"

abbreviation revoke_for ::
  "pairing_server_env \<Rightarrow> pairing_session \<Rightarrow> pairing_round \<Rightarrow> pairing_request \<Rightarrow> private_file
     \<Rightarrow> (unit, pairing_error) result \<times> private_file" where
  "revoke_for pv s ro request \<equiv> revoke_device (pv_env pv) (pss_store s) (rd_revoke ro) (pr_client_id request)"

abbreviation issued_digest :: "pairing_server_env \<Rightarrow> pairing_round \<Rightarrow> u8 list" where
  "issued_digest pv ro \<equiv> pe_sha256 (pv_env pv) (as_bytes (device_token (pv_env pv) (sc_secret (rd_issue ro))))"

text \<open>A turn whose readiness fails returns an error, with the file as the failed issue left it, or as the revocation
  left it, whatever that answered.\<close>

lemma issue_token_unready_file:
  assumes unready: "\<And>token. \<exists>e. rd_ready ro token = Err e" and step: "issue_token pv s socket ro request st = Some out"
  shows "(\<exists>e. end_result out = Some (Err e))
    \<and> ((\<exists>e. issue_for pv s ro request (sv_file st) = (Err e, sv_file (end_state out)))
       \<or> (\<exists>token stored r. issue_for pv s ro request (sv_file st) = (Ok token, stored)
            \<and> revoke_for pv s ro request stored = (r, sv_file (end_state out))))"
proof -
  obtain r stored where issue: "issue_for pv s ro request (sv_file st) = (r, stored)" by fastforce
  show ?thesis
  proof (cases r)
    case (Inl e)
    show ?thesis
    proof (cases "\<exists>n. e = DeviceCapacity n")
      case True
      then have "refuse_pairing pv socket ro PairCapacity ''the Host has reached its paired-device limit'' (DeviceCapacity 16)
          (st\<lparr>sv_file := stored\<rparr>) = Some out" using step issue Inl by (auto simp: issue_token_def)
      from refuse_end(1,4) [OF this] issue Inl show ?thesis by simp
    next
      case False
      then show ?thesis using step issue Inl by (cases e) (auto simp: issue_token_def)
    qed
  next
    case (Inr token)
    obtain failure where "rd_ready ro token = Err failure" using unready by blast
    moreover obtain r2 revoked where revoke: "revoke_for pv s ro request stored = (r2, revoked)" by fastforce
    ultimately have "refuse_pairing pv socket ro PairInternal ''Host connection could not become ready; please pair again'' failure
        (st\<lparr>sv_file := revoked\<rparr>) = Some out"
      using step issue Inr by (simp add: issue_token_def withdraw_token_def)
    from refuse_end(1,4) [OF this] issue Inr revoke show ?thesis by simp
  qed
qed

lemma map_le_update_None: "g(c := None) \<subseteq>\<^sub>m g" "(g(c \<mapsto> d))(c := None) \<subseteq>\<^sub>m g"
  by (auto simp: map_le_def)

text \<open>What such a turn leaves granted: nothing new, or the grant of the token it did not disclose. The second happens
  only if the issue replaced the file and then failed, or if the revocation failed.\<close>

lemma issue_token_unready_grants:
  assumes laws: "pairing_laws (pv_env pv)" and unready: "\<And>token. \<exists>e. rd_ready ro token = Err e"
    and step: "issue_token pv s socket ro request st = Some out"
  shows "store_grants (pv_env pv) (sv_file (end_state out)) \<subseteq>\<^sub>m store_grants (pv_env pv) (sv_file st)
    \<or> store_grants (pv_env pv) (sv_file (end_state out))
        = (store_grants (pv_env pv) (sv_file st))(pr_client_id request \<mapsto> issued_digest pv ro)
      \<and> (replaced_unsynced (sc_answers (rd_issue ro))
         \<or> (\<exists>token stored e. issue_for pv s ro request (sv_file st) = (Ok token, stored)
              \<and> revoke_for pv s ro request stored = (Err e, sv_file (end_state out))))"
  using issue_token_unready_file [OF unready step, THEN conjunct2]
proof (elim disjE exE conjE)
  fix e
  assume "issue_for pv s ro request (sv_file st) = (Err e, sv_file (end_state out))"
  from issue_device_grants(1) [OF laws this] show ?thesis by (auto simp: grants_step_def)
next
  fix token stored r
  assume issue: "issue_for pv s ro request (sv_file st) = (Ok token, stored)"
    and revoke: "revoke_for pv s ro request stored = (r, sv_file (end_state out))"
  from issue_device_grants(1) [OF laws issue]
  have granted: "store_grants (pv_env pv) stored = (store_grants (pv_env pv) (sv_file st))(pr_client_id request \<mapsto> issued_digest pv ro)"
    by (simp add: grants_step_def)
  note revoked = revoke_device_grants [OF laws revoke]
  show ?thesis
  proof (cases r)
    case (Inl e)
    with revoked have "store_grants (pv_env pv) (sv_file (end_state out)) = store_grants (pv_env pv) stored
      \<or> store_grants (pv_env pv) (sv_file (end_state out)) = (store_grants (pv_env pv) stored)(pr_client_id request := None)"
      by (auto simp: grants_step_def)
    then show ?thesis
    proof
      assume "store_grants (pv_env pv) (sv_file (end_state out)) = store_grants (pv_env pv) stored"
      with granted issue revoke Inl show ?thesis by auto
    next
      assume "store_grants (pv_env pv) (sv_file (end_state out)) = (store_grants (pv_env pv) stored)(pr_client_id request := None)"
      with granted show ?thesis by (simp add: map_le_update_None)
    qed
  next
    case (Inr u)
    with revoked granted show ?thesis by (simp add: grants_step_def map_le_update_None)
  qed
qed

lemma issue_token_withdrawn:
  assumes laws: "pairing_laws (pv_env pv)" and io: "store_io_ok (rd_revoke ro)" "write_io_ok (sa_write (rd_revoke ro))"
    "records_writable (pv_env pv)" and unready: "\<And>token. \<exists>e. rd_ready ro token = Err e"
    and step: "issue_token pv s socket ro request st = Some out"
    and synced: "\<not> replaced_unsynced (sc_answers (rd_issue ro))"
  shows "store_grants (pv_env pv) (sv_file (end_state out)) \<subseteq>\<^sub>m store_grants (pv_env pv) (sv_file st)"
proof (rule ccontr)
  assume "\<not> ?thesis"
  with issue_token_unready_grants [OF laws unready step] synced obtain token stored e
    where issue: "issue_for pv s ro request (sv_file st) = (Ok token, stored)"
      and revoke: "revoke_for pv s ro request stored = (Err e, sv_file (end_state out))" by auto
  from issue_device_grants(1) [OF laws issue] have "store_grants (pv_env pv) stored (pr_client_id request) = Some (issued_digest pv ro)"
    by (simp add: grants_step_def)
  from revoke_withdraws [OF laws io this revoke] show False by simp
qed

lemma issue_token_unready:
  assumes laws: "pairing_laws (pv_env pv)" and unready: "\<And>token. \<exists>e. rd_ready ro token = Err e"
    and fresh: "\<not> discloses st" and step: "issue_token pv s socket ro request st = Some out"
  shows "\<not> discloses (end_state out) \<and> (\<exists>e. end_result out = Some (Err e))"
  using issue_token_unready_file [OF unready step] issue_token_end [OF laws fresh step]
  by (auto simp: issue_summary_def delivery_def)

section \<open>Termination\<close>

text \<open>The clock reaches the end of both inner loops of the turn.\<close>

definition timely_round :: "pairing_session \<Rightarrow> pairing_round \<Rightarrow> bool" where
  "timely_round s ro \<longleftrightarrow> list_ex (\<lambda>(now, _). now \<ge> pss_expires_at s) (rd_reads ro)
     \<and> list_ex (\<lambda>(now, _). now \<ge> rd_close_now ro + CLOSE_HANDSHAKE_TIMEOUT) (rd_close_reads ro)"

lemma read_request_returns:
  "list_ex (\<lambda>(now, _). now \<ge> expires_at) reads \<Longrightarrow> \<exists>r. read_request pv expires_at reads = Some r"
  by (induction reads) (auto split: sum.splits ws_read.splits)

lemma await_close_returns:
  "list_ex (\<lambda>(now, _). now \<ge> deadline) reads \<Longrightarrow> \<exists>r. await_close deadline reads = Some r"
  by (induction reads) (auto split: sum.splits ws_read.splits)

lemma finish_connection_returns: "timely_round s ro \<Longrightarrow> finish_connection ro = Some ()"
  using await_close_returns [of "rd_close_now ro + CLOSE_HANDSHAKE_TIMEOUT" "rd_close_reads ro"]
  by (auto simp: finish_connection_def timely_round_def split: sum.splits)

lemma serve_turn_returns:
  assumes "timely_round s ro"
  shows "\<exists>out. serve_turn pv s ro st = Some out"
proof -
  obtain read where "read_request pv (pss_expires_at s) (rd_reads ro) = Some read"
    using read_request_returns [of "pss_expires_at s" "rd_reads ro" pv] assms by (auto simp: timely_round_def)
  then show ?thesis
    using finish_connection_returns [OF assms]
    by (auto simp: serve_turn_def serve_socket_def fail_attempt_def decide_request_def issue_token_def
        withdraw_token_def deliver_token_def refuse_pairing_def Let_def
        split: sum.splits option.splits ws_error.splits prod.splits pairing_error.splits)
qed

lemma serve_loop_returns:
  assumes "list_all (timely_round s) rounds" and "list_ex (\<lambda>ro. rd_now ro \<ge> pss_expires_at s) rounds"
  shows "\<exists>out. serve_loop pv s rounds st = Some out"
  using assms
proof (induction rounds arbitrary: st)
  case (Cons ro rounds)
  from Cons.prems obtain out where "serve_turn pv s ro st = Some out"
    using serve_turn_returns [of s ro pv st] by auto
  with Cons show ?case by (cases out) auto
qed simp

end
