(* ===== verification/Pairing_Samples.thy ===== *)
theory Pairing_Samples
  imports Pairing_Service
begin

text \<open>
  A Host with one store and one pairing session, small enough to run: two records (without and with one
  device), a request that matches the session, and file systems and sockets that answer. The foreign
  code is instantiated by simple functions that satisfy its laws.
\<close>

section \<open>Foreign code\<close>

definition smp_token :: ustring where "smp_token = replicate 32 97"

definition smp_sha256 :: "u8 list \<Rightarrow> u8 list" where
  "smp_sha256 bytes = take 32 (bytes @ replicate 32 0)"

definition smp_record :: store_record where
  "smp_record = \<lparr>sto_schema_version = 1, sto_host_id = utf ''h'', sto_host_name = utf ''Studio'',
     sto_provider_id = utf ''p'', sto_channel_id = utf ''c'', sto_server_name = utf ''h.agentpulse.local'',
     sto_thread_ids = [],
     sto_certificates = \<lparr>cer_ca_certificate_der = [1], cer_ca_private_key_der = [2], cer_leaf_certificate_der = [3],
       cer_leaf_private_key_der = [4], cer_leaf_not_after_unix_seconds = 9000000\<rparr>,
     sto_devices = []\<rparr>"

definition smp_device :: device_record where
  "smp_device = \<lparr>dev_client_id = utf ''phone'', dev_display_name = utf ''Pixel'', dev_version = None,
     dev_token_sha256 = hex (smp_sha256 (as_bytes smp_token)), dev_paired_at_unix_seconds = 100\<rparr>"

definition smp_paired :: store_record where
  "smp_paired = smp_record\<lparr>sto_devices := [smp_device]\<rparr>"

definition smp_env :: pairing_env where
  "smp_env = \<lparr>pe_uuid_parse = (\<lambda>s. Ok 7), pe_uuid_version = (\<lambda>u. 7), pe_sha256 = smp_sha256,
     pe_standard_encode = map unat, pe_standard_decode = (\<lambda>s. Ok (map of_nat s)),
     pe_url_encode = map unat, pe_url_decode = (\<lambda>s. Ok (map of_nat s)),
     pe_record_to_vec = (\<lambda>r. if r = smp_record then Ok [0] else if r = smp_paired then Ok [1] else Err []),
     pe_record_from_slice = (\<lambda>b. if b = [0] then Ok smp_record else if b = [1] then Ok smp_paired else Err [])\<rparr>"

definition smp_bundle :: pairing_bundle where
  "smp_bundle = \<lparr>pb_pairing_version = 1, pb_pairing_id = utf ''pairing'', pb_host_id = utf ''h'',
     pb_host_name = utf ''Studio'', pb_server_name = utf ''h.agentpulse.local'', pb_address = utf ''127.0.0.1'',
     pb_port = 4000, pb_leaf_sha256 = replicate 64 97, pb_bootstrap_token = utf ''bootstrap'',
     pb_relay_endpoint = utf ''relay.example.com:2333'', pb_route = None, pb_expires_at_unix_seconds = 220\<rparr>"

definition smp_request :: pairing_request where
  "smp_request = \<lparr>pr_pairing_id = utf ''pairing'', pr_bootstrap_token = utf ''bootstrap'', pr_client_id = utf ''phone'',
     pr_display_name = utf ''Pixel'', pr_version = None\<rparr>"

definition smp_success :: pairing_success where
  "smp_success = \<lparr>ps_host_id = utf ''h'', ps_host_name = utf ''Studio'', ps_ca_certificate_der = [1],
     ps_server_name = utf ''h.agentpulse.local'', ps_native_address = utf ''127.0.0.1'', ps_native_port = 2333,
     ps_access_token = smp_token, ps_native_transport_version = 1, ps_domain_protocol_versions = [2]\<rparr>"

definition smp_request_frame :: "request_dto pairing_envelope" where
  "smp_request_frame = \<lparr>pen_pairing_version = 1,
     pen_message = PairRequestDto (utf ''pairing'') (utf ''bootstrap'') (utf ''phone'') (utf ''Pixel'') None\<rparr>"

definition smp_pending_frame :: "pair_server_dto pairing_envelope" where
  "smp_pending_frame = \<lparr>pen_pairing_version = 1, pen_message = PairingPendingDto (utf ''phone'') (utf ''Pixel'')\<rparr>"

definition smp_success_frame :: "pair_server_dto pairing_envelope" where
  "smp_success_frame = \<lparr>pen_pairing_version = 1, pen_message = PairingSucceededDto smp_success\<rparr>"

definition smp_json :: pairing_json where
  "smp_json = \<lparr>pj_bundle_to_vec = (\<lambda>b. if b = smp_bundle then Ok [3] else Err []),
     pj_bundle_from_slice = (\<lambda>b. if b = [3] then Ok smp_bundle else Err []),
     pj_value_members = (\<lambda>b. Ok (\<lambda>name. name = ''relay_endpoint'')),
     pj_request_to_vec = (\<lambda>e. if e = smp_request_frame then Ok [123] else Err []),
     pj_request_from_slice = (\<lambda>b. if b = [123] then Ok smp_request_frame else Err []),
     pj_server_to_vec = (\<lambda>e. if e = smp_pending_frame then Ok [1] else if e = smp_success_frame then Ok [2] else Err []),
     pj_server_from_slice = (\<lambda>b. if b = [1] then Ok smp_pending_frame else if b = [2] then Ok smp_success_frame else Err []),
     pj_utf8_error = (\<lambda>_. [])\<rparr>"

definition smp_server :: pairing_server_env where
  "smp_server = \<lparr>pv_env = smp_env, pv_json = smp_json, pv_error_text = (\<lambda>_. utf ''error'')\<rparr>"

section \<open>Answers\<close>

definition smp_write :: write_answers where
  "smp_write = \<lparr>wa_parent = Some [1], wa_private_dir = Ok (), wa_protect_old = Ok (), wa_open_temporary = Ok (),
     wa_protect_temporary = Ok (), wa_write_all = Ok (), wa_sync_all = Ok (), wa_rename = Ok (), wa_sync_parent = Ok ()\<rparr>"

definition smp_answers :: store_answers where
  "smp_answers = \<lparr>sa_parent = Some [1], sa_private_dir = Ok (), sa_open_lock = Ok (), sa_lock = Ok (),
     sa_protect_file = Ok (), sa_read = Ok (), sa_write = smp_write\<rparr>"

definition smp_certificates :: certificate_answers where
  "smp_certificates = \<lparr>ca_new = (\<lambda>_. Err []), ca_restore = (\<lambda>_ _. Err []), leaf_new = (\<lambda>_. Err [])\<rparr>"

definition smp_store :: host_credential_store where
  "smp_store = \<lparr>hcs_path = utf ''/a/credentials.json'', hcs_lock_path = utf ''/a/credentials.lock''\<rparr>"

definition smp_call :: store_call where
  "smp_call = \<lparr>sc_answers = smp_answers, sc_certificates = smp_certificates, sc_now = 100, sc_secret = replicate 32 97\<rparr>"

definition smp_peer :: net_address where
  "smp_peer = \<lparr>net_ip = V4 [127, 0, 0, 1], net_port = 5000\<rparr>"

definition smp_config :: tls_config where
  "smp_config = \<lparr>tlc_bind_address = smp_peer, tlc_allow_public = False, tlc_path = PAIRING_WEBSOCKET_PATH,
     tlc_subprotocol = PAIRING_WEBSOCKET_SUBPROTOCOL,
     tlc_identity = \<lparr>tid_certificate_chain_der = [[3], [1]], tid_private_key_der = [4]\<rparr>, tlc_authorizer = None,
     tlc_handshake_timeout = 5000, tlc_io_poll_interval = 100, tlc_max_message_bytes = MAX_PAIRING_MESSAGE_BYTES\<rparr>"

definition smp_accept :: "ustring \<Rightarrow> (string \<Rightarrow> ustring option) \<Rightarrow> accept_answers" where
  "smp_accept path headers = \<lparr>aa_accept = Accepted smp_peer, aa_blocking = Ok (), aa_handshake_timeouts = (Ok (), Ok ()),
     aa_server_connection = Ok (), aa_request = Ok \<lparr>up_path = path, up_query = None, up_header = headers\<rparr>,
     aa_rejected = (\<lambda>_. []), aa_finish = Ok (), aa_poll_timeouts = (Ok (), Ok ())\<rparr>"

definition smp_round :: pairing_round where
  "smp_round = \<lparr>rd_now = 0, rd_accept = smp_accept PAIRING_WEBSOCKET_PATH [''sec-websocket-protocol'' \<mapsto> PAIRING_WEBSOCKET_SUBPROTOCOL],
     rd_reads = [(0, Ok (MsgText [123]), Ok ()), (120000, Ok MsgPong, Ok ())], rd_pending_sent = Ok (), rd_approve = (\<lambda>_. True),
     rd_after_approval = 10, rd_issue = smp_call, rd_ready = (\<lambda>_. Ok ()), rd_revoke = smp_answers, rd_identity = smp_call,
     rd_final_sent = Ok (), rd_close = Ok (), rd_close_now = 20,
     rd_close_reads = [(21, Ok MsgClose, Ok ()), (2020, Ok MsgPong, Ok ())]\<rparr>"

definition smp_session :: pairing_session where
  "smp_session = \<lparr>pss_config = smp_config, pss_local_address = smp_peer, pss_store = smp_store, pss_bundle = smp_bundle,
     pss_pairing_uri = [], pss_native_address = (utf ''127.0.0.1'', 2333), pss_native_transport_version = 1,
     pss_domain_protocol_versions = [2], pss_expires_at = SESSION_LIFETIME\<rparr>"

section \<open>The laws hold\<close>

lemma smp_pairing_laws: "pairing_laws smp_env"
  by (auto simp: pairing_laws_def smp_env_def smp_sha256_def smp_paired_def smp_record_def)

lemma smp_json_laws: "pairing_json_laws smp_env smp_json"
  by (auto simp: pairing_json_laws_def smp_env_def smp_json_def smp_pending_frame_def smp_success_frame_def
      smp_bundle_def utf_def comp_def)

lemma smp_writable: "records_writable smp_env"
proof -
  have "filter keep [smp_device] = [] \<or> filter keep [smp_device] = [smp_device]" for keep by simp
  then show ?thesis
    by (auto simp: records_writable_def smp_env_def smp_paired_def smp_record_def)
qed

lemma smp_io_ok: "store_io_ok smp_answers" "write_io_ok (sa_write smp_answers)" "\<not> replaced_unsynced smp_answers"
  by (simp_all add: store_io_ok_def write_io_ok_def replaced_unsynced_def smp_answers_def smp_write_def)

lemma str_len_ascii: "list_all (\<lambda>c. c < 128) value \<Longrightarrow> str_len value = length value"
  by (induction "value") (simp_all add: str_len_def as_bytes_def utf8_char_def)

lemmas smp_text = validate_bounded_def validate_name_def trim_text_def is_whitespace_def utf_def str_len_ascii pairing_uuid_v7_def

lemma smp_env_simps [simp]:
  "pe_uuid_parse smp_env t = Ok 7" "pe_uuid_version smp_env u = 7" "pe_sha256 smp_env = smp_sha256"
  "pe_standard_encode smp_env = map unat" "pe_standard_decode smp_env t = Ok (map of_nat t)"
  "pe_url_encode smp_env = map unat" "pe_url_decode smp_env t = Ok (map of_nat t)"
  "pe_record_to_vec smp_env smp_record = Ok [0]" "pe_record_to_vec smp_env smp_paired = Ok [1]"
  "pe_record_from_slice smp_env [0] = Ok smp_record" "pe_record_from_slice smp_env [1] = Ok smp_paired"
  by (simp_all add: smp_env_def smp_paired_def smp_record_def)

lemma smp_digest: "decode_hex_32 (hex (smp_sha256 (as_bytes smp_token))) = Some (smp_sha256 (as_bytes smp_token))"
  by (rule decode_hex_hex) (simp add: smp_sha256_def)

lemma smp_valid: "validate_record smp_env smp_record = Ok ()" "validate_record smp_env smp_paired = Ok ()"
  by (simp_all add: validate_record_def validate_device_def smp_paired_def smp_device_def smp_digest smp_record_def
      STORE_SCHEMA_VERSION_def MAX_DEVICES_def identity_snapshot_def standard_decode_def smp_text)

lemma smp_stored: "stored_record smp_env (Some [0]) = Some smp_record" "stored_record smp_env (Some [1]) = Some smp_paired"
  using smp_valid by (simp_all add: stored_record_def smp_env_def)

lemma smp_grants: "store_grants smp_env (Some [0]) = Map.empty"
  "store_grants smp_env (Some [1]) (utf ''phone'') = Some (smp_sha256 (as_bytes smp_token))"
proof -
  show "store_grants smp_env (Some [0]) = Map.empty"
    by (auto simp: store_grants_def smp_stored device_grants_def smp_record_def)
  show "store_grants smp_env (Some [1]) (utf ''phone'') = Some (smp_sha256 (as_bytes smp_token))"
    by (simp add: store_grants_def smp_stored device_grants_def smp_paired_def smp_device_def smp_digest)
qed

section \<open>The session runs\<close>

lemma smp_load: "load_record smp_env smp_store smp_answers (Some [0]) = Ok smp_record"
  "load_record smp_env smp_store smp_answers (Some [1]) = Ok smp_paired"
  using load_record_stored [OF smp_io_ok(1)] smp_stored by simp_all

lemma smp_atomic: "atomic_write_private (sa_write smp_answers) bytes stored = (Ok (), Some bytes)"
  by (simp add: atomic_write_private_def prepare_temporary_def smp_answers_def smp_write_def)

lemma smp_issue:
  "issue_device smp_env smp_store smp_answers 100 (replicate 32 97) (utf ''phone'') (utf ''Pixel'') None (Some [0])
     = (Ok smp_token, Some [1])"
proof -
  have device: "\<lparr>dev_client_id = utf ''phone'', dev_display_name = utf ''Pixel'', dev_version = None,
      dev_token_sha256 = hex (smp_sha256 (as_bytes smp_token)), dev_paired_at_unix_seconds = 100\<rparr> = smp_device"
    by (simp add: smp_device_def)
  have token: "device_token smp_env (replicate 32 97) = smp_token" by (simp add: device_token_def smp_token_def)
  have "put_device smp_device smp_record = Ok smp_paired"
    by (simp add: put_device_def smp_paired_def smp_record_def MAX_DEVICES_def)
  then have "update_store smp_env smp_store smp_answers (put_device smp_device) (Some [0]) = (Ok smp_paired, Some [1])"
    by (simp add: update_store_def smp_load smp_valid save_unlocked_def smp_atomic)
  moreover have "validate_issue smp_env (utf ''phone'') (utf ''Pixel'') None = Ok ()" by (simp add: validate_issue_def smp_text)
  ultimately show ?thesis by (simp add: issue_device_def Let_def token device)
qed

definition smp_identity :: host_identity_snapshot where
  "smp_identity = \<lparr>his_host_id = utf ''h'', his_host_name = utf ''Studio'', his_provider_id = utf ''p'',
     his_channel_id = utf ''c'', his_server_name = utf ''h.agentpulse.local'', his_thread_ids = [],
     his_leaf_certificate_der = [3], his_ca_certificate_der = [1], his_leaf_private_key_der = [4],
     his_leaf_not_after_unix_seconds = 9000000\<rparr>"

lemma smp_load_identity:
  "load_identity smp_env smp_store smp_answers smp_certificates 100 (Some [1]) = (Ok smp_identity, Some [1])"
proof -
  have "cer_leaf_not_after_unix_seconds (sto_certificates smp_paired) = 9000000" by (simp add: smp_paired_def smp_record_def)
  then have "update_store smp_env smp_store smp_answers (\<lambda>r.
      if cer_leaf_not_after_unix_seconds (sto_certificates r) \<le> 100 + days_seconds LEAF_RENEWAL_DAYS
      then renew_leaf smp_env smp_certificates 100 r else Ok r) (Some [1]) = (Ok smp_paired, Some [1])"
    by (simp add: update_store_def smp_load smp_valid save_unlocked_def smp_atomic days_seconds_def LEAF_RENEWAL_DAYS_def)
  then show ?thesis
    by (simp add: load_identity_def with_identity_def identity_snapshot_def standard_decode_def smp_identity_def
        smp_paired_def smp_record_def)
qed

definition smp_socket :: tls_web_socket where
  "smp_socket = \<lparr>tws_peer_address = smp_peer, tws_max_message_bytes = MAX_PAIRING_MESSAGE_BYTES,
     tws_credentials = None, tws_authorizer = None\<rparr>"

lemma smp_accepts: "tls_try_accept (rd_accept smp_round) smp_config = Ok (Some smp_socket)"
  by (simp add: tls_try_accept_def tls_handshake_def upgrade_callback_def validate_upgrade_def configure_stream_def
      smp_round_def smp_accept_def smp_config_def smp_socket_def PAIRING_WEBSOCKET_SUBPROTOCOL_def
      trim_text_def is_whitespace_def utf_def)

lemma smp_reads: "read_request smp_server 120000 (rd_reads smp_round) = Some (Ok smp_request)"
proof -
  have "as_bytes [123] = [123]" by (simp add: as_bytes_def utf8_char_def)
  then have "decode_pairing_request smp_env smp_json (as_bytes [123]) = Ok smp_request"
    by (simp add: decode_pairing_request_def smp_json_def smp_request_frame_def smp_request_def validate_version_def
        PAIRING_PROTOCOL_VERSION_def validate_request_def smp_text)
  then show ?thesis by (simp add: smp_round_def pairing_read_def socket_read_def smp_server_def)
qed

lemma smp_send_pending:
  "send_pairing smp_server smp_socket (Ok ()) (PairPending (utf ''phone'') (utf ''Pixel'')) st
     = (Ok (), st\<lparr>sv_sent := sv_sent st @ [PairPending (utf ''phone'') (utf ''Pixel'')]\<rparr>)"
  by (simp add: send_pairing_def pairing_encode_server_def smp_server_def smp_json_def smp_pending_frame_def
      PAIRING_PROTOCOL_VERSION_def socket_send_text_def validate_outgoing_size_def smp_socket_def
      MAX_PAIRING_MESSAGE_BYTES_def smp_text)

lemma smp_send_success:
  "send_pairing smp_server smp_socket (Ok ()) (PairSucceeded smp_success) st
     = (Ok (), st\<lparr>sv_sent := sv_sent st @ [PairSucceeded smp_success]\<rparr>)"
proof -
  have "validate_success smp_env smp_success = Ok ()"
    using str_len_ascii [of "replicate 32 97"]
    by (simp add: validate_success_def smp_success_def smp_token_def list_all_iff smp_text)
  moreover have "\<lparr>pen_pairing_version = 1, pen_message = PairingSucceededDto smp_success\<rparr> = smp_success_frame"
    by (simp add: smp_success_frame_def)
  moreover have "smp_success_frame \<noteq> smp_pending_frame" by (simp add: smp_success_frame_def smp_pending_frame_def)
  ultimately show ?thesis
    by (simp add: send_pairing_def pairing_encode_server_def smp_server_def smp_json_def
        PAIRING_PROTOCOL_VERSION_def socket_send_text_def validate_outgoing_size_def smp_socket_def
        MAX_PAIRING_MESSAGE_BYTES_def)
qed

lemma smp_finish: "finish_connection smp_round = Some ()"
  by (simp add: finish_connection_def socket_close_def pairing_read_def socket_read_def smp_round_def CLOSE_HANDSHAKE_TIMEOUT_def)

lemma smp_success_is: "success_message smp_env smp_session smp_identity smp_token = PairSucceeded smp_success"
  by (simp add: success_message_def smp_success_def smp_identity_def smp_session_def ca_certificate_base64_def)

lemma smp_serve:
  "serve_with_ready smp_server smp_session [smp_round] (Some [0])
     = Some (Ok \<lparr>po_client_id = utf ''phone'', po_display_name = utf ''Pixel''\<rparr>, \<lparr>sv_attempts = 0, sv_file = Some [1],
         sv_sent = [PairPending (utf ''phone'') (utf ''Pixel''), PairSucceeded smp_success]\<rparr>)"
proof -
  have fixed: "pss_config smp_session = smp_config" "pss_expires_at smp_session = 120000" "rd_now smp_round = 0"
    "pss_store smp_session = smp_store" "pss_bundle smp_session = smp_bundle" "pv_env smp_server = smp_env"
    "rd_pending_sent smp_round = Ok ()" "rd_final_sent smp_round = Ok ()" "rd_approve smp_round r = True"
    "rd_after_approval smp_round = 10" "rd_issue smp_round = smp_call" "rd_identity smp_round = smp_call"
    "rd_ready smp_round t = Ok ()" "sc_answers smp_call = smp_answers" "sc_now smp_call = 100"
    "sc_secret smp_call = replicate 32 97" "sc_certificates smp_call = smp_certificates" for r t
    by (simp_all add: smp_session_def smp_round_def smp_server_def smp_call_def SESSION_LIFETIME_def)
  have request: "pr_client_id smp_request = utf ''phone''" "pr_display_name smp_request = utf ''Pixel''"
    "pr_version smp_request = None" "request_matches smp_env smp_bundle smp_request"
    by (simp_all add: smp_request_def request_matches_def credential_matches_def smp_bundle_def)
  show ?thesis
    by (simp add: serve_with_ready_def serve_turn_def serve_socket_def decide_request_def issue_token_def deliver_token_def
        fixed request smp_accepts smp_reads smp_send_pending smp_issue smp_load_identity smp_success_is smp_send_success
        smp_finish)
qed

end
