(* ===== verification/Pairing_Properties.thy ===== *)
theory Pairing_Properties
  imports Pairing_Samples
begin

text \<open>
  The properties of the pairing crate and of its composition with the transport: the credential store as a
  map of grants, authorization, the pairing URI, and the pairing session.
\<close>

section \<open>The credential store\<close>

text \<open>(C25) The credential store refines a finite map from clients to token digests. After any sequence of
  initializations, identity loads, thread updates, issues, revocations and rotations, on any answers of the file
  system, the grants read from the file are an outcome of the abstract map: a successful issue sets one client to
  the digest of the new token, a successful revocation removes one client, a successful rotation removes all, the
  others change nothing, and an operation that reports an error leaves the map alone, except when the file was already
  replaced and only the directory could not be synchronized: then its change may be there although the error was
  reported. In a history without such an answer there is one outcome only, the one of the successful operations.\<close>

theorem store_history_refines:
  assumes "pairing_laws pe"
  shows "store_grants pe (run_history pe st history file) \<in> history_outcomes pe st history file (store_grants pe file)
    \<and> (list_all (\<lambda>(sa, _). \<not> replaced_unsynced sa) history \<longrightarrow>
         store_grants pe (run_history pe st history file) = history_grants pe st history file (store_grants pe file))"
  using run_history_outcomes [OF assms, of st history "file"] history_outcomes_synced [of history pe st "file" "store_grants pe file"]
  by auto

theorem store_history_refines_witness:
  "pairing_laws smp_env \<and> \<not> replaced_unsynced smp_answers
   \<and> run_history smp_env smp_store [(smp_answers, IssueDevice 100 (replicate 32 97) (utf ''phone'') (utf ''Pixel'') None)] (Some [0])
       = Some [1]
   \<and> store_grants smp_env (Some [1]) = [utf ''phone'' \<mapsto> smp_sha256 (as_bytes smp_token)]"
proof -
  let ?history = "[(smp_answers, IssueDevice 100 (replicate 32 97) (utf ''phone'') (utf ''Pixel'') None)]"
  have run: "run_operation smp_env smp_store smp_answers (IssueDevice 100 (replicate 32 97) (utf ''phone'') (utf ''Pixel'') None)
      (Some [0]) = (True, Some [1])"
    unfolding run_operation.simps smp_issue by (simp add: succeeded_def)
  have "device_token smp_env (replicate 32 97) = smp_token" by (simp add: device_token_def smp_token_def)
  with store_history_refines [OF smp_pairing_laws, of smp_store ?history "Some [0]"] run smp_io_ok(3) smp_grants(1)
  have "store_grants smp_env (Some [1]) = [utf ''phone'' \<mapsto> smp_sha256 (as_bytes smp_token)]" by simp
  with run smp_pairing_laws smp_io_ok(3) show ?thesis by simp
qed

text \<open>The authorizer decides by the grants: on a file system that answers, a client is authorized with a
  token if and only if the digest of the token is the one the store grants to that client. On any other answers it
  fails closed: whatever is authorized is granted.\<close>

lemma authorize_iff_granted:
  shows "authorize pe st sa client_id token file \<Longrightarrow>
      store_grants pe file client_id = Some (pe_sha256 pe (as_bytes token))"
    and "store_io_ok sa \<Longrightarrow> store_grants pe file client_id = Some (pe_sha256 pe (as_bytes token)) \<Longrightarrow>
      authorize pe st sa client_id token file"
  by (erule authorize_granted) (erule (1) authorize_stored)

section \<open>Authorized connections\<close>

text \<open>(C26) The TLS transport with the store as its authorizer. A connection is accepted only with a client
  identity and a bearer token that the store grants at that moment. Once the client has been revoked, the recheck of
  the live connection fails, whatever the file system answers to it.\<close>

theorem connection_follows_grants:
  assumes laws: "pairing_laws pe"
    and listener: "tlc_authorizer config = Some (\<lambda>client_id token. authorize pe st sa client_id token file)"
    and accepted: "tls_try_accept aa config = Ok (Some socket)"
  shows "\<exists>client_id token. tws_credentials socket = Some (client_id, token)
      \<and> store_grants pe file client_id = Some (pe_sha256 pe (as_bytes token))
      \<and> (\<forall>sr sc file1 file2. revoke_device pe st sr client_id file1 = (Ok (), file2) \<longrightarrow>
           \<not> remains_authorized (socket\<lparr>tws_authorizer := Some (\<lambda>id tok. authorize pe st sc id tok file2)\<rparr>))"
proof -
  obtain client_id token where cred: "tws_credentials socket = Some (client_id, token)"
    and granted: "store_grants pe file client_id = Some (pe_sha256 pe (as_bytes token))"
    using file_authorizer.accepted_granted [of config pe st "(file, sa)" aa socket] listener accepted by auto
  have "\<not> remains_authorized (socket\<lparr>tws_authorizer := Some (\<lambda>id tok. authorize pe st sc id tok file2)\<rparr>)"
    if "revoke_device pe st sr client_id file1 = (Ok (), file2)" for sr sc file1 file2
  proof -
    have "store_grants pe file2 client_id = None"
      using revoke_device_grants [OF laws that] by (simp add: grants_step_def)
    then show ?thesis
      using file_authorizer.revoked_closed [of "socket\<lparr>tws_authorizer := Some (\<lambda>id tok. authorize pe st sc id tok file2)\<rparr>"
          pe st "(file2, sc)" client_id] cred by (simp add: authenticated_client_id_def)
  qed
  with cred granted show ?thesis by blast
qed

definition smp_upgrade :: accept_answers where
  "smp_upgrade = smp_accept (utf ''/native'') [''sec-websocket-protocol'' \<mapsto> utf ''native'',
     ''x-agentpulse-client-id'' \<mapsto> utf ''phone'', ''authorization'' \<mapsto> utf ''Bearer '' @ smp_token]"

definition smp_data_config :: tls_config where
  "smp_data_config = with_bearer_authorizer (\<lambda>c t. authorize smp_env smp_store smp_answers c t (Some [1]))
     (smp_config\<lparr>tlc_path := utf ''/native'', tlc_subprotocol := utf ''native''\<rparr>)"

lemma smp_upgraded: "\<exists>socket. tls_try_accept smp_upgrade smp_data_config = Ok (Some socket)"
proof -
  have "authorize smp_env smp_store smp_answers (utf ''phone'') smp_token (Some [1])"
    by (rule authorize_stored [OF smp_io_ok(1)]) (simp add: smp_grants)
  moreover have "bearer_token \<lparr>up_path = utf ''/native'', up_query = None,
      up_header = [''sec-websocket-protocol'' \<mapsto> utf ''native'', ''x-agentpulse-client-id'' \<mapsto> utf ''phone'',
        ''authorization'' \<mapsto> utf ''Bearer '' @ smp_token]\<rparr> = Some smp_token"
  proof -
    have "list_all (\<lambda>c. c < 128) (utf ''Bearer '' @ smp_token)" by (simp add: utf_def smp_token_def list_all_iff)
    then have "str_len (utf ''Bearer '' @ smp_token) \<le> 512" by (simp add: str_len_ascii utf_def smp_token_def)
    moreover have "trim_text (utf ''Bearer '' @ smp_token) \<noteq> []"
      by (simp add: trim_text_empty_iff utf_def is_whitespace_def)
    ultimately show ?thesis by (simp add: bearer_token_def header_value_def smp_token_def)
  qed
  ultimately show ?thesis
    by (simp add: tls_try_accept_def tls_handshake_def upgrade_callback_def validate_upgrade_def configure_stream_def
        smp_upgrade_def smp_accept_def smp_data_config_def with_bearer_authorizer_def header_value_def CLIENT_ID_HEADER_def
        trim_text_def is_whitespace_def utf_def str_len_ascii)
qed

theorem connection_follows_grants_witness:
  "\<exists>socket client_id token. tls_try_accept smp_upgrade smp_data_config = Ok (Some socket)
     \<and> tws_credentials socket = Some (client_id, token)
     \<and> store_grants smp_env (Some [1]) client_id = Some (pe_sha256 smp_env (as_bytes token))"
proof -
  obtain socket where accepted: "tls_try_accept smp_upgrade smp_data_config = Ok (Some socket)" using smp_upgraded by blast
  have "tlc_authorizer smp_data_config = Some (\<lambda>c t. authorize smp_env smp_store smp_answers c t (Some [1]))"
    by (simp add: smp_data_config_def with_bearer_authorizer_def)
  from connection_follows_grants [OF smp_pairing_laws this accepted] accepted show ?thesis by blast
qed

section \<open>The pairing URI\<close>

lemma pairing_uri_round_trip_facts:
  shows "pairing_json_laws pe pj \<Longrightarrow> to_uri pe pj b = Ok uri \<Longrightarrow> decode_pairing_uri pe pj now uri =
      (if pb_expires_at_unix_seconds b \<le> now
       then Err (PairingInvalidField ''expires_at_unix_seconds'' (utf ''pairing session expired'')) else Ok b)"
    and "decode_pairing_uri pe pj now uri = Ok b \<Longrightarrow>
      validate_bundle pe b = Ok () \<and> now < pb_expires_at_unix_seconds b
      \<and> (\<exists>encoded. uri = version_prefix (pb_pairing_version b) @ encoded)"
  using uri_round_trip uri_decode_sound [of pe pj now uri b] strip_prefix_Some by blast+

text \<open>(C34) A pairing URI carries its bundle: decoding the URI of a bundle gives the bundle back until it expires,
  and an expiry error from then on; and whatever the decoder accepts is a valid bundle that has not expired, under
  the prefix of its own version.\<close>

theorem pairing_uri_round_trip:
  "(pairing_json_laws pe pj \<and> to_uri pe pj b = Ok uri \<longrightarrow> decode_pairing_uri pe pj now uri =
      (if pb_expires_at_unix_seconds b \<le> now
       then Err (PairingInvalidField ''expires_at_unix_seconds'' (utf ''pairing session expired'')) else Ok b))
   \<and> (\<forall>b'. decode_pairing_uri pe pj now uri = Ok b' \<longrightarrow>
      validate_bundle pe b' = Ok () \<and> now < pb_expires_at_unix_seconds b'
      \<and> (\<exists>encoded. uri = version_prefix (pb_pairing_version b') @ encoded))"
  using pairing_uri_round_trip_facts(1) [of pe pj b uri now] pairing_uri_round_trip_facts(2) [of pe pj now uri] by blast

lemma smp_endpoint: "validate_relay_endpoint (utf ''relay.example.com:2333'') = Ok ()"
proof -
  have split: "rsplit_once 58 (utf ''relay.example.com:2333'') = Some (utf ''relay.example.com'', utf ''2333'')"
    by (simp add: rsplit_once_def utf_def)
  have ip: "parse_ip_addr (utf ''relay.example.com'') = None"
    by (simp add: utf_def parse_ip_addr_letter digit_of_def is_ascii_digit_def)
  have port: "parse_u16 (utf ''2333'') = Some 2333"
    by (simp add: parse_u16_def utf_def is_ascii_digit_def decimal_value_def digit_value_def)
  show ?thesis
    unfolding validate_relay_endpoint_def split
    by (simp add: ip port) (simp add: utf_def trim_text_def is_whitespace_def to_ascii_lowercase_def is_ascii_def
        str_len_ascii relay_label_def starts_with_def ends_with_def is_ascii_lowercase_def is_ascii_digit_def)
qed

lemma smp_uri: "to_uri smp_env smp_json smp_bundle = Ok (version_prefix 1 @ [3])"
proof -
  have "validate_relay_endpoint (utf ''relay.example.com:2333'') = Ok ()" by (rule smp_endpoint)
  then have "validate_bundle smp_env smp_bundle = Ok ()"
    using str_len_ascii [of "replicate 64 97"]
    by (simp add: validate_bundle_def validate_route_def smp_bundle_def smp_text list_all_iff is_ascii_digit_def)
  then show ?thesis by (simp add: to_uri_def smp_json_def smp_bundle_def)
qed

theorem pairing_uri_round_trip_witness:
  "pairing_json_laws smp_env smp_json \<and> to_uri smp_env smp_json smp_bundle = Ok (version_prefix 1 @ [3])
   \<and> decode_pairing_uri smp_env smp_json 100 (version_prefix 1 @ [3]) = Ok smp_bundle
   \<and> validate_bundle smp_env smp_bundle = Ok ()"
proof -
  have "decode_pairing_uri smp_env smp_json 100 (version_prefix 1 @ [3]) = Ok smp_bundle"
    using pairing_uri_round_trip [of smp_env smp_json smp_bundle "version_prefix 1 @ [3]" 100] smp_json_laws smp_uri
    by (simp add: smp_bundle_def)
  with pairing_uri_round_trip [of smp_env smp_json smp_bundle "version_prefix 1 @ [3]" 100] smp_json_laws smp_uri show ?thesis by blast
qed

section \<open>The pairing session\<close>

text \<open>(C22) A pairing session grants only what was asked for and approved. If serving a session changes what the store
  grants to a client, then in some turn before the expiry a request of that client was read on an accepted
  connection, its pairing identity and bootstrap token matched the bundle, the user approved it, and the session had
  not expired when the approval came back. At most five attempts failed.\<close>

theorem pairing_grants_only_approved:
  assumes "pairing_laws (pv_env pv)" and "serve_with_ready pv s rounds file = Some (r, st)"
    and "store_grants (pv_env pv) (sv_file st) client_id \<noteq> store_grants (pv_env pv) file client_id"
  shows "\<exists>ro \<in> set rounds. \<exists>request socket. pr_client_id request = client_id \<and> rd_now ro < pss_expires_at s
      \<and> tls_try_accept (rd_accept ro) (pss_config s) = Ok (Some socket)
      \<and> read_request pv (pss_expires_at s) (rd_reads ro) = Some (Ok request)
      \<and> credential_matches (pv_env pv) (pr_pairing_id request) (pb_pairing_id (pss_bundle s))
      \<and> credential_matches (pv_env pv) (pr_bootstrap_token request) (pb_bootstrap_token (pss_bundle s))
      \<and> rd_approve ro request \<and> rd_after_approval ro < pss_expires_at s \<and> sv_attempts st \<le> MAX_ATTEMPTS"
proof -
  note serve_end [OF assms(1,2)]
  moreover have "\<not> (sv_file st = file \<and> \<not> discloses st \<and> (\<exists>e. r = Err e))" using assms(3) by auto
  ultimately obtain ro request attempts where ro: "ro \<in> set rounds" "rd_now ro < pss_expires_at s"
    and iss: "issues pv s ro request file attempts (Return r st)" and low: "sv_attempts st \<le> MAX_ATTEMPTS" by blast
  have "\<forall>c. c \<noteq> pr_client_id request \<longrightarrow> store_grants (pv_env pv) (sv_file st) c = store_grants (pv_env pv) file c"
    using issues_summary [OF assms(1) iss] by (simp add: issue_summary_def)
  then have "pr_client_id request = client_id" using assms(3) by metis
  moreover obtain socket where "tls_try_accept (rd_accept ro) (pss_config s) = Ok (Some socket)"
    "admitted_request pv s ro request" using iss unfolding issues_def by blast
  ultimately show ?thesis using ro low unfolding admitted_request_def request_matches_def by blast
qed

theorem pairing_grants_only_approved_witness:
  "pairing_laws smp_env
   \<and> store_grants smp_env (Some [1]) (utf ''phone'') \<noteq> store_grants smp_env (Some [0]) (utf ''phone'')
   \<and> (\<exists>request. pr_client_id request = utf ''phone'' \<and> rd_approve smp_round request
        \<and> read_request smp_server SESSION_LIFETIME (rd_reads smp_round) = Some (Ok request))"
proof -
  have pv: "pv_env smp_server = smp_env" by (simp add: smp_server_def)
  have "store_grants smp_env (Some [1]) (utf ''phone'') \<noteq> store_grants smp_env (Some [0]) (utf ''phone'')"
    using smp_grants by simp
  with pairing_grants_only_approved [OF _ smp_serve, of "utf ''phone''"] smp_pairing_laws show ?thesis
    by (auto simp: pv smp_session_def)
qed

text \<open>(C23) A successful session has completed the sending of exactly one token, as its last message, and that token works:
  on any file system that answers, the authorizer of the store accepts it for the paired client. A session that ends
  with an error has completed the sending of no token; a send that failed may have put part of a message on the wire.\<close>

theorem pairing_token_works:
  assumes "pairing_laws (pv_env pv)" and "serve_with_ready pv s rounds file = Some (r, st)"
  shows "case r of
      Err _ \<Rightarrow> \<not> list_ex is_success (sv_sent st)
    | Ok outcome \<Rightarrow> \<exists>earlier ps. sv_sent st = earlier @ [PairSucceeded ps] \<and> \<not> list_ex is_success earlier
        \<and> (\<forall>sa. store_io_ok sa \<longrightarrow>
             authorize (pv_env pv) (pss_store s) sa (po_client_id outcome) (ps_access_token ps) (sv_file st))"
proof (cases "\<not> discloses st \<and> (\<exists>e. r = Err e)")
  case True
  then show ?thesis by auto
next
  case False
  then obtain ro request attempts where "issues pv s ro request file attempts (Return r st)"
    using serve_end(2) [OF assms] by blast
  then have "issue_summary (pv_env pv) file attempts request (Return r st)" by (rule issues_summary [OF assms(1)])
  then obtain token where d: "delivery request token (Return r st)"
    and g: "is_Ok r \<longrightarrow> store_grants (pv_env pv) (sv_file st) (pr_client_id request) = Some (pe_sha256 (pv_env pv) (as_bytes token))"
    by (auto simp: issue_summary_def)
  show ?thesis
  proof (cases r)
    case (Inl e)
    with d show ?thesis by (simp add: delivery_Return)
  next
    case (Inr outcome)
    with d obtain earlier ps where "sv_sent st = earlier @ [PairSucceeded ps]" "\<not> list_ex is_success earlier"
      "ps_access_token ps = token" "po_client_id outcome = pr_client_id request" by (auto simp: delivery_Return)
    with g Inr authorize_stored show ?thesis by auto
  qed
qed

theorem pairing_token_works_witness:
  "pairing_laws (pv_env smp_server) \<and> ps_access_token smp_success = smp_token
     \<and> authorize smp_env smp_store smp_answers (utf ''phone'') smp_token (Some [1])"
proof -
  have pv: "pv_env smp_server = smp_env" by (simp add: smp_server_def)
  show ?thesis
    using pairing_token_works [OF _ smp_serve] smp_pairing_laws smp_io_ok(1)
    by (auto simp: pv smp_session_def smp_success_def)
qed

text \<open>(C24) Readiness before disclosure, on any answers of the file system: when the readiness callback of every turn fails,
  serving ends with an error and completes the sending of no token. It leaves no grant that was not there before at the same digest,
  with one exception: the grant of the one token that was issued and not disclosed can stay, for the client that asked,
  and only if the issue failed after the file was replaced, or if the revocation failed, whose error the server
  discards. If the revocation can write the store and no issue is left unsynchronized, nothing stays.\<close>

theorem unready_pairing_withdraws:
  assumes laws: "pairing_laws (pv_env pv)"
    and unready: "\<forall>ro \<in> set rounds. \<forall>token. \<exists>e. rd_ready ro token = Err e"
    and run: "serve_with_ready pv s rounds file = Some (r, st)"
  shows "\<not> list_ex is_success (sv_sent st) \<and> (\<exists>e. r = Err e)
    \<and> (store_grants (pv_env pv) (sv_file st) \<subseteq>\<^sub>m store_grants (pv_env pv) file
       \<or> (\<exists>ro \<in> set rounds. \<exists>request. admitted_request pv s ro request
            \<and> store_grants (pv_env pv) (sv_file st) = (store_grants (pv_env pv) file)(pr_client_id request \<mapsto> issued_digest pv ro)
            \<and> (replaced_unsynced (sc_answers (rd_issue ro))
               \<or> (\<exists>token file1 e. issue_for pv s ro request file = (Ok token, file1)
                    \<and> revoke_for pv s ro request file1 = (Err e, sv_file st)))))
    \<and> (records_writable (pv_env pv) \<and> (\<forall>ro \<in> set rounds. store_io_ok (rd_revoke ro) \<and> write_io_ok (sa_write (rd_revoke ro))
          \<and> \<not> replaced_unsynced (sc_answers (rd_issue ro)))
       \<longrightarrow> store_grants (pv_env pv) (sv_file st) \<subseteq>\<^sub>m store_grants (pv_env pv) file)"
proof (cases "sv_file st = file \<and> \<not> discloses st \<and> (\<exists>e. r = Err e)")
  case True
  then show ?thesis by simp
next
  case False
  then obtain ro request attempts where ro: "ro \<in> set rounds" and iss: "issues pv s ro request file attempts (Return r st)"
    using serve_end(2) [OF laws run] by blast
  obtain socket st0 where st0: "sv_file st0 = file" "\<not> discloses st0" and adm: "admitted_request pv s ro request"
    and step: "issue_token pv s socket ro request st0 = Some (Return r st)"
    using iss by (auto simp: issues_def)
  have fails: "\<And>token. \<exists>e. rd_ready ro token = Err e" using unready ro by blast
  show ?thesis
    using issue_token_unready [OF laws fails st0(2) step] issue_token_unready_grants [OF laws fails step]
      issue_token_withdrawn [OF laws _ _ _ fails step] ro adm
    unfolding st0(1) end_state.simps end_result.simps by blast
qed

definition smp_unready :: pairing_round where
  "smp_unready = smp_round\<lparr>rd_ready := \<lambda>_. Err PairingExpired\<rparr>"

lemma smp_revoke: "revoke_device smp_env smp_store smp_answers (utf ''phone'') (Some [1]) = (Ok (), Some [0])"
proof -
  have "drop_device (utf ''phone'') smp_paired = Ok smp_record"
    by (simp add: drop_device_def Let_def smp_paired_def smp_device_def) (simp add: smp_record_def)
  then have "update_store smp_env smp_store smp_answers (drop_device (utf ''phone'')) (Some [1]) = (Ok smp_record, Some [0])"
    by (simp add: update_store_def smp_load smp_valid save_unlocked_def smp_atomic)
  then show ?thesis by (simp add: revoke_device_def)
qed

lemma smp_unready_turn:
  assumes ro: "ro = smp_unready\<lparr>rd_revoke := io\<rparr>"
    and revoke: "revoke_device smp_env smp_store io (utf ''phone'') (Some [1]) = (r, left)"
  shows "\<exists>e st. serve_with_ready smp_server smp_session [ro] (Some [0]) = Some (Err e, st) \<and> sv_file st = left"
proof -
  have same: "tls_try_accept (rd_accept ro) smp_config = Ok (Some smp_socket)" "rd_reads ro = rd_reads smp_round"
    "pss_config smp_session = smp_config" "pss_expires_at smp_session = 120000" "rd_now ro = 0"
    "pss_store smp_session = smp_store" "pss_bundle smp_session = smp_bundle" "pv_env smp_server = smp_env"
    "rd_pending_sent ro = Ok ()" "rd_approve ro q = True" "rd_after_approval ro = 10"
    "rd_issue ro = smp_call" "rd_ready ro t = Err PairingExpired" "rd_revoke ro = io"
    "sc_answers smp_call = smp_answers" "sc_now smp_call = 100" "sc_secret smp_call = replicate 32 97" for q t
    using smp_accepts by (simp_all add: ro smp_session_def smp_unready_def smp_round_def smp_server_def smp_call_def SESSION_LIFETIME_def)
  have request: "pr_client_id smp_request = utf ''phone''" "pr_display_name smp_request = utf ''Pixel''"
    "pr_version smp_request = None" "request_matches smp_env smp_bundle smp_request"
    by (simp_all add: smp_request_def request_matches_def credential_matches_def smp_bundle_def)
  let ?st = "\<lparr>sv_attempts = 0, sv_file = left, sv_sent = [PairPending (utf ''phone'') (utf ''Pixel'')]\<rparr>"
  obtain e where "refuse_pairing smp_server smp_socket ro PairInternal ''Host connection could not become ready; please pair again''
      PairingExpired ?st = Some (Return (Err e) ?st)"
    by (auto simp: refuse_pairing_def send_pairing_def pairing_encode_server_def smp_server_def smp_json_def smp_pending_frame_def
        smp_success_frame_def smp_text)
  then show ?thesis
    by (simp add: serve_with_ready_def serve_turn_def serve_socket_def decide_request_def issue_token_def withdraw_token_def
        same request smp_reads smp_send_pending smp_issue revoke)
qed

lemma smp_unready_run:
  "\<exists>e st. serve_with_ready smp_server smp_session [smp_unready] (Some [0]) = Some (Err e, st) \<and> sv_file st = Some [0]"
  by (rule smp_unready_turn [OF _ smp_revoke]) (simp add: smp_unready_def smp_round_def)

text \<open>The same turn, with a store that can no longer be locked when the credential is to be revoked.\<close>

definition smp_stuck :: pairing_round where
  "smp_stuck = smp_unready\<lparr>rd_revoke := smp_answers\<lparr>sa_lock := Err (utf ''locked'')\<rparr>\<rparr>"

lemma smp_stuck_run:
  "\<exists>e st. serve_with_ready smp_server smp_session [smp_stuck] (Some [0]) = Some (Err e, st) \<and> sv_file st = Some [1]"
proof -
  obtain e where "update_store smp_env smp_store (smp_answers\<lparr>sa_lock := Err (utf ''locked'')\<rparr>) (drop_device (utf ''phone'')) (Some [1])
      = (Err e, Some [1])"
    by (auto simp: update_store_def load_record_def lock_store_def ensure_parent_def open_lock_def smp_answers_def)
  then have "revoke_device smp_env smp_store (smp_answers\<lparr>sa_lock := Err (utf ''locked'')\<rparr>) (utf ''phone'') (Some [1])
      = (Err e, Some [1])"
    by (simp add: revoke_device_def)
  from smp_unready_turn [OF smp_stuck_def this] show ?thesis .
qed

theorem unready_pairing_withdraws_witness:
  "rd_ready smp_unready smp_token = Err PairingExpired
   \<and> (\<exists>r st. serve_with_ready smp_server smp_session [smp_unready] (Some [0]) = Some (r, st) \<and> sv_file st = Some [0]
        \<and> \<not> list_ex is_success (sv_sent st) \<and> store_grants smp_env (sv_file st) \<subseteq>\<^sub>m store_grants smp_env (Some [0]))
   \<and> (\<exists>r st. serve_with_ready smp_server smp_session [smp_stuck] (Some [0]) = Some (r, st)
        \<and> \<not> list_ex is_success (sv_sent st) \<and> store_grants smp_env (Some [0]) (utf ''phone'') = None
        \<and> store_grants smp_env (sv_file st) (utf ''phone'') = Some (smp_sha256 (as_bytes smp_token)))"
proof -
  have pv: "pv_env smp_server = smp_env" by (simp add: smp_server_def)
  have unready: "\<forall>ro \<in> set [smp_unready]. \<forall>token. \<exists>e. rd_ready ro token = Err e"
    "\<forall>ro \<in> set [smp_stuck]. \<forall>token. \<exists>e. rd_ready ro token = Err e"
    "rd_ready smp_unready smp_token = Err PairingExpired" by (simp_all add: smp_unready_def smp_stuck_def)
  have io: "\<forall>ro \<in> set [smp_unready]. store_io_ok (rd_revoke ro) \<and> write_io_ok (sa_write (rd_revoke ro))
      \<and> \<not> replaced_unsynced (sc_answers (rd_issue ro))"
    using smp_io_ok by (simp add: smp_unready_def smp_round_def smp_call_def)
  obtain e st where run: "serve_with_ready smp_server smp_session [smp_unready] (Some [0]) = Some (Err e, st)" "sv_file st = Some [0]"
    using smp_unready_run by blast
  obtain e' st' where stuck: "serve_with_ready smp_server smp_session [smp_stuck] (Some [0]) = Some (Err e', st')" "sv_file st' = Some [1]"
    using smp_stuck_run by blast
  have "\<not> list_ex is_success (sv_sent st) \<and> store_grants smp_env (sv_file st) \<subseteq>\<^sub>m store_grants smp_env (Some [0])"
    using unready_pairing_withdraws [OF _ unready(1) run(1)] io smp_pairing_laws smp_writable unfolding pv by blast
  moreover have "\<not> list_ex is_success (sv_sent st')"
    using unready_pairing_withdraws [OF _ unready(2) stuck(1)] smp_pairing_laws unfolding pv by blast
  ultimately show ?thesis using unready(3) run stuck smp_grants by auto
qed

text \<open>(C30) A session ends. If the clock of some turn has reached the expiry, and in every turn the clock also reaches
  the ends of the two inner waits (for the request and for the close handshake), then serving returns, with a result,
  whatever the peers, the user and the file system do.\<close>

theorem pairing_session_ends:
  assumes "list_all (timely_round s) rounds" and "list_ex (\<lambda>ro. rd_now ro \<ge> pss_expires_at s) rounds"
  shows "\<exists>r st. serve_with_ready pv s rounds file = Some (r, st)"
  using serve_loop_returns [OF assms, of pv] by (auto simp: serve_with_ready_def)

definition smp_late :: pairing_round where
  "smp_late = smp_round\<lparr>rd_now := 120000\<rparr>"

theorem pairing_session_ends_witness:
  "timely_round smp_session smp_late \<and> rd_now smp_late \<ge> pss_expires_at smp_session
   \<and> (\<exists>r st. serve_with_ready smp_server smp_session [smp_late] None = Some (r, st))"
proof -
  have "timely_round smp_session smp_late" "rd_now smp_late \<ge> pss_expires_at smp_session"
    by (simp_all add: timely_round_def smp_session_def smp_late_def smp_round_def SESSION_LIFETIME_def CLOSE_HANDSHAKE_TIMEOUT_def)
  with pairing_session_ends [of smp_session "[smp_late]" smp_server None] show ?thesis by simp
qed

end
