(* ===== verification/Relay_Protocol.thy ===== *)
theory Relay_Protocol
  imports Net_Text Wire_Roundtrip Ordered_Map "HOL-Library.List_Lexorder"
begin

text \<open>
  The control protocol of the relay (\<open>agentpulse-relay\<close>: \<open>error.rs\<close>, \<open>endpoint.rs\<close>,
  \<open>framing.rs\<close>, \<open>crypto.rs\<close>, \<open>protocol.rs\<close>). A byte stream is the list of the bytes still to be
  read. Both message types interpret the \<open>codec\<close> contract of the wire protocol. Base64, HMAC, SHA-256,
  UUIDs and the JSON text are foreign.
\<close>

unbundle bit_operations_syntax

section \<open>Errors and foreign code\<close>

datatype relay_error =
    RelayInvalidField string ustring
  | RelayJson ustring
  | RelayBase64 ustring
  | RelayIo string ustring
  | RelayTls ustring
  | RelayAuthentication
  | RelayProtocolError ustring
  | RelayTimeout string
  | RelayHostUnavailable
  | RelayHostBusy
  | RelayRoutesChanged
  | RelayStopped

definition relay_invalid :: "string \<Rightarrow> string \<Rightarrow> ('a, relay_error) result" where
  "relay_invalid field reason = Err (RelayInvalidField field (utf reason))"

definition RELAY_PROTOCOL_VERSION :: u16 where "RELAY_PROTOCOL_VERSION = 1"
definition MAX_CONTROL_BYTES :: usize where "MAX_CONTROL_BYTES = 16 * 1024"
definition MAX_ROUTES :: usize where "MAX_ROUTES = 16"

record route_registration =
  rr_route_id :: ustring
  rr_authentication_key :: ustring

datatype endpoint_message =
    HostHello ustring "route_registration list" ustring
  | RelayClientHello ustring ustring
  | EndpointPong ustring

datatype relay_error_code =
    RcAuthenticationFailed | RcInvalidHandshake | RcInvalidRequest | RcHostUnavailable | RcHostBusy | RcResourceLimit | RcInternal

datatype relay_message =
    RelayChallenge ustring ustring int
  | RelayHostWaiting ustring
  | RelayTunnelReady ustring
  | RelayPing ustring
  | RelayErrorMessage relay_error_code ustring bool

record 'm relay_envelope =
  rv_relay_version :: u64
  rv_message :: 'm

record relay_env =
  re_uuid_parse :: "ustring \<Rightarrow> (uuid, ustring) result"
  re_uuid_version :: "uuid \<Rightarrow> nat"
  re_uuid_bytes :: "uuid \<Rightarrow> u8 list"
  re_sha256 :: "u8 list \<Rightarrow> u8 list"
  re_hmac :: "u8 list \<Rightarrow> u8 list \<Rightarrow> u8 list option"
  re_url_encode :: "u8 list \<Rightarrow> ustring"
  re_url_decode :: "ustring \<Rightarrow> (u8 list, ustring) result"
  re_endpoint_to_vec :: "endpoint_message relay_envelope \<Rightarrow> (u8 list, ustring) result"
  re_endpoint_from_slice :: "u8 list \<Rightarrow> (endpoint_message relay_envelope, ustring) result"
  re_relay_to_vec :: "relay_message relay_envelope \<Rightarrow> (u8 list, ustring) result"
  re_relay_from_slice :: "u8 list \<Rightarrow> (relay_message relay_envelope, ustring) result"

definition relay_laws :: "relay_env \<Rightarrow> bool" where
  "relay_laws re \<longleftrightarrow>
     (\<forall>bytes. re_url_decode re (re_url_encode re bytes) = Ok bytes)
     \<and> (\<forall>key bytes digest. re_hmac re key bytes = Some digest \<longrightarrow> length digest = 32)
     \<and> (\<forall>e bytes. re_endpoint_to_vec re e = Ok bytes \<longrightarrow> bytes \<noteq> [] \<and> re_endpoint_from_slice re bytes = Ok e)
     \<and> (\<forall>e bytes. re_relay_to_vec re e = Ok bytes \<longrightarrow> bytes \<noteq> [] \<and> re_relay_from_slice re bytes = Ok e)"

section \<open>Endpoints\<close>

record relay_endpoint =
  rep_host :: ustring
  rep_port :: u16

definition dns_label :: "ustring \<Rightarrow> bool" where
  "dns_label label \<longleftrightarrow> label \<noteq> [] \<and> str_len label \<le> 63 \<and> \<not> starts_with 45 label \<and> \<not> ends_with 45 label
     \<and> list_all (\<lambda>c. is_ascii_lowercase c \<or> is_ascii_digit c \<or> c = 45) label"

definition validate_host :: "ustring \<Rightarrow> (unit, relay_error) result" where
  "validate_host host =
     (if host = [] \<or> str_len host > 253 \<or> ends_with 46 host \<or> parse_ip_addr host \<noteq> None \<or> \<not> is_ascii host
      then relay_invalid ''host'' ''must be a canonical ASCII DNS name''
      else if \<not> list_all dns_label (split_on 46 host) then relay_invalid ''host'' ''contains an invalid DNS label''
      else if 46 \<notin> set host then relay_invalid ''host'' ''must contain at least two DNS labels'' else Ok ())"

definition relay_endpoint_new :: "ustring \<Rightarrow> u16 \<Rightarrow> (relay_endpoint, relay_error) result" where
  "relay_endpoint_new host port =
     (let host = to_ascii_lowercase host in
      and_then (validate_host host) (\<lambda>_.
      if port = 0 then relay_invalid ''port'' ''must be non-zero'' else Ok \<lparr>rep_host = host, rep_port = port\<rparr>))"

definition authority :: "relay_endpoint \<Rightarrow> ustring" where
  "authority endpoint = rep_host endpoint @ 58 # decimal (unat (rep_port endpoint))"

definition endpoint_from_str :: "ustring \<Rightarrow> (relay_endpoint, relay_error) result" where
  "endpoint_from_str value =
     (let value = trim_text value in
      if contains_text (utf ''//'') value \<or> list_ex (\<lambda>c. c \<in> set (utf ''/?#@'')) value
      then relay_invalid ''endpoint'' ''must be a DNS name and port without a scheme or path''
      else case rsplit_once 58 value of
        None \<Rightarrow> relay_invalid ''endpoint'' ''must use host:port''
      | Some (host, port) \<Rightarrow>
          (case parse_u16 port of
             None \<Rightarrow> relay_invalid ''endpoint'' ''port is invalid''
           | Some p \<Rightarrow> relay_endpoint_new host p))"

section \<open>Framing\<close>

definition to_be_bytes :: "nat \<Rightarrow> nat \<Rightarrow> u8 list" where
  "to_be_bytes width n = map (\<lambda>i. of_nat (n div 256 ^ (width - 1 - i) mod 256)) [0..<width]"

definition from_be_bytes :: "u8 list \<Rightarrow> nat" where
  "from_be_bytes bytes = foldl (\<lambda>acc b. acc * 256 + unat b) 0 bytes"

text \<open>The answers to the two \<open>write_all\<close> and the \<open>flush\<close> of a frame; the result is what was written.\<close>

record frame_answers =
  fa_length :: "(unit, ustring) result"
  fa_payload :: "(unit, ustring) result"
  fa_flush :: "(unit, ustring) result"

definition write_frame :: "frame_answers \<Rightarrow> u8 list \<Rightarrow> (u8 list, relay_error) result" where
  "write_frame fa payload =
     (if payload = [] \<or> length payload > MAX_CONTROL_BYTES
      then relay_invalid ''control_frame'' ''payload must be between 1 byte and 16 KiB''
      else if length payload \<ge> 2 ^ 32 then relay_invalid ''control_frame'' ''payload length overflow''
      else
      and_then (map_err (RelayIo ''write control-frame length'') (fa_length fa)) (\<lambda>_.
      and_then (map_err (RelayIo ''write control-frame payload'') (fa_payload fa)) (\<lambda>_.
      and_then (map_err (RelayIo ''flush control frame'') (fa_flush fa)) (\<lambda>_.
      Ok (to_be_bytes 4 (length payload) @ payload)))))"

text \<open>\<open>read_exact\<close> takes the first bytes of the stream; \<open>e\<close> is the error when it ends before.\<close>

definition read_exact :: "ustring \<Rightarrow> nat \<Rightarrow> u8 list \<Rightarrow> (u8 list \<times> u8 list, ustring) result" where
  "read_exact e n stream = (if length stream < n then Err e else Ok (take n stream, drop n stream))"

definition read_frame :: "ustring \<Rightarrow> u8 list \<Rightarrow> (u8 list \<times> u8 list, relay_error) result" where
  "read_frame e stream =
     and_then (map_err (RelayIo ''read control-frame length'') (read_exact e 4 stream)) (\<lambda>(header, stream).
     let n = from_be_bytes header in
     if n = 0 \<or> n > MAX_CONTROL_BYTES
     then relay_invalid ''control_frame'' ''payload must be between 1 byte and 16 KiB''
     else map_err (RelayIo ''read control-frame payload'') (read_exact e n stream))"

section \<open>Derivation and proofs\<close>

definition ROUTE_DOMAIN :: "u8 list" where "ROUTE_DOMAIN = as_bytes (utf ''agentpulse.relay.v1.route'') @ [0]"
definition CLIENT_AUTH_DOMAIN :: "u8 list" where "CLIENT_AUTH_DOMAIN = as_bytes (utf ''agentpulse.relay.v1.client-auth'') @ [0]"
definition PROOF_DOMAIN :: "u8 list" where "PROOF_DOMAIN = as_bytes (utf ''agentpulse.relay.v1.proof'') @ [0]"
definition HOST_PROOF_ROLE :: u8 where "HOST_PROOF_ROLE = 1"
definition CLIENT_PROOF_ROLE :: u8 where "CLIENT_PROOF_ROLE = 2"

definition relay_decode_32 :: "relay_env \<Rightarrow> string \<Rightarrow> ustring \<Rightarrow> (u8 list, relay_error) result" where
  "relay_decode_32 re field value =
     and_then (map_err RelayBase64 (re_url_decode re value)) (\<lambda>bytes.
     if length bytes = 32 then Ok bytes else relay_invalid field ''must contain exactly 32 bytes'')"

definition keyed :: "relay_env \<Rightarrow> u8 list \<Rightarrow> u8 list \<Rightarrow> u8 list \<Rightarrow> (u8 list, relay_error) result" where
  "keyed re key prefix value =
     ok_or (RelayInvalidField ''authentication_key'' (utf ''HMAC key is invalid'')) (re_hmac re key (prefix @ value))"

definition relay_uuid :: "relay_env \<Rightarrow> string \<Rightarrow> ustring \<Rightarrow> (uuid, relay_error) result" where
  "relay_uuid re field value =
     and_then (map_err (RelayInvalidField field) (re_uuid_parse re value)) (\<lambda>uuid.
     if re_uuid_version re uuid \<noteq> 7 then relay_invalid field ''must be UUIDv7'' else Ok uuid)"

definition uuid_bytes :: "relay_env \<Rightarrow> string \<Rightarrow> ustring \<Rightarrow> (u8 list, relay_error) result" where
  "uuid_bytes re field value = and_then (relay_uuid re field value) (\<lambda>uuid. Ok (re_uuid_bytes re uuid))"

record relay_route_credential =
  rrc_route_id :: ustring
  rrc_authentication_key :: "u8 list"

definition device_root_from_token :: "relay_env \<Rightarrow> ustring \<Rightarrow> u8 list" where
  "device_root_from_token re token = re_sha256 re (as_bytes token)"

definition host_authentication_key :: "relay_env \<Rightarrow> ustring \<Rightarrow> u8 list" where
  "host_authentication_key re token = re_sha256 re (as_bytes token)"

definition derive_route ::
  "relay_env \<Rightarrow> u8 list \<Rightarrow> relay_endpoint \<Rightarrow> (relay_route_credential, relay_error) result" where
  "derive_route re device_root endpoint =
     and_then (keyed re device_root ROUTE_DOMAIN (as_bytes (authority endpoint))) (\<lambda>route.
     and_then (keyed re device_root CLIENT_AUTH_DOMAIN (as_bytes (authority endpoint))) (\<lambda>key.
     Ok \<lparr>rrc_route_id = re_url_encode re route, rrc_authentication_key = key\<rparr>))"

definition route_registration_of :: "relay_env \<Rightarrow> relay_route_credential \<Rightarrow> route_registration" where
  "route_registration_of re credential =
     \<lparr>rr_route_id = rrc_route_id credential,
      rr_authentication_key = re_url_encode re (rrc_authentication_key credential)\<rparr>"

text \<open>An \<open>i64\<close> in two's complement.\<close>

definition i64_be_bytes :: "int \<Rightarrow> u8 list" where
  "i64_be_bytes n = to_be_bytes 8 (nat (n mod 2 ^ 64))"

definition proof_prefix ::
  "relay_env \<Rightarrow> u8 \<Rightarrow> ustring \<Rightarrow> u8 list \<Rightarrow> int \<Rightarrow> (u8 list, relay_error) result" where
  "proof_prefix re role connection_id nonce expires_at =
     and_then (uuid_bytes re ''connection_id'' connection_id) (\<lambda>connection.
     Ok (PROOF_DOMAIN @ role # connection @ nonce @ i64_be_bytes expires_at))"

fun route_transcript :: "relay_env \<Rightarrow> route_registration list \<Rightarrow> (u8 list, relay_error) result" where
  "route_transcript re [] = Ok []"
| "route_transcript re (route # routes) =
     and_then (relay_decode_32 re ''route_id'' (rr_route_id route)) (\<lambda>id.
     and_then (relay_decode_32 re ''authentication_key'' (rr_authentication_key route)) (\<lambda>key.
     and_then (route_transcript re routes) (\<lambda>rest. Ok (id @ key @ rest))))"

definition host_proof ::
  "relay_env \<Rightarrow> u8 list \<Rightarrow> ustring \<Rightarrow> u8 list \<Rightarrow> int \<Rightarrow> ustring \<Rightarrow> route_registration list
     \<Rightarrow> (ustring, relay_error) result" where
  "host_proof re key connection_id nonce expires_at host_id routes =
     and_then (proof_prefix re HOST_PROOF_ROLE connection_id nonce expires_at) (\<lambda>prefix.
     and_then (uuid_bytes re ''host_id'' host_id) (\<lambda>host.
     if length routes \<ge> 2 ^ 16 then relay_invalid ''routes'' ''too many routes''
     else
     and_then (route_transcript re routes) (\<lambda>transcript.
     and_then (keyed re key [] (prefix @ host @ to_be_bytes 2 (length routes) @ transcript)) (\<lambda>digest.
     Ok (re_url_encode re digest)))))"

definition client_proof ::
  "relay_env \<Rightarrow> u8 list \<Rightarrow> ustring \<Rightarrow> u8 list \<Rightarrow> int \<Rightarrow> ustring \<Rightarrow> (ustring, relay_error) result" where
  "client_proof re key connection_id nonce expires_at route_id =
     and_then (proof_prefix re CLIENT_PROOF_ROLE connection_id nonce expires_at) (\<lambda>prefix.
     and_then (relay_decode_32 re ''route_id'' route_id) (\<lambda>route.
     and_then (keyed re key [] (prefix @ route)) (\<lambda>digest.
     Ok (re_url_encode re digest))))"

definition verify_proof :: "relay_env \<Rightarrow> ustring \<Rightarrow> ustring \<Rightarrow> bool" where
  "verify_proof re expected supplied =
     (case (relay_decode_32 re ''proof'' expected, relay_decode_32 re ''proof'' supplied) of
        (Ok a, Ok b) \<Rightarrow> a = b
      | _ \<Rightarrow> False)"

section \<open>Messages\<close>

definition relay_uuid_v7 :: "relay_env \<Rightarrow> string \<Rightarrow> ustring \<Rightarrow> (unit, relay_error) result" where
  "relay_uuid_v7 re field value = and_then (relay_uuid re field value) (\<lambda>_. Ok ())"

definition relay_decodes :: "relay_env \<Rightarrow> string \<Rightarrow> ustring \<Rightarrow> (unit, relay_error) result" where
  "relay_decodes re field value = and_then (relay_decode_32 re field value) (\<lambda>_. Ok ())"

fun validate_routes :: "relay_env \<Rightarrow> ustring option \<Rightarrow> route_registration list \<Rightarrow> (unit, relay_error) result" where
  "validate_routes re previous [] = Ok ()"
| "validate_routes re previous (route # routes) =
     and_then (relay_decodes re ''route_id'' (rr_route_id route)) (\<lambda>_.
     and_then (relay_decodes re ''authentication_key'' (rr_authentication_key route)) (\<lambda>_.
     if (case previous of Some v \<Rightarrow> v \<ge> rr_route_id route | None \<Rightarrow> False)
     then relay_invalid ''routes'' ''must be strictly ordered and unique by route_id''
     else validate_routes re (Some (rr_route_id route)) routes))"

fun validate_endpoint :: "relay_env \<Rightarrow> endpoint_message \<Rightarrow> (unit, relay_error) result" where
  "validate_endpoint re (HostHello host_id routes proof) =
     and_then (relay_uuid_v7 re ''host_id'' host_id) (\<lambda>_.
     if routes = [] \<or> length routes > MAX_ROUTES
     then relay_invalid ''routes'' ''must contain between 1 and 16 routes''
     else
     and_then (validate_routes re None routes) (\<lambda>_. relay_decodes re ''proof'' proof))"
| "validate_endpoint re (RelayClientHello route_id proof) =
     and_then (relay_decodes re ''route_id'' route_id) (\<lambda>_. relay_decodes re ''proof'' proof)"
| "validate_endpoint re (EndpointPong ping_id) = relay_uuid_v7 re ''ping_id'' ping_id"

fun validate_relay :: "relay_env \<Rightarrow> relay_message \<Rightarrow> (unit, relay_error) result" where
  "validate_relay re (RelayChallenge connection_id nonce expires_at) =
     and_then (relay_uuid_v7 re ''connection_id'' connection_id) (\<lambda>_.
     and_then (relay_decodes re ''nonce'' nonce) (\<lambda>_.
     if expires_at \<le> 0 then relay_invalid ''expires_at_unix_seconds'' ''must be positive'' else Ok ()))"
| "validate_relay re (RelayHostWaiting connection_id) = relay_uuid_v7 re ''connection_id'' connection_id"
| "validate_relay re (RelayTunnelReady peer) = relay_uuid_v7 re ''peer_connection_id'' peer"
| "validate_relay re (RelayPing ping_id) = relay_uuid_v7 re ''ping_id'' ping_id"
| "validate_relay re (RelayErrorMessage code message recoverable) =
     (if trim_text message = [] \<or> str_len message > 256
      then relay_invalid ''message'' ''must be nonblank and at most 256 bytes'' else Ok ())"

definition encode_control ::
  "('m relay_envelope \<Rightarrow> (u8 list, ustring) result) \<Rightarrow> 'm \<Rightarrow> (u8 list, relay_error) result" where
  "encode_control to_vec message =
     and_then (map_err RelayJson (to_vec \<lparr>rv_relay_version = ucast RELAY_PROTOCOL_VERSION, rv_message = message\<rparr>)) (\<lambda>bytes.
     if length bytes > MAX_CONTROL_BYTES then relay_invalid ''control_frame'' ''encoded message exceeds 16 KiB'' else Ok bytes)"

definition decode_control ::
  "(u8 list \<Rightarrow> ('m relay_envelope, ustring) result) \<Rightarrow> u8 list \<Rightarrow> ('m, relay_error) result" where
  "decode_control from_slice input =
     (if input = [] \<or> length input > MAX_CONTROL_BYTES
      then relay_invalid ''control_frame'' ''message must be between 1 byte and 16 KiB''
      else
      and_then (map_err RelayJson (from_slice input)) (\<lambda>envelope.
      if rv_relay_version envelope \<noteq> ucast RELAY_PROTOCOL_VERSION
      then relay_invalid ''relay_version'' ''unsupported Relay version'' else Ok (rv_message envelope)))"

definition encode_endpoint :: "relay_env \<Rightarrow> endpoint_message \<Rightarrow> (u8 list, relay_error) result" where
  "encode_endpoint re message = and_then (validate_endpoint re message) (\<lambda>_. encode_control (re_endpoint_to_vec re) message)"

definition decode_endpoint :: "relay_env \<Rightarrow> u8 list \<Rightarrow> (endpoint_message, relay_error) result" where
  "decode_endpoint re input =
     and_then (decode_control (re_endpoint_from_slice re) input) (\<lambda>message.
     and_then (validate_endpoint re message) (\<lambda>_. Ok message))"

definition encode_relay :: "relay_env \<Rightarrow> relay_message \<Rightarrow> (u8 list, relay_error) result" where
  "encode_relay re message = and_then (validate_relay re message) (\<lambda>_. encode_control (re_relay_to_vec re) message)"

definition decode_relay :: "relay_env \<Rightarrow> u8 list \<Rightarrow> (relay_message, relay_error) result" where
  "decode_relay re input =
     and_then (decode_control (re_relay_from_slice re) input) (\<lambda>message.
     and_then (validate_relay re message) (\<lambda>_. Ok message))"

text \<open>\<open>challenge\<close>; the nonce, the connection identity and the time are those of the call.\<close>

definition relay_challenge :: "relay_env \<Rightarrow> u8 list \<Rightarrow> ustring \<Rightarrow> int \<Rightarrow> relay_message \<times> u8 list \<times> ustring \<times> int" where
  "relay_challenge re nonce connection_id now =
     (RelayChallenge connection_id (re_url_encode re nonce) (now + 10), nonce, connection_id, now + 10)"

section \<open>Round trips\<close>

lemma from_be_bytes_append: "from_be_bytes (xs @ [b]) = from_be_bytes xs * 256 + unat b"
  by (simp add: from_be_bytes_def)

lemma to_be_bytes_Suc: "to_be_bytes (Suc w) n = to_be_bytes w (n div 256) @ [of_nat (n mod 256)]"
proof -
  have "n div 256 ^ (w - i) = n div 256 div 256 ^ (w - 1 - i)" if "i < w" for i
  proof -
    have "w - i = Suc (w - 1 - i)" using that by simp
    then show ?thesis by (simp only: power_Suc div_mult2_eq)
  qed
  then show ?thesis by (simp add: to_be_bytes_def)
qed

lemma be_bytes_inverse: "n < 256 ^ w \<Longrightarrow> from_be_bytes (to_be_bytes w n) = n"
proof (induction w arbitrary: n)
  case (Suc w)
  then have "n div 256 < 256 ^ w" by (simp add: div_less_iff_less_mult mult.commute)
  with Suc.IH have "from_be_bytes (to_be_bytes w (n div 256)) = n div 256" by blast
  then show ?case by (simp add: to_be_bytes_Suc from_be_bytes_append unat_of_nat)
qed (simp add: to_be_bytes_def from_be_bytes_def)

lemma length_to_be_bytes [simp]: "length (to_be_bytes w n) = w"
  by (simp add: to_be_bytes_def)

lemma frame_round_trip:
  assumes "write_frame fa payload = Ok bytes"
  shows "read_frame e (bytes @ rest) = Ok (payload, rest)"
proof -
  have bytes: "bytes = to_be_bytes 4 (length payload) @ payload" "payload \<noteq> []" "length payload \<le> MAX_CONTROL_BYTES"
    using assms by (auto simp: write_frame_def relay_invalid_def result_simps split: if_splits)
  then have "from_be_bytes (to_be_bytes 4 (length payload)) = length payload"
    by (intro be_bytes_inverse) (simp add: MAX_CONTROL_BYTES_def)
  with bytes show ?thesis by (simp add: read_frame_def read_exact_def)
qed

lemma frame_cut:
  assumes "write_frame fa payload = Ok bytes" and "j < length bytes"
  shows "\<exists>operation. read_frame e (take j bytes) = Err (RelayIo operation e)"
proof -
  have bytes: "bytes = to_be_bytes 4 (length payload) @ payload" "payload \<noteq> []" "length payload \<le> MAX_CONTROL_BYTES"
    using assms(1) by (auto simp: write_frame_def relay_invalid_def result_simps split: if_splits)
  then have "from_be_bytes (to_be_bytes 4 (length payload)) = length payload"
    by (intro be_bytes_inverse) (simp add: MAX_CONTROL_BYTES_def)
  with bytes assms(2) show ?thesis by (cases "j < 4") (auto simp: read_frame_def read_exact_def min_def Let_def)
qed

lemma read_frame_bounded: "read_frame e stream = Ok (payload, rest) \<Longrightarrow> payload \<noteq> [] \<and> length payload \<le> MAX_CONTROL_BYTES"
  by (auto simp: read_frame_def read_exact_def Let_def relay_invalid_def result_simps split: if_splits)

lemma control_round_trip:
  assumes "\<And>e bytes. to_vec e = Ok bytes \<Longrightarrow> bytes \<noteq> [] \<and> from_slice bytes = Ok e"
    and "encode_control to_vec message = Ok bytes"
  shows "decode_control from_slice bytes = Ok message"
  using assms(2) assms(1)
  by (fastforce simp: encode_control_def decode_control_def relay_invalid_def result_simps split: if_splits)

interpretation endpoint_codec: codec "relay_laws re" "encode_endpoint re" "decode_endpoint re"
  "\<lambda>m. validate_endpoint re m = Ok ()" for re
proof unfold_locales
  fix m bytes
  assume "relay_laws re" "validate_endpoint re m = Ok ()" "encode_endpoint re m = Ok bytes"
  moreover from this have "decode_control (re_endpoint_from_slice re) bytes = Ok m"
    by (intro control_round_trip [where to_vec = "re_endpoint_to_vec re"]) (auto simp: relay_laws_def encode_endpoint_def)
  ultimately show "decode_endpoint re bytes = Ok m" by (simp add: decode_endpoint_def)
next
  fix m bytes
  assume "decode_endpoint re bytes = Ok m"
  then show "validate_endpoint re m = Ok ()" by (auto simp: decode_endpoint_def result_simps)
qed

interpretation relay_codec: codec "relay_laws re" "encode_relay re" "decode_relay re"
  "\<lambda>m. validate_relay re m = Ok ()" for re
proof unfold_locales
  fix m bytes
  assume "relay_laws re" "validate_relay re m = Ok ()" "encode_relay re m = Ok bytes"
  moreover from this have "decode_control (re_relay_from_slice re) bytes = Ok m"
    by (intro control_round_trip [where to_vec = "re_relay_to_vec re"]) (auto simp: relay_laws_def encode_relay_def)
  ultimately show "decode_relay re bytes = Ok m" by (simp add: decode_relay_def)
next
  fix m bytes
  assume "decode_relay re bytes = Ok m"
  then show "validate_relay re m = Ok ()" by (auto simp: decode_relay_def result_simps)
qed

text \<open>A proof computed with the same key and transcript verifies.\<close>

lemma relay_decode_encode: "relay_laws re \<Longrightarrow> length digest = 32 \<Longrightarrow> relay_decode_32 re field (re_url_encode re digest) = Ok digest"
  by (simp add: relay_decode_32_def relay_laws_def)

lemma verify_same:
  assumes "relay_laws re" and "re_hmac re key t = Some digest"
  shows "verify_proof re (re_url_encode re digest) (re_url_encode re digest)"
  using relay_decode_encode [OF assms(1), of digest] assms by (auto simp: verify_proof_def relay_laws_def)

lemma client_proof_verifies:
  assumes "relay_laws re" and "client_proof re key connection_id nonce expires_at route_id = Ok proof"
  shows "verify_proof re proof proof"
  using assms verify_same by (auto simp: client_proof_def keyed_def result_simps)

lemma host_proof_verifies:
  assumes "relay_laws re" and "host_proof re key connection_id nonce expires_at host_id routes = Ok proof"
  shows "verify_proof re proof proof"
  using assms verify_same
  by (auto simp: host_proof_def keyed_def relay_invalid_def result_simps split: if_splits)

end
