(* ===== verification/Relay_Server.thy ===== *)
theory Relay_Server
  imports Relay_Protocol
begin

text \<open>
  The relay server (\<open>agentpulse-relay/src/server.rs\<close>): the registry of waiting hosts behind its mutex, the
  authentication of a host and of a client, and the role that the first message of a connection asks for.
  Each definition is what one handler does between two points where another handler can act; the handlers
  are composed in \<open>Relay_Handlers\<close>, their interleavings are the steps of \<open>Relay_Registry\<close>.
\<close>

definition MAX_WAITING_HOSTS :: usize where "MAX_WAITING_HOSTS = MAX_ROUTES + 1"
definition MAX_OUTER_CONNECTIONS :: usize where "MAX_OUTER_CONNECTIONS = 4 * MAX_WAITING_HOSTS"

record relay_server_config =
  rsc_host_id :: ustring
  rsc_host_authentication_key :: ustring

definition relay_decode_key :: "relay_env \<Rightarrow> ustring \<Rightarrow> (u8 list, relay_error) result" where
  "relay_decode_key re value =
     and_then (map_err RelayBase64 (re_url_decode re value)) (\<lambda>bytes.
     if length bytes = 32 then Ok bytes else relay_invalid ''host_authentication_key'' ''must contain 32 bytes'')"

section \<open>The registry\<close>

type_synonym route_keys = "(ustring, u8 list) btree_map"

record waiting_host =
  wh_connection_id :: ustring
  wh_routes :: route_keys

type_synonym registry = "(ustring, waiting_host) btree_map"

definition routes_overlap :: "registry \<Rightarrow> route_keys \<Rightarrow> bool" where
  "routes_overlap waiting candidate =
     list_ex (\<lambda>route_id. list_ex (\<lambda>host. bt_contains_key (wh_routes host) route_id) (bt_values waiting)) (bt_keys candidate)"

definition remove_waiting_host :: "ustring \<Rightarrow> registry \<Rightarrow> registry" where
  "remove_waiting_host connection_id waiting = bt_remove connection_id waiting"

text \<open>How a handler fails: the error message it sends to its peer first (code, text, whether the peer may try again),
  if any, and the error it returns.\<close>

type_synonym refusal = "(relay_error_code \<times> string \<times> bool) option \<times> relay_error"

lemma contains_iff [simp]: "bt_contains_key m k \<longleftrightarrow> bt_get m k \<noteq> None"
  by (simp add: bt_contains_key_def)

fun insert_route_keys :: "relay_env \<Rightarrow> route_registration list \<Rightarrow> route_keys \<Rightarrow> (route_keys, relay_error) result" where
  "insert_route_keys re [] keys = Ok keys"
| "insert_route_keys re (route # routes) keys =
     and_then (relay_decode_32 re ''authentication_key'' (rr_authentication_key route)) (\<lambda>key.
     insert_route_keys re routes (bt_insert (rr_route_id route) key keys))"

text \<open>The challenge of a connection.\<close>

record relay_connection =
  rc_connection_id :: ustring
  rc_nonce :: "u8 list"
  rc_expires_at :: int

definition authenticate_host ::
  "relay_env \<Rightarrow> relay_server_config \<Rightarrow> relay_connection \<Rightarrow> ustring \<Rightarrow> route_registration list \<Rightarrow> ustring
     \<Rightarrow> (route_keys, refusal) result" where
  "authenticate_host re config c host_id routes proof =
     and_then (map_err (Pair None) (relay_decode_key re (rsc_host_authentication_key config))) (\<lambda>key.
     and_then (map_err (Pair None)
       (host_proof re key (rc_connection_id c) (rc_nonce c) (rc_expires_at c) host_id routes)) (\<lambda>expected.
     if host_id \<noteq> rsc_host_id config \<or> \<not> verify_proof re expected proof
     then Err (Some (RcAuthenticationFailed, ''authentication failed'', False), RelayAuthentication)
     else map_err (Pair None) (insert_route_keys re routes bt_empty)))"

definition register_host ::
  "ustring \<Rightarrow> route_keys \<Rightarrow> registry \<Rightarrow> (unit, refusal) result \<times> registry" where
  "register_host connection_id keys waiting =
     (if length (bt_entries waiting) \<ge> MAX_WAITING_HOSTS
      then (Err (Some (RcResourceLimit, ''Relay waiting registration capacity is full'', True), RelayHostBusy), waiting)
      else if routes_overlap waiting keys
      then (Err (Some (RcHostBusy, ''a matching Host route is already waiting'', True), RelayHostBusy), waiting)
      else (Ok (), bt_insert connection_id \<lparr>wh_connection_id = connection_id, wh_routes = keys\<rparr> waiting))"

fun find_route :: "ustring \<Rightarrow> waiting_host list \<Rightarrow> (waiting_host \<times> u8 list) option" where
  "find_route route_id [] = None"
| "find_route route_id (host # hosts) =
     (case bt_get (wh_routes host) route_id of Some key \<Rightarrow> Some (host, key) | None \<Rightarrow> find_route route_id hosts)"

text \<open>The first critical section of a client and the check of its proof; the claim is the host it names.\<close>

definition claim_route ::
  "relay_env \<Rightarrow> relay_connection \<Rightarrow> ustring \<Rightarrow> ustring \<Rightarrow> registry \<Rightarrow> (ustring \<times> u8 list, refusal) result" where
  "claim_route re c route_id proof waiting =
     (if bt_is_empty waiting
      then Err (Some (RcHostUnavailable, ''Host is unavailable'', True), RelayHostUnavailable)
      else case find_route route_id (bt_values waiting) of
        None \<Rightarrow> Err (Some (RcAuthenticationFailed, ''authentication failed'', False), RelayAuthentication)
      | Some (host, key) \<Rightarrow>
          and_then (map_err (Pair None)
            (client_proof re key (rc_connection_id c) (rc_nonce c) (rc_expires_at c) route_id)) (\<lambda>expected.
          if \<not> verify_proof re expected proof
          then Err (Some (RcAuthenticationFailed, ''authentication failed'', False), RelayAuthentication)
          else Ok (wh_connection_id host, key)))"

text \<open>The second critical section: the host is taken out of the registry, if it still waits.\<close>

definition take_host :: "ustring \<Rightarrow> registry \<Rightarrow> (unit, refusal) result \<times> registry" where
  "take_host host_connection waiting =
     (if \<not> bt_contains_key waiting host_connection
      then (Err (Some (RcHostUnavailable, ''Host is unavailable'', True), RelayHostUnavailable), waiting)
      else (Ok (), bt_remove host_connection waiting))"

section \<open>First messages\<close>

text \<open>\<open>handle_outer\<close> after the challenge: the first frame decides the role.\<close>

datatype outer_role = RoleHost ustring "route_registration list" ustring | RoleClient ustring ustring

definition outer_role_of ::
  "relay_env \<Rightarrow> ustring \<Rightarrow> u8 list \<Rightarrow> relay_connection \<Rightarrow> int \<Rightarrow> (outer_role, refusal) result" where
  "outer_role_of re e stream c now =
     and_then (map_err (Pair None) (and_then (read_frame e stream) (\<lambda>(payload, _). decode_endpoint re payload))) (\<lambda>message.
     if rc_expires_at c \<le> now
     then Err (Some (RcInvalidHandshake, ''authentication challenge expired'', True), RelayTimeout ''authenticate Relay connection'')
     else case message of
       HostHello host_id routes proof \<Rightarrow> Ok (RoleHost host_id routes proof)
     | RelayClientHello route_id proof \<Rightarrow> Ok (RoleClient route_id proof)
     | EndpointPong _ \<Rightarrow> Err (Some (RcInvalidHandshake, ''first endpoint message must authenticate a role'', False),
         RelayProtocolError (utf ''unexpected Pong before authentication'')))"

end
