(* ===== verification/Relay_Tunnel.thy ===== *)
theory Relay_Tunnel
  imports Relay_Protocol Transport
begin

text \<open>
  The duplex tunnel of the relay (\<open>agentpulse-relay/src/tunnel.rs\<close>): one turn of \<open>pump\<close> reads from both
  sides into two bounded buffers and writes both buffers. The two sockets and the clock answer with a
  \<open>pump_round\<close>. The state also records the bytes read from and written to each side.
\<close>

definition BUFFER_CAPACITY :: usize where "BUFFER_CAPACITY = 64 * 1024"
definition CHUNK_BYTES :: usize where "CHUNK_BYTES = 8 * 1024"

definition retryable :: "io_kind \<Rightarrow> bool" where
  "retryable kind \<longleftrightarrow> kind = KindWouldBlock \<or> kind = KindTimedOut \<or> kind = KindInterrupted"

record relay_tunnel_stats =
  ts_to_host_bytes :: nat
  ts_to_client_bytes :: nat
  ts_elapsed :: nat

text \<open>\<open>u64::saturating_add\<close>.\<close>

definition saturating_add_u64 :: "nat \<Rightarrow> nat \<Rightarrow> nat" where
  "saturating_add_u64 a b = min (2 ^ 64 - 1) (a + b)"

text \<open>What a \<open>Read::read\<close> and a \<open>Write::write\<close> answer. \<open>Write::write\<close> never reports more bytes than it was given; the
  model caps such a report, where \<open>Vec::drain\<close> would panic.\<close>

datatype read_answer = ReadBytes "u8 list" | ReadFailed io_kind ustring
datatype write_answer = WroteBytes nat | WriteFailed io_kind ustring

record pump_round =
  pu_stop :: bool
  pu_left_read :: read_answer
  pu_right_read :: read_answer
  pu_right_write :: write_answer
  pu_left_write :: write_answer
  pu_left_stall :: nat
  pu_right_stall :: nat
  pu_now :: nat

record pump_state =
  pm_left_to_right :: "u8 list"
  pm_right_to_left :: "u8 list"
  pm_last_activity :: nat
  pm_left_stalled_since :: "nat option"
  pm_right_stalled_since :: "nat option"
  pm_to_host_bytes :: nat
  pm_to_client_bytes :: nat
  pm_from_left :: "u8 list"
  pm_from_right :: "u8 list"
  pm_to_left :: "u8 list"
  pm_to_right :: "u8 list"

section \<open>One direction\<close>

definition available :: "u8 list \<Rightarrow> nat" where
  "available buffer = min (BUFFER_CAPACITY - length buffer) CHUNK_BYTES"

datatype read_outcome = GotNothing | GotBytes "u8 list" | EndOfStream | ReadError relay_error

definition tunnel_read :: "string \<Rightarrow> u8 list \<Rightarrow> read_answer \<Rightarrow> read_outcome" where
  "tunnel_read operation buffer answer =
     (if length buffer < BUFFER_CAPACITY
      then case answer of
        ReadBytes bytes \<Rightarrow> if bytes = [] then EndOfStream else GotBytes bytes
      | ReadFailed kind e \<Rightarrow> if retryable kind then GotNothing else ReadError (RelayIo operation e)
      else GotNothing)"

datatype write_outcome = NothingToWrite | Drained nat | Blocked | WriteError relay_error

definition tunnel_write :: "string \<Rightarrow> u8 list \<Rightarrow> write_answer \<Rightarrow> write_outcome" where
  "tunnel_write operation buffer answer =
     (if buffer = [] then NothingToWrite
      else case answer of
        WroteBytes n \<Rightarrow> if n = 0 then WriteError (RelayIo operation (utf ''zero-byte tunnel write'')) else Drained n
      | WriteFailed kind e \<Rightarrow> if retryable kind then Blocked else WriteError (RelayIo operation e))"

fun stalled_since :: "write_outcome \<Rightarrow> nat \<Rightarrow> nat option \<Rightarrow> nat option" where
  "stalled_since Blocked now since = (case since of Some t \<Rightarrow> Some t | None \<Rightarrow> Some now)"
| "stalled_since _ now since = None"

fun drained :: "write_outcome \<Rightarrow> nat" where
  "drained (Drained n) = n"
| "drained _ = 0"

section \<open>A turn\<close>

datatype pump_end = PumpGoes pump_state | PumpBreaks pump_state | PumpFails relay_error pump_state

definition read_left :: "pump_round \<Rightarrow> pump_state \<Rightarrow> pump_end \<times> bool" where
  "read_left ro st =
     (case tunnel_read ''read tunnel Host side'' (pm_left_to_right st) (pu_left_read ro) of
        GotNothing \<Rightarrow> (PumpGoes st, False)
      | GotBytes bytes \<Rightarrow> (PumpGoes (st\<lparr>pm_left_to_right := pm_left_to_right st @ bytes,
          pm_to_client_bytes := saturating_add_u64 (pm_to_client_bytes st) (length bytes),
          pm_from_left := pm_from_left st @ bytes\<rparr>), True)
      | EndOfStream \<Rightarrow> (PumpBreaks st, False)
      | ReadError e \<Rightarrow> (PumpFails e st, False))"

definition read_right :: "pump_round \<Rightarrow> pump_state \<Rightarrow> pump_end \<times> bool" where
  "read_right ro st =
     (case tunnel_read ''read tunnel Client side'' (pm_right_to_left st) (pu_right_read ro) of
        GotNothing \<Rightarrow> (PumpGoes st, False)
      | GotBytes bytes \<Rightarrow> (PumpGoes (st\<lparr>pm_right_to_left := pm_right_to_left st @ bytes,
          pm_to_host_bytes := saturating_add_u64 (pm_to_host_bytes st) (length bytes),
          pm_from_right := pm_from_right st @ bytes\<rparr>), True)
      | EndOfStream \<Rightarrow> (PumpBreaks st, False)
      | ReadError e \<Rightarrow> (PumpFails e st, False))"

definition write_right :: "pump_round \<Rightarrow> pump_state \<Rightarrow> pump_end \<times> bool" where
  "write_right ro st =
     (let outcome = tunnel_write ''write tunnel Client side'' (pm_left_to_right st) (pu_right_write ro) in
      case outcome of
        WriteError e \<Rightarrow> (PumpFails e st, False)
      | _ \<Rightarrow> (PumpGoes (st\<lparr>pm_left_to_right := drop (drained outcome) (pm_left_to_right st),
          pm_to_right := pm_to_right st @ take (drained outcome) (pm_left_to_right st),
          pm_left_stalled_since := stalled_since outcome (pu_left_stall ro) (pm_left_stalled_since st)\<rparr>), drained outcome > 0))"

definition write_left :: "pump_round \<Rightarrow> pump_state \<Rightarrow> pump_end \<times> bool" where
  "write_left ro st =
     (let outcome = tunnel_write ''write tunnel Host side'' (pm_right_to_left st) (pu_left_write ro) in
      case outcome of
        WriteError e \<Rightarrow> (PumpFails e st, False)
      | _ \<Rightarrow> (PumpGoes (st\<lparr>pm_right_to_left := drop (drained outcome) (pm_right_to_left st),
          pm_to_left := pm_to_left st @ take (drained outcome) (pm_right_to_left st),
          pm_right_stalled_since := stalled_since outcome (pu_right_stall ro) (pm_right_stalled_since st)\<rparr>), drained outcome > 0))"

fun and_pump :: "pump_end \<times> bool \<Rightarrow> (pump_state \<Rightarrow> pump_end \<times> bool) \<Rightarrow> pump_end \<times> bool" where
  "and_pump (PumpGoes st, progressed) f = (case f st of (out, more_progress) \<Rightarrow> (out, progressed \<or> more_progress))"
| "and_pump (PumpBreaks st, progressed) f = (PumpBreaks st, progressed)"
| "and_pump (PumpFails e st, progressed) f = (PumpFails e st, progressed)"

definition stalled_too_long :: "nat \<Rightarrow> nat \<Rightarrow> nat option \<Rightarrow> bool" where
  "stalled_too_long now stalled_timeout since = (case since of Some t \<Rightarrow> now - t \<ge> stalled_timeout | None \<Rightarrow> False)"

definition pump_clock :: "nat \<Rightarrow> nat \<Rightarrow> pump_round \<Rightarrow> bool \<Rightarrow> pump_state \<Rightarrow> pump_end" where
  "pump_clock idle_timeout stalled_timeout ro progressed st =
     (let st1 = (if progressed then st\<lparr>pm_last_activity := pu_now ro\<rparr> else st) in
      if pu_now ro - pm_last_activity st1 \<ge> idle_timeout then PumpFails (RelayTimeout ''waiting for tunneled traffic'') st1
      else if stalled_too_long (pu_now ro) stalled_timeout (pm_left_stalled_since st1)
        \<or> stalled_too_long (pu_now ro) stalled_timeout (pm_right_stalled_since st1)
      then PumpFails (RelayTimeout ''draining a slow tunnel peer'') st1
      else PumpGoes st1)"

definition pump_turn :: "nat \<Rightarrow> nat \<Rightarrow> pump_round \<Rightarrow> pump_state \<Rightarrow> pump_end" where
  "pump_turn idle_timeout stalled_timeout ro st =
     (case and_pump (and_pump (and_pump (read_left ro st) (read_right ro)) (write_right ro)) (write_left ro) of
        (PumpGoes st1, progressed) \<Rightarrow> pump_clock idle_timeout stalled_timeout ro progressed st1
      | (out, _) \<Rightarrow> out)"

fun pump_loop ::
  "nat \<Rightarrow> nat \<Rightarrow> pump_round list \<Rightarrow> pump_state \<Rightarrow> ((unit, relay_error) result \<times> pump_state) option" where
  "pump_loop idle_timeout stalled_timeout [] st = None"
| "pump_loop idle_timeout stalled_timeout (ro # rounds) st =
     (if pu_stop ro then Some (Ok (), st)
      else case pump_turn idle_timeout stalled_timeout ro st of
        PumpGoes st1 \<Rightarrow> pump_loop idle_timeout stalled_timeout rounds st1
      | PumpBreaks st1 \<Rightarrow> Some (Ok (), st1)
      | PumpFails e st1 \<Rightarrow> Some (Err e, st1))"

definition pump_start :: "nat \<Rightarrow> pump_state" where
  "pump_start started = \<lparr>pm_left_to_right = [], pm_right_to_left = [], pm_last_activity = started,
     pm_left_stalled_since = None, pm_right_stalled_since = None, pm_to_host_bytes = 0, pm_to_client_bytes = 0,
     pm_from_left = [], pm_from_right = [], pm_to_left = [], pm_to_right = []\<rparr>"

definition pump ::
  "nat \<Rightarrow> nat \<Rightarrow> nat \<Rightarrow> nat \<Rightarrow> pump_round list \<Rightarrow> ((relay_tunnel_stats, relay_error) result \<times> pump_state) option" where
  "pump started ended idle_timeout stalled_timeout rounds =
     map_option (\<lambda>(r, st). (and_then r (\<lambda>_. Ok \<lparr>ts_to_host_bytes = pm_to_host_bytes st,
       ts_to_client_bytes = pm_to_client_bytes st, ts_elapsed = ended - started\<rparr>), st))
       (pump_loop idle_timeout stalled_timeout rounds (pump_start started))"

section \<open>Streams are kept\<close>

text \<open>What was written, followed by what is buffered, is what was read, in each direction; the counters count what was
  read.\<close>

definition pump_inv :: "pump_state \<Rightarrow> bool" where
  "pump_inv st \<longleftrightarrow>
     pm_to_right st @ pm_left_to_right st = pm_from_left st \<and> pm_to_left st @ pm_right_to_left st = pm_from_right st
     \<and> pm_to_client_bytes st = min (2 ^ 64 - 1) (length (pm_from_left st))
     \<and> pm_to_host_bytes st = min (2 ^ 64 - 1) (length (pm_from_right st))"

definition buffers_bounded :: "pump_state \<Rightarrow> bool" where
  "buffers_bounded st \<longleftrightarrow> length (pm_left_to_right st) \<le> BUFFER_CAPACITY \<and> length (pm_right_to_left st) \<le> BUFFER_CAPACITY"

text \<open>The contract of \<open>Read::read\<close>: no more bytes than the slice it is given, which has the free space of the buffer and
  at most a chunk.\<close>

definition read_contract :: "u8 list \<Rightarrow> read_answer \<Rightarrow> bool" where
  "read_contract buffer answer = (case answer of ReadBytes bytes \<Rightarrow> length bytes \<le> available buffer | _ \<Rightarrow> True)"

fun pump_end_state :: "pump_end \<Rightarrow> pump_state" where
  "pump_end_state (PumpGoes st) = st"
| "pump_end_state (PumpBreaks st) = st"
| "pump_end_state (PumpFails _ st) = st"

text \<open>A property that each of the four transfers and the clock keep is kept by a turn.\<close>

lemma and_pump_keeps:
  assumes "P (pump_end_state (fst x))" and "\<And>st. fst x = PumpGoes st \<Longrightarrow> P st \<Longrightarrow> P (pump_end_state (fst (f st)))"
  shows "P (pump_end_state (fst (and_pump x f)))"
  using assms by (cases "(x, f)" rule: and_pump.cases) (auto split: prod.splits)

lemma pump_turn_keeps:
  assumes "P (pump_end_state (fst (read_left ro st)))"
    and "\<And>st. P st \<Longrightarrow> P (pump_end_state (fst (read_right ro st)))"
    and "\<And>st. P st \<Longrightarrow> P (pump_end_state (fst (write_right ro st)))"
    and "\<And>st. P st \<Longrightarrow> P (pump_end_state (fst (write_left ro st)))"
    and "\<And>st. P st \<Longrightarrow> P (st\<lparr>pm_last_activity := pu_now ro\<rparr>)"
  shows "P (pump_end_state (pump_turn idle stalled ro st))"
proof -
  let ?x = "and_pump (and_pump (and_pump (read_left ro st) (read_right ro)) (write_right ro)) (write_left ro)"
  have "P (pump_end_state (fst (and_pump (read_left ro st) (read_right ro))))"
    by (rule and_pump_keeps [where P = P, OF assms(1)]) (rule assms(2))
  then have "P (pump_end_state (fst (and_pump (and_pump (read_left ro st) (read_right ro)) (write_right ro))))"
    by (rule and_pump_keeps [where P = P]) (rule assms(3))
  then have "P (pump_end_state (fst ?x))" by (rule and_pump_keeps [where P = P]) (rule assms(4))
  moreover obtain out progressed where "?x = (out, progressed)" by fastforce
  ultimately show ?thesis
    using assms(5) by (cases out) (auto simp: pump_turn_def pump_clock_def Let_def)
qed

lemma transfer_inv:
  assumes "pump_inv st"
  shows "pump_inv (pump_end_state (fst (read_left ro st)))" "pump_inv (pump_end_state (fst (read_right ro st)))"
    "pump_inv (pump_end_state (fst (write_right ro st)))" "pump_inv (pump_end_state (fst (write_left ro st)))"
    "pump_inv (st\<lparr>pm_last_activity := t\<rparr>)"
proof -
  show "pump_inv (pump_end_state (fst (read_left ro st)))"
    using assms by (auto simp: read_left_def pump_inv_def saturating_add_u64_def split: read_outcome.splits)
  show "pump_inv (pump_end_state (fst (read_right ro st)))"
    using assms by (auto simp: read_right_def pump_inv_def saturating_add_u64_def split: read_outcome.splits)
  show "pump_inv (pump_end_state (fst (write_right ro st)))"
    using assms by (auto simp: write_right_def pump_inv_def Let_def split: write_outcome.splits)
  show "pump_inv (pump_end_state (fst (write_left ro st)))"
    using assms by (auto simp: write_left_def pump_inv_def Let_def split: write_outcome.splits)
  show "pump_inv (st\<lparr>pm_last_activity := t\<rparr>)" using assms by (simp add: pump_inv_def)
qed

lemma pump_turn_inv: "pump_inv st \<Longrightarrow> pump_inv (pump_end_state (pump_turn idle stalled ro st))"
  by (rule pump_turn_keeps) (auto intro: transfer_inv)

lemma pump_loop_inv:
  "pump_inv st \<Longrightarrow> pump_loop idle stalled rounds st = Some (r, st') \<Longrightarrow> pump_inv st'"
proof (induction rounds arbitrary: st)
  case (Cons ro rounds)
  have "pump_inv (pump_end_state (pump_turn idle stalled ro st))" by (rule pump_turn_inv [OF Cons.prems(1)])
  with Cons show ?case by (auto split: if_splits pump_end.splits)
qed simp

lemma pump_start_inv: "pump_inv (pump_start t)"
  by (simp add: pump_inv_def pump_start_def)

section \<open>Buffers are bounded\<close>

text \<open>The reads of a run respect the contract at the buffers they meet.\<close>

fun reads_ok :: "nat \<Rightarrow> nat \<Rightarrow> pump_round list \<Rightarrow> pump_state \<Rightarrow> bool" where
  "reads_ok idle stalled [] st = True"
| "reads_ok idle stalled (ro # rounds) st \<longleftrightarrow>
     read_contract (pm_left_to_right st) (pu_left_read ro) \<and> read_contract (pm_right_to_left st) (pu_right_read ro)
     \<and> (case pump_turn idle stalled ro st of PumpGoes st1 \<Rightarrow> reads_ok idle stalled rounds st1 | _ \<Rightarrow> True)"

lemma tunnel_read_bounded:
  assumes "tunnel_read operation buffer answer = GotBytes bytes" and "read_contract buffer answer"
  shows "length buffer + length bytes \<le> BUFFER_CAPACITY"
  using assms by (auto simp: tunnel_read_def read_contract_def available_def split: if_splits read_answer.splits)

lemma write_bounded:
  assumes "buffers_bounded st"
  shows "buffers_bounded (pump_end_state (fst (write_right ro st)))" "buffers_bounded (pump_end_state (fst (write_left ro st)))"
    "buffers_bounded (st\<lparr>pm_last_activity := t\<rparr>)"
  using assms by (auto simp: write_right_def write_left_def buffers_bounded_def Let_def split: write_outcome.splits)

lemma pump_turn_bounded:
  assumes "buffers_bounded st" "read_contract (pm_left_to_right st) (pu_left_read ro)"
    "read_contract (pm_right_to_left st) (pu_right_read ro)"
  shows "buffers_bounded (pump_end_state (pump_turn idle stalled ro st))"
proof -
  let ?P = "\<lambda>s. buffers_bounded s \<and> pm_right_to_left s = pm_right_to_left st"
  have left: "?P (pump_end_state (fst (read_left ro st)))"
    using assms(1,2) tunnel_read_bounded [of _ "pm_left_to_right st" "pu_left_read ro"]
    by (auto simp: read_left_def buffers_bounded_def split: read_outcome.splits)
  have right: "buffers_bounded (pump_end_state (fst (read_right ro s)))" if "?P s" for s
    using that assms(3) tunnel_read_bounded [of _ "pm_right_to_left s" "pu_right_read ro"]
    by (auto simp: read_right_def buffers_bounded_def split: read_outcome.splits)
  let ?x = "and_pump (and_pump (and_pump (read_left ro st) (read_right ro)) (write_right ro)) (write_left ro)"
  have "buffers_bounded (pump_end_state (fst (and_pump (read_left ro st) (read_right ro))))"
  proof (rule and_pump_keeps [where P = buffers_bounded])
    show "buffers_bounded (pump_end_state (fst (read_left ro st)))" using left by blast
    show "buffers_bounded (pump_end_state (fst (read_right ro s)))" if "fst (read_left ro st) = PumpGoes s" "buffers_bounded s" for s
      by (rule right) (use left that in simp)
  qed
  then have "buffers_bounded (pump_end_state (fst (and_pump (and_pump (read_left ro st) (read_right ro)) (write_right ro))))"
    by (rule and_pump_keeps [where P = buffers_bounded]) (rule write_bounded)
  then have "buffers_bounded (pump_end_state (fst ?x))"
    by (rule and_pump_keeps [where P = buffers_bounded]) (rule write_bounded)
  moreover obtain out progressed where "?x = (out, progressed)" by fastforce
  ultimately show ?thesis using write_bounded(3) by (cases out) (auto simp: pump_turn_def pump_clock_def Let_def)
qed

lemma pump_loop_bounded:
  "buffers_bounded st \<Longrightarrow> reads_ok idle stalled rounds st \<Longrightarrow> pump_loop idle stalled rounds st = Some (r, st')
     \<Longrightarrow> buffers_bounded st'"
proof (induction rounds arbitrary: st)
  case (Cons ro rounds)
  have "buffers_bounded (pump_end_state (pump_turn idle stalled ro st))"
    by (rule pump_turn_bounded) (use Cons.prems in auto)
  with Cons show ?case by (auto split: if_splits pump_end.splits)
qed simp

section \<open>Silence ends a tunnel\<close>

text \<open>Neither side transfers a byte in the turn.\<close>

definition silent :: "pump_round \<Rightarrow> bool" where
  "silent ro \<longleftrightarrow> (\<exists>k e. pu_left_read ro = ReadFailed k e \<and> retryable k) \<and> (\<exists>k e. pu_right_read ro = ReadFailed k e \<and> retryable k)
     \<and> (\<exists>k e. pu_right_write ro = WriteFailed k e \<and> retryable k) \<and> (\<exists>k e. pu_left_write ro = WriteFailed k e \<and> retryable k)"

lemma silent_turn:
  assumes "silent ro"
  shows "\<exists>st1. pump_turn idle stalled ro st = pump_clock idle stalled ro False st1 \<and> pm_last_activity st1 = pm_last_activity st"
  using assms
  by (auto simp: silent_def pump_turn_def read_left_def read_right_def write_right_def write_left_def tunnel_read_def tunnel_write_def)

lemma silent_times_out:
  assumes "silent ro" "pu_now ro - pm_last_activity st \<ge> idle"
  shows "\<exists>st1. pump_turn idle stalled ro st = PumpFails (RelayTimeout ''waiting for tunneled traffic'') st1"
  using silent_turn [OF assms(1), of idle stalled st] assms(2) by (auto simp: pump_clock_def)

lemma silent_loop_ends:
  assumes "list_all silent rounds" "list_ex (\<lambda>ro. pu_now ro - pm_last_activity st \<ge> idle) rounds"
    "list_all (\<lambda>ro. \<not> pu_stop ro) rounds"
  shows "\<exists>operation st'. pump_loop idle stalled rounds st = Some (Err (RelayTimeout operation), st')"
  using assms
proof (induction rounds arbitrary: st)
  case (Cons ro rounds)
  obtain st1 where turn: "pump_turn idle stalled ro st = pump_clock idle stalled ro False st1"
    and same: "pm_last_activity st1 = pm_last_activity st" using silent_turn Cons.prems(1) by fastforce
  show ?case
  proof (cases "\<exists>st2. pump_clock idle stalled ro False st1 = PumpGoes st2")
    case True
    then obtain st2 where st2: "pump_clock idle stalled ro False st1 = PumpGoes st2" by blast
    then have "st2 = st1" "\<not> pu_now ro - pm_last_activity st \<ge> idle"
      using same by (auto simp: pump_clock_def Let_def split: if_splits)
    then show ?thesis using Cons turn st2 same by auto
  next
    case False
    then show ?thesis using Cons.prems(3) turn by (auto simp: pump_clock_def Let_def split: if_splits)
  qed
qed simp

end
