(* ===== verification/Relay_Client.thy ===== *)
theory Relay_Client
  imports Relay_Server Relay_Tunnel
begin

text \<open>
  The outbound side of the relay (\<open>agentpulse-relay/src/client.rs\<close>, \<open>config.rs\<close>): the settings of a Host
  connection, its canceller, the challenge, the loop that waits for a client, the Client Hello, and the
  server configuration. The TLS connection is foreign; frames arrive as the bytes of the stream.
\<close>

section \<open>Settings\<close>

record relay_host_config =
  rhc_endpoint :: relay_endpoint
  rhc_host_id :: ustring
  rhc_host_authentication_key :: "u8 list"
  rhc_local_tunnel_address :: net_address

definition host_config_from_key ::
  "relay_env \<Rightarrow> relay_endpoint \<Rightarrow> ustring \<Rightarrow> u8 list \<Rightarrow> net_address \<Rightarrow> (relay_host_config, relay_error) result" where
  "host_config_from_key re endpoint host_id key address =
     and_then (relay_uuid re ''host_id'' host_id) (\<lambda>_.
     if net_port address = 0 then relay_invalid ''local_tunnel_address'' ''port must be non-zero''
     else Ok \<lparr>rhc_endpoint = endpoint, rhc_host_id = host_id, rhc_host_authentication_key = key,
       rhc_local_tunnel_address = address\<rparr>)"

definition host_config_new ::
  "relay_env \<Rightarrow> relay_endpoint \<Rightarrow> ustring \<Rightarrow> ustring \<Rightarrow> net_address \<Rightarrow> (relay_host_config, relay_error) result" where
  "host_config_new re endpoint host_id enrollment_token address =
     (if trim_text enrollment_token = [] \<or> trim_text enrollment_token \<noteq> enrollment_token \<or> str_len enrollment_token > 128
      then relay_invalid ''enrollment_token'' ''must be nonblank, unpadded by whitespace, and at most 128 bytes''
      else host_config_from_key re endpoint host_id (host_authentication_key re enrollment_token) address)"

definition RELAY_CONFIG_SCHEMA_VERSION :: u16 where "RELAY_CONFIG_SCHEMA_VERSION = 1"

record relay_file_config =
  rfc_schema_version :: u16
  rfc_bind_address :: net_address
  rfc_public_endpoint :: relay_endpoint
  rfc_certificate_chain :: ustring
  rfc_private_key :: ustring
  rfc_host_id :: ustring
  rfc_host_authentication_key :: ustring

definition validate_relay_config :: "relay_env \<Rightarrow> relay_file_config \<Rightarrow> (unit, relay_error) result" where
  "validate_relay_config re config =
     (if rfc_schema_version config \<noteq> RELAY_CONFIG_SCHEMA_VERSION then relay_invalid ''schema_version'' ''unsupported version''
      else if net_port (rfc_bind_address config) = 0 then relay_invalid ''bind_address'' ''port must be non-zero''
      else
      and_then (relay_uuid re ''host_id'' (rfc_host_id config)) (\<lambda>_.
      and_then (relay_decode_key re (rfc_host_authentication_key config)) (\<lambda>_.
      if rfc_certificate_chain config = [] \<or> rfc_private_key config = []
      then relay_invalid ''tls'' ''certificate and key paths are required'' else Ok ())))"

definition new_server_config ::
  "relay_env \<Rightarrow> net_address \<Rightarrow> relay_endpoint \<Rightarrow> ustring \<Rightarrow> ustring \<Rightarrow> ustring \<Rightarrow> u8 list
     \<Rightarrow> (relay_file_config, relay_error) result" where
  "new_server_config re bind_address endpoint chain key host_id authentication_key =
     (let config = \<lparr>rfc_schema_version = RELAY_CONFIG_SCHEMA_VERSION, rfc_bind_address = bind_address,
            rfc_public_endpoint = endpoint, rfc_certificate_chain = chain, rfc_private_key = key, rfc_host_id = host_id,
            rfc_host_authentication_key = re_url_encode re authentication_key\<rparr>
      in and_then (validate_relay_config re config) (\<lambda>_. Ok config))"

section \<open>Cancellation\<close>

text \<open>The canceller of a connector: the sockets it can interrupt, by number. \<open>rcn_shut\<close> are those it has shut down.\<close>

record relay_canceller =
  rcn_cancelled :: bool
  rcn_next_connection :: u64
  rcn_connections :: "(u64, nat) btree_map"
  rcn_shut :: "nat list"

definition cancel_connections :: "relay_canceller \<Rightarrow> relay_canceller" where
  "cancel_connections cn = cn\<lparr>rcn_cancelled := True, rcn_connections := bt_empty,
     rcn_shut := rcn_shut cn @ bt_values (rcn_connections cn)\<rparr>"

definition register_connection ::
  "(unit, ustring) result \<Rightarrow> nat \<Rightarrow> bool \<Rightarrow> relay_canceller \<Rightarrow> (u64, relay_error) result \<times> relay_canceller" where
  "register_connection cloned socket stop cn =
     (case cloned of
        Err e \<Rightarrow> (Err (RelayIo ''clone Relay connection for cancellation'' e), cn)
      | Ok _ \<Rightarrow>
          if rcn_cancelled cn \<or> stop then (Err RelayStopped, cn\<lparr>rcn_shut := rcn_shut cn @ [socket]\<rparr>)
          else (Ok (rcn_next_connection cn),
            cn\<lparr>rcn_next_connection := rcn_next_connection cn + 1,
               rcn_connections := bt_insert (rcn_next_connection cn) socket (rcn_connections cn)\<rparr>))"

definition unregister_connection :: "u64 \<Rightarrow> relay_canceller \<Rightarrow> relay_canceller" where
  "unregister_connection connection cn = cn\<lparr>rcn_connections := bt_remove connection (rcn_connections cn)\<rparr>"

lemma cancelled_stays_empty:
  assumes "rcn_cancelled cn" "bt_is_empty (rcn_connections cn)"
  shows "\<exists>e cn'. register_connection cloned socket stop cn = (Err e, cn') \<and> rcn_cancelled cn' \<and> bt_is_empty (rcn_connections cn')"
  using assms by (cases cloned) (auto simp: register_connection_def)

section \<open>The challenge and the Client Hello\<close>

definition read_relay :: "relay_env \<Rightarrow> ustring \<Rightarrow> u8 list \<Rightarrow> (relay_message \<times> u8 list, relay_error) result" where
  "read_relay re e stream =
     and_then (read_frame e stream) (\<lambda>(payload, rest). and_then (decode_relay re payload) (\<lambda>message. Ok (message, rest)))"

definition write_endpoint :: "relay_env \<Rightarrow> frame_answers \<Rightarrow> endpoint_message \<Rightarrow> (u8 list, relay_error) result" where
  "write_endpoint re fa message = and_then (encode_endpoint re message) (write_frame fa)"

definition write_relay :: "relay_env \<Rightarrow> frame_answers \<Rightarrow> relay_message \<Rightarrow> (u8 list, relay_error) result" where
  "write_relay re fa message = and_then (encode_relay re message) (write_frame fa)"

definition read_challenge ::
  "relay_env \<Rightarrow> ustring \<Rightarrow> int \<Rightarrow> u8 list \<Rightarrow> (relay_connection \<times> u8 list, relay_error) result" where
  "read_challenge re e now stream =
     and_then (read_relay re e stream) (\<lambda>(message, rest).
     case message of
       RelayChallenge connection_id nonce expires_at \<Rightarrow>
         if expires_at \<le> now then Err (RelayTimeout ''authenticate the Relay challenge'')
         else
         and_then (map_err RelayBase64 (re_url_decode re nonce)) (\<lambda>bytes.
         if length bytes \<noteq> 32 then relay_invalid ''nonce'' ''must contain 32 bytes''
         else Ok (\<lparr>rc_connection_id = connection_id, rc_nonce = bytes, rc_expires_at = expires_at\<rparr>, rest))
     | _ \<Rightarrow> Err (RelayProtocolError (utf ''Relay did not begin with a challenge'')))"

definition build_client_hello ::
  "relay_env \<Rightarrow> u8 list \<Rightarrow> ustring \<Rightarrow> relay_message \<Rightarrow> (endpoint_message, relay_error) result" where
  "build_client_hello re authentication_key route_id message =
     (case message of
        RelayChallenge connection_id nonce expires_at \<Rightarrow>
          and_then (relay_decode_32 re ''nonce'' nonce) (\<lambda>bytes.
          and_then (client_proof re authentication_key connection_id bytes expires_at route_id) (\<lambda>proof.
          Ok (RelayClientHello route_id proof)))
      | _ \<Rightarrow> relay_invalid ''challenge'' ''message is not a challenge'')"

fun map_remote_error :: "relay_error_code \<Rightarrow> ustring \<Rightarrow> relay_error" where
  "map_remote_error RcAuthenticationFailed message = RelayAuthentication"
| "map_remote_error RcHostUnavailable message = RelayHostUnavailable"
| "map_remote_error RcHostBusy message = RelayHostBusy"
| "map_remote_error _ message = RelayProtocolError message"

section \<open>A Host connection\<close>

text \<open>\<open>connect_host_once_with_route_check_and_waiting\<close> up to the wait: the routes are sorted and proved.\<close>

definition host_hello ::
  "relay_env \<Rightarrow> relay_host_config \<Rightarrow> relay_connection \<Rightarrow> route_registration list \<Rightarrow> (endpoint_message, relay_error) result" where
  "host_hello re config c routes =
     (let routes = sort_key rr_route_id routes in
      and_then (host_proof re (rhc_host_authentication_key config) (rc_connection_id c) (rc_nonce c) (rc_expires_at c)
        (rhc_host_id config) routes) (\<lambda>proof.
      Ok (HostHello (rhc_host_id config) routes proof)))"

text \<open>One turn of the wait: the stop flag before and after the read, the bytes read, whether the routes are current,
  and the answers to a Pong. The result counts the calls of \<open>on_waiting\<close>.\<close>

record wait_round =
  wr_stop_before :: bool
  wr_stream :: "u8 list"
  wr_error :: ustring
  wr_stop_after :: bool
  wr_routes_current :: bool
  wr_pong :: frame_answers

fun host_wait ::
  "relay_env \<Rightarrow> ustring \<Rightarrow> bool \<Rightarrow> wait_round list \<Rightarrow> nat \<Rightarrow> ((unit, relay_error) result \<times> nat) option" where
  "host_wait re connection_id on_waiting [] calls = None"
| "host_wait re connection_id on_waiting (wr # rounds) calls =
     (if wr_stop_before wr then Some (Err RelayStopped, calls)
      else case read_relay re (wr_error wr) (wr_stream wr) of
        Err e \<Rightarrow> Some (Err e, calls)
      | Ok (message, _) \<Rightarrow>
          if wr_stop_after wr then Some (Err RelayStopped, calls)
          else case message of
            RelayHostWaiting waiting_id \<Rightarrow>
              if waiting_id \<noteq> connection_id
              then Some (Err (RelayProtocolError (utf ''unexpected message while waiting for a client'')), calls)
              else if \<not> wr_routes_current wr then Some (Err RelayRoutesChanged, calls)
              else host_wait re connection_id False rounds (if on_waiting then calls + 1 else calls)
          | RelayPing ping_id \<Rightarrow>
              if \<not> wr_routes_current wr then Some (Err RelayRoutesChanged, calls)
              else (case write_endpoint re (wr_pong wr) (EndpointPong ping_id) of
                      Err e \<Rightarrow> Some (Err e, calls)
                    | Ok _ \<Rightarrow> host_wait re connection_id on_waiting rounds calls)
          | RelayTunnelReady _ \<Rightarrow> Some (Ok (), calls)
          | RelayErrorMessage code message _ \<Rightarrow> Some (Err (map_remote_error code message), calls)
          | _ \<Rightarrow> Some (Err (RelayProtocolError (utf ''unexpected message while waiting for a client'')), calls))"

lemma host_wait_calls:
  "host_wait re connection_id on_waiting rounds calls = Some (r, n) \<Longrightarrow> calls \<le> n \<and> n \<le> calls + (if on_waiting then 1 else 0)"
  by (induction re connection_id on_waiting rounds calls rule: host_wait.induct)
    (fastforce split: if_splits sum.splits prod.splits relay_message.splits)+

section \<open>The server side of the wait\<close>

text \<open>The loop of \<open>handle_host\<close>: the stop flag, what the channel delivers within the ping interval, the writes, and the
  answer to a ping. A matched client ends the loop with both \<open>TunnelReady\<close> messages written.\<close>

datatype channel_answer = ChannelClient ustring | ChannelTimeout | ChannelDisconnected

record relay_serve_round =
  sr_stop :: bool
  sr_channel :: channel_answer
  sr_host_write :: frame_answers
  sr_client_write :: frame_answers
  sr_nonblocking :: "(unit, ustring) result \<times> (unit, ustring) result"
  sr_ping_id :: ustring
  sr_pong_timeout :: "(unit, ustring) result"
  sr_pong_stream :: "u8 list"
  sr_pong_error :: ustring

definition match_client ::
  "relay_env \<Rightarrow> ustring \<Rightarrow> ustring \<Rightarrow> relay_serve_round \<Rightarrow> (ustring, relay_error) result" where
  "match_client re connection_id client sr =
     and_then (write_relay re (sr_host_write sr) (RelayTunnelReady client)) (\<lambda>_.
     and_then (write_relay re (sr_client_write sr) (RelayTunnelReady connection_id)) (\<lambda>_.
     and_then (map_err (RelayIo ''configure Host tunnel'') (fst (sr_nonblocking sr))) (\<lambda>_.
     and_then (map_err (RelayIo ''configure Client tunnel'') (snd (sr_nonblocking sr))) (\<lambda>_. Ok client))))"

definition ping_host :: "relay_env \<Rightarrow> relay_serve_round \<Rightarrow> (unit, relay_error) result" where
  "ping_host re sr =
     and_then (write_relay re (sr_host_write sr) (RelayPing (sr_ping_id sr))) (\<lambda>_.
     and_then (map_err (RelayIo ''set Host Pong timeout'') (sr_pong_timeout sr)) (\<lambda>_.
     and_then (and_then (read_frame (sr_pong_error sr) (sr_pong_stream sr)) (\<lambda>(payload, _). decode_endpoint re payload))
       (\<lambda>message.
       if message = EndpointPong (sr_ping_id sr) then Ok ()
       else Err (RelayProtocolError (utf ''Host did not answer the matching Relay Ping'')))))"

fun serve_host :: "relay_env \<Rightarrow> ustring \<Rightarrow> relay_serve_round list \<Rightarrow> (ustring, relay_error) result option" where
  "serve_host re connection_id [] = None"
| "serve_host re connection_id (sr # rounds) =
     (if sr_stop sr then Some (Err RelayStopped)
      else case sr_channel sr of
        ChannelClient client \<Rightarrow> Some (match_client re connection_id client sr)
      | ChannelDisconnected \<Rightarrow> Some (Err RelayHostUnavailable)
      | ChannelTimeout \<Rightarrow>
          (case ping_host re sr of
             Err e \<Rightarrow> Some (Err e)
           | Ok _ \<Rightarrow> serve_host re connection_id rounds))"

end
