(* ===== verification/Relay_Handlers.thy ===== *)
theory Relay_Handlers
  imports Relay_Client
begin

text \<open>
  The connection handlers of the relay (\<open>agentpulse-relay/src/server.rs\<close>: \<open>run\<close>, \<open>handle_outer\<close>,
  \<open>handle_host\<close>, \<open>handle_client\<close>) and the Host's connection (\<open>client.rs\<close>) from the first byte to the tunnel, composed of the critical sections of
  \<open>Relay_Server\<close> and the exchanges of \<open>Relay_Client\<close>. The registry a handler finds when it takes the mutex
  is an argument, for the other handlers may have changed it.
\<close>

section \<open>Refusals\<close>

definition send_error ::
  "relay_env \<Rightarrow> frame_answers \<Rightarrow> relay_error_code \<Rightarrow> ustring \<Rightarrow> bool \<Rightarrow> (u8 list, relay_error) result" where
  "send_error re fa code message recoverable = write_relay re fa (RelayErrorMessage code message recoverable)"

text \<open>The error a handler returns: that of the message it could not send, else its own.\<close>

definition refuse_peer :: "relay_env \<Rightarrow> frame_answers \<Rightarrow> refusal \<Rightarrow> relay_error" where
  "refuse_peer re fa refused =
     (case refused of
        (None, e) \<Rightarrow> e
      | (Some (code, message, recoverable), e) \<Rightarrow>
          (case send_error re fa code (utf message) recoverable of Err e' \<Rightarrow> e' | Ok _ \<Rightarrow> e))"

section \<open>Hosts\<close>

definition TUNNEL_IDLE_TIMEOUT :: nat where "TUNNEL_IDLE_TIMEOUT = 60 * 1000"
definition TUNNEL_STALLED_TIMEOUT :: nat where "TUNNEL_STALLED_TIMEOUT = 10 * 1000"

record host_script =
  hs_refusal :: frame_answers
  hs_waiting :: frame_answers
  hs_rounds :: "relay_serve_round list"
  hs_started :: nat
  hs_ended :: nat
  hs_tunnel :: "pump_round list"

text \<open>\<open>handle_host\<close>: the registry after the registration, and the result once the tunnel has ended. The guard that takes
  the registration out again runs when the handler returns.\<close>

definition handle_host ::
  "relay_env \<Rightarrow> relay_server_config \<Rightarrow> relay_connection \<Rightarrow> ustring \<Rightarrow> route_registration list \<Rightarrow> ustring \<Rightarrow> host_script
     \<Rightarrow> registry \<Rightarrow> (unit, relay_error) result option \<times> registry" where
  "handle_host re config c host_id routes proof hs waiting =
     (case authenticate_host re config c host_id routes proof of
        Err refused \<Rightarrow> (Some (Err (refuse_peer re (hs_refusal hs) refused)), waiting)
      | Ok keys \<Rightarrow>
          (case register_host (rc_connection_id c) keys waiting of
             (Err refused, waiting') \<Rightarrow> (Some (Err (refuse_peer re (hs_refusal hs) refused)), waiting')
           | (Ok _, waiting') \<Rightarrow>
               (case write_relay re (hs_waiting hs) (RelayHostWaiting (rc_connection_id c)) of
                  Err e \<Rightarrow> (Some (Err e), waiting')
                | Ok _ \<Rightarrow>
                    (case serve_host re (rc_connection_id c) (hs_rounds hs) of
                       None \<Rightarrow> (None, waiting')
                     | Some (Err e) \<Rightarrow> (Some (Err e), waiting')
                     | Some (Ok _) \<Rightarrow>
                         (map_option (\<lambda>(r, _). and_then r (\<lambda>_. Ok ()))
                            (pump (hs_started hs) (hs_ended hs) TUNNEL_IDLE_TIMEOUT TUNNEL_STALLED_TIMEOUT (hs_tunnel hs)),
                          waiting')))))"

section \<open>Clients\<close>

text \<open>\<open>handle_client\<close> takes the mutex twice; \<open>sent\<close> tells whether the channel of the host is still open.\<close>

definition handle_client ::
  "relay_env \<Rightarrow> relay_connection \<Rightarrow> ustring \<Rightarrow> ustring \<Rightarrow> frame_answers \<Rightarrow> bool \<Rightarrow> registry \<Rightarrow> registry
     \<Rightarrow> (ustring, relay_error) result \<times> registry" where
  "handle_client re c route_id proof fa sent first second =
     (case claim_route re c route_id proof first of
        Err refused \<Rightarrow> (Err (refuse_peer re fa refused), second)
      | Ok (host, _) \<Rightarrow>
          (case take_host host second of
             (Err refused, waiting) \<Rightarrow> (Err (refuse_peer re fa refused), waiting)
           | (Ok _, waiting) \<Rightarrow> (if sent then Ok host else Err RelayHostUnavailable, waiting)))"

section \<open>Connections\<close>

record outer_script =
  os_read_timeout :: "(unit, ustring) result"
  os_write_timeout :: "(unit, ustring) result"
  os_tls :: "(unit, ustring) result"
  os_nonce :: "u8 list"
  os_connection_id :: ustring
  os_issued :: int
  os_challenge :: frame_answers
  os_auth_timeout :: "(unit, ustring) result"
  os_stream :: "u8 list"
  os_error :: ustring
  os_now :: int
  os_refusal :: frame_answers
  os_host :: host_script
  os_sent :: bool

text \<open>The first half of \<open>handle_outer\<close>: timeouts, TLS and the challenge, up to the read of the first message.\<close>

definition challenge_connection :: "relay_env \<Rightarrow> outer_script \<Rightarrow> (relay_connection, relay_error) result" where
  "challenge_connection re os =
     and_then (map_err (RelayIo ''set Relay TLS read timeout'') (os_read_timeout os)) (\<lambda>_.
     and_then (map_err (RelayIo ''set Relay TLS write timeout'') (os_write_timeout os)) (\<lambda>_.
     and_then (map_err RelayTls (os_tls os)) (\<lambda>_.
     case relay_challenge re (os_nonce os) (os_connection_id os) (os_issued os) of
       (message, nonce, connection_id, expires_at) \<Rightarrow>
         and_then (write_relay re (os_challenge os) message) (\<lambda>_.
         and_then (map_err (RelayIo ''set Relay authentication timeout'') (os_auth_timeout os)) (\<lambda>_.
         Ok \<lparr>rc_connection_id = connection_id, rc_nonce = nonce, rc_expires_at = expires_at\<rparr>)))))"

text \<open>\<open>handle_outer\<close>: the challenge, the first message, and the handler of its role.\<close>

definition handle_outer ::
  "relay_env \<Rightarrow> relay_server_config \<Rightarrow> outer_script \<Rightarrow> registry \<Rightarrow> registry \<Rightarrow> (unit, relay_error) result option \<times> registry" where
  "handle_outer re config os first second =
     (case challenge_connection re os of
        Err e \<Rightarrow> (Some (Err e), second)
      | Ok c \<Rightarrow>
          (case outer_role_of re (os_error os) (os_stream os) c (os_now os) of
             Err refused \<Rightarrow> (Some (Err (refuse_peer re (os_refusal os) refused)), second)
           | Ok (RoleHost host_id routes proof) \<Rightarrow> handle_host re config c host_id routes proof (os_host os) second
           | Ok (RoleClient route_id proof) \<Rightarrow>
               (case handle_client re c route_id proof (os_refusal os) (os_sent os) first second of
                  (r, waiting) \<Rightarrow> (Some (and_then r (\<lambda>_. Ok ())), waiting))))"

section \<open>The accept loop\<close>

text \<open>One turn of \<open>run\<close>: the stop flag, the answer of the listener, and how many workers ended before it. The state is the
  number of active connections and of workers spawned.\<close>

datatype accept_answer = OuterAccepted | OuterBlocked | OuterFailed ustring

record outer_round =
  ar_stop :: bool
  ar_ended :: nat
  ar_answer :: accept_answer

fun run_relay :: "outer_round list \<Rightarrow> nat \<Rightarrow> nat \<Rightarrow> ((unit, relay_error) result option \<times> nat \<times> nat)" where
  "run_relay [] active spawned = (None, active, spawned)"
| "run_relay (ar # rounds) active spawned =
     (if ar_stop ar then (Some (Ok ()), active, spawned)
      else let active = active - ar_ended ar in
        case ar_answer ar of
          OuterAccepted \<Rightarrow>
            if active \<ge> MAX_OUTER_CONNECTIONS then run_relay rounds active spawned
            else run_relay rounds (active + 1) (spawned + 1)
        | OuterBlocked \<Rightarrow> run_relay rounds active spawned
        | OuterFailed e \<Rightarrow> (Some (Err (RelayIo ''accept Relay connection'' e)), active, spawned))"

lemma run_relay_bounded:
  "active \<le> MAX_OUTER_CONNECTIONS \<Longrightarrow> run_relay rounds active spawned = (r, active', spawned') \<Longrightarrow> active' \<le> MAX_OUTER_CONNECTIONS"
proof (induction rounds arbitrary: active spawned)
  case (Cons ar rounds)
  have "active - ar_ended ar \<le> MAX_OUTER_CONNECTIONS" using Cons.prems(1) by simp
  then show ?case
    using Cons.prems(2) Cons.IH [of "active - ar_ended ar" spawned] Cons.IH [of "active - ar_ended ar + 1" "spawned + 1"] Cons.prems(1)
    by (simp add: Let_def split: if_splits accept_answer.splits)
qed simp

section \<open>The Host's connection\<close>

text \<open>\<open>connect_host_once_with_route_check_and_waiting\<close>. The script holds what the stop flag, the connections, the relay's
  stream, the clock and the two sockets of the tunnel answer. The canceller is optional; its registration is dropped
  when the function returns. The result is missing when the wait or the tunnel has not ended.\<close>

record host_connection_script =
  hcn_stop :: bool
  hcn_connect :: "(unit, relay_error) result"
  hcn_cloned :: "(unit, ustring) result"
  hcn_socket :: nat
  hcn_stop_registered :: bool
  hcn_stream :: "u8 list"
  hcn_error :: ustring
  hcn_now :: int
  hcn_hello :: frame_answers
  hcn_wait_timeout :: "(unit, ustring) result"
  hcn_wait :: "wait_round list"
  hcn_local :: "(unit, ustring) result"
  hcn_local_nonblocking :: "(unit, ustring) result"
  hcn_nonblocking :: "(unit, ustring) result"
  hcn_started :: nat
  hcn_ended :: nat
  hcn_tunnel :: "pump_round list"

definition host_tunnel :: "host_connection_script \<Rightarrow> (relay_tunnel_stats, relay_error) result option" where
  "host_tunnel hcn =
     (case
        and_then (map_err (RelayIo ''connect local tunnel target'') (hcn_local hcn)) (\<lambda>_.
        and_then (map_err (RelayIo ''configure local tunnel target'') (hcn_local_nonblocking hcn)) (\<lambda>_.
        map_err (RelayIo ''configure public Relay tunnel'') (hcn_nonblocking hcn)))
      of
        Err e \<Rightarrow> Some (Err e)
      | Ok _ \<Rightarrow> map_option fst
          (pump (hcn_started hcn) (hcn_ended hcn) TUNNEL_IDLE_TIMEOUT TUNNEL_STALLED_TIMEOUT (hcn_tunnel hcn)))"

definition host_session ::
  "relay_env \<Rightarrow> relay_host_config \<Rightarrow> route_registration list \<Rightarrow> host_connection_script
     \<Rightarrow> (relay_tunnel_stats, relay_error) result option" where
  "host_session re config routes hcn =
     (case
        and_then (read_challenge re (hcn_error hcn) (hcn_now hcn) (hcn_stream hcn)) (\<lambda>(c, _).
        and_then (host_hello re config c routes) (\<lambda>hello.
        and_then (write_endpoint re (hcn_hello hcn) hello) (\<lambda>_.
        and_then (map_err (RelayIo ''set Relay Host wait timeout'') (hcn_wait_timeout hcn)) (\<lambda>_. Ok c))))
      of
        Err e \<Rightarrow> Some (Err e)
      | Ok c \<Rightarrow>
          (case host_wait re (rc_connection_id c) True (hcn_wait hcn) 0 of
             None \<Rightarrow> None
           | Some (Err e, _) \<Rightarrow> Some (Err e)
           | Some (Ok _, _) \<Rightarrow> host_tunnel hcn))"

definition connect_host ::
  "relay_env \<Rightarrow> relay_host_config \<Rightarrow> route_registration list \<Rightarrow> host_connection_script \<Rightarrow> relay_canceller option
     \<Rightarrow> (relay_tunnel_stats, relay_error) result option \<times> relay_canceller option" where
  "connect_host re config routes hcn canceller =
     (if routes = [] then (Some (relay_invalid ''routes'' ''at least one authenticated route is required''), canceller)
      else if hcn_stop hcn then (Some (Err RelayStopped), canceller)
      else case hcn_connect hcn of
        Err e \<Rightarrow> (Some (Err e), canceller)
      | Ok _ \<Rightarrow>
          (case canceller of
             None \<Rightarrow> (host_session re config routes hcn, None)
           | Some cn \<Rightarrow>
               (case register_connection (hcn_cloned hcn) (hcn_socket hcn) (hcn_stop_registered hcn) cn of
                  (Err e, cn1) \<Rightarrow> (Some (Err e), Some cn1)
                | (Ok connection, cn1) \<Rightarrow>
                    (host_session re config routes hcn, Some (unregister_connection connection cn1)))))"

text \<open>\<open>probe\<close>: a connection that only reads the challenge.\<close>

definition probe ::
  "relay_env \<Rightarrow> (unit, relay_error) result \<Rightarrow> ustring \<Rightarrow> int \<Rightarrow> u8 list \<Rightarrow> (unit, relay_error) result" where
  "probe re connected e now stream =
     and_then connected (\<lambda>_. and_then (read_challenge re e now stream) (\<lambda>_. Ok ()))"

text \<open>After a cancellation no connection is registered any more, and none stays registered.\<close>

lemma connect_host_cancelled:
  assumes "rcn_cancelled cn" "bt_is_empty (rcn_connections cn)" "connect_host re config routes hcn (Some cn) = (r, Some cn')"
  shows "rcn_cancelled cn' \<and> bt_is_empty (rcn_connections cn') \<and> (\<exists>e. r = Some (Err e))"
proof -
  obtain e cn1 where "register_connection (hcn_cloned hcn) (hcn_socket hcn) (hcn_stop_registered hcn) cn = (Err e, cn1)"
    "rcn_cancelled cn1" "bt_is_empty (rcn_connections cn1)" using cancelled_stays_empty [OF assms(1,2)] by blast
  then show ?thesis using assms by (auto simp: connect_host_def relay_invalid_def split: if_splits sum.splits)
qed

lemma connect_host_releases:
  assumes "connect_host re config routes hcn (Some cn) = (r, Some cn')" and "bt_get (rcn_connections cn') k = Some socket"
  shows "bt_get (rcn_connections cn) k = Some socket"
  using assms
  by (auto simp: connect_host_def register_connection_def unregister_connection_def
      split: if_splits sum.splits prod.splits)

section \<open>Admission\<close>

text \<open>A connection up to the first critical section of its handler: the challenge, the first message, the authentication,
  and the registration of a host or the claim of a client. The handlers of \<open>Relay_Registry\<close> start here.\<close>

datatype admission = HostAdmitted relay_connection route_keys | ClientAdmitted relay_connection ustring ustring

definition admit_outer ::
  "relay_env \<Rightarrow> relay_server_config \<Rightarrow> outer_script \<Rightarrow> registry \<Rightarrow> (admission, refusal) result \<times> registry" where
  "admit_outer re config os waiting =
     (case challenge_connection re os of
        Err e \<Rightarrow> (Err (None, e), waiting)
      | Ok c \<Rightarrow>
          (case outer_role_of re (os_error os) (os_stream os) c (os_now os) of
             Err refused \<Rightarrow> (Err refused, waiting)
           | Ok (RoleHost host_id routes proof) \<Rightarrow>
               (case authenticate_host re config c host_id routes proof of
                  Err refused \<Rightarrow> (Err refused, waiting)
                | Ok keys \<Rightarrow>
                    (case register_host (rc_connection_id c) keys waiting of
                       (Err refused, waiting') \<Rightarrow> (Err refused, waiting')
                     | (Ok _, waiting') \<Rightarrow> (Ok (HostAdmitted c keys), waiting')))
           | Ok (RoleClient route_id proof) \<Rightarrow>
               (case claim_route re c route_id proof waiting of
                  Err refused \<Rightarrow> (Err refused, waiting)
                | Ok (host, _) \<Rightarrow> (Ok (ClientAdmitted c host route_id), waiting))))"

text \<open>The whole handler agrees with its admission: a connection that is not admitted ends with an error and leaves the
  registry alone, and a host that is admitted leaves its registration there.\<close>

lemma refused_connection_ends:
  assumes "admit_outer re config os waiting = (Err refused, waiting')"
  shows "waiting' = waiting \<and> (\<exists>e. handle_outer re config os waiting waiting = (Some (Err e), waiting))"
  using assms
  by (auto simp: admit_outer_def handle_outer_def handle_host_def handle_client_def register_host_def
      split: sum.splits prod.splits outer_role.splits if_splits)

lemma admitted_host_registers:
  assumes "admit_outer re config os waiting = (Ok (HostAdmitted c keys), waiting')"
  shows "snd (handle_outer re config os waiting waiting) = waiting'
    \<and> register_host (rc_connection_id c) keys waiting = (Ok (), waiting')"
  using assms
  by (auto simp: admit_outer_def handle_outer_def handle_host_def
      split: sum.splits prod.splits outer_role.splits option.splits)

lemma admitted_client_claims:
  assumes "admit_outer re config os waiting = (Ok (ClientAdmitted c host route_id), waiting')"
  shows "waiting' = waiting \<and> (\<exists>proof key. claim_route re c route_id proof waiting = Ok (host, key))"
  using assms by (auto simp: admit_outer_def split: sum.splits prod.splits outer_role.splits)

section \<open>Handlers and steps\<close>

text \<open>What the composed handlers do to the registry is what the steps of \<open>Relay_Registry\<close> do: a host that is refused leaves
  it alone, and a client that gets its host takes exactly the one that waits under its route.\<close>

lemma handle_host_registry:
  assumes "handle_host re config c host_id routes proof hs waiting = (r, waiting')"
  shows "waiting' = waiting \<or> (\<exists>keys. authenticate_host re config c host_id routes proof = Ok keys
    \<and> register_host (rc_connection_id c) keys waiting = (Ok (), waiting'))"
proof (cases "authenticate_host re config c host_id routes proof")
  case (Inl refused)
  then show ?thesis using assms by (simp add: handle_host_def)
next
  case (Inr keys)
  obtain r' w where reg: "register_host (rc_connection_id c) keys waiting = (r', w)" by fastforce
  show ?thesis
  proof (cases r')
    case (Inl refused)
    then have "w = waiting" using reg by (auto simp: register_host_def split: if_splits)
    then show ?thesis using assms Inr reg Inl by (auto simp: handle_host_def)
  next
    case [simp]: (Inr u)
    have "waiting' = w"
      using assms \<open>authenticate_host re config c host_id routes proof = Ok keys\<close> reg
      by (auto simp: handle_host_def split: sum.splits option.splits)
    then show ?thesis using \<open>authenticate_host re config c host_id routes proof = Ok keys\<close> reg by auto
  qed
qed

lemma handle_client_takes:
  assumes "handle_client re c route_id proof fa sent first second = (Ok host, waiting)"
  shows "sent \<and> bt_get second host \<noteq> None \<and> waiting = bt_remove host second
    \<and> (\<exists>key. claim_route re c route_id proof first = Ok (host, key))"
  using assms by (auto simp: handle_client_def take_host_def split: sum.splits prod.splits if_splits)

end
