(* ===== verification/Relay_Registry.thy ===== *)
theory Relay_Registry
  imports Relay_Handlers
begin

text \<open>
  The relay while its handlers run concurrently. A step of \<open>relay_step\<close> is what the accept loop or one handler does
  between two points where another thread can act: the accept of a connection below the cap, the admission of its
  first message, what a handler does while it holds the mutex or the channel, and the end of a handler. The action
  of a step carries what the environment answers there, so the guards are those of the code: the stop flag, the cap on
  connections, the expiry of the challenge, the proofs, and the results of reads and writes. The theory shows that
  the registry is bounded, that the routes of waiting hosts are disjoint, that a host is given to one client
  only, and that the counter of connections is the number of handlers.
\<close>

section \<open>State\<close>

text \<open>Where a host handler is: it has registered and not yet written \<open>HostWaiting\<close>, it is at the head of its loop, or it
  waits in \<open>recv_timeout\<close>. A client handler has claimed a host or taken it out of the registry. \<open>hp_inbox\<close> is the
  client in the \<open>sync_channel(1)\<close> of a host; the handler of a host has ended when its entry is gone. \<open>rs_pending\<close>
  counts the connections that are not admitted yet, \<open>rs_running\<close> are the host handlers that pump a tunnel, and
  \<open>rs_tunnels\<close> all tunnels there have been.\<close>

datatype host_stage = HostRegistered | HostIdle | HostPolling

datatype client_phase = Claimed ustring | Taken ustring

record host_phase =
  hp_stage :: host_stage
  hp_inbox :: "ustring option"
  hp_keys :: route_keys

record relay_state =
  rs_stop :: bool
  rs_active :: usize
  rs_pending :: usize
  rs_waiting :: registry
  rs_hosts :: "(ustring, host_phase) btree_map"
  rs_clients :: "(ustring, client_phase \<times> ustring) btree_map"
  rs_running :: "ustring list"
  rs_tunnels :: "(ustring \<times> ustring) list"

definition relay_init :: relay_state where
  "relay_init = \<lparr>rs_stop = False, rs_active = 0, rs_pending = 0, rs_waiting = bt_empty, rs_hosts = bt_empty,
     rs_clients = bt_empty, rs_running = [], rs_tunnels = []\<rparr>"

text \<open>The senders of a host's channel are in its registration and in the clients that have claimed or taken it.\<close>

fun claimed_host :: "client_phase \<Rightarrow> ustring" where
  "claimed_host (Claimed host) = host"
| "claimed_host (Taken host) = host"

definition sender_alive :: "relay_state \<Rightarrow> ustring \<Rightarrow> bool" where
  "sender_alive s host \<longleftrightarrow>
     bt_contains_key (rs_waiting s) host \<or> list_ex (\<lambda>(phase, _). claimed_host phase = host) (bt_values (rs_clients s))"

text \<open>The return of a handler: \<open>ActiveGuard\<close> counts down; that of a host first drops its \<open>WaitingHostGuard\<close>.\<close>

definition end_client :: "ustring \<Rightarrow> relay_state \<Rightarrow> relay_state" where
  "end_client client s = s\<lparr>rs_clients := bt_remove client (rs_clients s), rs_active := rs_active s - 1\<rparr>"

definition end_host :: "ustring \<Rightarrow> relay_state \<Rightarrow> relay_state" where
  "end_host host s = s\<lparr>rs_waiting := remove_waiting_host host (rs_waiting s), rs_hosts := bt_remove host (rs_hosts s),
     rs_active := rs_active s - 1\<rparr>"

definition set_host :: "ustring \<Rightarrow> host_phase \<Rightarrow> relay_state \<Rightarrow> relay_state" where
  "set_host host phase s = s\<lparr>rs_hosts := bt_insert host phase (rs_hosts s)\<rparr>"

section \<open>Steps\<close>

datatype relay_action =
    RaiseStop
  | ClearRegistry
  | AcceptOuter
  | AdmitOuter outer_script
  | AnnounceWaiting ustring frame_answers
  | PollChannel ustring
  | PingHost ustring relay_serve_round
  | SeeDisconnect ustring
  | MatchClient ustring relay_serve_round
  | TakeHost ustring
  | SendClient ustring
  | EndTunnel ustring nat nat "pump_round list"

text \<open>Connection identities are fresh (UUIDv7 of the challenge): no handler has the identity of a new one, and
  \<open>used\<close> holds those admitted before.\<close>

inductive relay_step ::
  "relay_env \<Rightarrow> relay_server_config \<Rightarrow> relay_action \<Rightarrow> ustring set \<times> relay_state \<Rightarrow> ustring set \<times> relay_state \<Rightarrow> bool"
  for re config where
  stop_raised: "relay_step re config RaiseStop (used, s) (used, s\<lparr>rs_stop := True\<rparr>)"
| registry_cleared: "relay_step re config ClearRegistry (used, s) (used, s\<lparr>rs_waiting := bt_empty\<rparr>)" if "rs_stop s"
| outer_accepted:
    "relay_step re config AcceptOuter (used, s) (used, s\<lparr>rs_active := rs_active s + 1, rs_pending := rs_pending s + 1\<rparr>)"
    if "\<not> rs_stop s" and "\<not> rs_active s \<ge> MAX_OUTER_CONNECTIONS"
| outer_dropped: "relay_step re config AcceptOuter (used, s) (used, s)"
    if "\<not> rs_stop s" and "rs_active s \<ge> MAX_OUTER_CONNECTIONS"
| host_registers:
    "relay_step re config (AdmitOuter os) (used, s) (insert (rc_connection_id c) used,
       set_host (rc_connection_id c) \<lparr>hp_stage = HostRegistered, hp_inbox = None, hp_keys = keys\<rparr>
         (s\<lparr>rs_pending := rs_pending s - 1, rs_waiting := waiting'\<rparr>))"
    if "rs_pending s > 0" and "admit_outer re config os (rs_waiting s) = (Ok (HostAdmitted c keys), waiting')"
      and "rc_connection_id c \<notin> used"
| client_claims:
    "relay_step re config (AdmitOuter os) (used, s) (insert (rc_connection_id c) used,
       s\<lparr>rs_pending := rs_pending s - 1,
         rs_clients := bt_insert (rc_connection_id c) (Claimed host, route_id) (rs_clients s)\<rparr>)"
    if "rs_pending s > 0" and "admit_outer re config os (rs_waiting s) = (Ok (ClientAdmitted c host route_id), waiting')"
      and "rc_connection_id c \<notin> used"
| outer_refused:
    "relay_step re config (AdmitOuter os) (used, s) (used,
       s\<lparr>rs_pending := rs_pending s - 1, rs_active := rs_active s - 1, rs_waiting := waiting'\<rparr>)"
    if "rs_pending s > 0" and "admit_outer re config os (rs_waiting s) = (Err refused, waiting')"
| host_announces:
    "relay_step re config (AnnounceWaiting host fa) (used, s) (used, set_host host (phase\<lparr>hp_stage := HostIdle\<rparr>) s)"
    if "bt_get (rs_hosts s) host = Some phase" and "hp_stage phase = HostRegistered"
      and "write_relay re fa (RelayHostWaiting host) = Ok bytes"
| host_unannounced: "relay_step re config (AnnounceWaiting host fa) (used, s) (used, end_host host s)"
    if "bt_get (rs_hosts s) host = Some phase" and "hp_stage phase = HostRegistered"
      and "write_relay re fa (RelayHostWaiting host) = Err e"
| host_polls:
    "relay_step re config (PollChannel host) (used, s) (used, set_host host (phase\<lparr>hp_stage := HostPolling\<rparr>) s)"
    if "bt_get (rs_hosts s) host = Some phase" and "hp_stage phase = HostIdle" and "\<not> rs_stop s"
| host_stopped: "relay_step re config (PollChannel host) (used, s) (used, end_host host s)"
    if "bt_get (rs_hosts s) host = Some phase" and "hp_stage phase = HostIdle" and "rs_stop s"
| host_pings:
    "relay_step re config (PingHost host sr) (used, s) (used, set_host host (phase\<lparr>hp_stage := HostIdle\<rparr>) s)"
    if "bt_get (rs_hosts s) host = Some phase" and "hp_stage phase = HostPolling" and "hp_inbox phase = None"
      and "ping_host re sr = Ok ()"
| host_silent: "relay_step re config (PingHost host sr) (used, s) (used, end_host host s)"
    if "bt_get (rs_hosts s) host = Some phase" and "hp_stage phase = HostPolling" and "hp_inbox phase = None"
      and "ping_host re sr = Err e"
| host_disconnected: "relay_step re config (SeeDisconnect host) (used, s) (used, end_host host s)"
    if "bt_get (rs_hosts s) host = Some phase" and "hp_stage phase = HostPolling" and "hp_inbox phase = None"
      and "\<not> sender_alive s host"
| host_tunnels:
    "relay_step re config (MatchClient host sr) (used, s) (used, s\<lparr>rs_hosts := bt_remove host (rs_hosts s),
       rs_running := rs_running s @ [host], rs_tunnels := rs_tunnels s @ [(host, client)]\<rparr>)"
    if "bt_get (rs_hosts s) host = Some phase" and "hp_stage phase = HostPolling" and "hp_inbox phase = Some client"
      and "match_client re host client sr = Ok client"
| host_unmatched: "relay_step re config (MatchClient host sr) (used, s) (used, end_host host s)"
    if "bt_get (rs_hosts s) host = Some phase" and "hp_stage phase = HostPolling" and "hp_inbox phase = Some client"
      and "match_client re host client sr = Err e"
| client_takes:
    "relay_step re config (TakeHost client) (used, s) (used,
       s\<lparr>rs_waiting := waiting', rs_clients := bt_insert client (Taken host, route_id) (rs_clients s)\<rparr>)"
    if "bt_get (rs_clients s) client = Some (Claimed host, route_id)"
      and "take_host host (rs_waiting s) = (Ok (), waiting')"
| client_too_late: "relay_step re config (TakeHost client) (used, s) (used, end_client client s)"
    if "bt_get (rs_clients s) client = Some (Claimed host, route_id)"
      and "take_host host (rs_waiting s) = (Err refused, rs_waiting s)"
| client_sends:
    "relay_step re config (SendClient client) (used, s) (used, set_host host (phase\<lparr>hp_inbox := Some client\<rparr>) (end_client client s))"
    if "bt_get (rs_clients s) client = Some (Taken host, route_id)"
      and "bt_get (rs_hosts s) host = Some phase" and "hp_inbox phase = None"
| client_host_gone: "relay_step re config (SendClient client) (used, s) (used, end_client client s)"
    if "bt_get (rs_clients s) client = Some (Taken host, route_id)" and "bt_get (rs_hosts s) host = None"
| tunnel_ends:
    "relay_step re config (EndTunnel host started ended rounds) (used, s) (used,
       s\<lparr>rs_waiting := remove_waiting_host host (rs_waiting s), rs_running := remove1 host (rs_running s),
         rs_active := rs_active s - 1\<rparr>)"
    if "host \<in> set (rs_running s)"
      and "pump started ended TUNNEL_IDLE_TIMEOUT TUNNEL_STALLED_TIMEOUT rounds = Some (r, st)"
      and "list_ex pu_stop rounds \<Longrightarrow> rs_stop s"

inductive_simps relay_step_simps:
  "relay_step re config RaiseStop x y"
  "relay_step re config ClearRegistry x y"
  "relay_step re config AcceptOuter x y"
  "relay_step re config (AdmitOuter os) x y"
  "relay_step re config (AnnounceWaiting host fa) x y"
  "relay_step re config (PollChannel host) x y"
  "relay_step re config (PingHost host sr) x y"
  "relay_step re config (SeeDisconnect host) x y"
  "relay_step re config (MatchClient host sr) x y"
  "relay_step re config (TakeHost client) x y"
  "relay_step re config (SendClient client) x y"
  "relay_step re config (EndTunnel host started ended rounds) x y"

inductive relay_reachable :: "relay_env \<Rightarrow> relay_server_config \<Rightarrow> ustring set \<times> relay_state \<Rightarrow> bool" for re config where
  relay_initial: "relay_reachable re config ({}, relay_init)"
| relay_next: "relay_reachable re config x \<Longrightarrow> relay_step re config action x y \<Longrightarrow> relay_reachable re config y"

text \<open>A schedule: the actions of a run, in order.\<close>

inductive relay_run ::
  "relay_env \<Rightarrow> relay_server_config \<Rightarrow> relay_action list \<Rightarrow> ustring set \<times> relay_state \<Rightarrow> ustring set \<times> relay_state \<Rightarrow> bool"
  for re config where
  run_done: "relay_run re config [] x x"
| run_step: "relay_run re config (action # actions) x z" if "relay_step re config action x y" and "relay_run re config actions y z"

lemma relay_run_reachable: "relay_run re config actions x y \<Longrightarrow> relay_reachable re config x \<Longrightarrow> relay_reachable re config y"
  by (induction rule: relay_run.induct) (blast intro: relay_next)+

text \<open>The answers in an action leave no choice: a schedule has one outcome at most.\<close>

lemma relay_step_deterministic: "relay_step re config action x y \<Longrightarrow> relay_step re config action x z \<Longrightarrow> y = z"
  by (cases action) (auto simp: relay_step_simps take_host_def split: if_splits)

lemma relay_run_deterministic: "relay_run re config actions x y \<Longrightarrow> relay_run re config actions x z \<Longrightarrow> y = z"
proof (induction arbitrary: z rule: relay_run.induct)
  case (run_done x)
  then show ?case by (auto elim: relay_run.cases)
next
  case (run_step action x y actions w)
  from run_step.prems obtain y' where "relay_step re config action x y'" "relay_run re config actions y' z"
    by (auto elim: relay_run.cases)
  with run_step relay_step_deterministic show ?case by blast
qed

lemma relay_run_append:
  "relay_run re config actions x y \<Longrightarrow> relay_run re config actions' y z \<Longrightarrow> relay_run re config (actions @ actions') x z"
  by (induction rule: relay_run.induct) (auto intro: relay_run.intros)

lemma routes_overlap_iff:
  "routes_overlap waiting keys \<longleftrightarrow>
     (\<exists>route key k host key'. bt_get keys route = Some key \<and> bt_get waiting k = Some host \<and> bt_get (wh_routes host) route = Some key')"
  by (auto simp: routes_overlap_def list_ex_iff set_bt_keys set_bt_values)

section \<open>The invariant\<close>

definition disjoint_routes :: "registry \<Rightarrow> bool" where
  "disjoint_routes waiting \<longleftrightarrow>
     (\<forall>k h k' h' route key key'. bt_get waiting k = Some h \<and> bt_get waiting k' = Some h'
        \<and> bt_get (wh_routes h) route = Some key \<and> bt_get (wh_routes h') route = Some key' \<longrightarrow> k = k')"

definition waiting_consistent :: "relay_state \<Rightarrow> bool" where
  "waiting_consistent s \<longleftrightarrow>
     (\<forall>k h. bt_get (rs_waiting s) k = Some h \<longrightarrow> wh_connection_id h = k
        \<and> (\<exists>phase. bt_get (rs_hosts s) k = Some phase \<and> hp_inbox phase = None \<and> hp_keys phase = wh_routes h))"

text \<open>The facts about a state the handover depends on: what is present, who took which host, and which client is in
  the inbox of which host.\<close>

definition has_key :: "('k::linorder, 'v) btree_map \<Rightarrow> 'k \<Rightarrow> bool" where
  "has_key m k \<longleftrightarrow> bt_get m k \<noteq> None"

definition taken :: "(ustring, client_phase \<times> ustring) btree_map \<Rightarrow> ustring \<Rightarrow> ustring \<Rightarrow> bool" where
  "taken clients c h \<longleftrightarrow> (\<exists>route. bt_get clients c = Some (Taken h, route))"

definition inbox :: "(ustring, host_phase) btree_map \<Rightarrow> ustring \<Rightarrow> ustring \<Rightarrow> bool" where
  "inbox hosts c h \<longleftrightarrow> (\<exists>phase. bt_get hosts h = Some phase \<and> hp_inbox phase = Some c)"

definition tunnel_hosts :: "(ustring \<times> ustring) list \<Rightarrow> ustring set" where
  "tunnel_hosts tunnels = fst ` set tunnels"

definition tunnel_clients :: "(ustring \<times> ustring) list \<Rightarrow> ustring set" where
  "tunnel_clients tunnels = snd ` set tunnels"

lemma tunnel_simps [simp]:
  "tunnel_hosts (tunnels @ [(h, c)]) = insert h (tunnel_hosts tunnels)" "tunnel_hosts [] = {}"
  "tunnel_clients (tunnels @ [(h, c)]) = insert c (tunnel_clients tunnels)" "tunnel_clients [] = {}"
  by (auto simp: tunnel_hosts_def tunnel_clients_def)

lemma has_key_simps [simp]:
  "has_key (bt_insert k v m) j \<longleftrightarrow> j = k \<or> has_key m j" "has_key (bt_remove k m) j \<longleftrightarrow> j \<noteq> k \<and> has_key m j"
  "\<not> has_key bt_empty j" "bt_get m k = Some v \<Longrightarrow> has_key m k" "bt_get m k = None \<Longrightarrow> \<not> has_key m k"
  by (auto simp: has_key_def)

lemma taken_simps [simp]:
  "taken (bt_insert k (Taken h', r) m) c h \<longleftrightarrow> (if c = k then h = h' else taken m c h)"
  "taken (bt_insert k (Claimed h', r) m) c h \<longleftrightarrow> c \<noteq> k \<and> taken m c h"
  "taken (bt_remove k m) c h \<longleftrightarrow> c \<noteq> k \<and> taken m c h" "\<not> taken bt_empty c h"
  "bt_get m k = Some (Taken h, r) \<Longrightarrow> taken m k h' \<longleftrightarrow> h' = h"
  "bt_get m k = Some (Claimed h, r) \<Longrightarrow> \<not> taken m k h'"
  by (auto simp: taken_def)

lemma inbox_simps [simp]:
  "inbox (bt_insert k p m) c h \<longleftrightarrow> (if h = k then hp_inbox p = Some c else inbox m c h)"
  "inbox (bt_remove k m) c h \<longleftrightarrow> h \<noteq> k \<and> inbox m c h" "\<not> inbox bt_empty c h"
  "bt_get m k = Some p \<Longrightarrow> inbox m c k \<longleftrightarrow> hp_inbox p = Some c" "bt_get m k = None \<Longrightarrow> \<not> inbox m c k"
  by (auto simp: inbox_def)

lemma present_of: "taken m c h \<Longrightarrow> has_key m c" "inbox hosts c h \<Longrightarrow> has_key hosts h"
  by (auto simp: taken_def inbox_def has_key_def)

text \<open>Who is given to whom: a host that was taken no longer waits and has one taker; a client in an inbox has left the
  clients, and its host neither waits nor is taken; what has a tunnel has ended everything else.\<close>

definition handover :: "ustring set \<Rightarrow> relay_state \<Rightarrow> bool" where
  "handover used s \<longleftrightarrow> (let W = has_key (rs_waiting s); H = has_key (rs_hosts s); C = has_key (rs_clients s);
       T = taken (rs_clients s); I = inbox (rs_hosts s); th = tunnel_hosts (rs_tunnels s); tc = tunnel_clients (rs_tunnels s) in
     (\<forall>h. W h \<longrightarrow> H h) \<and> (\<forall>c h. I c h \<longrightarrow> \<not> W h) \<and> (\<forall>c h. T c h \<longrightarrow> \<not> W h)
     \<and> (\<forall>c h. T c h \<longrightarrow> h \<notin> th) \<and> (\<forall>c c' h. T c h \<longrightarrow> T c' h \<longrightarrow> c = c')
     \<and> (\<forall>c h. I c h \<longrightarrow> \<not> C c) \<and> (\<forall>c c' h. I c h \<longrightarrow> \<not> T c' h) \<and> (\<forall>c h h'. I c h \<longrightarrow> I c h' \<longrightarrow> h = h')
     \<and> (\<forall>h. H h \<longrightarrow> h \<notin> th) \<and> (\<forall>c. C c \<longrightarrow> c \<notin> tc) \<and> (\<forall>c h. I c h \<longrightarrow> c \<notin> tc)
     \<and> (\<forall>h. H h \<longrightarrow> h \<in> used) \<and> (\<forall>c. C c \<longrightarrow> c \<in> used) \<and> (\<forall>c h. T c h \<longrightarrow> h \<in> used) \<and> (\<forall>c h. I c h \<longrightarrow> c \<in> used)
     \<and> th \<subseteq> used \<and> tc \<subseteq> used)"

text \<open>The counter of connections is the number of handlers, and it never passes its cap.\<close>

definition counted :: "relay_state \<Rightarrow> bool" where
  "counted s \<longleftrightarrow> rs_active s \<le> MAX_OUTER_CONNECTIONS
     \<and> rs_active s = rs_pending s + length (bt_entries (rs_hosts s)) + length (bt_entries (rs_clients s)) + length (rs_running s)"

definition relay_inv :: "ustring set \<Rightarrow> relay_state \<Rightarrow> bool" where
  "relay_inv used s \<longleftrightarrow>
     length (bt_entries (rs_waiting s)) \<le> MAX_WAITING_HOSTS \<and> disjoint_routes (rs_waiting s) \<and> waiting_consistent s
     \<and> handover used s \<and> counted s \<and> set (rs_running s) \<subseteq> tunnel_hosts (rs_tunnels s)
     \<and> distinct (map fst (rs_tunnels s)) \<and> distinct (map snd (rs_tunnels s))"

lemma length_entries_remove: "length (bt_entries (bt_remove k m)) \<le> length (bt_entries m)"
  by (simp add: al_remove_def)

lemma length_entries_insert: "length (bt_entries (bt_insert k v m)) \<le> Suc (length (bt_entries m))"
proof -
  have "length (al_insert k v xs) \<le> Suc (length xs)" for xs by (induction xs) auto
  then show ?thesis by simp
qed

lemma disjoint_remove: "disjoint_routes waiting \<Longrightarrow> disjoint_routes (bt_remove k waiting)"
  unfolding disjoint_routes_def by (metis bt.get_remove option.distinct(1))

lemma register_host_inv:
  assumes "register_host c keys waiting = (Ok (), waiting')"
    and "length (bt_entries waiting) \<le> MAX_WAITING_HOSTS" "disjoint_routes waiting"
  shows "length (bt_entries waiting') \<le> MAX_WAITING_HOSTS" "disjoint_routes waiting'"
    "waiting' = bt_insert c \<lparr>wh_connection_id = c, wh_routes = keys\<rparr> waiting"
proof -
  have low: "length (bt_entries waiting) < MAX_WAITING_HOSTS" and free: "\<not> routes_overlap waiting keys"
    and w: "waiting' = bt_insert c \<lparr>wh_connection_id = c, wh_routes = keys\<rparr> waiting"
    using assms(1) by (auto simp: register_host_def split: if_splits)
  show "length (bt_entries waiting') \<le> MAX_WAITING_HOSTS"
    using length_entries_insert [of c "\<lparr>wh_connection_id = c, wh_routes = keys\<rparr>" waiting] low unfolding w by linarith
  show "disjoint_routes waiting'"
    unfolding disjoint_routes_def
  proof (intro allI impI, elim conjE)
    fix k h k' h' route key key'
    assume *: "bt_get waiting' k = Some h" "bt_get waiting' k' = Some h'"
      "bt_get (wh_routes h) route = Some key" "bt_get (wh_routes h') route = Some key'"
    have new: "bt_get keys route = Some x \<Longrightarrow> bt_get waiting j = Some g \<Longrightarrow> bt_get (wh_routes g) route = None" for x j g
      using free unfolding routes_overlap_iff by (metis not_None_eq)
    show "k = k'"
    proof (cases "k = c"; cases "k' = c")
      assume "k \<noteq> c" "k' \<noteq> c"
      then show ?thesis using * assms(3) unfolding w disjoint_routes_def by simp blast
    qed (use * new in \<open>auto simp: w\<close>)
  qed
  show "waiting' = bt_insert c \<lparr>wh_connection_id = c, wh_routes = keys\<rparr> waiting" by (rule w)
qed

section \<open>Preservation\<close>

lemma relay_init_inv: "relay_inv {} relay_init"
  by (simp add: relay_inv_def relay_init_def disjoint_routes_def waiting_consistent_def handover_def counted_def)

lemma registry_step:
  assumes "relay_step re config action x y"
    and "length (bt_entries (rs_waiting (snd x))) \<le> MAX_WAITING_HOSTS \<and> disjoint_routes (rs_waiting (snd x))"
  shows "length (bt_entries (rs_waiting (snd y))) \<le> MAX_WAITING_HOSTS \<and> disjoint_routes (rs_waiting (snd y))"
proof -
  have removed: "length (bt_entries (bt_remove k m)) \<le> MAX_WAITING_HOSTS \<and> disjoint_routes (bt_remove k m)"
    if "length (bt_entries m) \<le> MAX_WAITING_HOSTS \<and> disjoint_routes m" for k and m :: registry
    using that length_entries_remove [of k m] disjoint_remove [of m k] by linarith
  show ?thesis
    using assms
  proof (induction rule: relay_step.induct)
    case (registry_cleared s used)
    show ?case by (simp add: disjoint_routes_def)
  next
    case (host_registers s os c keys waiting' used)
    then have "register_host (rc_connection_id c) keys (rs_waiting s) = (Ok (), waiting')"
      using admitted_host_registers by blast
    with register_host_inv(1,2) [OF this] host_registers show ?case by (simp add: set_host_def)
  next
    case (outer_refused s os refused waiting' used)
    then have "waiting' = rs_waiting s" using refused_connection_ends by blast
    with outer_refused show ?case by simp
  next
    case (client_takes s client host route_id waiting' used)
    then have "waiting' = bt_remove host (rs_waiting s)" by (auto simp: take_host_def split: if_splits)
    with removed client_takes show ?case by simp
  qed (simp_all add: set_host_def end_host_def end_client_def remove_waiting_host_def removed del: bt_entries_remove)
qed

lemma take_host_Ok: "take_host h waiting = (Ok (), waiting') \<Longrightarrow> waiting' = bt_remove h waiting \<and> has_key waiting h"
  by (auto simp: take_host_def has_key_def split: if_splits)

lemma register_host_Ok:
  "register_host c keys waiting = (Ok (), waiting') \<Longrightarrow> waiting' = bt_insert c \<lparr>wh_connection_id = c, wh_routes = keys\<rparr> waiting"
  by (auto simp: register_host_def split: if_splits)

lemma admitted_host_waits:
  "admit_outer re config os waiting = (Ok (HostAdmitted c keys), waiting') \<Longrightarrow>
     waiting' = bt_insert (rc_connection_id c) \<lparr>wh_connection_id = rc_connection_id c, wh_routes = keys\<rparr> waiting"
  using admitted_host_registers register_host_Ok by blast

lemma refused_waiting: "admit_outer re config os waiting = (Err refused, waiting') \<Longrightarrow> waiting' = waiting"
  using refused_connection_ends by blast

lemma consistent_stage:
  "waiting_consistent s \<Longrightarrow> bt_get (rs_hosts s) host = Some phase \<Longrightarrow> waiting_consistent (set_host host (phase\<lparr>hp_stage := stage\<rparr>) s)"
  by (fastforce simp: waiting_consistent_def set_host_def)

lemma consistent_step:
  assumes "relay_step re config action x y" and "relay_inv (fst x) (snd x)"
  shows "waiting_consistent (snd y)"
  using assms
proof (induction rule: relay_step.induct)
  case (host_registers s os c keys waiting' used)
  from admitted_host_waits [OF host_registers(2)] host_registers show ?case
    by (auto simp: relay_inv_def waiting_consistent_def set_host_def)
next
  case (outer_refused s os refused waiting' used)
  from refused_waiting [OF outer_refused(2)] outer_refused show ?case by (auto simp: relay_inv_def waiting_consistent_def)
next
  case (client_sends s client host route_id phase used)
  then have "bt_get (rs_waiting s) host = None"
    unfolding relay_inv_def handover_def Let_def has_key_def by (metis taken_simps(5) snd_conv fst_conv)
  with client_sends show ?case by (auto simp: relay_inv_def waiting_consistent_def set_host_def end_client_def)
next
  case (host_tunnels s host phase client sr used)
  then have "inbox (rs_hosts s) client host" by simp
  with host_tunnels have "bt_get (rs_waiting s) host = None"
    unfolding relay_inv_def handover_def Let_def has_key_def by (metis snd_conv fst_conv)
  with host_tunnels show ?case by (auto simp: relay_inv_def waiting_consistent_def)
qed (simp_all add: relay_inv_def consistent_stage,
    auto simp: waiting_consistent_def take_host_def remove_waiting_host_def end_host_def end_client_def split: if_splits)

lemma handover_facts:
  assumes "handover used s"
  shows "\<forall>h. has_key (rs_waiting s) h \<longrightarrow> has_key (rs_hosts s) h"
    and "\<forall>c h. inbox (rs_hosts s) c h \<longrightarrow> \<not> has_key (rs_waiting s) h"
    and "\<forall>c h. taken (rs_clients s) c h \<longrightarrow> \<not> has_key (rs_waiting s) h"
    and "\<forall>c h. taken (rs_clients s) c h \<longrightarrow> h \<notin> tunnel_hosts (rs_tunnels s)"
    and "\<forall>c c' h. taken (rs_clients s) c h \<longrightarrow> taken (rs_clients s) c' h \<longrightarrow> c = c'"
    and "\<forall>c h. inbox (rs_hosts s) c h \<longrightarrow> \<not> has_key (rs_clients s) c"
    and "\<forall>c c' h. inbox (rs_hosts s) c h \<longrightarrow> \<not> taken (rs_clients s) c' h"
    and "\<forall>c h h'. inbox (rs_hosts s) c h \<longrightarrow> inbox (rs_hosts s) c h' \<longrightarrow> h = h'"
    and "\<forall>h. has_key (rs_hosts s) h \<longrightarrow> h \<notin> tunnel_hosts (rs_tunnels s)"
    and "\<forall>c. has_key (rs_clients s) c \<longrightarrow> c \<notin> tunnel_clients (rs_tunnels s)"
    and "\<forall>c h. inbox (rs_hosts s) c h \<longrightarrow> c \<notin> tunnel_clients (rs_tunnels s)"
    and "\<forall>h. has_key (rs_hosts s) h \<longrightarrow> h \<in> used" and "\<forall>c. has_key (rs_clients s) c \<longrightarrow> c \<in> used"
    and "\<forall>c h. taken (rs_clients s) c h \<longrightarrow> h \<in> used" and "\<forall>c h. inbox (rs_hosts s) c h \<longrightarrow> c \<in> used"
    and "tunnel_hosts (rs_tunnels s) \<subseteq> used" and "tunnel_clients (rs_tunnels s) \<subseteq> used"
  using assms unfolding handover_def Let_def by - (elim conjE, assumption)+

text \<open>What a host handler does to its own stage does not touch the hand-over, and its end only removes facts.\<close>

lemma handover_stage:
  assumes "handover used s" and "bt_get (rs_hosts s) host = Some phase"
  shows "handover used (set_host host (phase\<lparr>hp_stage := stage\<rparr>) s)"
proof -
  have "inbox (bt_insert host (phase\<lparr>hp_stage := stage\<rparr>) (rs_hosts s)) = inbox (rs_hosts s)"
    using assms(2) by (intro ext) (auto simp: inbox_def)
  moreover have "has_key (bt_insert host (phase\<lparr>hp_stage := stage\<rparr>) (rs_hosts s)) = has_key (rs_hosts s)"
    using assms(2) by (intro ext) (auto simp: has_key_def)
  ultimately show ?thesis using assms(1) by (simp add: handover_def set_host_def)
qed

lemma handover_end_host:
  assumes "handover used s"
  shows "handover used (end_host host s)"
proof -
  note inv = handover_facts [OF assms]
  show ?thesis unfolding handover_def Let_def end_host_def
    by (intro conjI allI impI; (simp add: remove_waiting_host_def split: if_splits)?; metis inv present_of subset_iff insert_iff)
qed

lemma handover_end_client:
  assumes "handover used s"
  shows "handover used (end_client client s)"
proof -
  note inv = handover_facts [OF assms]
  show ?thesis unfolding handover_def Let_def end_client_def
    by (intro conjI allI impI; (simp split: if_splits)?; metis inv present_of subset_iff insert_iff)
qed

lemma handover_step:
  assumes "relay_step re config action x y" and "handover (fst x) (snd x)"
  shows "handover (fst y) (snd y)"
  using assms
proof (induction rule: relay_step.induct)
  case (registry_cleared s used)
  note inv = handover_facts [OF registry_cleared(2) [unfolded fst_conv snd_conv]]
  show ?case unfolding handover_def Let_def fst_conv snd_conv
    by (intro conjI allI impI; (simp split: if_splits)?; metis inv present_of subset_iff insert_iff)
next
  case (host_registers s os c keys waiting' used)
  note w = admitted_host_waits [OF host_registers(2)]
  note inv = host_registers(3) handover_facts [OF host_registers(4) [unfolded fst_conv snd_conv]]
  show ?case unfolding handover_def Let_def fst_conv snd_conv w set_host_def
    by (intro conjI allI impI; (simp split: if_splits)?; metis inv present_of subset_iff insert_iff)
next
  case (client_claims s os c host route_id waiting' used)
  note inv = client_claims(3) handover_facts [OF client_claims(4) [unfolded fst_conv snd_conv]]
  show ?case unfolding handover_def Let_def fst_conv snd_conv
    by (intro conjI allI impI; (simp split: if_splits)?; metis inv present_of subset_iff insert_iff)
next
  case (outer_refused s os refused waiting' used)
  from refused_waiting [OF outer_refused(2)] outer_refused(3) show ?case by (simp add: handover_def)
next
  case (client_takes s client host route_id waiting' used)
  have w: "waiting' = bt_remove host (rs_waiting s)" and waits: "has_key (rs_waiting s) host" and here: "has_key (rs_clients s) client"
    using take_host_Ok [OF client_takes(2)] client_takes(1) by simp_all
  note inv = waits here handover_facts [OF client_takes(3) [unfolded fst_conv snd_conv]]
  show ?case unfolding handover_def Let_def fst_conv snd_conv w
    by (intro conjI allI impI; (simp split: if_splits)?; metis inv present_of subset_iff insert_iff)
next
  case (client_sends s client host route_id phase used)
  have here: "taken (rs_clients s) client host" "has_key (rs_clients s) client" "has_key (rs_hosts s) host"
    "\<not> inbox (rs_hosts s) c host" for c
    using client_sends(1-3) by simp_all
  note inv = here handover_facts [OF client_sends(4) [unfolded fst_conv snd_conv]]
  show ?case unfolding handover_def Let_def fst_conv snd_conv set_host_def end_client_def
    by (intro conjI allI impI; (simp split: if_splits)?; metis inv present_of subset_iff insert_iff)
next
  case (host_tunnels s host phase client sr used)
  have here: "inbox (rs_hosts s) client host" "has_key (rs_hosts s) host" using host_tunnels(1,3) by simp_all
  note inv = here handover_facts [OF host_tunnels(5) [unfolded fst_conv snd_conv]]
  show ?case unfolding handover_def Let_def fst_conv snd_conv
    by (intro conjI allI impI; (simp split: if_splits)?; metis inv present_of subset_iff insert_iff)
next
  case (tunnel_ends host s started ended rounds r st used)
  note inv = handover_facts [OF tunnel_ends(4) [unfolded fst_conv snd_conv]]
  show ?case unfolding handover_def Let_def fst_conv snd_conv
    by (intro conjI allI impI; (simp add: remove_waiting_host_def split: if_splits)?; metis inv present_of subset_iff insert_iff)
qed (simp_all add: handover_stage handover_end_host handover_end_client, simp_all add: handover_def)

lemma length_insert_new: "\<not> has_key m k \<Longrightarrow> length (bt_entries (bt_insert k v m)) = Suc (length (bt_entries m))"
proof -
  assume "\<not> has_key m k"
  then have "{j. bt_get (bt_insert k v m) j \<noteq> None} = insert k {j. bt_get m j \<noteq> None}" "bt_get m k = None"
    by (auto simp: has_key_def)
  then show ?thesis using bt.finite_dom [of m] by (simp add: bt.length_entries del: bt_entries_insert)
qed

lemma length_insert_old: "has_key m k \<Longrightarrow> length (bt_entries (bt_insert k v m)) = length (bt_entries m)"
proof -
  assume "has_key m k"
  then have "{j. bt_get (bt_insert k v m) j \<noteq> None} = {j. bt_get m j \<noteq> None}" by (auto simp: has_key_def)
  then show ?thesis by (simp add: bt.length_entries del: bt_entries_insert)
qed

lemma length_remove_old: "has_key m k \<Longrightarrow> length (bt_entries m) = Suc (length (bt_entries (bt_remove k m)))"
proof -
  assume "has_key m k"
  then have "{j. bt_get m j \<noteq> None} = insert k {j. bt_get (bt_remove k m) j \<noteq> None}" by (auto simp: has_key_def)
  then show ?thesis using bt.finite_dom [of "bt_remove k m"] by (simp add: bt.length_entries del: bt_entries_remove)
qed

lemmas length_updates = length_insert_new length_insert_old length_remove_old

lemma counted_end_host: "counted s \<Longrightarrow> has_key (rs_hosts s) host \<Longrightarrow> counted (end_host host s)"
  using length_remove_old [of "rs_hosts s" host] by (simp add: counted_def end_host_def del: bt_entries_remove)

lemma counted_end_client: "counted s \<Longrightarrow> has_key (rs_clients s) client \<Longrightarrow> counted (end_client client s)"
  using length_remove_old [of "rs_clients s" client] by (simp add: counted_def end_client_def del: bt_entries_remove)

lemma counted_set_host: "counted s \<Longrightarrow> has_key (rs_hosts s) host \<Longrightarrow> counted (set_host host phase s)"
  by (simp add: counted_def set_host_def length_insert_old del: bt_entries_insert)

lemma counted_step:
  assumes "relay_step re config action x y" and "counted (snd x)" and "handover (fst x) (snd x)"
  shows "counted (snd y)"
  using assms
proof (induction rule: relay_step.induct)
  case (host_registers s os c keys waiting' used)
  then have "\<not> has_key (rs_hosts s) (rc_connection_id c)" using handover_facts(12) [of used s] by auto
  with host_registers show ?case by (simp add: counted_def set_host_def length_insert_new del: bt_entries_insert)
next
  case (client_claims s os c host route_id waiting' used)
  then have "\<not> has_key (rs_clients s) (rc_connection_id c)" using handover_facts(13) [of used s] by auto
  with client_claims show ?case by (simp add: counted_def length_insert_new del: bt_entries_insert)
next
  case (outer_refused s os refused waiting' used)
  then show ?case by (auto simp: counted_def)
next
  case (host_tunnels s host phase client sr used)
  with length_remove_old [of "rs_hosts s" host] show ?case by (simp add: counted_def del: bt_entries_remove)
next
  case (client_takes s client host route_id waiting' used)
  then show ?case by (simp add: counted_def length_insert_old del: bt_entries_insert)
next
  case (client_sends s client host route_id phase used)
  then have "counted (end_client client s)" "has_key (rs_hosts (end_client client s)) host"
    by (simp_all add: counted_end_client) (simp add: end_client_def)
  then show ?case by (simp add: counted_set_host)
next
  case (tunnel_ends host s started ended rounds r st used)
  then have "length (rs_running s) = Suc (length (remove1 host (rs_running s)))"
    by (simp add: length_remove1) (metis Suc_pred length_pos_if_in_set)
  with tunnel_ends show ?case by (simp add: counted_def)
qed (simp_all add: counted_set_host counted_end_host counted_end_client, simp_all add: counted_def)

lemma tunnels_step:
  assumes "relay_step re config action x y" and "relay_inv (fst x) (snd x)"
  shows "distinct (map fst (rs_tunnels (snd y))) \<and> distinct (map snd (rs_tunnels (snd y)))
    \<and> set (rs_running (snd y)) \<subseteq> tunnel_hosts (rs_tunnels (snd y))"
  using assms
proof (induction rule: relay_step.induct)
  case (host_tunnels s host phase client sr used)
  then have inv: "handover used s" by (simp add: relay_inv_def)
  have "inbox (rs_hosts s) client host" "has_key (rs_hosts s) host" using host_tunnels by simp_all
  then have "host \<notin> fst ` set (rs_tunnels s)" "client \<notin> snd ` set (rs_tunnels s)"
    using handover_facts(9,11) [OF inv] by (auto simp: tunnel_hosts_def tunnel_clients_def)
  with host_tunnels show ?case by (auto simp: relay_inv_def)
next
  case (tunnel_ends host s started ended rounds r st used)
  then show ?case using set_remove1_subset [of host "rs_running s"] by (auto simp: relay_inv_def)
qed (simp_all add: relay_inv_def set_host_def end_host_def end_client_def)

lemma relay_reachable_inv: "relay_reachable re config x \<Longrightarrow> relay_inv (fst x) (snd x)"
proof (induction rule: relay_reachable.induct)
  case (relay_next x action y)
  have "counted (snd x)" "handover (fst x) (snd x)" using relay_next(3) by (simp_all add: relay_inv_def)
  then show ?case
    using relay_next(3) registry_step [OF relay_next(2)] consistent_step [OF relay_next(2,3)] counted_step [OF relay_next(2)]
      handover_step [OF relay_next(2)] tunnels_step [OF relay_next(2,3)]
    by (simp add: relay_inv_def)
qed (simp add: relay_init_inv)

section \<open>Claims\<close>

lemma find_route_Some:
  "find_route route_id hosts = Some (host, key) \<Longrightarrow> host \<in> set hosts \<and> bt_get (wh_routes host) route_id = Some key"
  by (induction hosts) (auto split: option.splits)

lemma find_route_unique:
  assumes "host \<in> set hosts" "bt_get (wh_routes host) route_id = Some key"
    and "\<And>other k. other \<in> set hosts \<Longrightarrow> bt_get (wh_routes other) route_id = Some k \<Longrightarrow> other = host"
  shows "find_route route_id hosts = Some (host, key)"
  using assms
proof (induction hosts)
  case (Cons other hosts)
  show ?case
  proof (cases "bt_get (wh_routes other) route_id")
    case None
    then have "host \<in> set hosts" using Cons.prems(1,2) by auto
    then have "find_route route_id hosts = Some (host, key)"
      by (rule Cons.IH [OF _ Cons.prems(2)]) (rule Cons.prems(3), simp_all)
    then show ?thesis using None by simp
  next
    case (Some k)
    then have "other = host" using Cons.prems(3) by auto
    then show ?thesis using Cons.prems(2) by simp
  qed
qed simp

text \<open>In a reachable registry a registered route is found at its host.\<close>

lemma find_route_waiting:
  assumes "disjoint_routes waiting" "bt_get waiting k = Some host" "bt_get (wh_routes host) route_id = Some key"
  shows "find_route route_id (bt_values waiting) = Some (host, key)"
proof (rule find_route_unique)
  show "host \<in> set (bt_values waiting)" using assms(2) by (auto simp: set_bt_values)
  show "other = host" if other: "other \<in> set (bt_values waiting)" "bt_get (wh_routes other) route_id = Some x" for other x
  proof -
    obtain j where "bt_get waiting j = Some other" using other(1) by (auto simp: set_bt_values)
    with assms other(2) have "j = k" unfolding disjoint_routes_def by blast
    with \<open>bt_get waiting j = Some other\<close> assms(2) show ?thesis by simp
  qed
qed (rule assms(3))

lemma claim_route_sound:
  assumes "claim_route re c route_id proof waiting = Ok (host, key)"
  shows "\<exists>k h expected. bt_get waiting k = Some h \<and> wh_connection_id h = host \<and> bt_get (wh_routes h) route_id = Some key
    \<and> client_proof re key (rc_connection_id c) (rc_nonce c) (rc_expires_at c) route_id = Ok expected
    \<and> verify_proof re expected proof"
proof -
  obtain h where "find_route route_id (bt_values waiting) = Some (h, key)" "wh_connection_id h = host"
    and e: "\<exists>expected. client_proof re key (rc_connection_id c) (rc_nonce c) (rc_expires_at c) route_id = Ok expected
      \<and> verify_proof re expected proof"
    using assms by (auto simp: claim_route_def result_simps split: if_splits option.splits)
  then show ?thesis using find_route_Some [of route_id "bt_values waiting" h key] by (auto simp: set_bt_values)
qed

lemma insert_route_keys_get:
  assumes "insert_route_keys re routes keys = Ok keys'" and "distinct (map rr_route_id routes)"
    and "route \<in> set routes" and "relay_decode_32 re ''authentication_key'' (rr_authentication_key route) = Ok key"
  shows "bt_get keys' (rr_route_id route) = Some key"
  using assms
proof (induction routes arbitrary: keys)
  case (Cons r routes)
  have other: "bt_get m' k = bt_get m k" if "insert_route_keys re rs m = Ok m'" "k \<notin> rr_route_id ` set rs" for rs m m' k
    using that by (induction rs arbitrary: m) (auto simp: result_simps)
  from Cons.prems(1) obtain rkey where r: "relay_decode_32 re ''authentication_key'' (rr_authentication_key r) = Ok rkey"
    "insert_route_keys re routes (bt_insert (rr_route_id r) rkey keys) = Ok keys'" by (auto simp: result_simps)
  show ?case
  proof (cases "route = r")
    case True
    then show ?thesis using other [OF r(2), of "rr_route_id r"] Cons.prems(2,4) r(1) by auto
  next
    case False
    then show ?thesis using Cons.IH [OF r(2)] Cons.prems by auto
  qed
qed simp

lemma validate_routes_ordered:
  "validate_routes re previous routes = Ok () \<Longrightarrow>
     sorted_wrt (<) (map rr_route_id routes) \<and> (\<forall>v. previous = Some v \<longrightarrow> (\<forall>r \<in> set routes. v < rr_route_id r))"
proof (induction re previous routes rule: validate_routes.induct)
  case (2 re previous route routes)
  then have "validate_routes re (Some (rr_route_id route)) routes = Ok ()"
    and "\<forall>v. previous = Some v \<longrightarrow> v < rr_route_id route"
    by (auto simp: result_simps relay_invalid_def split: if_splits option.splits)
  with 2 show ?case by (auto simp: result_simps relay_invalid_def split: if_splits)
qed simp

end
