(* ===== verification/Relay_Properties.thy ===== *)
theory Relay_Properties
  imports Relay_Registry
begin

text \<open>
  The properties of the relay: its registry over every interleaving of the connection handlers, the
  authentication of hosts and clients, the control frames, and the tunnel.
\<close>

section \<open>The registry\<close>

lemma relay_registry_consistent_facts:
  assumes "relay_reachable re config (used, s)"
  shows "length (bt_entries (rs_waiting s)) \<le> MAX_WAITING_HOSTS \<and> MAX_WAITING_HOSTS = 17"
    and "bt_get (rs_waiting s) k = Some h \<Longrightarrow> bt_get (rs_waiting s) k' = Some h' \<Longrightarrow>
      bt_get (wh_routes h) route = Some key \<Longrightarrow> bt_get (wh_routes h') route = Some key' \<Longrightarrow> k = k'"
    and "bt_get (rs_waiting s) k = Some h \<Longrightarrow> wh_connection_id h = k"
    and "bt_get (rs_clients s) c = Some (Taken host, route) \<Longrightarrow>
      bt_get (rs_waiting s) host = None \<and> (\<forall>phase. bt_get (rs_hosts s) host = Some phase \<longrightarrow> hp_inbox phase = None)"
    and "distinct (map fst (rs_tunnels s)) \<and> distinct (map snd (rs_tunnels s))"
    and "rs_active s \<le> MAX_OUTER_CONNECTIONS \<and> rs_active s =
      rs_pending s + length (bt_entries (rs_hosts s)) + length (bt_entries (rs_clients s)) + length (rs_running s)"
proof -
  have inv: "relay_inv used s" using relay_reachable_inv [OF assms] by simp
  then have hand: "handover used s" by (simp add: relay_inv_def)
  show "length (bt_entries (rs_waiting s)) \<le> MAX_WAITING_HOSTS \<and> MAX_WAITING_HOSTS = 17"
    using inv by (simp add: relay_inv_def MAX_WAITING_HOSTS_def MAX_ROUTES_def)
  show "k = k'" if "bt_get (rs_waiting s) k = Some h" "bt_get (rs_waiting s) k' = Some h'"
      "bt_get (wh_routes h) route = Some key" "bt_get (wh_routes h') route = Some key'"
    using inv that unfolding relay_inv_def disjoint_routes_def by blast
  show "wh_connection_id h = k" if "bt_get (rs_waiting s) k = Some h"
    using inv that by (simp add: relay_inv_def waiting_consistent_def)
  show "bt_get (rs_waiting s) host = None \<and> (\<forall>phase. bt_get (rs_hosts s) host = Some phase \<longrightarrow> hp_inbox phase = None)"
    if taken: "bt_get (rs_clients s) c = Some (Taken host, route)"
  proof -
    have t: "taken (rs_clients s) c host" using taken by simp
    then have "\<not> has_key (rs_waiting s) host" "\<And>c'. \<not> inbox (rs_hosts s) c' host"
      using handover_facts(3,7) [OF hand] by blast+
    then show ?thesis unfolding has_key_def inbox_def by (metis not_None_eq)
  qed
  show "distinct (map fst (rs_tunnels s)) \<and> distinct (map snd (rs_tunnels s))" using inv by (simp add: relay_inv_def)
  show "rs_active s \<le> MAX_OUTER_CONNECTIONS \<and> rs_active s =
      rs_pending s + length (bt_entries (rs_hosts s)) + length (bt_entries (rs_clients s)) + length (rs_running s)"
    using inv by (simp add: relay_inv_def counted_def)
qed

text \<open>(C27) In every state the relay reaches, under any interleaving of registrations, claims, hand-overs and
  disconnections: at most seventeen hosts wait; no route belongs to two of them; a waiting host is registered under
  its own connection; a host that a client has taken no longer waits and its channel is empty, so handing the client
  over never blocks; no host and no client is in two tunnels; and the counter of connections is the number of
  handlers that have not ended, and stays within its cap.\<close>

theorem relay_registry_consistent:
  assumes "relay_reachable re config (used, s)"
  shows "length (bt_entries (rs_waiting s)) \<le> MAX_WAITING_HOSTS \<and> MAX_WAITING_HOSTS = 17
    \<and> (\<forall>k k' h h' route key key'. bt_get (rs_waiting s) k = Some h \<and> bt_get (rs_waiting s) k' = Some h'
         \<and> bt_get (wh_routes h) route = Some key \<and> bt_get (wh_routes h') route = Some key' \<longrightarrow> k = k')
    \<and> (\<forall>k h. bt_get (rs_waiting s) k = Some h \<longrightarrow> wh_connection_id h = k)
    \<and> (\<forall>c host route. bt_get (rs_clients s) c = Some (Taken host, route) \<longrightarrow>
         bt_get (rs_waiting s) host = None \<and> (\<forall>phase. bt_get (rs_hosts s) host = Some phase \<longrightarrow> hp_inbox phase = None))
    \<and> distinct (map fst (rs_tunnels s)) \<and> distinct (map snd (rs_tunnels s))
    \<and> rs_active s \<le> MAX_OUTER_CONNECTIONS
    \<and> rs_active s = rs_pending s + length (bt_entries (rs_hosts s)) + length (bt_entries (rs_clients s)) + length (rs_running s)"
  using relay_registry_consistent_facts [OF assms] by blast

section \<open>Sample\<close>

text \<open>A codec that numbers the messages of a list.\<close>

primrec message_number :: "nat \<Rightarrow> 'm list \<Rightarrow> 'm \<Rightarrow> nat option" where
  "message_number n [] m = None"
| "message_number n (x # xs) m = (if m = x then Some n else message_number (Suc n) xs m)"

definition number_message :: "'m list \<Rightarrow> 'm relay_envelope \<Rightarrow> (u8 list, ustring) result" where
  "number_message ms e = (if rv_relay_version e \<noteq> 1 then Err []
     else case message_number 1 ms (rv_message e) of None \<Rightarrow> Err [] | Some n \<Rightarrow> Ok [of_nat n])"

definition message_of_number :: "'m list \<Rightarrow> u8 list \<Rightarrow> ('m relay_envelope, ustring) result" where
  "message_of_number ms bytes =
     (if bytes = [] \<or> unat (hd bytes) = 0 \<or> length ms < unat (hd bytes) then Err []
      else Ok \<lparr>rv_relay_version = 1, rv_message = ms ! (unat (hd bytes) - 1)\<rparr>)"

lemma message_number_nth: "message_number n ms m = Some k \<Longrightarrow> n \<le> k \<and> k < n + length ms \<and> ms ! (k - n) = m"
proof (induction ms arbitrary: n)
  case (Cons x xs)
  show ?case
  proof (cases "m = x")
    case False
    with Cons.IH [of "Suc n"] Cons.prems have "Suc n \<le> k \<and> k < Suc n + length xs \<and> xs ! (k - Suc n) = m" by simp
    then show ?thesis by (simp add: nth_Cons' Suc_diff_le flip: Suc_diff_Suc)
  qed (use Cons.prems in simp)
qed simp

lemma number_message_inverse:
  fixes ms :: "'m list" and e :: "'m relay_envelope"
  assumes "length ms < 256" "number_message ms e = Ok bytes"
  shows "bytes \<noteq> [] \<and> message_of_number ms bytes = Ok e"
proof -
  obtain n where n: "rv_relay_version e = 1" "message_number 1 ms (rv_message e) = Some n" "bytes = [of_nat n]"
    using assms(2) by (auto simp: number_message_def split: if_splits option.splits)
  have k: "1 \<le> n" "n < 1 + length ms" "ms ! (n - 1) = rv_message e" using message_number_nth [OF n(2)] by simp_all
  have "unat (of_nat n :: u8) = n" using k(2) assms(1) by (simp add: unat_of_nat)
  then show ?thesis using n k by (simp add: message_of_number_def)
qed

definition rsm_endpoint_messages :: "endpoint_message list" where
  "rsm_endpoint_messages = [EndpointPong [5],
     HostHello [9] [\<lparr>rr_route_id = replicate 32 4, rr_authentication_key = replicate 32 4\<rparr>] (replicate 32 3),
     RelayClientHello (replicate 32 4) (replicate 32 4)]"

definition rsm_relay_messages :: "relay_message list" where
  "rsm_relay_messages = [RelayPing [5], RelayChallenge [1] (replicate 32 0) 100, RelayChallenge [2] (replicate 32 0) 100,
     RelayHostWaiting [1], RelayTunnelReady [1], RelayTunnelReady [2]]"

definition rsm_env :: relay_env where
  "rsm_env = \<lparr>re_uuid_parse = (\<lambda>s. Ok 7), re_uuid_version = (\<lambda>u. 7), re_uuid_bytes = (\<lambda>u. replicate 16 0),
     re_sha256 = (\<lambda>bytes. take 32 (bytes @ replicate 32 0)), re_hmac = (\<lambda>key bytes. Some (take 32 (key @ replicate 32 0))),
     re_url_encode = map unat, re_url_decode = (\<lambda>s. Ok (map of_nat s)),
     re_endpoint_to_vec = number_message rsm_endpoint_messages, re_endpoint_from_slice = message_of_number rsm_endpoint_messages,
     re_relay_to_vec = number_message rsm_relay_messages, re_relay_from_slice = message_of_number rsm_relay_messages\<rparr>"

lemma rsm_laws: "relay_laws rsm_env"
proof -
  have "length rsm_endpoint_messages < 256" "length rsm_relay_messages < 256"
    by (simp_all add: rsm_endpoint_messages_def rsm_relay_messages_def)
  note inverse = this [THEN number_message_inverse]
  show ?thesis using inverse by (auto simp: relay_laws_def rsm_env_def comp_def)
qed

lemma rsm_uuid: "relay_uuid rsm_env field t = Ok 7"
  by (simp add: relay_uuid_def rsm_env_def)

definition rsm_answers :: frame_answers where
  "rsm_answers = \<lparr>fa_length = Ok (), fa_payload = Ok (), fa_flush = Ok ()\<rparr>"

lemma rsm_frame: "write_frame rsm_answers [n] = Ok [0, 0, 0, 1, n]"
  by (simp add: write_frame_def rsm_answers_def MAX_CONTROL_BYTES_def to_be_bytes_def upt_rec)

lemma rsm_encode_endpoint:
  assumes "validate_endpoint rsm_env m = Ok ()" "message_number 1 rsm_endpoint_messages m = Some n"
  shows "write_endpoint rsm_env rsm_answers m = Ok [0, 0, 0, 1, of_nat n]"
  using assms
  by (simp add: write_endpoint_def encode_endpoint_def encode_control_def MAX_CONTROL_BYTES_def RELAY_PROTOCOL_VERSION_def
      rsm_env_def number_message_def rsm_frame)

lemma rsm_encode_relay:
  assumes "validate_relay rsm_env m = Ok ()" "message_number 1 rsm_relay_messages m = Some n"
  shows "write_relay rsm_env rsm_answers m = Ok [0, 0, 0, 1, of_nat n]"
  using assms
  by (simp add: write_relay_def encode_relay_def encode_control_def MAX_CONTROL_BYTES_def RELAY_PROTOCOL_VERSION_def
      rsm_env_def number_message_def rsm_frame)

lemma rsm_decodes: "relay_decodes rsm_env field (replicate 32 n) = Ok ()"
  by (simp add: relay_decodes_def relay_decode_32_def rsm_env_def)

lemma rsm_write_endpoint:
  "write_endpoint rsm_env rsm_answers (EndpointPong [5]) = Ok [0, 0, 0, 1, 1]"
  "write_endpoint rsm_env rsm_answers (HostHello [9] [\<lparr>rr_route_id = replicate 32 4, rr_authentication_key = replicate 32 4\<rparr>]
     (replicate 32 3)) = Ok [0, 0, 0, 1, 2]"
  "write_endpoint rsm_env rsm_answers (RelayClientHello (replicate 32 4) (replicate 32 4)) = Ok [0, 0, 0, 1, 3]"
  using rsm_encode_endpoint [of "EndpointPong [5]" 1] rsm_encode_endpoint [of "HostHello [9] _ (replicate 32 3)" 2]
    rsm_encode_endpoint [of "RelayClientHello (replicate 32 4) (replicate 32 4)" 3]
  by (simp_all add: relay_uuid_v7_def rsm_uuid rsm_decodes MAX_ROUTES_def rsm_endpoint_messages_def)

lemma rsm_write_relay:
  "write_relay rsm_env rsm_answers (RelayChallenge [1] (replicate 32 0) 100) = Ok [0, 0, 0, 1, 2]"
  "write_relay rsm_env rsm_answers (RelayChallenge [2] (replicate 32 0) 100) = Ok [0, 0, 0, 1, 3]"
  "write_relay rsm_env rsm_answers (RelayHostWaiting [1]) = Ok [0, 0, 0, 1, 4]"
  "write_relay rsm_env rsm_answers (RelayTunnelReady [1]) = Ok [0, 0, 0, 1, 5]"
  "write_relay rsm_env rsm_answers (RelayTunnelReady [2]) = Ok [0, 0, 0, 1, 6]"
  using rsm_encode_relay [of "RelayChallenge [1] (replicate 32 0) 100" 2] rsm_encode_relay [of "RelayChallenge [2] (replicate 32 0) 100" 3]
    rsm_encode_relay [of "RelayHostWaiting [1]" 4] rsm_encode_relay [of "RelayTunnelReady [1]" 5] rsm_encode_relay [of "RelayTunnelReady [2]" 6]
  by (simp_all add: relay_uuid_v7_def rsm_uuid rsm_decodes rsm_relay_messages_def)

definition rsm_endpoint :: relay_endpoint where
  "rsm_endpoint = \<lparr>rep_host = utf ''relay.example.com'', rep_port = 2333\<rparr>"

definition rsm_config :: relay_server_config where
  "rsm_config = \<lparr>rsc_host_id = [9], rsc_host_authentication_key = replicate 32 3\<rparr>"

definition rsm_credential :: relay_route_credential where
  "rsm_credential = \<lparr>rrc_route_id = replicate 32 4, rrc_authentication_key = replicate 32 4\<rparr>"

definition rsm_host :: relay_connection where
  "rsm_host = \<lparr>rc_connection_id = [1], rc_nonce = replicate 32 0, rc_expires_at = 100\<rparr>"

definition rsm_keys :: route_keys where
  "rsm_keys = bt_insert (replicate 32 4) (replicate 32 4) bt_empty"

definition rsm_routes :: "route_registration list" where
  "rsm_routes = [route_registration_of rsm_env rsm_credential]"

lemma rsm_derive: "derive_route rsm_env (replicate 32 4) rsm_endpoint = Ok rsm_credential"
  by (simp add: derive_route_def keyed_def rsm_env_def rsm_credential_def)

lemma rsm_decode: "relay_decode_32 rsm_env field (replicate 32 n) = Ok (replicate 32 (of_nat n))"
  by (simp add: relay_decode_32_def rsm_env_def)

lemma rsm_authenticates: "authenticate_host rsm_env rsm_config rsm_host [9] rsm_routes (replicate 32 3) = Ok rsm_keys"
proof -
  have routes: "rsm_routes = [\<lparr>rr_route_id = replicate 32 4, rr_authentication_key = replicate 32 4\<rparr>]"
    by (simp add: rsm_routes_def route_registration_of_def rsm_credential_def rsm_env_def)
  have key: "relay_decode_key rsm_env (replicate 32 3) = Ok (replicate 32 3)" by (simp add: relay_decode_key_def rsm_env_def)
  have uuid: "uuid_bytes rsm_env field t = Ok (replicate 16 0)" for field t by (simp add: uuid_bytes_def relay_uuid_def rsm_env_def)
  have keyed: "keyed rsm_env (replicate 32 3) [] t = Ok (replicate 32 3)" for t by (simp add: keyed_def rsm_env_def)
  have "host_proof rsm_env (replicate 32 3) [1] (replicate 32 0) 100 [9] rsm_routes = Ok (map unat (replicate 32 (3 :: u8)))"
    by (simp only: host_proof_def proof_prefix_def uuid keyed and_then.simps routes route_transcript.simps rsm_decode
        route_registration.select_convs list.size) (simp add: rsm_env_def)
  then show ?thesis
    by (simp add: authenticate_host_def rsm_config_def rsm_host_def key verify_proof_def rsm_decode)
      (simp add: routes rsm_decode rsm_keys_def)
qed

section \<open>Authentication\<close>

lemma relay_admits_only_proofs_facts:
  shows "authenticate_host re config c host_id routes proof = Ok keys \<Longrightarrow>
      \<exists>key digest connection host transcript. host_id = rsc_host_id config
        \<and> re_url_decode re (rsc_host_authentication_key config) = Ok key
        \<and> uuid_bytes re ''connection_id'' (rc_connection_id c) = Ok connection \<and> uuid_bytes re ''host_id'' host_id = Ok host
        \<and> route_transcript re routes = Ok transcript
        \<and> re_hmac re key (PROOF_DOMAIN @ HOST_PROOF_ROLE # connection @ rc_nonce c @ i64_be_bytes (rc_expires_at c)
             @ host @ to_be_bytes 2 (length routes) @ transcript) = Some digest
        \<and> (relay_laws re \<longrightarrow> re_url_decode re proof = Ok digest)"
    and "claim_route re c route_id proof waiting = Ok (host_connection, key) \<Longrightarrow>
      \<exists>k h digest connection route. bt_get waiting k = Some h \<and> wh_connection_id h = host_connection
        \<and> bt_get (wh_routes h) route_id = Some key
        \<and> uuid_bytes re ''connection_id'' (rc_connection_id c) = Ok connection \<and> re_url_decode re route_id = Ok route
        \<and> re_hmac re key (PROOF_DOMAIN @ CLIENT_PROOF_ROLE # connection @ rc_nonce c @ i64_be_bytes (rc_expires_at c) @ route) = Some digest
        \<and> (relay_laws re \<longrightarrow> re_url_decode re proof = Ok digest)"
proof -
  have decoded: "re_url_decode re proof = Ok digest" if "relay_laws re" "verify_proof re (re_url_encode re digest) proof" for digest
    using that by (auto simp: verify_proof_def relay_decode_32_def relay_laws_def relay_invalid_def result_simps split: sum.splits if_splits)
  show "\<exists>key digest connection host transcript. host_id = rsc_host_id config
        \<and> re_url_decode re (rsc_host_authentication_key config) = Ok key
        \<and> uuid_bytes re ''connection_id'' (rc_connection_id c) = Ok connection \<and> uuid_bytes re ''host_id'' host_id = Ok host
        \<and> route_transcript re routes = Ok transcript
        \<and> re_hmac re key (PROOF_DOMAIN @ HOST_PROOF_ROLE # connection @ rc_nonce c @ i64_be_bytes (rc_expires_at c)
             @ host @ to_be_bytes 2 (length routes) @ transcript) = Some digest
        \<and> (relay_laws re \<longrightarrow> re_url_decode re proof = Ok digest)"
    if auth: "authenticate_host re config c host_id routes proof = Ok keys"
  proof -
    obtain key expected where key: "relay_decode_key re (rsc_host_authentication_key config) = Ok key"
      and expected: "host_proof re key (rc_connection_id c) (rc_nonce c) (rc_expires_at c) host_id routes = Ok expected"
      and ok: "host_id = rsc_host_id config" "verify_proof re expected proof"
      using auth by (auto simp: authenticate_host_def result_simps split: if_splits)
    have "re_url_decode re (rsc_host_authentication_key config) = Ok key"
      using key by (auto simp: relay_decode_key_def relay_invalid_def result_simps split: if_splits)
    moreover obtain connection host transcript digest where "uuid_bytes re ''connection_id'' (rc_connection_id c) = Ok connection"
      "uuid_bytes re ''host_id'' host_id = Ok host" "route_transcript re routes = Ok transcript"
      "re_hmac re key (PROOF_DOMAIN @ HOST_PROOF_ROLE # connection @ rc_nonce c @ i64_be_bytes (rc_expires_at c)
             @ host @ to_be_bytes 2 (length routes) @ transcript) = Some digest" "expected = re_url_encode re digest"
      using expected by (auto simp: host_proof_def proof_prefix_def keyed_def relay_invalid_def result_simps split: if_splits)
    ultimately show ?thesis using ok decoded by blast
  qed
  show "\<exists>k h digest connection route. bt_get waiting k = Some h \<and> wh_connection_id h = host_connection
        \<and> bt_get (wh_routes h) route_id = Some key
        \<and> uuid_bytes re ''connection_id'' (rc_connection_id c) = Ok connection \<and> re_url_decode re route_id = Ok route
        \<and> re_hmac re key (PROOF_DOMAIN @ CLIENT_PROOF_ROLE # connection @ rc_nonce c @ i64_be_bytes (rc_expires_at c) @ route) = Some digest
        \<and> (relay_laws re \<longrightarrow> re_url_decode re proof = Ok digest)"
    if claim: "claim_route re c route_id proof waiting = Ok (host_connection, key)"
  proof -
    obtain k h expected where h: "bt_get waiting k = Some h" "wh_connection_id h = host_connection" "bt_get (wh_routes h) route_id = Some key"
      and expected: "client_proof re key (rc_connection_id c) (rc_nonce c) (rc_expires_at c) route_id = Ok expected"
      and ok: "verify_proof re expected proof" using claim_route_sound [OF claim] by blast
    obtain connection route digest where "uuid_bytes re ''connection_id'' (rc_connection_id c) = Ok connection"
      "re_url_decode re route_id = Ok route"
      "re_hmac re key (PROOF_DOMAIN @ CLIENT_PROOF_ROLE # connection @ rc_nonce c @ i64_be_bytes (rc_expires_at c) @ route) = Some digest"
      "expected = re_url_encode re digest"
      using expected
      by (auto simp: client_proof_def proof_prefix_def keyed_def relay_decode_32_def relay_invalid_def result_simps split: if_splits)
    then show ?thesis using h ok decoded by blast
  qed
qed

text \<open>(C29) The relay admits only proofs of this connection's challenge. A host is authenticated only if it names the
  configured Host and its proof decodes to the HMAC, under the configured key, of the host role, the connection, the
  nonce, the expiry, the Host and all its routes; a client claims a host only if that host waits with the claimed
  route and the proof decodes to the HMAC, under the key that host registered for the route, of the client role, the
  connection, the nonce, the expiry and the route.\<close>

theorem relay_admits_only_proofs:
  "(authenticate_host re config c host_id routes proof = Ok keys \<longrightarrow>
      (\<exists>key digest connection host transcript. host_id = rsc_host_id config
        \<and> re_url_decode re (rsc_host_authentication_key config) = Ok key
        \<and> uuid_bytes re ''connection_id'' (rc_connection_id c) = Ok connection \<and> uuid_bytes re ''host_id'' host_id = Ok host
        \<and> route_transcript re routes = Ok transcript
        \<and> re_hmac re key (PROOF_DOMAIN @ HOST_PROOF_ROLE # connection @ rc_nonce c @ i64_be_bytes (rc_expires_at c)
             @ host @ to_be_bytes 2 (length routes) @ transcript) = Some digest
        \<and> (relay_laws re \<longrightarrow> re_url_decode re proof = Ok digest)))
   \<and> (claim_route re c route_id proof waiting = Ok (host_connection, route_key) \<longrightarrow>
      (\<exists>k h digest connection route. bt_get waiting k = Some h \<and> wh_connection_id h = host_connection
        \<and> bt_get (wh_routes h) route_id = Some route_key
        \<and> uuid_bytes re ''connection_id'' (rc_connection_id c) = Ok connection \<and> re_url_decode re route_id = Ok route
        \<and> re_hmac re route_key (PROOF_DOMAIN @ CLIENT_PROOF_ROLE # connection @ rc_nonce c @ i64_be_bytes (rc_expires_at c) @ route)
            = Some digest
        \<and> (relay_laws re \<longrightarrow> re_url_decode re proof = Ok digest)))"
  by (intro conjI impI) (erule relay_admits_only_proofs_facts)+

theorem relay_admits_only_proofs_witness:
  "authenticate_host rsm_env rsm_config rsm_host [9] rsm_routes (replicate 32 3) = Ok rsm_keys
   \<and> (\<exists>key digest bytes. re_url_decode rsm_env (rsc_host_authentication_key rsm_config) = Ok key \<and> re_hmac rsm_env key bytes = Some digest
        \<and> re_url_decode rsm_env (replicate 32 3) = Ok digest)"
  using relay_admits_only_proofs [of rsm_env rsm_config rsm_host "[9]" rsm_routes "replicate 32 3" rsm_keys] rsm_laws rsm_authenticates by blast

section \<open>From a Hello to a tunnel\<close>

lemma relay_frames_round_trip_facts:
  assumes "relay_laws re"
  shows "write_endpoint re fa m = Ok bytes \<Longrightarrow>
      \<exists>payload. read_frame e (bytes @ rest) = Ok (payload, rest) \<and> decode_endpoint re payload = Ok m"
    and "write_relay re fa n = Ok bytes \<Longrightarrow> read_relay re e (bytes @ rest) = Ok (n, rest)"
    and "announced = 0 \<or> announced > 16 * 1024 \<Longrightarrow> announced < 2 ^ 32 \<Longrightarrow>
      \<exists>reason. read_frame e (to_be_bytes 4 announced @ rest) = Err (RelayInvalidField ''control_frame'' reason)"
    and "write_endpoint re fa m = Ok bytes \<Longrightarrow> j < length bytes \<Longrightarrow> \<exists>operation. read_frame e (take j bytes) = Err (RelayIo operation e)"
proof -
  show "\<exists>payload. read_frame e (bytes @ rest) = Ok (payload, rest) \<and> decode_endpoint re payload = Ok m"
    if w: "write_endpoint re fa m = Ok bytes"
  proof -
    obtain payload where payload: "encode_endpoint re m = Ok payload" "write_frame fa payload = Ok bytes"
      using w by (auto simp: write_endpoint_def result_simps)
    moreover from payload(1) have "validate_endpoint re m = Ok ()" by (auto simp: encode_endpoint_def result_simps)
    ultimately show ?thesis using endpoint_codec.round [OF assms] frame_round_trip by blast
  qed
  show "read_relay re e (bytes @ rest) = Ok (n, rest)" if w: "write_relay re fa n = Ok bytes"
  proof -
    obtain payload where payload: "encode_relay re n = Ok payload" "write_frame fa payload = Ok bytes"
      using w by (auto simp: write_relay_def result_simps)
    moreover from payload(1) have "validate_relay re n = Ok ()" by (auto simp: encode_relay_def result_simps)
    ultimately show ?thesis using relay_codec.round [OF assms] frame_round_trip [of fa payload bytes e rest] by (simp add: read_relay_def)
  qed
  show "\<exists>reason. read_frame e (to_be_bytes 4 announced @ rest) = Err (RelayInvalidField ''control_frame'' reason)"
    if "announced = 0 \<or> announced > 16 * 1024" "announced < 2 ^ 32"
    using that be_bytes_inverse [of announced 4] by (auto simp: read_frame_def read_exact_def relay_invalid_def MAX_CONTROL_BYTES_def)
  show "\<exists>operation. read_frame e (take j bytes) = Err (RelayIo operation e)" if "write_endpoint re fa m = Ok bytes" "j < length bytes"
    using that frame_cut by (auto simp: write_endpoint_def result_simps)
qed

lemma insert_route_keys_total:
  "validate_routes re previous routes = Ok () \<Longrightarrow> \<exists>keys'. insert_route_keys re routes keys = Ok keys'"
proof (induction re previous routes arbitrary: keys rule: validate_routes.induct)
  case (2 re previous route routes)
  then obtain key where "relay_decode_32 re ''authentication_key'' (rr_authentication_key route) = Ok key"
    and "validate_routes re (Some (rr_route_id route)) routes = Ok ()"
    and "\<not> (case previous of Some v \<Rightarrow> v \<ge> rr_route_id route | None \<Rightarrow> False)"
    by (auto simp: relay_decodes_def relay_invalid_def result_simps split: if_splits)
  with 2 show ?case by (auto simp: relay_decodes_def result_simps)
qed simp

lemma insert_route_keys_dom:
  "insert_route_keys re routes keys = Ok keys' \<Longrightarrow> bt_get keys' r = Some key \<Longrightarrow> bt_get keys r = None \<Longrightarrow> r \<in> rr_route_id ` set routes"
proof (induction routes arbitrary: keys)
  case (Cons route routes)
  from Cons.prems(1) obtain x where "insert_route_keys re routes (bt_insert (rr_route_id route) x keys) = Ok keys'"
    by (auto simp: result_simps)
  with Cons.IH [of "bt_insert (rr_route_id route) x keys"] Cons.prems(2,3) show ?case by (cases "r = rr_route_id route") auto
qed simp

text \<open>A Host whose hello is valid and whose settings agree with those of the relay is authenticated, with the key of
  each of its routes.\<close>

lemma host_hello_authenticates:
  assumes laws: "relay_laws re"
    and same: "rsc_host_id config = rhc_host_id host_config"
      "rsc_host_authentication_key config = re_url_encode re (rhc_host_authentication_key host_config)"
      "length (rhc_host_authentication_key host_config) = 32"
    and hello: "host_hello re host_config c routes = Ok (HostHello host_id sent given)"
    and valid: "validate_endpoint re (HostHello host_id sent given) = Ok ()"
  shows "\<exists>keys. authenticate_host re config c host_id sent given = Ok keys \<and> insert_route_keys re sent bt_empty = Ok keys
    \<and> set sent = set routes \<and> distinct (map rr_route_id sent)"
proof -
  have sent: "sent = sort_key rr_route_id routes" "host_id = rhc_host_id host_config"
    and given: "host_proof re (rhc_host_authentication_key host_config) (rc_connection_id c) (rc_nonce c) (rc_expires_at c) host_id sent
      = Ok given" using hello by (auto simp: host_hello_def Let_def result_simps)
  have routes: "validate_routes re None sent = Ok ()"
    using valid by (auto simp: relay_invalid_def result_simps split: if_splits)
  then obtain keys where keys: "insert_route_keys re sent bt_empty = Ok keys" using insert_route_keys_total by blast
  have "relay_decode_key re (rsc_host_authentication_key config) = Ok (rhc_host_authentication_key host_config)"
    using laws same by (simp add: relay_decode_key_def relay_laws_def)
  then have "authenticate_host re config c host_id sent given = Ok keys"
    using given host_proof_verifies [OF laws given] same sent keys by (simp add: authenticate_host_def)
  moreover have "distinct (map rr_route_id sent)"
    using validate_routes_ordered [OF routes] strict_sorted_iff by blast
  ultimately show ?thesis using keys sent by auto
qed

text \<open>A client that answers its challenge with the key registered for its route claims the host of that route.\<close>

lemma client_hello_claims:
  assumes "relay_laws re" and inv: "disjoint_routes waiting" and "bt_get waiting k = Some h" "wh_connection_id h = k"
    and "bt_get (wh_routes h) route_id = Some key"
    and hello: "build_client_hello re key route_id (fst (relay_challenge re nonce connection_id now)) = Ok (RelayClientHello sent given)"
    and "length nonce = 32"
  shows "sent = route_id \<and> claim_route re \<lparr>rc_connection_id = connection_id, rc_nonce = nonce, rc_expires_at = now + 10\<rparr> route_id given waiting
    = Ok (k, key)"
proof -
  have "client_proof re key connection_id nonce (now + 10) route_id = Ok given" "sent = route_id"
    using hello assms(1,7) by (auto simp: build_client_hello_def relay_challenge_def relay_decode_encode result_simps)
  moreover have "\<not> bt_is_empty waiting" using assms(3) by (cases "bt_entries waiting = []") (auto simp: bt_is_empty_def bt_get_def)
  ultimately show ?thesis
    using find_route_waiting [OF inv assms(3,5)] client_proof_verifies [OF assms(1)] assms(4) by (simp add: claim_route_def)
qed

lemma challenge_connection_Ok:
  "challenge_connection re os = Ok c \<Longrightarrow>
     c = \<lparr>rc_connection_id = os_connection_id os, rc_nonce = os_nonce os, rc_expires_at = os_issued os + 10\<rparr>"
  by (auto simp: challenge_connection_def relay_challenge_def result_simps)

text \<open>A first message that was framed and arrives before the challenge expires is admitted if its proof is good.\<close>

lemma outer_role_of_written:
  assumes "relay_laws re" "write_endpoint re fa hello = Ok bytes" "now < rc_expires_at c"
  shows "outer_role_of re e (bytes @ rest) c now =
    (case hello of HostHello host_id routes proof \<Rightarrow> Ok (RoleHost host_id routes proof)
     | RelayClientHello route_id proof \<Rightarrow> Ok (RoleClient route_id proof)
     | EndpointPong _ \<Rightarrow> Err (Some (RcInvalidHandshake, ''first endpoint message must authenticate a role'', False),
         RelayProtocolError (utf ''unexpected Pong before authentication'')))"
proof -
  obtain payload where "read_frame e (bytes @ rest) = Ok (payload, rest)" "decode_endpoint re payload = Ok hello"
    using relay_frames_round_trip_facts(1) [OF assms(1,2)] by blast
  with assms(3) show ?thesis by (simp add: outer_role_of_def)
qed

lemma admit_host:
  assumes "relay_laws re" "challenge_connection re os = Ok c" "write_endpoint re fa (HostHello host_id routes given) = Ok bytes"
    and "os_stream os = bytes @ rest" "os_now os < rc_expires_at c"
    and "authenticate_host re config c host_id routes given = Ok keys"
    and "register_host (rc_connection_id c) keys waiting = (Ok (), waiting')"
  shows "admit_outer re config os waiting = (Ok (HostAdmitted c keys), waiting')"
  using assms(2,4,6,7) by (simp add: admit_outer_def outer_role_of_written [OF assms(1,3,5)])

lemma admit_client:
  assumes "relay_laws re" "challenge_connection re os = Ok c" "write_endpoint re fa (RelayClientHello route_id given) = Ok bytes"
    and "os_stream os = bytes @ rest" "os_now os < rc_expires_at c"
    and "claim_route re c route_id given waiting = Ok (host, key)"
  shows "admit_outer re config os waiting = (Ok (ClientAdmitted c host route_id), waiting)"
  using assms(2,4,6) by (simp add: admit_outer_def outer_role_of_written [OF assms(1,3,5)])

text \<open>An admitted host whose \<open>HostWaiting\<close> goes out waits in its channel, while the relay is not stopped.\<close>

lemma host_arrives:
  assumes room: "\<not> rs_stop s" "rs_active s < MAX_OUTER_CONNECTIONS"
    and admitted: "admit_outer re config os (rs_waiting s) = (Ok (HostAdmitted c keys), waiting')"
    and fresh: "rc_connection_id c \<notin> used" and announced: "write_relay re fa (RelayHostWaiting (rc_connection_id c)) = Ok bytes"
  shows "\<exists>s'. relay_run re config [AcceptOuter, AdmitOuter os, AnnounceWaiting (rc_connection_id c) fa, PollChannel (rc_connection_id c)]
      (used, s) (insert (rc_connection_id c) used, s')
    \<and> \<not> rs_stop s' \<and> rs_active s' = rs_active s + 1 \<and> rs_waiting s' = waiting'
    \<and> bt_get (rs_hosts s') (rc_connection_id c) = Some \<lparr>hp_stage = HostPolling, hp_inbox = None, hp_keys = keys\<rparr>"
proof -
  let ?k = "rc_connection_id c" and ?used = "insert (rc_connection_id c) used"
  define s1 where "s1 = s\<lparr>rs_active := rs_active s + 1, rs_pending := rs_pending s + 1\<rparr>"
  define s2 where "s2 = set_host ?k \<lparr>hp_stage = HostRegistered, hp_inbox = None, hp_keys = keys\<rparr>
    (s1\<lparr>rs_pending := rs_pending s1 - 1, rs_waiting := waiting'\<rparr>)"
  define s3 where "s3 = set_host ?k \<lparr>hp_stage = HostIdle, hp_inbox = None, hp_keys = keys\<rparr> s2"
  define s4 where "s4 = set_host ?k \<lparr>hp_stage = HostPolling, hp_inbox = None, hp_keys = keys\<rparr> s3"
  note states = s4_def s3_def s2_def s1_def set_host_def
  have "relay_step re config AcceptOuter (used, s) (used, s1)"
    unfolding s1_def using room by (intro outer_accepted) simp_all
  moreover have "relay_step re config (AdmitOuter os) (used, s1) (?used, s2)"
    unfolding s2_def using admitted fresh by (intro host_registers) (simp_all add: s1_def)
  moreover have "relay_step re config (AnnounceWaiting ?k fa) (?used, s2) (?used, s3)"
    using host_announces [of s2 ?k "\<lparr>hp_stage = HostRegistered, hp_inbox = None, hp_keys = keys\<rparr>", OF _ _ announced]
    by (simp add: states)
  moreover have "relay_step re config (PollChannel ?k) (?used, s3) (?used, s4)"
    using host_polls [of s3 ?k "\<lparr>hp_stage = HostIdle, hp_inbox = None, hp_keys = keys\<rparr>"] room
    by (simp add: states)
  ultimately have "relay_run re config [AcceptOuter, AdmitOuter os, AnnounceWaiting ?k fa, PollChannel ?k] (used, s) (?used, s4)"
    by (meson relay_run.intros)
  moreover have "\<not> rs_stop s4 \<and> rs_active s4 = rs_active s + 1 \<and> rs_waiting s4 = waiting'
    \<and> bt_get (rs_hosts s4) ?k = Some \<lparr>hp_stage = HostPolling, hp_inbox = None, hp_keys = keys\<rparr>"
    using room by (simp add: states)
  ultimately show ?thesis by blast
qed

text \<open>A client that claims a host in that place finishes the hand-over.\<close>

lemma client_arrives:
  assumes room: "\<not> rs_stop s" "rs_active s < MAX_OUTER_CONNECTIONS"
    and admitted: "admit_outer re config os (rs_waiting s) = (Ok (ClientAdmitted c k route_id), waiting')"
    and fresh: "rc_connection_id c \<notin> used" and waits: "bt_get (rs_waiting s) k = Some h"
    and host: "bt_get (rs_hosts s) k = Some phase" "hp_stage phase = HostPolling" "hp_inbox phase = None"
    and matched: "match_client re k (rc_connection_id c) sr = Ok (rc_connection_id c)"
  shows "\<exists>s'. relay_run re config [AcceptOuter, AdmitOuter os, TakeHost (rc_connection_id c), SendClient (rc_connection_id c), MatchClient k sr]
      (used, s) (insert (rc_connection_id c) used, s')
    \<and> (k, rc_connection_id c) \<in> set (rs_tunnels s') \<and> k \<in> set (rs_running s') \<and> bt_get (rs_waiting s') k = None"
proof -
  let ?c = "rc_connection_id c" and ?used = "insert (rc_connection_id c) used"
  define s1 where "s1 = s\<lparr>rs_active := rs_active s + 1, rs_pending := rs_pending s + 1\<rparr>"
  define s2 where "s2 = s1\<lparr>rs_pending := rs_pending s1 - 1, rs_clients := bt_insert ?c (Claimed k, route_id) (rs_clients s1)\<rparr>"
  define s3 where "s3 = s2\<lparr>rs_waiting := bt_remove k (rs_waiting s2), rs_clients := bt_insert ?c (Taken k, route_id) (rs_clients s2)\<rparr>"
  define s4 where "s4 = set_host k (phase\<lparr>hp_inbox := Some ?c\<rparr>) (end_client ?c s3)"
  define s5 where "s5 = s4\<lparr>rs_hosts := bt_remove k (rs_hosts s4), rs_running := rs_running s4 @ [k], rs_tunnels := rs_tunnels s4 @ [(k, ?c)]\<rparr>"
  note states = s4_def s3_def s2_def s1_def set_host_def end_client_def
  have "relay_step re config AcceptOuter (used, s) (used, s1)"
    unfolding s1_def using room by (intro outer_accepted) simp_all
  moreover have "relay_step re config (AdmitOuter os) (used, s1) (?used, s2)"
    unfolding s2_def using admitted fresh by (intro client_claims) (simp_all add: s1_def)
  moreover have "relay_step re config (TakeHost ?c) (?used, s2) (?used, s3)"
    unfolding s3_def by (rule client_takes) (use waits in \<open>simp_all add: states take_host_def\<close>)
  moreover have "relay_step re config (SendClient ?c) (?used, s3) (?used, s4)"
    unfolding s4_def by (rule client_sends) (use host in \<open>simp_all add: states\<close>)
  moreover have "relay_step re config (MatchClient k sr) (?used, s4) (?used, s5)"
    unfolding s5_def by (rule host_tunnels [where phase = "phase\<lparr>hp_inbox := Some ?c\<rparr>"]) (use host matched in \<open>simp_all add: states\<close>)
  ultimately have "relay_run re config [AcceptOuter, AdmitOuter os, TakeHost ?c, SendClient ?c, MatchClient k sr] (used, s) (?used, s5)"
    by (meson relay_run.intros)
  moreover have "(k, ?c) \<in> set (rs_tunnels s5) \<and> k \<in> set (rs_running s5) \<and> bt_get (rs_waiting s5) k = None"
    by (simp add: s5_def states)
  ultimately show ?thesis by blast
qed

text \<open>The schedule in which the Host of one connection and the device of another meet.\<close>

definition meeting ::
  "outer_script \<Rightarrow> frame_answers \<Rightarrow> outer_script \<Rightarrow> relay_serve_round \<Rightarrow> relay_action list" where
  "meeting host_os fa device_os sr =
     [AcceptOuter, AdmitOuter host_os, AnnounceWaiting (os_connection_id host_os) fa, PollChannel (os_connection_id host_os)]
     @ [AcceptOuter, AdmitOuter device_os, TakeHost (os_connection_id device_os), SendClient (os_connection_id device_os),
        MatchClient (os_connection_id host_os) sr]"

text \<open>A Host with good settings registers, and the key of each of its routes is in the registry.\<close>

lemma paired_host_admitted:
  assumes "relay_laws re"
    and "rsc_host_id config = rhc_host_id host_config"
      "rsc_host_authentication_key config = re_url_encode re (rhc_host_authentication_key host_config)"
      "length (rhc_host_authentication_key host_config) = 32"
    and "derive_route re root endpoint = Ok credential" "route_registration_of re credential \<in> set routes"
    and "length (bt_entries waiting) < MAX_WAITING_HOSTS"
      "\<forall>route \<in> set routes. \<forall>k h. bt_get waiting k = Some h \<longrightarrow> bt_get (wh_routes h) (rr_route_id route) = None"
    and "challenge_connection re os = Ok c" "host_hello re host_config c routes = Ok hello"
      "write_endpoint re fa hello = Ok bytes" "os_stream os = bytes @ rest" "os_now os < os_issued os + 10"
  shows "\<exists>keys. admit_outer re config os waiting = (Ok (HostAdmitted c keys),
      bt_insert (rc_connection_id c) \<lparr>wh_connection_id = rc_connection_id c, wh_routes = keys\<rparr> waiting)
    \<and> bt_get keys (rrc_route_id credential) = Some (rrc_authentication_key credential)"
proof -
  obtain host_id sent given where hello: "hello = HostHello host_id sent given"
    using assms(10) by (auto simp: host_hello_def Let_def result_simps)
  have "validate_endpoint re hello = Ok ()" using assms(11) by (auto simp: write_endpoint_def encode_endpoint_def result_simps)
  then obtain keys where auth: "authenticate_host re config c host_id sent given = Ok keys"
    and keys: "insert_route_keys re sent bt_empty = Ok keys" and sent: "set sent = set routes" "distinct (map rr_route_id sent)"
    using host_hello_authenticates [OF assms(1-4)] assms(10) unfolding hello by blast
  have "length (rrc_authentication_key credential) = 32"
    using assms(1,5) by (auto simp: derive_route_def keyed_def relay_laws_def result_simps)
  then have key: "bt_get keys (rrc_route_id credential) = Some (rrc_authentication_key credential)"
    using insert_route_keys_get [OF keys sent(2), of "route_registration_of re credential"] assms(6) sent(1)
    by (simp add: route_registration_of_def relay_decode_encode [OF assms(1)])
  have "\<not> routes_overlap waiting keys"
    using insert_route_keys_dom [OF keys] assms(8) sent(1) unfolding routes_overlap_iff by fastforce
  then have "register_host (rc_connection_id c) keys waiting
      = (Ok (), bt_insert (rc_connection_id c) \<lparr>wh_connection_id = rc_connection_id c, wh_routes = keys\<rparr> waiting)"
    using assms(7) by (simp add: register_host_def)
  moreover have "os_now os < rc_expires_at c" using challenge_connection_Ok [OF assms(9)] assms(13) by simp
  ultimately show ?thesis using admit_host [OF assms(1,9) assms(11) [unfolded hello] assms(12) _ auth] key by blast
qed

text \<open>(C28) A paired device reaches its Host. Let the Host and the relay be set up with the same identity and key, let the
  Host register routes among which is the one derived from the device's root, and let the device derive its route
  from the same root. Let the relay not be stopped and have room: for two more connections, for one more waiting
  host, and none that waits has one of the routes. If both connections get their challenge, the Hellos they answer
  with arrive before their challenge expires, and the relay's own messages go out, then the schedule in which the
  Host registers, announces itself and waits, and the device claims, takes and joins it, runs to its end, and it can
  only end in a tunnel between these two connections.\<close>

theorem relay_connects_paired_device:
  assumes "relay_laws re" and "relay_reachable re config (used, s)"
    and "rsc_host_id config = rhc_host_id host_config"
      "rsc_host_authentication_key config = re_url_encode re (rhc_host_authentication_key host_config)"
      "length (rhc_host_authentication_key host_config) = 32"
    and "derive_route re root endpoint = Ok credential" "route_registration_of re credential \<in> set routes"
    and "length (bt_entries (rs_waiting s)) < MAX_WAITING_HOSTS"
      "\<forall>route \<in> set routes. \<forall>k h. bt_get (rs_waiting s) k = Some h \<longrightarrow> bt_get (wh_routes h) (rr_route_id route) = None"
    and "challenge_connection re host_os = Ok c" "host_hello re host_config c routes = Ok hello"
      "write_endpoint re host_fa hello = Ok bytes" "os_stream host_os = bytes @ rest" "os_now host_os < os_issued host_os + 10"
    and "challenge_connection re device_os = Ok d" "length (os_nonce device_os) = 32"
      "build_client_hello re (rrc_authentication_key credential) (rrc_route_id credential)
         (fst (relay_challenge re (os_nonce device_os) (os_connection_id device_os) (os_issued device_os))) = Ok client_hello"
      "write_endpoint re device_fa client_hello = Ok device_bytes" "os_stream device_os = device_bytes @ device_rest"
      "os_now device_os < os_issued device_os + 10"
    and "\<not> rs_stop s" "rs_active s + 2 \<le> MAX_OUTER_CONNECTIONS"
    and "os_connection_id host_os \<notin> used" "os_connection_id device_os \<notin> used" "os_connection_id device_os \<noteq> os_connection_id host_os"
    and "write_relay re fa (RelayHostWaiting (os_connection_id host_os)) = Ok announced"
      "write_relay re (sr_host_write sr) (RelayTunnelReady (os_connection_id device_os)) = Ok to_host"
      "write_relay re (sr_client_write sr) (RelayTunnelReady (os_connection_id host_os)) = Ok to_device"
      "sr_nonblocking sr = (Ok (), Ok ())"
  shows "(\<exists>y. relay_run re config (meeting host_os fa device_os sr) (used, s) y)
    \<and> (\<forall>used' s'. relay_run re config (meeting host_os fa device_os sr) (used, s) (used', s') \<longrightarrow>
         (os_connection_id host_os, os_connection_id device_os) \<in> set (rs_tunnels s') \<and> os_connection_id host_os \<in> set (rs_running s')
         \<and> bt_get (rs_waiting s') (os_connection_id host_os) = None)"
proof -
  let ?k = "os_connection_id host_os" and ?d = "os_connection_id device_os" and ?used = "insert (os_connection_id host_os) used"
  have c: "rc_connection_id c = ?k" using challenge_connection_Ok [OF assms(10)] by simp
  have d: "d = \<lparr>rc_connection_id = ?d, rc_nonce = os_nonce device_os, rc_expires_at = os_issued device_os + 10\<rparr>"
    by (rule challenge_connection_Ok [OF assms(15)])
  obtain keys where host: "admit_outer re config host_os (rs_waiting s) = (Ok (HostAdmitted c keys),
      bt_insert ?k \<lparr>wh_connection_id = ?k, wh_routes = keys\<rparr> (rs_waiting s))"
    and key: "bt_get keys (rrc_route_id credential) = Some (rrc_authentication_key credential)"
    using paired_host_admitted [OF assms(1,3-14)] unfolding c by blast
  obtain s1 where run1: "relay_run re config [AcceptOuter, AdmitOuter host_os, AnnounceWaiting ?k fa, PollChannel ?k] (used, s) (?used, s1)"
    and s1: "\<not> rs_stop s1" "rs_active s1 = rs_active s + 1"
      "rs_waiting s1 = bt_insert ?k \<lparr>wh_connection_id = ?k, wh_routes = keys\<rparr> (rs_waiting s)"
      "bt_get (rs_hosts s1) ?k = Some \<lparr>hp_stage = HostPolling, hp_inbox = None, hp_keys = keys\<rparr>"
    using host_arrives [OF assms(21) _ host, where used = used and fa = fa] assms(22,23,26) unfolding c by auto
  have inv: "relay_inv ?used s1" using relay_reachable_inv [OF relay_run_reachable [OF run1 assms(2)]] by simp
  have waits: "bt_get (rs_waiting s1) ?k = Some \<lparr>wh_connection_id = ?k, wh_routes = keys\<rparr>" by (simp add: s1)
  obtain route given where client: "client_hello = RelayClientHello route given"
    using assms(17) by (auto simp: build_client_hello_def relay_challenge_def result_simps)
  have claim: "route = rrc_route_id credential \<and> claim_route re d (rrc_route_id credential) given (rs_waiting s1)
      = Ok (?k, rrc_authentication_key credential)"
    using client_hello_claims [OF assms(1) _ waits _ _ assms(17) [unfolded client] assms(16)] key inv unfolding d
    by (simp add: relay_inv_def)
  have admitted: "admit_outer re config device_os (rs_waiting s1) = (Ok (ClientAdmitted d ?k route), rs_waiting s1)"
    using admit_client [OF assms(1,15) assms(18) [unfolded client] assms(19) _ , of "rs_waiting s1"] claim assms(20) by (simp add: d)
  have "match_client re ?k ?d sr = Ok ?d" using assms(27-29) by (simp add: match_client_def)
  then have matched: "match_client re ?k (rc_connection_id d) sr = Ok (rc_connection_id d)" by (simp add: d)
  obtain s2 where run2: "relay_run re config [AcceptOuter, AdmitOuter device_os, TakeHost ?d, SendClient ?d, MatchClient ?k sr]
      (?used, s1) (insert ?d ?used, s2)"
    and s2: "(?k, ?d) \<in> set (rs_tunnels s2) \<and> ?k \<in> set (rs_running s2) \<and> bt_get (rs_waiting s2) ?k = None"
    using client_arrives [OF s1(1) _ admitted _ waits s1(4) _ _ matched, of ?used] assms(22,24,25) s1(2) by (auto simp: d)
  have "relay_run re config (meeting host_os fa device_os sr) (used, s) (insert ?d ?used, s2)"
    unfolding meeting_def by (rule relay_run_append [OF run1 run2])
  with s2 relay_run_deterministic show ?thesis by blast
qed

definition rsm_host_config :: relay_host_config where
  "rsm_host_config = \<lparr>rhc_endpoint = rsm_endpoint, rhc_host_id = [9], rhc_host_authentication_key = replicate 32 3,
     rhc_local_tunnel_address = \<lparr>net_ip = V4 [127, 0, 0, 1], net_port = 4433\<rparr>\<rparr>"

lemma rsm_uuid_bytes: "uuid_bytes rsm_env field t = Ok (replicate 16 0)"
  by (simp add: uuid_bytes_def rsm_uuid) (simp add: rsm_env_def)

lemma rsm_keyed: "length key = 32 \<Longrightarrow> keyed rsm_env key prefix t = Ok key"
  by (simp add: keyed_def rsm_env_def)

lemma rsm_encode: "re_url_encode rsm_env = map unat"
  by (simp add: rsm_env_def)

lemma rsm_routes_eq: "rsm_routes = [\<lparr>rr_route_id = replicate 32 4, rr_authentication_key = replicate 32 4\<rparr>]"
  by (simp add: rsm_routes_def route_registration_of_def rsm_credential_def rsm_encode)

lemma rsm_host_hello: "host_hello rsm_env rsm_host_config rsm_host rsm_routes = Ok (HostHello [9] rsm_routes (replicate 32 3))"
  by (simp add: host_hello_def rsm_host_config_def rsm_host_def rsm_routes_eq host_proof_def proof_prefix_def rsm_uuid_bytes
      rsm_decode rsm_keyed rsm_encode)

text \<open>Two connections, challenged at 90, that answer at 92; further bytes follow the Hello of the device.\<close>

definition rsm_outer :: "ustring \<Rightarrow> u8 list \<Rightarrow> outer_script" where
  "rsm_outer connection_id stream = \<lparr>os_read_timeout = Ok (), os_write_timeout = Ok (), os_tls = Ok (), os_nonce = replicate 32 0,
     os_connection_id = connection_id, os_issued = 90, os_challenge = rsm_answers, os_auth_timeout = Ok (), os_stream = stream,
     os_error = [], os_now = 92, os_refusal = rsm_answers,
     os_host = \<lparr>hs_refusal = rsm_answers, hs_waiting = rsm_answers, hs_rounds = [], hs_started = 0, hs_ended = 0, hs_tunnel = []\<rparr>,
     os_sent = True\<rparr>"

definition rsm_round :: relay_serve_round where
  "rsm_round = \<lparr>sr_stop = False, sr_channel = ChannelClient [2], sr_host_write = rsm_answers, sr_client_write = rsm_answers,
     sr_nonblocking = (Ok (), Ok ()), sr_ping_id = [5], sr_pong_timeout = Ok (), sr_pong_stream = [], sr_pong_error = []\<rparr>"

lemma rsm_challenged:
  "challenge_connection rsm_env (rsm_outer [1] stream) = Ok rsm_host"
  "challenge_connection rsm_env (rsm_outer [2] stream) = Ok (rsm_host\<lparr>rc_connection_id := [2]\<rparr>)"
  by (simp_all add: challenge_connection_def rsm_outer_def relay_challenge_def rsm_encode rsm_write_relay rsm_host_def del: One_nat_def)

lemma rsm_client_hello:
  "build_client_hello rsm_env (rrc_authentication_key rsm_credential) (rrc_route_id rsm_credential)
     (fst (relay_challenge rsm_env (replicate 32 0) [2] 90)) = Ok (RelayClientHello (replicate 32 4) (replicate 32 4))"
  by (simp add: build_client_hello_def relay_challenge_def rsm_encode rsm_decode client_proof_def proof_prefix_def
      rsm_uuid_bytes rsm_keyed rsm_credential_def)

theorem relay_connects_paired_device_witness:
  "derive_route rsm_env (replicate 32 4) rsm_endpoint = Ok rsm_credential
   \<and> host_hello rsm_env rsm_host_config rsm_host rsm_routes = Ok (HostHello [9] rsm_routes (replicate 32 3))
   \<and> (\<exists>used' s'. relay_run rsm_env rsm_config
          (meeting (rsm_outer [1] [0, 0, 0, 1, 2]) rsm_answers (rsm_outer [2] ([0, 0, 0, 1, 3] @ [7])) rsm_round) ({}, relay_init) (used', s')
        \<and> ([1], [2]) \<in> set (rs_tunnels s'))"
proof -
  have config: "rsc_host_id rsm_config = rhc_host_id rsm_host_config"
    "rsc_host_authentication_key rsm_config = re_url_encode rsm_env (rhc_host_authentication_key rsm_host_config)"
    "length (rhc_host_authentication_key rsm_host_config) = 32" "route_registration_of rsm_env rsm_credential \<in> set rsm_routes"
    by (simp_all add: rsm_config_def rsm_host_config_def rsm_encode rsm_routes_def)
  have empty: "length (bt_entries (rs_waiting relay_init)) < MAX_WAITING_HOSTS"
    "\<forall>route \<in> set rsm_routes. \<forall>k h. bt_get (rs_waiting relay_init) k = Some h \<longrightarrow> bt_get (wh_routes h) (rr_route_id route) = None"
    "\<not> rs_stop relay_init" "rs_active relay_init + 2 \<le> MAX_OUTER_CONNECTIONS"
    by (simp_all add: relay_init_def MAX_WAITING_HOSTS_def MAX_OUTER_CONNECTIONS_def)
  note sent = rsm_write_endpoint(2) [folded rsm_routes_eq] rsm_write_endpoint(3)
  show ?thesis
    using relay_connects_paired_device [OF rsm_laws relay_initial config(1-3) rsm_derive config(4) empty(1,2)
        rsm_challenged(1) [of "[0, 0, 0, 1, 2]"] rsm_host_hello sent(1), of "[]" "rsm_outer [2] ([0, 0, 0, 1, 3] @ [7])"
        "rsm_host\<lparr>rc_connection_id := [2]\<rparr>" "RelayClientHello (replicate 32 4) (replicate 32 4)" rsm_answers "[0, 0, 0, 1, 3]" "[7]"
        rsm_answers "[0, 0, 0, 1, 4]" rsm_round "[0, 0, 0, 1, 6]" "[0, 0, 0, 1, 5]"]
      rsm_challenged(2) rsm_client_hello sent(2) empty(3,4) rsm_write_relay rsm_derive rsm_host_hello
    by (simp add: rsm_outer_def rsm_round_def) blast
qed

text \<open>The state after the Host has registered.\<close>

definition rsm_waiting :: relay_state where
  "rsm_waiting = relay_init\<lparr>rs_active := 1, rs_waiting := bt_insert [1] \<lparr>wh_connection_id = [1], wh_routes = rsm_keys\<rparr> bt_empty,
     rs_hosts := bt_insert [1] \<lparr>hp_stage = HostRegistered, hp_inbox = None, hp_keys = rsm_keys\<rparr> bt_empty\<rparr>"

lemma rsm_reachable: "relay_reachable rsm_env rsm_config ({[1]}, rsm_waiting)"
proof -
  define s1 where "s1 = relay_init\<lparr>rs_active := 1, rs_pending := 1\<rparr>"
  have "register_host (rc_connection_id rsm_host) rsm_keys bt_empty
      = (Ok (), bt_insert [1] \<lparr>wh_connection_id = [1], wh_routes = rsm_keys\<rparr> bt_empty)"
    by (simp add: register_host_def MAX_WAITING_HOSTS_def routes_overlap_iff rsm_host_def)
  from admit_host [OF rsm_laws rsm_challenged(1) rsm_write_endpoint(2) [folded rsm_routes_eq] _ _ rsm_authenticates this,
      of "[0, 0, 0, 1, 2]" "[]"]
  have "admit_outer rsm_env rsm_config (rsm_outer [1] [0, 0, 0, 1, 2]) (rs_waiting s1)
      = (Ok (HostAdmitted rsm_host rsm_keys), bt_insert [1] \<lparr>wh_connection_id = [1], wh_routes = rsm_keys\<rparr> bt_empty)"
    by (simp add: s1_def relay_init_def rsm_outer_def rsm_host_def)
  then have "relay_step rsm_env rsm_config (AdmitOuter (rsm_outer [1] [0, 0, 0, 1, 2])) ({}, s1) ({[1]}, rsm_waiting)"
    using host_registers [of s1 rsm_env rsm_config "rsm_outer [1] [0, 0, 0, 1, 2]" rsm_host rsm_keys _ "{}"]
    by (simp add: s1_def rsm_host_def rsm_waiting_def relay_init_def set_host_def)
  moreover have "relay_step rsm_env rsm_config AcceptOuter ({}, relay_init) ({}, s1)"
    using outer_accepted [of relay_init rsm_env rsm_config "{}"]
    by (simp add: s1_def relay_init_def MAX_OUTER_CONNECTIONS_def MAX_WAITING_HOSTS_def)
  ultimately show ?thesis by (meson relay_initial relay_next)
qed

theorem relay_registry_consistent_witness:
  "relay_reachable rsm_env rsm_config ({[1]}, rsm_waiting) \<and> length (bt_entries (rs_waiting rsm_waiting)) \<le> 17
   \<and> bt_get (rs_waiting rsm_waiting) [1] \<noteq> None"
  using relay_registry_consistent [OF rsm_reachable] rsm_reachable by (simp add: rsm_waiting_def)

section \<open>Control frames\<close>

text \<open>(C33) A control message that an endpoint or the relay writes is the message its peer reads: the frame is taken off
  the stream exactly, whatever follows it stays, and the payload decodes to the message. A frame whose announced length
  is zero or over 16 KiB is refused without reading its payload, and a stream that ends inside a frame is an error.\<close>

theorem relay_frames_round_trip:
  assumes "relay_laws re"
  shows "(write_endpoint re fa m = Ok bytes \<longrightarrow>
        (\<exists>payload. read_frame e (bytes @ rest) = Ok (payload, rest) \<and> decode_endpoint re payload = Ok m)
        \<and> (\<forall>j < length bytes. \<exists>operation. read_frame e (take j bytes) = Err (RelayIo operation e)))
    \<and> (write_relay re fa n = Ok bytes \<longrightarrow> read_relay re e (bytes @ rest) = Ok (n, rest))
    \<and> (\<forall>announced < 2 ^ 32. announced = 0 \<or> announced > 16 * 1024 \<longrightarrow>
         (\<exists>reason. read_frame e (to_be_bytes 4 announced @ rest) = Err (RelayInvalidField ''control_frame'' reason)))"
  using relay_frames_round_trip_facts [OF assms] by blast

theorem relay_frames_round_trip_witness:
  "write_endpoint rsm_env rsm_answers (EndpointPong [5]) = Ok [0, 0, 0, 1, 1]
   \<and> (\<exists>payload. read_frame [] ([0, 0, 0, 1, 1] @ [8, 8]) = Ok (payload, [8, 8]) \<and> decode_endpoint rsm_env payload = Ok (EndpointPong [5]))"
proof -
  have "write_endpoint rsm_env rsm_answers (EndpointPong [5]) = Ok [0, 0, 0, 1, 1]"
    using rsm_write_endpoint(1) .
  then show ?thesis using relay_frames_round_trip [OF rsm_laws] by blast
qed

section \<open>Tunnels\<close>

lemma tunnel_keeps_streams_facts:
  assumes "pump started ended idle stalled rounds = Some (r, st)"
  shows "pm_to_right st @ pm_left_to_right st = pm_from_left st" and "pm_to_left st @ pm_right_to_left st = pm_from_right st"
    and "reads_ok idle stalled rounds (pump_start started) \<Longrightarrow>
      length (pm_left_to_right st) \<le> 65536 \<and> length (pm_right_to_left st) \<le> 65536"
    and "r = Ok stats \<Longrightarrow> ts_to_client_bytes stats = min (2 ^ 64 - 1) (length (pm_from_left st))
      \<and> ts_to_host_bytes stats = min (2 ^ 64 - 1) (length (pm_from_right st)) \<and> ts_elapsed stats = ended - started"
proof -
  obtain r' where ran: "pump_loop idle stalled rounds (pump_start started) = Some (r', st)"
    and r: "r = and_then r' (\<lambda>_. Ok \<lparr>ts_to_host_bytes = pm_to_host_bytes st, ts_to_client_bytes = pm_to_client_bytes st,
      ts_elapsed = ended - started\<rparr>)"
    using assms by (auto simp: pump_def)
  have inv: "pump_inv st" by (rule pump_loop_inv [OF pump_start_inv ran])
  then show "pm_to_right st @ pm_left_to_right st = pm_from_left st" "pm_to_left st @ pm_right_to_left st = pm_from_right st"
    by (simp_all add: pump_inv_def)
  show "length (pm_left_to_right st) \<le> 65536 \<and> length (pm_right_to_left st) \<le> 65536"
    if "reads_ok idle stalled rounds (pump_start started)"
    using pump_loop_bounded [OF _ that ran] by (simp add: buffers_bounded_def pump_start_def BUFFER_CAPACITY_def)
  show "ts_to_client_bytes stats = min (2 ^ 64 - 1) (length (pm_from_left st))
      \<and> ts_to_host_bytes stats = min (2 ^ 64 - 1) (length (pm_from_right st)) \<and> ts_elapsed stats = ended - started"
    if "r = Ok stats" using that r inv by (auto simp: pump_inv_def result_simps)
qed

text \<open>(C31) A tunnel keeps both byte streams. However the sockets split, delay or fail their reads and writes and however
  the tunnel ends, what was written to a side followed by what is still buffered for it is exactly what was read from
  the other side, in order. If reads return no more than the slice they are given, each buffer stays within 64 KiB, and
  the counters of a tunnel that ends well are the bytes read, capped at the range of their type.\<close>

theorem tunnel_keeps_streams:
  assumes "pump started ended idle stalled rounds = Some (r, st)"
  shows "pm_to_right st @ pm_left_to_right st = pm_from_left st \<and> pm_to_left st @ pm_right_to_left st = pm_from_right st
    \<and> (reads_ok idle stalled rounds (pump_start started) \<longrightarrow>
         length (pm_left_to_right st) \<le> 65536 \<and> length (pm_right_to_left st) \<le> 65536)
    \<and> (\<forall>stats. r = Ok stats \<longrightarrow> ts_to_client_bytes stats = min (2 ^ 64 - 1) (length (pm_from_left st))
         \<and> ts_to_host_bytes stats = min (2 ^ 64 - 1) (length (pm_from_right st)) \<and> ts_elapsed stats = ended - started)"
  using tunnel_keeps_streams_facts [OF assms] by blast

definition blocked_round :: pump_round where
  "blocked_round = \<lparr>pu_stop = False, pu_left_read = ReadFailed KindWouldBlock [], pu_right_read = ReadFailed KindWouldBlock [],
     pu_right_write = WriteFailed KindWouldBlock [], pu_left_write = WriteFailed KindWouldBlock [],
     pu_left_stall = 0, pu_right_stall = 0, pu_now = 0\<rparr>"

definition rsm_rounds :: "pump_round list" where
  "rsm_rounds = [blocked_round\<lparr>pu_left_read := ReadBytes [1, 2, 3], pu_right_write := WroteBytes 2\<rparr>,
     blocked_round\<lparr>pu_right_read := ReadBytes [7], pu_right_write := WroteBytes 1, pu_left_write := WroteBytes 1\<rparr>,
     blocked_round\<lparr>pu_stop := True\<rparr>]"

lemmas pump_simps = pump_turn_def read_left_def read_right_def write_right_def write_left_def tunnel_read_def tunnel_write_def
  retryable_def pump_clock_def stalled_too_long_def BUFFER_CAPACITY_def Let_def blocked_round_def saturating_add_u64_def

lemma rsm_pump:
  "\<exists>st. pump 0 9 10 10 rsm_rounds = Some (Ok \<lparr>ts_to_host_bytes = 1, ts_to_client_bytes = 3, ts_elapsed = 9\<rparr>, st)
    \<and> pm_from_left st = [1, 2, 3] \<and> pm_to_right st = [1, 2, 3] \<and> pm_to_left st = [7]"
  by (simp add: pump_def rsm_rounds_def pump_start_def pump_simps)

theorem tunnel_keeps_streams_witness:
  "\<exists>st. pump 0 9 10 10 rsm_rounds = Some (Ok \<lparr>ts_to_host_bytes = 1, ts_to_client_bytes = 3, ts_elapsed = 9\<rparr>, st)
    \<and> pm_to_right st @ pm_left_to_right st = [1, 2, 3] \<and> length (pm_left_to_right st) \<le> 65536"
proof -
  obtain st where st: "pump 0 9 10 10 rsm_rounds = Some (Ok \<lparr>ts_to_host_bytes = 1, ts_to_client_bytes = 3, ts_elapsed = 9\<rparr>, st)"
    "pm_from_left st = [1, 2, 3]" using rsm_pump by blast
  moreover have "reads_ok 10 10 rsm_rounds (pump_start 0)"
    by (simp add: rsm_rounds_def pump_start_def pump_simps read_contract_def available_def CHUNK_BYTES_def)
  ultimately show ?thesis using tunnel_keeps_streams [OF st(1)] by auto
qed

text \<open>(C36) The end of one side drops what the tunnel still holds for the other. If the Host sends a chunk while the
  Client's socket cannot take it, and then closes, the tunnel returns success and counts the chunk as delivered to the
  Client, and not one byte of it was written.\<close>

theorem tunnel_drops_buffer_at_eof:
  assumes "bytes \<noteq> []" "length bytes \<le> CHUNK_BYTES" "0 < idle" "0 < stalled"
  shows "\<exists>st. pump 0 ended idle stalled [blocked_round\<lparr>pu_left_read := ReadBytes bytes\<rparr>, blocked_round\<lparr>pu_left_read := ReadBytes []\<rparr>]
      = Some (Ok \<lparr>ts_to_host_bytes = 0, ts_to_client_bytes = length bytes, ts_elapsed = ended\<rparr>, st)
    \<and> pm_from_left st = bytes \<and> pm_to_right st = []"
  using assms by (simp add: pump_def pump_start_def pump_simps CHUNK_BYTES_def)

theorem tunnel_drops_buffer_at_eof_witness:
  "\<exists>st. pump 0 5 10 10 [blocked_round\<lparr>pu_left_read := ReadBytes [1, 2]\<rparr>, blocked_round\<lparr>pu_left_read := ReadBytes []\<rparr>]
      = Some (Ok \<lparr>ts_to_host_bytes = 0, ts_to_client_bytes = 2, ts_elapsed = 5\<rparr>, st)
    \<and> pm_from_left st = [1, 2] \<and> pm_to_right st = []"
  using tunnel_drops_buffer_at_eof [of "[1, 2]" 10 10 5] by (simp add: CHUNK_BYTES_def numeral_2_eq_2)

text \<open>A silent tunnel ends. If no byte moves from the start on and the idle time passes, the tunnel does not go on
  holding both connections: it fails with a timeout.\<close>

lemma silent_tunnel_ends:
  assumes "list_all silent rounds" "list_all (\<lambda>ro. \<not> pu_stop ro) rounds" "list_ex (\<lambda>ro. pu_now ro \<ge> started + idle) rounds"
  shows "\<exists>operation st. pump started ended idle stalled rounds = Some (Err (RelayTimeout operation), st)"
proof -
  have "list_ex (\<lambda>ro. pu_now ro - pm_last_activity (pump_start started) \<ge> idle) rounds"
    using assms(3) unfolding list_ex_iff pump_start_def by (metis add_le_imp_le_diff add.commute pump_state.select_convs(3))
  from silent_loop_ends [OF assms(1) this assms(2), of stalled] show ?thesis by (fastforce simp: pump_def)
qed

end
