(* ===== verification/Relay_Pairing.thy ===== *)
theory Relay_Pairing
  imports Pairing_Properties Relay_Properties
begin

text \<open>
  Lemmas where pairing and the relay meet: the relay endpoint as the text that a pairing bundle carries, and the
  digests of the credential store as the roots of relay routes.
\<close>

section \<open>Endpoints as text\<close>

lemma split_on_chars: "c \<in> set value \<Longrightarrow> c \<noteq> sep \<Longrightarrow> \<exists>label \<in> set (split_on sep value). c \<in> set label"
proof (induction "value")
  case (Cons a cs)
  obtain label labels where "split_on sep cs = label # labels" by (cases "split_on sep cs") simp_all
  with Cons show ?case by auto
qed simp

lemma dns_label_chars: "dns_label label \<Longrightarrow> c \<in> set label \<Longrightarrow> is_ascii_lowercase c \<or> is_ascii_digit c \<or> c = 45"
  by (auto simp: dns_label_def list_all_iff)

definition name_char :: "nat \<Rightarrow> bool" where
  "name_char c \<longleftrightarrow> is_ascii_lowercase c \<or> is_ascii_digit c \<or> c = 45 \<or> c = 46"

lemma validate_host_chars:
  assumes "validate_host host = Ok ()" and "c \<in> set host"
  shows "name_char c"
proof (cases "c = 46")
  case False
  then obtain label where label: "label \<in> set (split_on 46 host)" "c \<in> set label" using split_on_chars [OF assms(2)] by blast
  then have "dns_label label" using assms(1) by (auto simp: validate_host_def relay_invalid_def list_all_iff split: if_splits)
  then show ?thesis using dns_label_chars [OF _ label(2)] by (auto simp: name_char_def)
qed (simp add: name_char_def)

lemma name_char_facts:
  assumes "name_char c"
  shows "c \<noteq> 58" "c \<notin> set (utf ''/?#@'')" "c \<noteq> 47" "\<not> is_whitespace c" "\<not> (65 \<le> c \<and> c \<le> 90)"
  using assms by (auto simp: name_char_def is_ascii_lowercase_def is_ascii_digit_def utf_def is_whitespace_def)

lemma lower_name: "(\<forall>c \<in> set host. name_char c) \<Longrightarrow> to_ascii_lowercase host = host"
  unfolding to_ascii_lowercase_def by (rule map_idI) (metis name_char_facts(5))

lemma rsplit_once_append: "sep \<notin> set right \<Longrightarrow> rsplit_once sep (left @ sep # right) = Some (left, right)"
  unfolding rsplit_once_def by (simp add: takeWhile_append dropWhile_append)

lemma parse_decimal:
  assumes "n < 2 ^ 16"
  shows "parse_u16 (decimal n) = Some (of_nat n)"
proof -
  have "\<forall>c \<in> set (decimal n). c \<noteq> 43" using decimal_digits [of n] by (force simp: is_ascii_digit_def)
  then have "(case decimal n of c # rest \<Rightarrow> if c = 43 then rest else decimal n | [] \<Rightarrow> []) = decimal n"
    by (cases "decimal n") simp_all
  then show ?thesis using assms decimal_digits [of n] by (simp add: parse_u16_def list_all_iff)
qed

lemma trim_text_id: "value \<noteq> [] \<Longrightarrow> \<not> is_whitespace (hd value) \<Longrightarrow> \<not> is_whitespace (last value) \<Longrightarrow> trim_text value = value"
  by (metis dropWhile_eq_self_iff hd_rev rev_rev_ident trim_text_def)

lemma no_double_slash: "47 \<notin> set value \<Longrightarrow> \<not> contains_text (utf ''//'') value"
  by (induction "value") (auto simp: utf_def)

text \<open>What the authority of an endpoint looks like to both parsers.\<close>

lemma authority_text:
  assumes "validate_host host = Ok ()"
  shows "trim_text (host @ 58 # decimal n) = host @ 58 # decimal n" "\<not> contains_text (utf ''//'') (host @ 58 # decimal n)"
    "\<not> list_ex (\<lambda>c. c \<in> set (utf ''/?#@'')) (host @ 58 # decimal n)"
    "rsplit_once 58 (host @ 58 # decimal n) = Some (host, decimal n)"
proof -
  have host: "\<forall>c \<in> set host. name_char c" using validate_host_chars [OF assms] by blast
  have digits: "\<forall>c \<in> set (decimal n). name_char c" using decimal_digits by (auto simp: name_char_def)
  have ne: "host \<noteq> []" using assms by (auto simp: validate_host_def relay_invalid_def split: if_splits)
  have "last (host @ 58 # decimal n) \<in> set (decimal n)" "hd (host @ 58 # decimal n) \<in> set host" using ne by simp_all
  then show "trim_text (host @ 58 # decimal n) = host @ 58 # decimal n"
    by (intro trim_text_id) (use host digits name_char_facts(4) in auto)
  show "\<not> contains_text (utf ''//'') (host @ 58 # decimal n)"
    by (rule no_double_slash) (use host digits name_char_facts(3) in auto)
  show "\<not> list_ex (\<lambda>c. c \<in> set (utf ''/?#@'')) (host @ 58 # decimal n)"
    using host digits name_char_facts(2) by (auto simp: list_ex_iff utf_def)
  show "rsplit_once 58 (host @ 58 # decimal n) = Some (host, decimal n)"
    by (rule rsplit_once_append) (use digits name_char_facts(1) in auto)
qed

lemma relay_endpoint_new_Ok:
  assumes "relay_endpoint_new host port = Ok e"
  shows "validate_host (rep_host e) = Ok ()" "rep_port e \<noteq> 0" "to_ascii_lowercase (rep_host e) = rep_host e"
proof -
  show valid: "validate_host (rep_host e) = Ok ()" and "rep_port e \<noteq> 0"
    using assms by (auto simp: relay_endpoint_new_def Let_def relay_invalid_def result_simps split: if_splits)
  show "to_ascii_lowercase (rep_host e) = rep_host e" by (rule lower_name) (use validate_host_chars [OF valid] in blast)
qed

section \<open>Digests as roots\<close>

lemma collect_digests:
  assumes "\<forall>d \<in> set ds. decode_hex_32 (dev_token_sha256 d) \<noteq> None"
  shows "\<exists>digests. collect_results (\<lambda>d.
       and_then (ok_or (InvalidStore (utf ''invalid device credential hash'')) (decode_hex_32 (dev_token_sha256 d)))
         (\<lambda>digest. Ok (dev_client_id d, digest))) ds = Ok digests \<and> map_of digests = device_grants ds"
  using assms
proof (induction ds)
  case Nil
  then show ?case by (auto simp: device_grants_def)
next
  case (Cons d ds)
  then obtain digest digests where "decode_hex_32 (dev_token_sha256 d) = Some digest" "collect_results (\<lambda>d.
       and_then (ok_or (InvalidStore (utf ''invalid device credential hash'')) (decode_hex_32 (dev_token_sha256 d)))
         (\<lambda>digest. Ok (dev_client_id d, digest))) ds = Ok digests" "map_of digests = device_grants ds" by auto
  then show ?case by (auto simp: device_grants_def fun_eq_iff)
qed

lemma validate_record_digests:
  assumes "validate_record pe record = Ok ()"
  shows "\<forall>d \<in> set (sto_devices record). decode_hex_32 (dev_token_sha256 d) \<noteq> None"
proof -
  have each: "for_each f xs = Ok () \<Longrightarrow> \<forall>x \<in> set xs. f x = Ok ()" for f :: "device_record \<Rightarrow> (unit, pairing_error) result" and xs
    by (induction xs) (auto simp: result_simps)
  have "for_each (validate_device pe) (sto_devices record) = Ok ()"
    using assms by (auto simp: validate_record_def result_simps split: if_splits)
  with each show ?thesis by (fastforce simp: validate_device_def result_simps split: if_splits)
qed

text \<open>The digests are the grants of the store.\<close>

lemma digests_are_grants:
  assumes "store_io_ok sa" "stored_record pe file = Some record"
  shows "\<exists>digests. device_credential_digests pe st sa file = Ok digests \<and> map_of digests = store_grants pe file"
proof -
  have "validate_record pe record = Ok ()" using assms(2) by (auto simp: stored_record_def split: option.splits sum.splits if_splits)
  from collect_digests [OF validate_record_digests [OF this]] show ?thesis
    using load_record_stored [OF assms] assms(2) by (auto simp: device_credential_digests_def store_grants_def)
qed

end
