(* ===== verification/Spec2Isabelle.thy ===== *)
theory Spec2Isabelle
  imports Interaction_Closure Wire_Properties Runtime_Properties Native_Properties Relay_Pairing
begin

text \<open>
  A verification library for AgentPulse, the Rust workspace under \<open>src/\<close> that connects coding
  agents (Providers) with the places where people watch and answer them (Channels).

  \<^bold>\<open>The program.\<close> A Provider adapter publishes normalized events of agent sessions. The Bridge
  (\<open>agentpulse-bridge/src/bridge.rs\<close>) checks each event against the capabilities the Provider
  declared, reduces it into the aggregate of its session (\<open>agentpulse-core/src/aggregate.rs\<close>),
  and hands it to every Channel that subscribed to the session, with a route that says whether the
  Channel may answer it (\<open>routing.rs\<close>). In the other direction Channels hand in interaction
  responses and commands, which the Bridge validates and hands to the Provider of the session. The
  Runtime Host (\<open>agentpulse-bridge/src/runtime.rs\<close>) owns one Bridge, starts and stops the
  adapters, and gives each of them a revocable handle. The Native Channel
  (\<open>agentpulse-channels/native\<close>) is the Channel for remote apps: a worker thread serves one
  WebSocket client, speaking frames that carry the versioned JSON wire protocol
  (\<open>agentpulse-protocol\<close>). Its sockets come from \<open>agentpulse-transport\<close>, which lets a client in
  only with a bearer token that the credential store of the Host grants. Pairing
  (\<open>agentpulse-pairing\<close>) issues such a token to a device whose user was approved at the Host. Where the
  device cannot reach the Host directly, the relay (\<open>agentpulse-relay\<close>) joins the outgoing
  connections of both, found by a route derived from the token, into an opaque tunnel.

  \<^bold>\<open>The theories, component by component.\<close>
  \<^item> \<open>Prelude\<close>, \<open>Ordered_Map\<close>, \<open>Machines\<close>: results and \<open>?\<close>, lists, the
    model of \<open>BTreeMap\<close> and \<open>BTreeSet\<close> as sorted association lists, and two abstract
    machines.
  \<^item> \<open>Values\<close> (\<open>id.rs\<close>, \<open>value.rs\<close>, \<open>error.rs\<close>), \<open>Capability\<close>
    (\<open>capability.rs\<close>, \<open>endpoint.rs\<close>; flags are bits of a 16-bit word), \<open>Snapshots\<close>
    (\<open>plan.rs\<close>, \<open>progress.rs\<close>), \<open>Interaction\<close> (\<open>interaction.rs\<close>),
    \<open>Session_Event\<close> (\<open>session.rs\<close>, \<open>command.rs\<close>, \<open>event.rs\<close>),
    \<open>Routing\<close> (\<open>routing.rs\<close>), \<open>Aggregate\<close> (\<open>aggregate.rs\<close>): the core. Each
    validating constructor is a function to a result, with a predicate \<open>wf_...\<close> for the values
    it lets through; \<open>apply_event\<close> is the reducer.
  \<^item> \<open>History\<close>: the relation between an aggregate and the log of the events it accepted.
  \<^item> \<open>Ports\<close> (\<open>port.rs\<close>, \<open>registry.rs\<close>), \<open>Bridge\<close>, \<open>Bridge_Invariant\<close>,
    \<open>Catch_Up\<close> (\<open>bridge.rs\<close>): adapters are records of functions on an arbitrary adapter state,
    so every theorem holds for every adapter; the Bridge is a record threaded through one function per
    method.
  \<^item> \<open>Runtime\<close>, \<open>Runtime_Invariant\<close>, \<open>Runtime_Lifecycle\<close> (\<open>runtime.rs\<close>): the host
    with its locks, permits and handles. Sources are callbacks, trees of handle calls, so that the code of
    an adapter may call back into the host while it is started or stopped.
  \<^item> \<open>Wire_Scalar\<close>, \<open>Wire_Types\<close>, \<open>Wire_Convert\<close>, \<open>Wire_Records\<close> (\<open>dto.rs\<close>,
    \<open>scalar.rs\<close>, \<open>convert.rs\<close>, \<open>codec.rs\<close>): the data transfer objects, one encoder and one
    decoder per type; \<open>Wire_Roundtrip\<close>, \<open>Wire_Capabilities\<close>, \<open>Wire_Codecs\<close>,
    \<open>Wire_Interaction\<close>, \<open>Wire_Message\<close>, \<open>Wire_Json\<close>: that they are codecs.
  \<^item> \<open>Native_Types\<close>, \<open>Native_Codec\<close>, \<open>Native_Roundtrip\<close> (\<open>protocol.rs\<close>): the frames of
    the Native Channel; \<open>Native_Delivery\<close> (\<open>state.rs\<close>, \<open>status.rs\<close>, \<open>port.rs\<close>):
    its bounded queues and its Port; \<open>Native_Session\<close>, \<open>Native_Worker\<close>
    (\<open>runtime.rs\<close>, \<open>config.rs\<close>, \<open>lib.rs\<close>): request handlers, the passes of the worker loop,
    start and stop; \<open>Native_Invariant\<close>, \<open>Native_Subscription\<close>: their lemmas.
  \<^item> \<open>Net_Text\<close>: what the crates below use of the standard library's strings, numbers and addresses.
    \<open>Transport\<close> (\<open>lan_tls_websocket.rs\<close>, \<open>loopback_websocket.rs\<close>): configurations, listeners, the
    upgrade with its authorization, and the connection's operations.
  \<^item> \<open>Pairing_Store\<close> (\<open>store.rs\<close>, \<open>error.rs\<close>, and \<open>atomic_write_private\<close> of
    \<open>agentpulse-platform\<close>): the credential store as a function on the content of its file;
    \<open>Pairing_Grants\<close>: what it grants; \<open>Pairing_Protocol\<close> (\<open>protocol.rs\<close>): messages, bundles and the
    pairing URI; \<open>Pairing_Server\<close> (\<open>server.rs\<close>): binding a session and the loop that serves it;
    \<open>Pairing_Service\<close>: its lemmas.
  \<^item> \<open>Relay_Protocol\<close> (\<open>endpoint.rs\<close>, \<open>framing.rs\<close>, \<open>crypto.rs\<close>, \<open>protocol.rs\<close>,
    \<open>error.rs\<close>): endpoints, frames, route derivation, proofs and control messages; \<open>Relay_Server\<close>
    (\<open>server.rs\<close>): what a handler does between two points where another can act; \<open>Relay_Tunnel\<close>
    (\<open>tunnel.rs\<close>): the pump; \<open>Relay_Client\<close>, \<open>Relay_Handlers\<close> (\<open>client.rs\<close>, \<open>config.rs\<close>,
    \<open>server.rs\<close>): settings, canceller, the waits of both sides, and whole connections; \<open>Relay_Registry\<close>
    (\<open>server.rs\<close>): the accept loop and all handlers as a transition system, and its invariant. Its actions
    carry what the environment answers, so its guards are those of the code: the cap of connections, the stop
    flag, the expiry of the challenge, the proofs, and the results of reads and writes; the steps in which these
    fail are there too. A poisoned registry mutex and a listener that fails have no step.
    \<open>Relay_Pairing\<close>: where pairing and the relay meet.
  \<^item> \<open>Interaction_Closure\<close>: pending requests through the Bridge, and who can close them.
  \<^item> \<open>Samples\<close>, \<open>Native_Samples\<close>, \<open>Pairing_Samples\<close> and the \<open>..._Properties\<close> theories: concrete instances and
    the properties, each stated with the definitions of the model and, where it has hypotheses, followed
    by an instance.

  \<^bold>\<open>What the lemmas show.\<close> Core: an event is applied atomically or not at all, the window of
  recent events is exactly the newest ones, a page is exactly what follows its cursor, pending
  interactions refine a fold over the log. Bridge: every reachable Bridge is consistent, a refused
  event changes nothing, an accepted one reaches exactly the subscribers, each independently of the
  others, responses and commands reach only the Provider of their session, catching up becomes
  live, and a Provider without the approval capability cannot close its own questions. Host: every
  reachable host is consistent, a revoked handle stays inert, start and stop attempt every adapter, repeated
  stops end, and a callback through the handle in use never returns. Wire and frames: encoding then decoding
  is the identity, and only valid values are decoded. Native Channel: the worker stays consistent and bounded under any
  interleaving with the Bridge, always ends, gives back its subscriptions, and delivers a
  subscription as one ordered batch. Pairing: the store refines a finite map from devices to token
  digests, the authorizer and every live connection follow that map, a device is granted a token only
  after approval and within the session, a failed readiness withdraws it unless the store cannot be written,
  and a session ends. Relay: the registry and the number of connections are bounded, a host is given to one
  client only, only proofs of the right key are admitted, a paired device that answers in time reaches its
  Host while the relay has room, frames round trip, and a tunnel keeps both byte streams within bounded
  buffers and ends when it is silent.

  \<^bold>\<open>Interfaces.\<close> \<open>ordered_map\<close> (interpreted by the tree maps) is what all components
  know of maps; \<open>capability_set\<close> and its extension \<open>capability_list\<close> (both capability types);
  \<open>atomic_machine\<close> (the reducer, and the Bridge's use of it): a step that fails leaves no
  trace; \<open>paged_log\<close> (the aggregate's history): pages read in sequence give the log;
  \<open>codec\<close> (every encoder and decoder pair, up to JSON and Native frames): what is encoded decodes
  to itself, what is decoded is valid (pairing and relay messages interpret it too); \<open>port_steps\<close> (the
  Native Port): the Bridge changes an adapter only through its methods; \<open>bearer_authorizer\<close> (the
  credential store's authorizer): a token is accepted only if it is granted.

  \<^bold>\<open>Conventions.\<close> A \<open>u64\<close> is a 64-bit word; a \<open>usize\<close> a natural number where the
  code only compares it, saturating where the code saturates. A string is the list of its code
  points (\<open>ustring\<close>), a frame the list of its bytes. An operation that may wait for a lock for ever
  returns \<open>None\<close> in that case, so a theorem that it returns says \<open>Some\<close>; what runs under a lock is a function
  of the state with the lock held. A pass of the Native worker is one step with respect to other threads, except
  for the two halves of a subscription; its delivery mutex is not a lock of the model. Loops are structural
  or have a measure; the only fuel is the number of rounds of \<open>catch_up\<close> and of repeated stops,
  with theorems that state how many are enough, and the lists of passes of the Native worker, of the
  pairing session, of the waits and of the tunnel, which hold what the sockets and the clock answer;
  a loop that has not returned by the end of its list is \<open>None\<close>, and the theorems that it returns say
  \<open>Some\<close>. What a tunnel read and wrote, and the messages a session sent, are kept in fields of the
  state that the code does not have; a message counts as sent when its send returned without an error. Errors are values with all their data; their
  \<open>Display\<close> text is not modelled.

  \<^bold>\<open>Foreign code\<close> is an argument: UUID text, RFC 3339 times, JSON (\<open>wire_env\<close>, \<open>json_env\<close>,
  \<open>native_env\<close>) with the laws \<open>wire_laws\<close>, \<open>json_laws\<close>, \<open>native_laws\<close>, their
  documented round trips (\<open>json_laws\<close> also covers the hand-written decimal counters, which \<open>Wire_Scalar\<close> models
  and shows exact); hashes, HMAC, base64, UUIDs and the JSON text of pairing and the relay
  (\<open>pairing_env\<close>, \<open>pairing_json\<close>, \<open>relay_env\<close>) with \<open>pairing_laws\<close>, \<open>pairing_json_laws\<close>,
  \<open>relay_laws\<close>; certificates (\<open>certificate_answers\<close>); what sockets, file system, clock and threads answer
  (\<open>transport_round\<close>, \<open>worker_thread\<close>, \<open>accept_answers\<close>, \<open>store_answers\<close>, \<open>pairing_round\<close>,
  \<open>pump_round\<close> and the other scripts). No theorem assumes that a hash or an HMAC cannot be forged.

  \<^bold>\<open>Not modelled.\<close> The Codex Provider, an adapter over the JSON-RPC process of another program; the host
  and relay binaries with their command lines; the QR rendering of pairing; the operating-system layer
  except for the private file write; the loading of TLS certificates and the relay's configuration file.
  They are I/O, process handling and generated code around the components above. The builder methods of
  configurations, which set one field, and \<open>Debug\<close> and \<open>Display\<close> implementations are left out.
\<close>

section \<open>Pairing and the relay\<close>

lemma relay_endpoint_text_round_trip_facts:
  assumes "relay_endpoint_new host port = Ok e"
  shows "endpoint_from_str (authority e) = Ok e" and "validate_relay_endpoint (authority e) = Ok ()"
proof -
  note e = relay_endpoint_new_Ok [OF assms]
  have port: "parse_u16 (decimal (unat (rep_port e))) = Some (rep_port e)"
    using parse_decimal [of "unat (rep_port e)"] unsigned_less [of "rep_port e", where 'a = nat] by simp
  note parts = authority_text [OF e(1), of "unat (rep_port e)", folded authority_def]
  have "relay_endpoint_new (rep_host e) (rep_port e) = Ok e" using e by (simp add: relay_endpoint_new_def)
  then show "endpoint_from_str (authority e) = Ok e" using parts port by (simp add: endpoint_from_str_def Let_def)
  have host: "str_len (rep_host e) \<le> 253" "46 \<in> set (rep_host e)" "is_ascii (rep_host e)" "parse_ip_addr (rep_host e) = None"
    "list_all relay_label (split_on 46 (rep_host e))"
    using e(1) by (auto simp: validate_host_def relay_invalid_def relay_label_def dns_label_def list_all_iff split: if_splits)
  have "58 \<notin> set (rep_host e)" using validate_host_chars [OF e(1)] name_char_facts(1) by blast
  with host show "validate_relay_endpoint (authority e) = Ok ()"
    using parts port e by (auto simp: validate_relay_endpoint_def list_ex_iff list_all_iff)
qed

text \<open>(C35) The text of a relay endpoint is its identity. An endpoint that the relay's constructor accepts is read
  back from its authority by the relay's parser, unchanged, and a pairing bundle that carries this text passes the
  check of pairing, which has its own parser.\<close>

theorem relay_endpoint_text_round_trip:
  assumes "relay_endpoint_new host port = Ok e"
  shows "endpoint_from_str (authority e) = Ok e \<and> validate_relay_endpoint (authority e) = Ok ()"
  using relay_endpoint_text_round_trip_facts [OF assms] by blast

theorem relay_endpoint_text_round_trip_witness:
  "relay_endpoint_new (utf ''Relay.example.com'') 2333 = Ok rsm_endpoint \<and> endpoint_from_str (authority rsm_endpoint) = Ok rsm_endpoint
   \<and> validate_relay_endpoint (authority rsm_endpoint) = Ok ()"
proof -
  have "parse_ip_addr (utf ''relay.example.com'') = None"
    unfolding utf_def by (simp add: parse_ip_addr_letter digit_of_def is_ascii_digit_def)
  then have "relay_endpoint_new (utf ''Relay.example.com'') 2333 = Ok rsm_endpoint"
    by (simp add: relay_endpoint_new_def to_ascii_lowercase_def validate_host_def dns_label_def rsm_endpoint_def utf_def
        str_len_ascii ends_with_def starts_with_def is_ascii_def is_ascii_lowercase_def is_ascii_digit_def)
  then show ?thesis using relay_endpoint_text_round_trip by blast
qed

lemma paired_device_shares_route_facts:
  assumes laws: "pairing_laws pe" and hash: "re_sha256 re = pe_sha256 pe"
    and issued: "issue_device pe st sa now secret client_id display_name version file = (Ok token, file')"
    and answers: "store_io_ok sr"
  shows "\<exists>digests root. device_credential_digests pe st sr file' = Ok digests \<and> map_of digests client_id = Some root
      \<and> derive_route re root endpoint = derive_route re (device_root_from_token re token) endpoint"
    and "revoke_device pe st sa' client_id file' = (Ok (), file'') \<Longrightarrow>
      \<exists>digests. device_credential_digests pe st sr file'' = Ok digests \<and> client_id \<notin> fst ` set digests"
proof -
  have grants: "store_grants pe file' client_id = Some (device_root_from_token re token)"
    using issue_device_grants [OF laws issued] hash by (auto simp: grants_step_def device_root_from_token_def)
  then obtain stored where "stored_record pe file' = Some stored" by (auto simp: store_grants_def split: option.splits)
  from digests_are_grants [OF answers this, of st] grants
  show "\<exists>digests root. device_credential_digests pe st sr file' = Ok digests \<and> map_of digests client_id = Some root
      \<and> derive_route re root endpoint = derive_route re (device_root_from_token re token) endpoint" by auto
  assume revoked: "revoke_device pe st sa' client_id file' = (Ok (), file'')"
  then have "store_grants pe file'' client_id = None"
    using revoke_device_grants [OF laws revoked] by (auto simp: grants_step_def)
  moreover obtain record' where "stored_record pe file'' = Some record'"
    using revoked update_store_cases [OF laws, of st sa' "drop_device client_id" file']
    by (auto simp: revoke_device_def result_simps split: prod.splits)
  ultimately show "\<exists>digests. device_credential_digests pe st sr file'' = Ok digests \<and> client_id \<notin> fst ` set digests"
    using digests_are_grants [OF answers, of pe file'' record' st] by (metis map_of_eq_None_iff)
qed

text \<open>(C32) A paired device and its Host agree on the relay route without exchanging it. After a token was issued, the
  digests the Host loads from its store hold, for that client, the root the device computes from its token, so both
  derive the same route and key for an endpoint; after the client was revoked, the Host loads no digest for it.\<close>

theorem paired_device_shares_route:
  assumes "pairing_laws pe" and "re_sha256 re = pe_sha256 pe"
    and "issue_device pe st sa now secret client_id display_name version file = (Ok token, file')"
    and "store_io_ok sr"
  shows "(\<exists>digests root. device_credential_digests pe st sr file' = Ok digests \<and> map_of digests client_id = Some root
      \<and> derive_route re root endpoint = derive_route re (device_root_from_token re token) endpoint)
    \<and> (\<forall>sa' file''. revoke_device pe st sa' client_id file' = (Ok (), file'') \<longrightarrow>
      (\<exists>digests. device_credential_digests pe st sr file'' = Ok digests \<and> client_id \<notin> fst ` set digests))"
  using paired_device_shares_route_facts [OF assms] by blast

theorem paired_device_shares_route_witness:
  "issue_device smp_env smp_store smp_answers 100 (replicate 32 97) (utf ''phone'') (utf ''Pixel'') None (Some [0]) = (Ok smp_token, Some [1])
   \<and> (\<exists>digests root. device_credential_digests smp_env smp_store smp_answers (Some [1]) = Ok digests
        \<and> map_of digests (utf ''phone'') = Some root
        \<and> derive_route (rsm_env\<lparr>re_sha256 := smp_sha256\<rparr>) root rsm_endpoint
          = derive_route (rsm_env\<lparr>re_sha256 := smp_sha256\<rparr>) (device_root_from_token (rsm_env\<lparr>re_sha256 := smp_sha256\<rparr>) smp_token) rsm_endpoint)"
  using paired_device_shares_route [OF smp_pairing_laws _ smp_issue smp_io_ok(1), of "rsm_env\<lparr>re_sha256 := smp_sha256\<rparr>" rsm_endpoint] smp_issue
  by simp

end
